(* ===== verification/Prelude.thy ===== *)
theory Prelude
  imports Main "HOL-Library.AList" "HOL-Library.Product_Lexorder"
begin

text \<open>
  The shared base of the development: the Python values and string operations the controller
  uses, dictionaries as association lists in insertion order, the result type of a request
  handler, and the two interfaces (\<open>step_system\<close> and \<open>keyed_store\<close>) that the components
  instantiate.

  A Python \<open>str\<close> is a list of characters restricted to Latin-1 code points (one \<open>char\<close> per
  code point, so that \<open>len\<close> and slicing count what Python counts). The only character outside
  Latin-1 the modelled code produces is the ellipsis U+2026; it is represented by the otherwise
  unused control character \<open>CHR 0x8D\<close>.
\<close>

named_theorems guards \<open>facts that open the guards of a handler\<close>

section \<open>Strings\<close>

definition ellipsis :: char where
  "ellipsis = CHR 0x8D"

definition newline :: char where
  "newline = CHR 0x0A"

text \<open>\<open>str.isspace\<close> on Latin-1 code points.\<close>

definition is_ws :: "char \<Rightarrow> bool" where
  "is_ws c = (let n = (of_char c :: nat) in
     (9 \<le> n \<and> n \<le> 13) \<or> (28 \<le> n \<and> n \<le> 32) \<or> n = 133 \<or> n = 160)"

text \<open>\<open>str.lower\<close> on Latin-1 code points.\<close>

definition lower_char :: "char \<Rightarrow> char" where
  "lower_char c = (let n = (of_char c :: nat) in
     if (65 \<le> n \<and> n \<le> 90) \<or> (192 \<le> n \<and> n \<le> 222 \<and> n \<noteq> 215) then char_of (n + 32) else c)"

definition lower :: "string \<Rightarrow> string" where
  "lower s = map lower_char s"

definition lstrip :: "string \<Rightarrow> string" where
  "lstrip s = dropWhile is_ws s"

definition rstrip :: "string \<Rightarrow> string" where
  "rstrip s = rev (dropWhile is_ws (rev s))"

definition strip :: "string \<Rightarrow> string" where
  "strip s = rstrip (lstrip s)"

definition startswith :: "string \<Rightarrow> string \<Rightarrow> bool" where
  "startswith p s = (take (length p) s = p)"

text \<open>\<open>sub in s\<close>.\<close>

fun contains :: "string \<Rightarrow> string \<Rightarrow> bool" where
  "contains sub [] = (sub = [])"
| "contains sub (c # s) = (startswith sub (c # s) \<or> contains sub s)"

fun join :: "string \<Rightarrow> string list \<Rightarrow> string" where
  "join sep [] = []"
| "join sep [w] = w"
| "join sep (w # ws) = w @ sep @ join sep ws"

text \<open>\<open>str.split()\<close> with no argument: the maximal runs of non-space characters.\<close>

function split_ws :: "string \<Rightarrow> string list" where
  "split_ws s = (case dropWhile is_ws s of [] \<Rightarrow> []
     | c # cs \<Rightarrow> (c # takeWhile (\<lambda>x. \<not> is_ws x) cs) # split_ws (dropWhile (\<lambda>x. \<not> is_ws x) cs))"
  by pat_completeness auto
termination
proof (relation "measure length")
  fix s c cs
  assume "dropWhile is_ws s = c # cs"
  then have "length cs < length s"
    by (metis length_dropWhile_le length_Cons Suc_le_eq)
  then show "(dropWhile (\<lambda>x. \<not> is_ws x) cs, s) \<in> measure length"
    using length_dropWhile_le [of "\<lambda>x. \<not> is_ws x" cs] by simp
qed simp

declare split_ws.simps [simp del]

text \<open>\<open>str.split(sep)\<close> for a one-character separator.\<close>

fun split_on :: "char \<Rightarrow> string \<Rightarrow> string list" where
  "split_on sep [] = [[]]"
| "split_on sep (c # s) = (if c = sep then [] # split_on sep s
     else (case split_on sep s of [] \<Rightarrow> [[c]] | w # ws \<Rightarrow> (c # w) # ws))"

text \<open>\<open>s.replace(old, new)\<close> for one character.\<close>

definition replace_char :: "char \<Rightarrow> string \<Rightarrow> string \<Rightarrow> string" where
  "replace_char c new s = concat (map (\<lambda>x. if x = c then new else [x]) s)"

subsection \<open>Decimal numbers\<close>

definition digit_char :: "nat \<Rightarrow> char" where
  "digit_char d = char_of (48 + d mod 10)"

fun show_nat :: "nat \<Rightarrow> string" where
  "show_nat n = (if n < 10 then [digit_char n] else show_nat (n div 10) @ [digit_char (n mod 10)])"

declare show_nat.simps [simp del]

definition show_int :: "int \<Rightarrow> string" where
  "show_int i = (if i < 0 then CHR ''-'' # show_nat (nat (- i)) else show_nat (nat i))"

definition is_digit :: "char \<Rightarrow> bool" where
  "is_digit c = (let n = (of_char c :: nat) in 48 \<le> n \<and> n \<le> 57)"

definition digit_val :: "char \<Rightarrow> nat" where
  "digit_val c = of_char c - 48"

text \<open>
  A run of digits in a numeric literal: single underscores are allowed between digits, as
  \<open>int()\<close> and \<open>float()\<close> accept them. The flag says whether an underscore may come next.
\<close>

fun digits_val :: "nat \<Rightarrow> bool \<Rightarrow> string \<Rightarrow> nat option" where
  "digits_val acc ok [] = (if ok then Some acc else None)"
| "digits_val acc ok (c # s) =
     (if is_digit c then digits_val (10 * acc + digit_val c) True s
      else if c = CHR ''_'' \<and> ok then digits_val acc False s
      else None)"

text \<open>\<open>int(s)\<close> of a string; \<open>None\<close> is the \<open>ValueError\<close>.\<close>

definition int_of_str :: "string \<Rightarrow> int option" where
  "int_of_str s = (case strip s of
      [] \<Rightarrow> None
    | c # cs \<Rightarrow>
        if c = CHR ''-'' then map_option (\<lambda>n. - int n) (digits_val 0 False cs)
        else if c = CHR ''+'' then map_option int (digits_val 0 False cs)
        else map_option int (digits_val 0 False (c # cs)))"

section \<open>Dictionaries\<close>

text \<open>
  A \<open>dict\<close> is an association list in insertion order: \<open>map_of d k\<close> is \<open>d.get(k)\<close>,
  \<open>AList.update k v d\<close> is \<open>d[k] = v\<close> (the value is replaced in place when the key is there,
  appended otherwise) and \<open>AList.delete k d\<close> is \<open>d.pop(k, None)\<close>.
\<close>

type_synonym 'v dict = "(string \<times> 'v) list"

text \<open>\<open>for k in ks: del d[k]\<close>, for keys that are present or not.\<close>

definition del_keys :: "'k list \<Rightarrow> ('k \<times> 'v) list \<Rightarrow> ('k \<times> 'v) list" where
  "del_keys ks d = foldl (\<lambda>m k. AList.delete k m) d ks"

text \<open>\<open>d.setdefault(k, v)\<close>, the dictionary only.\<close>

definition set_default :: "'k \<Rightarrow> 'v \<Rightarrow> ('k \<times> 'v) list \<Rightarrow> ('k \<times> 'v) list" where
  "set_default k v d = (case map_of d k of None \<Rightarrow> AList.update k v d | Some _ \<Rightarrow> d)"

lemma map_of_update [simp]: "map_of (AList.update k v d) = (map_of d)(k \<mapsto> v)"
  by (simp add: update_conv')

lemma map_of_delete [simp]: "map_of (AList.delete k d) = (map_of d)(k := None)"
  by (simp add: delete_conv')

lemma keys_update: "set (map fst (AList.update k v d)) = insert k (set (map fst d))"
  by (induction d) auto

lemma keys_delete: "set (map fst (AList.delete k d)) = set (map fst d) - {k}"
  by (induction d) auto

lemma distinct_keys_update: "distinct (map fst d) \<Longrightarrow> distinct (map fst (AList.update k v d))"
  by (rule distinct_update)

lemma distinct_keys_delete: "distinct (map fst d) \<Longrightarrow> distinct (map fst (AList.delete k d))"
  by (rule distinct_delete)

lemma in_set_update: "(k', v') \<in> set (AList.update k v d) \<Longrightarrow> (k', v') = (k, v) \<or> (k', v') \<in> set d"
  by (induction d) (auto split: if_splits)

lemma in_set_delete: "(k', v') \<in> set (AList.delete k d) \<longleftrightarrow> (k', v') \<in> set d \<and> k' \<noteq> k"
  by (induction d) auto

lemma del_keys_Nil [simp]: "del_keys [] d = d"
  by (simp add: del_keys_def)

lemma del_keys_Cons [simp]: "del_keys (k # ks) d = del_keys ks (AList.delete k d)"
  by (simp add: del_keys_def)

lemma del_keys_filter: "del_keys ks d = filter (\<lambda>(k, v). k \<notin> set ks) d"
  by (induction ks arbitrary: d) (auto simp: AList.delete_eq intro: filter_cong)

lemma distinct_del_keys: "distinct (map fst d) \<Longrightarrow> distinct (map fst (del_keys ks d))"
  by (induction ks arbitrary: d) (auto simp: distinct_keys_delete)

lemma map_of_filter_key:
  "map_of (filter (\<lambda>(k, v). P k) d) k = (if P k then map_of d k else None)"
  by (induction d) auto

section \<open>Lists of records with an identifier\<close>

text \<open>
  \<open>next((x for x in xs if x.id == i), None)\<close>, an in-place edit of that record, and
  \<open>[x for x in xs if x.id != i]\<close>.
\<close>

definition find_by :: "('r \<Rightarrow> 'i) \<Rightarrow> 'i \<Rightarrow> 'r list \<Rightarrow> 'r option" where
  "find_by rid i xs = find (\<lambda>x. rid x = i) xs"

fun edit_by :: "('r \<Rightarrow> 'i) \<Rightarrow> 'i \<Rightarrow> ('r \<Rightarrow> 'r) \<Rightarrow> 'r list \<Rightarrow> 'r list" where
  "edit_by rid i f [] = []"
| "edit_by rid i f (x # xs) = (if rid x = i then f x # xs else x # edit_by rid i f xs)"

definition remove_by :: "('r \<Rightarrow> 'i) \<Rightarrow> 'i \<Rightarrow> 'r list \<Rightarrow> 'r list" where
  "remove_by rid i xs = filter (\<lambda>x. rid x \<noteq> i) xs"

lemma find_by_Some: "find_by rid i xs = Some x \<Longrightarrow> x \<in> set xs \<and> rid x = i"
  by (auto simp: find_by_def find_Some_iff)

lemma find_by_None: "find_by rid i xs = None \<longleftrightarrow> i \<notin> rid ` set xs"
  by (auto simp: find_by_def find_None_iff)

lemma find_by_edit:
  assumes "\<And>x. rid (f x) = rid x"
  shows "find_by rid j (edit_by rid i f xs) =
    (if j = i then map_option f (find_by rid i xs) else find_by rid j xs)"
  using assms by (induction xs) (auto simp: find_by_def)

lemma find_by_remove: "find_by rid j (remove_by rid i xs) = (if j = i then None else find_by rid j xs)"
  by (induction xs) (auto simp: find_by_def remove_by_def)

lemma edit_by_ids: "(\<And>x. rid (f x) = rid x) \<Longrightarrow> map rid (edit_by rid i f xs) = map rid xs"
  by (induction xs) auto

lemma edit_by_length [simp]: "length (edit_by rid i f xs) = length xs"
  by (induction xs) auto

lemma edit_by_set: "y \<in> set (edit_by rid i f xs) \<Longrightarrow> y \<in> set xs \<or> (\<exists>x\<in>set xs. rid x = i \<and> y = f x)"
  by (induction xs) (auto split: if_splits)

lemma remove_by_distinct: "distinct (map rid xs) \<Longrightarrow> distinct (map rid (remove_by rid i xs))"
  by (simp add: remove_by_def distinct_map_filter)

lemma remove_by_length: "length (remove_by rid i xs) = length xs \<longleftrightarrow> i \<notin> rid ` set xs"
proof
  assume eq: "length (remove_by rid i xs) = length xs"
  show "i \<notin> rid ` set xs"
  proof
    assume "i \<in> rid ` set xs"
    then obtain x where "x \<in> set xs" "\<not> rid x \<noteq> i" by auto
    then show False
      using length_filter_less [of x xs "\<lambda>x. rid x \<noteq> i"] eq by (simp add: remove_by_def)
  qed
next
  assume "i \<notin> rid ` set xs"
  then show "length (remove_by rid i xs) = length xs"
    by (metis (mono_tags, lifting) filter_True image_eqI remove_by_def)
qed

section \<open>Interfaces\<close>

text \<open>
  A component that changes its state one operation at a time and promises an invariant: the
  clients get the invariant, and any preorder every operation respects, for whole runs.
\<close>

locale step_system =
  fixes step :: "'s \<Rightarrow> 'op \<Rightarrow> 's"
    and inv :: "'s \<Rightarrow> bool"
  assumes step_inv: "inv s \<Longrightarrow> inv (step s x)"
begin

lemma run_inv: "inv s \<Longrightarrow> inv (foldl step s xs)"
  by (induction xs arbitrary: s) (auto intro: step_inv)

lemma run_prefix_inv: "inv s \<Longrightarrow> inv (foldl step s (take n xs))"
  by (rule run_inv)

end

locale monotone_system = step_system +
  fixes le :: "'s \<Rightarrow> 's \<Rightarrow> bool"
  assumes le_refl: "le s s"
    and le_trans: "le s t \<Longrightarrow> le t u \<Longrightarrow> le s u"
    and step_le: "inv s \<Longrightarrow> le s (step s x)"
begin

lemma run_le: "inv s \<Longrightarrow> le s (foldl step s xs)"
proof (induction xs arbitrary: s)
  case Nil
  show ?case by (simp add: le_refl)
next
  case (Cons x xs)
  have "le (step s x) (foldl step (step s x) xs)"
    using Cons by (intro Cons.IH step_inv)
  then show ?case using step_le [OF Cons.prems, of x] by (auto intro: le_trans)
qed

end

text \<open>
  A keyed store as its clients use it: look up, put, delete one key, delete many.
\<close>

locale keyed_store =
  fixes get :: "'m \<Rightarrow> 'k \<Rightarrow> 'v option"
    and put :: "'k \<Rightarrow> 'v \<Rightarrow> 'm \<Rightarrow> 'm"
    and del :: "'k \<Rightarrow> 'm \<Rightarrow> 'm"
    and dels :: "'k list \<Rightarrow> 'm \<Rightarrow> 'm"
  assumes get_put: "get (put k v m) j = (if j = k then Some v else get m j)"
    and get_del: "get (del k m) j = (if j = k then None else get m j)"
    and dels_Nil: "dels [] m = m"
    and dels_Cons: "dels (k # ks) m = dels ks (del k m)"
begin

lemma get_dels: "get (dels ks m) j = (if j \<in> set ks then None else get m j)"
  by (induction ks arbitrary: m) (auto simp: dels_Nil dels_Cons get_del)

lemma put_frame: "j \<noteq> k \<Longrightarrow> get (put k v m) j = get m j"
  by (simp add: get_put)

lemma del_put: "get (del k (put k v m)) k = None"
  by (simp add: get_del)

lemma dels_append: "get (dels (ks @ ls) m) j = get (dels ls (dels ks m)) j"
  by (simp add: get_dels)

end

interpretation dict: keyed_store map_of AList.update AList.delete del_keys
  by unfold_locales auto

lemmas dict_laws = dict.get_put dict.get_del dict.get_dels

end
