(* ===== verification/Text.thy ===== *)
theory Text
  imports Prelude
begin

text \<open>
  Facts about the string operations of the prelude that several components use: splitting into
  words and joining them again, stripping, prefixes, decimal numbers.
\<close>

definition words_ok :: "string list \<Rightarrow> bool" where
  "words_ok ws \<longleftrightarrow> (\<forall>w\<in>set ws. w \<noteq> [] \<and> (\<forall>c\<in>set w. \<not> is_ws c))"

lemma words_ok_simps [simp]:
  "words_ok []"
  "words_ok (w # ws) \<longleftrightarrow> w \<noteq> [] \<and> (\<forall>c\<in>set w. \<not> is_ws c) \<and> words_ok ws"
  by (auto simp: words_ok_def)

lemma is_ws_space [simp]: "is_ws (CHR '' '')"
  by (simp add: is_ws_def)

lemma is_ws_ellipsis [simp]: "\<not> is_ws ellipsis"
  by (simp add: is_ws_def ellipsis_def)

lemma is_ws_newline [simp]: "is_ws newline"
  by (simp add: is_ws_def newline_def)

lemma split_ws_Nil [simp]: "split_ws [] = []"
  by (simp add: split_ws.simps)

lemma split_ws_space: "is_ws c \<Longrightarrow> split_ws (c # s) = split_ws s"
  by (simp add: split_ws.simps [of "c # s"] split_ws.simps [of s])

lemma split_ws_words_ok: "words_ok (split_ws s)"
proof (induction s rule: split_ws.induct)
  case (1 s)
  show ?case
  proof (cases "dropWhile is_ws s")
    case Nil
    then show ?thesis by (subst split_ws.simps) (simp del: dropWhile_eq_Nil_conv)
  next
    case (Cons c cs)
    then have "\<not> is_ws c" using hd_dropWhile [of is_ws s] by simp
    then show ?thesis
      using 1 [OF Cons] by (auto simp: split_ws.simps [of s] Cons dest: set_takeWhileD)
  qed
qed

lemma split_ws_word:
  assumes "w \<noteq> []" and "\<forall>c\<in>set w. \<not> is_ws c"
  shows "split_ws w = [w]" and "is_ws d \<Longrightarrow> split_ws (w @ d # r) = w # split_ws r"
proof -
  obtain c cs where w: "w = c # cs" using assms(1) by (cases w) auto
  have c: "\<not> is_ws c" and cs: "\<forall>x\<in>set cs. \<not> is_ws x" using assms(2) w by auto
  have "takeWhile (\<lambda>x. \<not> is_ws x) cs = cs" "dropWhile (\<lambda>x. \<not> is_ws x) cs = []"
    using cs by auto
  then show "split_ws w = [w]"
    using c unfolding w by (subst split_ws.simps) (simp del: dropWhile_eq_Nil_conv)
  assume d: "is_ws d"
  have "takeWhile (\<lambda>x. \<not> is_ws x) (cs @ d # r) = cs" "dropWhile (\<lambda>x. \<not> is_ws x) (cs @ d # r) = d # r"
    using cs d by (simp_all add: takeWhile_append2 dropWhile_append2)
  then show "split_ws (w @ d # r) = w # split_ws r"
    using c d unfolding w by (subst split_ws.simps) (simp add: split_ws_space)
qed

lemma split_join: "words_ok ws \<Longrightarrow> split_ws (join '' '' ws) = ws"
  by (induction "'' ''" ws rule: join.induct) (auto simp: split_ws_word)

lemma join_set: "set (join sep ws) \<subseteq> set sep \<union> \<Union> (set ` set ws)"
  by (induction sep ws rule: join.induct) auto

lemma join_snoc: "ws \<noteq> [] \<Longrightarrow> join sep ws @ v = join sep (butlast ws @ [last ws @ v])"
  by (induction sep ws rule: join.induct) auto

lemma join_words_ws: "words_ok ws \<Longrightarrow> c \<in> set (join '' '' ws) \<Longrightarrow> is_ws c \<Longrightarrow> c = CHR '' ''"
  using join_set [of "'' ''" ws] by (auto simp: words_ok_def)

lemma rstrip_Nil [simp]: "rstrip [] = []"
  by (simp add: rstrip_def)

lemma rstrip_length: "length (rstrip s) \<le> length s"
  using length_dropWhile_le [of is_ws "rev s"] by (simp add: rstrip_def)

lemma rstrip_snoc: "is_ws c \<Longrightarrow> rstrip (s @ [c]) = rstrip s" "\<not> is_ws c \<Longrightarrow> rstrip (s @ [c]) = s @ [c]"
  by (simp_all add: rstrip_def)

lemma rstrip_append: "rstrip (s @ t) = (if rstrip t = [] then rstrip s else s @ rstrip t)"
  by (auto simp: rstrip_def dropWhile_append)

lemma rstrip_space: "rstrip (CHR '' '' # s) = (if rstrip s = [] then [] else CHR '' '' # rstrip s)"
  using rstrip_append [of "'' ''" s] by (simp add: rstrip_def)

lemma rstrip_word: "\<forall>c\<in>set w. \<not> is_ws c \<Longrightarrow> rstrip w = w"
  by (cases w rule: rev_cases) (auto simp: rstrip_snoc)

lemma set_rstrip: "set (rstrip s) \<subseteq> set s"
  by (auto simp: rstrip_def dest: set_dropWhileD)

lemma lstrip_length: "length (lstrip s) \<le> length s"
  by (simp add: lstrip_def length_dropWhile_le)

lemma set_lstrip: "set (lstrip s) \<subseteq> set s"
  by (auto simp: lstrip_def dest: set_dropWhileD)

lemma strip_length: "length (strip s) \<le> length s"
  using rstrip_length [of "lstrip s"] lstrip_length [of s] by (simp add: strip_def)

lemma set_strip: "set (strip s) \<subseteq> set s"
  using set_rstrip [of "lstrip s"] set_lstrip [of s] by (auto simp: strip_def)

lemma lstrip_rstrip: "lstrip t = t \<Longrightarrow> lstrip (rstrip t) = rstrip t"
proof (cases "rstrip t")
  case Nil
  then show ?thesis by (simp add: lstrip_def)
next
  case (Cons c cs)
  assume "lstrip t = t"
  then have "t \<noteq> [] \<Longrightarrow> \<not> is_ws (hd t)"
    using hd_dropWhile [of is_ws t] by (simp add: lstrip_def)
  moreover have t: "t = rstrip t @ rev (takeWhile is_ws (rev t))"
    by (metis rev_append rev_rev_ident rstrip_def takeWhile_dropWhile_id)
  ultimately have "\<not> is_ws c"
    by (metis Cons append_Cons list.distinct(1) list.sel(1))
  then show ?thesis by (simp add: Cons lstrip_def)
qed

lemma lstrip_strip [simp]: "lstrip (strip s) = strip s"
  unfolding strip_def by (rule lstrip_rstrip) (simp add: lstrip_def)

lemma strip_idem [simp]: "strip (strip s) = strip s"
proof -
  have "rstrip (strip s) = strip s" by (simp add: strip_def rstrip_def)
  then show ?thesis by (simp add: strip_def [of "strip s"])
qed

lemma strip_head: "strip s \<noteq> [] \<Longrightarrow> \<not> is_ws (hd (strip s))"
  using hd_dropWhile [of is_ws "strip s"] lstrip_strip [of s]
  by (simp only: lstrip_def not_False_eq_True simp_thms)

lemma strip_nonempty: "s \<noteq> [] \<Longrightarrow> \<not> is_ws (hd s) \<Longrightarrow> strip s \<noteq> []"
proof (cases s)
  case (Cons c cs)
  moreover assume "\<not> is_ws (hd s)"
  ultimately show ?thesis by (simp add: strip_def lstrip_def rstrip_def)
qed simp

text \<open>A prefix of a joined word list, stripped on the right, is again a joined word list.\<close>

lemma rstrip_take_join:
  "words_ok ws \<Longrightarrow> \<exists>vs. words_ok vs \<and> rstrip (take k (join '' '' ws)) = join '' '' vs"
proof (induction "'' ''" ws arbitrary: k rule: join.induct)
  case 1
  have "words_ok []" "rstrip (take k (join '' '' [])) = join '' '' []" by simp_all
  then show ?case by blast
next
  case (2 w)
  then have "\<forall>c\<in>set (take k w). \<not> is_ws c" by (auto dest: in_set_takeD)
  then have "words_ok (if take k w = [] then [] else [take k w])"
    "rstrip (take k (join '' '' [w])) = join '' '' (if take k w = [] then [] else [take k w])"
    by (simp_all add: rstrip_word del: take_eq_Nil)
  then show ?case by blast
next
  case (3 w v ws)
  have w: "w \<noteq> []" "\<forall>c\<in>set w. \<not> is_ws c" using 3 by auto
  obtain vs where vs: "words_ok vs"
    "rstrip (take (k - length w - 1) (join '' '' (v # ws))) = join '' '' vs"
    using 3 by (metis words_ok_simps(2))
  show ?case
  proof (cases "k \<le> length w")
    case True
    have "\<forall>c\<in>set (take k w). \<not> is_ws c" using w by (auto dest: in_set_takeD)
    then have "words_ok (if take k w = [] then [] else [take k w])"
      "rstrip (take k (join '' '' (w # v # ws))) = join '' '' (if take k w = [] then [] else [take k w])"
      using True by (simp_all add: rstrip_word del: take_eq_Nil)
    then show ?thesis by blast
  next
    case False
    then have t: "take k (join '' '' (w # v # ws)) =
        w @ [CHR '' ''] @ take (k - length w - 1) (join '' '' (v # ws))"
      by (simp add: take_Cons')
    have "words_ok (w # vs)" using w vs(1) by simp
    moreover have "rstrip (take k (join '' '' (w # v # ws))) = join '' '' (w # vs)"
    proof (cases "join '' '' vs = []")
      case True
      then have "vs = []" using vs(1) by (cases vs rule: list.exhaust [case_product list.exhaust])
          (auto elim: join.elims)
      then show ?thesis
        using True vs(2) w(2) unfolding t by (simp add: rstrip_append [of w] rstrip_word rstrip_space)
    next
      case ne: False
      then obtain x xs where "vs = x # xs" by (cases vs) auto
      then show ?thesis
        using ne vs(2) unfolding t by (simp add: rstrip_append [of w] rstrip_space)
    qed
    ultimately show ?thesis by blast
  qed
qed

lemma startswith_refl [simp]: "startswith p p"
  by (simp add: startswith_def)

lemma startswith_append [simp]: "startswith p (p @ s)"
  by (simp add: startswith_def)

lemma startswith_Nil [simp]: "startswith [] s"
  by (simp add: startswith_def)

lemma startswith_iff: "startswith p s \<longleftrightarrow> (\<exists>t. s = p @ t)"
  by (metis append_eq_conv_conj append_take_drop_id startswith_def)

lemma contains_iff: "contains sub s \<longleftrightarrow> (\<exists>u v. s = u @ sub @ v)"
proof (induction sub s rule: contains.induct)
  case (1 sub)
  then show ?case by auto
next
  case (2 sub c s)
  have "(\<exists>u v. c # s = u @ sub @ v) \<longleftrightarrow> (\<exists>v. c # s = sub @ v) \<or> (\<exists>u v. s = u @ sub @ v)"
    by (metis append_Cons append_eq_Cons_conv self_append_conv2)
  then show ?case using 2 by (simp add: startswith_iff)
qed

lemma contains_startswith: "startswith p s \<Longrightarrow> contains p s"
  unfolding contains_iff startswith_iff by (metis append_Nil)

subsection \<open>Decimal numbers\<close>

lemma of_char_digit: "d < 10 \<Longrightarrow> (of_char (digit_char d) :: nat) = 48 + d"
  by (simp add: digit_char_def of_char_of)

lemma digit_char_digit [simp]: "d < 10 \<Longrightarrow> is_digit (digit_char d)" "d < 10 \<Longrightarrow> digit_val (digit_char d) = d"
  by (simp_all add: is_digit_def digit_val_def of_char_digit)

lemma digits_val_append:
  "\<forall>c\<in>set s. is_digit c \<Longrightarrow> s \<noteq> [] \<Longrightarrow> digits_val acc ok (s @ t) =
    digits_val (foldl (\<lambda>a c. 10 * a + digit_val c) acc s) True t"
proof (induction s arbitrary: acc ok)
  case Nil
  then show ?case by simp
next
  case (Cons c s)
  then show ?case by (cases "s = []") auto
qed

lemma show_nat_digits: "show_nat n \<noteq> []" "\<forall>c\<in>set (show_nat n). is_digit c"
proof -
  have "show_nat n \<noteq> [] \<and> (\<forall>c\<in>set (show_nat n). is_digit c)"
  proof (induction n rule: show_nat.induct)
    case (1 n)
    then show ?case by (subst (1 2) show_nat.simps) auto
  qed
  then show "show_nat n \<noteq> []" "\<forall>c\<in>set (show_nat n). is_digit c" by simp_all
qed

lemma show_nat_value: "foldl (\<lambda>a c. 10 * a + digit_val c) 0 (show_nat n) = n"
proof (induction n rule: show_nat.induct)
  case (1 n)
  then show ?case by (subst show_nat.simps) auto
qed

lemma digits_val_show: "digits_val 0 False (show_nat n) = Some n"
  using digits_val_append [of "show_nat n" 0 False "[]"] show_nat_digits [of n]
  by (simp add: show_nat_value)

lemma digit_not_ws: "is_digit c \<Longrightarrow> \<not> is_ws c"
  by (simp add: is_digit_def is_ws_def Let_def)

lemma strip_no_ws: "\<forall>c\<in>set s. \<not> is_ws c \<Longrightarrow> strip s = s"
  by (cases s) (auto simp: strip_def lstrip_def rstrip_word)

lemma is_digit_not_sign: "is_digit c \<Longrightarrow> c \<noteq> CHR ''-'' \<and> c \<noteq> CHR ''+''"
  by (auto simp: is_digit_def)

text \<open>Reading a printed integer gives it back.\<close>

lemma int_of_show: "int_of_str (show_int i) = Some i"
proof (cases "i < 0")
  case True
  have "\<forall>c\<in>set (show_nat (nat (- i))). \<not> is_ws c"
    using show_nat_digits digit_not_ws by blast
  moreover have "\<not> is_ws (CHR ''-'')" by (simp add: is_ws_def)
  ultimately have "strip (show_int i) = CHR ''-'' # show_nat (nat (- i))"
    using True by (simp add: show_int_def strip_no_ws)
  then show ?thesis using True by (simp add: int_of_str_def digits_val_show)
next
  case False
  obtain c cs where s: "show_nat (nat i) = c # cs"
    using show_nat_digits(1) [of "nat i"] by (cases "show_nat (nat i)") auto
  have d: "\<forall>x\<in>set (c # cs). is_digit x" using show_nat_digits(2) [of "nat i"] by (simp only: s)
  then have "strip (show_int i) = c # cs"
    using False digit_not_ws by (simp add: show_int_def s strip_no_ws)
  then show ?thesis
    using False d is_digit_not_sign [of c] digits_val_show [of "nat i"]
    by (simp add: int_of_str_def s)
qed

end
