(* ===== verification/PyJson.thy ===== *)
theory PyJson
  imports Complex_Main Text
begin

text \<open>
  Values of a request body: what \<open>json.loads\<close> builds, with the conversions the handlers apply to
  them (\<open>bool\<close>, \<open>str\<close>, \<open>int\<close>, \<open>float\<close> and the helper \<open>_s\<close> of \<open>app.py\<close>), and the tag cleaner
  every scope and tag list goes through.

  A float carries the text \<open>repr\<close> gives for it beside its value, so that \<open>str\<close> of it needs no
  shortest-representation algorithm. \<open>json.loads\<close> accepts \<open>NaN\<close> and \<open>Infinity\<close>, so the special
  values are there. A conversion that raises is an \<open>Inl\<close> with the exception's class.
\<close>

datatype exn = ValueError | TypeError | OverflowError | AttributeError | KeyError | IndexError | OSError

datatype pyfloat = Fin rat | PosInf | NegInf | NaN

datatype json =
    JNull
  | JBool bool
  | JInt int
  | JFloat pyfloat string
  | JStr string
  | JArr "json list"
  | JObj "(string \<times> json) list"

text \<open>\<open>bool(v)\<close>.\<close>

fun truthy :: "json \<Rightarrow> bool" where
  "truthy JNull = False"
| "truthy (JBool b) = b"
| "truthy (JInt i) = (i \<noteq> 0)"
| "truthy (JFloat x s) = (x \<noteq> Fin 0)"
| "truthy (JStr s) = (s \<noteq> [])"
| "truthy (JArr xs) = (xs \<noteq> [])"
| "truthy (JObj d) = (d \<noteq> [])"

text \<open>\<open>d.get(k)\<close>: a missing key and \<open>null\<close> both read as \<open>None\<close>.\<close>

definition jget :: "json dict \<Rightarrow> string \<Rightarrow> json" where
  "jget d k = (case map_of d k of None \<Rightarrow> JNull | Some v \<Rightarrow> v)"

definition has_key :: "json dict \<Rightarrow> string \<Rightarrow> bool" where
  "has_key d k = (map_of d k \<noteq> None)"

subsection \<open>str()\<close>

definition hex_digit :: "nat \<Rightarrow> char" where
  "hex_digit d = (if d < 10 then char_of (48 + d) else char_of (87 + d))"

definition repr_char :: "char \<Rightarrow> char \<Rightarrow> string" where
  "repr_char q c = (let n = (of_char c :: nat) in
     if c = q \<or> n = 92 then [CHR 0x5C, c]
     else if n = 10 then [CHR 0x5C, CHR ''n'']
     else if n = 13 then [CHR 0x5C, CHR ''r'']
     else if n = 9 then [CHR 0x5C, CHR ''t'']
     else if n < 32 \<or> (127 \<le> n \<and> n \<le> 160) \<or> n = 173
       then [CHR 0x5C, CHR ''x'', hex_digit (n div 16), hex_digit (n mod 16)]
     else [c])"

definition repr_str :: "string \<Rightarrow> string" where
  "repr_str s = (let q = (if CHR 0x27 \<in> set s \<and> CHR 0x22 \<notin> set s then CHR 0x22 else CHR 0x27)
     in q # concat (map (repr_char q) s) @ [q])"

fun py_repr :: "json \<Rightarrow> string" where
  "py_repr JNull = ''None''"
| "py_repr (JBool b) = (if b then ''True'' else ''False'')"
| "py_repr (JInt i) = show_int i"
| "py_repr (JFloat x s) = s"
| "py_repr (JStr s) = repr_str s"
| "py_repr (JArr xs) = ''['' @ join '', '' (map py_repr xs) @ '']''"
| "py_repr (JObj d) = ''{'' @ join '', '' (map (\<lambda>(k, v). repr_str k @ '': '' @ py_repr v) d) @ ''}''"

definition py_str :: "json \<Rightarrow> string" where
  "py_str v = (case v of JStr s \<Rightarrow> s | _ \<Rightarrow> py_repr v)"

text \<open>\<open>_s(v)\<close> of \<open>app.py\<close>: a request field as a stripped string.\<close>

definition field_str :: "json \<Rightarrow> string" where
  "field_str v = (case v of JNull \<Rightarrow> [] | _ \<Rightarrow> strip (py_str v))"

subsection \<open>int() and float()\<close>

definition py_trunc :: "rat \<Rightarrow> int" where
  "py_trunc r = (if r < 0 then - \<lfloor>- r\<rfloor> else \<lfloor>r\<rfloor>)"

text \<open>Above this bound a value rounds to infinity, below the reciprocal one to zero.\<close>

definition float_overflow :: rat where
  "float_overflow = 2 ^ 1024 - 2 ^ 970"

definition to_float :: "rat \<Rightarrow> pyfloat" where
  "to_float r = (if float_overflow \<le> r then PosInf else if r \<le> - float_overflow then NegInf
     else if \<bar>r\<bar> \<le> 1 / 2 ^ 1075 then Fin 0 else Fin r)"

fun signed_digits :: "string \<Rightarrow> int option" where
  "signed_digits [] = None"
| "signed_digits (c # cs) =
     (if c = CHR ''-'' then map_option (\<lambda>n. - int n) (digits_val 0 False cs)
      else if c = CHR ''+'' then map_option int (digits_val 0 False cs)
      else map_option int (digits_val 0 False (c # cs)))"

definition ten_pow :: "int \<Rightarrow> rat" where
  "ten_pow e = (if e < 0 then 1 / 10 ^ nat (- e) else 10 ^ nat e)"

definition parse_decimal :: "string \<Rightarrow> rat option" where
  "parse_decimal s =
     (let m = takeWhile (\<lambda>c. c \<noteq> CHR ''e'') s;
          ex = drop (length m) s;
          ip = takeWhile (\<lambda>c. c \<noteq> CHR ''.'') m;
          fp = tl (drop (length ip) m);
          point = (ip \<noteq> m);
          e = (if ex = [] then Some 0 else signed_digits (tl ex));
          iv = (if ip = [] \<and> fp \<noteq> [] then Some 0 else digits_val 0 False ip);
          fv = (if fp = [] then Some 0 else digits_val 0 False fp);
          places = length (filter is_digit fp)
      in case (iv, fv, e) of
           (Some i, Some f, Some k) \<Rightarrow>
             Some ((of_nat i + of_nat f / 10 ^ places) * ten_pow k)
         | _ \<Rightarrow> None)"

definition float_of_str :: "string \<Rightarrow> pyfloat option" where
  "float_of_str s =
     (let t = lower (strip s);
          neg = (take 1 t = ''-'');
          u = (if take 1 t = ''-'' \<or> take 1 t = ''+'' then drop 1 t else t)
      in if u = ''inf'' \<or> u = ''infinity'' then Some (if neg then NegInf else PosInf)
         else if u = ''nan'' then Some NaN
         else map_option (\<lambda>r. to_float (if neg then - r else r)) (parse_decimal u))"

definition py_int :: "json \<Rightarrow> exn + int" where
  "py_int v = (case v of
      JBool b \<Rightarrow> Inr (if b then 1 else 0)
    | JInt i \<Rightarrow> Inr i
    | JFloat (Fin r) _ \<Rightarrow> Inr (py_trunc r)
    | JFloat NaN _ \<Rightarrow> Inl ValueError
    | JFloat _ _ \<Rightarrow> Inl OverflowError
    | JStr s \<Rightarrow> (case int_of_str s of None \<Rightarrow> Inl ValueError | Some i \<Rightarrow> Inr i)
    | _ \<Rightarrow> Inl TypeError)"

definition py_float :: "json \<Rightarrow> exn + pyfloat" where
  "py_float v = (case v of
      JBool b \<Rightarrow> Inr (Fin (if b then 1 else 0))
    | JInt i \<Rightarrow> (case to_float (of_int i) of Fin r \<Rightarrow> Inr (Fin r) | _ \<Rightarrow> Inl OverflowError)
    | JFloat x _ \<Rightarrow> Inr x
    | JStr s \<Rightarrow> (case float_of_str s of None \<Rightarrow> Inl ValueError | Some x \<Rightarrow> Inr x)
    | _ \<Rightarrow> Inl TypeError)"

text \<open>The order on floats: every comparison with \<open>NaN\<close> is false.\<close>

fun fl_less :: "pyfloat \<Rightarrow> pyfloat \<Rightarrow> bool" where
  "fl_less (Fin a) (Fin b) = (a < b)"
| "fl_less NegInf (Fin b) = True"
| "fl_less NegInf PosInf = True"
| "fl_less (Fin a) PosInf = True"
| "fl_less _ _ = False"

fun fl_le :: "pyfloat \<Rightarrow> pyfloat \<Rightarrow> bool" where
  "fl_le (Fin a) (Fin b) = (a \<le> b)"
| "fl_le NaN _ = False"
| "fl_le _ NaN = False"
| "fl_le NegInf _ = True"
| "fl_le _ PosInf = True"
| "fl_le _ _ = False"

text \<open>\<open>list(v)\<close> of a JSON value.\<close>

definition py_list :: "json \<Rightarrow> exn + json list" where
  "py_list v = (case v of
      JArr vs \<Rightarrow> Inr vs
    | JStr s \<Rightarrow> Inr (map (\<lambda>c. JStr [c]) s)
    | JObj d \<Rightarrow> Inr (map (\<lambda>kv. JStr (fst kv)) d)
    | _ \<Rightarrow> Inl TypeError)"

section \<open>Tag lists\<close>

text \<open>\<open>clean_scope_tags\<close> (\<open>app.py\<close>): trimmed, clipped, deduplicated, at most 32.\<close>

definition clean_tag :: "json \<Rightarrow> string" where
  "clean_tag t = take 64 (strip (py_str t))"

fun collect_tags :: "string list \<Rightarrow> json list \<Rightarrow> string list" where
  "collect_tags out [] = out"
| "collect_tags out (v # vs) =
     (let t = clean_tag v
      in collect_tags (if t \<noteq> [] \<and> t \<notin> set out then out @ [t] else out) vs)"

definition clean_scope_tags :: "json \<Rightarrow> string list" where
  "clean_scope_tags v = (case v of JArr vs \<Rightarrow> take 32 (collect_tags [] vs) | _ \<Rightarrow> [])"

text \<open>The shape every stored tag list has.\<close>

definition tags_ok :: "string list \<Rightarrow> bool" where
  "tags_ok ts \<longleftrightarrow> distinct ts \<and> length ts \<le> 32 \<and> (\<forall>t\<in>set ts. t \<noteq> [] \<and> length t \<le> 64)"

definition tags_uncapped :: "string list \<Rightarrow> bool" where
  "tags_uncapped ts \<longleftrightarrow> distinct ts \<and> (\<forall>t\<in>set ts. t \<noteq> [] \<and> length t \<le> 64)"

lemma tags_uncapped_add:
  "tags_uncapped out \<Longrightarrow> clean_tag v \<noteq> [] \<Longrightarrow> clean_tag v \<notin> set out \<Longrightarrow> tags_uncapped (out @ [clean_tag v])"
  by (simp add: tags_uncapped_def clean_tag_def)

lemma collect_tags_ok: "tags_uncapped out \<Longrightarrow> tags_uncapped (collect_tags out vs)"
  by (induction vs arbitrary: out) (simp_all add: Let_def tags_uncapped_add)

lemma clean_scope_tags_shape: "tags_ok (clean_scope_tags v)"
proof (cases v)
  case (JArr vs)
  have "tags_uncapped (collect_tags [] vs)" by (rule collect_tags_ok) (simp add: tags_uncapped_def)
  then show ?thesis
    by (auto simp: JArr clean_scope_tags_def tags_ok_def tags_uncapped_def dest: in_set_takeD)
qed (simp_all add: clean_scope_tags_def tags_ok_def)

lemma tags_ok_Nil [simp]: "tags_ok []"
  by (simp add: tags_ok_def)

text \<open>On trimmed tags within the caps the cleaner changes nothing.\<close>

lemma collect_tags_id:
  "distinct (out @ ts) \<Longrightarrow> \<forall>t\<in>set ts. t \<noteq> [] \<and> length t \<le> 64 \<and> strip t = t \<Longrightarrow>
   collect_tags out (map JStr ts) = out @ ts"
  by (induction ts arbitrary: out) (auto simp: Let_def clean_tag_def py_str_def)

lemma clean_scope_tags_id:
  assumes "tags_ok ts" and "\<forall>t\<in>set ts. strip t = t"
  shows "clean_scope_tags (JArr (map JStr ts)) = ts"
  using assms collect_tags_id [of "[]" ts] by (simp add: clean_scope_tags_def tags_ok_def)

lemma clean_scope_tags_solid: "t \<in> set (clean_scope_tags v) \<Longrightarrow> t \<noteq> [] \<and> \<not> is_ws (hd t)"
proof -
  have collect: "\<forall>t\<in>set out. t \<noteq> [] \<and> \<not> is_ws (hd t) \<Longrightarrow>
      \<forall>t\<in>set (collect_tags out vs). t \<noteq> [] \<and> \<not> is_ws (hd t)" for out vs
  proof (induction vs arbitrary: out)
    case Nil
    then show ?case by simp
  next
    case (Cons v vs)
    have "clean_tag v \<noteq> [] \<Longrightarrow> \<not> is_ws (hd (clean_tag v))"
      using strip_head [of "py_str v"] by (cases "strip (py_str v)") (auto simp: clean_tag_def)
    then show ?case using Cons.prems by (auto simp: Let_def intro!: Cons.IH)
  qed
  assume "t \<in> set (clean_scope_tags v)"
  then show ?thesis using collect [of "[]"]
    by (cases v) (auto simp: clean_scope_tags_def dest: in_set_takeD)
qed

text \<open>A list with a tag that starts with a visible character never cleans to nothing.\<close>

lemma collect_tags_keeps: "set out \<subseteq> set (collect_tags out vs)"
proof (induction vs arbitrary: out)
  case Nil
  then show ?case by simp
next
  case (Cons v vs)
  have "set out \<subseteq> set (if clean_tag v \<noteq> [] \<and> clean_tag v \<notin> set out then out @ [clean_tag v] else out)"
    by auto
  also have "\<dots> \<subseteq> set (collect_tags out (v # vs))"
    using Cons.IH by (simp add: Let_def)
  finally show ?case .
qed

lemma clean_tags_nonempty:
  assumes "ts \<noteq> []" and "\<forall>t\<in>set ts. t \<noteq> [] \<and> \<not> is_ws (hd t)"
  shows "clean_scope_tags (JArr (map JStr ts)) \<noteq> []"
proof -
  obtain t ts' where ts: "ts = t # ts'" using assms(1) by (cases ts) auto
  have "clean_tag (JStr t) \<noteq> []"
    using assms(2) strip_nonempty [of t] by (simp add: ts clean_tag_def py_str_def)
  then have "clean_tag (JStr t) \<in> set (collect_tags [] (map JStr ts))"
    using collect_tags_keeps [of "[clean_tag (JStr t)]" "map JStr ts'"] by (simp add: ts Let_def)
  then have "collect_tags [] (map JStr ts) \<noteq> []" by auto
  then show ?thesis by (simp add: clean_scope_tags_def)
qed

end
