(* ===== verification/PyTime.thy ===== *)
theory PyTime
  imports Text
begin

text \<open>
  The part of Python's \<open>datetime\<close> the controller uses: parsing an ISO-8601 time stamp,
  comparing and subtracting aware times, printing a UTC time to the second.

  An instant is an integer number of microseconds since 0001-01-01T00:00:00 UTC. The parser
  covers the extended formats of \<open>datetime.fromisoformat\<close> (date; date, separator and
  \<open>HH[:MM[:SS[.ffffff]]]\<close>; an optional numeric offset); basic formats without separators and
  ISO week dates are outside the model and count as unparseable.
\<close>

definition leap :: "nat \<Rightarrow> bool" where
  "leap y = (4 dvd y \<and> (\<not> 100 dvd y \<or> 400 dvd y))"

definition year_len :: "nat \<Rightarrow> nat" where
  "year_len y = (if leap y then 366 else 365)"

definition month_len :: "nat \<Rightarrow> nat \<Rightarrow> nat" where
  "month_len y m = (if m = 2 then (if leap y then 29 else 28)
     else if m \<in> {4, 6, 9, 11} then 30 else 31)"

text \<open>Days before a year, and before a month of a year.\<close>

definition days_before_year :: "nat \<Rightarrow> nat" where
  "days_before_year y = (let p = y - 1 in p * 365 + p div 4 - p div 100 + p div 400)"

fun days_before_month :: "nat \<Rightarrow> nat \<Rightarrow> nat" where
  "days_before_month y 0 = 0"
| "days_before_month y (Suc 0) = 0"
| "days_before_month y (Suc (Suc m)) = days_before_month y (Suc m) + month_len y (Suc m)"

definition valid_date :: "nat \<Rightarrow> nat \<Rightarrow> nat \<Rightarrow> bool" where
  "valid_date y m d = (1 \<le> y \<and> y \<le> 9999 \<and> 1 \<le> m \<and> m \<le> 12 \<and> 1 \<le> d \<and> d \<le> month_len y m)"

definition day_number :: "nat \<Rightarrow> nat \<Rightarrow> nat \<Rightarrow> nat" where
  "day_number y m d = days_before_year y + days_before_month y m + (d - 1)"

text \<open>The inverse: the year and the month are found by walking forward.\<close>

function walk_year :: "nat \<Rightarrow> nat \<Rightarrow> nat \<times> nat" where
  "walk_year y n = (if n < year_len y then (y, n) else walk_year (Suc y) (n - year_len y))"
  by pat_completeness auto
termination
  by (relation "measure snd") (auto simp: year_len_def)

function walk_month :: "nat \<Rightarrow> nat \<Rightarrow> nat \<Rightarrow> nat \<times> nat" where
  "walk_month y m n = (if n < month_len y m \<or> 12 \<le> m then (m, n)
     else walk_month y (Suc m) (n - month_len y m))"
  by pat_completeness auto
termination
  by (relation "measure (\<lambda>(y, m, n). 12 - m)") auto

declare walk_year.simps [simp del] walk_month.simps [simp del]

definition date_of :: "nat \<Rightarrow> nat \<times> nat \<times> nat" where
  "date_of n = (let (y, r) = (if n < 730119 then walk_year 1 n else walk_year 2000 (n - 730119));
                    (m, d) = walk_month y 1 r
                in (y, m, d + 1))"

subsection \<open>Parsing and printing\<close>

definition fixed :: "string \<Rightarrow> nat option" where
  "fixed s = (if s \<noteq> [] \<and> (\<forall>c\<in>set s. is_digit c)
     then Some (foldl (\<lambda>a c. 10 * a + digit_val c) 0 s) else None)"

definition second_us :: int where
  "second_us = 1000000"

definition day_us :: int where
  "day_us = 86400 * 1000000"

text \<open>\<open>HH[:MM[:SS[.f+]]]\<close> to microseconds; the fraction is cut to six digits.\<close>

definition clock_us :: "nat \<Rightarrow> nat \<Rightarrow> nat \<Rightarrow> nat \<Rightarrow> int option" where
  "clock_us h m s us = (if h < 24 \<and> m < 60 \<and> s < 60
     then Some (int ((h * 60 + m) * 60 + s) * second_us + int us) else None)"

definition frac_us :: "string \<Rightarrow> nat option" where
  "frac_us f = fixed (take 6 (f @ ''00000''))"

definition parse_clock :: "string \<Rightarrow> int option" where
  "parse_clock t =
     (let h = fixed (take 2 t); m = fixed (take 2 (drop 3 t)); s = fixed (take 2 (drop 6 t))
      in if length t = 2 then (case h of Some h' \<Rightarrow> clock_us h' 0 0 0 | _ \<Rightarrow> None)
         else if take 1 (drop 2 t) \<noteq> '':'' then None
         else if length t = 5 then
           (case (h, m) of (Some h', Some m') \<Rightarrow> clock_us h' m' 0 0 | _ \<Rightarrow> None)
         else if take 1 (drop 5 t) \<noteq> '':'' then None
         else if length t = 8 then
           (case (h, m, s) of (Some h', Some m', Some s') \<Rightarrow> clock_us h' m' s' 0 | _ \<Rightarrow> None)
         else if take 1 (drop 8 t) \<notin> {''.'', '',''} \<or> length t = 9
           \<or> \<not> (\<forall>c\<in>set (drop 9 t). is_digit c) then None
         else (case (h, m, s, frac_us (drop 9 t)) of
             (Some h', Some m', Some s', Some f) \<Rightarrow> clock_us h' m' s' f | _ \<Rightarrow> None))"

definition parse_date :: "string \<Rightarrow> nat option" where
  "parse_date s =
     (case (fixed (take 4 s), fixed (take 2 (drop 5 s)), fixed (take 2 (drop 8 s))) of
        (Some y, Some m, Some d) \<Rightarrow>
          if length s = 10 \<and> s ! 4 = CHR ''-'' \<and> s ! 7 = CHR ''-'' \<and> valid_date y m d
          then Some (day_number y m d) else None
      | _ \<Rightarrow> None)"

definition is_sign :: "char \<Rightarrow> bool" where
  "is_sign c = (c = CHR ''+'' \<or> c = CHR ''-'')"

text \<open>\<open>datetime.fromisoformat\<close>: local microseconds and the offset, if the string has one.\<close>

definition fromisoformat :: "string \<Rightarrow> (int \<times> int option) option" where
  "fromisoformat s =
     (case parse_date (take 10 s) of None \<Rightarrow> None
      | Some n \<Rightarrow>
          if length s = 10 then Some (int n * day_us, None)
          else
            let rest = drop 11 s;
                t = takeWhile (\<lambda>c. \<not> is_sign c) rest;
                off = drop (length t) rest
            in case parse_clock t of None \<Rightarrow> None
               | Some c \<Rightarrow>
                   if off = [] then Some (int n * day_us + c, None)
                   else (case parse_clock (tl off) of None \<Rightarrow> None
                     | Some z \<Rightarrow> Some (int n * day_us + c,
                         Some (if hd off = CHR ''-'' then - z else z))))"

text \<open>
  The parse every caller makes: \<open>datetime.fromisoformat(str(v).replace('Z', '+00:00'))\<close>, a naive
  result read as UTC.
\<close>

definition parse_utc :: "string \<Rightarrow> int option" where
  "parse_utc s = (case fromisoformat (replace_char (CHR ''Z'') ''+00:00'' s) of
      None \<Rightarrow> None
    | Some (local, None) \<Rightarrow> Some local
    | Some (local, Some z) \<Rightarrow> Some (local - z))"

definition two_digits :: "nat \<Rightarrow> string" where
  "two_digits n = [digit_char (n div 10), digit_char n]"

definition four_digits :: "nat \<Rightarrow> string" where
  "four_digits n = two_digits (n div 100) @ two_digits (n mod 100)"

text \<open>\<open>t.astimezone(timezone.utc).isoformat(timespec='seconds')\<close>.\<close>

definition iso_seconds :: "int \<Rightarrow> string" where
  "iso_seconds t =
     (let s = nat (t div second_us); (y, m, d) = date_of (s div 86400); r = s mod 86400
      in four_digits y @ ''-'' @ two_digits m @ ''-'' @ two_digits d @ ''T'' @
         two_digits (r div 3600) @ '':'' @ two_digits (r div 60 mod 60) @ '':'' @
         two_digits (r mod 60) @ ''+00:00'')"

section \<open>The calendar round trip\<close>

lemma days_before_year_Suc: "1 \<le> y \<Longrightarrow> days_before_year (Suc y) = days_before_year y + year_len y"
proof -
  assume "1 \<le> y"
  then obtain p where y: "y = Suc p" by (cases y) auto
  have d: "Suc p div k = p div k + (if k dvd Suc p then 1 else 0)" if "0 < k" for k
    using that by (simp add: div_Suc dvd_eq_mod_eq_0)
  have le: "p div 100 \<le> p div 4" by (simp add: div_le_mono2)
  have "400 dvd Suc p \<Longrightarrow> 100 dvd Suc p" "100 dvd Suc p \<Longrightarrow> 4 dvd Suc p"
    using dvd_trans [of 100 400 "Suc p"] dvd_trans [of 4 100 "Suc p"] by simp_all
  then have imp: "400 dvd Suc p \<longrightarrow> 100 dvd Suc p" "100 dvd Suc p \<longrightarrow> 4 dvd Suc p" by blast+
  have e: "days_before_year (Suc (Suc p)) = Suc p * 365 + Suc p div 4 - Suc p div 100 + Suc p div 400"
    "days_before_year (Suc p) = p * 365 + p div 4 - p div 100 + p div 400"
    by (simp_all only: days_before_year_def Let_def diff_Suc_1)
  have len: "year_len (Suc p) = 365 + (if 4 dvd Suc p then 1 else 0) - (if 100 dvd Suc p then 1 else 0)
      + (if 400 dvd Suc p then 1 else 0)"
  proof -
    have "(if P \<and> (\<not> Q \<or> R) then 366 else 365) = 365 + (if P then 1 else 0) - (if Q then 1 else 0)
        + (if R then 1 else (0::nat))" if "R \<longrightarrow> Q" "Q \<longrightarrow> P" for P Q R
      using that by (cases P; cases Q; cases R) simp_all
    from this [OF imp] show ?thesis unfolding year_len_def leap_def .
  qed
  have add: "a - b + c + (365 + i - j + k) = (365 + a + i) - (b + j) + (c + k)"
    if "b \<le> a" "j \<le> i" for a b c i j k :: nat
    using that by arith
  show ?thesis
    unfolding y e len d [of 4, simplified] d [of 100, simplified] d [of 400, simplified]
    using le imp by (subst add) (simp_all split del: if_split, simp split: if_split)
qed

lemma walk_year_sound:
  "1 \<le> y \<Longrightarrow> walk_year y n = (y', r) \<Longrightarrow>
   y \<le> y' \<and> r < year_len y' \<and> days_before_year y' + r = days_before_year y + n"
proof (induction y n rule: walk_year.induct)
  case (1 y n)
  show ?case
  proof (cases "n < year_len y")
    case True
    then show ?thesis using 1(3) by (simp add: walk_year.simps [of y n])
  next
    case False
    then show ?thesis
      using 1 by (auto simp: walk_year.simps [of y n] days_before_year_Suc)
  qed
qed

lemma days_before_month_Suc: "1 \<le> m \<Longrightarrow> days_before_month y (Suc m) = days_before_month y m + month_len y m"
  by (cases m) auto

lemma year_months: "days_before_month y 12 + month_len y 12 = year_len y"
  by (simp add: numeral_eq_Suc month_len_def year_len_def)

lemma walk_month_sound:
  "1 \<le> m \<Longrightarrow> m \<le> 12 \<Longrightarrow> days_before_month y m + n < year_len y \<Longrightarrow> walk_month y m n = (m', r) \<Longrightarrow>
   m \<le> m' \<and> m' \<le> 12 \<and> r < month_len y m' \<and> days_before_month y m' + r = days_before_month y m + n"
proof (induction y m n rule: walk_month.induct)
  case (1 y m n)
  show ?case
  proof (cases "n < month_len y m \<or> 12 \<le> m")
    case True
    moreover from this have "n < month_len y m" using 1 year_months [of y] by (cases "m = 12") auto
    ultimately show ?thesis using 1 by (simp add: walk_month.simps [of y m n])
  next
    case False
    then show ?thesis
      using 1 by (auto simp: walk_month.simps [of y m n] days_before_month_Suc)
  qed
qed

lemma days_2000: "days_before_year 2000 = 730119"
  by (simp add: days_before_year_def)

lemma date_of_sound:
  assumes "date_of n = (y, m, d)"
  shows "1 \<le> y \<and> 1 \<le> m \<and> m \<le> 12 \<and> 1 \<le> d \<and> d \<le> month_len y m \<and> day_number y m d = n"
proof -
  obtain y0 n0 where s: "1 \<le> y0" "days_before_year y0 + n0 = n"
    "walk_year y0 n0 = (if n < 730119 then walk_year 1 n else walk_year 2000 (n - 730119))"
  proof (cases "n < 730119")
    case True
    then show ?thesis using that [of 1 n] by (simp add: days_before_year_def)
  next
    case False
    then show ?thesis using that [of 2000 "n - 730119"] by (simp add: days_2000)
  qed
  obtain y' r where w: "walk_year y0 n0 = (y', r)" by fastforce
  obtain m' k where wm: "walk_month y' 1 r = (m', k)" by fastforce
  have yr: "1 \<le> y'" "r < year_len y'" "days_before_year y' + r = n"
    using walk_year_sound [OF s(1) w] s(1,2) by auto
  have mk: "1 \<le> m'" "m' \<le> 12" "k < month_len y' m'" "days_before_month y' m' + k = r"
    using walk_month_sound [OF _ _ _ wm] yr(2) by auto
  have "y = y'" "m = m'" "d = k + 1"
    using assms w wm by (simp_all add: date_of_def s(3) [symmetric])
  then show ?thesis using yr mk by (simp add: day_number_def)
qed

lemma days_before_year_mono: "y \<le> y' \<Longrightarrow> 1 \<le> y \<Longrightarrow> days_before_year y \<le> days_before_year y'"
  by (induction y' rule: dec_induct) (auto simp: days_before_year_Suc)

lemma date_of_year_bound: "n < 3652059 \<Longrightarrow> date_of n = (y, m, d) \<Longrightarrow> y \<le> 9999"
  using date_of_sound [of n y m d] days_before_year_mono [of 10000 y]
  by (force simp: day_number_def days_before_year_def)

lemma is_digit_two: "c \<in> set (two_digits n) \<Longrightarrow> is_digit c"
  by (auto simp: two_digits_def digit_char_def is_digit_def of_char_of)

lemma digit_char_mod: "digit_char (n mod 10) = digit_char n" "digit_val (digit_char n) = n mod 10" "is_digit (digit_char n)"
  by (simp_all add: digit_char_def digit_val_def is_digit_def of_char_of)

lemma fixed_two: "n < 100 \<Longrightarrow> fixed (two_digits n) = Some n"
  by (simp add: fixed_def two_digits_def digit_char_mod)

lemma two_digits_sum: "n < 100 \<Longrightarrow> 10 * (n div 10 mod 10) + n mod 10 = (n::nat)"
  by simp

lemma fixed_four: "n < 10000 \<Longrightarrow> fixed (four_digits n) = Some n"
proof -
  assume n: "n < 10000"
  have "fixed (four_digits n) =
    Some (100 * (10 * (n div 100 div 10 mod 10) + n div 100 mod 10) +
      (10 * (n mod 100 div 10 mod 10) + n mod 100 mod 10))"
    by (simp add: fixed_def four_digits_def two_digits_def digit_char_mod)
  also have "\<dots> = Some (100 * (n div 100) + n mod 100)"
    using n by (simp add: two_digits_sum less_mult_imp_div_less)
  finally show ?thesis by simp
qed

lemma fixed_chars:
  "n < 100 \<Longrightarrow> fixed [digit_char (n div 10), digit_char n] = Some n"
  "n < 10000 \<Longrightarrow> fixed [digit_char (n div 100 div 10), digit_char (n div 100),
     digit_char (n mod 100 div 10), digit_char (n mod 100)] = Some n"
  using fixed_two [of n] fixed_four [of n] by (simp_all add: two_digits_def four_digits_def)

lemma digit_char_ne [simp]:
  "\<not> is_sign (digit_char n)" "digit_char n \<noteq> CHR ''Z''"
  using digit_char_mod(3) [of n] by (auto simp: is_sign_def is_digit_def)

lemma month_len_bound: "month_len y m < 32"
  by (simp add: month_len_def)

lemma fixed_zero: "fixed ''00'' = Some 0"
  by (simp add: fixed_def is_digit_def digit_val_def)

lemma fromisoformat_parts:
  assumes "parse_date (take 10 s) = Some n" and "length s \<noteq> 10" and "drop 11 s = c @ z # zs"
    and "\<forall>x\<in>set c. \<not> is_sign x" and "is_sign z"
    and "parse_clock c = Some a" and "parse_clock zs = Some b"
  shows "fromisoformat s = Some (int n * day_us + a, Some (if z = CHR ''-'' then - b else b))"
proof -
  have t: "takeWhile (\<lambda>c. \<not> is_sign c) (c @ z # zs) = c"
    using assms(4,5) by (simp add: takeWhile_append2)
  then show ?thesis using assms by (simp add: fromisoformat_def Let_def)
qed

lemma two_digits_no_sign: "x \<in> set (two_digits n) \<Longrightarrow> \<not> is_sign x"
  by (auto simp: two_digits_def)

text \<open>Reading a printed UTC time gives the instant back, cut to the second.\<close>

lemma parse_iso_seconds:
  assumes "0 \<le> t" and "t < 3652059 * day_us"
  shows "parse_utc (iso_seconds t) = Some (t div second_us * second_us)"
proof -
  define s where "s = nat (t div second_us)"
  obtain y m d where ymd: "date_of (s div 86400) = (y, m, d)" by (metis prod_cases3)
  define h i k where "h = s mod 86400 div 3600" and "i = s mod 86400 div 60 mod 60"
    and "k = s mod 86400 mod 60"
  have hik: "h < 24" "i < 60" "k < 60" by (auto simp: h_def i_def k_def)
  have "s div 86400 < 3652059"
    using assms by (simp add: s_def second_us_def day_us_def nat_less_iff less_mult_imp_div_less)
  then have "y \<le> 9999" using ymd by (rule date_of_year_bound)
  with date_of_sound [OF ymd] have v: "valid_date y m d" and n: "day_number y m d = s div 86400"
    by (auto simp: valid_date_def)
  then have b: "y < 10000" "m < 100" "d < 100"
    using month_len_bound [of y m] by (auto simp: valid_date_def)
  have iso: "iso_seconds t = four_digits y @ ''-'' @ two_digits m @ ''-'' @ two_digits d @ ''T'' @
      two_digits h @ '':'' @ two_digits i @ '':'' @ two_digits k @ ''+00:00''"
    by (simp add: iso_seconds_def Let_def s_def [symmetric] ymd h_def i_def k_def)
  have date: "parse_date (take 10 (iso_seconds t)) = Some (s div 86400)"
    using b v n by (simp add: iso parse_date_def four_digits_def two_digits_def fixed_chars)
  have clock: "parse_clock (two_digits h @ '':'' @ two_digits i @ '':'' @ two_digits k) =
      Some (int ((h * 60 + i) * 60 + k) * second_us)"
    using hik by (simp add: parse_clock_def two_digits_def fixed_chars clock_us_def)
  have zone: "parse_clock ''00:00'' = Some 0"
    by (simp add: parse_clock_def fixed_zero clock_us_def)
  have rest: "drop 11 (iso_seconds t) =
      (two_digits h @ '':'' @ two_digits i @ '':'' @ two_digits k) @ ''+00:00''"
    by (simp add: iso four_digits_def two_digits_def)
  have "fromisoformat (iso_seconds t) =
      Some (int (s div 86400) * day_us + int ((h * 60 + i) * 60 + k) * second_us,
        Some (if CHR ''+'' = CHR ''-'' then - 0 else 0))"
    by (rule fromisoformat_parts [OF date _ _ _ _ clock zone])
      (auto simp: rest is_sign_def [of "CHR ''+''"] is_sign_def [of "CHR '':''"] dest: two_digits_no_sign,
        simp add: iso)
  then have "fromisoformat (iso_seconds t) =
      Some (int (s div 86400) * day_us + int ((h * 60 + i) * 60 + k) * second_us, Some 0)"
    by simp
  moreover have "replace_char (CHR ''Z'') ''+00:00'' (iso_seconds t) = iso_seconds t"
    by (simp add: iso replace_char_def four_digits_def two_digits_def)
  moreover have "int (s div 86400) * day_us + int ((h * 60 + i) * 60 + k) * second_us = int s * second_us"
  proof -
    have "s mod 86400 = (h * 60 + i) * 60 + k"
    proof -
      define r where "r = s mod 86400"
      have "r div 60 div 60 * 60 + r div 60 mod 60 = r div 60" "r div 60 * 60 + r mod 60 = r"
        by simp_all
      moreover have "r div 60 div 60 = r div 3600" by (simp add: div_mult2_eq [symmetric])
      ultimately show ?thesis unfolding h_def i_def k_def r_def [symmetric] by simp
    qed
    then have "s = s div 86400 * 86400 + ((h * 60 + i) * 60 + k)"
      by (metis div_mult_mod_eq)
    then have "int s = int (s div 86400) * 86400 + int ((h * 60 + i) * 60 + k)"
      by (metis of_nat_add of_nat_mult of_nat_numeral)
    then show ?thesis by (simp add: second_us_def day_us_def)
  qed
  ultimately show ?thesis
    using assms(1) by (simp add: parse_utc_def s_def second_us_def)
qed

end
