(* ===== verification/Envelope.thy ===== *)
theory Envelope
  imports PyJson PyTime
begin

text \<open>
  The data every part of the controller exchanges: a registry record (\<open>node\<close>), the fan-out
  envelope of a host (\<open>envelope\<close>, built by \<open>base_envelope\<close> and filled in by the host's adapter),
  an acknowledgement, a health entry and a monitor event. The Python dictionaries with a fixed
  set of keys are records here; a key that may be missing or \<open>None\<close> is an option. A block read
  as \<open>env.get(...) or {}\<close> is the empty block when it is missing.
\<close>

datatype severity = Critical | Warning | Info

text \<open>\<open>SEVERITY\<close>: worst first.\<close>

fun sev_rank :: "severity \<Rightarrow> nat" where
  "sev_rank Critical = 0"
| "sev_rank Warning = 1"
| "sev_rank Info = 2"

text \<open>One alertable condition of a host.\<close>

record cond =
  c_sev :: severity
  c_detail :: string

text \<open>An acknowledgement (\<open>acks.json\<close>): times are unix seconds.\<close>

record ack =
  a_by :: string
  a_note :: string
  a_ts :: int
  a_until :: "int option"

record health_entry =
  h_key :: string
  h_sev :: severity
  h_detail :: string
  h_since :: "string option"

text \<open>The blocks of a node's \<open>/api/summary\<close> the controller reads.\<close>

record service_st =
  sv_enabled :: "string option"
  sv_active :: "string option"

record zfs_block =
  zfs_pools :: nat
  zfs_online :: bool

record updates_block =
  up_available :: int
  up_security :: int
  up_reboot :: bool

record summary =
  su_alerts :: "string list"
  su_zfs :: zfs_block
  su_services :: "service_st dict"
  su_updates :: "updates_block option"

definition no_summary :: summary where
  "no_summary = \<lparr>su_alerts = [], su_zfs = \<lparr>zfs_pools = 0, zfs_online = True\<rparr>,
     su_services = [], su_updates = None\<rparr>"

record nas_block =
  nas_alerts :: int
  nas_alert_list :: "string list"
  nas_pools_degraded :: int

definition no_nas :: nas_block where
  "no_nas = \<lparr>nas_alerts = 0, nas_alert_list = [], nas_pools_degraded = 0\<rparr>"

text \<open>Guest counts: the \<open>virt\<close> block of a hypervisor and the \<open>instances\<close> block of a node. A running
  count is missing where the block has no such key.\<close>

record guests =
  g_vms :: int
  g_containers :: int
  g_vms_running :: "int option"
  g_cts_running :: "int option"
  g_running :: "int option"

definition no_guests :: guests where
  "no_guests = \<lparr>g_vms = 0, g_containers = 0, g_vms_running = None, g_cts_running = None, g_running = None\<rparr>"

text \<open>A pinned service check as it rides on the envelope of its host.\<close>

record svc_check =
  sc_id :: string
  sc_name :: string
  sc_ok :: "bool option"
  sc_detail :: "string option"

record node =
  n_id :: string
  n_name :: string
  n_base_url :: string
  n_host_type :: string
  n_type :: string
  n_type_auto :: string
  n_type_pinned :: bool
  n_tags :: "string list"
  n_capabilities :: "string list"
  n_role :: "string option"
  n_version :: "string option"
  n_cert_fp :: "string option"
  n_token_enc :: string
  n_username :: string
  n_password_enc :: string
  n_verify_ssl :: bool
  n_last_seen :: "string option"
  n_disabled :: bool
  n_disabled_until :: "string option"

text \<open>The \<open>network\<close> block of a UniFi host: what is copied from its snapshot, the counts of live issues, the issues
  and the subsystems shown.\<close>

record network_block =
  nb_values :: "json dict"
  nb_critical :: nat
  nb_warning :: nat
  nb_info :: nat
  nb_issues :: "json dict list"
  nb_subsystems :: "json dict list"

record envelope =
  e_id :: string
  e_name :: string
  e_host_type :: string
  e_type :: string
  e_type_pinned :: bool
  e_tags :: "string list"
  e_capabilities :: "string list"
  e_version :: "string option"
  e_ok :: bool
  e_error :: "string option"
  e_disabled :: bool
  e_disabled_until :: "string option"
  e_summary :: "summary option"
  e_nas :: "nas_block option"
  e_cluster_healthy :: "bool option"
  e_cpu_pct :: "rat option"
  e_mem_pct :: "rat option"
  e_used_bytes :: int
  e_size_bytes :: int
  e_virt :: "guests option"
  e_instances :: "guests option"
  e_type_auto :: "string option"
  e_stale :: bool
  e_svc_checks :: "svc_check list"
  e_cert_not_after :: "string option"
  e_version_lag :: "string option"
  e_health :: "health_entry list option"
  e_health_acked :: "(health_entry \<times> ack) list option"
  e_network :: "network_block option"

text \<open>\<open>base_envelope\<close> (\<open>adapters/base.py\<close>).\<close>

definition base_envelope :: "node \<Rightarrow> envelope" where
  "base_envelope n = \<lparr>e_id = n_id n, e_name = n_name n, e_host_type = n_host_type n,
     e_type = n_type n, e_type_pinned = n_type_pinned n, e_tags = n_tags n,
     e_capabilities = n_capabilities n, e_version = n_version n, e_ok = False, e_error = None,
     e_disabled = False, e_disabled_until = None, e_summary = None, e_nas = None,
     e_cluster_healthy = None, e_cpu_pct = None, e_mem_pct = None, e_used_bytes = 0,
     e_size_bytes = 0, e_virt = None, e_instances = None, e_type_auto = None, e_stale = False,
     e_svc_checks = [], e_cert_not_after = None, e_version_lag = None, e_health = None,
     e_health_acked = None, e_network = None\<rparr>"

definition summary_of :: "envelope \<Rightarrow> summary" where
  "summary_of env = (case e_summary env of None \<Rightarrow> no_summary | Some s \<Rightarrow> s)"

definition nas_of :: "envelope \<Rightarrow> nas_block" where
  "nas_of env = (case e_nas env of None \<Rightarrow> no_nas | Some b \<Rightarrow> b)"

definition error_of :: "envelope \<Rightarrow> string" where
  "error_of env = (case e_error env of None \<Rightarrow> [] | Some s \<Rightarrow> s)"

text \<open>One transition the notifier reports.\<close>

datatype event_kind = Firing | Changed | Recovered

record event =
  ev_host_id :: string
  ev_host :: string
  ev_key :: string
  ev_kind :: event_kind
  ev_sev :: severity
  ev_detail :: string

text \<open>A host of the registry a fresh enrollment would make, for concrete examples.\<close>

definition sample_node :: "string \<Rightarrow> string \<Rightarrow> node" where
  "sample_node i nm = \<lparr>n_id = i, n_name = nm, n_base_url = ''https://h'', n_host_type = ''nexus'',
     n_type = ''Storage'', n_type_auto = ''Storage'', n_type_pinned = False, n_tags = [],
     n_capabilities = [], n_role = None, n_version = None, n_cert_fp = None, n_token_enc = [],
     n_username = [], n_password_enc = [], n_verify_ssl = False, n_last_seen = None,
     n_disabled = False, n_disabled_until = None\<rparr>"

end
