(* ===== verification/Conditions.thy ===== *)
theory Conditions
  imports Envelope
begin

text \<open>
  The pure half of \<open>monitoring.py\<close>: from an envelope to its alertable conditions, the health
  entries behind the status dot, the wallboard state, and the difference of two snapshots.
  Times are passed in (\<open>now\<close>, microseconds) where the source reads the clock.
\<close>

definition ALERT_TEXT_MAX :: nat where "ALERT_TEXT_MAX = 140"
definition ALERT_TEXT_SHOWN :: nat where "ALERT_TEXT_SHOWN = 3"
definition CERT_WARN_DAYS :: int where "CERT_WARN_DAYS = 14"
definition CERT_INFO_DAYS :: int where "CERT_INFO_DAYS = 30"

section \<open>Alert text\<close>

definition one_line :: "nat \<Rightarrow> string \<Rightarrow> string" where
  "one_line limit s =
     (let text = join '' '' (split_ws s)
      in if limit < length text then rstrip (take (limit - 1) text) @ [ellipsis] else text)"

definition alert_detail :: "int \<Rightarrow> string list \<Rightarrow> string" where
  "alert_detail n texts =
     (if texts = [] then show_int n @ '' active alert(s)''
      else if n = 1 then hd texts
      else let shown = take ALERT_TEXT_SHOWN texts; more = n - int (length shown)
           in show_int n @ '' active alerts: '' @ join ''; '' shown @
              (if 0 < more then '' (+'' @ show_int more @ '' more)'' else []))"

definition services_down :: "summary \<Rightarrow> nat" where
  "services_down s = length (filter (\<lambda>(k, sv). sv_enabled sv = Some ''enabled'' \<and>
      sv_active sv \<noteq> Some ''active'') (su_services s))"

section \<open>Certificate expiry\<close>

definition cert_days_left :: "string option \<Rightarrow> int \<Rightarrow> int option" where
  "cert_days_left not_after now = (case not_after of
      None \<Rightarrow> None
    | Some s \<Rightarrow> if s = [] then None
        else (case parse_utc s of None \<Rightarrow> None | Some t \<Rightarrow> Some ((t - now) div day_us)))"

definition cert_condition :: "string option \<Rightarrow> int \<Rightarrow> cond option" where
  "cert_condition not_after now = (case cert_days_left not_after now of
      None \<Rightarrow> None
    | Some days \<Rightarrow>
        if CERT_INFO_DAYS < days then None
        else let when = take 10 (case not_after of None \<Rightarrow> ''None'' | Some s \<Rightarrow> s)
          in if days < 0 then Some \<lparr>c_sev = Warning, c_detail =
               ''TLS certificate expired '' @ show_int (- days) @ '' day(s) ago ('' @ when @ '')''\<rparr>
             else Some \<lparr>c_sev = (if days \<le> CERT_WARN_DAYS then Warning else Info), c_detail =
               ''TLS certificate expires in '' @ show_int days @ '' day(s) ('' @ when @ '')''\<rparr>)"

section \<open>Conditions of one host\<close>

text \<open>\<open>if b: conds[k] = v\<close>.\<close>

definition put_when :: "bool \<Rightarrow> string \<Rightarrow> cond \<Rightarrow> cond dict \<Rightarrow> cond dict" where
  "put_when b k v d = (if b then AList.update k v d else d)"

text \<open>\<open>if c: conds[k] = c\<close> for a condition that may be absent.\<close>

definition put_opt :: "string \<Rightarrow> cond option \<Rightarrow> cond dict \<Rightarrow> cond dict" where
  "put_opt k c d = (case c of None \<Rightarrow> d | Some v \<Rightarrow> AList.update k v d)"

definition version_lag_condition :: "envelope \<Rightarrow> cond option" where
  "version_lag_condition env = (case e_version_lag env of None \<Rightarrow> None
     | Some v \<Rightarrow> if v = [] then None
         else Some \<lparr>c_sev = Info, c_detail = ''behind fleet (newest v'' @ v @ '')''\<rparr>)"

definition alert_texts :: "envelope \<Rightarrow> string list" where
  "alert_texts env =
     filter (\<lambda>t. t \<noteq> []) (map (one_line ALERT_TEXT_MAX) (su_alerts (summary_of env))) @
     filter (\<lambda>t. t \<noteq> []) (map (one_line ALERT_TEXT_MAX) (nas_alert_list (nas_of env)))"

definition n_alerts :: "envelope \<Rightarrow> int" where
  "n_alerts env = max (int (length (su_alerts (summary_of env))) + nas_alerts (nas_of env))
     (int (length (alert_texts env)))"

definition failed_checks :: "envelope \<Rightarrow> string list" where
  "failed_checks env = map sc_name (filter (\<lambda>c. sc_ok c = Some False) (e_svc_checks env))"

definition security_pending :: "summary \<Rightarrow> int" where
  "security_pending s = (case su_updates s of None \<Rightarrow> 0 | Some u \<Rightarrow> up_security u)"

definition down_conditions :: "string \<Rightarrow> cond dict" where
  "down_conditions err =
     (if contains ''await'' (lower err) then []
      else if contains ''fingerprint changed'' (lower err)
        then [(''cert_changed'', \<lparr>c_sev = Critical, c_detail = ''TLS certificate fingerprint changed''\<rparr>)]
      else [(''unreachable'', \<lparr>c_sev = Critical,
               c_detail = (if err = [] then ''host unreachable'' else err)\<rparr>)])"

definition up_conditions :: "int \<Rightarrow> envelope \<Rightarrow> cond dict" where
  "up_conditions now env =
     (let s = summary_of env; nas = nas_of env; zfs = su_zfs s; n = n_alerts env;
          down = int (services_down s); failed = failed_checks env;
          names = join '', '' (map (\<lambda>nm. if nm = [] then ''?'' else nm) failed);
          d1 = put_when (n \<noteq> 0) ''alerts'' \<lparr>c_sev = Warning, c_detail = alert_detail n (alert_texts env)\<rparr> [];
          d2 = put_when (nas_pools_degraded nas \<noteq> 0) ''pool_degraded''
                 \<lparr>c_sev = Critical, c_detail = show_int (nas_pools_degraded nas) @ '' pool(s) degraded''\<rparr> d1;
          d3 = put_when (e_cluster_healthy env = Some False) ''cluster_unhealthy''
                 \<lparr>c_sev = Critical, c_detail = ''cluster reports unhealthy''\<rparr> d2;
          d4 = put_when (zfs_pools zfs \<noteq> 0 \<and> \<not> zfs_online zfs) ''pool_degraded''
                 \<lparr>c_sev = Critical, c_detail = ''a ZFS pool is offline''\<rparr> d3;
          d5 = put_when (down \<noteq> 0) ''services_down''
                 \<lparr>c_sev = Warning, c_detail = show_int down @ '' enabled service(s) not running''\<rparr> d4;
          d6 = put_when (failed \<noteq> []) ''check_failed''
                 \<lparr>c_sev = Warning, c_detail = (if length failed = 1 then ''service check failing: '' @ names
                    else show_int (int (length failed)) @ '' service checks failing: '' @ names)\<rparr> d5;
          d7 = put_when (e_stale env) ''stale'' \<lparr>c_sev = Warning, c_detail = ''background poll is stale''\<rparr> d6;
          d8 = put_opt ''cert_expiring'' (cert_condition (e_cert_not_after env) now) d7;
          d9 = put_opt ''version_lag'' (version_lag_condition env) d8
      in put_when (security_pending s \<noteq> 0) ''security_updates''
           \<lparr>c_sev = Info, c_detail = show_int (security_pending s) @ '' security update(s) pending''\<rparr> d9)"

definition host_conditions :: "int \<Rightarrow> envelope \<Rightarrow> cond dict" where
  "host_conditions now env =
     (if e_disabled env then []
      else if \<not> e_ok env then down_conditions (error_of env)
      else up_conditions now env)"

definition health_entries :: "int \<Rightarrow> envelope \<Rightarrow> health_entry list" where
  "health_entries now env =
     map (\<lambda>(k, c). \<lparr>h_key = k, h_sev = c_sev c, h_detail = c_detail c, h_since = None\<rparr>)
       (filter (\<lambda>(k, c). c_sev c \<in> {Warning, Critical}) (host_conditions now env))"

section \<open>Wallboard state\<close>

datatype colour = Grey | Red | Amber | Green

definition BOARD_CPU_PCT :: rat where "BOARD_CPU_PCT = 90"
definition BOARD_MEM_PCT :: rat where "BOARD_MEM_PCT = 90"
definition BOARD_STORAGE_PCT :: rat where "BOARD_STORAGE_PCT = 90"

text \<open>Python's \<open>round\<close>: halves to the even neighbour.\<close>

definition py_round :: "rat \<Rightarrow> int" where
  "py_round r = (let f = \<lfloor>r\<rfloor>; d = r - of_int f
     in if d < 1 / 2 then f else if 1 / 2 < d then f + 1 else if even f then f else f + 1)"

definition health_of :: "envelope \<Rightarrow> health_entry list" where
  "health_of env = (case e_health env of None \<Rightarrow> [] | Some h \<Rightarrow> h)"

definition acked_of :: "envelope \<Rightarrow> (health_entry \<times> ack) list" where
  "acked_of env = (case e_health_acked env of None \<Rightarrow> [] | Some h \<Rightarrow> h)"

definition cpu_issue :: "envelope \<Rightarrow> string list" where
  "cpu_issue env = (case e_cpu_pct env of None \<Rightarrow> []
     | Some cpu \<Rightarrow> if BOARD_CPU_PCT \<le> cpu then [''high CPU ('' @ show_int (py_round cpu) @ ''%)''] else [])"

definition mem_exempt :: "envelope \<Rightarrow> bool" where
  "mem_exempt env = (e_type env = ''AI'' \<or> zfs_pools (su_zfs (summary_of env)) \<noteq> 0
     \<or> e_host_type env = ''truenas'')"

definition mem_issue :: "envelope \<Rightarrow> string list" where
  "mem_issue env = (case e_mem_pct env of None \<Rightarrow> []
     | Some m \<Rightarrow> if BOARD_MEM_PCT \<le> m \<and> \<not> mem_exempt env
         then [''high memory ('' @ show_int (py_round m) @ ''%)''] else [])"

definition storage_issue :: "envelope \<Rightarrow> string list" where
  "storage_issue env = (if e_size_bytes env = 0 then []
     else let pct = of_int (e_used_bytes env) * 100 / (of_int (e_size_bytes env) :: rat)
       in if BOARD_STORAGE_PCT \<le> pct then [''storage '' @ show_int (py_round pct) @ ''% full''] else [])"

definition board_state :: "envelope \<Rightarrow> colour \<times> string list" where
  "board_state env =
     (if e_disabled env then (Grey, [])
      else if \<not> e_ok env then
        (let err = error_of env; text = (if err = [] then ''unreachable'' else err)
         in if startswith ''await'' (lower err) then (Amber, [''awaiting first poll''])
            else if acked_of env \<noteq> [] \<and> health_of env = [] then (Amber, [''acknowledged: '' @ text])
            else (Red, [text]))
      else
        (let issues = map h_detail (health_of env)
         in if issues \<noteq> [] then (Red, issues)
            else let amber = cpu_issue env @ mem_issue env @ storage_issue env
              in if amber \<noteq> [] then (Amber, amber) else (Green, [])))"

section \<open>Snapshots and their difference\<close>

record snap_entry =
  sn_name :: string
  sn_conds :: "cond dict"

definition snapshot_conditions :: "int \<Rightarrow> envelope list \<Rightarrow> snap_entry dict" where
  "snapshot_conditions now results =
     foldl (\<lambda>d r. AList.update (e_id r) \<lparr>sn_name = e_name r, sn_conds = host_conditions now r\<rparr> d) []
       (filter (\<lambda>r. e_id r \<noteq> []) results)"

definition diff_host :: "snap_entry dict \<Rightarrow> string \<Rightarrow> snap_entry \<Rightarrow> event list" where
  "diff_host prev hid entry =
     (let pconds = (case map_of prev hid of None \<Rightarrow> [] | Some p \<Rightarrow> sn_conds p);
          cconds = sn_conds entry;
          ev = (\<lambda>key kind meta. \<lparr>ev_host_id = hid, ev_host = sn_name entry, ev_key = key,
                  ev_kind = kind, ev_sev = c_sev meta, ev_detail = c_detail meta\<rparr>)
      in concat (map (\<lambda>(key, meta). case map_of pconds key of
              None \<Rightarrow> [ev key Firing meta]
            | Some p \<Rightarrow> if c_detail p \<noteq> c_detail meta then [ev key Changed meta] else []) cconds) @
         concat (map (\<lambda>(key, meta). if map_of cconds key = None then [ev key Recovered meta] else []) pconds))"

fun kind_rank :: "event_kind \<Rightarrow> nat" where
  "kind_rank Firing = 0"
| "kind_rank Changed = 1"
| "kind_rank Recovered = 2"

definition event_rank :: "event \<Rightarrow> nat \<times> nat" where
  "event_rank e = (kind_rank (ev_kind e), sev_rank (ev_sev e))"

definition diff_snapshots :: "snap_entry dict \<Rightarrow> snap_entry dict \<Rightarrow> event list" where
  "diff_snapshots prev cur = sort_key event_rank (concat (map (\<lambda>(hid, entry). diff_host prev hid entry) cur))"

end
