(* ===== verification/State.thy ===== *)
theory State
  imports Envelope
begin

text \<open>
  The state the controller keeps: the persistent files (\<open>controller-auth.json\<close>, \<open>nodes.json\<close>,
  \<open>checks.json\<close>, \<open>acks.json\<close>) and the in-memory tables of \<open>app.py\<close>, as one record that every
  handler takes and returns. A response is \<open>Done\<close> with the handler's payload, \<open>Fail\<close> with the
  status and text of \<open>err(...)\<close>, or \<open>Crash\<close> for an exception no handler catches (the JSON 500 of
  \<open>_unhandled\<close>).
\<close>

datatype 'a resp = Fail nat string | Crash exn | Done 'a

fun is_done :: "'a resp \<Rightarrow> bool" where
  "is_done (Done x) = True"
| "is_done _ = False"

record user =
  u_password :: string
  u_role :: string
  u_must_change :: bool
  u_tags :: "string list"
  u_scope_preset :: "string option"
  u_session_gen :: int

record token =
  t_id :: string
  t_user :: string
  t_name :: string
  t_prefix :: string
  t_created :: string

record webhook =
  w_id :: string
  w_name :: string
  w_url :: string
  w_format :: string
  w_min_severity :: string
  w_tags :: "string list"

record config =
  cf_users :: "user dict"
  cf_presets :: "string list dict"
  cf_tokens :: "token dict"
  cf_tuning :: "int dict"
  cf_notify_enabled :: bool
  cf_webhooks :: "webhook list"

record check =
  k_id :: string
  k_service :: string
  k_target :: string
  k_port :: int
  k_name :: string
  k_node_id :: "string option"
  k_added_at :: "string option"

record check_result =
  r_ok :: "bool option"
  r_paused :: bool
  r_latency_ms :: "int option"
  r_detail :: string
  r_ts :: string

record rollup =
  ro_total :: nat
  ro_healthy :: nat
  ro_unreachable :: nat
  ro_disabled :: nat
  ro_alerts :: int
  ro_degraded :: nat
  ro_services_down :: nat
  ro_storage_used :: int
  ro_storage_size :: int
  ro_vms :: int
  ro_containers :: int
  ro_updates_hosts :: nat
  ro_security_hosts :: nat
  ro_updates_pending :: int
  ro_security_pending :: int

record fleet =
  f_nodes :: "envelope list"
  f_rollup :: rollup
  f_generated_at :: string

text \<open>The notifier's running state \<open>_mon\<close>; a key is a pair of host id and condition key.\<close>

type_synonym pk = "string \<times> string"

record mon =
  m_streak :: "(pk \<times> nat) list"
  m_active :: "pk list"
  m_last_fire :: "(pk \<times> rat) list"
  m_detail :: "(pk \<times> string) list"
  m_seeded :: bool

definition mon_start :: mon where
  "mon_start = \<lparr>m_streak = [], m_active = [], m_last_fire = [], m_detail = [], m_seeded = False\<rparr>"

record poll_entry =
  po_env :: envelope
  po_ts :: rat

record app =
  st_cfg :: config
  st_nodes :: "node list"
  st_acks :: "ack dict"
  st_checks :: "check list"
  st_results :: "check_result dict"
  st_cache_ts :: rat
  st_cache :: "fleet option"
  st_since :: "(pk \<times> string) list"
  st_cert_cache :: "string dict"
  st_poll :: "poll_entry dict"
  st_token_used :: "rat dict"
  st_mon :: mon
  st_events :: "(event \<times> string) list"
  st_audit :: "string option"

text \<open>What \<open>require_login\<close> puts on \<open>g\<close> for one request, and the session cookie.\<close>

record session =
  se_user :: "string option"
  se_gen :: int

record ctx =
  g_name :: string
  g_role :: string
  g_scope :: "string set option"
  g_token :: "string option"

definition no_session :: session where
  "no_session = \<lparr>se_user = None, se_gen = 0\<rparr>"

definition empty_config :: config where
  "empty_config = \<lparr>cf_users = [], cf_presets = [], cf_tokens = [], cf_tuning = [],
     cf_notify_enabled = False, cf_webhooks = []\<rparr>"

definition empty_app :: app where
  "empty_app = \<lparr>st_cfg = empty_config, st_nodes = [], st_acks = [], st_checks = [], st_results = [],
     st_cache_ts = 0, st_cache = None, st_since = [], st_cert_cache = [], st_poll = [],
     st_token_used = [], st_mon = mon_start, st_events = [], st_audit = None\<rparr>"

text \<open>\<open>_bust_fleet\<close>: the next fleet view builds afresh.\<close>

definition bust_fleet :: "app \<Rightarrow> app" where
  "bust_fleet s = s\<lparr>st_cache_ts := 0\<rparr>"

definition set_audit :: "string \<Rightarrow> app \<Rightarrow> app" where
  "set_audit t s = s\<lparr>st_audit := Some t\<rparr>"

end
