(* ===== verification/Scope.thy ===== *)
theory Scope
  imports State
begin

text \<open>
  Tag scopes (\<open>app.py\<close>, "Tag-scoped RBAC"): which hosts an account may see, and the one lookup
  (\<open>_find_node\<close>) every per-host route goes through. A scope is \<open>None\<close> (the whole fleet) or a set
  of tags; a host is visible when it carries one of them.
\<close>

definition user_scope :: "user option \<Rightarrow> string \<Rightarrow> string list dict \<Rightarrow> string set option" where
  "user_scope rec role presets =
     (case rec of None \<Rightarrow> None
      | Some u \<Rightarrow>
          if role = ''admin'' then None
          else
            let as_scope = (\<lambda>ts. let s = set (clean_scope_tags (JArr (map JStr ts)))
                             in if s = {} then None else Some s)
            in case u_scope_preset u of
                 Some p \<Rightarrow> if p = [] then as_scope (u_tags u)
                   else (case map_of presets p of None \<Rightarrow> Some {} | Some ts \<Rightarrow> as_scope ts)
               | None \<Rightarrow> as_scope (u_tags u))"

definition scope_allows :: "string set option \<Rightarrow> string list \<Rightarrow> bool" where
  "scope_allows scope tags = (case scope of None \<Rightarrow> True | Some s \<Rightarrow> s \<inter> set tags \<noteq> {})"

definition find_node :: "string set option \<Rightarrow> string \<Rightarrow> node list \<Rightarrow> node option" where
  "find_node scope i nodes = (case find_by n_id i nodes of
      None \<Rightarrow> None
    | Some n \<Rightarrow> if scope_allows scope (n_tags n) then Some n else None)"

definition visible_nodes :: "string set option \<Rightarrow> node list \<Rightarrow> node list" where
  "visible_nodes scope nodes = filter (\<lambda>n. scope_allows scope (n_tags n)) nodes"

text \<open>\<open>_public_node\<close>: a record without its secrets, as the API returns it.\<close>

definition public_node :: "node \<Rightarrow> node" where
  "public_node n = n\<lparr>n_token_enc := [], n_password_enc := []\<rparr>"

definition nodes_list :: "ctx \<Rightarrow> app \<Rightarrow> node list" where
  "nodes_list c s = map public_node (visible_nodes (g_scope c) (st_nodes s))"

lemma find_node_Some:
  "find_node scope i nodes = Some n \<Longrightarrow> n \<in> set nodes \<and> n_id n = i \<and> scope_allows scope (n_tags n)"
  by (auto simp: find_node_def dest: find_by_Some split: option.splits if_splits)

lemma find_node_visible:
  "distinct (map n_id nodes) \<Longrightarrow> find_node scope i nodes = find_by n_id i (visible_nodes scope nodes)"
proof (induction nodes)
  case Nil
  then show ?case by (simp add: find_node_def find_by_def visible_nodes_def)
next
  case (Cons n nodes)
  have "find_by n_id (n_id n) nodes = None"
    using Cons.prems by (simp add: find_by_None)
  then have "find_by n_id (n_id n) (visible_nodes scope nodes) = None"
    by (auto simp: find_by_None visible_nodes_def)
  then show ?case
  proof (cases "n_id n = i")
    case True
    then show ?thesis
      using \<open>find_by n_id (n_id n) (visible_nodes scope nodes) = None\<close>
      by (simp add: find_node_def find_by_def visible_nodes_def)
  next
    case False
    then show ?thesis
      using Cons by (simp add: find_node_def find_by_def visible_nodes_def)
  qed
qed

lemma scope_allows_None [simp]: "scope_allows None ts"
  by (simp add: scope_allows_def)

lemma scope_allows_mono: "scope_allows (Some s) ts \<Longrightarrow> s \<subseteq> s' \<Longrightarrow> scope_allows (Some s') ts"
  by (auto simp: scope_allows_def)

end
