(* ===== verification/Acks.thy ===== *)
theory Acks
  imports Conditions Scope
begin

text \<open>
  Acknowledgements: validation of a request, the split of a host's health entries into live and
  acknowledged ones, pruning, and the routes that add and remove one. Wall-clock times are unix
  seconds (\<open>rat\<close>, as \<open>time.time()\<close> has fractions).
\<close>

definition ACK_MAX_HOURS :: rat where "ACK_MAX_HOURS = 24 * 30"

definition ack_key :: "string \<Rightarrow> string \<Rightarrow> string" where
  "ack_key host_id key = host_id @ ''|'' @ key"

text \<open>\<open>hours not in (None, '', 0, '0')\<close>: Python's \<open>==\<close> makes \<open>False\<close> and \<open>0.0\<close> equal to 0.\<close>

definition hours_given :: "json \<Rightarrow> bool" where
  "hours_given v = (case v of JNull \<Rightarrow> False | JStr t \<Rightarrow> t \<noteq> [] \<and> t \<noteq> ''0'' | JInt i \<Rightarrow> i \<noteq> 0
     | JBool b \<Rightarrow> b | JFloat x _ \<Rightarrow> x \<noteq> Fin 0 | _ \<Rightarrow> True)"

definition clean_ack_record :: "json dict \<Rightarrow> string \<Rightarrow> rat \<Rightarrow> rat option \<Rightarrow> ack" where
  "clean_ack_record data who now until =
     \<lparr>a_by = who,
      a_note = one_line 200 (if truthy (jget data ''note'') then py_str (jget data ''note'') else []),
      a_ts = py_trunc now,
      a_until = (case until of None \<Rightarrow> None | Some u \<Rightarrow> if u = 0 then None else Some (py_trunc u))\<rparr>"

definition clean_ack :: "json dict \<Rightarrow> string \<Rightarrow> rat \<Rightarrow> ack resp" where
  "clean_ack data who now =
     (let hours = jget data ''hours''
      in if hours_given hours then
           (case py_float hours of
              Inl OverflowError \<Rightarrow> Crash OverflowError
            | Inl _ \<Rightarrow> Fail 400 ''hours must be a number''
            | Inr h \<Rightarrow>
                if \<not> (fl_less (Fin 0) h \<and> fl_le h (Fin ACK_MAX_HOURS))
                then Fail 400 ''hours must be between 0 and 720''
                else (case h of Fin r \<Rightarrow> Done (clean_ack_record data who now (Some (now + r * 3600)))
                      | _ \<Rightarrow> Crash ValueError))
         else Done (clean_ack_record data who now None))"

text \<open>\<open>a and (a.until is None or a.until > now)\<close>.\<close>

definition ack_live :: "rat \<Rightarrow> ack \<Rightarrow> bool" where
  "ack_live now a = (case a_until a of None \<Rightarrow> True | Some u \<Rightarrow> now < of_int u)"

fun split_acked :: "health_entry list \<Rightarrow> ack dict \<Rightarrow> string \<Rightarrow> rat \<Rightarrow>
    health_entry list \<times> (health_entry \<times> ack) list" where
  "split_acked [] acks host_id now = ([], [])"
| "split_acked (e # es) acks host_id now =
     (let (live, acked) = split_acked es acks host_id now
      in case map_of acks (ack_key host_id (h_key e)) of
           Some a \<Rightarrow> if ack_live now a then (live, (e, a) # acked) else (e # live, acked)
         | None \<Rightarrow> (e # live, acked))"

text \<open>\<open>prune_acks\<close>: the keys removed, and the store without them.\<close>

definition prune_acks :: "ack dict \<Rightarrow> string list \<Rightarrow> rat \<Rightarrow> string list \<times> ack dict" where
  "prune_acks acks present now =
     (let gone = map fst (filter (\<lambda>(k, a). k \<notin> set present \<or> \<not> ack_live now a) acks)
      in (gone, del_keys gone acks))"

text \<open>The condition key a request may name: \<open>^[a-z_]{1,32}\Z\<close>.\<close>

definition cond_key_ok :: "string \<Rightarrow> bool" where
  "cond_key_ok k = (k \<noteq> [] \<and> length k \<le> 32 \<and>
     list_all (\<lambda>c. (let n = (of_char c :: nat) in 97 \<le> n \<and> n \<le> 122) \<or> c = CHR ''_'') k)"

text \<open>What the audit line says of the length of a snooze: the hours as the request gave them.\<close>

definition ack_span :: "json dict \<Rightarrow> ack \<Rightarrow> string" where
  "ack_span data rec = (if a_until rec = None \<or> a_until rec = Some 0 then [] else '' for '' @ py_str (jget data ''hours'') @ ''h'')"

definition acks_add :: "ctx \<Rightarrow> rat \<Rightarrow> json dict \<Rightarrow> app \<Rightarrow> ack resp \<times> app" where
  "acks_add c now data s =
     (case find_node (g_scope c) (field_str (jget data ''host_id'')) (st_nodes s) of
        None \<Rightarrow> (Fail 404 ''node not found'', s)
      | Some n \<Rightarrow>
          let key = field_str (jget data ''key'')
          in if \<not> cond_key_ok key then (Fail 400 ''invalid condition key'', s)
             else case clean_ack data (g_name c) now of
                 Fail code m \<Rightarrow> (Fail code m, s)
               | Crash e \<Rightarrow> (Crash e, s)
               | Done rec \<Rightarrow>
                   (Done rec, set_audit (n_name n @ '' ack '' @ key @ ack_span data rec)
                     (bust_fleet (s\<lparr>st_acks := AList.update (ack_key (n_id n) key) rec (st_acks s)\<rparr>))))"

definition acks_delete :: "ctx \<Rightarrow> string \<Rightarrow> string \<Rightarrow> app \<Rightarrow> unit resp \<times> app" where
  "acks_delete c node_id key s =
     (case find_node (g_scope c) node_id (st_nodes s) of
        None \<Rightarrow> (Fail 404 ''node not found'', s)
      | Some n \<Rightarrow>
          (case map_of (st_acks s) (ack_key (n_id n) key) of
             None \<Rightarrow> (Fail 404 ''not acknowledged'', s)
           | Some _ \<Rightarrow>
               (Done (), set_audit (n_name n @ '' unack '' @ key)
                 (bust_fleet (s\<lparr>st_acks := AList.delete (ack_key (n_id n) key) (st_acks s)\<rparr>)))))"

text \<open>\<open>acks_list\<close>: the acknowledgements on hosts the caller can see. The key is split at its
  first bar, as \<open>str.partition\<close> does.\<close>

definition acks_list :: "ctx \<Rightarrow> app \<Rightarrow> (string \<times> string \<times> string \<times> ack) list" where
  "acks_list c s = concat (map (\<lambda>(k, a).
     let hid = takeWhile (\<lambda>x. x \<noteq> CHR ''|'') k; key = drop (length hid + 1) k
     in case find_by n_id hid (rev (st_nodes s)) of
          None \<Rightarrow> []
        | Some n \<Rightarrow> if scope_allows (g_scope c) (n_tags n) then [(hid, n_name n, key, a)] else [])
     (st_acks s))"

section \<open>Facts\<close>

lemma ack_key_inj: "CHR ''|'' \<notin> set h \<Longrightarrow> CHR ''|'' \<notin> set h' \<Longrightarrow>
   ack_key h k = ack_key h' k' \<longleftrightarrow> h = h' \<and> k = k'"
proof
  assume h: "CHR ''|'' \<notin> set h" "CHR ''|'' \<notin> set h'" and eq: "ack_key h k = ack_key h' k'"
  have tw: "takeWhile (\<lambda>c. c \<noteq> CHR ''|'') (ack_key x y) = x" if "CHR ''|'' \<notin> set x" for x y
    using that by (induction x) (auto simp: ack_key_def)
  have "h = h'" using tw [OF h(1), of k] tw [OF h(2), of k'] eq by simp
  then show "h = h' \<and> k = k'" using eq by (simp add: ack_key_def)
qed simp

lemma split_acked_filter:
  "fst (split_acked es acks h now) =
     filter (\<lambda>e. \<not> (\<exists>a. map_of acks (ack_key h (h_key e)) = Some a \<and> ack_live now a)) es"
  "map fst (snd (split_acked es acks h now)) =
     filter (\<lambda>e. \<exists>a. map_of acks (ack_key h (h_key e)) = Some a \<and> ack_live now a) es"
  by (induction es) (auto simp: Let_def split: option.splits prod.splits)

lemma split_acked_acks:
  "(e, a) \<in> set (snd (split_acked es acks h now)) \<Longrightarrow>
    map_of acks (ack_key h (h_key e)) = Some a \<and> ack_live now a"
  by (induction es) (auto simp: Let_def split: option.splits prod.splits if_splits)

lemma prune_acks_lookup:
  assumes "distinct (map fst acks)"
  shows "map_of (snd (prune_acks acks present now)) k =
    (case map_of acks k of None \<Rightarrow> None
     | Some a \<Rightarrow> if k \<in> set present \<and> ack_live now a then Some a else None)"
proof -
  let ?gone = "map fst (filter (\<lambda>(k, a). k \<notin> set present \<or> \<not> ack_live now a) acks)"
  have "k \<in> set ?gone \<longleftrightarrow> (\<exists>a. map_of acks k = Some a \<and> (k \<notin> set present \<or> \<not> ack_live now a))"
    using assms by force
  then show ?thesis
    by (auto simp: prune_acks_def Let_def dict.get_dels split: option.split)
qed

lemma prune_acks_distinct:
  "distinct (map fst acks) \<Longrightarrow> distinct (map fst (snd (prune_acks acks present now)))"
  by (simp add: prune_acks_def Let_def distinct_del_keys)

lemma clean_ack_cases:
  assumes "clean_ack data who now = Done a"
  obtains "\<not> hours_given (jget data ''hours'')" "a = clean_ack_record data who now None"
  | r where "py_float (jget data ''hours'') = Inr (Fin r)" "0 < r" "r \<le> 720"
      "a = clean_ack_record data who now (Some (now + r * 3600))"
  using assms
  by (auto simp: clean_ack_def Let_def ACK_MAX_HOURS_def split: if_splits sum.splits exn.splits pyfloat.splits)

lemma py_trunc_bounds: "0 \<le> r \<Longrightarrow> of_int (py_trunc r) \<le> r \<and> r < of_int (py_trunc r) + 1"
  by (simp add: py_trunc_def) linarith

end
