(* ===== verification/Tuning.thy ===== *)
theory Tuning
  imports State "HOL-Library.List_Lexorder" "HOL-Library.Char_ord"
begin

text \<open>
  The monitor tunables (\<open>app.py\<close>, "Tunables"): validation of a saved set and the effective
  values. The defaults are those of an install with none of the \<open>CONTROLLER_*\<close> environment
  overrides set.
\<close>

definition MONITOR_INTERVAL :: int where "MONITOR_INTERVAL = 60"
definition CHECK_TIMEOUT :: int where "CHECK_TIMEOUT = 5"
definition FLAP_CYCLES :: int where "FLAP_CYCLES = 2"
definition NOTIFY_COOLDOWN :: rat where "NOTIFY_COOLDOWN = 1800"

definition TUNING_BOUNDS :: "(int \<times> int) dict" where
  "TUNING_BOUNDS = [(''monitor_interval'', (10, 3600)), (''check_timeout'', (1, 60)),
     (''flap_cycles'', (1, 20))]"

definition tuning_defaults :: "int dict" where
  "tuning_defaults = [(''monitor_interval'', MONITOR_INTERVAL), (''check_timeout'', CHECK_TIMEOUT),
     (''flap_cycles'', FLAP_CYCLES)]"

fun clean_tuning_loop :: "json dict \<Rightarrow> (int \<times> int) dict \<Rightarrow> int dict \<Rightarrow> (int dict) resp" where
  "clean_tuning_loop data [] out = Done out"
| "clean_tuning_loop data ((key, lo, hi) # rest) out =
     (if \<not> has_key data key then clean_tuning_loop data rest out
      else case py_int (jget data key) of
          Inl OverflowError \<Rightarrow> Crash OverflowError
        | Inl e \<Rightarrow> Fail 400 (''invalid '' @ key)
        | Inr v \<Rightarrow> if lo \<le> v \<and> v \<le> hi then clean_tuning_loop data rest (AList.update key v out)
            else Fail 400 (key @ '' must be '' @ show_int lo @ ''-'' @ show_int hi))"

definition clean_tuning :: "json dict \<Rightarrow> (int dict) resp" where
  "clean_tuning data = clean_tuning_loop data TUNING_BOUNDS []"

definition tuning :: "config \<Rightarrow> int dict" where
  "tuning cfg = map (\<lambda>(key, lo, hi).
     (key, max lo (min hi (case map_of (cf_tuning cfg) key of Some v \<Rightarrow> v
        | None \<Rightarrow> (case map_of tuning_defaults key of Some v \<Rightarrow> v | None \<Rightarrow> 0))))) TUNING_BOUNDS"

definition tuned :: "config \<Rightarrow> string \<Rightarrow> int" where
  "tuned cfg key = (case map_of (tuning cfg) key of Some v \<Rightarrow> v | None \<Rightarrow> 0)"

text \<open>\<open>json.dumps(rec, sort_keys=True)\<close> of a dictionary of numbers whose keys need no escape.\<close>

definition tuning_json :: "int dict \<Rightarrow> string" where
  "tuning_json rec = ''{'' @ join '', '' (map (\<lambda>(k, v). CHR 0x22 # k @ CHR 0x22 # '': '' @ show_int v) (sort_key fst rec)) @ ''}''"

definition tuning_save :: "json dict \<Rightarrow> app \<Rightarrow> (int dict) resp \<times> app" where
  "tuning_save data s = (case clean_tuning data of
      Fail c m \<Rightarrow> (Fail c m, s)
    | Crash e \<Rightarrow> (Crash e, s)
    | Done rec \<Rightarrow>
        let s' = s\<lparr>st_cfg := (st_cfg s)\<lparr>cf_tuning := rec\<rparr>\<rparr>
        in (Done (tuning (st_cfg s')), set_audit (''tuning '' @ tuning_json rec) s'))"

lemma clean_tuning_loop_bounds:
  "clean_tuning_loop data bs out = Done rec \<Longrightarrow> map_of rec k = Some v \<Longrightarrow>
   map_of out k = Some v \<or> (\<exists>lo hi. (k, lo, hi) \<in> set bs \<and> lo \<le> v \<and> v \<le> hi)"
proof (induction data bs out rule: clean_tuning_loop.induct)
  case (1 data out)
  then show ?case by simp
next
  case (2 data key lo hi rest out)
  show ?case
  proof (cases "has_key data key")
    case False
    then have "clean_tuning_loop data rest out = Done rec" using "2.prems"(1) by simp
    from "2.IH"(1) [OF False this "2.prems"(2)] show ?thesis by auto
  next
    case True
    obtain v' where v': "py_int (jget data key) = Inr v'" "lo \<le> v' \<and> v' \<le> hi"
      "clean_tuning_loop data rest (AList.update key v' out) = Done rec"
      using "2.prems"(1) True by (auto split: if_splits sum.splits exn.splits)
    from "2.IH"(2) [of v', simplified, OF True v'(1,2,3) "2.prems"(2)] v'(2)
    show ?thesis by (auto split: if_splits)
  qed
qed

lemma tuned_values:
  "tuned cfg ''flap_cycles'' = max 1 (min 20 (case map_of (cf_tuning cfg) ''flap_cycles'' of Some v \<Rightarrow> v | None \<Rightarrow> 2))"
  "tuned cfg ''check_timeout'' = max 1 (min 60 (case map_of (cf_tuning cfg) ''check_timeout'' of Some v \<Rightarrow> v | None \<Rightarrow> 5))"
  "tuned cfg ''monitor_interval'' = max 10 (min 3600 (case map_of (cf_tuning cfg) ''monitor_interval'' of Some v \<Rightarrow> v | None \<Rightarrow> 60))"
  by (simp_all add: tuned_def tuning_def TUNING_BOUNDS_def tuning_defaults_def MONITOR_INTERVAL_def
      CHECK_TIMEOUT_def FLAP_CYCLES_def split: option.split)

text \<open>Whatever is stored (by hand, by an old version), the effective monitor interval, check
  timeout and flap count lie in their bounds, and a saved set is used as it is: the values an
  administrator saved are the values of the next cycle.\<close>

theorem tuning_save_effective:
  assumes "tuning_save data s = (Done eff, s')"
  shows "eff = tuning (st_cfg s') \<and>
    (\<forall>k v. map_of (cf_tuning (st_cfg s')) k = Some v \<longrightarrow> tuned (st_cfg s') k = v) \<and>
    tuned (st_cfg s') ''monitor_interval'' \<in> {10..3600} \<and>
    tuned (st_cfg s') ''check_timeout'' \<in> {1..60} \<and> tuned (st_cfg s') ''flap_cycles'' \<in> {1..20}"
proof -
  obtain rec where rec: "clean_tuning data = Done rec" "cf_tuning (st_cfg s') = rec" "eff = tuning (st_cfg s')"
    using assms by (auto simp: tuning_save_def set_audit_def Let_def split: resp.splits)
  have "tuned (st_cfg s') k = v" if kv: "map_of rec k = Some v" for k v
  proof -
    obtain lo hi where "(k, lo, hi) \<in> set TUNING_BOUNDS" "lo \<le> v" "v \<le> hi"
      using clean_tuning_loop_bounds [OF rec(1) [unfolded clean_tuning_def] kv] by auto
    then consider "k = ''monitor_interval''" "10 \<le> v" "v \<le> 3600"
      | "k = ''check_timeout''" "1 \<le> v" "v \<le> 60" | "k = ''flap_cycles''" "1 \<le> v" "v \<le> 20"
      by (auto simp: TUNING_BOUNDS_def)
    then show ?thesis using kv rec(2) tuned_values [of "st_cfg s'"] by cases simp_all
  qed
  moreover have "max l (min h x) \<in> {l..h}" if "l \<le> h" for l h x :: int
    using that by auto
  ultimately show ?thesis unfolding tuned_values using rec(2,3) by simp
qed

theorem tuning_save_effective_witness:
  "tuned (st_cfg (snd (tuning_save [(''flap_cycles'', JInt 3)] empty_app))) ''flap_cycles'' = 3"
proof -
  obtain eff s' where r: "tuning_save [(''flap_cycles'', JInt 3)] empty_app = (Done eff, s')"
    "cf_tuning (st_cfg s') = [(''flap_cycles'', 3)]"
    by (simp add: tuning_save_def clean_tuning_def TUNING_BOUNDS_def has_key_def jget_def py_int_def
        Let_def set_audit_def)
  then show ?thesis using tuning_save_effective [OF r(1)] by simp
qed

end
