(* ===== verification/Notifier.thy ===== *)
theory Notifier
  imports Acks Tuning
begin

text \<open>
  The notifier: one monitor cycle (\<open>_monitor_cycle\<close> of \<open>app.py\<close>) over the running state, the
  event ring, the routing of events to webhooks (\<open>hook_wants\<close>, \<open>_dispatch\<close>) and the message
  bodies (\<open>monitoring.py\<close>).

  Python iterates over sets of keys in an unspecified order; the model takes the order of the
  snapshot. The four coloured icons of a message line are single stand-in characters.
\<close>

section \<open>Messages\<close>

definition icon :: "event_kind \<Rightarrow> severity \<Rightarrow> string" where
  "icon k s = (if k = Recovered then [CHR 0x89]
     else case s of Critical \<Rightarrow> [CHR 0x86] | Warning \<Rightarrow> [CHR 0x87] | Info \<Rightarrow> [CHR 0x88])"

definition format_event :: "event \<Rightarrow> string" where
  "format_event ev =
     (let pre = icon (ev_kind ev) (ev_sev ev) @ '' *'' @ ev_host ev
      in case ev_kind ev of
           Recovered \<Rightarrow> pre @ ''* recovered: '' @ ev_detail ev
         | Changed \<Rightarrow> pre @ ''* changed: '' @ ev_detail ev
         | Firing \<Rightarrow> pre @ ''*: '' @ ev_detail ev)"

definition format_digest :: "event list \<Rightarrow> string \<times> string" where
  "format_digest events = (''Nexus Controller'', join [newline] (map format_event events))"

text \<open>The keyword arguments of \<open>requests.post\<close>, per webhook flavour.\<close>

datatype payload =
    TextJson string
  | NtfyData string string
  | GotifyJson string string
  | DiscordJson string
  | PlainJson string string

definition webhook_payload :: "string \<Rightarrow> string \<Rightarrow> string \<Rightarrow> payload" where
  "webhook_payload fmt0 title text =
     (let fmt = lower (if fmt0 = [] then ''gchat'' else fmt0);
          full = (if title = [] then text else ''*'' @ title @ ''*'' @ [newline] @ text)
      in if fmt \<in> {''gchat'', ''google'', ''slack'', ''text''} then TextJson full
         else if fmt = ''ntfy'' then NtfyData title text
         else if fmt = ''gotify'' then GotifyJson title text
         else if fmt = ''discord'' then DiscordJson (take 1900 full)
         else PlainJson title text)"

section \<open>Routing\<close>

definition severity_floor :: "string \<Rightarrow> nat" where
  "severity_floor s = (if s = ''critical'' then 0 else if s = ''warning'' then 1
     else if s = ''info'' then 2 else 1)"

definition hook_wants :: "webhook \<Rightarrow> event \<Rightarrow> string list dict \<Rightarrow> bool" where
  "hook_wants hook ev tags_by_host =
     (if ev_kind ev \<noteq> Recovered \<and> severity_floor (w_min_severity hook) < sev_rank (ev_sev ev) then False
      else let want = filter (\<lambda>t. t \<noteq> []) (w_tags hook)
        in if want = [] then True
           else set want \<inter> set (case map_of tags_by_host (ev_host_id ev) of None \<Rightarrow> [] | Some ts \<Rightarrow> ts) \<noteq> {})"

text \<open>\<open>_dispatch\<close>: the posts it makes, in order.\<close>

definition dispatch :: "config \<Rightarrow> event list \<Rightarrow> string list dict \<Rightarrow> (string \<times> payload) list" where
  "dispatch cfg events tags_by_host =
     (if \<not> cf_notify_enabled cfg \<or> events = [] then []
      else concat (map (\<lambda>hook.
        let want = filter (\<lambda>e. hook_wants hook e tags_by_host) events
        in if want = [] then []
           else let (title, text) = format_digest want
             in [(w_url hook, webhook_payload (w_format hook) title text)]) (cf_webhooks cfg)))"

text \<open>\<open>_notify_events\<close> keeps the last hundred.\<close>

definition record_events :: "string \<Rightarrow> event list \<Rightarrow> (event \<times> string) list \<Rightarrow> (event \<times> string) list" where
  "record_events ts events ring =
     (let all = ring @ map (\<lambda>e. (e, ts)) events in drop (length all - 100) all)"

section \<open>One cycle over the running state\<close>

definition COND_LABEL :: "string dict" where
  "COND_LABEL = [(''unreachable'', ''reachable again''), (''cert_changed'', ''certificate re-pinned''),
     (''cert_expiring'', ''certificate renewed''), (''alerts'', ''alerts cleared''),
     (''pool_degraded'', ''pools healthy''), (''cluster_unhealthy'', ''cluster healthy''),
     (''services_down'', ''services back up''), (''check_failed'', ''service checks passing''),
     (''stale'', ''polling again''), (''version_lag'', ''version in sync''),
     (''security_updates'', ''security updates cleared'')]"

definition cond_label :: "string \<Rightarrow> string" where
  "cond_label key = (case map_of COND_LABEL key of None \<Rightarrow> key | Some l \<Rightarrow> l)"

text \<open>All firing keys of a snapshot, and the condition behind one.\<close>

definition all_present :: "snap_entry dict \<Rightarrow> pk list" where
  "all_present snap = concat (map (\<lambda>(hid, e). map (\<lambda>(key, c). (hid, key)) (sn_conds e)) snap)"

definition snap_cond :: "snap_entry dict \<Rightarrow> pk \<Rightarrow> cond option" where
  "snap_cond snap pk = (case map_of snap (fst pk) of None \<Rightarrow> None | Some e \<Rightarrow> map_of (sn_conds e) (snd pk))"

definition snap_name :: "snap_entry dict \<Rightarrow> string \<Rightarrow> string" where
  "snap_name snap hid = (case map_of snap hid of None \<Rightarrow> hid | Some e \<Rightarrow> sn_name e)"

text \<open>The keys of a paused or removed host, and acknowledged keys, are forgotten silently.\<close>

definition drop_gone :: "(pk \<Rightarrow> bool) \<Rightarrow> mon \<Rightarrow> mon" where
  "drop_gone gone m =
     (let lost = filter gone (m_active m)
      in m\<lparr>m_active := filter (\<lambda>pk. \<not> gone pk) (m_active m),
           m_detail := del_keys lost (m_detail m),
           m_last_fire := del_keys lost (m_last_fire m),
           m_streak := filter (\<lambda>(pk, n). \<not> gone pk) (m_streak m)\<rparr>)"

definition bump_streak :: "(pk \<times> nat) list \<Rightarrow> pk \<Rightarrow> (pk \<times> nat) list" where
  "bump_streak st pk = AList.update pk ((case map_of st pk of None \<Rightarrow> 0 | Some n \<Rightarrow> n) + 1) st"

definition advance_streaks :: "pk list \<Rightarrow> mon \<Rightarrow> mon" where
  "advance_streaks present m =
     m\<lparr>m_streak := filter (\<lambda>(pk, n). pk \<in> set present) (foldl bump_streak (m_streak m) present)\<rparr>"

definition seed :: "rat \<Rightarrow> snap_entry dict \<Rightarrow> pk list \<Rightarrow> mon \<Rightarrow> mon" where
  "seed now snap present m =
     m\<lparr>m_active := present,
       m_last_fire := foldl (\<lambda>d pk. AList.update pk now d) (m_last_fire m) present,
       m_detail := foldl (\<lambda>d pk. case snap_cond snap pk of None \<Rightarrow> d
                            | Some c \<Rightarrow> AList.update pk (c_detail c) d) (m_detail m) present,
       m_seeded := True\<rparr>"

text \<open>The body of the fire loop for one present key: stable, cooled down, and new or changed.\<close>

definition should_fire :: "nat \<Rightarrow> rat \<Rightarrow> mon \<Rightarrow> pk \<Rightarrow> cond \<Rightarrow> bool" where
  "should_fire flap now m pk c =
     (\<not> (pk \<in> set (m_active m) \<and> map_of (m_detail m) pk = Some (c_detail c)) \<and>
      flap \<le> (case map_of (m_streak m) pk of None \<Rightarrow> 0 | Some n \<Rightarrow> n) \<and>
      NOTIFY_COOLDOWN \<le> now - (case map_of (m_last_fire m) pk of None \<Rightarrow> 0 | Some t \<Rightarrow> t))"

definition fire_event :: "snap_entry dict \<Rightarrow> mon \<Rightarrow> pk \<Rightarrow> cond \<Rightarrow> event" where
  "fire_event snap m pk c =
     \<lparr>ev_host_id = fst pk, ev_host = snap_name snap (fst pk), ev_key = snd pk,
      ev_kind = (if pk \<in> set (m_active m) then Changed else Firing),
      ev_sev = c_sev c, ev_detail = c_detail c\<rparr>"

definition note_fired :: "rat \<Rightarrow> pk \<Rightarrow> cond \<Rightarrow> mon \<Rightarrow> mon" where
  "note_fired now pk c m =
     m\<lparr>m_active := (if pk \<in> set (m_active m) then m_active m else m_active m @ [pk]),
       m_detail := AList.update pk (c_detail c) (m_detail m),
       m_last_fire := AList.update pk now (m_last_fire m)\<rparr>"

fun fire_loop :: "nat \<Rightarrow> rat \<Rightarrow> snap_entry dict \<Rightarrow> pk list \<Rightarrow> mon \<Rightarrow> event list \<times> mon" where
  "fire_loop flap now snap [] m = ([], m)"
| "fire_loop flap now snap (pk # pks) m =
     (case snap_cond snap pk of
        None \<Rightarrow> fire_loop flap now snap pks m
      | Some c \<Rightarrow>
          if should_fire flap now m pk c
          then (let (evs, m') = fire_loop flap now snap pks (note_fired now pk c m)
                in (fire_event snap m pk c # evs, m'))
          else fire_loop flap now snap pks m)"

definition recover_event :: "snap_entry dict \<Rightarrow> mon \<Rightarrow> pk \<Rightarrow> event" where
  "recover_event snap m pk =
     \<lparr>ev_host_id = fst pk, ev_host = snap_name snap (fst pk), ev_key = snd pk, ev_kind = Recovered,
      ev_sev = Info,
      ev_detail = (case map_of (m_detail m) pk of
          None \<Rightarrow> cond_label (snd pk)
        | Some was \<Rightarrow> if was = [] then cond_label (snd pk)
            else cond_label (snd pk) @ '' (was: '' @ one_line ALERT_TEXT_MAX was @ '')'')\<rparr>"

definition recover_all :: "snap_entry dict \<Rightarrow> pk list \<Rightarrow> mon \<Rightarrow> event list \<times> mon" where
  "recover_all snap present m =
     (let lost = filter (\<lambda>pk. pk \<notin> set present) (m_active m)
      in (map (recover_event snap m) lost,
          m\<lparr>m_active := filter (\<lambda>pk. pk \<in> set present) (m_active m),
            m_detail := del_keys lost (m_detail m)\<rparr>))"

definition mon_step :: "nat \<Rightarrow> rat \<Rightarrow> snap_entry dict \<Rightarrow> pk list \<Rightarrow> (pk \<Rightarrow> bool) \<Rightarrow> mon \<Rightarrow> event list \<times> mon" where
  "mon_step flap now snap present gone m =
     (let m1 = advance_streaks present (drop_gone gone m)
      in if \<not> m_seeded m1 then ([], seed now snap present m1)
         else let (fire, m2) = fire_loop flap now snap present m1;
                  (recover, m3) = recover_all snap present m2
              in (fire @ recover, m3))"

text \<open>What the cycle computes from the envelopes and the acknowledgements before it takes the
  notifier's lock.\<close>

definition acked_pk :: "ack dict \<Rightarrow> pk \<Rightarrow> bool" where
  "acked_pk acks pk = (map_of acks (ack_key (fst pk) (snd pk)) \<noteq> None)"

definition gone_pk :: "envelope list \<Rightarrow> snap_entry dict \<Rightarrow> ack dict \<Rightarrow> pk \<Rightarrow> bool" where
  "gone_pk results snap acks pk =
     (fst pk \<in> e_id ` set (filter e_disabled results) \<or> fst pk \<notin> fst ` set snap \<or>
      (pk \<in> set (all_present snap) \<and> acked_pk acks pk))"

text \<open>\<open>_monitor_cycle\<close>: the new state, the events and the posts. \<open>clock\<close> is the time the
  conditions are judged at, \<open>now\<close> the unix time, \<open>ts\<close> its printed form.\<close>

definition monitor_cycle :: "int \<Rightarrow> rat \<Rightarrow> string \<Rightarrow> envelope list \<Rightarrow> app \<Rightarrow>
    event list \<times> (string \<times> payload) list \<times> app" where
  "monitor_cycle clock now ts results s =
     (let snap = snapshot_conditions clock results;
          everything = all_present snap;
          (removed, acks) = prune_acks (st_acks s) (map (\<lambda>(h, k). ack_key h k) everything) now;
          present = filter (\<lambda>pk. \<not> acked_pk acks pk) everything;
          flap = nat (tuned (st_cfg s) ''flap_cycles'');
          (events, m) = mon_step flap now snap present (gone_pk results snap acks) (st_mon s);
          tags = map (\<lambda>r. (e_id r, e_tags r)) (filter (\<lambda>r. e_id r \<noteq> []) results)
      in (events, dispatch (st_cfg s) events (rev tags),
          s\<lparr>st_acks := acks, st_mon := m,
            st_events := (if m_seeded (st_mon s) then record_events ts events (st_events s)
                          else st_events s)\<rparr>))"

end
