(* ===== verification/ConditionFacts.thy ===== *)
theory ConditionFacts
  imports Conditions
begin

text \<open>
  What the condition engine promises: clipped one-line texts, well-formed and exclusive condition
  sets, an exact characterisation of the severity-relevant conditions, agreement of the wallboard
  colour with the health list, and soundness, completeness and order of snapshot differences.
\<close>

section \<open>Alert text\<close>

lemma one_line_words: "\<exists>ws. words_ok ws \<and> one_line limit s = join '' '' ws"
proof (cases "limit < length (join '' '' (split_ws s))")
  case False
  then show ?thesis
    using split_ws_words_ok [of s] by (auto simp: one_line_def Let_def)
next
  case True
  obtain vs where vs: "words_ok vs"
    "rstrip (take (limit - 1) (join '' '' (split_ws s))) = join '' '' vs"
    using rstrip_take_join [OF split_ws_words_ok] by blast
  define us where "us = (if vs = [] then [[ellipsis]] else butlast vs @ [last vs @ [ellipsis]])"
  have "words_ok us"
  proof (cases "vs = []")
    case True
    then show ?thesis by (simp add: us_def)
  next
    case False
    then have "set (butlast vs) \<subseteq> set vs" "last vs \<in> set vs"
      by (auto dest: in_set_butlastD)
    then show ?thesis using vs(1) False by (auto simp: us_def words_ok_def)
  qed
  moreover have "one_line limit s = join '' '' us"
    using True vs(2) join_snoc [of vs "'' ''" "[ellipsis]"] by (simp add: one_line_def Let_def us_def)
  ultimately show ?thesis by blast
qed

lemma one_line_length: "0 < limit \<Longrightarrow> length (one_line limit s) \<le> limit"
proof -
  assume l: "0 < limit"
  have "length (rstrip (take (limit - 1) t)) \<le> limit - 1" for t :: string
    by (rule order_trans [OF rstrip_length]) simp
  from this [of "join '' '' (split_ws s)"] show ?thesis
    using l by (auto simp: one_line_def Let_def)
qed

lemma one_line_fixed:
  assumes "words_ok ws" and "length (join '' '' ws) \<le> limit"
  shows "one_line limit (join '' '' ws) = join '' '' ws"
  using assms by (simp add: one_line_def split_join)

text \<open>An alert text becomes one line of at most the given length whatever the appliance
  wrote, it carries no white space but single blanks, and clipping it again changes nothing (the
  recovered line clips the text it replays).\<close>

theorem one_line_bounded_idem:
  assumes "0 < limit"
  shows "length (one_line limit s) \<le> limit \<and>
    (\<forall>c\<in>set (one_line limit s). is_ws c \<longrightarrow> c = CHR '' '') \<and>
    one_line limit (one_line limit s) = one_line limit s"
proof -
  obtain ws where ws: "words_ok ws" "one_line limit s = join '' '' ws"
    using one_line_words by blast
  have "length (join '' '' ws) \<le> limit" using one_line_length [OF assms, of s] ws(2) by simp
  then show ?thesis
    using ws one_line_fixed [OF ws(1)] by (auto dest: join_words_ws)
qed

theorem one_line_bounded_idem_witness:
  "one_line 8 (''disk'' @ [newline] @ ''  failed'') = ''disk fa'' @ [ellipsis] \<and>
   length (one_line 8 (''disk'' @ [newline] @ ''  failed'')) \<le> 8"
proof -
  have "one_line 8 (''disk'' @ [newline] @ ''  failed'') = ''disk fa'' @ [ellipsis]"
    by (simp add: one_line_def newline_def split_ws.simps is_ws_def rstrip_def)
  then show ?thesis
    using one_line_bounded_idem [of 8 "''disk'' @ [newline] @ ''  failed''"] by simp
qed

section \<open>The condition set\<close>

lemma map_of_put [simp]:
  "map_of (put_when b k v d) j = (if j = k \<and> b then Some v else map_of d j)"
  "map_of (put_opt k c d) j = (if j = k \<and> c \<noteq> None then c else map_of d j)"
  by (auto simp: put_when_def put_opt_def split: option.split)

lemma put_when_distinct: "distinct (map fst d) \<Longrightarrow> distinct (map fst (put_when b k v d))"
  by (simp add: put_when_def distinct_keys_update)

lemma put_when_in: "(k', c) \<in> set (put_when b k v d) \<Longrightarrow> (b \<and> k' = k \<and> c = v) \<or> (k', c) \<in> set d"
  by (auto simp: put_when_def dest: in_set_update split: if_splits)

text \<open>The key and severity each condition can have.\<close>

definition up_shape :: "string \<Rightarrow> severity \<Rightarrow> bool" where
  "up_shape k s = ((k, s) \<in> {(''alerts'', Warning), (''pool_degraded'', Critical),
     (''cluster_unhealthy'', Critical), (''services_down'', Warning), (''check_failed'', Warning),
     (''stale'', Warning), (''cert_expiring'', Warning), (''cert_expiring'', Info),
     (''version_lag'', Info), (''security_updates'', Info)})"

definition dict_shape :: "cond dict \<Rightarrow> bool" where
  "dict_shape d = (distinct (map fst d) \<and> (\<forall>(k, c)\<in>set d. up_shape k (c_sev c)))"

lemma dict_shape_put:
  "dict_shape d \<Longrightarrow> (b \<Longrightarrow> up_shape k (c_sev v)) \<Longrightarrow> dict_shape (put_when b k v d)"
  by (auto simp: dict_shape_def intro: put_when_distinct dest!: put_when_in)

lemma dict_shape_put_opt:
  "dict_shape d \<Longrightarrow> (\<And>v. c = Some v \<Longrightarrow> up_shape k (c_sev v)) \<Longrightarrow> dict_shape (put_opt k c d)"
  using dict_shape_put [of d True k] by (cases c) (auto simp: put_when_def put_opt_def)

lemma version_lag_sev: "version_lag_condition env = Some c \<Longrightarrow> c_sev c = Info"
  by (auto simp: version_lag_condition_def split: option.splits if_splits)

lemma cert_condition_sev: "cert_condition na now = Some c \<Longrightarrow> c_sev c \<in> {Warning, Info}"
  by (auto simp: cert_condition_def Let_def split: option.splits if_splits)

lemma up_conditions_shape: "dict_shape (up_conditions now env)"
proof -
  have nil: "dict_shape []" by (simp add: dict_shape_def)
  show ?thesis
    unfolding up_conditions_def Let_def
    by (intro dict_shape_put dict_shape_put_opt nil)
      (auto simp: up_shape_def dest: cert_condition_sev version_lag_sev)
qed

lemma down_conditions_shape:
  "distinct (map fst (down_conditions err))"
  "(k, c) \<in> set (down_conditions err) \<Longrightarrow> k \<in> {''unreachable'', ''cert_changed''} \<and> c_sev c = Critical"
  "length (down_conditions err) \<le> 1"
  by (auto simp: down_conditions_def split: if_splits)

lemma host_conditions_distinct: "distinct (map fst (host_conditions now env))"
  using up_conditions_shape [of now env]
  by (simp add: host_conditions_def dict_shape_def down_conditions_shape)

text \<open>The key syntax \<open>acks_add\<close> accepts: \<open>^[a-z_]{1,32}\Z\<close>.\<close>

definition ackable_key :: "string \<Rightarrow> bool" where
  "ackable_key k = (1 \<le> length k \<and> length k \<le> 32 \<and>
     (\<forall>c\<in>set k. (97 \<le> (of_char c :: nat) \<and> (of_char c :: nat) \<le> 122) \<or> c = CHR ''_''))"

lemma ackable_literals:
  "\<forall>k\<in>{''alerts'', ''pool_degraded'', ''cluster_unhealthy'', ''services_down'', ''check_failed'',
     ''stale'', ''cert_expiring'', ''version_lag'', ''security_updates'', ''unreachable'',
     ''cert_changed''}. ackable_key k"
  by (simp add: ackable_key_def)

lemma host_condition_ackable: "k \<in> fst ` set (host_conditions now env) \<Longrightarrow> ackable_key k"
proof -
  assume "k \<in> fst ` set (host_conditions now env)"
  then obtain c where kc: "(k, c) \<in> set (host_conditions now env)" by auto
  then have "up_shape k (c_sev c) \<or> k \<in> {''unreachable'', ''cert_changed''}"
    using up_conditions_shape [of now env] down_conditions_shape(2) [of k c "error_of env"]
    by (auto simp: host_conditions_def dict_shape_def split: if_splits)
  then show ?thesis using ackable_literals by (auto simp: up_shape_def)
qed

text \<open>C8: for every envelope the conditions form a proper dictionary whose keys the ack route
  accepts; a paused host has none; an unreachable one has at most one, critical, and none of the
  sub-conditions of the last good poll; a reachable one never reports itself unreachable.\<close>

theorem host_conditions_wf:
  "distinct (map fst (host_conditions now env)) \<and>
   list_all ackable_key (map fst (host_conditions now env)) \<and>
   (if e_disabled env then host_conditions now env = []
    else if \<not> e_ok env then length (host_conditions now env) \<le> 1 \<and>
      list_all (\<lambda>(k, c). (k = ''unreachable'' \<or> k = ''cert_changed'') \<and> c_sev c = Critical)
        (host_conditions now env)
    else list_all (\<lambda>(k, c). up_shape k (c_sev c)) (host_conditions now env))"
proof -
  have "list_all ackable_key (map fst (host_conditions now env))"
    using host_condition_ackable [of _ now env] by (auto simp: list_all_iff)
  moreover have "list_all (\<lambda>(k, c). (k = ''unreachable'' \<or> k = ''cert_changed'') \<and> c_sev c = Critical)
      (down_conditions (error_of env))"
    using down_conditions_shape(2) [of _ _ "error_of env"] by (fastforce simp: list_all_iff)
  moreover have "list_all (\<lambda>(k, c). up_shape k (c_sev c)) (up_conditions now env)"
    using up_conditions_shape [of now env] by (simp add: dict_shape_def list_all_iff)
  ultimately show ?thesis
    using host_conditions_distinct [of now env] down_conditions_shape(3) [of "error_of env"]
    by (simp add: host_conditions_def)
qed

lemma up_lookup_pool: "map_of (up_conditions now env) ''pool_degraded'' =
   (if zfs_pools (su_zfs (summary_of env)) \<noteq> 0 \<and> \<not> zfs_online (su_zfs (summary_of env))
    then Some \<lparr>c_sev = Critical, c_detail = ''a ZFS pool is offline''\<rparr>
    else if nas_pools_degraded (nas_of env) \<noteq> 0
    then Some \<lparr>c_sev = Critical, c_detail = show_int (nas_pools_degraded (nas_of env)) @ '' pool(s) degraded''\<rparr>
    else None)"
  by (simp add: up_conditions_def Let_def)

lemma up_lookup:
  "map_of (up_conditions now env) ''alerts'' =
     (if n_alerts env \<noteq> 0 then Some \<lparr>c_sev = Warning, c_detail = alert_detail (n_alerts env) (alert_texts env)\<rparr> else None)"
  "map_of (up_conditions now env) ''cert_expiring'' = cert_condition (e_cert_not_after env) now"
  "(map_of (up_conditions now env) ''cluster_unhealthy'' \<noteq> None) = (e_cluster_healthy env = Some False)"
  "(map_of (up_conditions now env) ''services_down'' \<noteq> None) = (services_down (summary_of env) \<noteq> 0)"
  "(map_of (up_conditions now env) ''check_failed'' \<noteq> None) = (failed_checks env \<noteq> [])"
  "(map_of (up_conditions now env) ''stale'' \<noteq> None) = e_stale env"
  by (simp_all add: up_conditions_def Let_def)

text \<open>A host whose envelope carries none of the warning signs.\<close>

definition no_warning_signs :: "int \<Rightarrow> envelope \<Rightarrow> bool" where
  "no_warning_signs now env = (n_alerts env = 0 \<and> nas_pools_degraded (nas_of env) = 0 \<and>
     e_cluster_healthy env \<noteq> Some False \<and>
     (zfs_pools (su_zfs (summary_of env)) \<noteq> 0 \<longrightarrow> zfs_online (su_zfs (summary_of env))) \<and>
     services_down (summary_of env) = 0 \<and> failed_checks env = [] \<and> \<not> e_stale env \<and>
     (case cert_days_left (e_cert_not_after env) now of None \<Rightarrow> True | Some d \<Rightarrow> CERT_WARN_DAYS < d))"

lemma cert_warning_iff: "(\<exists>c. cert_condition na now = Some c \<and> c_sev c \<noteq> Info) \<longleftrightarrow>
   (case cert_days_left na now of None \<Rightarrow> False | Some d \<Rightarrow> d \<le> CERT_WARN_DAYS)"
  by (auto simp: cert_condition_def Let_def CERT_WARN_DAYS_def CERT_INFO_DAYS_def split: option.splits)

lemma health_entries_empty_iff:
  "health_entries now env = [] \<longleftrightarrow>
    (\<forall>k c. map_of (host_conditions now env) k = Some c \<longrightarrow> c_sev c = Info)"
proof -
  let ?d = "host_conditions now env"
  have sev: "c_sev c \<noteq> Warning \<and> c_sev c \<noteq> Critical \<longleftrightarrow> c_sev c = Info" for c :: cond
    by (cases "c_sev c") auto
  have "health_entries now env = [] \<longleftrightarrow> (\<forall>(k, c)\<in>set ?d. c_sev c = Info)"
    by (simp add: health_entries_def filter_empty_conv split_beta sev)
  also have "\<dots> \<longleftrightarrow> (\<forall>k c. map_of ?d k = Some c \<longrightarrow> c_sev c = Info)"
    using map_of_eq_Some_iff [OF host_conditions_distinct [of now env]] by fastforce
  finally show ?thesis .
qed

lemma health_entries_signs:
  assumes "\<not> e_disabled env" and "e_ok env"
  shows "health_entries now env = [] \<longleftrightarrow> no_warning_signs now env"
proof -
  let ?m = "map_of (up_conditions now env)"
  have hc: "host_conditions now env = up_conditions now env" using assms by (simp add: host_conditions_def)
  have shape: "?m k = Some c \<Longrightarrow> up_shape k (c_sev c)" for k c
    using up_conditions_shape [of now env] by (auto simp: dict_shape_def dest: map_of_SomeD)
  have info: "c_sev c = Info" if "?m k = Some c" "k \<notin> {''alerts'', ''pool_degraded'', ''cluster_unhealthy'',
      ''services_down'', ''check_failed'', ''stale'', ''cert_expiring''}" for k c
    using shape [OF that(1)] that(2) by (auto simp: up_shape_def)
  have "(\<forall>k c. ?m k = Some c \<longrightarrow> c_sev c = Info) \<longleftrightarrow>
    ?m ''alerts'' = None \<and> ?m ''pool_degraded'' = None \<and> ?m ''cluster_unhealthy'' = None \<and>
    ?m ''services_down'' = None \<and> ?m ''check_failed'' = None \<and> ?m ''stale'' = None \<and>
    (\<forall>c. ?m ''cert_expiring'' = Some c \<longrightarrow> c_sev c = Info)" (is "?l \<longleftrightarrow> ?r")
  proof
    assume ?l
    then have "?m k = None" if "\<not> up_shape k Info" for k using that shape by (metis option.exhaust)
    with \<open>?l\<close> show ?r by (simp add: up_shape_def)
  next
    assume ?r
    then show ?l using info by (metis empty_iff insert_iff option.distinct(1))
  qed
  also have "\<dots> \<longleftrightarrow> no_warning_signs now env"
  proof -
    have "?m ''alerts'' = None \<longleftrightarrow> n_alerts env = 0" by (simp add: up_lookup(1))
    moreover have "?m ''pool_degraded'' = None \<longleftrightarrow> nas_pools_degraded (nas_of env) = 0 \<and>
        (zfs_pools (su_zfs (summary_of env)) \<noteq> 0 \<longrightarrow> zfs_online (su_zfs (summary_of env)))"
      by (simp add: up_lookup_pool)
    moreover have "(\<forall>c. ?m ''cert_expiring'' = Some c \<longrightarrow> c_sev c = Info) \<longleftrightarrow>
        (case cert_days_left (e_cert_not_after env) now of None \<Rightarrow> True | Some d \<Rightarrow> CERT_WARN_DAYS < d)"
      using cert_warning_iff [of "e_cert_not_after env" now]
      by (auto simp: up_lookup(2) split: option.splits)
    moreover note up_lookup(3-6) [of now env]
    ultimately show ?thesis unfolding no_warning_signs_def by blast
  qed
  finally show ?thesis unfolding health_entries_empty_iff hc .
qed

text \<open>A reachable host is healthy (no entry for the dot, the Alerts tab and the notifier's
  warning floor) exactly when no warning sign is present: the engine neither drops a sign nor
  invents one.\<close>

theorem health_entries_iff:
  assumes "\<not> e_disabled env" and "e_ok env"
  shows "health_entries now env = [] \<longleftrightarrow> no_warning_signs now env"
  by (rule health_entries_signs [OF assms])

theorem health_entries_iff_witness:
  "health_entries 0 ((base_envelope (sample_node ''h1'' ''h1''))\<lparr>e_ok := True, e_stale := True\<rparr>) \<noteq> []"
  using health_entries_iff [of "(base_envelope (sample_node ''h1'' ''h1''))\<lparr>e_ok := True, e_stale := True\<rparr>" 0]
  by (simp add: base_envelope_def no_warning_signs_def)

section \<open>Certificate expiry\<close>

lemma cert_days_mono: "now \<le> now' \<Longrightarrow> cert_days_left na now = Some d \<Longrightarrow>
    \<exists>d'. cert_days_left na now' = Some d' \<and> d' \<le> d"
  by (auto simp: cert_days_left_def day_us_def zdiv_mono1 split: option.splits if_splits)

text \<open>The expiry alarm follows the thresholds (nothing above 30 days, information to 15, a
  warning from 14 days on and after expiry), never goes quiet again as time passes, and never
  loses severity.\<close>

theorem cert_condition_escalates:
  assumes "cert_days_left na now = Some d" and "now \<le> now'"
  shows "(cert_condition na now = None \<longleftrightarrow> 30 < d) \<and>
    (\<forall>c. cert_condition na now = Some c \<longrightarrow> (c_sev c = Warning \<longleftrightarrow> d \<le> 14) \<and>
       (\<exists>c'. cert_condition na now' = Some c' \<and> sev_rank (c_sev c') \<le> sev_rank (c_sev c)))"
proof -
  obtain d' where "cert_days_left na now' = Some d'" "d' \<le> d"
    using cert_days_mono [OF assms(2,1)] by blast
  then show ?thesis
    using assms(1) by (auto simp: cert_condition_def CERT_INFO_DAYS_def CERT_WARN_DAYS_def Let_def)
qed

lemma parse_2024: "parse_utc ''2024-03-01T00:00:00Z'' = Some (738945 * day_us)"
  by (simp add: parse_utc_def fromisoformat_def replace_char_def parse_date_def fixed_def is_digit_def
      digit_val_def valid_date_def month_len_def leap_def day_number_def days_before_year_def
      numeral_2_eq_2 numeral_3_eq_3 parse_clock_def clock_us_def second_us_def is_sign_def)

theorem cert_condition_escalates_witness:
  "(let na = Some ''2024-03-01T00:00:00Z'' in
    cert_days_left na (738925 * day_us) = Some 20 \<and>
    (\<exists>c c'. cert_condition na (738925 * day_us) = Some c \<and> c_sev c = Info \<and>
      cert_condition na (738940 * day_us) = Some c' \<and> sev_rank (c_sev c') \<le> sev_rank (c_sev c)))"
proof -
  let ?na = "Some ''2024-03-01T00:00:00Z''"
  have d: "cert_days_left ?na (738925 * day_us) = Some 20"
    by (simp add: cert_days_left_def parse_2024 day_us_def)
  have "738925 * day_us \<le> 738940 * day_us" by (simp add: day_us_def)
  from cert_condition_escalates [OF d this] d show ?thesis
    by (auto simp: cert_condition_def CERT_INFO_DAYS_def CERT_WARN_DAYS_def Let_def)
qed

section \<open>The wallboard\<close>

text \<open>The wallboard colour says what it means for every envelope: grey exactly for a paused
  host; red for a reachable host exactly when a live health entry is left, with those entries as
  the text; a host that is down is red unless the outage is acknowledged or it still awaits its
  first poll, and is never green.\<close>

theorem board_state_meaning:
  "(fst (board_state env) = Grey \<longleftrightarrow> e_disabled env) \<and>
   (\<not> e_disabled env \<and> e_ok env \<longrightarrow>
      (fst (board_state env) = Red \<longleftrightarrow> health_of env \<noteq> []) \<and>
      (fst (board_state env) = Red \<longrightarrow> snd (board_state env) = map h_detail (health_of env))) \<and>
   (\<not> e_disabled env \<and> \<not> e_ok env \<longrightarrow>
      fst (board_state env) \<noteq> Green \<and>
      (fst (board_state env) \<noteq> Red \<longleftrightarrow> startswith ''await'' (lower (error_of env)) \<or>
         (acked_of env \<noteq> [] \<and> health_of env = []))) \<and>
   (fst (board_state env) = Green \<longrightarrow> e_ok env \<and> health_of env = [] \<and>
      (\<forall>p. e_cpu_pct env = Some p \<longrightarrow> p < 90))"
  by (auto simp: board_state_def Let_def cpu_issue_def BOARD_CPU_PCT_def split: if_splits option.splits)

definition down_host :: "string \<Rightarrow> envelope" where
  "down_host err = (base_envelope (sample_node ''h1'' ''h1''))\<lparr>e_error := Some err\<rparr>"

theorem board_state_meaning_witness:
  "board_state (down_host ''no route to host'') = (Red, [''no route to host'']) \<and>
   fst (board_state (down_host ''no route to host'')) \<noteq> Green"
proof -
  have "board_state (down_host ''no route to host'') = (Red, [''no route to host''])"
    by (simp add: board_state_def down_host_def base_envelope_def error_of_def acked_of_def startswith_def
        lower_def lower_char_def Let_def)
  then show ?thesis
    using board_state_meaning [of "down_host ''no route to host''"] by simp
qed

text \<open>an error text with the letters \<open>await\<close> anywhere but at its start silences the notifier
  although the host is down and red on the wallboard. The comment in \<open>friendly_error\<close> and the
  wallboard treat only a leading \<open>await\<close> as the first-poll warmup.\<close>

theorem await_substring_silences:
  "host_conditions now (down_host ''getawaiter.lan: connection refused'') = [] \<and>
   board_state (down_host ''getawaiter.lan: connection refused'') =
     (Red, [''getawaiter.lan: connection refused''])"
proof
  show "host_conditions now (down_host ''getawaiter.lan: connection refused'') = []"
    by (simp add: host_conditions_def down_host_def base_envelope_def down_conditions_def error_of_def
        startswith_def lower_def lower_char_def)
  show "board_state (down_host ''getawaiter.lan: connection refused'') =
     (Red, [''getawaiter.lan: connection refused''])"
    by (simp add: board_state_def down_host_def base_envelope_def error_of_def acked_of_def
        startswith_def lower_def lower_char_def Let_def)
qed

section \<open>Snapshot differences\<close>

lemma diff_host_mem: "e \<in> set (diff_host prev hid entry) \<longleftrightarrow>
  ev_host_id e = hid \<and> ev_host e = sn_name entry \<and>
  (let pconds = (case map_of prev hid of None \<Rightarrow> [] | Some p \<Rightarrow> sn_conds p) in
   (\<exists>c. (ev_key e, c) \<in> set (sn_conds entry) \<and> ev_sev e = c_sev c \<and> ev_detail e = c_detail c \<and>
      (case map_of pconds (ev_key e) of None \<Rightarrow> ev_kind e = Firing
       | Some p \<Rightarrow> ev_kind e = Changed \<and> c_detail p \<noteq> c_detail c)) \<or>
   (\<exists>c. (ev_key e, c) \<in> set pconds \<and> ev_sev e = c_sev c \<and> ev_detail e = c_detail c \<and>
      map_of (sn_conds entry) (ev_key e) = None \<and> ev_kind e = Recovered))"
  by (cases e) (fastforce simp: diff_host_def Let_def split: option.splits if_splits)

lemma diff_host_map:
  assumes "distinct (map fst (sn_conds entry))"
    and "distinct (map fst (case map_of prev hid of None \<Rightarrow> [] | Some p \<Rightarrow> sn_conds p))"
    and "N = map_of (sn_conds entry) (ev_key e)"
    and "P = (case map_of prev hid of None \<Rightarrow> Map.empty | Some p \<Rightarrow> map_of (sn_conds p)) (ev_key e)"
  shows "e \<in> set (diff_host prev hid entry) \<longleftrightarrow>
    ev_host_id e = hid \<and> ev_host e = sn_name entry \<and>
    ((\<exists>c. N = Some c \<and> ev_sev e = c_sev c \<and> ev_detail e = c_detail c \<and>
       (case P of None \<Rightarrow> ev_kind e = Firing
        | Some p \<Rightarrow> ev_kind e = Changed \<and> c_detail p \<noteq> c_detail c)) \<or>
     (\<exists>c. P = Some c \<and> ev_sev e = c_sev c \<and> ev_detail e = c_detail c \<and> N = None \<and> ev_kind e = Recovered))"
proof -
  have P: "P = map_of (case map_of prev hid of None \<Rightarrow> [] | Some p \<Rightarrow> sn_conds p) (ev_key e)"
    using assms(4) by (simp split: option.splits)
  show ?thesis
    unfolding diff_host_mem Let_def map_of_eq_Some_iff [OF assms(1), symmetric]
      map_of_eq_Some_iff [OF assms(2), symmetric] P [symmetric] assms(3) [symmetric]
    by (rule refl)
qed

lemma diff_snapshots_mem:
  "e \<in> set (diff_snapshots prev cur) \<longleftrightarrow> (\<exists>(hid, entry)\<in>set cur. e \<in> set (diff_host prev hid entry))"
  by (auto simp: diff_snapshots_def)

text \<open>What one event of kind \<open>k\<close> says of the old and new condition under its key.\<close>

definition explains :: "event \<Rightarrow> cond option \<Rightarrow> cond option \<Rightarrow> bool" where
  "explains e old new = (case (ev_kind e, old, new) of
      (Firing, None, Some c) \<Rightarrow> ev_sev e = c_sev c \<and> ev_detail e = c_detail c
    | (Changed, Some p, Some c) \<Rightarrow> c_detail p \<noteq> c_detail c \<and> ev_sev e = c_sev c \<and> ev_detail e = c_detail c
    | (Recovered, Some p, None) \<Rightarrow> ev_sev e = c_sev p \<and> ev_detail e = c_detail p
    | _ \<Rightarrow> False)"

text \<open>The difference of two snapshots reports exactly what changed on the hosts of the current
  one: a key that appears fires, a key whose text changed changes, a key that went away recovers,
  nothing is said of a host that left the registry, and the list is ordered by kind, then
  severity.\<close>

theorem diff_snapshots_exact:
  assumes "distinct (map fst cur)" and "\<forall>(h, s)\<in>set cur. distinct (map fst (sn_conds s))"
    and "\<forall>(h, s)\<in>set prev. distinct (map fst (sn_conds s))"
  shows "sorted (map event_rank (diff_snapshots prev cur)) \<and>
    (e \<in> set (diff_snapshots prev cur) \<longleftrightarrow>
      (\<exists>entry. map_of cur (ev_host_id e) = Some entry \<and> ev_host e = sn_name entry \<and>
        explains e
          ((case map_of prev (ev_host_id e) of None \<Rightarrow> Map.empty | Some p \<Rightarrow> map_of (sn_conds p)) (ev_key e))
          (map_of (sn_conds entry) (ev_key e))))"
proof -
  have pd: "distinct (map fst (case map_of prev h of None \<Rightarrow> [] | Some p \<Rightarrow> sn_conds p))" for h
    using assms(3) by (auto split: option.split dest!: map_of_SomeD)
  have cd: "map_of cur h = Some s \<Longrightarrow> distinct (map fst (sn_conds s))" for h s
    using assms(2) by (auto dest: map_of_SomeD)
  have ex: "explains e P N \<longleftrightarrow>
     (\<exists>c. N = Some c \<and> ev_sev e = c_sev c \<and> ev_detail e = c_detail c \<and>
       (case P of None \<Rightarrow> ev_kind e = Firing
        | Some p \<Rightarrow> ev_kind e = Changed \<and> c_detail p \<noteq> c_detail c)) \<or>
     (\<exists>c. P = Some c \<and> ev_sev e = c_sev c \<and> ev_detail e = c_detail c \<and> N = None \<and> ev_kind e = Recovered)" for P N
    by (cases "ev_kind e"; cases P; cases N) (auto simp: explains_def)
  have host: "e \<in> set (diff_host prev (ev_host_id e) s) \<longleftrightarrow> ev_host e = sn_name s \<and> explains e
      ((case map_of prev (ev_host_id e) of None \<Rightarrow> Map.empty | Some p \<Rightarrow> map_of (sn_conds p)) (ev_key e))
      (map_of (sn_conds s) (ev_key e))" if "map_of cur (ev_host_id e) = Some s" for s
    unfolding ex using diff_host_map [OF cd [OF that] pd refl refl, of e] by simp
  have hid: "e \<in> set (diff_host prev h s) \<Longrightarrow> h = ev_host_id e" for h s
    by (simp add: diff_host_mem)
  have "e \<in> set (diff_snapshots prev cur) \<longleftrightarrow>
      (\<exists>s. (ev_host_id e, s) \<in> set cur \<and> e \<in> set (diff_host prev (ev_host_id e) s))"
    unfolding diff_snapshots_mem using hid by blast
  also have "\<dots> \<longleftrightarrow> (\<exists>s. map_of cur (ev_host_id e) = Some s \<and> e \<in> set (diff_host prev (ev_host_id e) s))"
    using assms(1) by simp
  also have "\<dots> \<longleftrightarrow> (\<exists>s. map_of cur (ev_host_id e) = Some s \<and> ev_host e = sn_name s \<and> explains e
      ((case map_of prev (ev_host_id e) of None \<Rightarrow> Map.empty | Some p \<Rightarrow> map_of (sn_conds p)) (ev_key e))
      (map_of (sn_conds s) (ev_key e)))"
    using host by blast
  finally have "e \<in> set (diff_snapshots prev cur) \<longleftrightarrow> \<dots>" .
  moreover have "sorted (map event_rank (diff_snapshots prev cur))"
    by (simp add: diff_snapshots_def)
  ultimately show ?thesis by (rule conjI [rotated])
qed

theorem diff_snapshots_exact_witness:
  "(let old = [(''h1'', \<lparr>sn_name = ''h1'', sn_conds = [(''stale'', \<lparr>c_sev = Warning, c_detail = ''s''\<rparr>)]\<rparr>)];
        new = [(''h1'', \<lparr>sn_name = ''h1'', sn_conds = [(''alerts'', \<lparr>c_sev = Warning, c_detail = ''a''\<rparr>)]\<rparr>)];
        e = \<lparr>ev_host_id = ''h1'', ev_host = ''h1'', ev_key = ''stale'', ev_kind = Recovered,
              ev_sev = Warning, ev_detail = ''s''\<rparr>
    in e \<in> set (diff_snapshots old new))"
  unfolding Let_def by (subst diff_snapshots_exact [THEN conjunct2]) (simp_all add: explains_def)

end
