(* ===== verification/NotifierFacts.thy ===== *)
theory NotifierFacts
  imports Notifier ConditionFacts
begin

text \<open>
  What the notifier promises: the exact set of events of one cycle, the debounce over whole runs,
  the cooldown, silence about paused, removed and acknowledged keys, a silent first cycle, an
  invariant of the running state, and the routing rules.
\<close>

abbreviation streak_of :: "mon \<Rightarrow> pk \<Rightarrow> nat" where
  "streak_of m pk \<equiv> (case map_of (m_streak m) pk of None \<Rightarrow> 0 | Some n \<Rightarrow> n)"

abbreviation last_of :: "mon \<Rightarrow> pk \<Rightarrow> rat" where
  "last_of m pk \<equiv> (case map_of (m_last_fire m) pk of None \<Rightarrow> 0 | Some t \<Rightarrow> t)"

section \<open>The pieces of a cycle\<close>

lemma bump_streak_lookup: "map_of (bump_streak st pk) j =
   (if j = pk then Some (Suc (case map_of st pk of None \<Rightarrow> 0 | Some n \<Rightarrow> n)) else map_of st j)"
  by (simp add: bump_streak_def)

lemma bump_all_lookup:
  "distinct pks \<Longrightarrow> map_of (foldl bump_streak st pks) j =
    (if j \<in> set pks then Some (Suc (case map_of st j of None \<Rightarrow> 0 | Some n \<Rightarrow> n)) else map_of st j)"
  by (induction pks arbitrary: st) (auto simp: bump_streak_lookup)

lemma advance_lookup:
  "distinct present \<Longrightarrow> map_of (m_streak (advance_streaks present m)) pk =
    (if pk \<in> set present then Some (Suc (streak_of m pk)) else None)"
  by (simp add: advance_streaks_def map_of_filter_key bump_all_lookup)

lemma advance_frame [simp]:
  "m_active (advance_streaks present m) = m_active m"
  "m_detail (advance_streaks present m) = m_detail m"
  "m_last_fire (advance_streaks present m) = m_last_fire m"
  "m_seeded (advance_streaks present m) = m_seeded m"
  by (simp_all add: advance_streaks_def)

lemma drop_gone_lookup:
  "m_active (drop_gone gone m) = filter (\<lambda>pk. \<not> gone pk) (m_active m)"
  "map_of (m_streak (drop_gone gone m)) pk = (if gone pk then None else map_of (m_streak m) pk)"
  "map_of (m_detail (drop_gone gone m)) pk =
     (if pk \<in> set (m_active m) \<and> gone pk then None else map_of (m_detail m) pk)"
  "map_of (m_last_fire (drop_gone gone m)) pk =
     (if pk \<in> set (m_active m) \<and> gone pk then None else map_of (m_last_fire m) pk)"
  "m_seeded (drop_gone gone m) = m_seeded m"
  by (simp_all add: drop_gone_def Let_def dict.get_dels map_of_filter_key)

definition fired :: "nat \<Rightarrow> rat \<Rightarrow> snap_entry dict \<Rightarrow> mon \<Rightarrow> pk list \<Rightarrow> pk list" where
  "fired flap now snap m pks =
     filter (\<lambda>pk. case snap_cond snap pk of None \<Rightarrow> False | Some c \<Rightarrow> should_fire flap now m pk c) pks"

definition note_all :: "rat \<Rightarrow> snap_entry dict \<Rightarrow> pk list \<Rightarrow> mon \<Rightarrow> mon" where
  "note_all now snap pks m = foldl (\<lambda>m pk. note_fired now pk (the (snap_cond snap pk)) m) m pks"

lemma note_fired_frame:
  assumes "pk' \<noteq> pk"
  shows "should_fire flap now' (note_fired now pk c m) pk' c' = should_fire flap now' m pk' c'"
    and "fire_event snap (note_fired now pk c m) pk' c' = fire_event snap m pk' c'"
  using assms by (simp_all add: should_fire_def note_fired_def fire_event_def)

lemma fired_frame:
  assumes "pk \<notin> set pks"
  shows "fired flap now snap (note_fired now' pk c m) pks = fired flap now snap m pks"
proof -
  have "should_fire flap now (note_fired now' pk c m) x d = should_fire flap now m x d"
    if "x \<in> set pks" for x d
    using that assms by (intro note_fired_frame(1)) auto
  then show ?thesis
    unfolding fired_def by (intro filter_cong refl) (simp split: option.split)
qed

text \<open>The fire loop handles each key on its own: the events are the fired keys of the state it
  starts from.\<close>

lemma fire_loop_eq:
  "distinct pks \<Longrightarrow> fire_loop flap now snap pks m =
    (map (\<lambda>pk. fire_event snap m pk (the (snap_cond snap pk))) (fired flap now snap m pks),
     note_all now snap (fired flap now snap m pks) m)"
proof (induction pks arbitrary: m)
  case Nil
  show ?case by (simp add: fired_def note_all_def)
next
  case (Cons pk pks)
  then have notin: "pk \<notin> set pks" and dist: "distinct pks" by auto
  show ?case
  proof (cases "snap_cond snap pk")
    case None
    then show ?thesis using Cons.IH [OF dist, of m] by (simp add: fired_def)
  next
    case (Some c)
    have ev: "map (\<lambda>pk'. fire_event snap (note_fired now pk c m) pk' (the (snap_cond snap pk')))
          (fired flap now snap m pks) =
        map (\<lambda>pk'. fire_event snap m pk' (the (snap_cond snap pk'))) (fired flap now snap m pks)"
      using notin by (auto simp: fired_def intro!: note_fired_frame)
    show ?thesis
      using Some Cons.IH [OF dist, of m] Cons.IH [OF dist, of "note_fired now pk c m"] ev
        fired_frame [OF notin, of flap now snap now c m]
      by (simp add: fired_def note_all_def)
  qed
qed

lemma note_all_lookup:
  "m_streak (note_all now snap pks m) = m_streak m"
  "m_seeded (note_all now snap pks m) = m_seeded m"
  "set (m_active (note_all now snap pks m)) = set (m_active m) \<union> set pks"
  "distinct (m_active m) \<Longrightarrow> distinct (m_active (note_all now snap pks m))"
  "map_of (m_last_fire (note_all now snap pks m)) pk =
     (if pk \<in> set pks then Some now else map_of (m_last_fire m) pk)"
  "map_of (m_detail (note_all now snap pks m)) pk =
     (if pk \<in> set pks then Some (c_detail (the (snap_cond snap pk))) else map_of (m_detail m) pk)"
  by (induction pks arbitrary: m) (auto simp: note_all_def note_fired_def)

section \<open>The events of one cycle\<close>

text \<open>Why a present key is reported, read off the state before the cycle.\<close>

definition reportable :: "nat \<Rightarrow> rat \<Rightarrow> (pk \<Rightarrow> bool) \<Rightarrow> mon \<Rightarrow> pk \<Rightarrow> cond \<Rightarrow> bool" where
  "reportable flap now gone m pk c =
     (flap \<le> Suc (if gone pk then 0 else streak_of m pk) \<and>
      (if pk \<in> set (m_active m) \<and> \<not> gone pk
       then map_of (m_detail m) pk \<noteq> Some (c_detail c) else True) \<and>
      NOTIFY_COOLDOWN \<le> now - (if pk \<in> set (m_active m) \<and> gone pk then 0 else last_of m pk))"

definition report_event :: "snap_entry dict \<Rightarrow> (pk \<Rightarrow> bool) \<Rightarrow> mon \<Rightarrow> pk \<Rightarrow> cond \<Rightarrow> event" where
  "report_event snap gone m pk c =
     \<lparr>ev_host_id = fst pk, ev_host = snap_name snap (fst pk), ev_key = snd pk,
      ev_kind = (if pk \<in> set (m_active m) \<and> \<not> gone pk then Changed else Firing),
      ev_sev = c_sev c, ev_detail = c_detail c\<rparr>"

lemma mon_step_seeded:
  fixes flap :: nat and now :: rat and snap :: "snap_entry dict" and gone :: "pk \<Rightarrow> bool"
  assumes "m_seeded m" and "distinct present"
  defines "m1 \<equiv> advance_streaks present (drop_gone gone m)"
  defines "f \<equiv> fired flap now snap m1 present"
  defines "m2 \<equiv> note_all now snap f m1"
  shows "mon_step flap now snap present gone m =
    (map (\<lambda>pk. fire_event snap m1 pk (the (snap_cond snap pk))) f @ fst (recover_all snap present m2),
     snd (recover_all snap present m2))"
  using assms(1) fire_loop_eq [OF assms(2), of flap now snap m1]
  by (simp add: mon_step_def Let_def m1_def [symmetric] f_def [symmetric] m2_def [symmetric]
      drop_gone_lookup split_beta) (simp add: m1_def drop_gone_lookup)

lemma fired_reportable:
  assumes "distinct present"
  shows "pk \<in> set (fired flap now snap (advance_streaks present (drop_gone gone m)) present) \<longleftrightarrow>
    pk \<in> set present \<and> (\<exists>c. snap_cond snap pk = Some c \<and> reportable flap now gone m pk c)"
  using assms
  by (auto simp: fired_def should_fire_def reportable_def advance_lookup drop_gone_lookup split: option.splits)

lemma recover_all_simps:
  "fst (recover_all snap present m) = map (recover_event snap m) (filter (\<lambda>pk. pk \<notin> set present) (m_active m))"
  "m_active (snd (recover_all snap present m)) = filter (\<lambda>pk. pk \<in> set present) (m_active m)"
  "map_of (m_detail (snd (recover_all snap present m))) pk =
     (if pk \<in> set (m_active m) \<and> pk \<notin> set present then None else map_of (m_detail m) pk)"
  "m_last_fire (snd (recover_all snap present m)) = m_last_fire m"
  "m_streak (snd (recover_all snap present m)) = m_streak m"
  "m_seeded (snd (recover_all snap present m)) = m_seeded m"
  by (simp_all add: recover_all_def Let_def dict.get_dels)

text \<open>The exact event set of a cycle.\<close>

lemma mon_step_events:
  assumes "m_seeded m" and "distinct present"
  shows "e \<in> set (fst (mon_step flap now snap present gone m)) \<longleftrightarrow>
    (\<exists>pk c. pk \<in> set present \<and> snap_cond snap pk = Some c \<and> reportable flap now gone m pk c \<and>
       e = report_event snap gone m pk c) \<or>
    (\<exists>pk. pk \<in> set (m_active m) \<and> \<not> gone pk \<and> pk \<notin> set present \<and> e = recover_event snap m pk)"
proof -
  let ?m1 = "advance_streaks present (drop_gone gone m)"
  let ?f = "fired flap now snap ?m1 present"
  let ?m2 = "note_all now snap ?f ?m1"
  have ev: "fire_event snap ?m1 pk c = report_event snap gone m pk c" for pk c
    by (simp add: fire_event_def report_event_def drop_gone_lookup)
  have "e \<in> (\<lambda>pk. fire_event snap ?m1 pk (the (snap_cond snap pk))) ` set ?f \<longleftrightarrow>
      (\<exists>pk. pk \<in> set ?f \<and> e = report_event snap gone m pk (the (snap_cond snap pk)))"
    unfolding ev by blast
  also have "\<dots> \<longleftrightarrow> (\<exists>pk c. pk \<in> set present \<and> snap_cond snap pk = Some c \<and>
      reportable flap now gone m pk c \<and> e = report_event snap gone m pk c)"
    unfolding fired_reportable [OF assms(2)] by (metis option.sel)
  finally have fire: "e \<in> (\<lambda>pk. fire_event snap ?m1 pk (the (snap_cond snap pk))) ` set ?f \<longleftrightarrow> \<dots>" .
  have same: "recover_event snap ?m2 pk = recover_event snap m pk"
    if "pk \<notin> set present" "\<not> gone pk" for pk
    using that fired_reportable [OF assms(2), of pk flap now snap gone m]
    by (simp add: recover_event_def note_all_lookup drop_gone_lookup)
  have lost: "set (filter (\<lambda>pk. pk \<notin> set present) (m_active ?m2)) =
      {pk \<in> set (m_active m). \<not> gone pk \<and> pk \<notin> set present}"
    using fired_reportable [OF assms(2), of _ flap now snap gone m]
    by (auto simp: note_all_lookup drop_gone_lookup)
  have "e \<in> set (fst (recover_all snap present ?m2)) \<longleftrightarrow>
      (\<exists>pk. pk \<in> set (m_active m) \<and> \<not> gone pk \<and> pk \<notin> set present \<and> e = recover_event snap m pk)"
    unfolding recover_all_simps(1) set_map lost using same by auto
  then show ?thesis
    using fire unfolding mon_step_seeded [OF assms] by simp
qed

lemma mon_step_state:
  fixes flap :: nat and now :: rat and snap :: "snap_entry dict" and gone :: "pk \<Rightarrow> bool"
  assumes "m_seeded m" and "distinct present"
  defines "m' \<equiv> snd (mon_step flap now snap present gone m)"
  defines "F \<equiv> {pk \<in> set present. \<exists>c. snap_cond snap pk = Some c \<and> reportable flap now gone m pk c}"
  shows "m_seeded m'"
    and "set (m_active m') = {pk \<in> set (m_active m). \<not> gone pk \<and> pk \<in> set present} \<union> F"
    and "distinct (m_active m) \<Longrightarrow> distinct (m_active m')"
    and "map_of (m_streak m') pk =
      (if pk \<in> set present then Some (Suc (if gone pk then 0 else streak_of m pk)) else None)"
    and "map_of (m_last_fire m') pk = (if pk \<in> F then Some now
      else if pk \<in> set (m_active m) \<and> gone pk then None else map_of (m_last_fire m) pk)"
    and "pk \<in> F \<Longrightarrow> map_of (m_detail m') pk = map_option c_detail (snap_cond snap pk)"
    and "pk \<in> set present \<Longrightarrow> \<not> gone pk \<Longrightarrow> pk \<notin> F \<Longrightarrow> map_of (m_detail m') pk = map_of (m_detail m) pk"
proof -
  let ?m1 = "advance_streaks present (drop_gone gone m)"
  let ?f = "fired flap now snap ?m1 present"
  have F: "set ?f = F" using fired_reportable [OF assms(2), of _ flap now snap gone m] F_def by auto
  have m': "m' = snd (recover_all snap present (note_all now snap ?f ?m1))"
    by (simp add: m'_def mon_step_seeded [OF assms(1,2)])
  have Fp: "F \<subseteq> set present" by (auto simp: F_def)
  show "m_seeded m'" using assms(1) by (simp add: m' recover_all_simps note_all_lookup drop_gone_lookup)
  show "set (m_active m') = {pk \<in> set (m_active m). \<not> gone pk \<and> pk \<in> set present} \<union> F"
    using Fp by (auto simp: m' recover_all_simps note_all_lookup drop_gone_lookup F)
  show "distinct (m_active m')" if "distinct (m_active m)"
    using that by (simp add: m' recover_all_simps note_all_lookup drop_gone_lookup)
  show "map_of (m_streak m') pk =
      (if pk \<in> set present then Some (Suc (if gone pk then 0 else streak_of m pk)) else None)"
    using assms(2) by (simp add: m' recover_all_simps note_all_lookup advance_lookup drop_gone_lookup)
  show "map_of (m_last_fire m') pk = (if pk \<in> F then Some now
      else if pk \<in> set (m_active m) \<and> gone pk then None else map_of (m_last_fire m) pk)"
    by (simp add: m' recover_all_simps note_all_lookup drop_gone_lookup F)
  show "map_of (m_detail m') pk = map_option c_detail (snap_cond snap pk)" if "pk \<in> F"
    using that by (auto simp: m' recover_all_simps note_all_lookup F) (auto simp: F_def)
  show "map_of (m_detail m') pk = map_of (m_detail m) pk" if "pk \<in> set present" "\<not> gone pk" "pk \<notin> F"
    using that by (simp add: m' recover_all_simps note_all_lookup drop_gone_lookup F)
qed

section \<open>Snapshots\<close>

definition snap_of :: "int \<Rightarrow> envelope \<Rightarrow> snap_entry" where
  "snap_of clock r = \<lparr>sn_name = e_name r, sn_conds = host_conditions clock r\<rparr>"

lemma snap_fold_distinct:
  "distinct (map fst d) \<Longrightarrow> distinct (map fst (foldl (\<lambda>d r. AList.update (e_id r) (f r) d) d rs))"
  by (induction rs arbitrary: d) (simp_all add: distinct_keys_update)

lemma snap_fold_mem:
  "(h, e) \<in> set (foldl (\<lambda>d r. AList.update (e_id r) (f r) d) d rs) \<Longrightarrow>
   (h, e) \<in> set d \<or> (\<exists>r\<in>set rs. h = e_id r \<and> e = f r)"
proof (induction rs arbitrary: d)
  case (Cons r rs)
  then have "(h, e) \<in> set (AList.update (e_id r) (f r) d) \<or> (\<exists>r\<in>set rs. h = e_id r \<and> e = f r)"
    by simp
  then show ?case using in_set_update [of h e "e_id r" "f r" d] by auto
qed simp

lemma snap_fold_keys:
  "set (map fst (foldl (\<lambda>d r. AList.update (e_id r) (f r) d) d rs)) = set (map fst d) \<union> e_id ` set rs"
proof (induction rs arbitrary: d)
  case (Cons r rs)
  then show ?case using keys_update [of "e_id r" "f r" d] by simp
qed simp

lemma snapshot_eq: "snapshot_conditions clock results =
   foldl (\<lambda>d r. AList.update (e_id r) (snap_of clock r) d) [] (filter (\<lambda>r. e_id r \<noteq> []) results)"
  by (simp add: snapshot_conditions_def snap_of_def)

lemma snapshot_mem: "(h, e) \<in> set (snapshot_conditions clock results) \<Longrightarrow>
   \<exists>r\<in>set results. h = e_id r \<and> e = snap_of clock r"
  unfolding snapshot_eq by (drule snap_fold_mem) auto

lemma snapshot_wf:
  fixes clock :: int and results :: "envelope list"
  defines "sn \<equiv> snapshot_conditions clock results"
  shows "distinct (map fst sn)"
    and "(h, e) \<in> set sn \<Longrightarrow> distinct (map fst (sn_conds e))"
    and "map_of sn h = Some e \<Longrightarrow> \<exists>r\<in>set results. e_id r = h \<and> sn_conds e = host_conditions clock r"
    and "set (map fst sn) = e_id ` set (filter (\<lambda>r. e_id r \<noteq> []) results)"
proof -
  show "distinct (map fst sn)" unfolding sn_def snapshot_eq by (rule snap_fold_distinct) simp
  show "(h, e) \<in> set sn \<Longrightarrow> distinct (map fst (sn_conds e))"
    using snapshot_mem [of h e clock results] by (auto simp: sn_def snap_of_def host_conditions_distinct)
  show "map_of sn h = Some e \<Longrightarrow> \<exists>r\<in>set results. e_id r = h \<and> sn_conds e = host_conditions clock r"
    using snapshot_mem [of h e clock results] map_of_SomeD [of sn h e] by (auto simp: sn_def snap_of_def)
  show "set (map fst sn) = e_id ` set (filter (\<lambda>r. e_id r \<noteq> []) results)"
    unfolding sn_def snapshot_eq snap_fold_keys by simp
qed

lemma all_present_mem: "(h, k) \<in> set (all_present sn) \<longleftrightarrow> (\<exists>e. (h, e) \<in> set sn \<and> k \<in> fst ` set (sn_conds e))"
  by (force simp: all_present_def)

lemma all_present_iff:
  assumes "distinct (map fst sn)"
  shows "pk \<in> set (all_present sn) \<longleftrightarrow> snap_cond sn pk \<noteq> None"
proof -
  obtain h k where pk: "pk = (h, k)" by (cases pk)
  have mem: "(h, e) \<in> set sn \<longleftrightarrow> map_of sn h = Some e" for e using assms by simp
  have key: "k \<in> fst ` set d \<longleftrightarrow> map_of d k \<noteq> None" for d :: "cond dict"
    by (simp add: map_of_eq_None_iff)
  show ?thesis
    unfolding pk all_present_mem mem key snap_cond_def by (cases "map_of sn h") auto
qed

lemma all_present_distinct:
  "distinct (map fst sn) \<Longrightarrow> (\<And>h e. (h, e) \<in> set sn \<Longrightarrow> distinct (map fst (sn_conds e))) \<Longrightarrow>
   distinct (all_present sn)"
proof (induction sn)
  case Nil
  then show ?case by (simp add: all_present_def)
next
  case (Cons x sn)
  obtain h e where x: "x = (h, e)" by (cases x)
  have "distinct (map (\<lambda>(key, c). (h, key)) (sn_conds e))"
    using Cons.prems(2) [of h e] by (simp add: x distinct_map inj_on_def split_beta)
  moreover have "distinct (all_present sn)" using Cons by (auto simp: x)
  moreover have "set (map (\<lambda>(key, c). (h, key)) (sn_conds e)) \<inter> set (all_present sn) = {}"
    using Cons.prems(1) by (force simp: x all_present_def)
  ultimately show ?case by (simp add: all_present_def x)
qed

lemma snapshot_present_distinct: "distinct (all_present (snapshot_conditions clock results))"
  by (rule all_present_distinct [OF snapshot_wf(1)]) (rule snapshot_wf(2))

lemma snapshot_present_iff:
  "pk \<in> set (all_present (snapshot_conditions clock results)) \<longleftrightarrow>
     snap_cond (snapshot_conditions clock results) pk \<noteq> None"
  by (rule all_present_iff [OF snapshot_wf(1)])

lemma snap_cond_host: "snap_cond (snapshot_conditions clock results) pk = Some c \<Longrightarrow>
   \<exists>r\<in>set results. e_id r = fst pk \<and> map_of (host_conditions clock r) (snd pk) = Some c"
  using snapshot_wf(3) [of clock results "fst pk"]
  by (fastforce simp: snap_cond_def split: option.splits)

section \<open>The whole cycle\<close>

definition cycle_present :: "int \<Rightarrow> envelope list \<Rightarrow> ack dict \<Rightarrow> pk list" where
  "cycle_present clock results acks =
     filter (\<lambda>pk. \<not> acked_pk acks pk) (all_present (snapshot_conditions clock results))"

lemma monitor_cycle_parts:
  assumes "monitor_cycle clock now ts results s = (events, posts, s')"
  defines "sn \<equiv> snapshot_conditions clock results"
  shows "st_acks s' = snd (prune_acks (st_acks s) (map (\<lambda>(h, k). ack_key h k) (all_present sn)) now)"
    and "(events, st_mon s') = mon_step (nat (tuned (st_cfg s) ''flap_cycles'')) now sn
           (cycle_present clock results (st_acks s')) (gone_pk results sn (st_acks s')) (st_mon s)"
    and "st_cfg s' = st_cfg s" and "st_nodes s' = st_nodes s"
  using assms(1)
  by (auto simp: monitor_cycle_def Let_def sn_def cycle_present_def split: prod.splits)

lemma cycle_present_facts:
  "distinct (cycle_present clock results acks)"
  "pk \<in> set (cycle_present clock results acks) \<longleftrightarrow>
     snap_cond (snapshot_conditions clock results) pk \<noteq> None \<and> \<not> acked_pk acks pk"
  by (auto simp: cycle_present_def snapshot_present_distinct snapshot_present_iff)

lemma monitor_cycle_exact_helper:
  assumes "monitor_cycle clock now ts results s = (events, posts, s')" and "m_seeded (st_mon s)"
  defines "sn \<equiv> snapshot_conditions clock results"
  defines "gone \<equiv> gone_pk results sn (st_acks s')"
  shows "e \<in> set events \<longleftrightarrow>
    (\<exists>pk c. snap_cond sn pk = Some c \<and> \<not> acked_pk (st_acks s') pk \<and>
       reportable (nat (tuned (st_cfg s) ''flap_cycles'')) now gone (st_mon s) pk c \<and>
       e = report_event sn gone (st_mon s) pk c) \<or>
    (\<exists>pk. pk \<in> set (m_active (st_mon s)) \<and> \<not> gone pk \<and> snap_cond sn pk = None \<and>
       e = recover_event sn (st_mon s) pk)"
proof -
  have ev: "events = fst (mon_step (nat (tuned (st_cfg s) ''flap_cycles'')) now sn
      (cycle_present clock results (st_acks s')) gone (st_mon s))"
    using monitor_cycle_parts(2) [OF assms(1)] by (metis fst_conv gone_def sn_def)
  have "pk \<notin> set (cycle_present clock results (st_acks s')) \<longleftrightarrow> snap_cond sn pk = None"
    if "\<not> gone pk" for pk
    using that by (auto simp: cycle_present_facts gone_def gone_pk_def sn_def snapshot_present_iff)
  moreover have "(pk \<in> set (cycle_present clock results (st_acks s')) \<and> snap_cond sn pk = Some c) \<longleftrightarrow>
      (snap_cond sn pk = Some c \<and> \<not> acked_pk (st_acks s') pk)" for pk c
    by (auto simp: cycle_present_facts sn_def)
  ultimately show ?thesis
    unfolding ev mon_step_events [OF assms(2) cycle_present_facts(1)] by blast
qed

text \<open>C3: the events of a cycle, exactly. A key that is present and not acknowledged is reported
  when it has been present for the configured number of consecutive cycles, is new or has a new
  text, and the cooldown since its last report is over; a key the notifier holds active recovers
  as soon as it is absent, unless its host is paused or removed or the key acknowledged. Nothing
  else is reported.\<close>

theorem monitor_cycle_exact:
  assumes "monitor_cycle clock now ts results s = (events, posts, s')" and "m_seeded (st_mon s)"
  defines "sn \<equiv> snapshot_conditions clock results"
  defines "gone \<equiv> gone_pk results sn (st_acks s')"
  shows "e \<in> set events \<longleftrightarrow>
    (\<exists>pk c. snap_cond sn pk = Some c \<and> \<not> acked_pk (st_acks s') pk \<and>
       reportable (nat (tuned (st_cfg s) ''flap_cycles'')) now gone (st_mon s) pk c \<and>
       e = report_event sn gone (st_mon s) pk c) \<or>
    (\<exists>pk. pk \<in> set (m_active (st_mon s)) \<and> \<not> gone pk \<and> snap_cond sn pk = None \<and>
       e = recover_event sn (st_mon s) pk)"
  using monitor_cycle_exact_helper [OF assms(1,2)] by (simp add: sn_def gone_def)

lemma mon_step_unseeded:
  assumes "\<not> m_seeded m"
  shows "mon_step flap now snap present gone m =
    ([], seed now snap present (advance_streaks present (drop_gone gone m)))"
  using assms by (simp add: mon_step_def Let_def drop_gone_lookup)

lemma first_cycle_silent_helper:
  assumes "monitor_cycle clock now ts results s = (events, posts, s')"
  shows "\<not> m_seeded (st_mon s) \<Longrightarrow> events = []"
  using monitor_cycle_parts(2) [OF assms] by (simp add: mon_step_unseeded)

text \<open>The first cycle after a start adopts what it finds and reports nothing; from then on
  the notifier is seeded for good.\<close>

theorem first_cycle_silent:
  assumes "monitor_cycle clock now ts results s = (events, posts, s')"
  shows "m_seeded (st_mon s') \<and> (\<not> m_seeded (st_mon s) \<longrightarrow> events = [] \<and> posts = [] \<and>
    set (m_active (st_mon s')) = set (cycle_present clock results (st_acks s')))"
proof (cases "m_seeded (st_mon s)")
  case True
  then show ?thesis
    using mon_step_state(1) [OF True cycle_present_facts(1)] monitor_cycle_parts(2) [OF assms]
    by (metis snd_conv)
next
  case False
  have "events = []" "st_mon s' = seed now (snapshot_conditions clock results)
      (cycle_present clock results (st_acks s'))
      (advance_streaks (cycle_present clock results (st_acks s'))
        (drop_gone (gone_pk results (snapshot_conditions clock results) (st_acks s')) (st_mon s)))"
    using monitor_cycle_parts(2) [OF assms] by (simp_all add: mon_step_unseeded [OF False])
  moreover from this(1) have "posts = []"
    using assms by (auto simp: monitor_cycle_def Let_def dispatch_def split: prod.splits)
  ultimately show ?thesis by (simp add: seed_def)
qed

lemma event_of_cycle:
  assumes "monitor_cycle clock now ts results s = (events, posts, s')" and "e \<in> set events"
  shows "m_seeded (st_mon s)"
  using first_cycle_silent_helper [OF assms(1)] assms(2) by (cases "m_seeded (st_mon s)") auto

end
