(* ===== verification/AckFacts.thy ===== *)
theory AckFacts
  imports NotifierFacts
begin

text \<open>
  What an acknowledgement does: the split of a host's entries loses nothing and keeps the order, an
  acknowledgement hides exactly its key until it ends or is withdrawn, its recorded times are within
  the bounds, and what one monitor cycle keeps of the store.
\<close>

section \<open>The split\<close>

text \<open>An acknowledgement never loses an entry. The live and the acknowledged half together are
  the host's entries, each half in the original order, an entry is acknowledged exactly when the
  store holds a record for its key that has not run out, and it carries that record.\<close>

theorem split_acked_partition:
  "fst (split_acked es acks h now) =
     filter (\<lambda>e. \<not> (\<exists>a. map_of acks (ack_key h (h_key e)) = Some a \<and> ack_live now a)) es \<and>
   map fst (snd (split_acked es acks h now)) =
     filter (\<lambda>e. \<exists>a. map_of acks (ack_key h (h_key e)) = Some a \<and> ack_live now a) es \<and>
   list_all (\<lambda>(e, a). map_of acks (ack_key h (h_key e)) = Some a) (snd (split_acked es acks h now)) \<and>
   length (fst (split_acked es acks h now)) + length (snd (split_acked es acks h now)) = length es"
proof -
  let ?hid = "\<lambda>e. \<exists>a. map_of acks (ack_key h (h_key e)) = Some a \<and> ack_live now a"
  have "length (snd (split_acked es acks h now)) = length (filter ?hid es)"
    by (metis length_map split_acked_filter(2))
  then have "length (fst (split_acked es acks h now)) + length (snd (split_acked es acks h now)) = length es"
    unfolding split_acked_filter(1) using sum_length_filter_compl [of ?hid es] by simp
  moreover have "list_all (\<lambda>(e, a). map_of acks (ack_key h (h_key e)) = Some a) (snd (split_acked es acks h now))"
    using split_acked_acks [of _ _ es acks h now] by (auto simp: list_all_iff)
  ultimately show ?thesis using split_acked_filter by blast
qed

section \<open>Making and withdrawing one\<close>

lemma acks_add_done:
  assumes "acks_add c now data s = (Done a, s')"
  obtains n where "find_node (g_scope c) (field_str (jget data ''host_id'')) (st_nodes s) = Some n"
    "cond_key_ok (field_str (jget data ''key''))" "clean_ack data (g_name c) now = Done a"
    "st_acks s' = AList.update (ack_key (n_id n) (field_str (jget data ''key''))) a (st_acks s)"
    "st_nodes s' = st_nodes s"
  using assms
  by (auto simp: acks_add_def Let_def set_audit_def bust_fleet_def split: option.splits if_splits resp.splits)

lemma clean_ack_bounds:
  assumes "clean_ack data who now = Done a" and "0 \<le> now"
  shows "a_by a = who" and "length (a_note a) \<le> 200" and "a_ts a = \<lfloor>now\<rfloor>"
    and "(a_until a = None \<and> \<not> hours_given (jget data ''hours'')) \<or>
      (\<exists>u. a_until a = Some u \<and> now - 1 < of_int u \<and> of_int u \<le> now + 30 * 24 * 3600)"
proof -
  have len: "length (one_line 200 x) \<le> 200" for x by (rule one_line_length) simp
  have tr: "py_trunc now = \<lfloor>now\<rfloor>" using assms(2) by (simp add: py_trunc_def)
  show "a_by a = who" "length (a_note a) \<le> 200" "a_ts a = \<lfloor>now\<rfloor>"
    using assms(1) by (cases rule: clean_ack_cases; simp add: clean_ack_record_def len tr)+
  show "(a_until a = None \<and> \<not> hours_given (jget data ''hours'')) \<or>
      (\<exists>u. a_until a = Some u \<and> now - 1 < of_int u \<and> of_int u \<le> now + 30 * 24 * 3600)"
    using assms(1)
  proof (cases rule: clean_ack_cases)
    case 1
    then show ?thesis by (simp add: clean_ack_record_def)
  next
    case (2 r)
    then show ?thesis using assms(2) py_trunc_bounds [of "now + r * 3600"]
      by (auto simp: clean_ack_record_def)
  qed
qed

text \<open>C9: a stored acknowledgement names its author, is at most 200 characters of note, and ends
  within 30 days or never, never only when the request asked for no duration. From the moment it
  is stored until it ends it hides exactly its own condition on its own host; withdrawing it
  brings the condition back.\<close>

theorem ack_lifecycle:
  assumes "acks_add c now data s = (Done a, s')" and "0 \<le> now"
  shows "\<exists>h key. h = field_str (jget data ''host_id'') \<and> key = field_str (jget data ''key'') \<and>
    a_by a = g_name c \<and> length (a_note a) \<le> 200 \<and>
    (case a_until a of None \<Rightarrow> \<not> hours_given (jget data ''hours'')
      | Some u \<Rightarrow> now - 1 < of_int u \<and> of_int u \<le> now + 30 * 24 * 3600) \<and>
    (\<forall>e t. h_key e = key \<longrightarrow>
       split_acked [e] (st_acks s') h t = (if ack_live t a then ([], [(e, a)]) else ([e], []))) \<and>
    (\<forall>k. k \<noteq> ack_key h key \<longrightarrow> map_of (st_acks s') k = map_of (st_acks s) k) \<and>
    (\<exists>s''. acks_delete c h key s' = (Done (), s'') \<and>
       (\<forall>e t. h_key e = key \<longrightarrow> split_acked [e] (st_acks s'') h t = ([e], [])))"
proof -
  obtain n where n: "find_node (g_scope c) (field_str (jget data ''host_id'')) (st_nodes s) = Some n"
    "clean_ack data (g_name c) now = Done a" "st_nodes s' = st_nodes s"
    "st_acks s' = AList.update (ack_key (n_id n) (field_str (jget data ''key''))) a (st_acks s)"
    using acks_add_done [OF assms(1)] by metis
  have id: "n_id n = field_str (jget data ''host_id'')" using find_node_Some [OF n(1)] by simp
  have "case a_until a of None \<Rightarrow> \<not> hours_given (jget data ''hours'')
      | Some u \<Rightarrow> now - 1 < of_int u \<and> of_int u \<le> now + 30 * 24 * 3600"
    using clean_ack_bounds(4) [OF n(2) assms(2)] by auto
  then show ?thesis
    using clean_ack_bounds(1,2) [OF n(2) assms(2)] n(1,3,4) id
    by (auto simp: acks_delete_def set_audit_def bust_fleet_def)
qed

section \<open>The store over a monitor cycle\<close>

lemma ack_key_present:
  assumes "\<forall>r\<in>set results. CHR ''|'' \<notin> set (e_id r)" and "CHR ''|'' \<notin> set h"
  shows "ack_key h k \<in> set (map (\<lambda>(h, k). ack_key h k) (all_present (snapshot_conditions clock results))) \<longleftrightarrow>
    snap_cond (snapshot_conditions clock results) (h, k) \<noteq> None"
proof -
  let ?sn = "snapshot_conditions clock results"
  have bar: "CHR ''|'' \<notin> set (fst pk)" if pk: "pk \<in> set (all_present ?sn)" for pk
  proof -
    obtain c where "snap_cond ?sn pk = Some c" using pk snapshot_present_iff by fastforce
    then show ?thesis using snap_cond_host assms(1) by fastforce
  qed
  have "ack_key h k \<in> (\<lambda>(h, k). ack_key h k) ` set (all_present ?sn) \<longleftrightarrow> (h, k) \<in> set (all_present ?sn)"
  proof
    assume "ack_key h k \<in> (\<lambda>(h, k). ack_key h k) ` set (all_present ?sn)"
    then obtain h' k' where p: "(h', k') \<in> set (all_present ?sn)" "ack_key h k = ack_key h' k'" by auto
    then show "(h, k) \<in> set (all_present ?sn)"
      using ack_key_inj [OF assms(2), of h'] bar [OF p(1)] by auto
  qed force
  then show ?thesis by (simp add: snapshot_present_iff)
qed

lemma cycle_acks_lookup:
  assumes "monitor_cycle clock now ts results s = (events, posts, s')"
    and "distinct (map fst (st_acks s))"
    and "\<forall>r\<in>set results. CHR ''|'' \<notin> set (e_id r)" and "CHR ''|'' \<notin> set h"
  shows "map_of (st_acks s') (ack_key h k) =
    (case map_of (st_acks s) (ack_key h k) of None \<Rightarrow> None
     | Some a \<Rightarrow> if snap_cond (snapshot_conditions clock results) (h, k) \<noteq> None \<and> ack_live now a
         then Some a else None)"
  unfolding monitor_cycle_parts(1) [OF assms(1)] prune_acks_lookup [OF assms(2)]
    ack_key_present [OF assms(3,4)] by (rule refl)

text \<open>A monitor cycle keeps an acknowledgement exactly as long as the condition it is about is
  there and its time has not run out, and changes none.\<close>

theorem cycle_keeps_acks:
  assumes "monitor_cycle clock now ts results s = (events, posts, s')"
    and "distinct (map fst (st_acks s))"
    and "\<forall>r\<in>set results. CHR ''|'' \<notin> set (e_id r)" and "CHR ''|'' \<notin> set h"
  shows "distinct (map fst (st_acks s')) \<and>
    (map_of (st_acks s') (ack_key h k) = Some a \<longleftrightarrow>
      map_of (st_acks s) (ack_key h k) = Some a \<and> ack_live now a \<and>
      snap_cond (snapshot_conditions clock results) (h, k) \<noteq> None)"
  using cycle_acks_lookup [OF assms, of k] prune_acks_distinct [OF assms(2)]
    monitor_cycle_parts(1) [OF assms(1)] by (auto split: option.splits)

text \<open>Pausing a host throws its acknowledgements away: a paused host has no conditions, so the
  next cycle prunes every acknowledgement on it although the conditions did not clear, and they
  alert again when the pause ends. The comment in \<open>prune_acks\<close> promises that only a cleared
  condition ends an acknowledgement.\<close>

theorem pause_drops_acks:
  assumes "monitor_cycle clock now ts results s = (events, posts, s')"
    and "distinct (map fst (st_acks s))" and "distinct (map e_id results)"
    and "\<forall>r\<in>set results. CHR ''|'' \<notin> set (e_id r)" and "r \<in> set results" and "e_disabled r"
  shows "map_of (st_acks s') (ack_key (e_id r) key) = None"
proof -
  have "r' = r" if "r' \<in> set results" "e_id r' = e_id r" for r'
    using that assms(3,5) by (simp add: distinct_map inj_on_def)
  moreover have "host_conditions clock r = []" using assms(6) by (simp add: host_conditions_def)
  ultimately have "snap_cond (snapshot_conditions clock results) (e_id r, key) = None"
    using snap_cond_host [of clock results "(e_id r, key)"]
    by (metis fst_conv map_of.simps(1) not_None_eq option.simps(3))
  then show ?thesis
    using cycle_acks_lookup [OF assms(1,2,4), of "e_id r" key] assms(4,5) by (auto split: option.split)
qed

text \<open>an integer too large for a float is not a number of hours the code rejects but an
  exception no handler catches: \<open>clean_ack\<close> catches \<open>TypeError\<close> and \<open>ValueError\<close> only.\<close>

theorem ack_hours_overflow:
  "clean_ack [(''hours'', JInt (2 ^ 1024))] who now = Crash OverflowError"
proof -
  have "to_float (2 ^ 1024) = PosInf" by (simp add: to_float_def float_overflow_def)
  then show ?thesis
    by (simp add: clean_ack_def jget_def hours_given_def py_float_def)
qed


section \<open>Concrete instances\<close>

definition ack_app :: app where
  "ack_app = empty_app\<lparr>st_nodes := [sample_node ''h1'' ''h1'']\<rparr>"

definition ack_request :: "json dict" where
  "ack_request = [(''host_id'', JStr ''h1''), (''key'', JStr ''alerts''), (''hours'', JInt 2),
     (''note'', JStr ''disk ordered'')]"

definition admin_ctx :: ctx where
  "admin_ctx = \<lparr>g_name = ''admin'', g_role = ''admin'', g_scope = None, g_token = None\<rparr>"

definition acked_app :: app where
  "acked_app = snd (acks_add admin_ctx 1000 ack_request ack_app)"

definition demo_ack :: ack where
  "demo_ack = \<lparr>a_by = ''admin'', a_note = ''disk ordered'', a_ts = 1000, a_until = Some 8200\<rparr>"

lemma demo_clean_ack: "clean_ack ack_request ''admin'' 1000 = Done demo_ack"
proof -
  have "py_float (JInt 2) = Inr (Fin 2)" by (simp add: py_float_def to_float_def float_overflow_def)
  moreover have "one_line 200 ''disk ordered'' = ''disk ordered''" by code_simp
  ultimately show ?thesis
    by (simp add: clean_ack_def ack_request_def jget_def hours_given_def ACK_MAX_HOURS_def
        clean_ack_record_def demo_ack_def py_trunc_def py_str_def)
qed

lemma demo_fields:
  "field_str (jget ack_request ''host_id'') = ''h1''" "field_str (jget ack_request ''key'') = ''alerts''"
  "find_node None ''h1'' (st_nodes ack_app) = Some (sample_node ''h1'' ''h1'')" "cond_key_ok ''alerts''"
  by code_simp+

lemma demo_add_eq: "acks_add admin_ctx 1000 ack_request ack_app = (Done demo_ack,
   set_audit ''h1 ack alerts for 2h'' (bust_fleet (ack_app\<lparr>st_acks := [(''h1|alerts'', demo_ack)]\<rparr>)))"
proof -
  have "n_id (sample_node ''h1'' ''h1'') = ''h1''" "n_name (sample_node ''h1'' ''h1'') = ''h1''"
    by (simp_all add: sample_node_def)
  moreover have "st_acks ack_app = []" by (simp add: ack_app_def empty_app_def)
  moreover have digit: "digit_char 2 = CHR ''2''"
    by code_simp
  moreover have "ack_span ack_request demo_ack = '' for 2h''"
    by (simp add: digit ack_span_def demo_ack_def ack_request_def jget_def py_str_def show_int_def show_nat.simps)
  ultimately show ?thesis
    unfolding acks_add_def by (simp add: demo_fields admin_ctx_def demo_clean_ack ack_key_def Let_def)
qed

lemma demo_ack_add: "acks_add admin_ctx 1000 ack_request ack_app = (Done demo_ack, acked_app)"
  "st_acks acked_app = [(''h1|alerts'', demo_ack)]"
  unfolding acked_app_def demo_add_eq by (simp_all add: set_audit_def bust_fleet_def)

lemmas acked_app_acks = demo_ack_add(2)

theorem ack_lifecycle_witness:
  "fst (acks_add admin_ctx 1000 ack_request ack_app) = Done demo_ack \<and>
   split_acked [\<lparr>h_key = ''alerts'', h_sev = Warning, h_detail = ''d'', h_since = None\<rparr>]
     (st_acks acked_app) ''h1'' 8000 =
     ([], [(\<lparr>h_key = ''alerts'', h_sev = Warning, h_detail = ''d'', h_since = None\<rparr>, demo_ack)])"
  using ack_lifecycle [OF demo_ack_add(1)] demo_ack_add(1)
  by (auto simp: demo_fields ack_live_def demo_ack_def)

definition alert_host :: envelope where
  "alert_host = (base_envelope (sample_node ''h1'' ''h1''))\<lparr>e_ok := True,
     e_summary := Some (no_summary\<lparr>su_alerts := [''disk'']\<rparr>)\<rparr>"

theorem cycle_keeps_acks_witness:
  "map_of (st_acks (snd (snd (monitor_cycle 0 5000 ''t'' [alert_host] acked_app)))) (ack_key ''h1'' ''alerts'') =
     Some demo_ack"
proof -
  obtain ev po s' where mc: "monitor_cycle 0 5000 ''t'' [alert_host] acked_app = (ev, po, s')"
    by (metis prod_cases3)
  have c: "snap_cond (snapshot_conditions 0 [alert_host]) (''h1'', ''alerts'') \<noteq> None" by code_simp
  have e: "e_id alert_host = ''h1''" by (simp add: alert_host_def base_envelope_def sample_node_def)
  show ?thesis
    using cycle_keeps_acks [OF mc, of "''h1''" "''alerts''" demo_ack] acked_app_acks c
    by (simp add: mc e ack_key_def ack_live_def demo_ack_def)
qed

theorem pause_drops_acks_witness:
  "map_of (st_acks acked_app) (ack_key ''h1'' ''alerts'') = Some demo_ack \<and>
   map_of (st_acks (snd (snd (monitor_cycle 0 5000 ''t'' [alert_host\<lparr>e_disabled := True\<rparr>] acked_app))))
     (ack_key ''h1'' ''alerts'') = None"
proof -
  let ?r = "alert_host\<lparr>e_disabled := True\<rparr>"
  obtain ev po s' where mc: "monitor_cycle 0 5000 ''t'' [?r] acked_app = (ev, po, s')"
    by (metis prod_cases3)
  have e: "e_id ?r = ''h1''" by (simp add: alert_host_def base_envelope_def sample_node_def)
  show ?thesis
    using pause_drops_acks [OF mc, of ?r "''alerts''"] acked_app_acks by (simp add: mc e ack_key_def)
qed

end
