(* ===== verification/NotifierRuns.thy ===== *)
theory NotifierRuns
  imports NotifierFacts
begin

text \<open>
  Properties of whole runs of the notifier: the invariant of its state, the debounce, the
  cooldown, its silence about paused, removed and acknowledged keys, what a cycle does to the
  acknowledgements, and two situations where the notifier says something the host did not.
\<close>

section \<open>The invariant\<close>

definition mon_ok :: "mon \<Rightarrow> bool" where
  "mon_ok m = (distinct (m_active m) \<and>
     (\<forall>pk\<in>set (m_active m). map_of (m_detail m) pk \<noteq> None \<and> map_of (m_last_fire m) pk \<noteq> None))"

lemma fold_update_lookup:
  "map_of (foldl (\<lambda>d pk. AList.update pk v d) d pks) pk = (if pk \<in> set pks then Some v else map_of d pk)"
  by (induction pks arbitrary: d) auto

lemma seed_detail_lookup:
  "map_of (foldl (\<lambda>d pk. case snap_cond sn pk of None \<Rightarrow> d | Some c \<Rightarrow> AList.update pk (c_detail c) d) d pks) pk =
    (if pk \<in> set pks \<and> snap_cond sn pk \<noteq> None then map_option c_detail (snap_cond sn pk) else map_of d pk)"
  by (induction pks arbitrary: d) (auto split: option.split)

lemma seed_ok:
  assumes "distinct present" and "\<forall>pk\<in>set present. snap_cond sn pk \<noteq> None"
  shows "mon_ok (seed now sn present m)"
  using assms by (auto simp: mon_ok_def seed_def fold_update_lookup seed_detail_lookup)

lemma mon_step_ok:
  assumes "mon_ok m" and "distinct present" and "\<forall>pk\<in>set present. snap_cond sn pk \<noteq> None"
  shows "mon_ok (snd (mon_step flap now sn present gone m))"
proof (cases "m_seeded m")
  case False
  then show ?thesis using seed_ok [OF assms(2,3)] by (simp add: mon_step_unseeded)
next
  case True
  let ?m' = "snd (mon_step flap now sn present gone m)"
  define F where "F = {pk \<in> set present. \<exists>c. snap_cond sn pk = Some c \<and> reportable flap now gone m pk c}"
  note st = mon_step_state [OF True assms(2), where flap = flap and now = now and snap = sn and gone = gone,
      folded F_def]
  have "map_of (m_detail ?m') pk \<noteq> None \<and> map_of (m_last_fire ?m') pk \<noteq> None"
    if pk: "pk \<in> set (m_active ?m')" for pk
  proof (cases "pk \<in> F")
    case F: True
    then show ?thesis using st(5) [of pk] st(6) [OF F] assms(3) by (auto simp: F_def)
  next
    case False
    then have "pk \<in> set (m_active m)" "\<not> gone pk" "pk \<in> set present" using pk st(2) by auto
    then show ?thesis using st(5) [of pk] st(7) [of pk] False assms(1) by (auto simp: mon_ok_def)
  qed
  then show ?thesis using st(3) assms(1) by (simp add: mon_ok_def)
qed

text \<open>One cycle as a step: clock, unix time, time stamp and the envelopes of the fan-out.\<close>

type_synonym cycle = "int \<times> rat \<times> string \<times> envelope list"

definition cycle_step :: "app \<Rightarrow> cycle \<Rightarrow> app" where
  "cycle_step s x = (case x of (clock, now, ts, results) \<Rightarrow> snd (snd (monitor_cycle clock now ts results s)))"

definition cycle_events :: "app \<Rightarrow> cycle \<Rightarrow> event list" where
  "cycle_events s x = (case x of (clock, now, ts, results) \<Rightarrow> fst (monitor_cycle clock now ts results s))"

definition cycle_snap :: "cycle \<Rightarrow> snap_entry dict" where
  "cycle_snap x = (case x of (clock, now, ts, results) \<Rightarrow> snapshot_conditions clock results)"

definition cycle_now :: "cycle \<Rightarrow> rat" where
  "cycle_now x = (case x of (clock, now, ts, results) \<Rightarrow> now)"

text \<open>The keys the notifier forgets in a cycle.\<close>

definition cycle_gone :: "app \<Rightarrow> cycle \<Rightarrow> pk \<Rightarrow> bool" where
  "cycle_gone s x = (case x of (clock, now, ts, results) \<Rightarrow>
     gone_pk results (snapshot_conditions clock results) (st_acks (cycle_step s x)))"

definition cycle_live :: "app \<Rightarrow> cycle \<Rightarrow> pk list" where
  "cycle_live s x = (case x of (clock, now, ts, results) \<Rightarrow>
     cycle_present clock results (st_acks (cycle_step s x)))"

lemma cycle_step_mon:
  "(cycle_events s x, st_mon (cycle_step s x)) =
     mon_step (nat (tuned (st_cfg s) ''flap_cycles'')) (cycle_now x) (cycle_snap x)
       (cycle_live s x) (cycle_gone s x) (st_mon s)"
  "st_cfg (cycle_step s x) = st_cfg s"
proof -
  obtain clock now ts results where x: "x = (clock, now, ts, results)" by (cases x)
  obtain ev po s' where mc: "monitor_cycle clock now ts results s = (ev, po, s')" by (metis prod_cases3)
  show "(cycle_events s x, st_mon (cycle_step s x)) =
     mon_step (nat (tuned (st_cfg s) ''flap_cycles'')) (cycle_now x) (cycle_snap x)
       (cycle_live s x) (cycle_gone s x) (st_mon s)"
    using monitor_cycle_parts(2) [OF mc]
    by (simp add: x mc cycle_events_def cycle_step_def cycle_snap_def cycle_now_def cycle_live_def cycle_gone_def)
  show "st_cfg (cycle_step s x) = st_cfg s"
    using monitor_cycle_parts(3) [OF mc] by (simp add: x mc cycle_step_def)
qed

lemma cycle_step_state:
  "st_mon (cycle_step s x) = snd (mon_step (nat (tuned (st_cfg s) ''flap_cycles'')) (cycle_now x)
     (cycle_snap x) (cycle_live s x) (cycle_gone s x) (st_mon s))"
  "cycle_events s x = fst (mon_step (nat (tuned (st_cfg s) ''flap_cycles'')) (cycle_now x)
     (cycle_snap x) (cycle_live s x) (cycle_gone s x) (st_mon s))"
  unfolding cycle_step_mon(1) [of s x, symmetric] by simp_all

lemma cycle_live_facts:
  "distinct (cycle_live s x)" "pk \<in> set (cycle_live s x) \<Longrightarrow> pk \<in> set (all_present (cycle_snap x))"
  "pk \<in> set (cycle_live s x) \<Longrightarrow> snap_cond (cycle_snap x) pk \<noteq> None"
  by (cases x, auto simp: cycle_live_def cycle_snap_def cycle_present_facts snapshot_present_iff)+

lemma cycle_step_ok: "mon_ok (st_mon s) \<Longrightarrow> mon_ok (st_mon (cycle_step s x))"
proof -
  assume ok: "mon_ok (st_mon s)"
  have "mon_ok (snd (mon_step (nat (tuned (st_cfg s) ''flap_cycles'')) (cycle_now x) (cycle_snap x)
      (cycle_live s x) (cycle_gone s x) (st_mon s)))"
    using cycle_live_facts(3) [where s = s and x = x] by (intro mon_step_ok [OF ok cycle_live_facts(1)]) blast
  then show ?thesis unfolding cycle_step_mon(1) [of s x, symmetric] by simp
qed

interpretation notifier: step_system cycle_step "\<lambda>s. mon_ok (st_mon s)"
  by unfold_locales (rule cycle_step_ok)

interpretation notifier_cfg: monotone_system cycle_step "\<lambda>s. True" "\<lambda>s t. st_cfg s = st_cfg t"
  by unfold_locales (simp_all add: cycle_step_mon(2))

lemma run_cfg: "st_cfg (foldl cycle_step s xs) = st_cfg s"
  using notifier_cfg.run_le [of s xs] by simp

text \<open>After any sequence of cycles from a fresh start every active key has the text it was
  last reported with and the time of that report, and is listed once: the recovery line and the
  cooldown never read a missing entry.\<close>

theorem notifier_run_ok:
  "st_mon s = mon_start \<Longrightarrow> mon_ok (st_mon (foldl cycle_step s xs))"
  by (rule notifier.run_inv) (simp add: mon_ok_def mon_start_def)

theorem notifier_run_ok_witness:
  "mon_ok (st_mon (foldl cycle_step empty_app [(0, 60, ''t'', [(down_host ''x'')])]))"
proof (rule notifier_run_ok)
  show "st_mon empty_app = mon_start" by (simp add: empty_app_def)
qed

section \<open>Debounce\<close>

lemma step_streak:
  "map_of (m_streak (st_mon (cycle_step s x))) pk =
    (if pk \<in> set (cycle_live s x)
     then Some (Suc (if cycle_gone s x pk then 0 else streak_of (st_mon s) pk)) else None)"
proof (cases "m_seeded (st_mon s)")
  case True
  then show ?thesis
    unfolding cycle_step_state
    using mon_step_state(4) [OF True cycle_live_facts(1) [of s x], where pk = pk and gone = "cycle_gone s x"] by simp
next
  case False
  have "st_mon (cycle_step s x) = seed (cycle_now x) (cycle_snap x) (cycle_live s x)
      (advance_streaks (cycle_live s x) (drop_gone (cycle_gone s x) (st_mon s)))"
    using cycle_step_mon(1) [of s x] by (simp add: mon_step_unseeded [OF False])
  then show ?thesis
    by (simp add: seed_def advance_lookup [OF cycle_live_facts(1)] drop_gone_lookup)
qed

definition present_run :: "cycle list \<Rightarrow> pk \<Rightarrow> nat" where
  "present_run xs pk = length (takeWhile (\<lambda>x. pk \<in> set (all_present (cycle_snap x))) (rev xs))"

lemma present_run_snoc:
  "present_run (xs @ [x]) pk = (if pk \<in> set (all_present (cycle_snap x)) then Suc (present_run xs pk) else 0)"
  by (simp add: present_run_def)

lemma streak_bound:
  assumes "m_streak (st_mon s) = []"
  shows "streak_of (st_mon (foldl cycle_step s xs)) pk \<le> present_run xs pk"
proof (induction xs rule: rev_induct)
  case Nil
  then show ?case using assms by simp
next
  case (snoc x xs)
  let ?s = "foldl cycle_step s xs"
  have "streak_of (st_mon (cycle_step ?s x)) pk \<le>
      (if pk \<in> set (cycle_live ?s x) then Suc (streak_of (st_mon ?s) pk) else 0)"
    by (simp add: step_streak)
  also have "\<dots> \<le> present_run (xs @ [x]) pk"
    using snoc.IH cycle_live_facts(2) [of pk ?s x] by (simp add: present_run_snoc)
  finally show ?case by simp
qed

lemma cycle_event_cases:
  assumes "e \<in> set (cycle_events s x)"
  obtains (fire) pk c where "pk \<in> set (cycle_live s x)" "snap_cond (cycle_snap x) pk = Some c"
      "reportable (nat (tuned (st_cfg s) ''flap_cycles'')) (cycle_now x) (cycle_gone s x) (st_mon s) pk c"
      "e = report_event (cycle_snap x) (cycle_gone s x) (st_mon s) pk c" "m_seeded (st_mon s)"
  | (recover) pk where "pk \<in> set (m_active (st_mon s))" "\<not> cycle_gone s x pk" "pk \<notin> set (cycle_live s x)"
      "e = recover_event (cycle_snap x) (st_mon s) pk" "m_seeded (st_mon s)"
proof -
  have ev: "cycle_events s x = fst (mon_step (nat (tuned (st_cfg s) ''flap_cycles'')) (cycle_now x)
      (cycle_snap x) (cycle_live s x) (cycle_gone s x) (st_mon s))"
    using cycle_step_mon(1) [of s x] by (metis fst_conv)
  have sd: "m_seeded (st_mon s)"
    using assms ev mon_step_unseeded [of "st_mon s"] by (cases "m_seeded (st_mon s)") auto
  show thesis
    using assms that sd unfolding ev mon_step_events [OF sd cycle_live_facts(1)] by blast
qed

lemma report_event_sel [simp]:
  "ev_host_id (report_event sn gone m pk c) = fst pk" "ev_key (report_event sn gone m pk c) = snd pk"
  "ev_kind (report_event sn gone m pk c) \<noteq> Recovered"
  "ev_host_id (recover_event sn m pk) = fst pk" "ev_key (recover_event sn m pk) = snd pk"
  "ev_kind (recover_event sn m pk) = Recovered"
  by (simp_all add: report_event_def recover_event_def)

text \<open>C5: the debounce holds over every run from a start: a condition is only ever reported as
  firing or changed when it was present in each of the last \<open>flap_cycles\<close> cycles, this one
  included, so a single dropped poll never notifies.\<close>

theorem notify_debounced:
  assumes "st_mon s = mon_start" and "e \<in> set (cycle_events (foldl cycle_step s xs) x)"
    and "ev_kind e \<noteq> Recovered"
  shows "nat (tuned (st_cfg s) ''flap_cycles'') \<le> present_run (xs @ [x]) (ev_host_id e, ev_key e)"
  using assms(2)
proof (cases rule: cycle_event_cases)
  case (fire pk c)
  let ?s = "foldl cycle_step s xs"
  have "nat (tuned (st_cfg s) ''flap_cycles'') \<le> Suc (streak_of (st_mon ?s) pk)"
    using fire(3) by (auto simp: reportable_def run_cfg split: if_splits)
  also have "\<dots> \<le> present_run (xs @ [x]) pk"
    using streak_bound [of s xs pk] assms(1) cycle_live_facts(2) [OF fire(1)]
    by (simp add: present_run_snoc mon_start_def)
  finally show ?thesis using fire(4) by simp
next
  case (recover pk)
  then show ?thesis using assms(3) by simp
qed

section \<open>Cooldown\<close>

lemma step_last_fire:
  assumes "m_seeded (st_mon s)" and "\<not> cycle_gone s x pk"
  shows "map_of (m_last_fire (st_mon (cycle_step s x))) pk =
    (if \<exists>e\<in>set (cycle_events s x). (ev_host_id e, ev_key e) = pk \<and> ev_kind e \<noteq> Recovered
     then Some (cycle_now x) else map_of (m_last_fire (st_mon s)) pk)"
proof -
  let ?fl = "nat (tuned (st_cfg s) ''flap_cycles'')"
  let ?rep = "\<lambda>pk c. reportable ?fl (cycle_now x) (cycle_gone s x) (st_mon s) pk c"
  have ev: "cycle_events s x = fst (mon_step ?fl (cycle_now x) (cycle_snap x) (cycle_live s x) (cycle_gone s x) (st_mon s))"
    using cycle_step_mon(1) [of s x] by (metis fst_conv)
  have "(\<exists>e\<in>set (cycle_events s x). (ev_host_id e, ev_key e) = pk \<and> ev_kind e \<noteq> Recovered) \<longleftrightarrow>
      (\<exists>c. pk \<in> set (cycle_live s x) \<and> snap_cond (cycle_snap x) pk = Some c \<and> ?rep pk c)" (is "?l \<longleftrightarrow> ?r")
  proof
    assume ?l
    then show ?r by (auto elim!: cycle_event_cases)
  next
    assume ?r
    then obtain c where c: "pk \<in> set (cycle_live s x)" "snap_cond (cycle_snap x) pk = Some c" "?rep pk c" by blast
    then have "report_event (cycle_snap x) (cycle_gone s x) (st_mon s) pk c \<in> set (cycle_events s x)"
      unfolding ev mon_step_events [OF assms(1) cycle_live_facts(1)] by blast
    then show ?l by (rule bexI [rotated]) simp
  qed
  moreover have "map_of (m_last_fire (st_mon (cycle_step s x))) pk =
      (if pk \<in> {pk \<in> set (cycle_live s x). \<exists>c. snap_cond (cycle_snap x) pk = Some c \<and> ?rep pk c}
       then Some (cycle_now x) else map_of (m_last_fire (st_mon s)) pk)"
    unfolding cycle_step_state
    using mon_step_state(5) [OF assms(1) cycle_live_facts(1) [of s x], where pk = pk and gone = "cycle_gone s x"
        and flap = ?fl and now = "cycle_now x" and snap = "cycle_snap x"] assms(2) by (auto split: if_splits)
  ultimately show ?thesis by auto
qed

lemma step_seeded: "m_seeded (st_mon (cycle_step s x))"
proof -
  obtain clock now ts results where x: "x = (clock, now, ts, results)" by (cases x)
  obtain ev po s' where mc: "monitor_cycle clock now ts results s = (ev, po, s')" by (metis prod_cases3)
  show ?thesis
  proof (cases "m_seeded (st_mon s)")
    case True
    then show ?thesis
      using mon_step_state(1) [OF True cycle_live_facts(1) [of s x]] cycle_step_mon(1) [of s x] by (metis snd_conv)
  next
    case False
    then show ?thesis using cycle_step_mon(1) [of s x] by (simp add: mon_step_unseeded seed_def)
  qed
qed

text \<open>The key is not forgotten in any cycle of a run.\<close>

text \<open>Between two cycles the requests of administrators and operators change anything but the notifier's own state: a
  turn is what they leave and the next cycle.\<close>

type_synonym turn = "app \<times> cycle"

definition amid :: "app \<Rightarrow> app \<Rightarrow> app" where
  "amid s others = others\<lparr>st_mon := st_mon s\<rparr>"

definition turn_step :: "app \<Rightarrow> turn \<Rightarrow> app" where
  "turn_step s t = cycle_step (amid s (fst t)) (snd t)"

text \<open>Some cycle of the turns forgets the key: its host is paused or gone, or the condition is acknowledged.\<close>

fun forgets :: "app \<Rightarrow> turn list \<Rightarrow> pk \<Rightarrow> bool" where
  "forgets s [] pk = False"
| "forgets s (t # ts) pk = (cycle_gone (amid s (fst t)) (snd t) pk \<or> forgets (turn_step s t) ts pk)"

lemma st_mon_amid [simp]: "st_mon (amid s others) = st_mon s"
  by (simp add: amid_def)

lemma forgets_snoc: "forgets s (ts @ [t]) pk \<longleftrightarrow> forgets s ts pk \<or> cycle_gone (amid (foldl turn_step s ts) (fst t)) (snd t) pk"
  by (induction ts arbitrary: s) auto

lemma last_fire_kept:
  assumes "m_seeded (st_mon s)" and "\<not> forgets s ts pk" and "map_of (m_last_fire (st_mon s)) pk = Some u"
    and "t \<le> u" and "\<forall>x\<in>set ts. t \<le> cycle_now (snd x)"
  shows "\<exists>t'. map_of (m_last_fire (st_mon (foldl turn_step s ts))) pk = Some t' \<and> t \<le> t'"
  using assms
proof (induction ts arbitrary: s u)
  case Nil
  then show ?case by simp
next
  case (Cons x ts)
  obtain u1 where "map_of (m_last_fire (st_mon (turn_step s x))) pk = Some u1" "u1 \<in> {u, cycle_now (snd x)}"
    using step_last_fire [of "amid s (fst x)" "snd x" pk] Cons.prems by (auto simp: turn_step_def split: if_splits)
  then show ?case using Cons.IH [of "turn_step s x" u1] Cons.prems step_seeded by (auto simp: turn_step_def)
qed

lemma report_stamps:
  assumes "e \<in> set (cycle_events s x)" and "ev_kind e \<noteq> Recovered"
  shows "map_of (m_last_fire (st_mon (cycle_step s x))) (ev_host_id e, ev_key e) = Some (cycle_now x)"
  using assms(1)
proof (cases rule: cycle_event_cases)
  case (fire pk c)
  show ?thesis
    unfolding cycle_step_state
    using mon_step_state(5) [OF fire(5) cycle_live_facts(1) [of s x], where pk = pk] fire by auto
next
  case (recover pk)
  then show ?thesis using assms(2) by simp
qed

lemma report_cooled:
  assumes "e \<in> set (cycle_events s x)" and "ev_kind e \<noteq> Recovered"
    and "\<not> cycle_gone s x (ev_host_id e, ev_key e)"
    and "map_of (m_last_fire (st_mon s)) (ev_host_id e, ev_key e) = Some t"
  shows "NOTIFY_COOLDOWN \<le> cycle_now x - t"
  using assms(1)
proof (cases rule: cycle_event_cases)
  case (fire pk c)
  then show ?thesis using assms by (simp add: reportable_def)
next
  case (recover pk)
  then show ?thesis using assms(2) by simp
qed

text \<open>C4: Two reports of the same key are at least the cooldown apart, over any run of cycles with any requests between
  them, unless a cycle in between forgot the key: its host was paused or removed, or the condition acknowledged,
  then. (The clock of the cycles does not fall behind that of the first report.)\<close>

theorem notify_cooldown:
  assumes "e1 \<in> set (cycle_events s x)" and "e2 \<in> set (cycle_events (amid (foldl turn_step (cycle_step s x) ts) others) y)"
    and "ev_kind e1 \<noteq> Recovered" and "ev_kind e2 \<noteq> Recovered"
    and "(ev_host_id e1, ev_key e1) = (ev_host_id e2, ev_key e2)"
    and "\<forall>t\<in>set ts. cycle_now x \<le> cycle_now (snd t)"
  shows "1800 \<le> cycle_now y - cycle_now x \<or> forgets (cycle_step s x) (ts @ [(others, y)]) (ev_host_id e2, ev_key e2)"
proof (rule disjCI)
  let ?pk = "(ev_host_id e2, ev_key e2)"
  let ?s = "foldl turn_step (cycle_step s x) ts"
  assume "\<not> forgets (cycle_step s x) (ts @ [(others, y)]) ?pk"
  then have kept: "\<not> forgets (cycle_step s x) ts ?pk" "\<not> cycle_gone (amid ?s others) y ?pk"
    by (simp_all add: forgets_snoc)
  have "map_of (m_last_fire (st_mon (cycle_step s x))) ?pk = Some (cycle_now x)"
    using report_stamps [OF assms(1,3)] assms(5) by simp
  then obtain t where "map_of (m_last_fire (st_mon ?s)) ?pk = Some t" "cycle_now x \<le> t"
    using last_fire_kept [OF step_seeded [of s x] kept(1) _ order_refl assms(6)] by blast
  then show "1800 \<le> cycle_now y - cycle_now x"
    using report_cooled [OF assms(2,4) kept(2), of t] by (simp add: NOTIFY_COOLDOWN_def)
qed

section \<open>Silence\<close>

text \<open>Every event is about a host of the cycle that is not paused: a report names a condition
  that host has now and nobody acknowledged, a recovery one that it has no longer.\<close>

theorem notify_only_live_hosts:
  assumes "monitor_cycle clock now ts results s = (events, posts, s')" and "e \<in> set events"
    and "distinct (map e_id results)"
  shows "\<exists>r\<in>set results. e_id r = ev_host_id e \<and> \<not> e_disabled r \<and>
    (if ev_kind e = Recovered then map_of (host_conditions clock r) (ev_key e) = None
     else map_of (host_conditions clock r) (ev_key e) \<noteq> None \<and>
       \<not> acked_pk (st_acks s') (ev_host_id e, ev_key e))"
proof -
  let ?sn = "snapshot_conditions clock results"
  have dis: "host_conditions clock r = []" if "e_disabled r" for r
    using that by (simp add: host_conditions_def)
  have uniq: "r = r'" if "r \<in> set results" "r' \<in> set results" "e_id r = e_id r'" for r r'
    using that assms(3) by (simp add: distinct_map inj_on_def)
  have seeded: "m_seeded (st_mon s)" by (rule event_of_cycle [OF assms(1,2)])
  from assms(2) [unfolded monitor_cycle_exact_helper [OF assms(1) seeded]] show ?thesis
  proof (elim disjE exE conjE)
    fix pk c
    assume c: "snap_cond ?sn pk = Some c" and na: "\<not> acked_pk (st_acks s') pk"
      and e: "e = report_event ?sn (gone_pk results ?sn (st_acks s')) (st_mon s) pk c"
    obtain r where r: "r \<in> set results" "e_id r = fst pk" "map_of (host_conditions clock r) (snd pk) = Some c"
      using snap_cond_host [OF c] by blast
    then have "\<not> e_disabled r" using dis by fastforce
    then show ?thesis using r na e by (intro bexI [of _ r]) simp_all
  next
    fix pk
    assume ng: "\<not> gone_pk results ?sn (st_acks s') pk" and none: "snap_cond ?sn pk = None"
      and e: "e = recover_event ?sn (st_mon s) pk"
    have "fst pk \<in> fst ` set ?sn" using ng by (simp add: gone_pk_def)
    then obtain en where en: "map_of ?sn (fst pk) = Some en" by (metis map_of_eq_None_iff not_None_eq)
    then obtain r where r: "r \<in> set results" "e_id r = fst pk" "sn_conds en = host_conditions clock r"
      using snapshot_wf(3) [OF en] by blast
    have "\<not> e_disabled r" using ng r by (auto simp: gone_pk_def)
    then show ?thesis using r en none e by (intro bexI [of _ r]) (simp_all add: snap_cond_def)
  qed
qed

text \<open>The notifier cannot tell a condition that cleared from one it can no longer see. When a
  host becomes unreachable, every other condition it held active is reported as recovered in that
  very cycle, although nothing is known about it.\<close>

theorem unreachable_reports_recovery:
  assumes "monitor_cycle clock now ts results s = (events, posts, s')" and "m_seeded (st_mon s)"
    and "distinct (map e_id results)" and "r \<in> set results" and "e_id r \<noteq> []"
    and "\<not> e_disabled r" and "\<not> e_ok r" and "key \<notin> {''unreachable'', ''cert_changed''}"
    and "(e_id r, key) \<in> set (m_active (st_mon s))"
  shows "recover_event (snapshot_conditions clock results) (st_mon s) (e_id r, key) \<in> set events"
proof -
  let ?sn = "snapshot_conditions clock results"
  have uniq: "r' = r" if "r' \<in> set results" "e_id r' = e_id r" for r'
    using that assms(3,4) by (simp add: distinct_map inj_on_def)
  have "map_of (host_conditions clock r) key = None"
    using assms(6-8) by (simp add: host_conditions_def down_conditions_def)
  then have none: "snap_cond ?sn (e_id r, key) = None"
    using uniq snap_cond_host [of clock results "(e_id r, key)"] by (metis fst_conv not_None_eq option.simps(3) snd_conv)
  have "e_id r \<in> fst ` set ?sn" using snapshot_wf(4) [of clock results] assms(4,5) by auto
  moreover have "e_id r \<notin> e_id ` set (filter e_disabled results)" using uniq assms(6) by auto
  ultimately have "\<not> gone_pk results ?sn (st_acks s') (e_id r, key)"
    using none by (simp add: gone_pk_def snapshot_present_iff)
  then show ?thesis
    unfolding monitor_cycle_exact_helper [OF assms(1,2)] using none assms(9) by blast
qed


section \<open>A concrete run\<close>

text \<open>A host goes down at second 2000, is reported at the second cycle that sees it, and again when
  its error text changes after the cooldown.\<close>

definition demo_cycle :: "rat \<Rightarrow> string \<Rightarrow> cycle" where
  "demo_cycle now err = (0, now, ''t'', [down_host err])"

definition demo1 :: app where
  "demo1 = foldl cycle_step empty_app [(0, 0, ''t'', []), demo_cycle 2000 ''x'']"

definition demo2 :: app where "demo2 = cycle_step demo1 (demo_cycle 2060 ''x'')"

definition demo_event :: "event_kind \<Rightarrow> string \<Rightarrow> event" where
  "demo_event k err = \<lparr>ev_host_id = ''h1'', ev_host = ''h1'', ev_key = ''unreachable'', ev_kind = k,
     ev_sev = Critical, ev_detail = err\<rparr>"

lemma demo_start: "st_mon empty_app = mon_start"
  by (simp add: empty_app_def)

lemma demo1_seeded: "m_seeded (st_mon demo1)"
  by (simp add: demo1_def step_seeded)

lemma demo_reported: "cycle_events demo1 (demo_cycle 2060 ''x'') = [demo_event Firing ''x'']"
  by code_simp

lemma demo_changed: "cycle_events demo2 (demo_cycle 4000 ''y'') = [demo_event Changed ''y'']"
  by code_simp

lemma demo_kept: "\<not> forgets demo2 [(demo2, demo_cycle 4000 ''y'')] (''h1'', ''unreachable'')"
  by code_simp

lemma demo_amid: "amid demo2 demo2 = demo2"
  by (simp add: amid_def)

lemma demo_events_of:
  "cycle_events s (demo_cycle now err) = fst (monitor_cycle 0 now ''t'' [down_host err] s)"
  by (simp add: cycle_events_def demo_cycle_def)

theorem notify_debounced_witness:
  "demo_event Firing ''x'' \<in> set (cycle_events demo1 (demo_cycle 2060 ''x'')) \<and>
   nat (tuned (st_cfg empty_app) ''flap_cycles'') \<le>
     present_run [(0, 0, ''t'', []), demo_cycle 2000 ''x'', demo_cycle 2060 ''x''] (''h1'', ''unreachable'')"
  using notify_debounced [OF demo_start, of "demo_event Firing ''x''"
      "[(0, 0, ''t'', []), demo_cycle 2000 ''x'']" "demo_cycle 2060 ''x''"] demo_reported
  by (simp add: demo1_def demo_event_def)

theorem notify_cooldown_witness:
  "demo_event Firing ''x'' \<in> set (cycle_events demo1 (demo_cycle 2060 ''x'')) \<and>
   demo_event Changed ''y'' \<in> set (cycle_events demo2 (demo_cycle 4000 ''y'')) \<and>
   (1800::rat) \<le> cycle_now (demo_cycle 4000 ''y'') - cycle_now (demo_cycle 2060 ''x'')"
  using notify_cooldown [of "demo_event Firing ''x''" demo1 "demo_cycle 2060 ''x''"
      "demo_event Changed ''y''" "[]" demo2 "demo_cycle 4000 ''y''"] demo_reported demo_changed demo_kept demo_amid
  by (auto simp: demo_event_def simp flip: demo2_def)

theorem notify_only_live_hosts_witness:
  "demo_event Firing ''x'' \<in> set (cycle_events demo1 (demo_cycle 2060 ''x'')) \<and>
   map_of (host_conditions 0 (down_host ''x'')) ''unreachable'' \<noteq> None"
proof -
  obtain posts s' where mc: "monitor_cycle 0 2060 ''t'' [down_host ''x''] demo1 = ([demo_event Firing ''x''], posts, s')"
    using demo_reported demo_events_of [of demo1 2060 "''x''"] by (metis prod.collapse)
  show ?thesis
    using notify_only_live_hosts [OF mc, of "demo_event Firing ''x''"] demo_reported
    by (simp add: demo_event_def)
qed

theorem monitor_cycle_exact_witness:
  "\<exists>pk c. snap_cond (snapshot_conditions 0 [down_host ''x'']) pk = Some c \<and>
     demo_event Firing ''x'' = report_event (snapshot_conditions 0 [down_host ''x''])
       (gone_pk [down_host ''x''] (snapshot_conditions 0 [down_host ''x''])
          (st_acks (snd (snd (monitor_cycle 0 2060 ''t'' [down_host ''x''] demo1))))) (st_mon demo1) pk c"
proof -
  obtain posts s' where mc: "monitor_cycle 0 2060 ''t'' [down_host ''x''] demo1 = ([demo_event Firing ''x''], posts, s')"
    using demo_reported demo_events_of [of demo1 2060 "''x''"] by (metis prod.collapse)
  have "demo_event Firing ''x'' \<noteq> recover_event sn m pk" for sn m pk
    by (simp add: demo_event_def recover_event_def)
  then show ?thesis
    using monitor_cycle_exact [OF mc demo1_seeded, of "demo_event Firing ''x''"] by (auto simp: mc)
qed

theorem first_cycle_silent_witness:
  "fst (monitor_cycle 0 60 ''t'' [down_host ''x''] empty_app) = []"
  using first_cycle_silent [of 0 60 "''t''" "[down_host ''x'']" empty_app]
  by (cases "monitor_cycle 0 60 ''t'' [down_host ''x''] empty_app") (simp add: demo_start mon_start_def)

text \<open>A host with a degraded pool that is active, and then unreachable.\<close>

definition pool_host :: envelope where
  "pool_host = (base_envelope (sample_node ''h1'' ''h1''))\<lparr>e_ok := True,
     e_nas := Some (no_nas\<lparr>nas_pools_degraded := 1\<rparr>)\<rparr>"

definition demo3 :: app where
  "demo3 = cycle_step empty_app (0, 60, ''t'', [pool_host])"

lemma demo3_facts:
  "m_seeded (st_mon demo3)" "(''h1'', ''pool_degraded'') \<in> set (m_active (st_mon demo3))"
  by code_simp+

theorem unreachable_reports_recovery_witness:
  "recover_event (snapshot_conditions 0 [down_host ''no route'']) (st_mon demo3) (''h1'', ''pool_degraded'') \<in>
     set (fst (monitor_cycle 0 120 ''t'' [down_host ''no route''] demo3))"
  using unreachable_reports_recovery [of 0 120 "''t''" "[down_host ''no route'']" demo3 _ _ _
      "down_host ''no route''" "''pool_degraded''"] demo3_facts
  by (cases "monitor_cycle 0 120 ''t'' [down_host ''no route''] demo3")
    (simp add: down_host_def base_envelope_def sample_node_def)

end
