(* ===== verification/Access.thy ===== *)
theory Access
  imports Scope Text
begin

text \<open>
  Who a request is from and what it may do (\<open>app.py\<close>, "AuthN / AuthZ"): the cross-site rule, bearer
  tokens, sessions with their generation stamp, and the gate \<open>require_login\<close> every request passes.
  The digest a token is stored under (\<open>token_hash\<close>, SHA-256) is a parameter.
\<close>

definition WRITE_METHODS :: "string list" where
  "WRITE_METHODS = [''POST'', ''PUT'', ''DELETE'', ''PATCH'']"

definition ROLES :: "string list" where
  "ROLES = [''admin'', ''operator'', ''viewer'']"

definition PUBLIC_ENDPOINTS :: "string list" where
  "PUBLIC_ENDPOINTS = [''api_login'', ''api_me'', ''index'', ''static'', ''api_status'', ''sso_callback'']"

definition RBAC_EXEMPT :: "string list" where
  "RBAC_EXEMPT = [''api_logout'', ''change_password'', ''tokens_create'', ''tokens_delete'']"

definition ADMIN_ONLY :: "string list" where
  "ADMIN_ONLY = [''sso_status'', ''sso_enroll'', ''sso_disable'', ''nodes_add'', ''node_delete'',
     ''node_update'', ''node_cert'', ''node_repin'', ''checks_add'', ''checks_update'', ''checks_delete'',
     ''tuning_save'', ''tls_regenerate'', ''tls_upload_cert'', ''backup_download'', ''notifications_save'',
     ''notifications_test'', ''notifications_events'', ''users_list'', ''users_add'', ''users_update'',
     ''users_delete'', ''audit_list'', ''scope_presets_list'', ''scope_presets_save'', ''scope_presets_delete'']"

text \<open>One request as the gate sees it. The body is the parsed JSON object.\<close>

record request =
  rq_method :: string
  rq_endpoint :: string
  rq_own_hosts :: "string list"
  rq_origin :: "string option"
  rq_fetch_site :: "string option"
  rq_auth :: "string option"
  rq_session :: session

section \<open>The cross-site rule\<close>

text \<open>\<open>urlsplit(o).netloc\<close>; \<open>None\<close> is the \<open>ValueError\<close> for an unbalanced bracket.\<close>

definition scheme_char :: "char \<Rightarrow> bool" where
  "scheme_char c = (let n = (of_char c :: nat) in (97 \<le> n \<and> n \<le> 122) \<or> (65 \<le> n \<and> n \<le> 90) \<or>
     is_digit c \<or> c \<in> {CHR ''+'', CHR ''-'', CHR ''.''})"

definition drop_scheme :: "string \<Rightarrow> string" where
  "drop_scheme url =
     (let pre = takeWhile (\<lambda>c. c \<noteq> CHR '':'') url
      in if pre \<noteq> url \<and> pre \<noteq> [] \<and> list_all scheme_char pre \<and> scheme_char (hd pre) \<and>
            \<not> is_digit (hd pre) \<and> hd pre \<notin> {CHR ''+'', CHR ''-'', CHR ''.''}
         then drop (length pre + 1) url else url)"

definition url_netloc :: "string \<Rightarrow> string option" where
  "url_netloc o1 =
     (let url = filter (\<lambda>c. c \<notin> {CHR 0x09, CHR 0x0A, CHR 0x0D})
            (dropWhile (\<lambda>c. (of_char c :: nat) \<le> 32) o1);
          rest = drop_scheme url;
          loc = (if startswith ''//'' rest
                 then takeWhile (\<lambda>c. c \<notin> {CHR ''/'', CHR ''?'', CHR ''#''}) (drop 2 rest) else [])
      in if (CHR ''['' \<in> set loc) \<noteq> (CHR '']'' \<in> set loc) then None else Some loc)"

definition cross_site_request :: "string \<Rightarrow> string \<Rightarrow> string list \<Rightarrow> string option \<Rightarrow> string option \<Rightarrow>
    bool resp" where
  "cross_site_request meth endpoint own_hosts origin fetch_site =
     (if meth \<notin> set WRITE_METHODS \<and> endpoint \<noteq> ''node_ws'' then Done False
      else let own = map (\<lambda>h. lower (strip h)) (filter (\<lambda>h. h \<noteq> []) own_hosts)
        in case origin of
             Some o1 \<Rightarrow>
               let o2 = lower (strip o1)
               in if o2 = ''null'' then Done True
                  else (case url_netloc o2 of None \<Rightarrow> Crash ValueError | Some loc \<Rightarrow> Done (loc \<notin> set own))
           | None \<Rightarrow>
               (case fetch_site of
                  Some f \<Rightarrow> Done (lower (strip f) \<notin> {''same-origin'', ''none''})
                | None \<Rightarrow> Done False))"

section \<open>Credentials\<close>

definition session_gen :: "user \<Rightarrow> int" where
  "session_gen u = u_session_gen u"

definition start_session :: "string \<Rightarrow> user \<Rightarrow> session" where
  "start_session name u = \<lparr>se_user = Some name, se_gen = session_gen u\<rparr>"

definition bump_session_gen :: "user \<Rightarrow> user" where
  "bump_session_gen u = u\<lparr>u_session_gen := session_gen u + 1\<rparr>"

text \<open>\<open>'Bearer ct_...'\<close> gives the token; anything else is ignored.\<close>

definition parse_bearer :: "string option \<Rightarrow> string option" where
  "parse_bearer header = (case header of None \<Rightarrow> None
     | Some h0 \<Rightarrow>
         let h = strip h0; word = takeWhile (\<lambda>c. \<not> is_ws c) h; rest = lstrip (drop (length word) h)
         in if rest = [] \<or> lower word \<noteq> ''bearer'' then None
            else let tok = strip rest in if startswith ''ct_'' tok \<and> 20 \<le> length tok then Some tok else None)"

datatype identity = Nobody | Login (id_name: string) (id_role: string) (id_token: "string option")

text \<open>\<open>_resolve_token\<close>: \<open>None\<close> when no token was presented. A resolved token's last use is noted.\<close>

definition resolve_token :: "(string \<Rightarrow> string) \<Rightarrow> rat \<Rightarrow> request \<Rightarrow> app \<Rightarrow> identity option \<times> app" where
  "resolve_token token_hash now rq s =
     (case parse_bearer (rq_auth rq) of
        None \<Rightarrow> (None, s)
      | Some tok \<Rightarrow>
          (case map_of (cf_tokens (st_cfg s)) (token_hash tok) of
             None \<Rightarrow> (Some Nobody, s)
           | Some t \<Rightarrow>
               (case map_of (cf_users (st_cfg s)) (t_user t) of
                  None \<Rightarrow> (Some Nobody, s)
                | Some u \<Rightarrow> (Some (Login (t_user t) (u_role u) (Some (t_id t))),
                     s\<lparr>st_token_used := AList.update (t_id t) now (st_token_used s)\<rparr>))))"

definition resolve_session :: "session \<Rightarrow> config \<Rightarrow> identity" where
  "resolve_session se cfg = (case se_user se of
      None \<Rightarrow> Nobody
    | Some name \<Rightarrow> if name = [] then Nobody
        else (case map_of (cf_users cfg) name of
            None \<Rightarrow> Nobody
          | Some u \<Rightarrow> if se_gen se \<noteq> session_gen u then Nobody else Login name (u_role u) None))"

definition resolve_identity :: "(string \<Rightarrow> string) \<Rightarrow> rat \<Rightarrow> request \<Rightarrow> app \<Rightarrow> identity \<times> app" where
  "resolve_identity token_hash now rq s =
     (case resolve_token token_hash now rq s of
        (Some i, s') \<Rightarrow> (i, s')
      | (None, s') \<Rightarrow> (resolve_session (rq_session rq) (st_cfg s'), s'))"

section \<open>The gate\<close>

text \<open>\<open>Done None\<close> lets a public request through with no identity, \<open>Done (Some c)\<close> one with
  identity \<open>c\<close>. The line that a refused cross-site request leaves in the audit log is \<open>gate_trail\<close> of \<open>Requests\<close>,
  where the log is known.\<close>

definition require_login :: "(string \<Rightarrow> string) \<Rightarrow> rat \<Rightarrow> request \<Rightarrow> app \<Rightarrow> ctx option resp \<times> app" where
  "require_login token_hash now rq s =
     (case cross_site_request (rq_method rq) (rq_endpoint rq) (rq_own_hosts rq) (rq_origin rq) (rq_fetch_site rq) of
        Fail c m \<Rightarrow> (Fail c m, s)
      | Crash e \<Rightarrow> (Crash e, s)
      | Done True \<Rightarrow> (Fail 403 ''Cross-site request refused'', s)
      | Done False \<Rightarrow>
          if rq_endpoint rq \<in> set PUBLIC_ENDPOINTS then (Done None, s)
          else (case resolve_identity token_hash now rq s of
              (Nobody, s') \<Rightarrow> (Fail 401 ''Authentication required'', s')
            | (Login name role tok, s') \<Rightarrow>
                if name = [] then (Fail 401 ''Authentication required'', s')
                else
                let scope = user_scope (map_of (cf_users (st_cfg s')) name) role (cf_presets (st_cfg s'))
                in if rq_endpoint rq \<in> set ADMIN_ONLY \<and> role \<noteq> ''admin''
                     then (Fail 403 ''Admin role required'', s')
                   else if rq_method rq \<in> set WRITE_METHODS \<and> rq_endpoint rq \<notin> set RBAC_EXEMPT \<and> role = ''viewer''
                     then (Fail 403 ''Read-only account: action not permitted'', s')
                   else if rq_endpoint rq = ''node_ws'' \<and> role = ''viewer''
                     then (Fail 403 ''Read-only account: console access not permitted'', s')
                   else (Done (Some \<lparr>g_name = name, g_role = role, g_scope = scope, g_token = tok\<rparr>), s')))"

end
