(* ===== verification/Accounts.thy ===== *)
theory Accounts
  imports Access "HOL-Library.Char_ord" "HOL-Library.List_Lexorder"
begin

text \<open>
  The account routes of \<open>app.py\<close>: controller logins, scope presets, API tokens, the password
  change, the bootstrap account and the command-line password reset. Each route is a function of
  what \<open>require_login\<close> put on \<open>g\<close> (\<open>ctx\<close>), the request body and the state; the password hash
  (\<open>generate_password_hash\<close> / \<open>check_password_hash\<close>) is a parameter, as are the random values. The
  en dash of two messages is written as a hyphen.
\<close>

definition MIN_PASSWORD_LEN :: nat where "MIN_PASSWORD_LEN = 8"

definition username_char :: "char \<Rightarrow> bool" where
  "username_char c = (let n = (of_char c :: nat) in (97 \<le> n \<and> n \<le> 122) \<or> (65 \<le> n \<and> n \<le> 90) \<or>
     is_digit c \<or> c \<in> {CHR ''.'', CHR ''_'', CHR ''-''})"

text \<open>\<open>RE_USERNAME\<close> and \<open>RE_TOKEN_NAME\<close>.\<close>

definition username_ok :: "string \<Rightarrow> bool" where
  "username_ok u = (1 \<le> length u \<and> length u \<le> 32 \<and> list_all username_char u)"

definition token_name_ok :: "string \<Rightarrow> bool" where
  "token_name_ok n = (1 \<le> length n \<and> length n \<le> 48 \<and> list_all (\<lambda>c. 31 < (of_char c :: nat)) n)"

definition password_field :: "json \<Rightarrow> string option" where
  "password_field v = (case v of JStr p \<Rightarrow> if MIN_PASSWORD_LEN \<le> length p then Some p else None | _ \<Rightarrow> None)"

definition put_user :: "string \<Rightarrow> user \<Rightarrow> app \<Rightarrow> app" where
  "put_user name u s = s\<lparr>st_cfg := (st_cfg s)\<lparr>cf_users := AList.update name u (cf_users (st_cfg s))\<rparr>\<rparr>"

definition short_password :: string where
  "short_password = ''password must be at least 8 characters''"

section \<open>Logins\<close>

definition scope_note :: "string \<Rightarrow> string list \<Rightarrow> string" where
  "scope_note preset tags = (if preset = [] \<and> tags = [] then []
     else '' @'' @ (if preset \<noteq> [] then preset else join '','' tags))"

text \<open>The validation of \<open>users_add\<close>: the name, the new record and the audit target.\<close>

definition new_user :: "(string \<Rightarrow> string) \<Rightarrow> json dict \<Rightarrow> config \<Rightarrow> string \<Rightarrow> string \<Rightarrow> string \<Rightarrow>
    (string \<times> user \<times> string) resp" where
  "new_user hash_pw data cfg name role pw =
     (let preset = (if role \<noteq> ''admin'' then field_str (jget data ''scope_preset'') else []);
          tags = (if role \<noteq> ''admin'' \<and> preset = [] then clean_scope_tags (jget data ''tags'') else [])
      in if map_of (cf_users cfg) name \<noteq> None then Fail 409 ''user already exists''
         else if preset \<noteq> [] \<and> map_of (cf_presets cfg) preset = None
           then Fail 400 (''unknown scope preset: '' @ preset)
         else Done (name,
           \<lparr>u_password = hash_pw pw, u_role = role, u_must_change = True, u_tags = tags,
            u_scope_preset = (if preset = [] then None else Some preset), u_session_gen = 0\<rparr>,
           ''user:'' @ name @ '' ('' @ role @ scope_note preset tags @ '')''))"

definition check_new_user :: "(string \<Rightarrow> string) \<Rightarrow> json dict \<Rightarrow> config \<Rightarrow> (string \<times> user \<times> string) resp" where
  "check_new_user hash_pw data cfg =
     (case (if truthy (jget data ''username'') then jget data ''username'' else JStr []) of
        JStr u0 \<Rightarrow>
          if \<not> username_ok (strip u0) then Fail 400 ''username must be 1-32 chars: letters, digits, . _ -''
          else (case jget data ''role'' of
            JStr role \<Rightarrow>
              if role \<notin> set ROLES then Fail 400 ''role must be one of: admin, operator, viewer''
              else (case password_field (jget data ''password'') of
                None \<Rightarrow> Fail 400 short_password
              | Some pw \<Rightarrow> new_user hash_pw data cfg (strip u0) role pw)
          | _ \<Rightarrow> Fail 400 ''role must be one of: admin, operator, viewer'')
      | _ \<Rightarrow> Crash AttributeError)"

definition users_add :: "(string \<Rightarrow> string) \<Rightarrow> json dict \<Rightarrow> app \<Rightarrow> unit resp \<times> app" where
  "users_add hash_pw data s = (case check_new_user hash_pw data (st_cfg s) of
      Fail c m \<Rightarrow> (Fail c m, s)
    | Crash e \<Rightarrow> (Crash e, s)
    | Done (name, u, target) \<Rightarrow> (Done (), set_audit target (put_user name u s)))"

text \<open>The fields of \<open>_users_update_locked\<close>, one after the other, on a copy of the record that is
  saved only at the end.\<close>

definition update_role :: "ctx \<Rightarrow> string \<Rightarrow> json dict \<Rightarrow> user \<Rightarrow> user resp" where
  "update_role c name data u =
     (if \<not> has_key data ''role'' then Done u
      else case jget data ''role'' of
          JStr role \<Rightarrow>
            if role \<notin> set ROLES then Fail 400 ''role must be one of: admin, operator, viewer''
            else if name = g_name c \<and> role \<noteq> ''admin'' then Fail 400 ''cannot remove your own admin role''
            else Done (u\<lparr>u_role := role\<rparr>)
        | _ \<Rightarrow> Fail 400 ''role must be one of: admin, operator, viewer'')"

definition update_password :: "(string \<Rightarrow> string) \<Rightarrow> json dict \<Rightarrow> user \<Rightarrow> user resp" where
  "update_password hash_pw data u =
     (if \<not> truthy (jget data ''password'') then Done u
      else case password_field (jget data ''password'') of
          None \<Rightarrow> Fail 400 short_password
        | Some pw \<Rightarrow> Done (bump_session_gen (u\<lparr>u_password := hash_pw pw, u_must_change := True\<rparr>)))"

definition update_revoke :: "json dict \<Rightarrow> user \<Rightarrow> user" where
  "update_revoke data u = (if truthy (jget data ''revoke_sessions'') then bump_session_gen u else u)"

definition update_scope :: "string list dict \<Rightarrow> json dict \<Rightarrow> user \<Rightarrow> user resp" where
  "update_scope presets data u =
     (if \<not> has_key data ''scope_preset'' \<and> \<not> has_key data ''tags'' then Done u
      else
        let preset0 = field_str (jget data ''scope_preset'')
        in if preset0 \<noteq> [] \<and> map_of presets preset0 = None then Fail 400 (''unknown scope preset: '' @ preset0)
        else
          let preset = (if u_role u = ''admin'' then [] else preset0)
          in if preset \<noteq> [] then Done (u\<lparr>u_scope_preset := Some preset, u_tags := []\<rparr>)
             else Done (u\<lparr>u_scope_preset := None,
               u_tags := (if u_role u \<noteq> ''admin'' then clean_scope_tags (jget data ''tags'') else [])\<rparr>))"

fun then_resp :: "'a resp \<Rightarrow> ('a \<Rightarrow> 'b resp) \<Rightarrow> 'b resp" where
  "then_resp (Fail c m) f = Fail c m"
| "then_resp (Crash e) f = Crash e"
| "then_resp (Done x) f = f x"

definition update_record :: "(string \<Rightarrow> string) \<Rightarrow> ctx \<Rightarrow> string \<Rightarrow> json dict \<Rightarrow> string list dict \<Rightarrow> user \<Rightarrow> user resp" where
  "update_record hash_pw c name data presets u =
     then_resp (update_role c name data u) (\<lambda>u1.
     then_resp (update_password hash_pw data u1) (\<lambda>u2.
     update_scope presets data (update_revoke data u2)))"

definition users_update :: "(string \<Rightarrow> string) \<Rightarrow> ctx \<Rightarrow> string \<Rightarrow> json dict \<Rightarrow> session \<Rightarrow> app \<Rightarrow>
    unit resp \<times> session \<times> app" where
  "users_update hash_pw c name data se s =
     (case map_of (cf_users (st_cfg s)) name of
        None \<Rightarrow> (Fail 404 ''user not found'', se, s)
      | Some u \<Rightarrow>
          (case update_record hash_pw c name data (cf_presets (st_cfg s)) u of
             Fail code m \<Rightarrow> (Fail code m, se, s)
           | Crash e \<Rightarrow> (Crash e, se, s)
           | Done u' \<Rightarrow> (Done (), if name = g_name c then se\<lparr>se_gen := session_gen u'\<rparr> else se,
               set_audit (''user:'' @ name @ (if truthy (jget data ''revoke_sessions'') then '' (sessions revoked)'' else []))
                 (put_user name u' s))))"

definition users_delete :: "ctx \<Rightarrow> string \<Rightarrow> app \<Rightarrow> unit resp \<times> app" where
  "users_delete c name s =
     (if name = g_name c then (Fail 400 ''cannot delete your own account'', s)
      else case map_of (cf_users (st_cfg s)) name of
          None \<Rightarrow> (Fail 404 ''user not found'', s)
        | Some u \<Rightarrow>
            let admins = filter (\<lambda>(n, r). u_role r = ''admin'') (cf_users (st_cfg s))
            in if u_role u = ''admin'' \<and> length admins \<le> 1 then (Fail 400 ''cannot delete the last admin'', s)
               else
                 let toks = cf_tokens (st_cfg s);
                     mine = map fst (filter (\<lambda>(h, t). t_user t = name) toks)
                 in (Done (), set_audit (''user:'' @ name @ '' (deleted)'') (s\<lparr>st_cfg := (st_cfg s)
                      \<lparr>cf_users := AList.delete name (cf_users (st_cfg s)), cf_tokens := del_keys mine toks\<rparr>\<rparr>)))"

text \<open>The list the administrator sees: name, role, cleaned tags, preset and the change flag.\<close>

definition users_list :: "app \<Rightarrow> (string \<times> string \<times> string list \<times> string option \<times> bool) list" where
  "users_list s = sort_key (\<lambda>(n, _). lower n) (map (\<lambda>(n, r).
     (n, u_role r, clean_scope_tags (JArr (map JStr (u_tags r))), u_scope_preset r, u_must_change r))
       (cf_users (st_cfg s)))"

section \<open>Own password\<close>

definition change_password :: "(string \<Rightarrow> string) \<Rightarrow> (string \<Rightarrow> string \<Rightarrow> bool) \<Rightarrow> json dict \<Rightarrow> session \<Rightarrow> app \<Rightarrow>
    unit resp \<times> session \<times> app" where
  "change_password hash_pw check_pw data se s =
     (case (case se_user se of None \<Rightarrow> [] | Some n \<Rightarrow> n) of
        [] \<Rightarrow> (Fail 401 ''Only an interactive session can change a password'', se, s)
      | name \<Rightarrow>
          (case password_field (jget data ''new_password'') of
             None \<Rightarrow> (Fail 400 ''New password must be at least 8 characters'', se, s)
           | Some new \<Rightarrow>
               (case map_of (cf_users (st_cfg s)) name of
                  None \<Rightarrow> (Fail 400 ''Current password is incorrect'', se, s)
                | Some u \<Rightarrow>
                    (case (if truthy (jget data ''old_password'') then jget data ''old_password'' else JStr []) of
                       JStr old \<Rightarrow>
                         if \<not> check_pw (u_password u) old then (Fail 400 ''Current password is incorrect'', se, s)
                         else let u' = bump_session_gen (u\<lparr>u_password := hash_pw new, u_must_change := False\<rparr>)
                           in (Done (), se\<lparr>se_gen := session_gen u'\<rparr>, put_user name u' s)
                     | _ \<Rightarrow> (Crash AttributeError, se, s)))))"

section \<open>Scope presets\<close>

definition scope_presets_save :: "json dict \<Rightarrow> app \<Rightarrow> unit resp \<times> app" where
  "scope_presets_save data s =
     (let name = field_str (jget data ''name'')
      in if \<not> username_ok name then (Fail 400 ''preset name must be 1-32 chars: letters, digits, . _ -'', s)
      else let tags = clean_scope_tags (jget data ''tags'')
        in if tags = [] then (Fail 400 ''a preset needs at least one tag'', s)
           else (Done (), set_audit (''scope-preset:'' @ name @ '' = '' @ join '','' tags)
             (s\<lparr>st_cfg := (st_cfg s)\<lparr>cf_presets := AList.update name tags (cf_presets (st_cfg s))\<rparr>\<rparr>)))"

definition preset_holders :: "string \<Rightarrow> config \<Rightarrow> string list" where
  "preset_holders name cfg = map fst (filter (\<lambda>(n, r). u_scope_preset r = Some name) (cf_users cfg))"

definition scope_presets_delete :: "string \<Rightarrow> app \<Rightarrow> unit resp \<times> app" where
  "scope_presets_delete name s =
     (if map_of (cf_presets (st_cfg s)) name = None then (Fail 404 ''preset not found'', s)
      else let holders = preset_holders name (st_cfg s)
        in if holders \<noteq> [] then (Fail 400 (''preset is in use by: '' @ join '', '' (sort holders)), s)
           else (Done (), set_audit (''scope-preset:'' @ name @ '' (deleted)'')
             (s\<lparr>st_cfg := (st_cfg s)\<lparr>cf_presets := AList.delete name (cf_presets (st_cfg s))\<rparr>\<rparr>)))"

section \<open>API tokens\<close>

text \<open>The random secret, its id and the creation time are arguments.\<close>

definition tokens_create :: "(string \<Rightarrow> string) \<Rightarrow> ctx \<Rightarrow> session \<Rightarrow> string \<Rightarrow> string \<Rightarrow> string \<Rightarrow> json dict \<Rightarrow> app \<Rightarrow>
    string resp \<times> app" where
  "tokens_create token_hash c se secret tid created data s =
     (if g_token c \<noteq> None \<or> se_user se \<in> {None, Some []}
        then (Fail 403 ''Only an interactive session can create API tokens'', s)
      else
        let given = field_str (jget data ''name''); name = (if given = [] then ''token'' else given)
        in if \<not> token_name_ok name then (Fail 400 ''token name must be 1-48 printable characters'', s)
           else
             let tok = ''ct_'' @ secret;
                 rec = \<lparr>t_id = tid, t_user = g_name c, t_name = name, t_prefix = take 10 tok, t_created = created\<rparr>
             in (Done tok, set_audit (''token:'' @ tid @ '' ('' @ name @ '')'')
               (s\<lparr>st_cfg := (st_cfg s)\<lparr>cf_tokens := AList.update (token_hash tok) rec (cf_tokens (st_cfg s))\<rparr>\<rparr>)))"

definition tokens_delete :: "ctx \<Rightarrow> string \<Rightarrow> app \<Rightarrow> unit resp \<times> app" where
  "tokens_delete c tid s =
     (case find (\<lambda>(h, t). t_id t = tid) (cf_tokens (st_cfg s)) of
        None \<Rightarrow> (Fail 404 ''token not found'', s)
      | Some (h, t) \<Rightarrow>
          if t_user t \<noteq> g_name c \<and> g_role c \<noteq> ''admin'' then (Fail 404 ''token not found'', s)
          else (Done (), set_audit (''token:'' @ tid @ '' ('' @ t_name t @ '', '' @ t_user t @ '') revoked'')
            (s\<lparr>st_cfg := (st_cfg s)\<lparr>cf_tokens := AList.delete h (cf_tokens (st_cfg s))\<rparr>,
               st_token_used := AList.delete tid (st_token_used s)\<rparr>)))"

text \<open>The tokens a caller sees, with the time of their last use.\<close>

definition tokens_list :: "ctx \<Rightarrow> app \<Rightarrow> (token \<times> rat option) list" where
  "tokens_list c s = sort_key (\<lambda>(t, _). (t_user t, t_created t))
     (map (\<lambda>(h, t). (t, map_of (st_token_used s) (t_id t)))
       (filter (\<lambda>(h, t). g_role c = ''admin'' \<or> t_user t = g_name c) (cf_tokens (st_cfg s))))"

section \<open>Bootstrap and command line\<close>

definition ensure_bootstrap :: "(string \<Rightarrow> string) \<Rightarrow> string \<Rightarrow> config \<Rightarrow> config" where
  "ensure_bootstrap hash_pw pw cfg =
     (if cf_users cfg = [] then cfg\<lparr>cf_users := [(''admin'', \<lparr>u_password = hash_pw pw, u_role = ''admin'',
        u_must_change = True, u_tags = [], u_scope_preset = None, u_session_gen = 0\<rparr>)]\<rparr>
      else cfg)"

text \<open>\<open>cli_set_password\<close>: the new password is read from the terminal or the environment, and the
  bootstrap runs first.\<close>

definition cli_set_password :: "(string \<Rightarrow> string) \<Rightarrow> string \<Rightarrow> string \<Rightarrow> string \<Rightarrow> config \<Rightarrow> config resp" where
  "cli_set_password hash_pw boot_pw name pw cfg0 =
     (if \<not> username_ok name then Fail 1 ''Invalid username''
      else if length pw < MIN_PASSWORD_LEN then Fail 1 ''Password must be at least 8 characters''
      else
        let cfg = ensure_bootstrap hash_pw boot_pw cfg0;
            u = (case map_of (cf_users cfg) name of Some u \<Rightarrow> u
              | None \<Rightarrow> \<lparr>u_password = [], u_role = ''admin'', u_must_change = False, u_tags = [],
                  u_scope_preset = None, u_session_gen = 0\<rparr>)
        in Done (cfg\<lparr>cf_users := AList.update name (u\<lparr>u_password := hash_pw pw, u_must_change := False\<rparr>)
             (cf_users cfg)\<rparr>))"

end
