(* ===== verification/AccessFacts.thy ===== *)
theory AccessFacts
  imports Access
begin

text \<open>
  What the gate lets through: the exact condition on a request, and the refusal of cross-site
  writes before anything else is looked at.
\<close>

definition presents :: "(string \<Rightarrow> string) \<Rightarrow> request \<Rightarrow> config \<Rightarrow> string \<Rightarrow> string option \<Rightarrow> bool" where
  "presents token_hash rq cfg name tok =
     (case parse_bearer (rq_auth rq) of
        Some b \<Rightarrow> (\<exists>t. map_of (cf_tokens cfg) (token_hash b) = Some t \<and> t_user t = name \<and> tok = Some (t_id t))
      | None \<Rightarrow> tok = None \<and> se_user (rq_session rq) = Some name \<and>
          (\<exists>u. map_of (cf_users cfg) name = Some u \<and> se_gen (rq_session rq) = u_session_gen u))"

definition role_may :: "string \<Rightarrow> string \<Rightarrow> string \<Rightarrow> bool" where
  "role_may role endpoint meth =
     ((endpoint \<in> set ADMIN_ONLY \<longrightarrow> role = ''admin'') \<and>
      (role = ''viewer'' \<longrightarrow> endpoint \<noteq> ''node_ws'' \<and>
         (meth \<in> set WRITE_METHODS \<longrightarrow> endpoint \<in> set RBAC_EXEMPT)))"

lemma resolve_identity_login:
  "fst (resolve_identity th now rq s) = Login name role tok \<and> name \<noteq> [] \<longleftrightarrow>
   name \<noteq> [] \<and> presents th rq (st_cfg s) name tok \<and>
   (\<exists>u. map_of (cf_users (st_cfg s)) name = Some u \<and> role = u_role u)"
  by (auto simp: resolve_identity_def resolve_token_def resolve_session_def presents_def session_gen_def
      split: option.splits if_splits)

lemma resolve_identity_cfg: "st_cfg (snd (resolve_identity th now rq s)) = st_cfg s"
  by (auto simp: resolve_identity_def resolve_token_def split: option.splits)

lemma require_login_cases:
  assumes cs: "cross_site_request (rq_method rq) (rq_endpoint rq) (rq_own_hosts rq) (rq_origin rq) (rq_fetch_site rq) = Done False"
    and np: "rq_endpoint rq \<notin> set PUBLIC_ENDPOINTS"
  shows "require_login th now rq s =
    (case resolve_identity th now rq s of
       (Nobody, s') \<Rightarrow> (Fail 401 ''Authentication required'', s')
     | (Login name role tok, s') \<Rightarrow>
         if name = [] then (Fail 401 ''Authentication required'', s')
         else if rq_endpoint rq \<in> set ADMIN_ONLY \<and> role \<noteq> ''admin'' then (Fail 403 ''Admin role required'', s')
         else if rq_method rq \<in> set WRITE_METHODS \<and> rq_endpoint rq \<notin> set RBAC_EXEMPT \<and> role = ''viewer''
           then (Fail 403 ''Read-only account: action not permitted'', s')
         else if rq_endpoint rq = ''node_ws'' \<and> role = ''viewer''
           then (Fail 403 ''Read-only account: console access not permitted'', s')
         else (Done (Some \<lparr>g_name = name, g_role = role,
           g_scope = user_scope (map_of (cf_users (st_cfg s')) name) role (cf_presets (st_cfg s')),
           g_token = tok\<rparr>), s'))"
  unfolding require_login_def cs Let_def using np by simp

lemma require_login_refuses:
  assumes "cross_site_request (rq_method rq) (rq_endpoint rq) (rq_own_hosts rq) (rq_origin rq) (rq_fetch_site rq) \<noteq> Done False
      \<or> rq_endpoint rq \<in> set PUBLIC_ENDPOINTS"
  shows "snd (require_login th now rq s) = s" and "fst (require_login th now rq s) \<noteq> Done (Some c)"
proof -
  have "\<exists>r. require_login th now rq s = (r, s) \<and> r \<noteq> Done (Some c)"
  proof (cases "cross_site_request (rq_method rq) (rq_endpoint rq) (rq_own_hosts rq) (rq_origin rq) (rq_fetch_site rq)")
    case (Done b)
    then show ?thesis using assms by (cases b) (simp_all add: require_login_def)
  qed (simp_all add: require_login_def)
  then show "snd (require_login th now rq s) = s" "fst (require_login th now rq s) \<noteq> Done (Some c)" by auto
qed

lemma require_login_cfg: "st_cfg (snd (require_login th now rq s)) = st_cfg s"
proof (cases "cross_site_request (rq_method rq) (rq_endpoint rq) (rq_own_hosts rq) (rq_origin rq) (rq_fetch_site rq) = Done False
    \<and> rq_endpoint rq \<notin> set PUBLIC_ENDPOINTS")
  case False
  then show ?thesis using require_login_refuses(1) [of rq th now s] by simp
next
  case True
  obtain i s' where i: "resolve_identity th now rq s = (i, s')" by (metis prod.exhaust)
  then have "st_cfg s' = st_cfg s" using resolve_identity_cfg [of th now rq s] by simp
  then show ?thesis using True by (cases i) (simp_all add: require_login_cases i)
qed

lemma require_login_some:
  "fst (require_login th now rq s) = Done (Some c) \<longleftrightarrow>
     cross_site_request (rq_method rq) (rq_endpoint rq) (rq_own_hosts rq) (rq_origin rq) (rq_fetch_site rq) = Done False \<and>
     rq_endpoint rq \<notin> set PUBLIC_ENDPOINTS \<and>
     (\<exists>name role tok. fst (resolve_identity th now rq s) = Login name role tok \<and> name \<noteq> [] \<and>
        role_may role (rq_endpoint rq) (rq_method rq) \<and>
        c = \<lparr>g_name = name, g_role = role,
             g_scope = user_scope (map_of (cf_users (st_cfg s)) name) role (cf_presets (st_cfg s)), g_token = tok\<rparr>)"
proof (cases "cross_site_request (rq_method rq) (rq_endpoint rq) (rq_own_hosts rq) (rq_origin rq) (rq_fetch_site rq) = Done False
    \<and> rq_endpoint rq \<notin> set PUBLIC_ENDPOINTS")
  case False
  then show ?thesis using require_login_refuses(2) [of rq th now s c] by metis
next
  case True
  obtain i s' where i: "resolve_identity th now rq s = (i, s')" by (metis prod.exhaust)
  have cfg: "st_cfg s' = st_cfg s" using resolve_identity_cfg [of th now rq s] i by simp
  show ?thesis
  proof (cases i)
    case Nobody
    then show ?thesis using True by (simp add: require_login_cases i)
  next
    case (Login name role tok)
    have "role_may role (rq_endpoint rq) (rq_method rq) \<longleftrightarrow>
        \<not> (rq_endpoint rq \<in> set ADMIN_ONLY \<and> role \<noteq> ''admin'') \<and>
        \<not> (rq_method rq \<in> set WRITE_METHODS \<and> rq_endpoint rq \<notin> set RBAC_EXEMPT \<and> role = ''viewer'') \<and>
        \<not> (rq_endpoint rq = ''node_ws'' \<and> role = ''viewer'')" by (auto simp: role_may_def)
    then show ?thesis using True Login by (simp add: require_login_cases i cfg) metis
  qed
qed

text \<open>C1: complete mediation. A request reaches a handler that is not public exactly when it is not
  a refused cross-site request and presents a stored token of an existing login, or (presenting no
  token) a session of an existing login with that login's current generation; and then it acts with
  the role and the scope the configuration gives that login now. Administrator routes need the
  administrator role whatever the method; a viewer never writes and never opens a console. In
  particular a presented token that is not stored never falls back to the session.\<close>

theorem gate_exact:
  "fst (require_login th now rq s) = Done (Some c) \<longleftrightarrow>
     cross_site_request (rq_method rq) (rq_endpoint rq) (rq_own_hosts rq) (rq_origin rq) (rq_fetch_site rq) = Done False \<and>
     rq_endpoint rq \<notin> set PUBLIC_ENDPOINTS \<and> g_name c \<noteq> [] \<and>
     presents th rq (st_cfg s) (g_name c) (g_token c) \<and>
     role_may (g_role c) (rq_endpoint rq) (rq_method rq) \<and>
     (\<exists>u. map_of (cf_users (st_cfg s)) (g_name c) = Some u \<and> g_role c = u_role u \<and>
        g_scope c = user_scope (Some u) (u_role u) (cf_presets (st_cfg s)))"
proof -
  have c: "c = \<lparr>g_name = n, g_role = r, g_scope = sc, g_token = t\<rparr> \<longleftrightarrow>
      g_name c = n \<and> g_role c = r \<and> g_scope c = sc \<and> g_token c = t" for n r sc t
    by (cases c) auto
  show ?thesis
    unfolding require_login_some c using resolve_identity_login [of th now rq s "g_name c" "g_role c" "g_token c"]
    by (safe; force)
qed

lemma gate_admits:
  assumes "require_login th now rq s = (Done (Some c), s')"
  shows "\<exists>u. map_of (cf_users (st_cfg s)) (g_name c) = Some u \<and> g_role c = u_role u"
    and "role_may (g_role c) (rq_endpoint rq) (rq_method rq)"
    and "presents th rq (st_cfg s) (g_name c) (g_token c)" and "g_name c \<noteq> []"
    and "st_cfg s' = st_cfg s"
proof -
  have some: "fst (require_login th now rq s) = Done (Some c)" by (simp add: assms)
  from some [unfolded require_login_some] obtain name role tok where
    id: "fst (resolve_identity th now rq s) = Login name role tok" "name \<noteq> []"
    and may: "role_may role (rq_endpoint rq) (rq_method rq)"
    and c: "g_name c = name" "g_role c = role" "g_token c = tok" by auto
  show "\<exists>u. map_of (cf_users (st_cfg s)) (g_name c) = Some u \<and> g_role c = u_role u"
    "presents th rq (st_cfg s) (g_name c) (g_token c)"
    using id resolve_identity_login [of th now rq s name role tok] c by auto
  show "role_may (g_role c) (rq_endpoint rq) (rq_method rq)" "g_name c \<noteq> []" using may c id by auto
  show "st_cfg s' = st_cfg s" using require_login_cfg [of th now rq s] assms by simp
qed

text \<open>A browser request from another site that would change something, or open the console, is
  answered 403 before any credential is looked at, the public login route included, and leaves the
  state alone.\<close>

theorem cross_site_write_refused:
  assumes "rq_method rq \<in> set WRITE_METHODS \<or> rq_endpoint rq = ''node_ws''"
    and "rq_origin rq = Some o1"
    and "lower (strip o1) = ''null'' \<or> (\<exists>loc. url_netloc (lower (strip o1)) = Some loc \<and>
      (\<forall>h\<in>set (rq_own_hosts rq). h \<noteq> [] \<longrightarrow> lower (strip h) \<noteq> loc))"
  shows "require_login th now rq s = (Fail 403 ''Cross-site request refused'', s)"
proof -
  have "cross_site_request (rq_method rq) (rq_endpoint rq) (rq_own_hosts rq) (rq_origin rq) (rq_fetch_site rq) = Done True"
    using assms by (auto simp: cross_site_request_def Let_def)
  then show ?thesis by (simp add: require_login_def)
qed

definition evil_login :: request where
  "evil_login = \<lparr>rq_method = ''POST'', rq_endpoint = ''api_login'', rq_own_hosts = [''nexus.lan:8443''],
     rq_origin = Some ''https://evil.example'', rq_fetch_site = None, rq_auth = None, rq_session = no_session\<rparr>"

theorem cross_site_write_refused_witness:
  "fst (require_login (\<lambda>t. t) 0 evil_login empty_app) = Fail 403 ''Cross-site request refused''"
proof -
  have "url_netloc (lower (strip ''https://evil.example'')) = Some ''evil.example''" by code_simp
  moreover have "lower (strip ''nexus.lan:8443'') = ''nexus.lan:8443''" by code_simp
  ultimately show ?thesis
    using cross_site_write_refused [of evil_login "''https://evil.example''" "\<lambda>t. t" 0 empty_app]
    by (simp add: evil_login_def WRITE_METHODS_def)
qed

end
