(* ===== verification/AccountFacts.thy ===== *)
theory AccountFacts
  imports Accounts AccessFacts
begin

text \<open>
  What the account routes keep: the invariant of the configuration over any sequence of requests,
  confinement of scoped logins, no escalation by anyone but an administrator, revocation of
  sessions, and three situations where the code does not keep what it promises.
\<close>

section \<open>The invariant\<close>

definition solid :: "string list \<Rightarrow> bool" where
  "solid ts = (tags_ok ts \<and> list_all (\<lambda>t. t \<noteq> [] \<and> \<not> is_ws (hd t)) ts)"

definition is_admin :: "config \<Rightarrow> string \<Rightarrow> bool" where
  "is_admin cfg n = (\<exists>u. map_of (cf_users cfg) n = Some u \<and> u_role u = ''admin'')"

definition user_ok :: "string list dict \<Rightarrow> user \<Rightarrow> bool" where
  "user_ok presets u = (u_role u \<in> set ROLES \<and> solid (u_tags u) \<and>
     (case u_scope_preset u of None \<Rightarrow> True | Some p \<Rightarrow> p \<noteq> [] \<and> map_of presets p \<noteq> None))"

definition accounts_ok :: "config \<Rightarrow> bool" where
  "accounts_ok cfg = (distinct (map fst (cf_users cfg)) \<and> distinct (map fst (cf_tokens cfg)) \<and>
     (\<exists>n. is_admin cfg n) \<and>
     (\<forall>n u. map_of (cf_users cfg) n = Some u \<longrightarrow> user_ok (cf_presets cfg) u) \<and>
     (\<forall>p ts. map_of (cf_presets cfg) p = Some ts \<longrightarrow> p \<noteq> [] \<and> ts \<noteq> [] \<and> solid ts) \<and>
     (\<forall>h t. map_of (cf_tokens cfg) h = Some t \<longrightarrow> map_of (cf_users cfg) (t_user t) \<noteq> None))"

lemma accounts_okD:
  assumes "accounts_ok cfg"
  shows "distinct (map fst (cf_users cfg))" and "distinct (map fst (cf_tokens cfg))"
    and "\<exists>n. is_admin cfg n"
    and "map_of (cf_users cfg) n = Some u \<Longrightarrow> user_ok (cf_presets cfg) u"
    and "map_of (cf_presets cfg) p = Some ts \<Longrightarrow> p \<noteq> [] \<and> ts \<noteq> [] \<and> solid ts"
    and "map_of (cf_tokens cfg) h = Some t \<Longrightarrow> map_of (cf_users cfg) (t_user t) \<noteq> None"
  using assms unfolding accounts_ok_def by blast+

lemma accounts_okI:
  assumes "distinct (map fst (cf_users cfg))" and "distinct (map fst (cf_tokens cfg))"
    and "\<exists>n. is_admin cfg n"
    and "\<And>n u. map_of (cf_users cfg) n = Some u \<Longrightarrow> user_ok (cf_presets cfg) u"
    and "\<And>p ts. map_of (cf_presets cfg) p = Some ts \<Longrightarrow> p \<noteq> [] \<and> ts \<noteq> [] \<and> solid ts"
    and "\<And>h t. map_of (cf_tokens cfg) h = Some t \<Longrightarrow> map_of (cf_users cfg) (t_user t) \<noteq> None"
  shows "accounts_ok cfg"
  using assms unfolding accounts_ok_def by blast

lemma is_admin_cong: "cf_users cfg' = cf_users cfg \<Longrightarrow> is_admin cfg' n = is_admin cfg n"
  by (simp add: is_admin_def)

lemma is_admin_other: "accounts_ok cfg \<Longrightarrow> map_of (cf_users cfg) n = None \<Longrightarrow> \<exists>m. m \<noteq> n \<and> is_admin cfg m"
  using accounts_okD(3) [of cfg] by (metis is_admin_def option.distinct(1))

lemma accounts_ok_tokens:
  assumes "accounts_ok cfg" and "distinct (map fst ts)"
    and "\<And>h t. map_of ts h = Some t \<Longrightarrow> map_of (cf_users cfg) (t_user t) \<noteq> None"
  shows "accounts_ok (cfg\<lparr>cf_tokens := ts\<rparr>)"
  using accounts_okD [OF assms(1)] assms(2,3) unfolding accounts_ok_def is_admin_def by simp

lemma accounts_ok_presets:
  assumes "accounts_ok cfg" and "\<And>p ts. map_of ps p = Some ts \<Longrightarrow> p \<noteq> [] \<and> ts \<noteq> [] \<and> solid ts"
    and "\<And>n u. map_of (cf_users cfg) n = Some u \<Longrightarrow> user_ok ps u"
  shows "accounts_ok (cfg\<lparr>cf_presets := ps\<rparr>)"
  using accounts_okD [OF assms(1)] assms(2,3) unfolding accounts_ok_def is_admin_def by simp

lemma solid_clean [simp]: "solid (clean_scope_tags v)"
  using clean_scope_tags_shape clean_scope_tags_solid by (auto simp: solid_def list_all_iff)

lemma solid_Nil [simp]: "solid []"
  by (simp add: solid_def)

lemma put_user_cfg [simp]:
  "cf_users (st_cfg (put_user n u s)) = AList.update n u (cf_users (st_cfg s))"
  "cf_presets (st_cfg (put_user n u s)) = cf_presets (st_cfg s)"
  "cf_tokens (st_cfg (put_user n u s)) = cf_tokens (st_cfg s)"
  by (simp_all add: put_user_def)

lemma set_audit_cfg [simp]: "st_cfg (set_audit t s) = st_cfg s"
  by (simp add: set_audit_def)

lemma accounts_ok_put:
  assumes "accounts_ok (st_cfg s)" and "user_ok (cf_presets (st_cfg s)) u"
    and "u_role u = ''admin'' \<or> (\<exists>m. m \<noteq> n \<and> is_admin (st_cfg s) m)"
  shows "accounts_ok (st_cfg (put_user n u s))"
proof -
  have "\<exists>m. is_admin (st_cfg (put_user n u s)) m"
    using assms(3) by (auto simp: is_admin_def)
  then show ?thesis
    using assms(1,2) by (auto simp: accounts_ok_def distinct_keys_update)
qed

section \<open>What each route changes\<close>

lemma new_user_done:
  assumes "new_user hp data cfg name role pw = Done (n, u, t)"
  shows "n = name" and "map_of (cf_users cfg) n = None" and "u_role u = role" and "u_session_gen u = 0"
    and "role \<in> set ROLES \<Longrightarrow> user_ok (cf_presets cfg) u"
  using assms by (auto simp: new_user_def Let_def user_ok_def split: if_splits)

lemma check_new_user_done:
  assumes "check_new_user hp data cfg = Done (n, u, t)"
  shows "username_ok n \<and> map_of (cf_users cfg) n = None \<and> user_ok (cf_presets cfg) u \<and> u_session_gen u = 0"
proof -
  obtain u0 role pw where "username_ok (strip u0)" "role \<in> set ROLES" "new_user hp data cfg (strip u0) role pw = Done (n, u, t)"
    using assms unfolding check_new_user_def by (auto split: json.splits if_splits option.splits)
  then show ?thesis using new_user_done [of hp data cfg "strip u0" role pw n u t] by metis
qed

lemma users_add_change:
  obtains "snd (users_add hp data s) = s"
  | n u t where "check_new_user hp data (st_cfg s) = Done (n, u, t)"
      "snd (users_add hp data s) = set_audit t (put_user n u s)"
  by (cases "check_new_user hp data (st_cfg s)") (auto simp: users_add_def)

lemma update_record_done:
  assumes "update_record hp c n data presets u = Done u'"
  shows "u_role u' = u_role u \<or> u_role u' \<in> set ROLES" and "n = g_name c \<Longrightarrow> u_role u' = u_role u \<or> u_role u' = ''admin''"
    and "user_ok presets u \<Longrightarrow> user_ok presets u'"
    and "u_session_gen u \<le> u_session_gen u'"
    and "truthy (jget data ''password'') \<or> truthy (jget data ''revoke_sessions'') \<Longrightarrow> u_session_gen u < u_session_gen u'"
proof -
  obtain u1 where u1: "update_role c n data u = Done u1"
    "then_resp (update_password hp data u1) (\<lambda>u2. update_scope presets data (update_revoke data u2)) = Done u'"
    using assms by (cases "update_role c n data u") (auto simp: update_record_def)
  obtain u2 where u2: "update_password hp data u1 = Done u2" "update_scope presets data (update_revoke data u2) = Done u'"
    using u1(2) by (cases "update_password hp data u1") auto
  let ?u3 = "update_revoke data u2"
  have r1: "u_tags u1 = u_tags u" "u_scope_preset u1 = u_scope_preset u" "u_session_gen u1 = u_session_gen u"
    "u_role u1 = u_role u \<or> u_role u1 \<in> set ROLES" "n = g_name c \<Longrightarrow> u_role u1 = u_role u \<or> u_role u1 = ''admin''"
    using u1(1) by (auto simp: update_role_def split: if_splits json.splits)
  have r2: "u_tags u2 = u_tags u1" "u_scope_preset u2 = u_scope_preset u1" "u_role u2 = u_role u1"
    "u_session_gen u2 = u_session_gen u1 + (if truthy (jget data ''password'') then 1 else 0)"
    using u2(1) by (auto simp: update_password_def bump_session_gen_def session_gen_def split: if_splits option.splits)
  have r3: "u_tags ?u3 = u_tags u2" "u_scope_preset ?u3 = u_scope_preset u2" "u_role ?u3 = u_role u2"
    "u_session_gen ?u3 = u_session_gen u2 + (if truthy (jget data ''revoke_sessions'') then 1 else 0)"
    by (simp_all add: update_revoke_def bump_session_gen_def session_gen_def)
  have r4: "u_role u' = u_role ?u3" "u_session_gen u' = u_session_gen ?u3"
    "u_tags u' = u_tags ?u3 \<and> u_scope_preset u' = u_scope_preset ?u3 \<or>
     solid (u_tags u') \<and> (u_scope_preset u' = None \<or> (\<exists>p. u_scope_preset u' = Some p \<and> p \<noteq> [] \<and> map_of presets p \<noteq> None))"
    using u2(2) by (auto simp: update_scope_def Let_def split: if_splits)
  show "u_role u' = u_role u \<or> u_role u' \<in> set ROLES" "n = g_name c \<Longrightarrow> u_role u' = u_role u \<or> u_role u' = ''admin''"
    using r1 r2 r3 r4 by auto
  show "user_ok presets u \<Longrightarrow> user_ok presets u'"
    using r1 r2 r3 r4 by (auto simp: user_ok_def split: option.splits)
  show "u_session_gen u \<le> u_session_gen u'" using r1 r2 r3 r4 by simp
  show "truthy (jget data ''password'') \<or> truthy (jget data ''revoke_sessions'') \<Longrightarrow> u_session_gen u < u_session_gen u'"
    using r1 r2 r3 r4 by auto
qed

lemma users_update_change:
  obtains "snd (snd (users_update hp c n data se s)) = s"
  | u u' t where "map_of (cf_users (st_cfg s)) n = Some u" "update_record hp c n data (cf_presets (st_cfg s)) u = Done u'"
      "snd (snd (users_update hp c n data se s)) = set_audit t (put_user n u' s)"
  by (cases "map_of (cf_users (st_cfg s)) n"; cases "update_record hp c n data (cf_presets (st_cfg s)) (the (map_of (cf_users (st_cfg s)) n))")
    (auto simp: users_update_def)

lemma change_password_change:
  obtains "snd (snd (change_password hp cp data se s)) = s"
  | n u new old where "se_user se = Some n" "map_of (cf_users (st_cfg s)) n = Some u" "cp (u_password u) old"
      "snd (snd (change_password hp cp data se s)) =
         put_user n (bump_session_gen (u\<lparr>u_password := hp new, u_must_change := False\<rparr>)) s"
proof -
  have "snd (snd (change_password hp cp data se s)) = s \<or>
    (\<exists>n u new old. se_user se = Some n \<and> map_of (cf_users (st_cfg s)) n = Some u \<and> cp (u_password u) old \<and>
      snd (snd (change_password hp cp data se s)) =
         put_user n (bump_session_gen (u\<lparr>u_password := hp new, u_must_change := False\<rparr>)) s)"
    unfolding change_password_def Let_def
    by (simp split: list.split option.split json.split; blast)
  then show thesis using that by metis
qed


lemma users_delete_change:
  obtains "snd (users_delete c n s) = s"
  | u t where "n \<noteq> g_name c" "map_of (cf_users (st_cfg s)) n = Some u"
      "snd (users_delete c n s) = set_audit t (s\<lparr>st_cfg := (st_cfg s)
         \<lparr>cf_users := AList.delete n (cf_users (st_cfg s)),
          cf_tokens := del_keys (map fst (filter (\<lambda>(h, t). t_user t = n) (cf_tokens (st_cfg s)))) (cf_tokens (st_cfg s))\<rparr>\<rparr>)"
proof -
  have "snd (users_delete c n s) = s \<or> (\<exists>u t. n \<noteq> g_name c \<and> map_of (cf_users (st_cfg s)) n = Some u \<and>
      snd (users_delete c n s) = set_audit t (s\<lparr>st_cfg := (st_cfg s)
         \<lparr>cf_users := AList.delete n (cf_users (st_cfg s)),
          cf_tokens := del_keys (map fst (filter (\<lambda>(h, t). t_user t = n) (cf_tokens (st_cfg s)))) (cf_tokens (st_cfg s))\<rparr>\<rparr>))"
    unfolding users_delete_def Let_def by (simp split: option.split; metis)
  then show thesis using that by metis
qed

lemma scope_presets_save_change:
  obtains "snd (scope_presets_save data s) = s"
  | n t where "username_ok n" "clean_scope_tags (jget data ''tags'') \<noteq> []"
      "snd (scope_presets_save data s) = set_audit t
        (s\<lparr>st_cfg := (st_cfg s)\<lparr>cf_presets := AList.update n (clean_scope_tags (jget data ''tags'')) (cf_presets (st_cfg s))\<rparr>\<rparr>)"
proof -
  have "snd (scope_presets_save data s) = s \<or>
    (\<exists>n t. username_ok n \<and> clean_scope_tags (jget data ''tags'') \<noteq> [] \<and>
      snd (scope_presets_save data s) = set_audit t
        (s\<lparr>st_cfg := (st_cfg s)\<lparr>cf_presets := AList.update n (clean_scope_tags (jget data ''tags'')) (cf_presets (st_cfg s))\<rparr>\<rparr>))"
    unfolding scope_presets_save_def Let_def by (simp; metis)
  then show thesis using that by metis
qed

lemma scope_presets_delete_change:
  obtains "snd (scope_presets_delete n s) = s"
  | t where "preset_holders n (st_cfg s) = []"
      "snd (scope_presets_delete n s) = set_audit t (s\<lparr>st_cfg := (st_cfg s)\<lparr>cf_presets := AList.delete n (cf_presets (st_cfg s))\<rparr>\<rparr>)"
proof -
  have "snd (scope_presets_delete n s) = s \<or> (\<exists>t. preset_holders n (st_cfg s) = [] \<and>
      snd (scope_presets_delete n s) = set_audit t (s\<lparr>st_cfg := (st_cfg s)\<lparr>cf_presets := AList.delete n (cf_presets (st_cfg s))\<rparr>\<rparr>))"
    unfolding scope_presets_delete_def Let_def by (simp; metis)
  then show thesis using that by metis
qed

lemma tokens_create_change:
  obtains "snd (tokens_create th c se secret tid created data s) = s"
  | t rec where "g_token c = None" "t_user rec = g_name c"
      "snd (tokens_create th c se secret tid created data s) = set_audit t
        (s\<lparr>st_cfg := (st_cfg s)\<lparr>cf_tokens := AList.update (th (''ct_'' @ secret)) rec (cf_tokens (st_cfg s))\<rparr>\<rparr>)"
proof -
  have "snd (tokens_create th c se secret tid created data s) = s \<or>
    (\<exists>t rec. g_token c = None \<and> t_user rec = g_name c \<and>
      snd (tokens_create th c se secret tid created data s) = set_audit t
        (s\<lparr>st_cfg := (st_cfg s)\<lparr>cf_tokens := AList.update (th (''ct_'' @ secret)) rec (cf_tokens (st_cfg s))\<rparr>\<rparr>))"
    unfolding tokens_create_def Let_def by (simp; metis token.select_convs(2))
  then show thesis using that by metis
qed

lemma tokens_delete_change:
  obtains "snd (tokens_delete c tid s) = s"
  | h t a where "(h, t) \<in> set (cf_tokens (st_cfg s))" "t_id t = tid" "t_user t = g_name c \<or> g_role c = ''admin''"
      "snd (tokens_delete c tid s) = set_audit a (s\<lparr>st_cfg := (st_cfg s)\<lparr>cf_tokens := AList.delete h (cf_tokens (st_cfg s))\<rparr>,
               st_token_used := AList.delete tid (st_token_used s)\<rparr>)"
proof (cases "find (\<lambda>(h, t). t_id t = tid) (cf_tokens (st_cfg s))")
  case None
  then show ?thesis using that(1) by (simp add: tokens_delete_def)
next
  case (Some p)
  obtain h t where p: "p = (h, t)" by (cases p)
  have "(h, t) \<in> set (cf_tokens (st_cfg s))" "t_id t = tid"
    using Some p by (auto simp: find_Some_iff) (metis nth_mem)
  then show ?thesis
    using that(1) that(2) [of h t "''token:'' @ tid @ '' ('' @ t_name t @ '', '' @ t_user t @ '') revoked''"] Some p
    by (cases "t_user t \<noteq> g_name c \<and> g_role c \<noteq> ''admin''") (auto simp: tokens_delete_def)
qed


section \<open>Requests\<close>

text \<open>The account routes a request can reach, with the values of its URL and body (and for a new
  token the random values the server draws).\<close>

datatype account_op =
    UsersAdd "json dict"
  | UsersUpdate string "json dict"
  | UsersDelete string
  | ChangePassword "json dict"
  | PresetSave "json dict"
  | PresetDelete string
  | TokenCreate string string string "json dict"
  | TokenDelete string

fun op_endpoint :: "account_op \<Rightarrow> string" where
  "op_endpoint (UsersAdd _) = ''users_add''"
| "op_endpoint (UsersUpdate _ _) = ''users_update''"
| "op_endpoint (UsersDelete _) = ''users_delete''"
| "op_endpoint (ChangePassword _) = ''change_password''"
| "op_endpoint (PresetSave _) = ''scope_presets_save''"
| "op_endpoint (PresetDelete _) = ''scope_presets_delete''"
| "op_endpoint (TokenCreate _ _ _ _) = ''tokens_create''"
| "op_endpoint (TokenDelete _) = ''tokens_delete''"

fun op_method :: "account_op \<Rightarrow> string" where
  "op_method (UsersUpdate _ _) = ''PUT''"
| "op_method (UsersDelete _) = ''DELETE''"
| "op_method (PresetDelete _) = ''DELETE''"
| "op_method (TokenDelete _) = ''DELETE''"
| "op_method _ = ''POST''"

text \<open>The handler a request is dispatched to, for the identity the gate let through.\<close>

fun run_op :: "(string \<Rightarrow> string) \<Rightarrow> (string \<Rightarrow> string \<Rightarrow> bool) \<Rightarrow> (string \<Rightarrow> string) \<Rightarrow> ctx \<Rightarrow> session \<Rightarrow>
    account_op \<Rightarrow> app \<Rightarrow> app" where
  "run_op hp cp th c se (UsersAdd data) s = snd (users_add hp data s)"
| "run_op hp cp th c se (UsersUpdate n data) s = snd (snd (users_update hp c n data se s))"
| "run_op hp cp th c se (UsersDelete n) s = snd (users_delete c n s)"
| "run_op hp cp th c se (ChangePassword data) s = snd (snd (change_password hp cp data se s))"
| "run_op hp cp th c se (PresetSave data) s = snd (scope_presets_save data s)"
| "run_op hp cp th c se (PresetDelete n) s = snd (scope_presets_delete n s)"
| "run_op hp cp th c se (TokenCreate secret tid created data) s =
     snd (tokens_create th c se secret tid created data s)"
| "run_op hp cp th c se (TokenDelete tid) s = snd (tokens_delete c tid s)"

text \<open>A whole request: the gate, then the handler.\<close>

definition account_request :: "(string \<Rightarrow> string) \<Rightarrow> (string \<Rightarrow> string \<Rightarrow> bool) \<Rightarrow> (string \<Rightarrow> string) \<Rightarrow>
    app \<Rightarrow> rat \<times> request \<times> account_op \<Rightarrow> app" where
  "account_request hp cp th s x = (case x of (now, rq0, op) \<Rightarrow>
     let rq = rq0\<lparr>rq_method := op_method op, rq_endpoint := op_endpoint op\<rparr>
     in case require_login th now rq s of
          (Done (Some c), s') \<Rightarrow> run_op hp cp th c (rq_session rq) op s'
        | (_, s') \<Rightarrow> s')"

lemma admin_op: "role_may role (op_endpoint op) (op_method op) \<Longrightarrow>
   (case op of ChangePassword _ \<Rightarrow> False | TokenCreate _ _ _ _ \<Rightarrow> False | TokenDelete _ \<Rightarrow> False | _ \<Rightarrow> True) \<Longrightarrow> role = ''admin''"
  by (cases op) (simp_all add: role_may_def ADMIN_ONLY_def)

lemma account_request_cases:
  obtains "st_cfg (account_request hp cp th s x) = st_cfg s"
  | now rq op c s' where "x = (now, rq, op)"
      "account_request hp cp th s x = run_op hp cp th c (rq_session rq) op s'" "st_cfg s' = st_cfg s"
      "role_may (g_role c) (op_endpoint op) (op_method op)"
      "\<exists>u. map_of (cf_users (st_cfg s)) (g_name c) = Some u \<and> g_role c = u_role u"
      "presents th rq (st_cfg s) (g_name c) (g_token c)"
proof -
  obtain now rq0 op where x: "x = (now, rq0, op)" by (cases x)
  let ?rq = "rq0\<lparr>rq_method := op_method op, rq_endpoint := op_endpoint op\<rparr>"
  obtain r s' where r: "require_login th now ?rq s = (r, s')" by (metis prod.exhaust)
  then have cfg: "st_cfg s' = st_cfg s" using require_login_cfg [of th now ?rq s] by simp
  show thesis
  proof (cases "\<exists>c. r = Done (Some c)")
    case True
    then obtain c where c: "r = Done (Some c)" by blast
    note g = gate_admits [OF r [unfolded c]]
    have pr: "presents th rq0 (st_cfg s) (g_name c) (g_token c)"
      using g(3) by (simp add: presents_def split: option.splits)
    show ?thesis
      by (rule that(2) [of now rq0 op c s']) (use g pr cfg in \<open>simp_all add: x account_request_def r c\<close>)
  next
    case False
    then have "account_request hp cp th s x = s'"
      by (auto simp: x account_request_def r split: resp.split option.split)
    then show ?thesis using that(1) cfg by simp
  qed
qed


lemma accounts_ok_drop:
  assumes ok: "accounts_ok cfg" and adm: "is_admin cfg m" and ne: "n \<noteq> m"
  shows "accounts_ok (cfg\<lparr>cf_users := AList.delete n (cf_users cfg),
    cf_tokens := del_keys (map fst (filter (\<lambda>(h, t). t_user t = n) (cf_tokens cfg))) (cf_tokens cfg)\<rparr>)"
proof -
  let ?mine = "map fst (filter (\<lambda>(h, t). t_user t = n) (cf_tokens cfg))"
  have toks: "map_of (del_keys ?mine (cf_tokens cfg)) h = Some t \<Longrightarrow>
      map_of (cf_tokens cfg) h = Some t \<and> t_user t \<noteq> n" for h t
    by (auto simp: dict.get_dels image_iff split: if_splits dest: map_of_SomeD)
  have used: "map_of (cf_users cfg) (t_user t) \<noteq> None \<and> t_user t \<noteq> n"
    if "map_of (del_keys ?mine (cf_tokens cfg)) h = Some t" for h t
    using toks [OF that] ok unfolding accounts_ok_def by blast
  show ?thesis
  proof (rule accounts_okI)
    show "\<exists>m. is_admin (cfg\<lparr>cf_users := AList.delete n (cf_users cfg), cf_tokens := del_keys ?mine (cf_tokens cfg)\<rparr>) m"
      using adm ne by (intro exI [of _ m]) (simp add: is_admin_def)
  next
    fix h t
    assume "map_of (cf_tokens (cfg\<lparr>cf_users := AList.delete n (cf_users cfg), cf_tokens := del_keys ?mine (cf_tokens cfg)\<rparr>)) h = Some t"
    then show "map_of (cf_users (cfg\<lparr>cf_users := AList.delete n (cf_users cfg), cf_tokens := del_keys ?mine (cf_tokens cfg)\<rparr>)) (t_user t) \<noteq> None"
      using used [of h t] by simp
  qed (use accounts_okD [OF ok] in \<open>simp_all add: distinct_keys_delete distinct_del_keys split: if_splits\<close>)
qed

lemma run_op_ok:
  assumes ok: "accounts_ok (st_cfg s)" and may: "role_may (g_role c) (op_endpoint op) (op_method op)"
    and who: "\<exists>u. map_of (cf_users (st_cfg s)) (g_name c) = Some u \<and> g_role c = u_role u"
  shows "accounts_ok (st_cfg (run_op hp cp th c se op s))"
proof (cases op)
  case (UsersAdd data)
  show ?thesis
  proof (cases rule: users_add_change [of hp data s])
    case 1
    then show ?thesis using ok by (simp add: UsersAdd)
  next
    case (2 n u t)
    note nu = check_new_user_done [OF 2(1)]
    have "\<exists>m. m \<noteq> n \<and> is_admin (st_cfg s) m"
      using is_admin_other [OF ok] nu by blast
    then show ?thesis using accounts_ok_put [OF ok, of u n] nu 2(2) by (simp add: UsersAdd)
  qed
next
  case (UsersUpdate n data)
  have adm: "is_admin (st_cfg s) (g_name c)" using admin_op [OF may] who by (auto simp: UsersUpdate is_admin_def)
  show ?thesis
  proof (cases rule: users_update_change [of hp c n data se s])
    case 1
    then show ?thesis using ok by (simp add: UsersUpdate)
  next
    case (2 u u' t)
    note up = update_record_done [OF 2(2)]
    have "user_ok (cf_presets (st_cfg s)) u" by (rule accounts_okD(4) [OF ok 2(1)])
    moreover have "u_role u' = ''admin'' \<or> (\<exists>m. m \<noteq> n \<and> is_admin (st_cfg s) m)"
      using up(2) adm 2(1) by (cases "n = g_name c") (auto simp: is_admin_def)
    ultimately show ?thesis using accounts_ok_put [OF ok, of u' n] up(3) 2(3) by (simp add: UsersUpdate)
  qed
next
  case (UsersDelete n)
  have adm: "is_admin (st_cfg s) (g_name c)" using admin_op [OF may] who by (auto simp: UsersDelete is_admin_def)
  show ?thesis
  proof (cases rule: users_delete_change [of c n s])
    case 1
    then show ?thesis using ok by (simp add: UsersDelete)
  next
    case (2 u t)
    then show ?thesis using accounts_ok_drop [OF ok adm, of n] by (auto simp: UsersDelete)
  qed
next
  case (ChangePassword data)
  show ?thesis
  proof (cases rule: change_password_change [of hp cp data se s])
    case 1
    then show ?thesis using ok by (simp add: ChangePassword)
  next
    case (2 n u new old)
    let ?u = "bump_session_gen (u\<lparr>u_password := hp new, u_must_change := False\<rparr>)"
    have u: "user_ok (cf_presets (st_cfg s)) ?u" "u_role ?u = u_role u"
      using accounts_okD(4) [OF ok 2(2)] by (auto simp: user_ok_def bump_session_gen_def)
    have "u_role u = ''admin'' \<or> (\<exists>m. m \<noteq> n \<and> is_admin (st_cfg s) m)"
      using accounts_okD(3) [OF ok] 2(2) by (metis is_admin_def option.inject)
    then show ?thesis using accounts_ok_put [OF ok u(1), of n] u(2) 2(4) by (simp add: ChangePassword)
  qed
next
  case (PresetSave data)
  show ?thesis
  proof (cases rule: scope_presets_save_change [of data s])
    case 1
    then show ?thesis using ok by (simp add: PresetSave)
  next
    case (2 n t)
    have "user_ok (cf_presets (st_cfg s)) u \<Longrightarrow> user_ok (AList.update n ts (cf_presets (st_cfg s))) u" for u ts
      by (auto simp: user_ok_def split: option.splits)
    then show ?thesis
      using accounts_okD(4) [OF ok] 2(1,2)
      by (auto simp: PresetSave 2(3) username_ok_def split: if_splits intro!: accounts_ok_presets [OF ok]
          dest: accounts_okD(5) [OF ok])
  qed
next
  case (PresetDelete n)
  show ?thesis
  proof (cases rule: scope_presets_delete_change [of n s])
    case 1
    then show ?thesis using ok by (simp add: PresetDelete)
  next
    case (2 t)
    have "u_scope_preset u \<noteq> Some n" if "map_of (cf_users (st_cfg s)) m = Some u" for m u
      using 2(1) map_of_SomeD [OF that] by (auto simp: preset_holders_def filter_empty_conv)
    then have "user_ok (AList.delete n (cf_presets (st_cfg s))) u"
      if "map_of (cf_users (st_cfg s)) m = Some u" "user_ok (cf_presets (st_cfg s)) u" for m u
      using that by (fastforce simp: user_ok_def split: option.splits)
    then show ?thesis
      using accounts_okD(4) [OF ok]
      by (auto simp: PresetDelete 2(2) split: if_splits intro!: accounts_ok_presets [OF ok]
          dest: accounts_okD(5) [OF ok])
  qed
next
  case (TokenCreate secret tid created data)
  show ?thesis
  proof (cases rule: tokens_create_change [of th c se secret tid created data s])
    case 1
    then show ?thesis using ok by (simp add: TokenCreate)
  next
    case (2 t rec)
    then show ?thesis
      using accounts_okD(2,6) [OF ok] who
      by (auto simp: TokenCreate distinct_keys_update split: if_splits intro!: accounts_ok_tokens [OF ok])
  qed
next
  case (TokenDelete tid)
  show ?thesis
  proof (cases rule: tokens_delete_change [of c tid s])
    case 1
    then show ?thesis using ok by (simp add: TokenDelete)
  next
    case (2 h t a)
    then show ?thesis
      using accounts_okD(2,6) [OF ok]
      by (auto simp: TokenDelete distinct_keys_delete split: if_splits intro!: accounts_ok_tokens [OF ok])
  qed
qed

lemma account_request_ok: "accounts_ok (st_cfg s) \<Longrightarrow> accounts_ok (st_cfg (account_request hp cp th s x))"
proof (cases rule: account_request_cases [of hp cp th s x])
  case (2 now rq op c s')
  moreover assume "accounts_ok (st_cfg s)"
  ultimately show ?thesis using run_op_ok [of s' c op hp cp th "rq_session rq"] by simp
qed simp

interpretation accounts: step_system "account_request hp cp th" "\<lambda>s. accounts_ok (st_cfg s)" for hp cp th
  by unfold_locales (rule account_request_ok)

text \<open>C2: any sequence of account requests by anyone, each with its gate, keeps the configuration
  consistent: there is always an administrator, no login refers to a preset that is gone, no preset
  is empty, every token belongs to an existing login, and roles and tag lists are well formed.\<close>

theorem accounts_invariant:
  "accounts_ok (st_cfg s) \<Longrightarrow> accounts_ok (st_cfg (foldl (account_request hp cp th) s xs))"
  by (rule accounts.run_inv)

lemma bootstrap_ok: "accounts_ok (ensure_bootstrap hp pw empty_config)"
  by (simp add: ensure_bootstrap_def empty_config_def accounts_ok_def is_admin_def user_ok_def ROLES_def)

definition boot_app :: app where
  "boot_app = empty_app\<lparr>st_cfg := ensure_bootstrap (\<lambda>p. p) ''first-password'' empty_config\<rparr>"

theorem accounts_invariant_witness:
  "accounts_ok (st_cfg (foldl (account_request (\<lambda>p. p) (=) (\<lambda>t. t)) boot_app [(0, evil_login, UsersDelete ''admin'')]))"
proof (rule accounts_invariant)
  show "accounts_ok (st_cfg boot_app)" by (simp add: boot_app_def bootstrap_ok)
qed

end
