(* ===== verification/AccountRuns.thy ===== *)
theory AccountRuns
  imports AccountFacts
begin

text \<open>
  Security properties of the account routes over runs of requests: a scoped login stays confined,
  only administrators manage accounts, a revoked session stays revoked; and the three gaps found
  while stating them.
\<close>

section \<open>Confinement\<close>

lemma solid_scope: "ts \<noteq> [] \<Longrightarrow> solid ts \<Longrightarrow> set (clean_scope_tags (JArr (map JStr ts))) \<noteq> {}"
  using clean_tags_nonempty [of ts] by (simp add: solid_def list_all_iff)

text \<open>In a consistent configuration a login that is not an administrator and has a preset or a
  tag is never fleet-wide: its scope is a set with at least one tag, so it sees only hosts that
  carry one of its tags.\<close>

theorem scoped_login_confined:
  assumes "accounts_ok cfg" and "map_of (cf_users cfg) n = Some u" and "u_role u \<noteq> ''admin''"
    and "u_scope_preset u \<noteq> None \<or> u_tags u \<noteq> []"
  shows "\<exists>sc. user_scope (Some u) (u_role u) (cf_presets cfg) = Some sc \<and> sc \<noteq> {} \<and>
    visible_nodes (user_scope (Some u) (u_role u) (cf_presets cfg)) nodes = filter (\<lambda>h. sc \<inter> set (n_tags h) \<noteq> {}) nodes"
proof -
  have ok: "user_ok (cf_presets cfg) u" by (rule accounts_okD(4) [OF assms(1,2)])
  have "\<exists>sc. user_scope (Some u) (u_role u) (cf_presets cfg) = Some sc \<and> sc \<noteq> {}"
  proof (cases "u_scope_preset u")
    case None
    then show ?thesis
      using assms(3,4) ok solid_scope [of "u_tags u"] by (simp add: user_scope_def user_ok_def)
  next
    case (Some p)
    then obtain ts where ts: "map_of (cf_presets cfg) p = Some ts" "p \<noteq> []"
      using ok by (auto simp: user_ok_def)
    then show ?thesis
      using assms(3) Some accounts_okD(5) [OF assms(1) ts(1)] solid_scope [of ts] by (simp add: user_scope_def)
  qed
  then show ?thesis by (auto simp: visible_nodes_def scope_allows_def)
qed

definition viewer_rec :: user where
  "viewer_rec = \<lparr>u_password = ''pw'', u_role = ''viewer'', u_must_change = False, u_tags = [''site-a''],
     u_scope_preset = None, u_session_gen = 0\<rparr>"

definition admin_rec :: user where
  "admin_rec = viewer_rec\<lparr>u_role := ''admin'', u_tags := []\<rparr>"

definition demo_users :: config where
  "demo_users = empty_config\<lparr>cf_users := [(''amy'', admin_rec), (''ben'', admin_rec), (''val'', viewer_rec)]\<rparr>"

lemma demo_users_ok: "accounts_ok demo_users"
proof (rule accounts_okI)
  have ok: "user_ok [] admin_rec" "user_ok [] viewer_rec"
    by (simp_all add: user_ok_def ROLES_def admin_rec_def viewer_rec_def solid_def tags_ok_def is_ws_def)
  show "\<exists>n. is_admin demo_users n"
    by (rule exI [of _ "''amy''"]) (simp add: is_admin_def demo_users_def admin_rec_def)
  show "map_of (cf_users demo_users) n = Some u \<Longrightarrow> user_ok (cf_presets demo_users) u" for n u
    using ok by (auto simp: demo_users_def empty_config_def split: if_splits)
qed (simp_all add: demo_users_def empty_config_def)

theorem scoped_login_confined_witness:
  "\<exists>sc. user_scope (Some viewer_rec) ''viewer'' (cf_presets demo_users) = Some sc \<and> sc \<noteq> {}"
  using scoped_login_confined [OF demo_users_ok, of "''val''" viewer_rec "[]"]
  by (auto simp: demo_users_def viewer_rec_def)

section \<open>Only administrators manage accounts\<close>

definition grants :: "user \<Rightarrow> string \<times> string list \<times> string option" where
  "grants u = (u_role u, u_tags u, u_scope_preset u)"

text \<open>C7: a request that does not present an administrator's credential changes no login's role,
  tags or preset, no preset, creates and removes no login, and touches only the record of the
  session it carries (its own password) and only tokens of the login it presents.\<close>

theorem only_admins_manage:
  assumes "\<forall>name tok. presents th rq (st_cfg s) name tok \<longrightarrow> \<not> is_admin (st_cfg s) name"
  shows "cf_presets (st_cfg (account_request hp cp th s (now, rq, op))) = cf_presets (st_cfg s) \<and>
    (\<forall>n. map_option grants (map_of (cf_users (st_cfg (account_request hp cp th s (now, rq, op)))) n) =
       map_option grants (map_of (cf_users (st_cfg s)) n)) \<and>
    (\<forall>n. se_user (rq_session rq) \<noteq> Some n \<longrightarrow>
       map_of (cf_users (st_cfg (account_request hp cp th s (now, rq, op)))) n = map_of (cf_users (st_cfg s)) n)"
proof (cases rule: account_request_cases [of hp cp th s "(now, rq, op)"])
  case 1
  then show ?thesis by simp
next
  case (2 now' rq' op' c s')
  then have eq: "rq' = rq" "op' = op" by simp_all
  have na: "g_role c \<noteq> ''admin''"
    using assms 2(5,6) eq by (auto simp: is_admin_def)
  note admin_op' = admin_op [OF 2(4)]
  show ?thesis
  proof (cases op')
    case (ChangePassword data)
    show ?thesis
    proof (cases rule: change_password_change [of hp cp data "rq_session rq'" s'])
      case 1
      then show ?thesis using 2(2,3) by (simp add: ChangePassword)
    next
      case change: (2 n u new old)
      then show ?thesis
        using 2(2,3) eq by (auto simp: ChangePassword grants_def bump_session_gen_def)
    qed
  next
    case (TokenCreate secret tid created data)
    then show ?thesis
      using 2(2,3) by (cases rule: tokens_create_change [of th c "rq_session rq'" secret tid created data s']) simp_all
  next
    case (TokenDelete tid)
    then show ?thesis
      using 2(2,3) by (cases rule: tokens_delete_change [of c tid s']) simp_all
  qed (use admin_op' na in simp_all)
qed

definition viewer_request :: request where
  "viewer_request = evil_login\<lparr>rq_origin := None, rq_session := \<lparr>se_user = Some ''val'', se_gen = 0\<rparr>\<rparr>"

definition users_app :: app where
  "users_app = empty_app\<lparr>st_cfg := demo_users\<rparr>"

theorem only_admins_manage_witness:
  "map_option grants (map_of (cf_users (st_cfg (account_request (\<lambda>p. p) (=) (\<lambda>t. t) users_app
     (0, viewer_request, UsersUpdate ''val'' [(''role'', JStr ''admin'')])))) ''val'') = Some (grants viewer_rec)"
proof -
  have "\<forall>name tok. presents (\<lambda>t. t) viewer_request (st_cfg users_app) name tok \<longrightarrow> \<not> is_admin (st_cfg users_app) name"
    by (auto simp: presents_def parse_bearer_def viewer_request_def evil_login_def is_admin_def users_app_def
        demo_users_def viewer_rec_def)
  from only_admins_manage [OF this, of "\<lambda>p. p" "(=)" 0 "UsersUpdate ''val'' [(''role'', JStr ''admin'')]"]
  show ?thesis by (simp add: users_app_def demo_users_def)
qed

section \<open>Revocation\<close>

definition has_login :: "string \<Rightarrow> app \<Rightarrow> bool" where
  "has_login n s \<longleftrightarrow> map_of (cf_users (st_cfg s)) n \<noteq> None"

definition gen_le :: "string \<Rightarrow> app \<Rightarrow> app \<Rightarrow> bool" where
  "gen_le n s t = (\<forall>u. map_of (cf_users (st_cfg s)) n = Some u \<longrightarrow>
     (\<exists>u'. map_of (cf_users (st_cfg t)) n = Some u' \<and> u_session_gen u \<le> u_session_gen u'))"

lemma gen_le_same: "map_of (cf_users (st_cfg t)) n = map_of (cf_users (st_cfg s)) n \<Longrightarrow> gen_le n s t"
  by (simp add: gen_le_def)

lemma request_gen_le:
  assumes "has_login n (account_request hp cp th s x)"
  shows "gen_le n s (account_request hp cp th s x)"
proof (cases rule: account_request_cases [of hp cp th s x])
  case 1
  then show ?thesis by (simp add: gen_le_same)
next
  case (2 now rq op c s')
  have "gen_le n s' (run_op hp cp th c (rq_session rq) op s')"
  proof (cases op)
    case (UsersAdd data)
    then show ?thesis
      using check_new_user_done [of hp data "st_cfg s'"]
      by (cases rule: users_add_change [of hp data s']) (auto simp: gen_le_def)
  next
    case (UsersUpdate m data)
    then show ?thesis
      by (cases rule: users_update_change [of hp c m data "rq_session rq" s'])
        (auto simp: gen_le_def dest: update_record_done(4))
  next
    case (UsersDelete m)
    show ?thesis
    proof (cases rule: users_delete_change [of c m s'])
      case 1
      then show ?thesis by (simp add: UsersDelete gen_le_def)
    next
      case del: (2 u t)
      then have "m \<noteq> n" using assms 2(2) by (auto simp: UsersDelete has_login_def)
      then show ?thesis using del by (simp add: UsersDelete gen_le_def)
    qed
  next
    case (ChangePassword data)
    then show ?thesis
      by (cases rule: change_password_change [of hp cp data "rq_session rq" s'])
        (auto simp: gen_le_def bump_session_gen_def session_gen_def)
  next
    case (PresetSave data)
    then show ?thesis by (cases rule: scope_presets_save_change [of data s']) (auto simp: gen_le_def)
  next
    case (PresetDelete m)
    then show ?thesis by (cases rule: scope_presets_delete_change [of m s']) (auto simp: gen_le_def)
  next
    case (TokenCreate secret tid created data)
    then show ?thesis
      by (cases rule: tokens_create_change [of th c "rq_session rq" secret tid created data s']) (auto simp: gen_le_def)
  next
    case (TokenDelete tid)
    then show ?thesis by (cases rule: tokens_delete_change [of c tid s']) (auto simp: gen_le_def)
  qed
  then show ?thesis using 2(2,3) by (simp add: gen_le_def)
qed

text \<open>Requests, without those after which the login \<open>n\<close> does not exist.\<close>

definition keeping :: "string \<Rightarrow> (app \<Rightarrow> 'x \<Rightarrow> app) \<Rightarrow> app \<Rightarrow> 'x \<Rightarrow> app" where
  "keeping n step s x = (if has_login n (step s x) then step s x else s)"

lemma keeping_same: "has_login n (step s x) \<Longrightarrow> keeping n step s x = step s x"
  by (simp add: keeping_def)

lemma gen_le_trans: "gen_le n s t \<Longrightarrow> gen_le n t u \<Longrightarrow> gen_le n s u"
  by (fastforce simp: gen_le_def)

lemma keeping_gen_le: "gen_le n s (keeping n (account_request hp cp th) s x)"
  by (simp add: keeping_def request_gen_le gen_le_same)

interpretation sessions: monotone_system "keeping n (account_request hp cp th)" "\<lambda>s. True" "gen_le n" for n hp cp th
  by unfold_locales (simp_all add: gen_le_same keeping_gen_le, rule gen_le_trans)

lemma keeping_run:
  "\<forall>us vs. xs = us @ vs \<longrightarrow> has_login n (foldl step s us) \<Longrightarrow> foldl (keeping n step) s xs = foldl step s xs"
proof (induction xs rule: rev_induct)
  case (snoc x xs)
  have "foldl (keeping n step) s xs = foldl step s xs"
    by (rule snoc.IH) (use snoc.prems in \<open>metis append_assoc\<close>)
  moreover have "has_login n (foldl step s (xs @ [x]))"
    using snoc.prems by (metis append_Nil2)
  ultimately show ?case by (simp add: keeping_same)
qed simp

lemma resolve_old: "se_user se = Some n \<Longrightarrow> (\<And>u. map_of (cf_users cfg) n = Some u \<Longrightarrow> se_gen se < u_session_gen u) \<Longrightarrow>
   resolve_session se cfg = Nobody"
  by (force simp: resolve_session_def session_gen_def split: option.split)

text \<open>C6: after an administrator resets a login's password or revokes its sessions, a session it
  had before is not accepted, whatever requests follow, unless the login itself was gone at some moment in between
  (deleted and made again: \<open>deleted_session_revives\<close>).\<close>

theorem revocation_is_final:
  assumes "users_update hp c n data se s = (Done (), se', s')" and "map_of (cf_users (st_cfg s)) n = Some u"
    and "truthy (jget data ''password'') \<or> truthy (jget data ''revoke_sessions'')"
    and "se_user old = Some n" and "se_gen old \<le> u_session_gen u"
  shows "resolve_session old (st_cfg (foldl (account_request hp cp th) s' xs)) = Nobody \<or>
    (\<exists>us vs. xs = us @ vs \<and> \<not> has_login n (foldl (account_request hp cp th) s' us))"
proof (rule disjCI)
  assume "\<nexists>us vs. xs = us @ vs \<and> \<not> has_login n (foldl (account_request hp cp th) s' us)"
  then have kept: "\<forall>us vs. xs = us @ vs \<longrightarrow> has_login n (foldl (account_request hp cp th) s' us)"
    by blast
  obtain u' where u': "update_record hp c n data (cf_presets (st_cfg s)) u = Done u'"
    "map_of (cf_users (st_cfg s')) n = Some u'"
    using assms(1,2) by (auto simp: users_update_def split: resp.splits)
  have "se_gen old < u_session_gen u'" using update_record_done(5) [OF u'(1) assms(3)] assms(5) by simp
  moreover have "gen_le n s' (foldl (account_request hp cp th) s' xs)"
    using sessions.run_le [where s = s' and n = n and hp = hp and cp = cp and th = th and xs = xs] by (simp add: keeping_run [OF kept])
  then obtain u2 where "map_of (cf_users (st_cfg (foldl (account_request hp cp th) s' xs))) n = Some u2"
      "u_session_gen u' \<le> u_session_gen u2" using u'(2) by (auto simp: gen_le_def)
  ultimately show "resolve_session old (st_cfg (foldl (account_request hp cp th) s' xs)) = Nobody"
    by (intro resolve_old [OF assms(4)]) auto
qed

definition amy_ctx :: ctx where
  "amy_ctx = \<lparr>g_name = ''amy'', g_role = ''admin'', g_scope = None, g_token = None\<rparr>"

definition ben_ctx :: ctx where
  "ben_ctx = amy_ctx\<lparr>g_name := ''ben''\<rparr>"

lemma revoke_val:
  "users_update (\<lambda>p. p) amy_ctx ''val'' [(''revoke_sessions'', JBool True)] no_session users_app =
     (Done (), no_session, set_audit ''user:val (sessions revoked)'' (put_user ''val'' (bump_session_gen viewer_rec) users_app))"
  by (simp add: users_update_def users_app_def demo_users_def update_record_def update_role_def update_password_def
      update_revoke_def update_scope_def has_key_def jget_def amy_ctx_def)

theorem revocation_is_final_witness:
  "resolve_session \<lparr>se_user = Some ''val'', se_gen = 0\<rparr> demo_users = Login ''val'' ''viewer'' None \<and>
   resolve_session \<lparr>se_user = Some ''val'', se_gen = 0\<rparr>
     (st_cfg (foldl (account_request (\<lambda>p. p) (=) (\<lambda>t. t))
        (set_audit ''user:val (sessions revoked)'' (put_user ''val'' (bump_session_gen viewer_rec) users_app))
        [(0, viewer_request, ChangePassword [])])) = Nobody"
proof -
  have "map_of (cf_users (st_cfg users_app)) ''val'' = Some viewer_rec"
    by (simp add: users_app_def demo_users_def)
  note final = revocation_is_final [OF revoke_val this, where old = "\<lparr>se_user = Some ''val'', se_gen = 0\<rparr>" and cp = "(=)" and th = "\<lambda>t. t"
      and xs = "[(0, viewer_request, ChangePassword [])]"]
  have "has_login ''val'' (set_audit ''user:val (sessions revoked)'' (put_user ''val'' (bump_session_gen viewer_rec) users_app))"
    "has_login ''val'' (account_request (\<lambda>p. p) (=) (\<lambda>t. t)
      (set_audit ''user:val (sessions revoked)'' (put_user ''val'' (bump_session_gen viewer_rec) users_app)) (0, viewer_request, ChangePassword []))"
    by code_simp+
  then show ?thesis
    using final by (auto simp: jget_def viewer_rec_def resolve_session_def demo_users_def session_gen_def Cons_eq_append_conv)
qed

section \<open>Three gaps\<close>

text \<open>A session outlives its login. A login created later under the name of a deleted one starts
  at generation 0 again, so a cookie of the deleted login (with generation 0, as every login has
  until its first password change) is accepted again, with the role of the new login. The comment
  in \<open>_resolve_identity\<close> promises that a session whose user was deleted is no longer valid.\<close>

theorem deleted_session_revives:
  assumes "users_delete c n s = (Done (), s1)" and "check_new_user hp data (st_cfg s1) = Done (n, u', t)"
    and "users_add hp data s1 = (Done (), s2)" and "se_user old = Some n" and "se_gen old = 0"
  shows "resolve_session old (st_cfg s1) = Nobody \<and>
    resolve_session old (st_cfg s2) = Login n (u_role u') None"
proof -
  have s2: "s2 = set_audit t (put_user n u' s1)" using assms(2,3) by (simp add: users_add_def)
  note nu = check_new_user_done [OF assms(2)]
  then have "n \<noteq> []" by (auto simp: username_ok_def)
  then show ?thesis
    using nu assms(4,5) by (auto simp: resolve_session_def s2 session_gen_def)
qed

definition val_gone :: app where
  "val_gone = snd (users_delete amy_ctx ''val'' users_app)"

definition new_val :: "json dict" where
  "new_val = [(''username'', JStr ''val''), (''role'', JStr ''operator''), (''password'', JStr ''long-enough'')]"

lemma val_deleted: "users_delete amy_ctx ''val'' users_app = (Done (), val_gone)"
  by (simp add: val_gone_def users_delete_def amy_ctx_def users_app_def demo_users_def viewer_rec_def Let_def)

lemma new_val_ok: "\<exists>u t. check_new_user (\<lambda>p. p) new_val (st_cfg val_gone) = Done (''val'', u, t) \<and> u_role u = ''operator''"
proof -
  have "strip ''val'' = ''val''" "username_ok ''val''" by code_simp+
  moreover have "map_of (cf_users (st_cfg val_gone)) ''val'' = None" "cf_presets (st_cfg val_gone) = []"
    by (simp_all add: val_gone_def users_delete_def amy_ctx_def users_app_def demo_users_def viewer_rec_def
        set_audit_def empty_config_def Let_def)
  ultimately show ?thesis
    by (simp add: check_new_user_def new_val_def jget_def ROLES_def password_field_def MIN_PASSWORD_LEN_def
        new_user_def field_str_def Let_def)
qed

theorem deleted_session_revives_witness:
  "resolve_session \<lparr>se_user = Some ''val'', se_gen = 0\<rparr> (st_cfg val_gone) = Nobody \<and>
   resolve_session \<lparr>se_user = Some ''val'', se_gen = 0\<rparr> (st_cfg (snd (users_add (\<lambda>p. p) new_val val_gone))) =
     Login ''val'' ''operator'' None"
proof -
  obtain u t where u: "check_new_user (\<lambda>p. p) new_val (st_cfg val_gone) = Done (''val'', u, t)" "u_role u = ''operator''"
    using new_val_ok by blast
  then have "users_add (\<lambda>p. p) new_val val_gone = (Done (), snd (users_add (\<lambda>p. p) new_val val_gone))"
    by (simp add: users_add_def)
  from deleted_session_revives [OF val_deleted u(1) this, of "\<lparr>se_user = Some ''val'', se_gen = 0\<rparr>"] u(2)
  show ?thesis by simp
qed

text \<open>The check against losing the last administrator is per request, and the gate runs before the
  lock is taken. Two administrators who demote each other at the same time both pass the gate and
  both succeed, and nobody is administrator afterwards. \<open>users_delete\<close> counts the administrators
  under the lock; \<open>users_update\<close> does not.\<close>

theorem mutual_demotion_leaves_no_admin:
  "is_admin demo_users ''amy'' \<and> is_admin demo_users ''ben'' \<and>
   (let demote = [(''role'', JStr ''viewer'')];
        s1 = snd (snd (users_update hp amy_ctx ''ben'' demote no_session users_app));
        s2 = snd (snd (users_update hp ben_ctx ''amy'' demote no_session s1))
    in \<forall>n. \<not> is_admin (st_cfg s2) n)"
proof -
  have step: "snd (snd (users_update hp c n [(''role'', JStr ''viewer'')] se s)) =
      set_audit (''user:'' @ n) (put_user n (u\<lparr>u_role := ''viewer''\<rparr>) s)"
    if "map_of (cf_users (st_cfg s)) n = Some u" "n \<noteq> g_name c" for c n se s u
    using that by (simp add: users_update_def update_record_def update_role_def update_password_def
        update_revoke_def update_scope_def has_key_def jget_def ROLES_def)
  have amy: "map_of (cf_users (st_cfg users_app)) ''amy'' = Some admin_rec"
    and ben: "map_of (cf_users (st_cfg users_app)) ''ben'' = Some admin_rec"
    by (simp_all add: users_app_def demo_users_def)
  let ?s1 = "set_audit (''user:'' @ ''ben'') (put_user ''ben'' (admin_rec\<lparr>u_role := ''viewer''\<rparr>) users_app)"
  have s1: "snd (snd (users_update hp amy_ctx ''ben'' [(''role'', JStr ''viewer'')] no_session users_app)) = ?s1"
    using step [OF ben] by (simp add: amy_ctx_def)
  have s2: "snd (snd (users_update hp ben_ctx ''amy'' [(''role'', JStr ''viewer'')] no_session ?s1)) =
      set_audit (''user:'' @ ''amy'') (put_user ''amy'' (admin_rec\<lparr>u_role := ''viewer''\<rparr>) ?s1)"
    using step [of ?s1 "''amy''" admin_rec ben_ctx] amy by (simp add: ben_ctx_def amy_ctx_def)
  show ?thesis
    unfolding Let_def s1 s2
    by (auto simp: is_admin_def users_app_def demo_users_def admin_rec_def viewer_rec_def split: if_splits)
qed

text \<open>A password set from the command line does not end the sessions made with the old one: the
  generation is left as it is, unlike in the two web routes, although a password reset is announced
  as signing that user out everywhere.\<close>

theorem cli_reset_keeps_sessions:
  assumes "cli_set_password hp boot n pw cfg = Done cfg'" and "resolve_session se cfg = Login n role tok"
  shows "\<exists>role' tok'. resolve_session se cfg' = Login n role' tok' \<and>
    (\<exists>u. map_of (cf_users cfg') n = Some u \<and> u_password u = hp pw)"
proof -
  obtain u where u: "map_of (cf_users cfg) n = Some u" "se_user se = Some n" "n \<noteq> []" "se_gen se = u_session_gen u"
    using assms(2) by (auto simp: resolve_session_def session_gen_def split: option.splits if_splits)
  then have "ensure_bootstrap hp boot cfg = cfg" by (auto simp: ensure_bootstrap_def)
  then have cfg': "cfg' = cfg\<lparr>cf_users := AList.update n (u\<lparr>u_password := hp pw, u_must_change := False\<rparr>) (cf_users cfg)\<rparr>"
    using assms(1) u(1) by (auto simp: cli_set_password_def Let_def split: if_splits)
  show ?thesis using u by (simp add: resolve_session_def cfg' session_gen_def)
qed

theorem cli_reset_keeps_sessions_witness:
  "\<exists>cfg' role tok. cli_set_password (\<lambda>p. p) [] ''val'' ''new-password'' demo_users = Done cfg' \<and>
     resolve_session \<lparr>se_user = Some ''val'', se_gen = 0\<rparr> cfg' = Login ''val'' role tok"
proof -
  have ok: "username_ok ''val''" by code_simp
  then obtain cfg' where cfg': "cli_set_password (\<lambda>p. p) [] ''val'' ''new-password'' demo_users = Done cfg'"
    by (simp add: cli_set_password_def MIN_PASSWORD_LEN_def Let_def)
  have "resolve_session \<lparr>se_user = Some ''val'', se_gen = 0\<rparr> demo_users = Login ''val'' ''viewer'' None"
    by (simp add: resolve_session_def demo_users_def viewer_rec_def session_gen_def)
  from cli_reset_keeps_sessions [OF cfg' this] cfg' show ?thesis by blast
qed

end
