(* ===== verification/Checks.thy ===== *)
theory Checks
  imports Scope Tuning Conditions "HOL-Library.Word"
begin

unbundle bit_operations_syntax

text \<open>
  Service checks (\<open>checks.py\<close> and the "Service checks" section of \<open>app.py\<close>): the catalogue, the
  validation of a definition, one probe, the run of all of them on the monitor's cadence, how the
  results reach the hosts' envelopes and the notifier, and the routes. The network is a parameter:
  what a connection, handshake, request or datagram exchange returns, times out or raises.
\<close>

section \<open>The catalogue\<close>

record service =
  s_id :: string
  s_label :: string
  s_port :: int
  s_kind :: string
  s_send :: "string option"
  s_expect :: "string option"

definition svc :: "string \<Rightarrow> string \<Rightarrow> int \<Rightarrow> string \<Rightarrow> string option \<Rightarrow> string option \<Rightarrow> service" where
  "svc i l p k tx ex = \<lparr>s_id = i, s_label = l, s_port = p, s_kind = k, s_send = tx, s_expect = ex\<rparr>"

text \<open>Port 0 stands for the missing default of the custom TCP check.\<close>

definition SERVICES :: "service list" where
  "SERVICES = [
     svc ''http'' ''HTTP'' 80 ''http'' None None,
     svc ''https'' ''HTTPS'' 443 ''https'' None None,
     svc ''ssh'' ''SSH'' 22 ''tcp'' None (Some ''SSH-''),
     svc ''dns'' ''DNS'' 53 ''dns'' None None,
     svc ''dot'' ''DNS over TLS'' 853 ''tls'' None None,
     svc ''ntp'' ''NTP'' 123 ''ntp'' None None,
     svc ''smtp'' ''SMTP'' 25 ''tcp'' None (Some ''220''),
     svc ''smtp-sub'' ''SMTP submission'' 587 ''tcp'' None (Some ''220''),
     svc ''smtps'' ''SMTPS'' 465 ''tls'' None None,
     svc ''imap'' ''IMAP'' 143 ''tcp'' None (Some ''* OK''),
     svc ''imaps'' ''IMAPS'' 993 ''tls'' None None,
     svc ''pop3'' ''POP3'' 110 ''tcp'' None (Some ''+OK''),
     svc ''pop3s'' ''POP3S'' 995 ''tls'' None None,
     svc ''ftp'' ''FTP'' 21 ''tcp'' None (Some ''220''),
     svc ''smb'' ''SMB / CIFS'' 445 ''tcp'' None None,
     svc ''nfs'' ''NFS'' 2049 ''tcp'' None None,
     svc ''dlna'' ''DLNA / miniDLNA'' 8200 ''http'' None None,
     svc ''iscsi'' ''iSCSI'' 3260 ''tcp'' None None,
     svc ''rdp'' ''RDP'' 3389 ''tcp'' None None,
     svc ''vnc'' ''VNC'' 5900 ''tcp'' None (Some ''RFB''),
     svc ''telnet'' ''Telnet'' 23 ''tcp'' None None,
     svc ''mysql'' ''MySQL / MariaDB'' 3306 ''tcp'' None None,
     svc ''postgres'' ''PostgreSQL'' 5432 ''tcp'' None None,
     svc ''mssql'' ''SQL Server'' 1433 ''tcp'' None None,
     svc ''mongodb'' ''MongoDB'' 27017 ''tcp'' None None,
     svc ''redis'' ''Redis'' 6379 ''tcp'' (Some (''PING'' @ [CHR 0x0D, CHR 0x0A])) (Some ''+PONG''),
     svc ''memcached'' ''Memcached'' 11211 ''tcp'' (Some (''version'' @ [CHR 0x0D, CHR 0x0A])) (Some ''VERSION''),
     svc ''ldap'' ''LDAP'' 389 ''tcp'' None None,
     svc ''ldaps'' ''LDAPS'' 636 ''tls'' None None,
     svc ''mqtt'' ''MQTT'' 1883 ''tcp'' None None,
     svc ''amqp'' ''AMQP / RabbitMQ'' 5672 ''tcp'' None None,
     svc ''elastic'' ''Elasticsearch'' 9200 ''http'' None None,
     svc ''kafka'' ''Kafka'' 9092 ''tcp'' None None,
     svc ''git'' ''Git daemon'' 9418 ''tcp'' None None,
     svc ''tcp'' ''Custom TCP port'' 0 ''tcp'' None None]"

definition service_named :: "string \<Rightarrow> service option" where
  "service_named i = find_by s_id i SERVICES"

section \<open>A definition\<close>

text \<open>\<open>str(v or '')\<close>.\<close>

definition or_str :: "json \<Rightarrow> string" where
  "or_str v = (if truthy v then py_str v else [])"

definition target_char :: "char \<Rightarrow> bool" where
  "target_char c = (let n = (of_char c :: nat) in (97 \<le> n \<and> n \<le> 122) \<or> (65 \<le> n \<and> n \<le> 90) \<or>
     is_digit c \<or> c \<in> {CHR ''.'', CHR ''_'', CHR '':'', CHR ''-''})"

definition target_ok :: "string \<Rightarrow> bool" where
  "target_ok t = (1 \<le> length t \<and> length t \<le> 253 \<and> list_all target_char t)"

definition clean_port :: "json \<Rightarrow> service \<Rightarrow> exn + int" where
  "clean_port v s = (if truthy v then py_int v else Inr (s_port s))"

definition clean_check :: "json dict \<Rightarrow> check resp" where
  "clean_check data =
     (case service_named (strip (or_str (jget data ''service''))) of
        None \<Rightarrow> Fail 400 ''unknown service''
      | Some s \<Rightarrow>
          let target = strip (or_str (jget data ''target''))
          in if \<not> target_ok target then Fail 400 ''target must be an IP address or hostname''
          else (case clean_port (jget data ''port'') s of
              Inl OverflowError \<Rightarrow> Crash OverflowError
            | Inl e \<Rightarrow> Fail 400 ''invalid port''
            | Inr port \<Rightarrow>
                if \<not> (1 \<le> port \<and> port \<le> 65535) then Fail 400 ''port must be 1-65535''
                else
                  let name = take 48 (strip (or_str (jget data ''name'')));
                      pin = strip (or_str (jget data ''node_id''))
                  in Done \<lparr>k_id = [], k_service = s_id s, k_target = target, k_port = port,
                       k_name = (if name = [] then s_label s @ '' @ '' @ target else name),
                       k_node_id = (if pin = [] then None else Some pin), k_added_at = None\<rparr>))"

section \<open>One probe\<close>

datatype 'a io = Got 'a | TimedOut | Raised string string

text \<open>\<open>net_tcp\<close> answers with what the first read returns (empty when nothing is expected),
  \<open>net_tls\<close> with the protocol version, \<open>net_http\<close> with the status code, \<open>net_udp\<close> with the
  datagram that comes back. \<open>Raised\<close> carries \<open>str(e)\<close> and the name of the class.\<close>

record network =
  net_tcp :: "string \<Rightarrow> int \<Rightarrow> string option \<Rightarrow> bool \<Rightarrow> string io"
  net_tls :: "string \<Rightarrow> int \<Rightarrow> string option io"
  net_http :: "string \<Rightarrow> string \<Rightarrow> int \<Rightarrow> nat io"
  net_udp :: "string \<Rightarrow> int \<Rightarrow> 8 word list \<Rightarrow> 8 word list io"

fun map_io :: "('a \<Rightarrow> 'b) \<Rightarrow> 'a io \<Rightarrow> 'b io" where
  "map_io f (Got x) = Got (f x)"
| "map_io f TimedOut = TimedOut"
| "map_io f (Raised m c) = Raised m c"

definition first_line :: "string \<Rightarrow> string" where
  "first_line data = strip (takeWhile (\<lambda>c. c \<noteq> newline) data)"

definition read_tcp :: "string option \<Rightarrow> string \<Rightarrow> bool \<times> string" where
  "read_tcp expect data = (case expect of
      None \<Rightarrow> (True, ''port open'')
    | Some e \<Rightarrow>
        if data = [] then (False, ''connected but no reply'')
        else if \<not> startswith e (lstrip data) then (False, ''unexpected reply: '' @ repr_str (take 40 (first_line data)))
        else (True, let l = take 80 (first_line data) in if l = [] then ''reply ok'' else l))"

definition probe_tcp :: "network \<Rightarrow> string \<Rightarrow> int \<Rightarrow> string option \<Rightarrow> string option \<Rightarrow> (bool \<times> string) io" where
  "probe_tcp net target port send expect =
     map_io (read_tcp expect) (net_tcp net target port send (expect \<noteq> None))"

definition probe_tls :: "network \<Rightarrow> string \<Rightarrow> int \<Rightarrow> (bool \<times> string) io" where
  "probe_tls net target port = map_io (\<lambda>v. (True,
     (case v of None \<Rightarrow> ''TLS'' | Some s \<Rightarrow> if s = [] then ''TLS'' else s) @ '' handshake ok'')) (net_tls net target port)"

definition probe_http :: "network \<Rightarrow> string \<Rightarrow> string \<Rightarrow> int \<Rightarrow> (bool \<times> string) io" where
  "probe_http net scheme target port =
     (let host = (if CHR '':'' \<in> set target then ''['' @ target @ '']'' else target)
      in map_io (\<lambda>code. (code < 500, ''HTTP '' @ show_nat code)) (net_http net scheme host port))"

text \<open>An A query for \<open>example.com\<close> with the id \<open>0x4e43\<close>.\<close>

definition dns_query :: "8 word list" where
  "dns_query = [0x4e, 0x43, 0x01, 0x00, 0, 1, 0, 0, 0, 0, 0, 0] @
     7 # map of_char ''example'' @ 3 # map of_char ''com'' @ [0, 0, 1, 0, 1]"

definition read_dns :: "8 word list \<Rightarrow> bool \<times> string" where
  "read_dns data =
     (if 12 \<le> length data \<and> take 2 data = take 2 dns_query \<and> data ! 2 AND 0x80 \<noteq> 0
      then let rcode = unat (data ! 3 AND 0x0f)
        in (True, ''DNS answering'' @ (if rcode = 0 then [] else '' (rcode '' @ show_nat rcode @ '')''))
      else (False, ''malformed DNS response''))"

definition probe_dns :: "network \<Rightarrow> string \<Rightarrow> int \<Rightarrow> (bool \<times> string) io" where
  "probe_dns net target port = map_io read_dns (net_udp net target port dns_query)"

definition ntp_request :: "8 word list" where
  "ntp_request = 0x1b # replicate 47 0"

definition read_ntp :: "8 word list \<Rightarrow> bool \<times> string" where
  "read_ntp data = (if 48 \<le> length data then (True, ''NTP stratum '' @ show_nat (unat (data ! 1)))
     else (False, ''malformed NTP response''))"

definition probe_ntp :: "network \<Rightarrow> string \<Rightarrow> int \<Rightarrow> (bool \<times> string) io" where
  "probe_ntp net target port = map_io read_ntp (net_udp net target port ntp_request)"

text \<open>\<open>friendly_error\<close> (\<open>adapters/base.py\<close>): a transport error as a short reason.\<close>

definition FRIENDLY_PATTERNS :: "(string \<times> string) list" where
  "FRIENDLY_PATTERNS = [(''no route to host'', ''no route to host''), (''connection refused'', ''connection refused''),
     (''name or service not known'', ''DNS lookup failed''), (''failed to resolve'', ''DNS lookup failed''),
     (''getaddrinfo'', ''DNS lookup failed''), (''timed out'', ''timed out''), (''timeout'', ''timed out''),
     (''connection aborted'', ''connection dropped''), (''connection reset'', ''connection dropped''),
     (''certificate'', ''TLS error''), (''ssl'', ''TLS error''), (''newconnectionerror'', ''connection failed''),
     (''max retries exceeded'', ''connection failed'')]"

definition friendly_error :: "string \<Rightarrow> string" where
  "friendly_error err =
     (let s = strip err; low = lower s
      in if contains ''fingerprint changed'' low \<or> startswith ''await'' low then s
         else (case find (\<lambda>(pat, reason). contains pat low) FRIENDLY_PATTERNS of
             Some (pat, reason) \<Rightarrow> reason
           | None \<Rightarrow> if length s \<le> 120 then s else take 117 s @ [ellipsis]))"

definition probe :: "network \<Rightarrow> check \<Rightarrow> (bool \<times> string) io" where
  "probe net c =
     (case service_named (k_service c) of
        None \<Rightarrow> probe_tcp net (k_target c) (k_port c) None None
      | Some s \<Rightarrow>
          if s_kind s \<in> {''http'', ''https''} then probe_http net (s_kind s) (k_target c) (k_port c)
          else if s_kind s = ''tls'' then probe_tls net (k_target c) (k_port c)
          else if s_kind s = ''dns'' then probe_dns net (k_target c) (k_port c)
          else if s_kind s = ''ntp'' then probe_ntp net (k_target c) (k_port c)
          else probe_tcp net (k_target c) (k_port c) (s_send s) (s_expect s))"

text \<open>\<open>run_check\<close> never raises: every outcome is a pair of a verdict and a text.\<close>

definition run_check :: "network \<Rightarrow> check \<Rightarrow> bool \<times> string" where
  "run_check net c = (case probe net c of
      Got r \<Rightarrow> r
    | TimedOut \<Rightarrow> (False, ''timed out'')
    | Raised m cls \<Rightarrow> (False, friendly_error (if m = [] then cls else m)))"

section \<open>Running them\<close>

text \<open>\<open>ms\<close> gives the measured latency of a check, \<open>ts\<close> the printed time.\<close>

definition run_one_check :: "network \<Rightarrow> (check \<Rightarrow> int) \<Rightarrow> string \<Rightarrow> string set \<Rightarrow> check \<Rightarrow> string \<times> check_result" where
  "run_one_check net ms ts disabled_ids c =
     (case k_node_id c of
        Some n \<Rightarrow>
          if n \<in> disabled_ids then (k_id c, \<lparr>r_ok = None, r_paused = True, r_latency_ms = None,
            r_detail = ''pinned host is paused'', r_ts = ts\<rparr>)
          else (let (ok, d) = run_check net c in (k_id c, \<lparr>r_ok = Some ok, r_paused = False,
            r_latency_ms = Some (ms c), r_detail = d, r_ts = ts\<rparr>))
      | None \<Rightarrow> (let (ok, d) = run_check net c in (k_id c, \<lparr>r_ok = Some ok, r_paused = False,
            r_latency_ms = Some (ms c), r_detail = d, r_ts = ts\<rparr>)))"

definition disabled_ids :: "node list \<Rightarrow> string set" where
  "disabled_ids nodes = n_id ` set (filter n_disabled nodes)"

definition run_all_checks :: "network \<Rightarrow> (check \<Rightarrow> int) \<Rightarrow> string \<Rightarrow> app \<Rightarrow> app" where
  "run_all_checks net ms ts s =
     (if st_checks s = [] then s\<lparr>st_results := []\<rparr>
      else
        let fresh = map (run_one_check net ms ts (disabled_ids (st_nodes s))) (st_checks s);
            live = map k_id (st_checks s)
        in s\<lparr>st_results := foldl (\<lambda>d (i, r). AList.update i r d)
               (filter (\<lambda>(i, r). i \<in> set live) (st_results s)) fresh\<rparr>)"

text \<open>\<open>_attach_svc_checks\<close>: what a host's envelope shows of the checks pinned to it.\<close>

definition svc_row :: "check_result dict \<Rightarrow> check \<Rightarrow> svc_check" where
  "svc_row res c = \<lparr>sc_id = k_id c, sc_name = k_name c,
     sc_ok = (case map_of res (k_id c) of None \<Rightarrow> None | Some r \<Rightarrow> r_ok r),
     sc_detail = map_option r_detail (map_of res (k_id c))\<rparr>"

definition pinned_to :: "string \<Rightarrow> check list \<Rightarrow> check list" where
  "pinned_to n cs = filter (\<lambda>c. k_node_id c = Some n) cs"

definition attach_svc_checks :: "check list \<Rightarrow> check_result dict \<Rightarrow> envelope list \<Rightarrow> envelope list" where
  "attach_svc_checks cs res envs = map (\<lambda>env.
     if e_disabled env \<or> pinned_to (e_id env) cs = [] then env
     else env\<lparr>e_svc_checks := map (svc_row res) (pinned_to (e_id env) cs)\<rparr>) envs"

text \<open>\<open>_check_monitor_envs\<close>: an unpinned check with a verdict as an entity of its own. The
  dictionary it builds has four keys; every other field reads as missing.\<close>

definition check_envelope :: "check \<Rightarrow> bool \<Rightarrow> string \<Rightarrow> envelope" where
  "check_envelope c ok detail =
     (base_envelope (sample_node (''check:'' @ k_id c) (''check '' @ k_name c)))
       \<lparr>e_ok := ok, e_error := (if ok then None else Some (if detail = [] then ''failing'' else detail)),
        e_summary := Some no_summary\<rparr>"

definition check_monitor_envs :: "app \<Rightarrow> envelope list" where
  "check_monitor_envs s = concat (map (\<lambda>c.
     case map_of (st_results s) (k_id c) of
       None \<Rightarrow> []
     | Some r \<Rightarrow> (case r_ok r of None \<Rightarrow> [] | Some ok \<Rightarrow> [check_envelope c ok (r_detail r)]))
     (filter (\<lambda>c. k_node_id c = None) (st_checks s)))"

section \<open>The routes\<close>

definition store_check_result :: "network \<Rightarrow> (check \<Rightarrow> int) \<Rightarrow> string \<Rightarrow> check \<Rightarrow> app \<Rightarrow> check_result \<times> app" where
  "store_check_result net ms ts c s =
     (let (i, r) = run_one_check net ms ts (disabled_ids (st_nodes s)) c
      in (r, bust_fleet (s\<lparr>st_results := AList.update i r (st_results s)\<rparr>)))"

definition pin_known :: "check \<Rightarrow> app \<Rightarrow> bool" where
  "pin_known c s = (case k_node_id c of None \<Rightarrow> True | Some n \<Rightarrow> n \<in> n_id ` set (st_nodes s))"

definition checks_add :: "network \<Rightarrow> (check \<Rightarrow> int) \<Rightarrow> string \<Rightarrow> string \<Rightarrow> json dict \<Rightarrow> app \<Rightarrow> check resp \<times> app" where
  "checks_add net ms ts new_id data s = (case clean_check data of
      Fail c m \<Rightarrow> (Fail c m, s)
    | Crash e \<Rightarrow> (Crash e, s)
    | Done rec0 \<Rightarrow>
        if \<not> pin_known rec0 s then (Fail 400 ''unknown host for pin'', s)
        else let rec = rec0\<lparr>k_id := new_id, k_added_at := Some ts\<rparr>;
                 (r, s') = store_check_result net ms ts rec (s\<lparr>st_checks := st_checks s @ [rec]\<rparr>)
          in (Done rec, set_audit (k_name rec) s'))"

definition checks_update :: "network \<Rightarrow> (check \<Rightarrow> int) \<Rightarrow> string \<Rightarrow> string \<Rightarrow> json dict \<Rightarrow> app \<Rightarrow> check resp \<times> app" where
  "checks_update net ms ts cid data s = (case clean_check data of
      Fail c m \<Rightarrow> (Fail c m, s)
    | Crash e \<Rightarrow> (Crash e, s)
    | Done rec0 \<Rightarrow>
        if \<not> pin_known rec0 s then (Fail 400 ''unknown host for pin'', s)
        else (case find_by k_id cid (st_checks s) of
            None \<Rightarrow> (Fail 404 ''check not found'', s)
          | Some old \<Rightarrow>
              let rec = rec0\<lparr>k_id := cid, k_added_at := k_added_at old\<rparr>;
                  (r, s') = store_check_result net ms ts rec
                    (s\<lparr>st_checks := edit_by k_id cid (\<lambda>_. rec) (st_checks s)\<rparr>)
              in (Done rec, set_audit (k_name rec) s')))"

definition checks_delete :: "string \<Rightarrow> app \<Rightarrow> unit resp \<times> app" where
  "checks_delete cid s = (case find_by k_id cid (st_checks s) of
      None \<Rightarrow> (Fail 404 ''check not found'', s)
    | Some c \<Rightarrow> (Done (), set_audit (k_name c) (bust_fleet
        (s\<lparr>st_checks := remove_by k_id cid (st_checks s), st_results := AList.delete cid (st_results s)\<rparr>))))"

definition checks_run :: "network \<Rightarrow> (check \<Rightarrow> int) \<Rightarrow> string \<Rightarrow> ctx \<Rightarrow> string \<Rightarrow> app \<Rightarrow> check_result resp \<times> app" where
  "checks_run net ms ts ctx cid s = (case find_by k_id cid (st_checks s) of
      None \<Rightarrow> (Fail 404 ''check not found'', s)
    | Some c \<Rightarrow>
        let hidden = (case k_node_id c of None \<Rightarrow> False
              | Some n \<Rightarrow> (case find_by n_id n (st_nodes s) of None \<Rightarrow> False
                  | Some node \<Rightarrow> \<not> scope_allows (g_scope ctx) (n_tags node)))
        in if g_scope ctx \<noteq> None \<and> hidden then (Fail 404 ''check not found'', s)
           else let (r, s') = store_check_result net ms ts c s in (Done r, set_audit (k_name c) s'))"

text \<open>\<open>checks_list\<close>: the definitions a caller sees with the pinned host's name and the result.\<close>

definition checks_list :: "ctx \<Rightarrow> app \<Rightarrow> (check \<times> string option \<times> check_result option) list" where
  "checks_list ctx s =
     (let visible = n_id ` set (visible_nodes (g_scope ctx) (st_nodes s));
          cfg = (if g_scope ctx = None then st_checks s
                 else filter (\<lambda>c. case k_node_id c of None \<Rightarrow> True | Some n \<Rightarrow> n \<in> visible) (st_checks s))
      in map (\<lambda>c. (c, (case k_node_id c of None \<Rightarrow> None
              | Some n \<Rightarrow> map_option n_name (find_by n_id n (rev (st_nodes s)))),
            map_of (st_results s) (k_id c))) cfg)"

end
