(* ===== verification/CheckFacts.thy ===== *)
theory CheckFacts
  imports Checks
begin

text \<open>
  What the service checks promise: a stored definition is well formed, the result table belongs to
  the configured checks over any sequence of operations, a run leaves exactly one fresh result per
  check, and a failing check is reported in exactly one place.
\<close>

section \<open>Definitions\<close>

lemma service_named_Some: "service_named i = Some s \<Longrightarrow> s \<in> set SERVICES \<and> s_id s = i"
  by (auto simp: service_named_def dest: find_by_Some)

lemma service_labels: "s \<in> set SERVICES \<Longrightarrow> s_label s \<noteq> []"
  by (auto simp: SERVICES_def svc_def)

lemma clean_check_done:
  assumes "clean_check data = Done c"
  shows "target_ok (k_target c)" and "1 \<le> k_port c \<and> k_port c \<le> 65535" and "k_name c \<noteq> []"
    and "service_named (k_service c) \<noteq> None" and "k_node_id c \<noteq> Some []"
    and "\<not> truthy (jget data ''port'') \<Longrightarrow> \<exists>s. service_named (k_service c) = Some s \<and> k_port c = s_port s"
proof -
  obtain s p where s: "service_named (strip (or_str (jget data ''service''))) = Some s"
    and t: "target_ok (strip (or_str (jget data ''target'')))" and p: "clean_port (jget data ''port'') s = Inr p"
    and b: "1 \<le> p \<and> p \<le> 65535"
    and c: "c = \<lparr>k_id = [], k_service = s_id s, k_target = strip (or_str (jget data ''target'')), k_port = p,
                 k_name = (if take 48 (strip (or_str (jget data ''name''))) = [] then s_label s @ '' @ '' @ strip (or_str (jget data ''target''))
                           else take 48 (strip (or_str (jget data ''name'')))),
                 k_node_id = (if strip (or_str (jget data ''node_id'')) = [] then None else Some (strip (or_str (jget data ''node_id'')))),
                 k_added_at = None\<rparr>"
    using assms unfolding clean_check_def Let_def
    by (auto split: option.splits if_splits sum.splits exn.splits)
  note sn = service_named_Some [OF s]
  show "target_ok (k_target c)" "1 \<le> k_port c \<and> k_port c \<le> 65535" "k_node_id c \<noteq> Some []"
    using t b by (simp_all add: c)
  show "k_name c \<noteq> []" using service_labels sn by (simp add: c)
  show "service_named (k_service c) \<noteq> None" using s sn by (simp add: c)
  show "\<exists>s. service_named (k_service c) = Some s \<and> k_port c = s_port s" if "\<not> truthy (jget data ''port'')"
    using s sn p that by (simp add: c clean_port_def)
qed

text \<open>An accepted definition names a catalogue service, a host that is an address or a name, a
  port in range (the service's own when none is given) and a non-empty label.\<close>

theorem clean_check_sound:
  assumes "clean_check data = Done c"
  shows "target_ok (k_target c) \<and> 1 \<le> k_port c \<and> k_port c \<le> 65535 \<and> k_name c \<noteq> [] \<and>
    (\<exists>s. service_named (k_service c) = Some s \<and> (truthy (jget data ''port'') \<or> k_port c = s_port s))"
  using clean_check_done [OF assms] by (metis option.exhaust)

definition ssh_check :: "json dict" where
  "ssh_check = [(''service'', JStr ''ssh''), (''target'', JStr '' db1.lan '')]"

lemma ssh_check_clean: "clean_check ssh_check = Done \<lparr>k_id = [], k_service = ''ssh'', k_target = ''db1.lan'',
   k_port = 22, k_name = ''SSH @ db1.lan'', k_node_id = None, k_added_at = None\<rparr>"
proof -
  have "service_named ''ssh'' = Some (svc ''ssh'' ''SSH'' 22 ''tcp'' None (Some ''SSH-''))" by code_simp
  moreover have "strip ''ssh'' = ''ssh''" "strip '' db1.lan '' = ''db1.lan''" "target_ok ''db1.lan''" "strip [] = []"
    by code_simp+
  ultimately show ?thesis
    by (simp add: clean_check_def ssh_check_def jget_def or_str_def py_str_def svc_def clean_port_def Let_def)
qed

theorem clean_check_sound_witness:
  "\<exists>c. clean_check ssh_check = Done c \<and> k_port c = 22 \<and> target_ok (k_target c)"
  using clean_check_sound [OF ssh_check_clean] ssh_check_clean by simp

section \<open>The result table\<close>

definition checks_ok :: "app \<Rightarrow> bool" where
  "checks_ok s = (distinct (map k_id (st_checks s)) \<and> set (map fst (st_results s)) \<subseteq> set (map k_id (st_checks s)) \<and>
     distinct (map fst (st_results s)))"

lemma run_one_id [simp]: "fst (run_one_check net ms ts ids c) = k_id c"
  by (auto simp: run_one_check_def split: option.split prod.split)

lemma update_all_keys: "set (map fst (foldl (\<lambda>d (i, r). AList.update i r d) d xs)) = set (map fst d) \<union> fst ` set xs"
proof (induction xs arbitrary: d)
  case (Cons x xs)
  then show ?case using keys_update [of "fst x" "snd x" d] by (cases x) auto
qed simp

lemmas update_all_image = update_all_keys [unfolded set_map]

lemma update_all_distinct:
  "distinct (map fst d) \<Longrightarrow> distinct (map fst (foldl (\<lambda>d (i, r). AList.update i r d) d xs))"
  by (induction xs arbitrary: d) (auto simp: distinct_keys_update)

lemma update_all_lookup:
  "distinct (map fst xs) \<Longrightarrow> map_of (foldl (\<lambda>d (i, r). AList.update i r d) d xs) k =
     (case map_of xs k of Some r \<Rightarrow> Some r | None \<Rightarrow> map_of d k)"
proof (induction xs arbitrary: d)
  case (Cons x xs)
  obtain i r where x: "x = (i, r)" by (cases x)
  have "i = k \<Longrightarrow> map_of xs k = None" using Cons.prems by (auto simp: x map_of_eq_None_iff)
  then show ?case using Cons by (auto simp: x split: option.split)
qed simp

lemma fresh_ids: "map fst (map (run_one_check net ms ts ids) cs) = map k_id cs"
  by simp

lemma run_all_keys: "set (map fst (st_results (run_all_checks net ms ts s))) = set (map k_id (st_checks s))"
proof -
  have "fst ` set (map (run_one_check net ms ts ids) cs) = k_id ` set cs" for ids cs
    by (simp add: image_image)
  then show ?thesis
    unfolding run_all_checks_def Let_def by (auto simp: update_all_image image_image)
qed

datatype check_op =
    CheckAdd string "json dict"
  | CheckUpdate string "json dict"
  | CheckDelete string
  | CheckRun ctx string
  | CheckRunAll

text \<open>One operation; a new id that is already taken is drawn again.\<close>

fun check_step :: "app \<Rightarrow> network \<times> (check \<Rightarrow> int) \<times> string \<times> check_op \<Rightarrow> app" where
  "check_step s (net, ms, ts, CheckAdd i data) =
     (if i \<in> k_id ` set (st_checks s) then s else snd (checks_add net ms ts i data s))"
| "check_step s (net, ms, ts, CheckUpdate i data) = snd (checks_update net ms ts i data s)"
| "check_step s (net, ms, ts, CheckDelete i) = snd (checks_delete i s)"
| "check_step s (net, ms, ts, CheckRun c i) = snd (checks_run net ms ts c i s)"
| "check_step s (net, ms, ts, CheckRunAll) = run_all_checks net ms ts s"

lemma store_result_ok:
  assumes "checks_ok s" and "k_id c \<in> k_id ` set (st_checks s)"
  shows "checks_ok (snd (store_check_result net ms ts c s))"
proof -
  obtain r where r: "run_one_check net ms ts (disabled_ids (st_nodes s)) c = (k_id c, r)"
    by (metis prod.collapse run_one_id)
  have "set (map fst (AList.update (k_id c) r (st_results s))) \<subseteq> k_id ` set (st_checks s)"
    using assms unfolding keys_update by (auto simp: checks_ok_def)
  then show ?thesis
    using assms by (simp add: store_check_result_def r checks_ok_def bust_fleet_def distinct_keys_update)
qed

lemma store_result_frame [simp]:
  "st_checks (snd (store_check_result net ms ts c s)) = st_checks s"
  "st_nodes (snd (store_check_result net ms ts c s)) = st_nodes s"
  by (simp_all add: store_check_result_def bust_fleet_def split: prod.split)

lemma checks_ok_audit [simp]: "checks_ok (set_audit t s) = checks_ok s"
  by (simp add: checks_ok_def set_audit_def)

lemma checks_add_ok:
  assumes "checks_ok s" and "i \<notin> k_id ` set (st_checks s)"
  shows "checks_ok (snd (checks_add net ms ts i data s))"
proof (cases "clean_check data")
  case (Done c)
  let ?rec = "c\<lparr>k_id := i, k_added_at := Some ts\<rparr>"
  have "checks_ok (s\<lparr>st_checks := st_checks s @ [?rec]\<rparr>)" using assms by (auto simp: checks_ok_def)
  then have "checks_ok (snd (store_check_result net ms ts ?rec (s\<lparr>st_checks := st_checks s @ [?rec]\<rparr>)))"
    by (rule store_result_ok) simp
  then show ?thesis using assms(1) Done
    by (cases "store_check_result net ms ts ?rec (s\<lparr>st_checks := st_checks s @ [?rec]\<rparr>)")
      (simp add: checks_add_def Let_def)
qed (use assms in \<open>simp_all add: checks_add_def\<close>)

lemma checks_update_ok:
  assumes "checks_ok s"
  shows "checks_ok (snd (checks_update net ms ts i data s))"
proof (cases "clean_check data")
  case (Done c)
  show ?thesis
  proof (cases "find_by k_id i (st_checks s)")
    case None
    then show ?thesis using assms Done by (simp add: checks_update_def)
  next
    case (Some old)
    let ?rec = "c\<lparr>k_id := i, k_added_at := k_added_at old\<rparr>"
    let ?s = "s\<lparr>st_checks := edit_by k_id i (\<lambda>_. ?rec) (st_checks s)\<rparr>"
    have ids: "map k_id (edit_by k_id i (\<lambda>_. ?rec) xs) = map k_id xs" for xs
      by (induction xs) auto
    have "checks_ok ?s" using assms unfolding checks_ok_def by (simp add: ids)
    moreover have "i \<in> set (map k_id (st_checks s))" using find_by_Some [OF Some] by auto
    then have "i \<in> k_id ` set (st_checks ?s)" using ids [of "st_checks s"] by (metis app.select_convs(4) app.surjective app.update_convs(4) list.set_map)
    ultimately have "checks_ok (snd (store_check_result net ms ts ?rec ?s))" by (intro store_result_ok) simp_all
    then show ?thesis using assms Done Some
      by (cases "store_check_result net ms ts ?rec ?s") (simp add: checks_update_def Let_def)
  qed
qed (use assms in \<open>simp_all add: checks_update_def\<close>)

lemma checks_delete_ok: "checks_ok s \<Longrightarrow> checks_ok (snd (checks_delete i s))"
proof (cases "find_by k_id i (st_checks s)")
  case (Some c)
  assume ok: "checks_ok s"
  have "checks_ok (bust_fleet (s\<lparr>st_checks := remove_by k_id i (st_checks s), st_results := AList.delete i (st_results s)\<rparr>))"
    using ok keys_delete [of i "st_results s"]
    by (auto simp: checks_ok_def bust_fleet_def distinct_map_filter distinct_keys_delete remove_by_def)
  then show ?thesis using Some by (simp add: checks_delete_def)
qed (simp add: checks_delete_def)

lemma checks_run_ok: "checks_ok s \<Longrightarrow> checks_ok (snd (checks_run net ms ts c i s))"
proof (cases "find_by k_id i (st_checks s)")
  case (Some k)
  assume ok: "checks_ok s"
  have "k_id k \<in> k_id ` set (st_checks s)" using find_by_Some [OF Some] by blast
  from store_result_ok [OF ok this, of net ms ts] show ?thesis
    using ok Some by (cases "store_check_result net ms ts k s") (simp add: checks_run_def Let_def)
qed (simp add: checks_run_def)

lemma run_all_ok: "checks_ok s \<Longrightarrow> checks_ok (run_all_checks net ms ts s)"
proof -
  assume ok: "checks_ok s"
  have "distinct (map fst (st_results (run_all_checks net ms ts s)))"
    using ok by (auto simp: run_all_checks_def Let_def checks_ok_def distinct_map_filter intro!: update_all_distinct)
  moreover have "st_checks (run_all_checks net ms ts s) = st_checks s" by (simp add: run_all_checks_def Let_def)
  ultimately show ?thesis using ok unfolding checks_ok_def by (simp add: run_all_keys del: set_map)
qed

lemma check_step_ok: "checks_ok s \<Longrightarrow> checks_ok (check_step s x)"
  by (cases "(s, x)" rule: check_step.cases)
    (simp_all add: checks_add_ok checks_update_ok checks_delete_ok checks_run_ok run_all_ok)

interpretation checks: step_system check_step checks_ok
  by unfold_locales (rule check_step_ok)

lemma run_all_lookup:
  assumes ok: "checks_ok s" and c: "c \<in> set (st_checks s)"
  shows "map_of (st_results (run_all_checks net ms ts s)) (k_id c) =
    Some (snd (run_one_check net ms ts (disabled_ids (st_nodes s)) c))"
proof -
  let ?f = "map (run_one_check net ms ts (disabled_ids (st_nodes s))) (st_checks s)"
  have d: "distinct (map fst ?f)" unfolding fresh_ids using ok by (simp add: checks_ok_def)
  have "(k_id c, snd (run_one_check net ms ts (disabled_ids (st_nodes s)) c)) \<in> set ?f"
    using c by (metis image_eqI list.set_map prod.collapse run_one_id)
  then have "map_of ?f (k_id c) = Some (snd (run_one_check net ms ts (disabled_ids (st_nodes s)) c))"
    using d by (simp del: set_map map_map)
  then show ?thesis using c d by (auto simp: run_all_checks_def Let_def update_all_lookup simp del: map_map)
qed

text \<open>C10: over any sequence of definitions, edits, deletions, single probes and full runs the check ids
  stay distinct and every cached result belongs to a configured check; right after a full run the
  table holds exactly the fresh result of every check, a check pinned to a paused host included.\<close>

theorem checks_invariant:
  assumes "checks_ok s"
  shows "checks_ok (foldl check_step s xs) \<and>
    (\<forall>c\<in>set (st_checks (foldl check_step s xs)).
       map_of (st_results (run_all_checks net ms ts (foldl check_step s xs))) (k_id c) =
       Some (snd (run_one_check net ms ts (disabled_ids (st_nodes (foldl check_step s xs))) c)))"
  using checks.run_inv [OF assms, of xs] run_all_lookup by blast

definition net_down :: network where
  "net_down = \<lparr>net_tcp = \<lambda>t p s e. TimedOut, net_tls = \<lambda>t p. TimedOut, net_http = \<lambda>s t p. TimedOut,
     net_udp = \<lambda>t p d. TimedOut\<rparr>"

definition tcp_check :: "string option \<Rightarrow> check" where
  "tcp_check pin = \<lparr>k_id = ''c1'', k_service = ''ssh'', k_target = ''db1.lan'', k_port = 22, k_name = ''db ssh'',
     k_node_id = pin, k_added_at = None\<rparr>"

definition check_app :: "string option \<Rightarrow> app" where
  "check_app pin = empty_app\<lparr>st_checks := [tcp_check pin], st_nodes := [sample_node ''h1'' ''h1'']\<rparr>"

lemma check_app_ok: "checks_ok (check_app pin)"
  by (simp add: checks_ok_def check_app_def empty_app_def)

theorem checks_invariant_witness:
  "checks_ok (foldl check_step (check_app None) [(net_down, (\<lambda>_. 5), ''t'', CheckDelete ''other'')])"
  using checks_invariant [OF check_app_ok [of None], of "[(net_down, (\<lambda>_. 5), ''t'', CheckDelete ''other'')]"] by blast

section \<open>Where a failure is reported\<close>

lemma attach_env:
  assumes "env \<in> set envs" and "e_id env = n" and "\<not> e_disabled env" and "c \<in> set cs" and "k_node_id c = Some n"
  shows "\<exists>env'\<in>set (attach_svc_checks cs res envs). e_id env' = n \<and> e_svc_checks env' = map (svc_row res) (pinned_to n cs)"
proof -
  have "pinned_to n cs \<noteq> []" using assms(4,5) by (auto simp: pinned_to_def filter_empty_conv)
  then have "env\<lparr>e_svc_checks := map (svc_row res) (pinned_to n cs)\<rparr> \<in> set (attach_svc_checks cs res envs)"
    using assms(1-3) by (force simp: attach_svc_checks_def)
  then show ?thesis by (rule bexI [rotated]) (simp add: assms(2))
qed

lemma monitor_env_ids:
  assumes "env \<in> set (check_monitor_envs s)"
  shows "\<exists>c\<in>set (st_checks s). k_node_id c = None \<and> e_id env = ''check:'' @ k_id c"
  using assms by (auto simp: check_monitor_envs_def check_envelope_def base_envelope_def sample_node_def
      split: option.splits)

text \<open>A failing check is reported in exactly one place. Pinned to a host that is in the fan-out and
  not paused it shows up among that host's failed checks (and never as an entity of its own); not
  pinned it is an entity of its own (and on no host).\<close>

theorem failing_check_reported_once:
  assumes "checks_ok s" and "c \<in> set (st_checks s)" and "map_of (st_results s) (k_id c) = Some r"
    and "r_ok r = Some False"
  shows "case k_node_id c of
      Some n \<Rightarrow> (\<forall>env\<in>set (check_monitor_envs s). e_id env \<noteq> ''check:'' @ k_id c) \<and>
        (\<forall>env\<in>set envs. e_id env = n \<and> \<not> e_disabled env \<longrightarrow>
           (\<exists>env'\<in>set (attach_svc_checks (st_checks s) (st_results s) envs).
              e_id env' = n \<and> k_name c \<in> set (failed_checks env')))
    | None \<Rightarrow> check_envelope c False (r_detail r) \<in> set (check_monitor_envs s) \<and>
        (\<forall>env\<in>set envs. e_svc_checks env = [] \<longrightarrow>
           (\<forall>env'\<in>set (attach_svc_checks (st_checks s) (st_results s) [env]). k_id c \<notin> sc_id ` set (e_svc_checks env')))"
proof -
  have uniq: "c' = c" if "c' \<in> set (st_checks s)" "k_id c' = k_id c" for c'
    using that assms(1,2) by (simp add: checks_ok_def distinct_map inj_on_def)
  have row: "sc_name (svc_row (st_results s) c) = k_name c" "sc_ok (svc_row (st_results s) c) = Some False"
    using assms(3,4) by (simp_all add: svc_row_def)
  show ?thesis
  proof (cases "k_node_id c")
    case None
    have "check_envelope c False (r_detail r) \<in> set (check_monitor_envs s)"
      using assms(2,3,4) None by (force simp: check_monitor_envs_def)
    moreover have "k_id c \<notin> sc_id ` set (e_svc_checks env')"
      if "env' \<in> set (attach_svc_checks (st_checks s) (st_results s) [env])" "e_svc_checks env = []" for env env'
    proof
      assume "k_id c \<in> sc_id ` set (e_svc_checks env')"
      then have "k_id c \<in> sc_id ` svc_row (st_results s) ` set (pinned_to (e_id env) (st_checks s))"
        using that by (auto simp: attach_svc_checks_def split: if_splits)
      then obtain c' where "c' \<in> set (pinned_to (e_id env) (st_checks s))" "k_id c' = k_id c"
        by (auto simp: svc_row_def)
      then show False using uniq [of c'] None by (auto simp: pinned_to_def)
    qed
    ultimately show ?thesis using None by auto
  next
    case (Some n)
    have "e_id env \<noteq> ''check:'' @ k_id c" if env: "env \<in> set (check_monitor_envs s)" for env
      using monitor_env_ids [OF env] uniq Some by fastforce
    moreover have "\<exists>env'\<in>set (attach_svc_checks (st_checks s) (st_results s) envs).
        e_id env' = n \<and> k_name c \<in> set (failed_checks env')"
      if env: "env \<in> set envs" "e_id env = n" "\<not> e_disabled env" for env
    proof -
      obtain env' where e: "env' \<in> set (attach_svc_checks (st_checks s) (st_results s) envs)" "e_id env' = n"
        "e_svc_checks env' = map (svc_row (st_results s)) (pinned_to n (st_checks s))"
        using attach_env [OF env assms(2) Some] by blast
      have "svc_row (st_results s) c \<in> set (e_svc_checks env')"
        using e(3) assms(2) Some by (simp add: pinned_to_def)
      then have "k_name c \<in> set (failed_checks env')"
        using row by (force simp: failed_checks_def)
      then show ?thesis using e by blast
    qed
    ultimately show ?thesis using Some by auto
  qed
qed

lemma pinned_app_run:
  defines "s \<equiv> run_all_checks net_down (\<lambda>_. 5) ''t'' (check_app (Some ''h1''))"
  shows "checks_ok s" and "st_checks s = [tcp_check (Some ''h1'')]"
    and "\<exists>r. map_of (st_results s) ''c1'' = Some r \<and> r_ok r = Some False"
proof -
  show "checks_ok s" unfolding s_def by (rule run_all_ok [OF check_app_ok])
  show "st_checks s = [tcp_check (Some ''h1'')]"
    by (simp add: s_def run_all_checks_def check_app_def Let_def)
  have "r_ok (snd (run_one_check net_down (\<lambda>_. 5) ''t'' {} (tcp_check (Some ''h1'')))) = Some False" by code_simp
  moreover have "disabled_ids (st_nodes (check_app (Some ''h1''))) = {}"
    by (simp add: disabled_ids_def check_app_def sample_node_def)
  ultimately show "\<exists>r. map_of (st_results s) ''c1'' = Some r \<and> r_ok r = Some False"
    using run_all_lookup [OF check_app_ok [of "Some ''h1''"], of "tcp_check (Some ''h1'')" net_down "\<lambda>_. 5" "''t''"]
    by (simp add: s_def) (simp add: check_app_def tcp_check_def)
qed

theorem failing_check_reported_once_witness:
  "\<exists>env'\<in>set (attach_svc_checks [tcp_check (Some ''h1'')]
      (st_results (run_all_checks net_down (\<lambda>_. 5) ''t'' (check_app (Some ''h1'')))) [base_envelope (sample_node ''h1'' ''h1'')]).
     ''db ssh'' \<in> set (failed_checks env')"
proof -
  obtain r where r: "map_of (st_results (run_all_checks net_down (\<lambda>_. 5) ''t'' (check_app (Some ''h1'')))) ''c1'' = Some r"
    "r_ok r = Some False" using pinned_app_run(3) by blast
  show ?thesis
    using failing_check_reported_once [OF pinned_app_run(1), of "tcp_check (Some ''h1'')" r
        "[base_envelope (sample_node ''h1'' ''h1'')]"] r pinned_app_run(2)
    by (auto simp: tcp_check_def base_envelope_def sample_node_def)
qed

end
