(* ===== verification/Registry.thy ===== *)
theory Registry
  imports Access Acks
begin

text \<open>
  The node registry (\<open>app.py\<close>, "Routes: node registry"): the table of host types, the enrollment,
  edit, deletion and certificate routes, and maintenance windows. The probe of a host, the
  encryption of secrets, the certificate a host serves and the classification of a live node are
  parameters. The dashes of three messages are written as hyphens.
\<close>

section \<open>Host types\<close>

record adapter =
  ad_kind :: string
  ad_userpass :: bool
  ad_default_type :: string
  ad_polled :: bool
  ad_writes :: bool

definition adapter_row :: "string \<Rightarrow> bool \<Rightarrow> string \<Rightarrow> bool \<Rightarrow> bool \<Rightarrow> adapter" where
  "adapter_row k up ty po wr = \<lparr>ad_kind = k, ad_userpass = up, ad_default_type = ty, ad_polled = po, ad_writes = wr\<rparr>"

definition ADAPTERS :: "adapter list" where
  "ADAPTERS = [adapter_row ''nexus'' False ''Unknown'' False False,
     adapter_row ''proxmox'' True ''Virtualization'' True True,
     adapter_row ''vcenter'' True ''Virtualization'' True True,
     adapter_row ''esxi'' True ''Virtualization'' True True,
     adapter_row ''truenas'' False ''Storage'' True False,
     adapter_row ''synology'' True ''Storage'' True False,
     adapter_row ''zimaos'' True ''Storage'' True False,
     adapter_row ''unraid'' True ''Storage'' True False,
     adapter_row ''omv'' True ''Storage'' True False,
     adapter_row ''ugreen'' True ''Storage'' True False,
     adapter_row ''sparkdash'' False ''AI'' True False,
     adapter_row ''agent'' False ''Unknown'' False False,
     adapter_row ''dnsmaq'' False ''DNS'' False False,
     adapter_row ''unifi'' False ''Network'' False False]"

definition nexus_adapter :: adapter where
  "nexus_adapter = adapter_row ''nexus'' False ''Unknown'' False False"

definition adapter_of :: "string \<Rightarrow> adapter" where
  "adapter_of host_type =
     (case find_by ad_kind (if host_type = [] then ''nexus'' else host_type) ADAPTERS of
        None \<Rightarrow> nexus_adapter | Some a \<Rightarrow> a)"

definition adapter_for :: "node \<Rightarrow> adapter" where
  "adapter_for n = adapter_of (n_host_type n)"

section \<open>Addresses\<close>

text \<open>\<open>_split_host_port\<close>: \<open>urlparse(u).hostname\<close> and the port or the default of the scheme.\<close>

definition url_scheme :: "string \<Rightarrow> string" where
  "url_scheme u = (let v = filter (\<lambda>c. c \<notin> {CHR 0x09, CHR 0x0A, CHR 0x0D}) (dropWhile (\<lambda>c. (of_char c :: nat) \<le> 32) u)
     in lower (take (length v - length (drop_scheme v) - 1) v))"

definition after_at :: "string \<Rightarrow> string" where
  "after_at loc = rev (takeWhile (\<lambda>c. c \<noteq> CHR ''@'') (rev loc))"

definition host_port_text :: "string \<Rightarrow> string \<times> string" where
  "host_port_text loc0 =
     (let loc = after_at loc0
      in if CHR ''['' \<in> set loc
         then let inner = drop 1 (dropWhile (\<lambda>c. c \<noteq> CHR ''['') loc);
                  host = takeWhile (\<lambda>c. c \<noteq> CHR '']'') inner;
                  rest = drop (length host + 1) inner
              in (host, drop 1 (dropWhile (\<lambda>c. c \<noteq> CHR '':'') rest))
         else let host = takeWhile (\<lambda>c. c \<noteq> CHR '':'') loc in (host, drop (length host + 1) loc))"

definition split_host_port :: "string \<Rightarrow> exn + (string \<times> int)" where
  "split_host_port u = (case url_netloc u of
      None \<Rightarrow> Inl ValueError
    | Some loc \<Rightarrow>
        let (host, port) = host_port_text loc; dflt = (if url_scheme u = ''https'' then 443 else 80)
        in if port = [] then Inr (lower host, dflt)
           else (case fixed port of None \<Rightarrow> Inl ValueError
             | Some p \<Rightarrow> if 65535 < p then Inl ValueError
                 else Inr (lower host, if p = 0 then dflt else int p)))"

text \<open>\<open>(n.get('base_url') or '').lower().startswith('https')\<close>.\<close>

definition is_https :: "node \<Rightarrow> bool" where
  "is_https n = startswith ''https'' (lower (n_base_url n))"

definition rstrip_slash :: "string \<Rightarrow> string" where
  "rstrip_slash u = rev (dropWhile (\<lambda>c. c = CHR ''/'') (rev u))"

section \<open>Field validation\<close>

definition clean_type :: "json \<Rightarrow> string option" where
  "clean_type v = (case v of
      JStr s \<Rightarrow> let t = join '' '' (split_ws s)
        in if t = [] \<or> 24 < length t \<or> lower t \<in> {''auto'', ''paused''} then None else Some t
    | _ \<Rightarrow> None)"

definition PAUSE_MAX_DAYS :: int where "PAUSE_MAX_DAYS = 90"

definition clean_until :: "json \<Rightarrow> int \<Rightarrow> string resp" where
  "clean_until v now = (case v of
      JStr s \<Rightarrow>
        if strip s = [] then Fail 400 ''disabled_until must be an ISO-8601 timestamp''
        else (case parse_utc (strip s) of
            None \<Rightarrow> Fail 400 ''disabled_until must be an ISO-8601 timestamp''
          | Some t \<Rightarrow>
              if t \<le> now then Fail 400 ''disabled_until must be in the future''
              else if PAUSE_MAX_DAYS < (t - now) div day_us then Fail 400 ''disabled_until must be within 90 days''
              else Done (iso_seconds t))
    | _ \<Rightarrow> Fail 400 ''disabled_until must be an ISO-8601 timestamp'')"

definition window_over :: "int \<Rightarrow> node \<Rightarrow> bool" where
  "window_over now n = (n_disabled n \<and>
     (case n_disabled_until n of None \<Rightarrow> False
      | Some u \<Rightarrow> u \<noteq> [] \<and> (case parse_utc u of None \<Rightarrow> False | Some t \<Rightarrow> t \<le> now)))"

definition resume :: "node \<Rightarrow> node" where
  "resume n = n\<lparr>n_disabled := False, n_disabled_until := None\<rparr>"

text \<open>\<open>expire_pauses\<close>: the records, and the names of the hosts resumed.\<close>

definition expire_pauses :: "int \<Rightarrow> node list \<Rightarrow> node list \<times> string list" where
  "expire_pauses now nodes =
     (map (\<lambda>n. if window_over now n then resume n else n) nodes,
      map (\<lambda>n. if n_name n = [] then n_id n else n_name n) (filter (window_over now) nodes))"

section \<open>Enrollment\<close>

record creds =
  cr_token :: string
  cr_username :: string
  cr_password :: string
  cr_verify :: bool

text \<open>What a probe returns. \<open>i_metrics\<close> is the envelope the adapter makes of the metrics for a
  record, when there are any.\<close>

record probe_info =
  i_fp :: "string option"
  i_role :: "string option"
  i_version :: "string option"
  i_caps :: "string list"
  i_metrics :: "(node \<Rightarrow> envelope) option"

record outside =
  x_probe :: "string \<Rightarrow> string \<Rightarrow> creds \<Rightarrow> string + probe_info"
  x_encrypt :: "string \<Rightarrow> string"
  x_decrypt :: "string \<Rightarrow> string option"
  x_classify :: "node \<Rightarrow> string"
  x_now :: rat

text \<open>\<open>_virt_seed_cache\<close>.\<close>

definition seed_cache :: "outside \<Rightarrow> node \<Rightarrow> (node \<Rightarrow> envelope) option \<Rightarrow> app \<Rightarrow> app" where
  "seed_cache x n m s = (case m of None \<Rightarrow> s
     | Some env \<Rightarrow> if \<not> ad_polled (adapter_for n) then s
         else s\<lparr>st_poll := AList.update (n_id n) \<lparr>po_env = env n, po_ts = x_now x\<rparr> (st_poll s)\<rparr>)"

definition str_or_empty :: "json \<Rightarrow> string" where
  "str_or_empty v = (case v of JStr s \<Rightarrow> s | _ \<Rightarrow> [])"

text \<open>The manual type of a request: \<open>Done None\<close> when it leaves the type to the classification.\<close>

definition manual_type :: "json \<Rightarrow> string option resp" where
  "manual_type v = (if \<not> truthy v \<or> v = JStr ''auto'' then Done None
     else case clean_type v of None \<Rightarrow> Fail 400 ''invalid type'' | Some t \<Rightarrow> Done (Some t))"

definition new_node :: "outside \<Rightarrow> string \<Rightarrow> json dict \<Rightarrow> string \<Rightarrow> string option \<Rightarrow> creds \<Rightarrow> probe_info \<Rightarrow> node" where
  "new_node x nid data host_type manual cr info =
     (let a = adapter_of host_type;
          tok = \<not> ad_userpass a;
          base = \<lparr>n_id = nid, n_name = field_str (jget data ''name''),
            n_base_url = rstrip_slash (field_str (jget data ''base_url'')), n_host_type = host_type,
            n_type = [], n_type_auto = [], n_type_pinned = False,
            n_tags = clean_scope_tags (jget data ''tags''), n_capabilities = i_caps info,
            n_role = i_role info, n_version = i_version info, n_cert_fp = i_fp info,
            n_token_enc = (if tok \<and> cr_token cr \<noteq> [] then x_encrypt x (cr_token cr) else []),
            n_username = (if tok then [] else cr_username cr),
            n_password_enc = (if \<not> tok \<and> cr_password cr \<noteq> [] then x_encrypt x (cr_password cr) else []),
            n_verify_ssl = (if tok \<and> host_type = ''nexus'' then False else cr_verify cr),
            n_last_seen = None, n_disabled = False, n_disabled_until = None\<rparr>;
          auto = (if host_type = ''nexus'' then x_classify x base else ad_default_type a)
      in base\<lparr>n_type := (case manual of None \<Rightarrow> auto | Some t \<Rightarrow> t), n_type_auto := auto,
              n_type_pinned := (manual \<noteq> None)\<rparr>)"

definition request_creds :: "json dict \<Rightarrow> creds" where
  "request_creds data = \<lparr>cr_token = field_str (jget data ''token''), cr_username = field_str (jget data ''username''),
     cr_password = str_or_empty (jget data ''password''), cr_verify = truthy (jget data ''verify_ssl'')\<rparr>"

text \<open>The checks of \<open>nodes_add\<close> up to the new record and what to seed the poll cache with.\<close>

definition wanted_host_type :: "json dict \<Rightarrow> string" where
  "wanted_host_type data = (let ht = field_str (jget data ''host_type'') in if ht = [] then ''nexus'' else ht)"

definition enroll :: "outside \<Rightarrow> string \<Rightarrow> json dict \<Rightarrow> (node \<times> (node \<Rightarrow> envelope) option) resp" where
  "enroll x nid data =
     (if field_str (jget data ''name'') = [] \<or> field_str (jget data ''base_url'') = []
        then Fail 400 ''name and base_url are required''
      else if wanted_host_type data \<notin> ad_kind ` set ADAPTERS
        then Fail 400 (''unknown host type: '' @ wanted_host_type data)
      else (case manual_type (jget data ''type'') of
          Fail c m \<Rightarrow> Fail c m
        | Crash e \<Rightarrow> Crash e
        | Done manual \<Rightarrow>
            (case x_probe x (wanted_host_type data) (field_str (jget data ''base_url'')) (request_creds data) of
               Inl e \<Rightarrow> Fail 502 (''connection test failed: '' @ e)
             | Inr info \<Rightarrow> Done (new_node x nid data (wanted_host_type data) manual (request_creds data) info,
                 if wanted_host_type data \<noteq> ''nexus'' then i_metrics info else None))))"

definition nodes_add :: "outside \<Rightarrow> string \<Rightarrow> json dict \<Rightarrow> app \<Rightarrow> node resp \<times> app" where
  "nodes_add x nid data s = (case enroll x nid data of
      Fail c m \<Rightarrow> (Fail c m, s)
    | Crash e \<Rightarrow> (Crash e, s)
    | Done (n, seed) \<Rightarrow>
        let s1 = seed_cache x n seed s
        in (Done (public_node n), set_audit (n_name n) (bust_fleet (s1\<lparr>st_nodes := st_nodes s1 @ [n]\<rparr>))))"

section \<open>Edits\<close>

text \<open>The first phase of \<open>node_update\<close>: the edits as a function on the record, computed from a
  snapshot \<open>cur\<close> with no lock held.\<close>

definition edit_name :: "json dict \<Rightarrow> node \<Rightarrow> node \<Rightarrow> node" where
  "edit_name data cur n = (if has_key data ''name''
     then n\<lparr>n_name := (let v = field_str (jget data ''name'') in if v = [] then n_name cur else v)\<rparr> else n)"

definition edit_tags :: "json dict \<Rightarrow> node \<Rightarrow> node" where
  "edit_tags data n = (case jget data ''tags'' of
      JArr vs \<Rightarrow> n\<lparr>n_tags := clean_scope_tags (JArr vs)\<rparr> | _ \<Rightarrow> n)"

definition edit_pause :: "json dict \<Rightarrow> int \<Rightarrow> (node \<Rightarrow> node) resp" where
  "edit_pause data now =
     (if \<not> has_key data ''disabled'' then Done (\<lambda>n. n)
      else let d = truthy (jget data ''disabled'')
        in if d \<and> truthy (jget data ''disabled_until'')
           then (case clean_until (jget data ''disabled_until'') now of
               Fail c m \<Rightarrow> Fail c m
             | Crash e \<Rightarrow> Crash e
             | Done u \<Rightarrow> Done (\<lambda>n. n\<lparr>n_disabled := True, n_disabled_until := Some u\<rparr>))
           else Done (\<lambda>n. n\<lparr>n_disabled := d, n_disabled_until := None\<rparr>))"

definition edit_type :: "json dict \<Rightarrow> node \<Rightarrow> (node \<Rightarrow> node) resp" where
  "edit_type data cur =
     (if \<not> has_key data ''type'' then Done (\<lambda>n. n)
      else if jget data ''type'' = JStr ''auto''
        then Done (\<lambda>n. n\<lparr>n_type := n_type_auto cur, n_type_pinned := False\<rparr>)
      else case clean_type (jget data ''type'') of
          None \<Rightarrow> Fail 400 ''invalid type''
        | Some t \<Rightarrow> Done (\<lambda>n. n\<lparr>n_type := t, n_type_pinned := True\<rparr>))"

text \<open>The part that may probe the host again: the edits and the metrics to seed the poll cache with.\<close>

definition verify_flag :: "json dict \<Rightarrow> node \<Rightarrow> bool" where
  "verify_flag data cur = (if has_key data ''verify_ssl'' then truthy (jget data ''verify_ssl'') else n_verify_ssl cur)"

definition edit_token_host :: "outside \<Rightarrow> json dict \<Rightarrow> node \<Rightarrow>
    ((node \<Rightarrow> node) \<times> (node \<Rightarrow> envelope) option) resp" where
  "edit_token_host x data cur =
     (let new_url = field_str (jget data ''base_url'');
          url_changed = (new_url \<noteq> [] \<and> rstrip_slash new_url \<noteq> n_base_url cur);
          new_token = field_str (jget data ''token'');
          verify_changed = (n_host_type cur \<noteq> ''nexus'' \<and> has_key data ''verify_ssl'')
      in if \<not> (url_changed \<or> new_token \<noteq> [] \<or> verify_changed) then Done (\<lambda>n. n, None)
         else
           let base_url = rstrip_slash (if new_url = [] then n_base_url cur else new_url);
               token = (if new_token \<noteq> [] then new_token
                        else if n_token_enc cur = [] then []
                        else (case x_decrypt x (n_token_enc cur) of None \<Rightarrow> [] | Some t \<Rightarrow> t));
               verify = verify_flag data cur
           in (case x_probe x (n_host_type cur) base_url
                   \<lparr>cr_token = token, cr_username = [], cr_password = [], cr_verify = verify\<rparr> of
                 Inl e \<Rightarrow> Fail 502 (''connection test failed: '' @ e)
               | Inr info \<Rightarrow> Done (\<lambda>n. n\<lparr>n_base_url := base_url, n_cert_fp := i_fp info, n_role := i_role info,
                     n_version := i_version info, n_capabilities := i_caps info,
                     n_token_enc := (if new_token \<noteq> [] then x_encrypt x new_token else n_token_enc n),
                     n_verify_ssl := (if n_host_type cur \<noteq> ''nexus'' then verify else n_verify_ssl n)\<rparr>,
                     if n_host_type cur \<noteq> ''nexus'' then i_metrics info else None)))"

definition edit_password_host :: "outside \<Rightarrow> json dict \<Rightarrow> node \<Rightarrow>
    ((node \<Rightarrow> node) \<times> (node \<Rightarrow> envelope) option) resp" where
  "edit_password_host x data cur =
     (let new_url = field_str (jget data ''base_url'');
          url_changed = (new_url \<noteq> [] \<and> rstrip_slash new_url \<noteq> n_base_url cur);
          new_pw = str_or_empty (jget data ''password'');
          new_user = field_str (jget data ''username'');
          user_changed = (new_user \<noteq> [] \<and> new_user \<noteq> n_username cur)
      in if \<not> (url_changed \<or> new_pw \<noteq> [] \<or> user_changed \<or> has_key data ''verify_ssl'') then Done (\<lambda>n. n, None)
         else
           let base_url = rstrip_slash (if new_url = [] then n_base_url cur else new_url);
               user = (if new_user = [] then n_username cur else new_user);
               pw = (if new_pw \<noteq> [] then new_pw
                     else (case x_decrypt x (n_password_enc cur) of None \<Rightarrow> [] | Some t \<Rightarrow> t));
               verify = verify_flag data cur
           in (case x_probe x (n_host_type cur) base_url
                   \<lparr>cr_token = [], cr_username = user, cr_password = pw, cr_verify = verify\<rparr> of
                 Inl e \<Rightarrow> Fail 502 (''connection test failed: '' @ e)
               | Inr info \<Rightarrow> Done (\<lambda>n. n\<lparr>n_base_url := base_url, n_cert_fp := i_fp info, n_username := user,
                     n_verify_ssl := verify,
                     n_password_enc := (if new_pw \<noteq> [] then x_encrypt x new_pw else n_password_enc n)\<rparr>,
                     i_metrics info)))"

definition edits_of :: "outside \<Rightarrow> int \<Rightarrow> json dict \<Rightarrow> node \<Rightarrow> ((node \<Rightarrow> node) \<times> (node \<Rightarrow> envelope) option) resp" where
  "edits_of x clock data cur =
     (case edit_pause data clock of Fail c m \<Rightarrow> Fail c m | Crash e \<Rightarrow> Crash e
      | Done pause \<Rightarrow>
     (case edit_type data cur of Fail c m \<Rightarrow> Fail c m | Crash e \<Rightarrow> Crash e
      | Done ty \<Rightarrow>
     (case (if ad_userpass (adapter_for cur) then edit_password_host x data cur else edit_token_host x data cur) of
        Fail c m \<Rightarrow> Fail c m | Crash e \<Rightarrow> Crash e
      | Done (conn, seed) \<Rightarrow>
          Done (\<lambda>n. conn (ty (pause (edit_tags data (edit_name data cur n)))), seed))))"

text \<open>The second phase, on the registry as it is by then.\<close>

definition commit_edits :: "outside \<Rightarrow> string \<Rightarrow> (node \<Rightarrow> node) \<times> (node \<Rightarrow> envelope) option \<Rightarrow> app \<Rightarrow> node resp \<times> app" where
  "commit_edits x i ed s = (case find_by n_id i (st_nodes s) of
      None \<Rightarrow> (Fail 404 ''node not found'', s)
    | Some n0 \<Rightarrow>
        let n = fst ed n0;
            s1 = s\<lparr>st_nodes := edit_by n_id i (fst ed) (st_nodes s)\<rparr>
        in (Done (public_node n), set_audit (n_name n) (bust_fleet (seed_cache x n (snd ed) s1))))"

definition node_update :: "outside \<Rightarrow> int \<Rightarrow> string \<Rightarrow> json dict \<Rightarrow> app \<Rightarrow> node resp \<times> app" where
  "node_update x clock i data s = (case find_by n_id i (st_nodes s) of
      None \<Rightarrow> (Fail 404 ''node not found'', s)
    | Some cur \<Rightarrow>
        (case edits_of x clock data cur of
           Fail c m \<Rightarrow> (Fail c m, s)
         | Crash e \<Rightarrow> (Crash e, s)
         | Done ed \<Rightarrow> commit_edits x i ed s))"

section \<open>Deletion\<close>

definition node_delete :: "string \<Rightarrow> app \<Rightarrow> unit resp \<times> app" where
  "node_delete i s = (case find_by n_id i (st_nodes s) of
      None \<Rightarrow> (Fail 404 ''node not found'', s)
    | Some n \<Rightarrow> (Done (), set_audit (n_name n) (bust_fleet (s\<lparr>
        st_nodes := remove_by n_id i (st_nodes s),
        st_poll := AList.delete i (st_poll s),
        st_since := filter (\<lambda>((h, k), t). h \<noteq> i) (st_since s),
        st_cert_cache := AList.delete i (st_cert_cache s),
        st_acks := filter (\<lambda>(k, a). \<not> startswith (i @ ''|'') k) (st_acks s)\<rparr>))))"

section \<open>The pinned certificate\<close>

text \<open>\<open>observe\<close> is the fingerprint a host and port serve now, or the error reading it.\<close>

record cert_view =
  cv_https :: bool
  cv_pinned :: "string option"
  cv_observed :: "string option"
  cv_match :: "bool option"
  cv_error :: "string option"

definition node_cert :: "(string \<Rightarrow> int \<Rightarrow> string + string) \<Rightarrow> ctx \<Rightarrow> string \<Rightarrow> app \<Rightarrow> cert_view resp" where
  "node_cert observe c i s = (case find_node (g_scope c) i (st_nodes s) of
      None \<Rightarrow> Fail 404 ''node not found''
    | Some n \<Rightarrow>
        if \<not> is_https n then Done \<lparr>cv_https = False, cv_pinned = n_cert_fp n, cv_observed = None,
          cv_match = None, cv_error = None\<rparr>
        else (case split_host_port (n_base_url n) of
            Inl e \<Rightarrow> Crash e
          | Inr (host, port) \<Rightarrow>
              (case observe host port of
                 Inl e \<Rightarrow> Done \<lparr>cv_https = True, cv_pinned = n_cert_fp n, cv_observed = None, cv_match = None, cv_error = Some e\<rparr>
               | Inr fp \<Rightarrow> Done \<lparr>cv_https = True, cv_pinned = n_cert_fp n, cv_observed = Some fp,
                   cv_match = (case n_cert_fp n of None \<Rightarrow> None
                     | Some p \<Rightarrow> if p = [] \<or> fp = [] then None else Some (fp = p)),
                   cv_error = None\<rparr>)))"

definition reviewed_fp :: "json dict \<Rightarrow> string" where
  "reviewed_fp data = filter (\<lambda>c. c \<noteq> CHR '':'') (lower (field_str (jget data ''expected'')))"

text \<open>The line of the audit trail, its arrow in ASCII: the first 16 characters of both fingerprints.\<close>

definition repin_text :: "node \<Rightarrow> string \<Rightarrow> string" where
  "repin_text n observed =
     n_name n @ '' cert re-pin '' @ take 16 (case n_cert_fp n of None \<Rightarrow> ''none'' | Some f \<Rightarrow> if f = [] then ''none'' else f) @
     [ellipsis] @ '' -> '' @ take 16 observed @ [ellipsis]"

definition node_repin :: "(string \<Rightarrow> int \<Rightarrow> string + string) \<Rightarrow> string \<Rightarrow> json dict \<Rightarrow> app \<Rightarrow> string resp \<times> app" where
  "node_repin observe i data s = (case find_by n_id i (st_nodes s) of
      None \<Rightarrow> (Fail 404 ''node not found'', s)
    | Some n \<Rightarrow>
        if \<not> is_https n then (Fail 400 ''node uses plain HTTP - there is no certificate to pin'', s)
        else (case split_host_port (n_base_url n) of
            Inl e \<Rightarrow> (Crash e, s)
          | Inr (host, port) \<Rightarrow>
              (case observe host port of
                 Inl e \<Rightarrow> (Fail 502 (''cannot reach '' @ host @ '':'' @ show_int port @ '' to read its certificate ('' @ e @ '')''), s)
               | Inr observed \<Rightarrow>
                   let expected = reviewed_fp data
                   in if expected \<noteq> [] \<and> observed \<noteq> expected
                      then (Fail 409 (''the certificate changed again since you reviewed it (reviewed '' @
                        take 16 expected @ [ellipsis] @ '', now serving '' @ take 16 observed @ [ellipsis] @
                        '') - re-open and verify before re-pinning''), s)
                      else if Some observed = n_cert_fp n then (Done observed, s)
                      else (Done observed, set_audit (repin_text n observed) (bust_fleet (s\<lparr>
                        st_nodes := edit_by n_id i (\<lambda>m. m\<lparr>n_cert_fp := Some observed\<rparr>) (st_nodes s),
                        st_poll := AList.delete i (st_poll s)\<rparr>))))))"

section \<open>Self-healing from a fan-out\<close>

text \<open>\<open>_refresh_registry_from_results\<close>: what a reachable host's envelope changes in its record, and
  the effective type it writes back into the envelope.\<close>

definition learned_type :: "envelope \<Rightarrow> string option" where
  "learned_type r = (case e_type_auto r of None \<Rightarrow> None
     | Some ta \<Rightarrow> if ta = [] \<or> ta = ''Unknown'' then None else Some ta)"

definition refresh_node :: "string \<Rightarrow> envelope \<Rightarrow> node \<Rightarrow> node" where
  "refresh_node ts r n =
     (let n1 = n\<lparr>n_last_seen := Some ts\<rparr>;
          n2 = (case learned_type r of None \<Rightarrow> n1
            | Some ta \<Rightarrow> n1\<lparr>n_type_auto := ta, n_type := (if n_type_pinned n then n_type n else ta)\<rparr>);
          n3 = (case e_version r of None \<Rightarrow> n2 | Some v \<Rightarrow> if v = [] then n2 else n2\<lparr>n_version := Some v\<rparr>)
      in if e_capabilities r = [] then n3 else n3\<lparr>n_capabilities := e_capabilities r\<rparr>)"

definition refresh_registry :: "string \<Rightarrow> envelope dict \<Rightarrow> node list \<Rightarrow> node list" where
  "refresh_registry ts seen nodes = map (\<lambda>n. case map_of seen (n_id n) of None \<Rightarrow> n
     | Some r \<Rightarrow> if e_ok r then refresh_node ts r n else n) nodes"

definition reflect_type :: "node list \<Rightarrow> envelope \<Rightarrow> envelope" where
  "reflect_type nodes r = (case find_by n_id (e_id r) nodes of None \<Rightarrow> r
     | Some n \<Rightarrow> if \<not> e_ok r \<or> n_type_pinned n then r
         else (case learned_type r of None \<Rightarrow> r | Some ta \<Rightarrow> r\<lparr>e_type := ta\<rparr>))"

end
