(* ===== verification/RegistryFacts.thy ===== *)
theory RegistryFacts
  imports Registry CheckFacts ConditionFacts
begin

text \<open>
  What the registry promises: well-formed records over any sequence of operations, a deletion that
  leaves no trace in the tables it evicts (and the one it forgets), a re-pin only to the certificate
  that was reviewed, and maintenance windows that end.
\<close>

section \<open>The invariant of a record\<close>

definition pin_ok :: "node \<Rightarrow> bool" where
  "pin_ok n = (n_type_pinned n \<longrightarrow> clean_type (JStr (n_type n)) = Some (n_type n))"

definition node_ok :: "node \<Rightarrow> bool" where
  "node_ok n = (n_name n \<noteq> [] \<and> tags_ok (n_tags n) \<and> pin_ok n \<and>
     (n_disabled_until n \<noteq> None \<longrightarrow> n_disabled n) \<and> n_host_type n \<in> ad_kind ` set ADAPTERS)"

definition registry_ok :: "app \<Rightarrow> bool" where
  "registry_ok s = (distinct (map n_id (st_nodes s)) \<and> list_all node_ok (st_nodes s))"

lemma clean_type_idem: "clean_type v = Some t \<Longrightarrow> clean_type (JStr t) = Some t"
  using split_join [OF split_ws_words_ok] by (auto simp: clean_type_def Let_def split: json.splits if_splits)

lemma new_node_fields [simp]:
  "n_id (new_node x nid data ht manual cr info) = nid"
  "n_name (new_node x nid data ht manual cr info) = field_str (jget data ''name'')"
  "n_tags (new_node x nid data ht manual cr info) = clean_scope_tags (jget data ''tags'')"
  "n_host_type (new_node x nid data ht manual cr info) = ht"
  "n_type_pinned (new_node x nid data ht manual cr info) = (manual \<noteq> None)"
  "n_disabled_until (new_node x nid data ht manual cr info) = None"
  "manual = Some t \<Longrightarrow> n_type (new_node x nid data ht manual cr info) = t"
  by (simp_all add: new_node_def Let_def)

lemma manual_type_done: "manual_type v = Done (Some t) \<Longrightarrow> clean_type (JStr t) = Some t"
  by (auto simp: manual_type_def dest: clean_type_idem split: if_splits option.splits)

lemma new_node_ok:
  assumes "field_str (jget data ''name'') \<noteq> []" and "ht \<in> ad_kind ` set ADAPTERS" and "manual_type v = Done manual"
  shows "node_ok (new_node x nid data ht manual cr info)"
  using assms manual_type_done by (auto simp: node_ok_def pin_ok_def clean_scope_tags_shape)

lemma seed_cache_frame [simp]:
  "st_nodes (seed_cache x n m s) = st_nodes s" "st_checks (seed_cache x n m s) = st_checks s"
  "st_acks (seed_cache x n m s) = st_acks s" "st_since (seed_cache x n m s) = st_since s"
  "j \<noteq> n_id n \<Longrightarrow> map_of (st_poll (seed_cache x n m s)) j = map_of (st_poll s) j"
  by (simp_all add: seed_cache_def split: option.split)

lemma enroll_done:
  assumes "enroll x nid data = Done (n, seed)"
  shows "node_ok n \<and> n_id n = nid"
proof -
  obtain manual info where "field_str (jget data ''name'') \<noteq> []" "wanted_host_type data \<in> ad_kind ` set ADAPTERS"
    "manual_type (jget data ''type'') = Done manual"
    and n: "n = new_node x nid data (wanted_host_type data) manual (request_creds data) info"
    using assms unfolding enroll_def by (auto split: if_splits resp.splits sum.splits)
  then show ?thesis using new_node_ok [of data "wanted_host_type data" "jget data ''type''" manual x nid] by simp
qed

lemma set_audit_frame [simp]:
  "st_nodes (set_audit t s) = st_nodes s" "st_checks (set_audit t s) = st_checks s" "st_acks (set_audit t s) = st_acks s"
  "st_since (set_audit t s) = st_since s" "st_poll (set_audit t s) = st_poll s" "st_results (set_audit t s) = st_results s"
  "st_cert_cache (set_audit t s) = st_cert_cache s" "st_cache_ts (set_audit t s) = st_cache_ts s"
  by (simp_all add: set_audit_def)

lemma bust_fleet_frame [simp]:
  "st_nodes (bust_fleet s) = st_nodes s" "st_checks (bust_fleet s) = st_checks s" "st_acks (bust_fleet s) = st_acks s"
  "st_since (bust_fleet s) = st_since s" "st_poll (bust_fleet s) = st_poll s" "st_results (bust_fleet s) = st_results s"
  "st_cert_cache (bust_fleet s) = st_cert_cache s" "st_cache_ts (bust_fleet s) = 0"
  by (simp_all add: bust_fleet_def)

lemma nodes_add_cases:
  obtains "snd (nodes_add x nid data s) = s"
  | n where "node_ok n" "n_id n = nid" "st_nodes (snd (nodes_add x nid data s)) = st_nodes s @ [n]"
proof (cases "enroll x nid data")
  case (Done p)
  obtain n seed where "p = (n, seed)" by (cases p)
  then show ?thesis using Done enroll_done [of x nid data n seed] that(2) [of n] by (simp add: nodes_add_def Let_def)
qed (use that(1) in \<open>simp_all add: nodes_add_def\<close>)

lemma edit_pause_done:
  assumes "edit_pause data now = Done f"
  shows "n_id (f n) = n_id n" "n_name (f n) = n_name n" "n_tags (f n) = n_tags n" "n_host_type (f n) = n_host_type n"
    "pin_ok (f n) = pin_ok n"
    "(n_disabled_until n \<noteq> None \<longrightarrow> n_disabled n) \<Longrightarrow> n_disabled_until (f n) \<noteq> None \<longrightarrow> n_disabled (f n)"
  using assms by (auto simp: edit_pause_def Let_def pin_ok_def split: if_splits resp.splits)

lemma edit_type_done:
  assumes "edit_type data cur = Done f"
  shows "n_id (f n) = n_id n" "n_name (f n) = n_name n" "n_tags (f n) = n_tags n" "n_host_type (f n) = n_host_type n"
    "n_disabled (f n) = n_disabled n" "n_disabled_until (f n) = n_disabled_until n" "pin_ok n \<Longrightarrow> pin_ok (f n)"
  using assms by (auto simp: edit_type_def pin_ok_def dest: clean_type_idem split: if_splits option.splits)

definition keeps_profile :: "(node \<Rightarrow> node) \<Rightarrow> bool" where
  "keeps_profile f = (\<forall>n. n_id (f n) = n_id n \<and> n_name (f n) = n_name n \<and> n_tags (f n) = n_tags n \<and>
     n_host_type (f n) = n_host_type n \<and> n_disabled (f n) = n_disabled n \<and>
     n_disabled_until (f n) = n_disabled_until n \<and> n_type (f n) = n_type n \<and> n_type_pinned (f n) = n_type_pinned n)"

lemma edit_conn_done:
  "edit_password_host x data cur = Done (f, seed) \<Longrightarrow> keeps_profile f"
  "edit_token_host x data cur = Done (f, seed) \<Longrightarrow> keeps_profile f"
  unfolding edit_password_host_def edit_token_host_def Let_def keeps_profile_def
  by (auto split: if_splits sum.splits)

lemma edits_of_done:
  assumes "edits_of x clock data cur = Done (f, seed)" and "n_name cur \<noteq> []"
  shows "n_id (f n) = n_id n" and "node_ok n \<Longrightarrow> node_ok (f n)"
proof -
  obtain p t c where p: "edit_pause data clock = Done p" and t: "edit_type data cur = Done t"
    and c: "keeps_profile c" and f: "f = (\<lambda>n. c (t (p (edit_tags data (edit_name data cur n)))))"
    using assms(1) edit_conn_done [of x data cur] unfolding edits_of_def
    by (auto split: resp.splits if_splits)
  let ?n1 = "edit_name data cur n" and ?n2 = "edit_tags data (edit_name data cur n)"
  have n2: "n_id ?n2 = n_id n" "n_host_type ?n2 = n_host_type n" "pin_ok ?n2 = pin_ok n"
    "n_disabled_until ?n2 = n_disabled_until n" "n_disabled ?n2 = n_disabled n"
    "n_name n \<noteq> [] \<Longrightarrow> n_name ?n2 \<noteq> []" "tags_ok (n_tags n) \<Longrightarrow> tags_ok (n_tags ?n2)"
    using assms(2) clean_scope_tags_shape
    by (auto simp: edit_name_def edit_tags_def pin_ok_def Let_def split: json.split)
  have c': "n_id (c m) = n_id m" "node_ok m \<Longrightarrow> node_ok (c m)" for m
    using c by (auto simp: keeps_profile_def node_ok_def pin_ok_def)
  note p' = edit_pause_done [OF p] and t' = edit_type_done [OF t]
  show "n_id (f n) = n_id n" by (simp add: f c' p' t' n2)
  show "node_ok (f n)" if "node_ok n"
  proof -
    have "node_ok (t (p ?n2))"
      using that n2 p'(1-5) [of ?n2] p'(6) [of ?n2] t'(1-6) [of "p ?n2"] t'(7) [of "p ?n2"]
      unfolding node_ok_def by simp
    then show ?thesis by (simp add: f c')
  qed
qed

lemma commit_edits_nodes:
  "st_nodes (snd (commit_edits x i ed s)) =
    (if find_by n_id i (st_nodes s) = None then st_nodes s else edit_by n_id i (fst ed) (st_nodes s))"
  by (simp add: commit_edits_def Let_def split: option.split)

lemma edit_by_other: "(\<And>n. n_id (f n) = n_id n) \<Longrightarrow> j \<noteq> i \<Longrightarrow> find_by n_id j (edit_by n_id i f ns) = find_by n_id j ns"
  by (simp add: find_by_edit)


section \<open>Runs\<close>

datatype registry_op =
    NodeAdd string "json dict"
  | NodeUpdate string "json dict"
  | NodeDelete string
  | NodeRepin string "json dict"
  | ExpirePauses
  | RefreshRegistry "envelope dict"

text \<open>One operation at a clock (microseconds) and a printed time. An id that is taken is drawn again.\<close>

fun registry_step :: "(string \<Rightarrow> int \<Rightarrow> string + string) \<Rightarrow> app \<Rightarrow> outside \<times> int \<times> string \<times> registry_op \<Rightarrow> app" where
  "registry_step ob s (x, clock, ts, NodeAdd i data) =
     (if i \<in> n_id ` set (st_nodes s) then s else snd (nodes_add x i data s))"
| "registry_step ob s (x, clock, ts, NodeUpdate i data) = snd (node_update x clock i data s)"
| "registry_step ob s (x, clock, ts, NodeDelete i) = snd (node_delete i s)"
| "registry_step ob s (x, clock, ts, NodeRepin i data) = snd (node_repin ob i data s)"
| "registry_step ob s (x, clock, ts, ExpirePauses) = s\<lparr>st_nodes := fst (expire_pauses clock (st_nodes s))\<rparr>"
| "registry_step ob s (x, clock, ts, RefreshRegistry seen) = s\<lparr>st_nodes := refresh_registry ts seen (st_nodes s)\<rparr>"

lemma registry_ok_map:
  assumes "registry_ok s" and "\<And>n. n_id (f n) = n_id n" and "\<And>n. node_ok n \<Longrightarrow> node_ok (f n)"
    and "st_nodes t = map f (st_nodes s)"
  shows "registry_ok t"
proof -
  have "n_id \<circ> f = n_id" using assms(2) by (simp add: fun_eq_iff)
  then show ?thesis using assms(1,3,4) by (simp add: registry_ok_def list_all_iff)
qed

lemma registry_ok_edit:
  assumes "registry_ok s" and "\<And>n. n_id (f n) = n_id n" and "\<And>n. node_ok n \<Longrightarrow> node_ok (f n)"
    and "st_nodes t = edit_by n_id i f (st_nodes s)"
  shows "registry_ok t"
proof -
  have "node_ok m" if "m \<in> set (edit_by n_id i f (st_nodes s))" for m
    using edit_by_set [OF that] assms(1,3) by (auto simp: registry_ok_def list_all_iff)
  then show ?thesis
    using assms(1,4) edit_by_ids [of n_id f i "st_nodes s", OF assms(2)]
    unfolding registry_ok_def list_all_iff by simp
qed

lemma node_update_ok: "registry_ok s \<Longrightarrow> registry_ok (snd (node_update x clock i data s))"
proof (cases "find_by n_id i (st_nodes s)")
  case (Some cur)
  assume ok: "registry_ok s"
  have cur: "n_name cur \<noteq> []" using find_by_Some [OF Some] ok by (auto simp: registry_ok_def list_all_iff node_ok_def)
  show ?thesis
  proof (cases "edits_of x clock data cur")
    case (Done ed)
    obtain f seed where ed: "ed = (f, seed)" by (cases ed)
    note e = edits_of_done [OF Done [unfolded ed] cur]
    have "st_nodes (snd (node_update x clock i data s)) = edit_by n_id i f (st_nodes s)"
      using commit_edits_nodes [of x i ed s] Some Done by (simp add: node_update_def ed)
    then show ?thesis using registry_ok_edit [OF ok e] by blast
  qed (use ok Some in \<open>simp_all add: node_update_def\<close>)
qed (simp add: node_update_def)

lemma node_delete_ok: "registry_ok s \<Longrightarrow> registry_ok (snd (node_delete i s))"
  by (auto simp: node_delete_def registry_ok_def remove_by_def distinct_map_filter list_all_iff split: option.split)

lemma node_repin_nodes:
  "st_nodes (snd (node_repin ob i data s)) = st_nodes s \<or>
   (\<exists>fp. st_nodes (snd (node_repin ob i data s)) = edit_by n_id i (\<lambda>m. m\<lparr>n_cert_fp := Some fp\<rparr>) (st_nodes s))"
  unfolding node_repin_def Let_def
  by (auto split: option.splits sum.splits prod.splits if_splits)

lemma node_repin_ok: "registry_ok s \<Longrightarrow> registry_ok (snd (node_repin ob i data s))"
proof -
  assume ok: "registry_ok s"
  consider "st_nodes (snd (node_repin ob i data s)) = st_nodes s"
    | fp where "st_nodes (snd (node_repin ob i data s)) = edit_by n_id i (\<lambda>m. m\<lparr>n_cert_fp := Some fp\<rparr>) (st_nodes s)"
    using node_repin_nodes by blast
  then show ?thesis
  proof cases
    case 1
    then show ?thesis using ok by (simp add: registry_ok_def)
  next
    case 2
    then show ?thesis by (rule registry_ok_edit [OF ok, rotated 2]) (simp_all add: node_ok_def pin_ok_def)
  qed
qed

lemma expire_ok: "registry_ok s \<Longrightarrow> registry_ok (s\<lparr>st_nodes := fst (expire_pauses clock (st_nodes s))\<rparr>)"
  by (rule registry_ok_map [where f = "\<lambda>n. if window_over clock n then resume n else n"])
    (auto simp: expire_pauses_def resume_def node_ok_def pin_ok_def)

lemma refresh_node_profile:
  "n_id (refresh_node ts r n) = n_id n" "n_name (refresh_node ts r n) = n_name n" "n_tags (refresh_node ts r n) = n_tags n"
  "n_host_type (refresh_node ts r n) = n_host_type n" "n_disabled (refresh_node ts r n) = n_disabled n"
  "n_disabled_until (refresh_node ts r n) = n_disabled_until n" "n_type_pinned (refresh_node ts r n) = n_type_pinned n"
  "n_type_pinned n \<Longrightarrow> n_type (refresh_node ts r n) = n_type n"
  "n_cert_fp (refresh_node ts r n) = n_cert_fp n" "n_token_enc (refresh_node ts r n) = n_token_enc n"
  "n_password_enc (refresh_node ts r n) = n_password_enc n" "n_base_url (refresh_node ts r n) = n_base_url n"
  by (auto simp: refresh_node_def Let_def split: option.split)

lemma refresh_ok: "registry_ok s \<Longrightarrow> registry_ok (s\<lparr>st_nodes := refresh_registry ts seen (st_nodes s)\<rparr>)"
  by (rule registry_ok_map [where f = "\<lambda>n. case map_of seen (n_id n) of None \<Rightarrow> n
       | Some r \<Rightarrow> if e_ok r then refresh_node ts r n else n"])
    (auto simp: refresh_registry_def node_ok_def pin_ok_def refresh_node_profile split: option.split)

lemma registry_step_ok: "registry_ok s \<Longrightarrow> registry_ok (registry_step ob s x)"
proof (cases "(ob, s, x)" rule: registry_step.cases)
  case (1 ob' s' y clock ts i data)
  moreover assume "registry_ok s"
  ultimately show ?thesis
    by (cases rule: nodes_add_cases [of y i data s']) (auto simp: registry_ok_def)
qed (simp_all add: node_update_ok node_delete_ok node_repin_ok expire_ok refresh_ok)

interpretation registry: step_system "registry_step ob" registry_ok for ob
  by unfold_locales (rule registry_step_ok)

text \<open>C11: over any sequence of enrollments, edits, deletions, re-pins, ended maintenance windows and
  self-healing updates the registry stays well formed: ids are distinct, every host has a name, a
  known host type and bounded tags, a pinned type is a legal label that the fan-out never
  overwrites, and only a paused host carries a maintenance window.\<close>

theorem registry_invariant:
  assumes "registry_ok s"
  shows "registry_ok (foldl (registry_step ob) s xs) \<and>
    (\<forall>n ts r. n_type_pinned n \<longrightarrow> n_type (refresh_node ts r n) = n_type n)"
  using registry.run_inv [OF assms] refresh_node_profile(8) by blast

definition lab :: app where
  "lab = empty_app\<lparr>st_nodes := [sample_node ''h1'' ''h1'']\<rparr>"

lemma lab_ok: "registry_ok lab"
  by (simp add: registry_ok_def lab_def node_ok_def pin_ok_def sample_node_def ADAPTERS_def adapter_row_def)

definition offline :: outside where
  "offline = \<lparr>x_probe = \<lambda>t u c. Inl ''timed out'', x_encrypt = \<lambda>p. p, x_decrypt = Some, x_classify = \<lambda>n. ''Unknown'', x_now = 0\<rparr>"

theorem registry_invariant_witness:
  "registry_ok (foldl (registry_step (\<lambda>h p. Inl ''refused'')) lab
     [(offline, 0, ''t'', NodeUpdate ''h1'' [(''disabled'', JBool True)]), (offline, 1, ''t'', ExpirePauses)])"
  using registry_invariant [OF lab_ok] by blast

section \<open>Deletion\<close>

text \<open>A deleted host leaves nothing behind in the registry, the poll cache, the first-seen times,
  the certificate cache and the acknowledgements, and takes nothing of any other host with it.\<close>

theorem node_delete_complete:
  assumes "node_delete i s = (Done (), s')"
  shows "find_by n_id i (st_nodes s') = None \<and> map_of (st_poll s') i = None \<and>
    (\<forall>k. map_of (st_since s') (i, k) = None) \<and> map_of (st_cert_cache s') i = None \<and>
    (\<forall>k. map_of (st_acks s') (ack_key i k) = None) \<and> st_cache_ts s' = 0 \<and>
    (\<forall>j. j \<noteq> i \<longrightarrow> find_by n_id j (st_nodes s') = find_by n_id j (st_nodes s) \<and>
       map_of (st_poll s') j = map_of (st_poll s) j \<and> map_of (st_cert_cache s') j = map_of (st_cert_cache s) j \<and>
       (\<forall>k. map_of (st_since s') (j, k) = map_of (st_since s) (j, k)) \<and>
       (CHR ''|'' \<notin> set i \<and> CHR ''|'' \<notin> set j \<longrightarrow>
          (\<forall>k. map_of (st_acks s') (ack_key j k) = map_of (st_acks s) (ack_key j k))))"
proof -
  obtain n where n: "find_by n_id i (st_nodes s) = Some n"
    using assms by (auto simp: node_delete_def split: option.splits)
  then have s': "s' = set_audit (n_name n) (bust_fleet (s\<lparr>
        st_nodes := remove_by n_id i (st_nodes s), st_poll := AList.delete i (st_poll s),
        st_since := filter (\<lambda>((h, k), t). h \<noteq> i) (st_since s), st_cert_cache := AList.delete i (st_cert_cache s),
        st_acks := filter (\<lambda>(k, a). \<not> startswith (i @ ''|'') k) (st_acks s)\<rparr>))"
    using assms by (simp add: node_delete_def)
  have since: "map_of (filter (\<lambda>((h, k), t). h \<noteq> i) d) (j, k) = (if j = i then None else map_of d (j, k))" for d :: "(pk \<times> string) list" and j k
    by (induction d) auto
  have acks: "map_of (st_acks s') k = (if startswith (i @ ''|'') k then None else map_of (st_acks s) k)" for k
    by (simp add: s' map_of_filter_key)
  have own: "startswith (i @ ''|'') (ack_key i k)" for k by (simp add: ack_key_def startswith_def)
  have other: "\<not> startswith (i @ ''|'') (ack_key j k)" if "j \<noteq> i" "CHR ''|'' \<notin> set i" "CHR ''|'' \<notin> set j" for j k
  proof
    assume "startswith (i @ ''|'') (ack_key j k)"
    then obtain t where "ack_key j k = ack_key i t" by (auto simp: startswith_iff ack_key_def)
    then show False using ack_key_inj [OF that(3,2)] that(1) by simp
  qed
  show ?thesis
    by (auto simp: acks own other) (auto simp: s' find_by_remove since)
qed

theorem node_delete_complete_witness:
  "find_by n_id ''h1'' (st_nodes (snd (node_delete ''h1'' lab))) = None"
proof -
  have "node_delete ''h1'' lab = (Done (), snd (node_delete ''h1'' lab))"
    by (simp add: node_delete_def lab_def find_by_def sample_node_def)
  from node_delete_complete [OF this] show ?thesis by simp
qed

text \<open>What a deletion forgets are the service checks pinned to the host. They keep running, but a
  failing one is reported nowhere any more: it is pinned, so it is no entity of its own, and its
  host is no longer in the fan-out. The comment in \<open>node_delete\<close> promises that nothing of a host
  outlives its record.\<close>

theorem orphan_check_is_silent:
  assumes "node_delete i s = (Done (), s')" and "checks_ok s" and "c \<in> set (st_checks s)" and "k_node_id c = Some i"
  shows "c \<in> set (st_checks s') \<and> 
    (\<forall>t. st_checks t = st_checks s' \<longrightarrow> (\<forall>env\<in>set (check_monitor_envs t). e_id env \<noteq> ''check:'' @ k_id c)) \<and>
    (\<forall>n\<in>set (st_nodes s'). k_id c \<notin> k_id ` set (pinned_to (n_id n) (st_checks s')))"
proof -
  have ch: "st_checks s' = st_checks s"
    using assms(1) by (auto simp: node_delete_def split: option.splits)
  have uniq: "c' = c" if "c' \<in> set (st_checks s)" "k_id c' = k_id c" for c'
    using that assms(2,3) by (simp add: checks_ok_def distinct_map inj_on_def)
  have "e_id env \<noteq> ''check:'' @ k_id c" if "env \<in> set (check_monitor_envs t)" "st_checks t = st_checks s'" for t env
    using monitor_env_ids [OF that(1)] uniq assms(4) that(2) ch by fastforce
  moreover have "k_id c \<notin> k_id ` set (pinned_to (n_id n) (st_checks s'))" if "n \<in> set (st_nodes s')" for n
  proof
    assume "k_id c \<in> k_id ` set (pinned_to (n_id n) (st_checks s'))"
    then have "k_node_id c = Some (n_id n)" using uniq ch by (force simp: pinned_to_def)
    then have "n_id n = i" using assms(4) by simp
    moreover have "find_by n_id i (st_nodes s') = None"
      using assms(1) by (auto simp: node_delete_def find_by_remove split: option.splits)
    ultimately show False using that by (auto simp: find_by_None)
  qed
  ultimately show ?thesis using ch assms(3) by auto
qed

theorem orphan_check_is_silent_witness:
  "\<exists>c\<in>set (st_checks (snd (node_delete ''h1'' (check_app (Some ''h1''))))). k_node_id c = Some ''h1'' \<and>
     (\<forall>env\<in>set (check_monitor_envs (snd (node_delete ''h1'' (check_app (Some ''h1''))))). e_id env \<noteq> ''check:'' @ k_id c)"
proof -
  have d: "node_delete ''h1'' (check_app (Some ''h1'')) = (Done (), snd (node_delete ''h1'' (check_app (Some ''h1''))))"
    by (simp add: node_delete_def check_app_def find_by_def sample_node_def)
  have c: "tcp_check (Some ''h1'') \<in> set (st_checks (check_app (Some ''h1'')))" "k_node_id (tcp_check (Some ''h1'')) = Some ''h1''"
    by (simp_all add: check_app_def tcp_check_def)
  show ?thesis
    using orphan_check_is_silent [OF d check_app_ok c] c(2) by blast
qed


section \<open>Re-pinning\<close>

text \<open>C13: a re-pin trusts only what the host serves at that moment and, when the request names the
  fingerprint the administrator reviewed, only that one; it changes the pin of that host alone and
  drops its cached poll.\<close>

theorem repin_only_reviewed:
  assumes "node_repin observe i data s = (Done fp, s')" and "distinct (map n_id (st_nodes s))"
  shows "(reviewed_fp data \<noteq> [] \<longrightarrow> fp = reviewed_fp data) \<and>
    (\<exists>n host port. find_by n_id i (st_nodes s) = Some n \<and> is_https n \<and>
       split_host_port (n_base_url n) = Inr (host, port) \<and> observe host port = Inr fp \<and>
       find_by n_id i (st_nodes s') = Some (n\<lparr>n_cert_fp := Some fp\<rparr>)) \<and>
    (n_cert_fp (the (find_by n_id i (st_nodes s))) \<noteq> Some fp \<longrightarrow> map_of (st_poll s') i = None) \<and>
    (\<forall>j. j \<noteq> i \<longrightarrow> find_by n_id j (st_nodes s') = find_by n_id j (st_nodes s))"
proof -
  obtain n host port where n: "find_by n_id i (st_nodes s) = Some n" "is_https n"
    "split_host_port (n_base_url n) = Inr (host, port)" "observe host port = Inr fp"
    and rev: "reviewed_fp data \<noteq> [] \<longrightarrow> fp = reviewed_fp data"
    and s': "s' = (if Some fp = n_cert_fp n then s else set_audit (repin_text n fp) (bust_fleet (s\<lparr>
         st_nodes := edit_by n_id i (\<lambda>m. m\<lparr>n_cert_fp := Some fp\<rparr>) (st_nodes s), st_poll := AList.delete i (st_poll s)\<rparr>)))"
    using assms(1) unfolding node_repin_def Let_def
    by (auto split: option.splits if_splits sum.splits)
  show ?thesis
  proof (cases "Some fp = n_cert_fp n")
    case True
    then have "n\<lparr>n_cert_fp := Some fp\<rparr> = n" by simp
    then show ?thesis using n rev s' True by auto
  next
    case False
    then show ?thesis using n rev by (auto simp: s' find_by_edit)
  qed
qed

theorem repin_only_reviewed_witness:
  "find_by n_id ''h1'' (st_nodes (snd (node_repin (\<lambda>h p. Inr ''abcd'') ''h1'' [(''expected'', JStr ''AB:CD'')] lab))) =
     Some ((sample_node ''h1'' ''h1'')\<lparr>n_cert_fp := Some ''abcd''\<rparr>)"
proof -
  have sp: "split_host_port ''https://h'' = Inr (''h'', 443)" by code_simp
  have rv: "reviewed_fp [(''expected'', JStr ''AB:CD'')] = ''abcd''" by code_simp
  have hs: "is_https (sample_node ''h1'' ''h1'')" by code_simp
  have f: "find_by n_id ''h1'' (st_nodes lab) = Some (sample_node ''h1'' ''h1'')"
    by (simp add: lab_def find_by_def sample_node_def)
  have u: "n_base_url (sample_node ''h1'' ''h1'') = ''https://h''" by (simp add: sample_node_def)
  have "fst (node_repin (\<lambda>h p. Inr ''abcd'') ''h1'' [(''expected'', JStr ''AB:CD'')] lab) = Done ''abcd''"
    by (simp add: node_repin_def f hs u sp rv Let_def)
  then have d: "node_repin (\<lambda>h p. Inr ''abcd'') ''h1'' [(''expected'', JStr ''AB:CD'')] lab =
      (Done ''abcd'', snd (node_repin (\<lambda>h p. Inr ''abcd'') ''h1'' [(''expected'', JStr ''AB:CD'')] lab))"
    by (metis prod.collapse)
  have "distinct (map n_id (st_nodes lab))" by (simp add: lab_def)
  from repin_only_reviewed [OF d this] show ?thesis by (auto simp: f)
qed

section \<open>Maintenance windows\<close>

lemma clean_until_done:
  assumes "clean_until v now = Done u" and "0 \<le> now" and "now \<le> 3652059 * day_us - 91 * day_us"
  shows "\<exists>t. parse_utc u = Some (t div second_us * second_us) \<and> now < t \<and> t < now + 91 * day_us"
proof -
  have "\<exists>t. now < t \<and> \<not> 90 < (t - now) div day_us \<and> u = iso_seconds t"
    using assms(1) by (auto simp: clean_until_def PAUSE_MAX_DAYS_def not_le split: json.splits if_splits option.splits)
  then obtain t where t: "now < t" "\<not> 90 < (t - now) div day_us" "u = iso_seconds t" by blast
  then have "(t - now) div day_us < 91" by linarith
  then have lt: "t < now + 91 * day_us" by (simp add: day_us_def)
  have "parse_utc (iso_seconds t) = Some (t div second_us * second_us)"
    using t(1) lt assms(2,3) by (intro parse_iso_seconds) linarith+
  then show ?thesis using t lt by auto
qed

text \<open>C14: every maintenance window ends. The end an administrator enters lies in the future and less
  than 91 days out (the code counts whole days, so up to a day more than the 90 it announces);
  the stored text reads back as that second; the pause holds before it, and the first fan-out at or
  after it resumes the host, whatever the other hosts are.\<close>

theorem pause_window_ends:
  assumes "clean_until v now = Done u" and "0 \<le> now" and "now \<le> 3652059 * day_us - 91 * day_us"
    and "n_disabled n" and "n_disabled_until n = Some u" and "n \<in> set nodes"
  shows "\<exists>t. now - second_us < t \<and> t < now + 91 * day_us \<and>
    (\<forall>clock. clock < t \<longrightarrow> n \<in> set (fst (expire_pauses clock nodes))) \<and>
    (\<forall>clock. t \<le> clock \<longrightarrow> resume n \<in> set (fst (expire_pauses clock nodes)) \<and>
       \<not> n_disabled (resume n) \<and> n_disabled_until (resume n) = None)"
proof -
  obtain t where t: "parse_utc u = Some (t div second_us * second_us)" "now < t" "t < now + 91 * day_us"
    using clean_until_done [OF assms(1-3)] by blast
  let ?t = "t div second_us * second_us"
  have b: "?t \<le> t" "t < ?t + second_us" by (simp_all add: second_us_def)
  have "u \<noteq> []" using t(1) by (auto simp: parse_utc_def fromisoformat_def parse_date_def replace_char_def fixed_def)
  then have w: "window_over clock n \<longleftrightarrow> ?t \<le> clock" for clock
    using assms(4,5) t(1) by (simp add: window_over_def)
  show ?thesis
  proof (intro exI [of _ ?t] conjI allI impI)
    show "now - second_us < ?t" "?t < now + 91 * day_us" using t b by linarith+
    show "clock < ?t \<Longrightarrow> n \<in> set (fst (expire_pauses clock nodes))" for clock
      using assms(6) w [of clock] by (force simp: expire_pauses_def)
    show "?t \<le> clock \<Longrightarrow> resume n \<in> set (fst (expire_pauses clock nodes))" for clock
      using assms(6) w [of clock] by (force simp: expire_pauses_def)
  qed (simp_all add: resume_def)
qed

definition paused_node :: node where
  "paused_node = (sample_node ''h1'' ''h1'')\<lparr>n_disabled := True, n_disabled_until := Some (iso_seconds (738945 * day_us))\<rparr>"

theorem pause_window_ends_witness:
  "\<exists>t. \<forall>clock. t \<le> clock \<longrightarrow> resume paused_node \<in> set (fst (expire_pauses clock [paused_node]))"
proof -
  have st: "strip ''2024-03-01T00:00:00Z'' = ''2024-03-01T00:00:00Z''" by code_simp
  have "clean_until (JStr ''2024-03-01T00:00:00Z'') (738940 * day_us) = Done (iso_seconds (738945 * day_us))"
    by (simp add: clean_until_def st parse_2024 day_us_def PAUSE_MAX_DAYS_def)
  from pause_window_ends [OF this, of paused_node "[paused_node]"] show ?thesis
    by (auto simp: paused_node_def day_us_def)
qed

end
