(* ===== verification/Fleet.thy ===== *)
theory Fleet
  imports Registry Checks Accounts
begin

text \<open>
  The fleet view (\<open>app.py\<close>, "Fleet aggregation"): the rollup, the version skew flag, one build of the
  fleet from the live fetches and the poll cache, the shared cache, the view a scoped login gets, the
  public board, the poll cache of the background-polled hosts (\<open>adapters/virt.py\<close>) and the
  certificate sweep. A live fetch, a poll and a certificate read are parameters; the fan-out takes
  its results in registry order (the source takes them as they complete, then sorts by name).
\<close>

section \<open>The rollup\<close>

definition no_rollup :: rollup where
  "no_rollup = \<lparr>ro_total = 0, ro_healthy = 0, ro_unreachable = 0, ro_disabled = 0, ro_alerts = 0,
     ro_degraded = 0, ro_services_down = 0, ro_storage_used = 0, ro_storage_size = 0, ro_vms = 0,
     ro_containers = 0, ro_updates_hosts = 0, ro_security_hosts = 0, ro_updates_pending = 0, ro_security_pending = 0\<rparr>"

definition raw_alerts :: "envelope \<Rightarrow> int" where
  "raw_alerts r = int (length (su_alerts (summary_of r))) + nas_alerts (nas_of r)"

definition zfs_bad :: "envelope \<Rightarrow> bool" where
  "zfs_bad r = (zfs_pools (su_zfs (summary_of r)) \<noteq> 0 \<and> \<not> zfs_online (su_zfs (summary_of r)))"

definition check_bad :: "envelope \<Rightarrow> bool" where
  "check_bad r = (\<exists>c\<in>set (e_svc_checks r). sc_ok c = Some False)"

definition is_degraded :: "envelope \<Rightarrow> bool" where
  "is_degraded r = (if e_health r \<noteq> None \<or> e_health_acked r \<noteq> None then health_of r \<noteq> []
     else raw_alerts r \<noteq> 0 \<or> services_down (summary_of r) \<noteq> 0 \<or> zfs_bad r \<or>
       nas_pools_degraded (nas_of r) \<noteq> 0 \<or> e_stale r \<or> check_bad r)"

definition guests_of :: "guests option \<Rightarrow> guests" where
  "guests_of g = (case g of None \<Rightarrow> no_guests | Some x \<Rightarrow> x)"

definition updates_of :: "envelope \<Rightarrow> updates_block" where
  "updates_of r = (case su_updates (summary_of r) of Some u \<Rightarrow> u
     | None \<Rightarrow> \<lparr>up_available = 0, up_security = 0, up_reboot = False\<rparr>)"

text \<open>What one host adds.\<close>

definition roll_one :: "rollup \<Rightarrow> envelope \<Rightarrow> rollup" where
  "roll_one a r =
     (if e_disabled r then a\<lparr>ro_disabled := ro_disabled a + 1\<rparr>
      else if \<not> e_ok r then a\<lparr>ro_unreachable := ro_unreachable a + 1\<rparr>
      else
        let v = guests_of (e_virt r); i = guests_of (e_instances r); u = updates_of r
        in a\<lparr>ro_healthy := ro_healthy a + 1, ro_alerts := ro_alerts a + raw_alerts r,
             ro_storage_used := ro_storage_used a + e_used_bytes r,
             ro_storage_size := ro_storage_size a + e_size_bytes r,
             ro_services_down := ro_services_down a + services_down (summary_of r),
             ro_vms := ro_vms a + (g_vms v + g_containers v) + (g_vms i + g_containers i),
             ro_containers := ro_containers a + g_containers v + g_containers i,
             ro_updates_hosts := ro_updates_hosts a + (if up_available u \<noteq> 0 then 1 else 0),
             ro_updates_pending := ro_updates_pending a + up_available u,
             ro_security_hosts := ro_security_hosts a + (if up_available u \<noteq> 0 \<and> up_security u \<noteq> 0 then 1 else 0),
             ro_security_pending := ro_security_pending a + (if up_available u \<noteq> 0 then up_security u else 0),
             ro_degraded := ro_degraded a + (if is_degraded r then 1 else 0)\<rparr>)"

definition compute_rollup :: "envelope list \<Rightarrow> rollup" where
  "compute_rollup results = (foldl roll_one no_rollup results)\<lparr>ro_total := length results\<rparr>"

section \<open>Version skew\<close>

definition version_tuple :: "string option \<Rightarrow> nat list" where
  "version_tuple v =
     (let runs = split_ws (map (\<lambda>c. if is_digit c then c else CHR '' '') (case v of None \<Rightarrow> [] | Some s \<Rightarrow> s));
          parts = map (foldl (\<lambda>a c. 10 * a + digit_val c) 0) (take 3 runs)
      in if parts = [] then [0] else parts)"

definition has_version :: "envelope \<Rightarrow> bool" where
  "has_version r = (e_ok r \<and> (e_host_type r = [] \<or> e_host_type r = ''nexus'') \<and>
     (case e_version r of None \<Rightarrow> False | Some v \<Rightarrow> v \<noteq> []))"

text \<open>\<open>max(xs, key=...)\<close>: the first of the largest.\<close>

fun newest_of :: "envelope \<Rightarrow> envelope list \<Rightarrow> envelope" where
  "newest_of best [] = best"
| "newest_of best (r # rs) =
     newest_of (if version_tuple (e_version best) < version_tuple (e_version r) then r else best) rs"

definition flag_version_skew :: "envelope list \<Rightarrow> envelope list" where
  "flag_version_skew results =
     (case filter has_version results of
        n1 # n2 # ns \<Rightarrow>
          let newest = newest_of n1 (n2 # ns); top = version_tuple (e_version newest)
          in map (\<lambda>r. if has_version r \<and> version_tuple (e_version r) < top
                      then r\<lparr>e_version_lag := e_version newest\<rparr> else r) results
      | _ \<Rightarrow> results)"

section \<open>Building the fleet\<close>

definition disabled_envelope :: "node \<Rightarrow> envelope" where
  "disabled_envelope n = (base_envelope n)\<lparr>e_disabled := True, e_disabled_until := n_disabled_until n,
     e_error := Some ''monitoring disabled''\<rparr>"

definition stamp_cert :: "string dict \<Rightarrow> envelope \<Rightarrow> envelope" where
  "stamp_cert cache r = (case map_of cache (e_id r) of None \<Rightarrow> r
     | Some na \<Rightarrow> if e_disabled r then r else r\<lparr>e_cert_not_after := Some na\<rparr>)"

text \<open>The first-seen time of each entry: the one remembered, or now.\<close>

fun stamp_since :: "string \<Rightarrow> string \<Rightarrow> health_entry list \<Rightarrow> (pk \<times> string) list \<Rightarrow>
    health_entry list \<times> (pk \<times> string) list" where
  "stamp_since ts hid [] since = ([], since)"
| "stamp_since ts hid (e # es) since =
     (let since1 = set_default (hid, h_key e) ts since;
          (es', since2) = stamp_since ts hid es since1
      in (e\<lparr>h_since := map_of since1 (hid, h_key e)\<rparr> # es', since2))"

definition fold_entries :: "ack dict \<Rightarrow> rat \<Rightarrow> health_entry list \<Rightarrow> envelope \<Rightarrow> envelope" where
  "fold_entries acks now es r =
     (let (live, acked) = split_acked es acks (e_id r) now;
          r1 = (if live = [] then r else r\<lparr>e_health := Some live\<rparr>)
      in if acked = [] then r1 else r1\<lparr>e_health_acked := Some acked\<rparr>)"

fun fold_health :: "int \<Rightarrow> rat \<Rightarrow> string \<Rightarrow> ack dict \<Rightarrow> envelope list \<Rightarrow> (pk \<times> string) list \<Rightarrow>
    envelope list \<times> (pk \<times> string) list" where
  "fold_health clock now ts acks [] since = ([], since)"
| "fold_health clock now ts acks (r # rs) since =
     (let (es, since1) = stamp_since ts (e_id r) (health_entries clock r) since;
          (rs', since2) = fold_health clock now ts acks rs since1
      in (fold_entries acks now es r # rs', since2))"

definition live_keys :: "int \<Rightarrow> envelope list \<Rightarrow> pk list" where
  "live_keys clock results = concat (map (\<lambda>r. map (\<lambda>e. (e_id r, h_key e)) (health_entries clock r)) results)"

text \<open>\<open>_build_fleet_finish\<close>.\<close>

definition build_fleet_finish :: "int \<Rightarrow> rat \<Rightarrow> string \<Rightarrow> envelope list \<Rightarrow> app \<Rightarrow> fleet \<times> app" where
  "build_fleet_finish clock now ts results s =
     (let r1 = map (stamp_cert (st_cert_cache s)) (attach_svc_checks (st_checks s) (st_results s) results);
          (r2, since) = fold_health clock now ts (st_acks s) r1 (st_since s);
          nodes = sort_key (\<lambda>r. lower (e_name r)) r2
      in (\<lparr>f_nodes = nodes, f_rollup = compute_rollup nodes, f_generated_at = ts\<rparr>,
          s\<lparr>st_since := filter (\<lambda>(k, t). k \<in> set (live_keys clock r1)) since\<rparr>))"

text \<open>\<open>_build_fleet\<close>: end maintenance windows, fan out, heal the registry, flag old versions.\<close>

definition fan_out :: "(node \<Rightarrow> envelope) \<Rightarrow> node list \<Rightarrow> envelope list" where
  "fan_out fetch nodes = map disabled_envelope (filter n_disabled nodes) @ map fetch (filter (\<lambda>n. \<not> n_disabled n) nodes)"

definition build_fleet :: "int \<Rightarrow> rat \<Rightarrow> string \<Rightarrow> (node \<Rightarrow> envelope) \<Rightarrow> app \<Rightarrow> fleet \<times> app" where
  "build_fleet clock now ts fetch s =
     (let nodes = fst (expire_pauses clock (st_nodes s));
          results = fan_out fetch nodes;
          seen = rev (map (\<lambda>r. (e_id r, r)) results);
          results1 = map (reflect_type nodes) results
      in build_fleet_finish clock now ts (flag_version_skew results1)
           (s\<lparr>st_nodes := refresh_registry ts seen nodes\<rparr>))"

text \<open>\<open>_refresh_fleet\<close>: the snapshot the previous builder left when it is young enough.\<close>

definition refresh_fleet :: "rat option \<Rightarrow> int \<Rightarrow> rat \<Rightarrow> string \<Rightarrow> (node \<Rightarrow> envelope) \<Rightarrow> app \<Rightarrow> fleet \<times> bool \<times> app" where
  "refresh_fleet max_age clock now ts fetch s =
     (case (max_age, st_cache s) of
        (Some a, Some f) \<Rightarrow>
          if now - st_cache_ts s < a then (f, False, s)
          else (let (g, s1) = build_fleet clock now ts fetch s in (g, True, s1\<lparr>st_cache := Some g, st_cache_ts := now\<rparr>))
      | _ \<Rightarrow> (let (g, s1) = build_fleet clock now ts fetch s in (g, True, s1\<lparr>st_cache := Some g, st_cache_ts := now\<rparr>)))"

definition FLEET_CACHE_TTL :: rat where "FLEET_CACHE_TTL = 12"

definition scoped_fleet :: "fleet \<Rightarrow> string set option \<Rightarrow> fleet" where
  "scoped_fleet f scope = (if scope = None then f
     else let nodes = filter (\<lambda>r. scope_allows scope (e_tags r)) (f_nodes f)
       in f\<lparr>f_nodes := nodes, f_rollup := compute_rollup nodes\<rparr>)"

definition fleet_summary :: "bool \<Rightarrow> ctx \<Rightarrow> int \<Rightarrow> rat \<Rightarrow> string \<Rightarrow> (node \<Rightarrow> envelope) \<Rightarrow> app \<Rightarrow> fleet \<times> bool \<times> app" where
  "fleet_summary fresh c clock now ts fetch s =
     (case st_cache s of
        Some f \<Rightarrow>
          if \<not> fresh \<and> now - st_cache_ts s < FLEET_CACHE_TTL then (scoped_fleet f (g_scope c), True, s)
          else (let (g, built, s1) = refresh_fleet (if fresh then None else Some FLEET_CACHE_TTL) clock now ts fetch s
                in (scoped_fleet g (g_scope c), \<not> built, s1))
      | None \<Rightarrow> (let (g, built, s1) = refresh_fleet (if fresh then None else Some FLEET_CACHE_TTL) clock now ts fetch s
                in (scoped_fleet g (g_scope c), \<not> built, s1)))"

section \<open>The public board\<close>

definition board_category :: "envelope \<Rightarrow> string" where
  "board_category env = (if e_disabled env then ''Paused''
     else if e_type env \<in> {[], ''Mixed'', ''Unknown''} then ''General'' else e_type env)"

definition board_hosts :: "bool \<Rightarrow> fleet option \<Rightarrow> (string \<times> string \<times> colour \<times> string list) list" where
  "board_hosts authed data = (case data of None \<Rightarrow> []
     | Some f \<Rightarrow> concat (map (\<lambda>r. let (state, issues) = board_state r
         in if state = Grey \<and> \<not> authed then [] else [(e_name r, board_category r, state, issues)]) (f_nodes f)))"

definition board_checks :: "app \<Rightarrow> (string \<times> colour \<times> string) list" where
  "board_checks s = map (\<lambda>c.
     case map_of (st_results s) (k_id c) of
       None \<Rightarrow> (k_name c, Grey, [])
     | Some r \<Rightarrow> if r_paused r \<or> r_ok r = None then (k_name c, Grey, [])
         else if r_ok r = Some True then (k_name c, Green, []) else (k_name c, Red, r_detail r)) (st_checks s)"

section \<open>The poll cache\<close>

definition VIRT_POLL_INTERVAL :: rat where "VIRT_POLL_INTERVAL = 60"

text \<open>\<open>VirtAdapter.fetch\<close>: the last polled envelope with the registry's current metadata.\<close>

definition virt_fetch :: "rat \<Rightarrow> app \<Rightarrow> node \<Rightarrow> envelope" where
  "virt_fetch now s n = (case map_of (st_poll s) (n_id n) of
      None \<Rightarrow> (base_envelope n)\<lparr>e_error := Some ''awaiting first poll'', e_type_auto := Some (ad_default_type (adapter_for n))\<rparr>
    | Some p \<Rightarrow> (po_env p)\<lparr>e_type := n_type n, e_type_pinned := n_type_pinned n, e_tags := n_tags n,
        e_stale := (VIRT_POLL_INTERVAL * 3 < now - po_ts p)\<rparr>)"

text \<open>\<open>_poll_once\<close>: paused hosts are not contacted and lose their entry, as removed ones do.\<close>

definition polled_nodes :: "app \<Rightarrow> node list" where
  "polled_nodes s = filter (\<lambda>n. ad_polled (adapter_for n) \<and> \<not> n_disabled n) (st_nodes s)"

definition poll_once :: "rat \<Rightarrow> (node \<Rightarrow> envelope) \<Rightarrow> app \<Rightarrow> app" where
  "poll_once now collect s =
     (let nodes = polled_nodes s;
          cache = foldl (\<lambda>d n. AList.update (n_id n) \<lparr>po_env = collect n, po_ts = now\<rparr> d) (st_poll s) nodes
      in s\<lparr>st_poll := filter (\<lambda>(i, p). i \<in> set (map n_id nodes)) cache\<rparr>)"

section \<open>The certificate sweep\<close>

text \<open>\<open>_sweep_cert_expiry\<close>: \<open>read\<close> is the expiry a host's certificate shows, or \<open>None\<close> when it cannot
  be read; then the last value stays.\<close>

definition sweep_todo :: "node list \<Rightarrow> node list" where
  "sweep_todo nodes = filter (\<lambda>n. is_https n \<and> \<not> n_disabled n) nodes"

definition sweep_cert_expiry :: "(node \<Rightarrow> string option) \<Rightarrow> node list \<Rightarrow> string dict \<Rightarrow> string dict" where
  "sweep_cert_expiry read nodes cache =
     filter (\<lambda>(i, t). i \<in> set (map n_id nodes))
       (foldl (\<lambda>d n. case read n of None \<Rightarrow> d | Some t \<Rightarrow> AList.update (n_id n) t d) cache (sweep_todo nodes))"

end
