(* ===== verification/FleetFacts.thy ===== *)
theory FleetFacts
  imports Fleet NotifierRuns AccountRuns RegistryFacts
begin

text \<open>
  What the fleet view promises: the rollup counts what it says, its degraded count is the number of
  reachable hosts that are red on the wallboard, first-seen times live exactly as long as their
  condition, the version flag marks exactly the hosts behind, and a scoped login is shown nothing
  outside its scope.
\<close>

section \<open>The rollup\<close>

definition up_hosts :: "envelope list \<Rightarrow> envelope list" where
  "up_hosts rs = filter (\<lambda>r. \<not> e_disabled r \<and> e_ok r) rs"

lemma roll_fold:
  fixes rs :: "envelope list" and a :: rollup
  shows "ro_healthy (foldl roll_one a rs) = ro_healthy a + length (up_hosts rs)"
    and "ro_unreachable (foldl roll_one a rs) = ro_unreachable a + length (filter (\<lambda>r. \<not> e_disabled r \<and> \<not> e_ok r) rs)"
    and "ro_disabled (foldl roll_one a rs) = ro_disabled a + length (filter e_disabled rs)"
    and "ro_alerts (foldl roll_one a rs) = ro_alerts a + (\<Sum>r\<leftarrow>up_hosts rs. raw_alerts r)"
    and "ro_degraded (foldl roll_one a rs) = ro_degraded a + length (filter is_degraded (up_hosts rs))"
    and "ro_storage_used (foldl roll_one a rs) = ro_storage_used a + (\<Sum>r\<leftarrow>up_hosts rs. e_used_bytes r)"
    and "ro_storage_size (foldl roll_one a rs) = ro_storage_size a + (\<Sum>r\<leftarrow>up_hosts rs. e_size_bytes r)"
    and "ro_services_down (foldl roll_one a rs) = ro_services_down a + (\<Sum>r\<leftarrow>up_hosts rs. services_down (summary_of r))"
    and "ro_updates_pending (foldl roll_one a rs) = ro_updates_pending a + (\<Sum>r\<leftarrow>up_hosts rs. up_available (updates_of r))"
    and "ro_containers (foldl roll_one a rs) = ro_containers a +
      (\<Sum>r\<leftarrow>up_hosts rs. g_containers (guests_of (e_virt r)) + g_containers (guests_of (e_instances r)))"
  by (induction rs arbitrary: a; simp add: up_hosts_def roll_one_def Let_def)+

text \<open>The rollup counts every host once, as healthy, unreachable or paused, and sums the reachable
  hosts only.\<close>

theorem rollup_exact:
  "ro_total (compute_rollup rs) = length rs \<and>
   ro_healthy (compute_rollup rs) = length (up_hosts rs) \<and>
   ro_disabled (compute_rollup rs) = length (filter e_disabled rs) \<and>
   ro_healthy (compute_rollup rs) + ro_unreachable (compute_rollup rs) + ro_disabled (compute_rollup rs) = length rs \<and>
   ro_degraded (compute_rollup rs) = length (filter is_degraded (up_hosts rs)) \<and>
   ro_alerts (compute_rollup rs) = (\<Sum>r\<leftarrow>up_hosts rs. raw_alerts r) \<and>
   ro_storage_used (compute_rollup rs) = (\<Sum>r\<leftarrow>up_hosts rs. e_used_bytes r) \<and>
   ro_storage_size (compute_rollup rs) = (\<Sum>r\<leftarrow>up_hosts rs. e_size_bytes r) \<and>
   ro_services_down (compute_rollup rs) = (\<Sum>r\<leftarrow>up_hosts rs. services_down (summary_of r))"
proof -
  have "length (filter (\<lambda>r. \<not> e_disabled r \<and> e_ok r) rs) + length (filter (\<lambda>r. \<not> e_disabled r \<and> \<not> e_ok r) rs) +
      length (filter e_disabled rs) = length rs" by (induction rs) auto
  then show ?thesis by (simp add: compute_rollup_def roll_fold no_rollup_def) (simp add: up_hosts_def)
qed

section \<open>First-seen times\<close>

lemma set_default_lookup: "map_of (set_default k v d) j = (if j = k \<and> map_of d k = None then Some v else map_of d j)"
  by (simp add: set_default_def split: option.split)

lemma stamp_since_lookup:
  "map_of (snd (stamp_since ts hid es since)) j =
     (case map_of since j of Some t \<Rightarrow> Some t
      | None \<Rightarrow> if j \<in> (\<lambda>e. (hid, h_key e)) ` set es then Some ts else None)"
proof (induction es arbitrary: since)
  case (Cons e es)
  obtain es' s2 where st: "stamp_since ts hid es (set_default (hid, h_key e) ts since) = (es', s2)" by (metis prod.exhaust)
  then show ?case
    using Cons.IH [of "set_default (hid, h_key e) ts since"]
    by (auto simp: Let_def set_default_lookup split: option.splits if_splits)
qed (simp split: option.split)

lemma stamp_since_entries:
  "map h_key (fst (stamp_since ts hid es since)) = map h_key es"
  "map h_detail (fst (stamp_since ts hid es since)) = map h_detail es"
  "e \<in> set (fst (stamp_since ts hid es since)) \<Longrightarrow>
     h_since e = Some (case map_of since (hid, h_key e) of Some t \<Rightarrow> t | None \<Rightarrow> ts)"
proof (induction es arbitrary: since)
  case (Cons x es)
  { case 1 then show ?case using Cons.IH(1) [of "set_default (hid, h_key x) ts since"] by (simp add: Let_def split_beta) }
  { case 2 then show ?case using Cons.IH(2) [of "set_default (hid, h_key x) ts since"] by (simp add: Let_def split_beta) }
  { case 3
    then show ?case using Cons.IH(3) [of "set_default (hid, h_key x) ts since"]
      by (auto simp: Let_def split_beta set_default_lookup split: option.splits if_splits) }
qed simp_all

lemma fold_health_since:
  "map_of (snd (fold_health clock now ts acks rs since)) j =
     (case map_of since j of Some t \<Rightarrow> Some t
      | None \<Rightarrow> if j \<in> set (live_keys clock rs) then Some ts else None)"
proof (induction rs arbitrary: since)
  case (Cons r rs)
  obtain es s1 where st: "stamp_since ts (e_id r) (health_entries clock r) since = (es, s1)" by (metis prod.exhaust)
  obtain rs' s2 where fh: "fold_health clock now ts acks rs s1 = (rs', s2)" by (metis prod.exhaust)
  have "map_of s1 j = (case map_of since j of Some t \<Rightarrow> Some t
      | None \<Rightarrow> if j \<in> (\<lambda>e. (e_id r, h_key e)) ` set (health_entries clock r) then Some ts else None)"
    using stamp_since_lookup [of ts "e_id r" "health_entries clock r" since j] by (simp add: st)
  then show ?case using Cons.IH [of s1]
    by (auto simp: Let_def st fh live_keys_def split: option.splits if_splits)
qed (simp add: live_keys_def split: option.split)

lemma fold_health_shape: "\<exists>es. fst (fold_health clock now ts acks rs since) = map2 (fold_entries acks now) es rs \<and> length es = length rs"
proof (induction rs arbitrary: since)
  case (Cons r rs)
  obtain es s1 where st: "stamp_since ts (e_id r) (health_entries clock r) since = (es, s1)" by (metis prod.exhaust)
  obtain ess where "fst (fold_health clock now ts acks rs s1) = map2 (fold_entries acks now) ess rs" "length ess = length rs"
    using Cons.IH by blast
  then show ?case by (intro exI [of _ "es # ess"]) (simp add: Let_def st split_beta)
qed simp

text \<open>One host of the folded list: its entries are the host's own, stamped.\<close>

lemma fold_health_mem:
  assumes "x \<in> set (fst (fold_health clock now ts acks rs since))"
  shows "\<exists>r\<in>set rs. \<exists>es. x = fold_entries acks now es r \<and> map h_key es = map h_key (health_entries clock r) \<and>
     (\<forall>e\<in>set es. h_since e = Some (case map_of since (e_id r, h_key e) of Some t \<Rightarrow> t | None \<Rightarrow> ts))"
  using assms
proof (induction rs arbitrary: since)
  case (Cons r rs)
  obtain es s1 where st: "stamp_since ts (e_id r) (health_entries clock r) since = (es, s1)" by (metis prod.exhaust)
  have keys: "map h_key es = map h_key (health_entries clock r)" and
    times: "\<forall>e\<in>set es. h_since e = Some (case map_of since (e_id r, h_key e) of Some t \<Rightarrow> t | None \<Rightarrow> ts)"
    using stamp_since_entries [where ts = ts and hid = "e_id r" and es = "health_entries clock r" and since = since]
    by (simp_all add: st)
  have s1: "(case map_of s1 j of Some t \<Rightarrow> t | None \<Rightarrow> ts) = (case map_of since j of Some t \<Rightarrow> t | None \<Rightarrow> ts)" for j
    using stamp_since_lookup [of ts "e_id r" "health_entries clock r" since j] by (simp add: st split: option.splits if_splits)
  from Cons.prems have "x = fold_entries acks now es r \<or> x \<in> set (fst (fold_health clock now ts acks rs s1))"
    by (simp add: Let_def st split_beta)
  then show ?case
  proof
    assume "x = fold_entries acks now es r"
    with keys times show ?thesis by auto
  next
    assume "x \<in> set (fst (fold_health clock now ts acks rs s1))"
    from Cons.IH [OF this] show ?thesis unfolding s1 by auto
  qed
qed simp

section \<open>Folding a host's entries\<close>

definition unfolded :: "envelope \<Rightarrow> bool" where
  "unfolded r = (e_health r = None \<and> e_health_acked r = None \<and> 0 \<le> nas_alerts (nas_of r))"

lemma fold_entries_fields [simp]:
  "e_id (fold_entries acks now es r) = e_id r" "e_disabled (fold_entries acks now es r) = e_disabled r"
  "e_ok (fold_entries acks now es r) = e_ok r" "e_name (fold_entries acks now es r) = e_name r"
  "e_tags (fold_entries acks now es r) = e_tags r" "e_summary (fold_entries acks now es r) = e_summary r"
  "e_nas (fold_entries acks now es r) = e_nas r" "e_stale (fold_entries acks now es r) = e_stale r"
  "e_svc_checks (fold_entries acks now es r) = e_svc_checks r"
  by (simp_all add: fold_entries_def Let_def split: prod.split)

lemma fold_entries_health:
  assumes "unfolded r"
  shows "health_of (fold_entries acks now es r) = fst (split_acked es acks (e_id r) now)"
    and "e_health (fold_entries acks now es r) = None \<and> e_health_acked (fold_entries acks now es r) = None \<longleftrightarrow> es = []"
proof -
  obtain live acked where sp: "split_acked es acks (e_id r) now = (live, acked)" by (metis prod.exhaust)
  have "live = [] \<and> acked = [] \<longleftrightarrow> es = []"
    using split_acked_filter [of es acks "e_id r" now] by (auto simp: sp filter_empty_conv)
  with assms show "e_health (fold_entries acks now es r) = None \<and> e_health_acked (fold_entries acks now es r) = None \<longleftrightarrow> es = []"
    by (auto simp: fold_entries_def Let_def sp unfolded_def)
  from assms show "health_of (fold_entries acks now es r) = fst (split_acked es acks (e_id r) now)"
    by (simp add: fold_entries_def Let_def sp unfolded_def health_of_def)
qed

lemma same_signs:
  "raw_alerts (fold_entries acks now es r) = raw_alerts r"
  "services_down (summary_of (fold_entries acks now es r)) = services_down (summary_of r)"
  "zfs_bad (fold_entries acks now es r) = zfs_bad r" "check_bad (fold_entries acks now es r) = check_bad r"
  "nas_of (fold_entries acks now es r) = nas_of r"
  by (simp_all add: raw_alerts_def zfs_bad_def check_bad_def summary_of_def nas_of_def)

lemma quiet_not_degraded:
  assumes "no_warning_signs clock r" and "unfolded r"
  shows "raw_alerts r = 0" "services_down (summary_of r) = 0" "\<not> zfs_bad r" "nas_pools_degraded (nas_of r) = 0" "\<not> e_stale r" "\<not> check_bad r"
proof -
  show "services_down (summary_of r) = 0" "nas_pools_degraded (nas_of r) = 0" "\<not> e_stale r" "\<not> zfs_bad r"
    using assms by (auto simp: no_warning_signs_def zfs_bad_def)
  show "raw_alerts r = 0" using assms by (auto simp: no_warning_signs_def n_alerts_def raw_alerts_def unfolded_def)
  show "\<not> check_bad r" using assms by (auto simp: no_warning_signs_def failed_checks_def check_bad_def filter_empty_conv)
qed

lemma degraded_iff_red:
  assumes "unfolded r" and "e_ok r" and "\<not> e_disabled r" and "map h_key es = map h_key (health_entries clock r)"
  shows "is_degraded (fold_entries acks now es r) \<longleftrightarrow> health_of (fold_entries acks now es r) \<noteq> []"
proof (cases "es = []")
  case False
  with fold_entries_health(2) [OF assms(1), of acks now es] show ?thesis by (auto simp: is_degraded_def)
next
  case True
  with assms(4) have "no_warning_signs clock r" using health_entries_signs [OF assms(3,2)] by simp
  from quiet_not_degraded [OF this assms(1)] fold_entries_health [OF assms(1), of acks now es] True show ?thesis
    by (simp add: is_degraded_def same_signs)
qed

lemma red_board:
  assumes "e_ok x" and "\<not> e_disabled x"
  shows "fst (board_state x) = Red \<longleftrightarrow> health_of x \<noteq> []"
  using assms by (simp add: board_state_def Let_def)

section \<open>The claims about a build\<close>

lemma stamp_cert_fields [simp]:
  "e_id (stamp_cert c r) = e_id r" "e_disabled (stamp_cert c r) = e_disabled r" "e_ok (stamp_cert c r) = e_ok r"
  "e_tags (stamp_cert c r) = e_tags r" "unfolded (stamp_cert c r) = unfolded r"
  by (simp_all add: stamp_cert_def unfolded_def nas_of_def split: option.split)

lemma attach_unfolded: "\<forall>r\<in>set rs. unfolded r \<Longrightarrow> \<forall>r\<in>set (attach_svc_checks cs res rs). unfolded r"
  by (auto simp: attach_svc_checks_def unfolded_def nas_of_def)

definition prepared :: "app \<Rightarrow> envelope list \<Rightarrow> envelope list" where
  "prepared s results = map (stamp_cert (st_cert_cache s)) (attach_svc_checks (st_checks s) (st_results s) results)"

lemma finish_nodes:
  assumes "x \<in> set (f_nodes (fst (build_fleet_finish clock now ts results s)))"
  shows "\<exists>r\<in>set (prepared s results). \<exists>es. x = fold_entries (st_acks s) now es r \<and>
     map h_key es = map h_key (health_entries clock r) \<and>
     (\<forall>e\<in>set es. h_since e = Some (case map_of (st_since s) (e_id r, h_key e) of Some t \<Rightarrow> t | None \<Rightarrow> ts))"
  using assms fold_health_mem [of x clock now ts "st_acks s" "prepared s results" "st_since s"]
  by (simp add: build_fleet_finish_def prepared_def Let_def split_beta)

lemma prepared_unfolded: "\<forall>r\<in>set results. unfolded r \<Longrightarrow> \<forall>r\<in>set (prepared s results). unfolded r"
  using attach_unfolded by (fastforce simp: prepared_def)

text \<open>C25: on the built fleet the rollup's degraded count and the wallboard agree: it is the number of
  reachable, unpaused hosts the board shows red.\<close>

theorem rollup_matches_board:
  assumes "\<forall>r\<in>set results. unfolded r" and "build_fleet_finish clock now ts results s = (f, s')"
  shows "ro_degraded (f_rollup f) = length (filter (\<lambda>x. e_ok x \<and> \<not> e_disabled x \<and> fst (board_state x) = Red) (f_nodes f))"
proof -
  have roll: "f_rollup f = compute_rollup (f_nodes f)"
    using assms(2) by (auto simp: build_fleet_finish_def Let_def split_beta)
  have "is_degraded x \<longleftrightarrow> fst (board_state x) = Red" if "x \<in> set (f_nodes f)" "e_ok x" "\<not> e_disabled x" for x
  proof -
    have "x \<in> set (f_nodes (fst (build_fleet_finish clock now ts results s)))" using that(1) assms(2) by simp
    from finish_nodes [OF this] obtain r es where r: "r \<in> set (prepared s results)" "x = fold_entries (st_acks s) now es r"
      "map h_key es = map h_key (health_entries clock r)" by blast
    have "unfolded r" using prepared_unfolded [OF assms(1)] r(1) by blast
    from degraded_iff_red [OF this, of es clock "st_acks s" now] red_board [of x] r that(2,3) show ?thesis by simp
  qed
  then have "filter is_degraded (up_hosts (f_nodes f)) =
      filter (\<lambda>x. e_ok x \<and> \<not> e_disabled x \<and> fst (board_state x) = Red) (f_nodes f)"
    unfolding up_hosts_def filter_filter by (intro filter_cong) auto
  then show ?thesis by (simp add: roll compute_rollup_def roll_fold no_rollup_def)
qed

text \<open>After a build the first-seen store holds exactly the conditions that are there, with the time
  they were first seen, and every live entry of every host shows that time.\<close>

theorem first_seen_exact:
  assumes "\<forall>r\<in>set results. unfolded r" and "build_fleet_finish clock now ts results s = (f, s')"
  shows "(\<forall>j. map_of (st_since s') j =
       (if j \<in> set (live_keys clock (prepared s results))
        then Some (case map_of (st_since s) j of Some t \<Rightarrow> t | None \<Rightarrow> ts) else None)) \<and>
     (\<forall>x\<in>set (f_nodes f). \<forall>e\<in>set (health_of x). h_since e = map_of (st_since s') (e_id x, h_key e))"
proof -
  have since: "st_since s' = filter (\<lambda>(k, t). k \<in> set (live_keys clock (prepared s results)))
      (snd (fold_health clock now ts (st_acks s) (prepared s results) (st_since s)))"
    using assms(2) by (auto simp: build_fleet_finish_def prepared_def Let_def split_beta)
  have store: "map_of (st_since s') j = (if j \<in> set (live_keys clock (prepared s results))
        then Some (case map_of (st_since s) j of Some t \<Rightarrow> t | None \<Rightarrow> ts) else None)" for j
    unfolding since map_of_filter_key fold_health_since by (simp split: option.split)
  have "h_since e = map_of (st_since s') (e_id x, h_key e)"
    if "x \<in> set (f_nodes f)" "e \<in> set (health_of x)" for x e
  proof -
    have "x \<in> set (f_nodes (fst (build_fleet_finish clock now ts results s)))" using that(1) assms(2) by simp
    from finish_nodes [OF this] obtain r es where r: "r \<in> set (prepared s results)" "x = fold_entries (st_acks s) now es r"
      "map h_key es = map h_key (health_entries clock r)"
      "\<forall>e\<in>set es. h_since e = Some (case map_of (st_since s) (e_id r, h_key e) of Some t \<Rightarrow> t | None \<Rightarrow> ts)" by blast
    have "unfolded r" using prepared_unfolded [OF assms(1)] r(1) by blast
    with that(2) r(2) have e: "e \<in> set es" using fold_entries_health(1) split_acked_filter(1) by auto
    then have "h_key e \<in> set (map h_key (health_entries clock r))" using r(3) by (metis image_eqI list.set_map)
    then have "(e_id x, h_key e) \<in> set (live_keys clock (prepared s results))"
      using r(1,2) by (auto simp: live_keys_def intro!: bexI [of _ r])
    with e r(2,4) show ?thesis by (simp add: store)
  qed
  with store show ?thesis by blast
qed

definition stale_host :: envelope where
  "stale_host = (base_envelope (sample_node ''h1'' ''h1''))\<lparr>e_ok := True, e_stale := True\<rparr>"

lemma stale_unfolded: "\<forall>r\<in>set [stale_host]. unfolded r"
  by (simp add: unfolded_def stale_host_def base_envelope_def nas_of_def no_nas_def)

theorem rollup_matches_board_witness:
  "\<exists>f. fst (build_fleet_finish 0 0 ''now'' [stale_host] empty_app) = f \<and> ro_degraded (f_rollup f) = 1 \<and>
     length (filter (\<lambda>x. e_ok x \<and> \<not> e_disabled x \<and> fst (board_state x) = Red) (f_nodes f)) = 1"
proof -
  have "ro_degraded (f_rollup (fst (build_fleet_finish 0 0 ''now'' [stale_host] empty_app))) = 1" by code_simp
  with rollup_matches_board [OF stale_unfolded surjective_pairing, of 0 0 "''now''" empty_app] show ?thesis by simp
qed

theorem first_seen_exact_witness:
  "map_of (st_since (snd (build_fleet_finish 0 0 ''now'' [stale_host] empty_app))) (''h1'', ''stale'') = Some ''now''"
proof -
  have "(''h1'', ''stale'') \<in> set (live_keys 0 (prepared empty_app [stale_host]))" by code_simp
  with first_seen_exact [OF stale_unfolded surjective_pairing, of 0 0 "''now''" empty_app] show ?thesis
    by (simp add: empty_app_def)
qed

section \<open>The version flag\<close>

lemma newest_of_max:
  "newest_of b rs \<in> insert b (set rs) \<and>
   (\<forall>r\<in>insert b (set rs). version_tuple (e_version r) \<le> version_tuple (e_version (newest_of b rs)))"
proof (induction rs arbitrary: b)
  case (Cons r rs)
  show ?case using Cons.IH [of "if version_tuple (e_version b) < version_tuple (e_version r) then r else b"]
    by (fastforce split: if_splits)
qed simp

text \<open>A host is flagged exactly when another reachable node runs a newer version, the flag names the
  newest version there is, and nothing else of any host changes.\<close>

theorem version_skew_exact:
  "\<exists>top. flag_version_skew results =
     map (\<lambda>r. if has_version r \<and> (\<exists>q\<in>set results. has_version q \<and>
                  version_tuple (e_version r) < version_tuple (e_version q))
              then r\<lparr>e_version_lag := top\<rparr> else r) results \<and>
     (\<forall>q\<in>set results. has_version q \<longrightarrow> (\<exists>m\<in>set results. has_version m \<and> top = e_version m \<and>
        version_tuple (e_version q) \<le> version_tuple top))"
proof (cases "filter has_version results")
  case Nil
  then have "\<forall>q\<in>set results. \<not> has_version q" by (simp add: filter_empty_conv)
  then show ?thesis by (intro exI [of _ None]) (auto simp: flag_version_skew_def Nil intro!: map_idI [symmetric])
next
  case (Cons n1 ns)
  then have "insert n1 (set ns) = {q \<in> set results. has_version q}" by (simp only: set_filter [symmetric] list.set)
  then have mem: "q \<in> set results \<and> has_version q \<longleftrightarrow> q \<in> insert n1 (set ns)" for q by simp
  let ?m = "newest_of n1 ns"
  have m: "?m \<in> set results" "has_version ?m" using newest_of_max [of n1 ns] mem by blast+
  have top: "version_tuple (e_version q) \<le> version_tuple (e_version ?m)" if "q \<in> set results" "has_version q" for q
    using newest_of_max [of n1 ns] mem that by blast
  have lag: "(\<exists>q\<in>set results. has_version q \<and> version_tuple (e_version r) < version_tuple (e_version q)) \<longleftrightarrow>
      version_tuple (e_version r) < version_tuple (e_version ?m)" for r
    using m top by (meson order.strict_trans2)
  have "flag_version_skew results = map (\<lambda>r. if has_version r \<and>
      version_tuple (e_version r) < version_tuple (e_version ?m) then r\<lparr>e_version_lag := e_version ?m\<rparr> else r) results"
  proof (cases ns)
    case Nil
    then have "r = n1" if "r \<in> set results" "has_version r" for r using mem [of r] that by simp
    then show ?thesis using Cons Nil by (auto simp: flag_version_skew_def intro!: map_idI [symmetric])
  qed (simp add: flag_version_skew_def Cons Let_def)
  with m top show ?thesis unfolding lag [symmetric] by blast
qed

definition versioned :: "string \<Rightarrow> envelope" where
  "versioned v = (base_envelope (sample_node ''h1'' ''h1''))\<lparr>e_ok := True, e_version := Some v\<rparr>"

theorem version_skew_exact_witness:
  "map e_version_lag (flag_version_skew [versioned ''2.9.1'', versioned ''2.10.0'']) = [Some ''2.10.0'', None]"
proof -
  have hv: "has_version (versioned v) \<longleftrightarrow> v \<noteq> []" for v
    by (simp add: has_version_def versioned_def base_envelope_def sample_node_def)
  have ev: "e_version (versioned v) = Some v" for v by (simp add: versioned_def)
  have lt: "version_tuple (Some ''2.9.1'') = [2, 9, 1]" "version_tuple (Some ''2.10.0'') = [2, 10, 0]" by code_simp+
  have none: "e_version_lag (versioned v) = None" for v by (simp add: versioned_def base_envelope_def)
  from version_skew_exact [of "[versioned ''2.9.1'', versioned ''2.10.0'']"] show ?thesis
    by (auto simp: hv ev lt none)
qed

section \<open>Who is shown what, and who is contacted\<close>

lemma scope_all [simp]: "scope_allows None tags"
  by (simp add: scope_allows_def)

lemma summary_scoped:
  "\<exists>f b s'. \<forall>c. fleet_summary fresh c clock now ts fetch s = (scoped_fleet f (g_scope c), b, s')"
proof -
  obtain g built s1 where r: "refresh_fleet (if fresh then None else Some FLEET_CACHE_TTL) clock now ts fetch s = (g, built, s1)"
    by (metis prod.exhaust)
  have "\<exists>v. \<forall>c. fleet_summary fresh c clock now ts fetch s = (scoped_fleet (fst v) (g_scope c), snd v)"
  proof (cases "(\<exists>f. st_cache s = Some f) \<and> \<not> fresh \<and> now - st_cache_ts s < FLEET_CACHE_TTL")
    case True
    then obtain f where "st_cache s = Some f" by blast
    with True show ?thesis by (intro exI [of _ "(f, True, s)"]) (simp add: fleet_summary_def)
  next
    case False
    then show ?thesis
      by (intro exI [of _ "(g, \<not> built, s1)"]) (cases fresh; use r in \<open>auto simp: fleet_summary_def split: option.split\<close>)
  qed
  then show ?thesis by (metis prod.collapse)
qed

text \<open>C26: a scoped login is shown exactly the hosts its tags allow, with a rollup of those alone, and what
  its request leaves behind (the shared snapshot, the stores) does not depend on its scope.\<close>

theorem scoped_view_exact:
  "case fleet_summary fresh c clock now ts fetch s of (f, cached, s') \<Rightarrow>
     case fleet_summary fresh (c\<lparr>g_scope := None\<rparr>) clock now ts fetch s of (whole, cached', s'') \<Rightarrow>
       f_nodes f = filter (\<lambda>x. scope_allows (g_scope c) (e_tags x)) (f_nodes whole) \<and>
       f_rollup f = (if g_scope c = None then f_rollup whole else compute_rollup (f_nodes f)) \<and>
       f_generated_at f = f_generated_at whole \<and> cached' = cached \<and> s'' = s'"
proof -
  obtain f b s' where view: "\<And>c. fleet_summary fresh c clock now ts fetch s = (scoped_fleet f (g_scope c), b, s')"
    using summary_scoped by blast
  show ?thesis unfolding view scoped_fleet_def by (simp add: Let_def)
qed

lemma fan_out_cong:
  "(\<And>n. n \<in> set nodes \<Longrightarrow> \<not> n_disabled n \<Longrightarrow> fetch n = fetch' n) \<Longrightarrow> fan_out fetch nodes = fan_out fetch' nodes"
  by (simp add: fan_out_def)

lemma foldl_cong_in: "(\<And>d n. n \<in> set ns \<Longrightarrow> f d n = g d n) \<Longrightarrow> foldl f d ns = foldl g d ns"
  by (rule foldl_cong) auto

text \<open>A paused host is not contacted: neither a fleet build, nor the poller, nor the certificate sweep
  depends on what it would have answered.\<close>

theorem paused_never_contacted:
  assumes "\<And>n. n \<in> set (fst (expire_pauses clock (st_nodes s))) \<Longrightarrow> \<not> n_disabled n \<Longrightarrow> fetch n = fetch' n"
    and "\<And>n. n \<in> set (st_nodes s) \<Longrightarrow> \<not> n_disabled n \<Longrightarrow> collect n = collect' n \<and> read n = read' n"
  shows "build_fleet clock now ts fetch s = build_fleet clock now ts fetch' s \<and>
    poll_once now collect s = poll_once now collect' s \<and>
    sweep_cert_expiry read (st_nodes s) cache = sweep_cert_expiry read' (st_nodes s) cache"
proof -
  have "fan_out fetch (fst (expire_pauses clock (st_nodes s))) = fan_out fetch' (fst (expire_pauses clock (st_nodes s)))"
    by (rule fan_out_cong) (rule assms(1))
  moreover have "foldl (\<lambda>d n. AList.update (n_id n) \<lparr>po_env = collect n, po_ts = now\<rparr> d) (st_poll s) (polled_nodes s) =
      foldl (\<lambda>d n. AList.update (n_id n) \<lparr>po_env = collect' n, po_ts = now\<rparr> d) (st_poll s) (polled_nodes s)"
    by (rule foldl_cong_in) (use assms(2) in \<open>auto simp: polled_nodes_def\<close>)
  moreover have "foldl (\<lambda>d n. case read n of None \<Rightarrow> d | Some t \<Rightarrow> AList.update (n_id n) t d) cache (sweep_todo (st_nodes s)) =
      foldl (\<lambda>d n. case read' n of None \<Rightarrow> d | Some t \<Rightarrow> AList.update (n_id n) t d) cache (sweep_todo (st_nodes s))"
    by (rule foldl_cong_in) (use assms(2) in \<open>auto simp: sweep_todo_def\<close>)
  ultimately show ?thesis by (simp add: build_fleet_def poll_once_def sweep_cert_expiry_def Let_def)
qed

theorem paused_never_contacted_witness:
  "build_fleet 0 0 ''t'' (\<lambda>n. base_envelope n) (empty_app\<lparr>st_nodes := [(sample_node ''h1'' ''h1'')\<lparr>n_disabled := True\<rparr>]\<rparr>) =
   build_fleet 0 0 ''t'' (\<lambda>n. stale_host) (empty_app\<lparr>st_nodes := [(sample_node ''h1'' ''h1'')\<lparr>n_disabled := True\<rparr>]\<rparr>)"
proof -
  let ?s = "empty_app\<lparr>st_nodes := [(sample_node ''h1'' ''h1'')\<lparr>n_disabled := True\<rparr>]\<rparr>"
  have paused: "list_all n_disabled (fst (expire_pauses 0 (st_nodes ?s)))" by code_simp
  show ?thesis
    using paused_never_contacted [of 0 ?s "\<lambda>n. base_envelope n" "\<lambda>n. stale_host"
        "\<lambda>n. base_envelope n" "\<lambda>n. base_envelope n" "\<lambda>n. None" "\<lambda>n. None" 0 "''t''" "[]"] paused
    by (simp add: list_all_iff)
qed

end
