(* ===== verification/Login.thy ===== *)
theory Login
  imports Access
begin

text \<open>
  Signing in with a password (\<open>app.py\<close>, "Login throttling"): the sliding window of failed attempts,
  the address an attempt is counted under, the login route, logout, and who-am-I. The password
  check (\<open>check_password_hash\<close>) is a parameter. The dash of the throttle message is written as a
  hyphen.
\<close>

section \<open>The window of failed attempts\<close>

datatype fail_key = IpKey string | UserKey string string

type_synonym fails = "(fail_key \<times> rat list) list"

definition LOGIN_WINDOW :: rat where "LOGIN_WINDOW = 900"
definition LOGIN_MAX_PER_USER :: nat where "LOGIN_MAX_PER_USER = 5"
definition LOGIN_MAX_PER_IP :: nat where "LOGIN_MAX_PER_IP = 20"
definition FAILS_SWEEP :: nat where "FAILS_SWEEP = 5000"

definition fails_of :: "fail_key \<Rightarrow> fails \<Rightarrow> rat list" where
  "fails_of k d = (case map_of d k of None \<Rightarrow> [] | Some ts \<Rightarrow> ts)"

definition recent :: "rat \<Rightarrow> rat list \<Rightarrow> rat list" where
  "recent now ts = filter (\<lambda>t. now - t < LOGIN_WINDOW) ts"

definition prune_fails :: "fail_key \<Rightarrow> rat \<Rightarrow> fails \<Rightarrow> rat list \<times> fails" where
  "prune_fails k now d =
     (let ts = recent now (fails_of k d)
      in (ts, if ts \<noteq> [] then AList.update k ts d else AList.delete k d))"

text \<open>The address is looked at first; \<open>or\<close> does not prune the user's key when that decides.\<close>

definition login_throttled :: "string \<Rightarrow> string \<Rightarrow> rat \<Rightarrow> fails \<Rightarrow> bool \<times> fails" where
  "login_throttled ip user now d =
     (let (ts, d1) = prune_fails (IpKey ip) now d
      in if LOGIN_MAX_PER_IP \<le> length ts then (True, d1)
         else let (us, d2) = prune_fails (UserKey ip user) now d1
              in (LOGIN_MAX_PER_USER \<le> length us, d2))"

definition sweep_fails :: "rat \<Rightarrow> fails \<Rightarrow> fails" where
  "sweep_fails now d = (if FAILS_SWEEP < length d
     then foldl (\<lambda>m k. snd (prune_fails k now m)) d (map fst d) else d)"

definition add_fail :: "fail_key \<Rightarrow> rat \<Rightarrow> fails \<Rightarrow> fails" where
  "add_fail k now d = AList.update k (fails_of k d @ [now]) d"

definition login_failed :: "string \<Rightarrow> string \<Rightarrow> rat \<Rightarrow> fails \<Rightarrow> fails" where
  "login_failed ip user now d =
     add_fail (UserKey ip user) now (add_fail (IpKey ip) now (sweep_fails now d))"

definition login_succeeded :: "string \<Rightarrow> string \<Rightarrow> fails \<Rightarrow> fails" where
  "login_succeeded ip user d = AList.delete (UserKey ip user) d"

section \<open>The routes\<close>

text \<open>\<open>_client_ip\<close>: \<open>trusted\<close> is the configured proxy, \<open>peer\<close> the socket's address, \<open>xff\<close> the
  \<open>X-Forwarded-For\<close> header.\<close>

definition client_ip :: "string \<Rightarrow> string option \<Rightarrow> string option \<Rightarrow> string" where
  "client_ip trusted peer xff =
     (let p = (case peer of None \<Rightarrow> ''-'' | Some a \<Rightarrow> if a = [] then ''-'' else a);
          first = strip (takeWhile (\<lambda>c. c \<noteq> CHR '','') (case xff of None \<Rightarrow> [] | Some h \<Rightarrow> h))
      in if trusted \<noteq> [] \<and> p = trusted \<and> first \<noteq> [] then first else p)"

record login_view =
  lv_user :: string
  lv_role :: string
  lv_must_change :: bool

definition login_name :: "json dict \<Rightarrow> string" where
  "login_name data = take 64 (field_str (jget data ''username''))"

definition login_password :: "json dict \<Rightarrow> string" where
  "login_password data = (if truthy (jget data ''password'') then py_str (jget data ''password'') else [])"

text \<open>\<open>api_login\<close> in the two pieces between which it holds no lock: the throttle check at the door, with the reply and the
  audit line (target and status) of a request that is turned away; then the password check and what is noted of
  its result, with the reply, the session cookie and the audit line. The check of the dummy hash for an unknown name
  has no result.\<close>

definition login_enter :: "string \<Rightarrow> json dict \<Rightarrow> rat \<Rightarrow> fails \<Rightarrow> (login_view resp \<times> string \<times> nat) option \<times> fails" where
  "login_enter ip data now d =
     (let user = login_name data; (throttled, d1) = login_throttled ip user now d
      in (if throttled
          then Some (Fail 429 ''Too many failed attempts - try again in a few minutes'', ''login:'' @ user @ '' (throttled)'', 429)
          else None, d1))"

definition login_finish :: "(string \<Rightarrow> string \<Rightarrow> bool) \<Rightarrow> string \<Rightarrow> json dict \<Rightarrow> rat \<Rightarrow> session \<Rightarrow> config \<Rightarrow> fails \<Rightarrow>
    login_view resp \<times> session \<times> (string \<times> nat) \<times> fails" where
  "login_finish check_pw ip data now se cfg d =
     (let user = login_name data; pw = login_password data
      in case map_of (cf_users cfg) user of
           None \<Rightarrow> (Fail 401 ''Invalid credentials'', se, (''login:'' @ user @ '' (failed)'', 401), login_failed ip user now d)
         | Some u \<Rightarrow>
             if \<not> check_pw (u_password u) pw then
               (Fail 401 ''Invalid credentials'', se, (''login:'' @ user @ '' (failed)'', 401), login_failed ip user now d)
             else
               (Done \<lparr>lv_user = user, lv_role = u_role u, lv_must_change = u_must_change u\<rparr>,
                start_session user u, (''login:'' @ user, 200), login_succeeded ip user d))"

text \<open>The whole request, when no other comes in between; threads that interleave are in \<open>LoginThreads\<close>.\<close>

definition api_login :: "(string \<Rightarrow> string \<Rightarrow> bool) \<Rightarrow> string \<Rightarrow> json dict \<Rightarrow> rat \<Rightarrow> session \<Rightarrow> config \<Rightarrow> fails \<Rightarrow>
    login_view resp \<times> session \<times> (string \<times> nat) \<times> fails" where
  "api_login check_pw ip data now se cfg d = (case login_enter ip data now d of
      (Some (r, line), d1) \<Rightarrow> (r, se, line, d1)
    | (None, d1) \<Rightarrow> login_finish check_pw ip data now se cfg d1)"

lemma api_login_regions:
  "api_login check_pw ip data now se cfg d =
     (let user = login_name data; pw = login_password data;
          (throttled, d1) = login_throttled ip user now d
      in if throttled then
           (Fail 429 ''Too many failed attempts - try again in a few minutes'', se,
            (''login:'' @ user @ '' (throttled)'', 429), d1)
         else case map_of (cf_users cfg) user of
             None \<Rightarrow> (Fail 401 ''Invalid credentials'', se, (''login:'' @ user @ '' (failed)'', 401),
               login_failed ip user now d1)
           | Some u \<Rightarrow>
               if \<not> check_pw (u_password u) pw then
                 (Fail 401 ''Invalid credentials'', se, (''login:'' @ user @ '' (failed)'', 401),
                  login_failed ip user now d1)
               else
                 (Done \<lparr>lv_user = user, lv_role = u_role u, lv_must_change = u_must_change u\<rparr>,
                  start_session user u, (''login:'' @ user, 200), login_succeeded ip user d1))"
  by (simp add: api_login_def login_enter_def login_finish_def Let_def split_beta)

definition api_logout :: "session \<Rightarrow> unit resp \<times> session" where
  "api_logout se = (Done (), no_session)"

record me_view =
  me_user :: string
  me_role :: string
  me_scope :: "string set option"
  me_preset :: "string option"
  me_must_change :: bool

text \<open>\<open>api_me\<close> without its single sign-on hint: \<open>Fail 401\<close> stands for the reply
  \<open>authenticated: False\<close>. An empty scope shows as none.\<close>

definition api_me :: "(string \<Rightarrow> string) \<Rightarrow> rat \<Rightarrow> request \<Rightarrow> app \<Rightarrow> me_view resp \<times> app" where
  "api_me token_hash now rq s =
     (case resolve_identity token_hash now rq s of
        (Nobody, s') \<Rightarrow> (Fail 401 [], s')
      | (Login name role tok, s') \<Rightarrow>
          if name = [] then (Fail 401 [], s')
          else
            let rec = map_of (cf_users (st_cfg s')) name;
                scope = user_scope rec role (cf_presets (st_cfg s'))
            in (Done \<lparr>me_user = name, me_role = role,
                  me_scope = (if scope = Some {} then None else scope),
                  me_preset = (case rec of None \<Rightarrow> None | Some u \<Rightarrow> u_scope_preset u),
                  me_must_change = (case rec of None \<Rightarrow> False | Some u \<Rightarrow> u_must_change u)\<rparr>, s'))"

end
