(* ===== verification/LoginFacts.thy ===== *)
theory LoginFacts
  imports Login
begin

text \<open>
  What the login throttle promises: the table refines the log of attempts it stands for, the
  failures one address can make in any window are bounded, a lockout ends, and a session starts
  only on the right password.
\<close>

section \<open>Attempts and their log\<close>

record attempt =
  at_ip :: string
  at_user :: string
  at_time :: rat
  at_good :: bool

text \<open>What a login does to the table.\<close>

definition attempt_step :: "fails \<Rightarrow> attempt \<Rightarrow> fails" where
  "attempt_step d a =
     (let (throttled, d1) = login_throttled (at_ip a) (at_user a) (at_time a) d
      in if throttled then d1
         else if at_good a then login_succeeded (at_ip a) (at_user a) d1
         else login_failed (at_ip a) (at_user a) (at_time a) d1)"

text \<open>The specification: a log of the attempts that were let through, newest first.\<close>

fun since_success :: "string \<Rightarrow> string \<Rightarrow> attempt list \<Rightarrow> attempt list" where
  "since_success ip user [] = []"
| "since_success ip user (a # l) =
     (if at_good a \<and> at_ip a = ip \<and> at_user a = user then [] else a # since_success ip user l)"

fun key_log :: "fail_key \<Rightarrow> attempt list \<Rightarrow> rat list" where
  "key_log (IpKey ip) l = map at_time (filter (\<lambda>a. \<not> at_good a \<and> at_ip a = ip) l)"
| "key_log (UserKey ip user) l =
     map at_time (filter (\<lambda>a. \<not> at_good a \<and> at_ip a = ip \<and> at_user a = user) (since_success ip user l))"

definition spec_throttled :: "attempt list \<Rightarrow> string \<Rightarrow> string \<Rightarrow> rat \<Rightarrow> bool" where
  "spec_throttled l ip user now =
     (LOGIN_MAX_PER_IP \<le> length (recent now (key_log (IpKey ip) l)) \<or>
      LOGIN_MAX_PER_USER \<le> length (recent now (key_log (UserKey ip user) l)))"

definition spec_step :: "attempt list \<Rightarrow> attempt \<Rightarrow> attempt list" where
  "spec_step l a = (if spec_throttled l (at_ip a) (at_user a) (at_time a) then l else a # l)"

section \<open>The table's operations\<close>

lemma recent_mono: "now \<le> now' \<Longrightarrow> recent now' (recent now ts) = recent now' ts"
  by (auto simp: recent_def filter_filter intro!: filter_cong)

lemma recent_append [simp]: "recent now (xs @ ys) = recent now xs @ recent now ys"
  by (simp add: recent_def)

lemma recent_Nil [simp]: "recent now [] = []"
  by (simp add: recent_def)

lemma recent_Cons [simp]: "recent now (t # ts) = (if now - t < LOGIN_WINDOW then t # recent now ts else recent now ts)"
  by (simp add: recent_def)

lemma fails_of_update [simp]: "fails_of k (AList.update j ts d) = (if k = j then ts else fails_of k d)"
  by (simp add: fails_of_def)

lemma fails_of_delete [simp]: "fails_of k (AList.delete j d) = (if k = j then [] else fails_of k d)"
  by (simp add: fails_of_def)

lemma fails_of_prune:
  "fails_of k (snd (prune_fails j now d)) = (if k = j then recent now (fails_of k d) else fails_of k d)"
  by (simp add: prune_fails_def Let_def)

lemma prune_fst: "fst (prune_fails k now d) = recent now (fails_of k d)"
  by (simp add: prune_fails_def Let_def)

text \<open>Pruning at one time is invisible to every question asked later.\<close>

lemma recent_prune: "now \<le> now' \<Longrightarrow> recent now' (fails_of k (snd (prune_fails j now d))) = recent now' (fails_of k d)"
  by (simp add: fails_of_prune recent_mono)

lemma recent_sweep: "now \<le> now' \<Longrightarrow> recent now' (fails_of k (sweep_fails now d)) = recent now' (fails_of k d)"
proof -
  assume le: "now \<le> now'"
  have "recent now' (fails_of k (foldl (\<lambda>m k. snd (prune_fails k now m)) e ks)) = recent now' (fails_of k e)" for ks e
    by (induction ks arbitrary: e) (simp_all add: recent_prune [OF le])
  then show ?thesis by (simp add: sweep_fails_def)
qed

lemma throttled_snd:
  "now \<le> now' \<Longrightarrow> recent now' (fails_of k (snd (login_throttled ip user now d))) = recent now' (fails_of k d)"
  by (simp add: login_throttled_def Let_def split_beta recent_prune)

lemma throttled_fst:
  "fst (login_throttled ip user now d) \<longleftrightarrow>
     LOGIN_MAX_PER_IP \<le> length (recent now (fails_of (IpKey ip) d)) \<or>
     LOGIN_MAX_PER_USER \<le> length (recent now (fails_of (UserKey ip user) d))"
  by (simp add: login_throttled_def Let_def split_beta prune_fst fails_of_prune)

lemma failed_lookup:
  assumes "now \<le> now'"
  shows "recent now' (fails_of k (login_failed ip user now d)) =
    recent now' (fails_of k d) @ (if k = IpKey ip \<or> k = UserKey ip user then recent now' [now] else [])"
  using recent_sweep [OF assms, of k d] by (auto simp: login_failed_def add_fail_def)

section \<open>Refinement\<close>

text \<open>The table stands for a log when every question from \<open>now\<close> on has the same answer.\<close>

definition stands_for :: "rat \<Rightarrow> fails \<Rightarrow> attempt list \<Rightarrow> bool" where
  "stands_for now d l \<longleftrightarrow> (\<forall>now'\<ge>now. \<forall>k. recent now' (fails_of k d) = rev (recent now' (key_log k l)))"

lemma stands_throttled:
  "stands_for now d l \<Longrightarrow> now \<le> now' \<Longrightarrow> fst (login_throttled ip user now' d) = spec_throttled l ip user now'"
  by (simp add: stands_for_def throttled_fst spec_throttled_def)

lemma key_log_good:
  "at_good a \<Longrightarrow> key_log k (a # l) = (if k = UserKey (at_ip a) (at_user a) then [] else key_log k l)"
  by (cases k) auto

lemma key_log_bad:
  "\<not> at_good a \<Longrightarrow> key_log k (a # l) =
     (if k = IpKey (at_ip a) \<or> k = UserKey (at_ip a) (at_user a) then at_time a # key_log k l else key_log k l)"
  by (cases k) auto

lemma stands_step:
  assumes st: "stands_for now d l" and le: "now \<le> at_time a"
  shows "stands_for (at_time a) (attempt_step d a) (spec_step l a)"
proof -
  let ?d = "snd (login_throttled (at_ip a) (at_user a) (at_time a) d)"
  have d: "recent now' (fails_of k ?d) = rev (recent now' (key_log k l))" if "at_time a \<le> now'" for now' k
    using st that le throttled_snd [OF that] by (simp add: stands_for_def)
  consider "spec_throttled l (at_ip a) (at_user a) (at_time a)"
    | "\<not> spec_throttled l (at_ip a) (at_user a) (at_time a)" "at_good a"
    | "\<not> spec_throttled l (at_ip a) (at_user a) (at_time a)" "\<not> at_good a" by blast
  then show ?thesis
  proof cases
    case 1
    then have "attempt_step d a = ?d" "spec_step l a = l"
      using stands_throttled [OF st le] by (simp_all add: attempt_step_def spec_step_def split_beta)
    then show ?thesis using d by (simp add: stands_for_def)
  next
    case 2
    then have "attempt_step d a = login_succeeded (at_ip a) (at_user a) ?d" "spec_step l a = a # l"
      using stands_throttled [OF st le] by (simp_all add: attempt_step_def spec_step_def split_beta)
    then show ?thesis using d 2
      by (auto simp: stands_for_def login_succeeded_def key_log_good simp del: key_log.simps)
  next
    case 3
    then have "attempt_step d a = login_failed (at_ip a) (at_user a) (at_time a) ?d" "spec_step l a = a # l"
      using stands_throttled [OF st le] by (simp_all add: attempt_step_def spec_step_def split_beta)
    then show ?thesis using d 3
      by (auto simp: stands_for_def failed_lookup key_log_bad simp del: key_log.simps)
  qed
qed

definition table_after :: "attempt list \<Rightarrow> fails" where
  "table_after as = foldl attempt_step [] as"

definition log_after :: "attempt list \<Rightarrow> attempt list" where
  "log_after as = foldl spec_step [] as"

lemma stands_run:
  assumes "sorted (map at_time as)" and "\<forall>a\<in>set as. at_time a \<le> now"
  shows "stands_for now (table_after as) (log_after as)"
  using assms
proof (induction as arbitrary: now rule: rev_induct)
  case Nil
  have "key_log k [] = []" for k by (cases k) auto
  then show ?case by (simp add: stands_for_def table_after_def log_after_def fails_of_def)
next
  case (snoc a as)
  then have "stands_for (at_time a) (table_after as) (log_after as)"
    by (intro snoc.IH) (auto simp: sorted_append)
  from stands_step [OF this order.refl] snoc.prems(2)
  have "stands_for (at_time a) (table_after (as @ [a])) (log_after (as @ [a]))" "at_time a \<le> now"
    by (simp_all add: table_after_def log_after_def)
  then show ?case by (auto simp: stands_for_def)
qed

section \<open>The login route as attempts\<close>

record login_call =
  lc_ip :: string
  lc_data :: "json dict"
  lc_time :: rat
  lc_cookie :: session
  lc_cfg :: config

definition attempt_of :: "(string \<Rightarrow> string \<Rightarrow> bool) \<Rightarrow> login_call \<Rightarrow> attempt" where
  "attempt_of check_pw c = \<lparr>at_ip = lc_ip c, at_user = login_name (lc_data c), at_time = lc_time c,
     at_good = (case map_of (cf_users (lc_cfg c)) (login_name (lc_data c)) of None \<Rightarrow> False
       | Some u \<Rightarrow> check_pw (u_password u) (login_password (lc_data c)))\<rparr>"

definition call :: "(string \<Rightarrow> string \<Rightarrow> bool) \<Rightarrow> fails \<Rightarrow> login_call \<Rightarrow> login_view resp \<times> session \<times> (string \<times> nat) \<times> fails" where
  "call check_pw d c = api_login check_pw (lc_ip c) (lc_data c) (lc_time c) (lc_cookie c) (lc_cfg c) d"

fun replies :: "(string \<Rightarrow> string \<Rightarrow> bool) \<Rightarrow> fails \<Rightarrow> login_call list \<Rightarrow> login_view resp list" where
  "replies check_pw d [] = []"
| "replies check_pw d (c # cs) = (case call check_pw d c of (r, se, line, d1) \<Rightarrow> r # replies check_pw d1 cs)"

fun table_of :: "(string \<Rightarrow> string \<Rightarrow> bool) \<Rightarrow> fails \<Rightarrow> login_call list \<Rightarrow> fails" where
  "table_of check_pw d [] = d"
| "table_of check_pw d (c # cs) = (case call check_pw d c of (r, se, line, d1) \<Rightarrow> table_of check_pw d1 cs)"

definition refused :: "login_view resp \<Rightarrow> bool" where
  "refused r = (r = Fail 401 ''Invalid credentials'')"

lemma call_table: "snd (snd (snd (call check_pw d c))) = attempt_step d (attempt_of check_pw c)"
  by (simp add: call_def api_login_regions attempt_of_def attempt_step_def Let_def split_beta split: option.split)

lemma call_refused:
  "refused (fst (call check_pw d c)) \<longleftrightarrow> \<not> at_good (attempt_of check_pw c) \<and>
     \<not> fst (login_throttled (lc_ip c) (login_name (lc_data c)) (lc_time c) d)"
  by (simp add: refused_def call_def api_login_regions attempt_of_def Let_def split_beta split: option.split)

lemma attempt_of_fields [simp]:
  "at_ip (attempt_of p c) = lc_ip c" "at_user (attempt_of p c) = login_name (lc_data c)" "at_time (attempt_of p c) = lc_time c"
  by (simp_all add: attempt_of_def)

lemma table_of_attempts: "table_of p d cs = foldl attempt_step d (map (attempt_of p) cs)"
  by (induction cs arbitrary: d) (simp_all add: split_beta call_table)

text \<open>C27: the login throttle refines its specification: over any sequence of logins at nondecreasing times,
  whatever was pruned or swept in between, an attempt is turned away exactly when the log of attempts
  that were let through holds 20 failures from its address inside the window, or 5 for its address
  and name since their last success.\<close>

theorem throttle_refines_log:
  assumes "sorted (map lc_time cs)" and "\<forall>c\<in>set cs. lc_time c \<le> now"
  shows "fst (login_throttled ip user now (table_of check_pw [] cs)) =
     spec_throttled (log_after (map (attempt_of check_pw) cs)) ip user now"
proof -
  have "sorted (map at_time (map (attempt_of check_pw) cs))" using assms(1) by (simp add: comp_def)
  from stands_run [OF this, of now] assms(2) show ?thesis
    by (intro stands_throttled [where now = now]) (auto simp: table_of_attempts table_after_def)
qed

section \<open>Bounds on guessing\<close>

fun log_ok :: "attempt list \<Rightarrow> bool" where
  "log_ok [] = True"
| "log_ok (a # l) = (\<not> spec_throttled l (at_ip a) (at_user a) (at_time a) \<and> (\<forall>b\<in>set l. at_time b \<le> at_time a) \<and> log_ok l)"

lemma log_after_ok:
  "sorted (map at_time as) \<Longrightarrow> log_ok (log_after as) \<and> set (log_after as) \<subseteq> set as"
proof (induction as rule: rev_induct)
  case (snoc a as)
  then have "log_ok (log_after as)" "set (log_after as) \<subseteq> set as" "\<forall>b\<in>set as. at_time b \<le> at_time a"
    by (auto simp: sorted_append)
  then show ?case by (auto simp: log_after_def spec_step_def)
qed (simp add: log_after_def)

definition in_window :: "rat \<Rightarrow> rat \<Rightarrow> bool" where
  "in_window now t = (now - LOGIN_WINDOW < t \<and> t \<le> now)"

lemma length_filter_mono: "(\<And>x. P x \<Longrightarrow> Q x) \<Longrightarrow> length (filter P xs) \<le> length (filter Q xs)"
  by (induction xs) (auto simp: le_SucI)

text \<open>An entry's own guard bounds every window it closes.\<close>

lemma window_bound:
  assumes "\<And>a l. log_ok (a # l) \<Longrightarrow> sel a \<Longrightarrow> list_all nice l \<Longrightarrow>
      length (recent (at_time a) (map at_time (filter sel l))) < n"
    and "log_ok l" and "list_all nice l"
  shows "length (filter (\<lambda>a. sel a \<and> in_window now (at_time a)) l) \<le> n"
  using assms(2,3)
proof (induction l)
  case (Cons a l)
  show ?case
  proof (cases "sel a \<and> in_window now (at_time a)")
    case True
    then have t: "at_time a \<le> now" by (simp add: in_window_def)
    have "length (filter (\<lambda>b. sel b \<and> in_window now (at_time b)) l) \<le>
        length (filter (\<lambda>b. sel b \<and> at_time a - at_time b < LOGIN_WINDOW) l)"
      by (rule length_filter_mono) (use t in \<open>auto simp: in_window_def\<close>)
    also have "\<dots> = length (recent (at_time a) (map at_time (filter sel l)))"
      by (simp add: recent_def filter_map comp_def conj_commute)
    also have "\<dots> < n" using assms(1) [of a l] Cons.prems True by simp
    finally show ?thesis using True by simp
  qed (use Cons in auto)
qed simp

lemma ip_window:
  assumes "log_ok l"
  shows "length (filter (\<lambda>a. (\<not> at_good a \<and> at_ip a = ip) \<and> in_window now (at_time a)) l) \<le> LOGIN_MAX_PER_IP"
  by (rule window_bound [where nice = "\<lambda>a. True"]) (use assms in \<open>auto simp: spec_throttled_def list_all_iff\<close>)

lemma no_success: "list_all (\<lambda>a. \<not> (at_good a \<and> at_ip a = ip \<and> at_user a = user)) l \<Longrightarrow> since_success ip user l = l"
  by (induction l) auto

lemma user_window:
  assumes "log_ok l" and "list_all (\<lambda>a. \<not> (at_good a \<and> at_ip a = ip \<and> at_user a = user)) l"
  shows "length (filter (\<lambda>a. (\<not> at_good a \<and> at_ip a = ip \<and> at_user a = user) \<and> in_window now (at_time a)) l) \<le> LOGIN_MAX_PER_USER"
  by (rule window_bound [where nice = "\<lambda>a. \<not> (at_good a \<and> at_ip a = ip \<and> at_user a = user)"])
    (use assms in \<open>auto simp: spec_throttled_def no_success\<close>)

text \<open>A refused login is an entry of the log.\<close>

lemma refused_in_log:
  assumes "stands_for t d l" and "sorted (map lc_time cs)" and "\<forall>c\<in>set cs. t \<le> lc_time c"
  shows "length (filter (\<lambda>(c, r). sel (attempt_of p c) \<and> refused r) (zip cs (replies p d cs))) +
      length (filter (\<lambda>a. \<not> at_good a \<and> sel a) l) =
    length (filter (\<lambda>a. \<not> at_good a \<and> sel a) (foldl spec_step l (map (attempt_of p) cs)))"
  using assms
proof (induction cs arbitrary: d l t)
  case (Cons c cs)
  let ?a = "attempt_of p c"
  have st: "stands_for (lc_time c) (attempt_step d ?a) (spec_step l ?a)"
    using stands_step [OF Cons.prems(1), of ?a] Cons.prems(3) by simp
  have "refused (fst (call p d c)) \<longleftrightarrow> \<not> at_good ?a \<and> \<not> spec_throttled l (at_ip ?a) (at_user ?a) (at_time ?a)"
    using stands_throttled [OF Cons.prems(1), of "lc_time c" "lc_ip c" "login_name (lc_data c)"] Cons.prems(3)
    by (simp add: call_refused)
  then show ?case
    using Cons.IH [OF st] Cons.prems(2) by (auto simp: split_beta call_table spec_step_def)
qed simp

text \<open>Logins one after the other: at nondecreasing times, one address
  gets at most 20 wrong passwords answered inside any window of 15 minutes, and at most 5 for one
  name when none of them succeeds, whatever names it tries and whatever the accounts are. (Logins at the same
  time are in \<open>LoginThreads\<close>.)\<close>

theorem serial_guesses_bounded:
  assumes "sorted (map lc_time cs)"
  shows "length (filter (\<lambda>(c, r). (lc_ip c = ip \<and> in_window now (lc_time c)) \<and> refused r)
      (zip cs (replies check_pw [] cs))) \<le> 20 \<and>
    ((\<forall>c\<in>set cs. \<not> (at_good (attempt_of check_pw c) \<and> lc_ip c = ip \<and> login_name (lc_data c) = user)) \<longrightarrow>
     length (filter (\<lambda>(c, r). (lc_ip c = ip \<and> login_name (lc_data c) = user \<and> in_window now (lc_time c)) \<and> refused r)
      (zip cs (replies check_pw [] cs))) \<le> 5)"
proof -
  let ?as = "map (attempt_of check_pw) cs" and ?t = "Min (set (0 # map lc_time cs))"
  have s: "sorted (map at_time ?as)" using assms by (simp add: comp_def)
  note ok = log_after_ok [OF s]
  have t: "stands_for ?t [] []" using stands_run [of "[]"] by (simp add: table_after_def log_after_def)
  note count = refused_in_log [OF t assms, of _ check_pw]
  have le: "\<forall>c\<in>set cs. ?t \<le> lc_time c" by (auto intro: Min_le)
  have "length (filter (\<lambda>(c, r). (lc_ip c = ip \<and> in_window now (lc_time c)) \<and> refused r) (zip cs (replies check_pw [] cs))) \<le> 20"
    using count [OF le, of "\<lambda>a. at_ip a = ip \<and> in_window now (at_time a)"] ip_window [of "log_after ?as" ip now] ok
    by (simp add: log_after_def LOGIN_MAX_PER_IP_def conj_assoc)
  moreover have "length (filter (\<lambda>(c, r). (lc_ip c = ip \<and> login_name (lc_data c) = user \<and> in_window now (lc_time c)) \<and> refused r)
      (zip cs (replies check_pw [] cs))) \<le> 5"
    if "\<forall>c\<in>set cs. \<not> (at_good (attempt_of check_pw c) \<and> lc_ip c = ip \<and> login_name (lc_data c) = user)"
  proof -
    have "list_all (\<lambda>a. \<not> (at_good a \<and> at_ip a = ip \<and> at_user a = user)) (log_after ?as)"
      using ok that by (fastforce simp: list_all_iff)
    from user_window [OF _ this, of now] ok
      count [OF le, of "\<lambda>a. at_ip a = ip \<and> at_user a = user \<and> in_window now (at_time a)"]
    show ?thesis by (simp add: log_after_def LOGIN_MAX_PER_USER_def conj_assoc)
  qed
  ultimately show ?thesis by blast
qed

section \<open>A lockout ends; a session needs the password\<close>

text \<open>A login reaches the password check again once the window has passed since the last attempt.\<close>

theorem lockout_ends:
  assumes "sorted (map lc_time cs)" and "\<forall>c\<in>set cs. lc_time c + LOGIN_WINDOW \<le> lc_time c'"
  shows "fst (call check_pw (table_of check_pw [] cs) c') \<noteq> Fail 429 ''Too many failed attempts - try again in a few minutes''"
proof -
  have s: "sorted (map at_time (map (attempt_of check_pw) cs))" using assms(1) by (simp add: comp_def)
  have late: "\<forall>a\<in>set (map (attempt_of check_pw) cs). at_time a \<le> lc_time c'"
    using assms(2) by (fastforce simp: LOGIN_WINDOW_def)
  have old: "\<forall>t\<in>set (key_log k (log_after (map (attempt_of check_pw) cs))). \<not> lc_time c' - t < LOGIN_WINDOW" for k
  proof
    fix t assume "t \<in> set (key_log k (log_after (map (attempt_of check_pw) cs)))"
    moreover have "set (since_success i u l) \<subseteq> set l" for i u l by (induction l) auto
    ultimately have "t \<in> at_time ` set (log_after (map (attempt_of check_pw) cs))" by (cases k) (auto, blast)
    then show "\<not> lc_time c' - t < LOGIN_WINDOW" using log_after_ok [OF s] assms(2) by force
  qed
  have "\<not> spec_throttled (log_after (map (attempt_of check_pw) cs)) i u (lc_time c')" for i u
    using old by (simp add: spec_throttled_def recent_def LOGIN_MAX_PER_IP_def LOGIN_MAX_PER_USER_def del: key_log.simps)
  then have "\<not> fst (login_throttled i u (lc_time c') (table_of check_pw [] cs))" for i u
    using stands_throttled [OF stands_run [OF s late] order.refl] by (simp add: table_of_attempts table_after_def)
  then show ?thesis by (simp add: call_def api_login_regions Let_def split_beta split: option.split)
qed

text \<open>A login replies with success exactly when it is let through, the name has a login and the
  password matches; the session it starts is then accepted as that login with its role. Otherwise the
  cookie is untouched, and an unknown name and a wrong password get the same reply, audit line and
  table.\<close>

theorem login_session_exact:
  assumes "api_login check_pw ip data now se cfg d = (r, se', line, d')" and "login_name data \<noteq> []"
  shows "(if \<not> fst (login_throttled ip (login_name data) now d) \<and>
        (\<exists>u. map_of (cf_users cfg) (login_name data) = Some u \<and> check_pw (u_password u) (login_password data))
      then is_done r \<and> (\<exists>u. map_of (cf_users cfg) (login_name data) = Some u \<and>
         resolve_session se' cfg = Login (login_name data) (u_role u) None)
      else \<not> is_done r \<and> se' = se \<and>
        (r, line, d') = (let v = api_login (\<lambda>h p. False) ip data now se cfg d in (fst v, fst (snd (snd v)), snd (snd (snd v)))) \<and>
        (r, line, d') = (let v = api_login (\<lambda>h p. False) ip data now se (cfg\<lparr>cf_users := []\<rparr>) d in
           (fst v, fst (snd (snd v)), snd (snd (snd v)))))"
  using assms
  by (cases "map_of (cf_users cfg) (login_name data)")
    (auto simp: api_login_regions Let_def split_beta resolve_session_def start_session_def split: if_splits)

section \<open>At concrete inputs\<close>

definition demo_call :: "rat \<Rightarrow> login_call" where
  "demo_call t = \<lparr>lc_ip = ''10.0.0.9'', lc_data = [(''username'', JStr ''amy''), (''password'', JStr ''guess'')],
     lc_time = t, lc_cookie = no_session, lc_cfg = empty_config\<rparr>"

definition demo_calls :: "login_call list" where
  "demo_calls = map demo_call [0, 1, 2, 3, 4, 5]"

lemma demo_calls_sorted: "sorted (map lc_time demo_calls)" "\<forall>c\<in>set demo_calls. lc_time c \<le> 6"
  by (simp_all add: demo_calls_def demo_call_def)

theorem throttle_refines_log_witness:
  "fst (login_throttled ''10.0.0.9'' ''amy'' 6 (table_of (\<lambda>h p. False) [] demo_calls))"
proof -
  have "spec_throttled (log_after (map (attempt_of (\<lambda>h p. False)) demo_calls)) ''10.0.0.9'' ''amy'' 6" by code_simp
  then show ?thesis using throttle_refines_log [OF demo_calls_sorted, of "''10.0.0.9''" "''amy''" "\<lambda>h p. False"] by simp
qed

theorem serial_guesses_bounded_witness:
  "length (filter (\<lambda>(c, r). (lc_ip c = ''10.0.0.9'' \<and> login_name (lc_data c) = ''amy'' \<and> in_window 6 (lc_time c)) \<and> refused r)
      (zip demo_calls (replies (\<lambda>h p. False) [] demo_calls))) = 5"
proof -
  have "\<not> at_good (attempt_of (\<lambda>h p. False) c)" for c by (simp add: attempt_of_def split: option.split)
  then have "length (filter (\<lambda>(c, r). (lc_ip c = ''10.0.0.9'' \<and> login_name (lc_data c) = ''amy'' \<and> in_window 6 (lc_time c)) \<and> refused r)
      (zip demo_calls (replies (\<lambda>h p. False) [] demo_calls))) \<le> 5"
    using serial_guesses_bounded [OF demo_calls_sorted(1), of "''10.0.0.9''" 6 "\<lambda>h p. False" "''amy''"] by simp
  moreover have "\<not> length (filter (\<lambda>(c, r). (lc_ip c = ''10.0.0.9'' \<and> login_name (lc_data c) = ''amy'' \<and> in_window 6 (lc_time c)) \<and> refused r)
      (zip demo_calls (replies (\<lambda>h p. False) [] demo_calls))) \<le> 4" by code_simp
  ultimately show ?thesis by linarith
qed

theorem lockout_ends_witness:
  "fst (call (\<lambda>h p. False) (table_of (\<lambda>h p. False) [] demo_calls) (demo_call 905)) = Fail 401 ''Invalid credentials''"
proof -
  have late: "\<forall>c\<in>set demo_calls. lc_time c + LOGIN_WINDOW \<le> lc_time (demo_call 905)"
    by (simp add: demo_calls_def demo_call_def LOGIN_WINDOW_def)
  show ?thesis using lockout_ends [OF demo_calls_sorted(1) late, of "\<lambda>h p. False"]
    by (simp add: call_def api_login_regions Let_def split_beta demo_call_def empty_config_def split: if_splits)
qed

definition amy_cfg :: config where
  "amy_cfg = empty_config\<lparr>cf_users := [(''amy'', \<lparr>u_password = ''hash'', u_role = ''viewer'', u_must_change = False,
     u_tags = [], u_scope_preset = None, u_session_gen = 3\<rparr>)]\<rparr>"

theorem login_session_exact_witness:
  "\<exists>se. fst (snd (api_login (\<lambda>h p. h = ''hash'') ''10.0.0.9'' [(''username'', JStr ''amy'')] 0 no_session amy_cfg [])) = se \<and>
     resolve_session se amy_cfg = Login ''amy'' ''viewer'' None"
proof -
  let ?v = "api_login (\<lambda>h p. h = ''hash'') ''10.0.0.9'' [(''username'', JStr ''amy'')] 0 no_session amy_cfg []"
  have name: "login_name [(''username'', JStr ''amy'')] = ''amy''" by code_simp
  have free: "\<not> fst (login_throttled ''10.0.0.9'' ''amy'' 0 [])" by code_simp
  have "?v = (fst ?v, fst (snd ?v), fst (snd (snd ?v)), snd (snd (snd ?v)))" by simp
  from login_session_exact [OF this] free show ?thesis by (simp add: name amy_cfg_def)
qed

end
