(* ===== verification/LoginThreads.thy ===== *)
theory LoginThreads
  imports LoginFacts
begin

text \<open>
  Logins in several threads (\<open>api_login\<close> under the threaded server of \<open>main\<close>): the throttle check and the note of the
  result are two regions of \<open>_login_lock\<close>, and the password check between them holds no lock. A step is one region; threads
  interleave at will. What the throttle still promises then: the failures of one address or name in any window are
  bounded by its limit and the number of threads.
\<close>

section \<open>Threads\<close>

text \<open>The table, the clock, the request each thread is checking the password of, and the answers so far, oldest first,
  with the time each was decided at.\<close>

record login_world =
  lw_table :: fails
  lw_clock :: rat
  lw_threads :: "nat \<Rightarrow> login_call option"
  lw_answers :: "(login_call \<times> rat \<times> login_view resp) list"

definition no_logins :: login_world where
  "no_logins = \<lparr>lw_table = [], lw_clock = 0, lw_threads = \<lambda>t. None, lw_answers = []\<rparr>"

text \<open>\<open>n\<close> threads (\<open>CONTROLLER_THREADS\<close>) and a clock that does not go back. A request comes with what the thread will
  read of it: the cookie and the accounts.\<close>

inductive login_step :: "(string \<Rightarrow> string \<Rightarrow> bool) \<Rightarrow> nat \<Rightarrow> login_world \<Rightarrow> login_world \<Rightarrow> bool"
  for check_pw :: "string \<Rightarrow> string \<Rightarrow> bool" and n :: nat where
  turned_away: "t < n \<Longrightarrow> lw_threads w t = None \<Longrightarrow> lw_clock w \<le> now \<Longrightarrow>
    login_enter (lc_ip c) (lc_data c) now (lw_table w) = (Some (r, line), d) \<Longrightarrow>
    login_step check_pw n w (w\<lparr>lw_table := d, lw_clock := now, lw_answers := lw_answers w @ [(c, now, r)]\<rparr>)"
| let_in: "t < n \<Longrightarrow> lw_threads w t = None \<Longrightarrow> lw_clock w \<le> now \<Longrightarrow>
    login_enter (lc_ip c) (lc_data c) now (lw_table w) = (None, d) \<Longrightarrow>
    login_step check_pw n w (w\<lparr>lw_table := d, lw_clock := now, lw_threads := (lw_threads w)(t := Some c)\<rparr>)"
| decided: "t < n \<Longrightarrow> lw_threads w t = Some c \<Longrightarrow> lw_clock w \<le> now \<Longrightarrow>
    login_finish check_pw (lc_ip c) (lc_data c) now (lc_cookie c) (lc_cfg c) (lw_table w) = (r, se, line, d) \<Longrightarrow>
    login_step check_pw n w (w\<lparr>lw_table := d, lw_clock := now, lw_threads := (lw_threads w)(t := None),
      lw_answers := lw_answers w @ [(c, now, r)]\<rparr>)"

inductive_cases login_step_E: "login_step check_pw n w w'"

section \<open>What a region does to one key\<close>

definition counts :: "fail_key \<Rightarrow> login_call \<Rightarrow> bool" where
  "counts k c \<longleftrightarrow> k = IpKey (lc_ip c) \<or> k = UserKey (lc_ip c) (login_name (lc_data c))"

definition limit :: "fail_key \<Rightarrow> nat" where
  "limit k = (case k of IpKey ip \<Rightarrow> LOGIN_MAX_PER_IP | UserKey ip user \<Rightarrow> LOGIN_MAX_PER_USER)"

text \<open>The times of the wrong passwords answered so far that count for a key, and whether a login of its name succeeded.\<close>

definition wrong :: "fail_key \<Rightarrow> (login_call \<times> rat \<times> login_view resp) list \<Rightarrow> rat list" where
  "wrong k as = map (\<lambda>(c, t, r). t) (filter (\<lambda>(c, t, r). counts k c \<and> refused r) as)"

definition spared :: "fail_key \<Rightarrow> (login_call \<times> rat \<times> login_view resp) list \<Rightarrow> bool" where
  "spared k as \<longleftrightarrow> (\<forall>(c, t, r)\<in>set as. is_done r \<longrightarrow> k \<noteq> UserKey (lc_ip c) (login_name (lc_data c)))"

definition busy :: "nat \<Rightarrow> fail_key \<Rightarrow> (nat \<Rightarrow> login_call option) \<Rightarrow> nat" where
  "busy n k ths = card {t. t < n \<and> (\<exists>c. ths t = Some c \<and> counts k c)}"

lemma wrong_append [simp]: "wrong k (as @ bs) = wrong k as @ wrong k bs"
  by (simp add: wrong_def)

lemma wrong_one [simp]: "wrong k [(c, t, r)] = (if counts k c \<and> refused r then [t] else [])"
  by (simp add: wrong_def)

lemma wrong_Nil [simp]: "wrong k [] = []"
  by (simp add: wrong_def)

lemma spared_append [simp]: "spared k (as @ bs) \<longleftrightarrow> spared k as \<and> spared k bs"
  unfolding spared_def set_append ball_Un by (rule refl)

lemma busy_le: "busy n k ths \<le> n"
proof -
  have "busy n k ths \<le> card {t. t < n}"
    unfolding busy_def by (rule card_mono) auto
  then show ?thesis by simp
qed

lemma busy_other: "\<not> counts k c \<Longrightarrow> ths t = None \<Longrightarrow> busy n k (ths(t := Some c)) = busy n k ths"
  unfolding busy_def by (rule arg_cong [where f = card]) auto

lemma busy_done:
  assumes "ths t = Some c" and "t < n"
  shows "busy n k ths = busy n k (ths(t := None)) + (if counts k c then 1 else 0)"
proof (cases "counts k c")
  case True
  let ?B = "{t. t < n \<and> (\<exists>c. ths t = Some c \<and> counts k c)}"
  have "{u. u < n \<and> (\<exists>c. (ths(t := None)) u = Some c \<and> counts k c)} = ?B - {t}"
    by auto
  moreover have "t \<in> ?B" "finite ?B"
    using assms True by auto
  ultimately show ?thesis
    using True card_Suc_Diff1 [of ?B t] by (simp add: busy_def)
next
  case False
  then have "{u. u < n \<and> (\<exists>c. (ths(t := None)) u = Some c \<and> counts k c)} = {u. u < n \<and> (\<exists>c. ths u = Some c \<and> counts k c)}"
    using assms by auto
  then show ?thesis using False by (simp add: busy_def)
qed

lemma enter_table:
  assumes "login_enter ip data now d = (x, d')" and "now \<le> now'"
  shows "recent now' (fails_of k d') = recent now' (fails_of k d)"
  using assms throttled_snd [OF assms(2), of k ip "login_name data" d]
  by (auto simp: login_enter_def Let_def split: prod.splits)

lemma enter_free:
  assumes "login_enter (lc_ip c) (lc_data c) now d = (None, d')" and "counts k c"
  shows "length (recent now (fails_of k d)) < limit k"
proof -
  have "\<not> fst (login_throttled (lc_ip c) (login_name (lc_data c)) now d)"
    using assms(1) by (auto simp: login_enter_def Let_def split: prod.splits if_splits)
  then show ?thesis
    using assms(2) by (auto simp: throttled_fst counts_def limit_def)
qed

lemma enter_not_refused: "login_enter ip data now d = (Some (r, line), d') \<Longrightarrow> \<not> refused r \<and> \<not> is_done r"
  by (auto simp: login_enter_def refused_def Let_def split: prod.splits if_splits)

lemma finish_table:
  assumes "login_finish p (lc_ip c) (lc_data c) now se cfg d = (r, se', line, d')" and "now \<le> now'"
    and "is_done r \<Longrightarrow> k \<noteq> UserKey (lc_ip c) (login_name (lc_data c))"
  shows "recent now' (fails_of k d') = recent now' (fails_of k d) @ (if counts k c \<and> refused r then recent now' [now] else [])"
  using assms failed_lookup [OF assms(2), of k "lc_ip c" "login_name (lc_data c)" d]
  by (auto simp: login_finish_def refused_def counts_def login_succeeded_def Let_def split: option.splits if_splits)

section \<open>The invariant\<close>

text \<open>For a key none of whose logins succeeded: the table holds the recent wrong answers; a window that is still open
  has room for those that are being checked; and no window holds more than the limit and the threads allow.\<close>

definition open_room :: "nat \<Rightarrow> fail_key \<Rightarrow> login_world \<Rightarrow> bool" where
  "open_room n k w \<longleftrightarrow> (\<forall>a. lw_clock w \<le> a + LOGIN_WINDOW \<longrightarrow>
     length (filter (\<lambda>t. a < t) (wrong k (lw_answers w))) + busy n k (lw_threads w) < limit k + n)"

definition windows_ok :: "nat \<Rightarrow> fail_key \<Rightarrow> login_world \<Rightarrow> bool" where
  "windows_ok n k w \<longleftrightarrow> (\<forall>a. length (filter (\<lambda>t. a < t \<and> t \<le> a + LOGIN_WINDOW) (wrong k (lw_answers w))) < limit k + n)"

definition mirrors :: "fail_key \<Rightarrow> login_world \<Rightarrow> bool" where
  "mirrors k w \<longleftrightarrow> (\<forall>now\<ge>lw_clock w. recent now (fails_of k (lw_table w)) = recent now (wrong k (lw_answers w)))"

definition threads_ok :: "nat \<Rightarrow> fail_key \<Rightarrow> login_world \<Rightarrow> bool" where
  "threads_ok n k w \<longleftrightarrow> (\<forall>t\<in>set (wrong k (lw_answers w)). t \<le> lw_clock w) \<and>
     (spared k (lw_answers w) \<longrightarrow> mirrors k w \<and> open_room n k w \<and> windows_ok n k w)"

lemma limit_pos: "0 < limit k"
  by (cases k) (simp_all add: limit_def LOGIN_MAX_PER_IP_def LOGIN_MAX_PER_USER_def)

lemma room_when_free:
  assumes "mirrors k w" and "\<forall>t\<in>set (wrong k (lw_answers w)). t \<le> lw_clock w"
    and "lw_clock w \<le> now" and "length (recent now (fails_of k (lw_table w))) < limit k" and "now \<le> a + LOGIN_WINDOW"
  shows "length (filter (\<lambda>t. a < t) (wrong k (lw_answers w))) < limit k"
proof -
  have "length (filter (\<lambda>t. a < t) (wrong k (lw_answers w))) \<le> length (recent now (wrong k (lw_answers w)))"
    unfolding recent_def by (rule length_filter_mono) (use assms(5) in auto)
  also have "\<dots> = length (recent now (fails_of k (lw_table w)))"
    using assms(1,3) by (simp add: mirrors_def)
  finally show ?thesis using assms(4) by linarith
qed

lemma threads_ok_enter:
  assumes "threads_ok n k w" and "lw_clock w \<le> now"
    and "login_enter (lc_ip c) (lc_data c) now (lw_table w) = (None, d)" and "lw_threads w t = None"
  shows "threads_ok n k (w\<lparr>lw_table := d, lw_clock := now, lw_threads := (lw_threads w)(t := Some c)\<rparr>)" (is "threads_ok n k ?w")
proof -
  have times: "\<forall>t\<in>set (wrong k (lw_answers w)). t \<le> lw_clock w"
    using assms(1) by (simp add: threads_ok_def)
  moreover have "mirrors k ?w \<and> open_room n k ?w \<and> windows_ok n k ?w" if "spared k (lw_answers w)"
  proof (intro conjI)
    have old: "mirrors k w" "open_room n k w" "windows_ok n k w"
      using assms(1) that by (simp_all add: threads_ok_def)
    then show "mirrors k ?w" "windows_ok n k ?w"
      using assms(2) enter_table [OF assms(3)] by (simp_all add: mirrors_def windows_ok_def)
    show "open_room n k ?w"
    proof (cases "counts k c")
      case True
      show ?thesis
        unfolding open_room_def
      proof (intro allI impI)
        fix a assume "lw_clock ?w \<le> a + LOGIN_WINDOW"
        then have "length (filter (\<lambda>t. a < t) (wrong k (lw_answers w))) < limit k"
          using room_when_free [OF old(1) times assms(2) enter_free [OF assms(3) True]] by simp
        then show "length (filter (\<lambda>t. a < t) (wrong k (lw_answers ?w))) + busy n k (lw_threads ?w) < limit k + n"
          using busy_le [of n k "(lw_threads w)(t := Some c)"] by simp
      qed
    next
      case False
      then show ?thesis
        using old(2) assms(2,4) order_trans by (fastforce simp: open_room_def busy_other)
    qed
  qed
  ultimately show ?thesis using assms(2) by (fastforce simp: threads_ok_def)
qed

lemma threads_ok_away:
  assumes "threads_ok n k w" and "lw_clock w \<le> now"
    and "login_enter (lc_ip c) (lc_data c) now (lw_table w) = (Some (r, line), d)"
  shows "threads_ok n k (w\<lparr>lw_table := d, lw_clock := now, lw_answers := lw_answers w @ [(c, now, r)]\<rparr>)"
  using assms(1,2) enter_table [OF assms(3)] enter_not_refused [OF assms(3)] order_trans [OF assms(2)]
  by (fastforce simp: threads_ok_def mirrors_def open_room_def windows_ok_def)

lemma threads_ok_decided:
  assumes "threads_ok n k w" and "lw_clock w \<le> now" and "lw_threads w t = Some c" and "t < n"
    and "login_finish p (lc_ip c) (lc_data c) now (lc_cookie c) (lc_cfg c) (lw_table w) = (r, se, line, d)"
  shows "threads_ok n k (w\<lparr>lw_table := d, lw_clock := now, lw_threads := (lw_threads w)(t := None),
      lw_answers := lw_answers w @ [(c, now, r)]\<rparr>)" (is "threads_ok n k ?w")
proof -
  let ?new = "if counts k c \<and> refused r then [now] else []"
  have times: "\<forall>t\<in>set (wrong k (lw_answers w)). t \<le> lw_clock w"
    using assms(1) by (simp add: threads_ok_def)
  have "mirrors k ?w \<and> open_room n k ?w \<and> windows_ok n k ?w" if spared: "spared k (lw_answers ?w)"
  proof (intro conjI)
    have old: "mirrors k w" "open_room n k w" "windows_ok n k w"
      using assms(1) spared by (simp_all add: threads_ok_def)
    have "is_done r \<Longrightarrow> k \<noteq> UserKey (lc_ip c) (login_name (lc_data c))"
      using spared by (simp add: spared_def)
    then show "mirrors k ?w"
      using old(1) assms(2) finish_table [OF assms(5), of _ k] by (auto simp: mirrors_def)
    have room: "length (filter (\<lambda>t. a < t) (wrong k (lw_answers w) @ ?new)) + busy n k ((lw_threads w)(t := None)) < limit k + n"
      if "now \<le> a + LOGIN_WINDOW" for a
    proof -
      have "length (filter (\<lambda>t. a < t) (wrong k (lw_answers w))) + busy n k (lw_threads w) < limit k + n"
        using old(2) that assms(2) by (auto simp: open_room_def)
      then show ?thesis
        using busy_done [where ths = "lw_threads w" and k = k, OF assms(3,4)] by (auto split: if_splits)
    qed
    then show "open_room n k ?w"
      by (simp add: open_room_def)
    show "windows_ok n k ?w"
      unfolding windows_ok_def
    proof
      fix a
      show "length (filter (\<lambda>t. a < t \<and> t \<le> a + LOGIN_WINDOW) (wrong k (lw_answers ?w))) < limit k + n"
      proof (cases "now \<le> a + LOGIN_WINDOW")
        case True
        have "length (filter (\<lambda>t. a < t \<and> t \<le> a + LOGIN_WINDOW) (wrong k (lw_answers ?w))) \<le>
            length (filter (\<lambda>t. a < t) (wrong k (lw_answers w) @ ?new))"
          by (rule order_trans [OF length_filter_mono [where Q = "\<lambda>t. a < t"]]) auto
        then show ?thesis using room [OF True] by linarith
      next
        case False
        then show ?thesis using old(3) by (simp add: windows_ok_def)
      qed
    qed
  qed
  then show ?thesis
    using times assms(2) by (fastforce simp: threads_ok_def)
qed

lemma threads_ok_start: "threads_ok n k no_logins"
proof -
  have "busy n k (\<lambda>t. None) = 0" by (simp add: busy_def)
  then show ?thesis
    using limit_pos [of k]
    by (simp add: threads_ok_def mirrors_def open_room_def windows_ok_def no_logins_def fails_of_def)
qed

lemma threads_ok_run:
  assumes "(login_step check_pw n)\<^sup>*\<^sup>* no_logins w"
  shows "threads_ok n k w"
  using assms
proof (induction rule: rtranclp_induct)
  case (step y z)
  from step.hyps(2) step.IH show ?case
    by (auto elim!: login_step_E intro: threads_ok_enter threads_ok_away threads_ok_decided)
qed (rule threads_ok_start)

section \<open>Guessing\<close>

text \<open>C28: Password guessing is bounded, also when requests are handled at the same time: with \<open>n\<close> threads, however their
  regions interleave, one address is told of a wrong password at most \<open>19 + n\<close> times in any window of 15 minutes (20 for a single
  thread), and at most \<open>4 + n\<close> times for one name, while no login of that address and name succeeds (a success
  forgets its failures), whatever names it tries and whatever the accounts are. The clock does not go back.\<close>

theorem guesses_bounded:
  assumes "(login_step check_pw n)\<^sup>*\<^sup>* no_logins w"
  shows "length (filter (\<lambda>(c, t, r). (lc_ip c = ip \<and> in_window now t) \<and> refused r) (lw_answers w)) < 20 + n \<and>
    ((\<forall>(c, t, r)\<in>set (lw_answers w). \<not> (is_done r \<and> lc_ip c = ip \<and> login_name (lc_data c) = user)) \<longrightarrow>
     length (filter (\<lambda>(c, t, r). (lc_ip c = ip \<and> login_name (lc_data c) = user \<and> in_window now t) \<and> refused r)
       (lw_answers w)) < 5 + n)"
proof -
  have key: "length (filter (\<lambda>(c, t, r). (counts k c \<and> in_window now t) \<and> refused r) (lw_answers w)) < limit k + n"
    if "spared k (lw_answers w)" for k
  proof -
    have "length (filter (\<lambda>t. now - LOGIN_WINDOW < t \<and> t \<le> now) (wrong k (lw_answers w))) < limit k + n"
      using threads_ok_run [OF assms, of k] that by (auto simp: threads_ok_def windows_ok_def dest: spec [of _ "now - LOGIN_WINDOW"])
    then show ?thesis
      by (simp add: wrong_def filter_map comp_def split_def in_window_def conj_ac)
  qed
  have "length (filter (\<lambda>(c, t, r). (lc_ip c = ip \<and> in_window now t) \<and> refused r) (lw_answers w)) < 20 + n"
    using key [of "IpKey ip"] by (simp add: counts_def spared_def limit_def LOGIN_MAX_PER_IP_def eq_commute [of ip])
  moreover have "length (filter (\<lambda>(c, t, r). (lc_ip c = ip \<and> login_name (lc_data c) = user \<and> in_window now t) \<and> refused r)
      (lw_answers w)) < 5 + n"
    if "\<forall>(c, t, r)\<in>set (lw_answers w). \<not> (is_done r \<and> lc_ip c = ip \<and> login_name (lc_data c) = user)"
  proof -
    have "spared (UserKey ip user) (lw_answers w)"
      using that by (auto simp: spared_def)
    then show ?thesis
      using key [of "UserKey ip user"]
      by (simp add: counts_def limit_def LOGIN_MAX_PER_USER_def eq_commute [of ip] eq_commute [of user] conj_assoc)
  qed
  ultimately show ?thesis by blast
qed

section \<open>The threads do add\<close>

text \<open>Requests that are all let in before one is decided.\<close>

definition waiting :: "nat \<Rightarrow> login_world" where
  "waiting k = no_logins\<lparr>lw_threads := \<lambda>t. if t < k then Some (demo_call 0) else None\<rparr>"

lemma enter_empty: "login_enter ip data now [] = (None, [])"
  by (simp add: login_enter_def login_throttled_def prune_fails_def fails_of_def Let_def LOGIN_MAX_PER_IP_def LOGIN_MAX_PER_USER_def)

lemma waiting_run: "k \<le> n \<Longrightarrow> (login_step p n)\<^sup>*\<^sup>* no_logins (waiting k)"
proof (induction k)
  case (Suc k)
  have "login_step p n (waiting k) ((waiting k)\<lparr>lw_table := [], lw_clock := 0, lw_threads := (lw_threads (waiting k))(k := Some (demo_call 0))\<rparr>)"
    by (rule let_in) (use Suc.prems enter_empty in \<open>auto simp: waiting_def no_logins_def\<close>)
  also have "(waiting k)\<lparr>lw_table := [], lw_clock := 0, lw_threads := (lw_threads (waiting k))(k := Some (demo_call 0))\<rparr> = waiting (Suc k)"
    by (auto simp: waiting_def no_logins_def less_Suc_eq)
  finally show ?case
    using Suc by (meson Suc_leD rtranclp.rtrancl_into_rtrancl)
qed (simp add: waiting_def no_logins_def)

lemma decide_all:
  "k \<le> n \<Longrightarrow> \<exists>w. (login_step p n)\<^sup>*\<^sup>* (waiting n) w \<and> lw_clock w = 0 \<and>
     (\<forall>t. k \<le> t \<and> t < n \<longrightarrow> lw_threads w t = Some (demo_call 0)) \<and>
     lw_answers w = replicate k (demo_call 0, 0, Fail 401 ''Invalid credentials'')"
proof (induction k)
  case 0
  show ?case by (rule exI [of _ "waiting n"]) (simp add: waiting_def no_logins_def)
next
  case (Suc k)
  then obtain w where w: "(login_step p n)\<^sup>*\<^sup>* (waiting n) w" "lw_clock w = 0"
      "\<forall>t. k \<le> t \<and> t < n \<longrightarrow> lw_threads w t = Some (demo_call 0)"
      "lw_answers w = replicate k (demo_call 0, 0, Fail 401 ''Invalid credentials'')"
    by auto
  let ?c = "demo_call 0"
  obtain se line d where f: "login_finish p (lc_ip ?c) (lc_data ?c) 0 (lc_cookie ?c) (lc_cfg ?c) (lw_table w) =
      (Fail 401 ''Invalid credentials'', se, line, d)"
    by (simp add: login_finish_def demo_call_def empty_config_def Let_def)
  have "login_step p n w (w\<lparr>lw_table := d, lw_clock := 0, lw_threads := (lw_threads w)(k := None),
      lw_answers := lw_answers w @ [(?c, 0, Fail 401 ''Invalid credentials'')]\<rparr>)"
    by (rule decided [OF _ _ _ f]) (use w Suc.prems in auto)
  then show ?case
    using w by (intro exI conjI) (erule rtranclp.rtrancl_into_rtrancl [OF w(1)], auto simp: replicate_append_same)
qed

text \<open>The two regions are not one: \<open>n\<close> threads that are let in together are all told of a wrong password for one name, in
  the same window, however low the limit of 5.\<close>

theorem concurrent_guesses:
  "\<exists>w. (login_step check_pw n)\<^sup>*\<^sup>* no_logins w \<and>
     length (filter (\<lambda>(c, t, r). (lc_ip c = ''10.0.0.9'' \<and> login_name (lc_data c) = ''amy'' \<and> in_window 0 t) \<and> refused r) (lw_answers w)) = n"
proof -
  obtain w where w: "(login_step check_pw n)\<^sup>*\<^sup>* (waiting n) w" "lw_answers w = replicate n (demo_call 0, 0, Fail 401 ''Invalid credentials'')"
    using decide_all [of n n check_pw] by auto
  have "lc_ip (demo_call 0) = ''10.0.0.9''" "login_name (lc_data (demo_call 0)) = ''amy''" "in_window 0 0"
    by code_simp+
  then have "length (filter (\<lambda>(c, t, r). (lc_ip c = ''10.0.0.9'' \<and> login_name (lc_data c) = ''amy'' \<and> in_window 0 t) \<and> refused r) (lw_answers w)) = n"
    unfolding w(2) by (simp add: refused_def)
  moreover have "(login_step check_pw n)\<^sup>*\<^sup>* no_logins w"
    using waiting_run [of n n] w(1) by (rule rtranclp_trans) simp
  ultimately show ?thesis
    by blast
qed

theorem guesses_bounded_witness:
  "\<exists>w. (login_step (\<lambda>h p. False) 16)\<^sup>*\<^sup>* no_logins w \<and> length (lw_answers w) = 16 \<and>
     length (filter (\<lambda>(c, t, r). (lc_ip c = ''10.0.0.9'' \<and> in_window 0 t) \<and> refused r) (lw_answers w)) < 36"
proof -
  obtain w where w: "(login_step (\<lambda>h p. False) 16)\<^sup>*\<^sup>* (waiting 16) w"
      "lw_answers w = replicate 16 (demo_call 0, 0, Fail 401 ''Invalid credentials'')"
    using decide_all [of 16 16 "\<lambda>h p. False"] by auto
  have run: "(login_step (\<lambda>h p. False) 16)\<^sup>*\<^sup>* no_logins w"
    using waiting_run [of 16 16] w(1) by (rule rtranclp_trans) simp
  have "length (lw_answers w) = 16"
    by (simp only: w(2) length_replicate)
  moreover have "length (filter (\<lambda>(c, t, r). (lc_ip c = ''10.0.0.9'' \<and> in_window 0 t) \<and> refused r) (lw_answers w)) < 20 + 16"
    by (rule guesses_bounded [OF run, THEN conjunct1])
  ultimately show ?thesis
    using run by (intro exI [of _ w]) simp
qed

end
