(* ===== verification/Ed25519.thy ===== *)
theory Ed25519
  imports Main "HOL-Library.Word" "HOL-Library.Power_By_Squaring"
begin

text \<open>
  The signature verifier of the single sign-on (\<open>ed25519.py\<close>): arithmetic modulo the field prime on
  unbounded integers, points in extended coordinates as 4-tuples, byte strings as lists of 8-bit
  words. SHA-512 (\<open>hashlib\<close>) is a parameter.
\<close>

type_synonym bytes = "8 word list"
type_synonym point = "int \<times> int \<times> int \<times> int"

definition field_P :: int where "field_P = 2 ^ 255 - 19"
definition group_Q :: int where "group_Q = 2 ^ 252 + 27742317777372353535851937790883648493"

text \<open>\<open>pow(x, e, _P)\<close>, by repeated squaring as the built-in does.\<close>

definition mul_mod :: "int \<Rightarrow> int \<Rightarrow> int" where
  "mul_mod a b = a * b mod field_P"

definition pow_mod :: "int \<Rightarrow> nat \<Rightarrow> int" where
  "pow_mod x e = efficient_funpow mul_mod 1 x e"

definition modp_inv :: "int \<Rightarrow> int" where
  "modp_inv x = pow_mod x (nat (field_P - 2))"

definition curve_D :: int where
  "curve_D = - 121665 * modp_inv 121666 mod field_P"

definition SQRT_M1 :: int where
  "SQRT_M1 = pow_mod 2 (nat ((field_P - 1) div 4))"

text \<open>\<open>int.from_bytes(b, 'little')\<close>.\<close>

definition int_le :: "bytes \<Rightarrow> int" where
  "int_le bs = foldr (\<lambda>b acc. uint b + 256 * acc) bs 0"

definition sha512_modq :: "(bytes \<Rightarrow> bytes) \<Rightarrow> bytes \<Rightarrow> int" where
  "sha512_modq sha512 b = int_le (sha512 b) mod group_Q"

definition recover_x :: "int \<Rightarrow> int \<Rightarrow> int option" where
  "recover_x y sign =
     (if field_P \<le> y then None
      else
        let x2 = (y * y - 1) * modp_inv (curve_D * y * y + 1) mod field_P
        in if x2 = 0 then (if sign \<noteq> 0 then None else Some 0)
           else
             let x0 = pow_mod x2 (nat ((field_P + 3) div 8));
                 x1 = (if (x0 * x0 - x2) mod field_P \<noteq> 0 then x0 * SQRT_M1 mod field_P else x0)
             in if (x1 * x1 - x2) mod field_P \<noteq> 0 then None
                else Some (if x1 mod 2 \<noteq> sign then field_P - x1 else x1))"

definition base_y :: int where "base_y = 4 * modp_inv 5 mod field_P"

text \<open>\<open>_GX\<close> is \<open>_recover_x(_GY, 0)\<close>; where that is \<open>None\<close> the module would not load.\<close>

definition base_point :: "point option" where
  "base_point = (case recover_x base_y 0 of None \<Rightarrow> None
     | Some gx \<Rightarrow> Some (gx, base_y, 1, gx * base_y mod field_P))"

definition IDENTITY :: point where "IDENTITY = (0, 1, 1, 0)"

definition point_add :: "point \<Rightarrow> point \<Rightarrow> point" where
  "point_add p q = (case (p, q) of ((p0, p1, p2, p3), (q0, q1, q2, q3)) \<Rightarrow>
     (let a = (p1 - p0) * (q1 - q0) mod field_P;
          b = (p1 + p0) * (q1 + q0) mod field_P;
          c = 2 * p3 * q3 * curve_D mod field_P;
          d = 2 * p2 * q2 mod field_P;
          e = b - a; f = d - c; g = d + c; h = b + a
      in (e * f mod field_P, g * h mod field_P, f * g mod field_P, e * h mod field_P)))"

text \<open>The loop of \<open>_point_mul\<close>; the scalar is halved until it is zero.\<close>

function mul_loop :: "int \<Rightarrow> point \<Rightarrow> point \<Rightarrow> point" where
  "mul_loop s p out =
     (if s \<le> 0 then out
      else mul_loop (s div 2) (point_add p p) (if s mod 2 = 1 then point_add out p else out))"
  by pat_completeness auto
termination by (relation "measure (\<lambda>(s, p, out). nat s)") auto

declare mul_loop.simps [simp del]

definition point_mul :: "int \<Rightarrow> point \<Rightarrow> point" where
  "point_mul s p = mul_loop s p IDENTITY"

definition point_equal :: "point \<Rightarrow> point \<Rightarrow> bool" where
  "point_equal p q = (case (p, q) of ((p0, p1, p2, p3), (q0, q1, q2, q3)) \<Rightarrow>
     if (p0 * q2 - q0 * p2) mod field_P \<noteq> 0 then False
      else if (p1 * q2 - q1 * p2) mod field_P \<noteq> 0 then False else True)"

definition point_decompress :: "bytes \<Rightarrow> point option" where
  "point_decompress s =
     (if length s \<noteq> 32 then None
      else
        let n = int_le s; sign = n div 2 ^ 255; y = n mod 2 ^ 255
        in case recover_x y sign of None \<Rightarrow> None | Some x \<Rightarrow> Some (x, y, 1, x * y mod field_P))"

text \<open>\<open>verify\<close>; the arguments of the model are byte strings, which is what its type tests ask for.\<close>

definition ed_verify :: "(bytes \<Rightarrow> bytes) \<Rightarrow> bytes \<Rightarrow> bytes \<Rightarrow> bytes \<Rightarrow> bool" where
  "ed_verify sha512 public_key message signature =
     (if length public_key \<noteq> 32 then False
      else if length signature \<noteq> 64 then False
      else case point_decompress public_key of
          None \<Rightarrow> False
        | Some a \<Rightarrow>
            (case point_decompress (take 32 signature) of
               None \<Rightarrow> False
             | Some r \<Rightarrow>
                 let s = int_le (drop 32 signature)
                 in if group_Q \<le> s then False
                    else
                      let h = sha512_modq sha512 (take 32 signature @ public_key @ message)
                      in (case base_point of None \<Rightarrow> False
                          | Some g \<Rightarrow> point_equal (point_mul s g) (point_add r (point_mul h a)))))"

end
