(* ===== verification/Sso.thy ===== *)
theory Sso
  imports Ed25519 Login Checks Registry
begin

text \<open>
  Single sign-on (\<open>sso.py\<close> and its routes in \<open>app.py\<close>): the active configuration, the verification of
  an assertion with its replay cache, the return path, enrollment, and the exchange of an assertion
  for an ordinary session. \<open>json.loads\<close> (on the decoded bytes), SHA-512, the host name and the
  issuer's answer to an enrollment request are parameters.
\<close>

section \<open>Configuration\<close>

text \<open>The \<open>CONTROLLER_SSO_*\<close> variables, empty when unset.\<close>

record sso_env =
  env_issuer :: string
  env_pubkey :: string
  env_kid :: string
  env_audience :: string
  env_auto_redirect :: bool

record sso_cfg =
  so_issuer :: string
  so_pubkey :: string
  so_kid :: string
  so_audience :: string
  so_auto_redirect :: bool
  so_source :: string

definition SSO_ISSUER :: "sso_env \<Rightarrow> string" where
  "SSO_ISSUER env = rstrip_slash (env_issuer env)"

text \<open>\<open>_stored\<close>: the parsed file, or the empty dictionary when it is missing, unreadable or no object.\<close>

definition stored_of :: "json option \<Rightarrow> json dict" where
  "stored_of f = (case f of Some (JObj d) \<Rightarrow> d | _ \<Rightarrow> [])"

definition sso_config :: "sso_env \<Rightarrow> string \<Rightarrow> json option \<Rightarrow> sso_cfg option" where
  "sso_config env hostname file =
     (if SSO_ISSUER env \<noteq> [] then
        Some \<lparr>so_issuer = SSO_ISSUER env, so_pubkey = env_pubkey env, so_kid = env_kid env,
          so_audience = (if env_audience env = [] then hostname else env_audience env),
          so_auto_redirect = env_auto_redirect env, so_source = ''env''\<rparr>
      else
        let s = stored_of file
        in if truthy (jget s ''issuer'') \<and> truthy (jget s ''pubkey'') then
             Some \<lparr>so_issuer = rstrip_slash (py_str (jget s ''issuer'')), so_pubkey = py_str (jget s ''pubkey''),
               so_kid = or_str (jget s ''kid''),
               so_audience = (if truthy (jget s ''audience'') then py_str (jget s ''audience'') else hostname),
               so_auto_redirect = truthy (jget s ''auto_redirect''), so_source = ''stored''\<rparr>
           else None)"

definition sso_locked :: "sso_env \<Rightarrow> bool" where
  "sso_locked env = (SSO_ISSUER env \<noteq> [])"

definition save_stored :: "json \<Rightarrow> json \<Rightarrow> json \<Rightarrow> json \<Rightarrow> json option" where
  "save_stored issuer pubkey kid aud = Some (JObj [(''issuer'', JStr (rstrip_slash (py_str issuer))),
     (''pubkey'', pubkey), (''kid'', kid), (''audience'', aud)])"

section \<open>URL-safe base64\<close>

text \<open>The value of a character after \<open>urlsafe_b64decode\<close> has mapped \<open>-\<close> and \<open>_\<close>; \<open>+\<close> and \<open>/\<close> are
  still accepted.\<close>

definition b64_val :: "nat \<Rightarrow> nat option" where
  "b64_val c = (if 65 \<le> c \<and> c \<le> 90 then Some (c - 65)
     else if 97 \<le> c \<and> c \<le> 122 then Some (c - 71)
     else if 48 \<le> c \<and> c \<le> 57 then Some (c + 4)
     else if c = 43 \<or> c = 45 then Some 62
     else if c = 47 \<or> c = 95 then Some 63 else None)"

text \<open>\<open>binascii.a2b_base64\<close>, not strict: characters outside the alphabet are skipped, a complete pad ends
  the input, and what is left of a quad is an error (\<open>None\<close>). The state is the position in the quad,
  the bits left over and the number of pads.\<close>

fun a2b :: "nat \<Rightarrow> nat \<Rightarrow> nat \<Rightarrow> nat list \<Rightarrow> bytes option" where
  "a2b q l p [] = (if q = 0 then Some [] else None)"
| "a2b q l p (c # cs) =
     (if c = 61 then
        (if 2 \<le> q \<and> 4 \<le> q + p + 1 then Some []
         else a2b q l (if 2 \<le> q then p + 1 else p) cs)
      else case b64_val c of
          None \<Rightarrow> a2b q l p cs
        | Some v \<Rightarrow>
            if q = 0 then a2b 1 v 0 cs
            else if q = 1 then map_option ((#) (of_nat (l * 4 + v div 16))) (a2b 2 (v mod 16) 0 cs)
            else if q = 2 then map_option ((#) (of_nat (l * 16 + v div 4))) (a2b 3 (v mod 4) 0 cs)
            else map_option ((#) (of_nat (l * 64 + v))) (a2b 0 0 0 cs))"

definition pad_to_quad :: "nat \<Rightarrow> nat list" where
  "pad_to_quad n = replicate ((4 - n mod 4) mod 4) 61"

text \<open>\<open>str.encode()\<close> on Latin-1 code points.\<close>

definition utf8_char :: "char \<Rightarrow> nat list" where
  "utf8_char c = (let n = (of_char c :: nat) in if n < 128 then [n] else [192 + n div 64, 128 + n mod 64])"

definition utf8 :: "string \<Rightarrow> nat list" where
  "utf8 s = concat (map utf8_char s)"

definition b64u_decode :: "string \<Rightarrow> bytes option" where
  "b64u_decode s = (let b = utf8 s in a2b 0 0 0 (b @ pad_to_quad (length b)))"

text \<open>\<open>_pubkey_bytes\<close>: a \<open>str\<close> argument must be ASCII.\<close>

definition pubkey_bytes :: "sso_cfg option \<Rightarrow> bytes" where
  "pubkey_bytes cfg =
     (let s = (case cfg of None \<Rightarrow> [] | Some c \<Rightarrow> so_pubkey c); codes = map of_char s :: nat list
      in if \<not> list_all (\<lambda>n. n < 128) codes then []
         else case a2b 0 0 0 (codes @ pad_to_quad (length s)) of None \<Rightarrow> [] | Some b \<Rightarrow> b)"

definition sso_enabled :: "sso_cfg option \<Rightarrow> bool" where
  "sso_enabled cfg = (cfg \<noteq> None \<and> length (pubkey_bytes cfg) = 32)"

record sso_hint =
  hi_issuer :: string
  hi_audience :: string
  hi_auto_redirect :: bool

definition sso_audience :: "string \<Rightarrow> sso_cfg option \<Rightarrow> string" where
  "sso_audience hostname cfg = (case cfg of None \<Rightarrow> hostname
     | Some c \<Rightarrow> if so_audience c = [] then hostname else so_audience c)"

definition login_hint :: "string \<Rightarrow> sso_cfg option \<Rightarrow> sso_hint" where
  "login_hint hostname cfg = \<lparr>hi_issuer = (case cfg of None \<Rightarrow> [] | Some c \<Rightarrow> so_issuer c),
     hi_audience = sso_audience hostname cfg,
     hi_auto_redirect = (case cfg of None \<Rightarrow> False | Some c \<Rightarrow> so_auto_redirect c)\<rparr>"

section \<open>The return path\<close>

definition safe_next :: "string option \<Rightarrow> string" where
  "safe_next v = (case v of
      None \<Rightarrow> ''/''
    | Some s \<Rightarrow>
        if s = [] \<or> 512 < length s then ''/''
        else if \<exists>c\<in>set s. (of_char c :: nat) < 32 \<or> (of_char c :: nat) = 127 then ''/''
        else
          let t = map (\<lambda>c. if c = CHR 0x5C then CHR ''/'' else c) s
          in if \<not> startswith ''/'' t \<or> startswith ''//'' t then ''/'' else t)"

section \<open>Assertions\<close>

text \<open>The replay cache: spent identifiers with the expiry of their assertion.\<close>

definition remember :: "string \<Rightarrow> int \<Rightarrow> int \<Rightarrow> int dict \<Rightarrow> bool \<times> int dict" where
  "remember jti ex now seen =
     (let live = filter (\<lambda>(k, v). now < v) seen
      in if map_of live jti \<noteq> None then (False, live) else (True, AList.update jti ex live))"

definition CLOCK_SKEW :: int where "CLOCK_SKEW = 30"

text \<open>\<open>isinstance(v, int)\<close>: booleans are integers.\<close>

definition as_int :: "json \<Rightarrow> int option" where
  "as_int v = (case v of JInt i \<Rightarrow> Some i | JBool b \<Rightarrow> Some (if b then 1 else 0) | _ \<Rightarrow> None)"

definition to_bytes :: "string \<Rightarrow> bytes" where
  "to_bytes s = map of_nat (utf8 s)"

text \<open>The part before the signature: the three pieces, decoded.\<close>

definition open_token :: "(bytes \<Rightarrow> json option) \<Rightarrow> string \<Rightarrow> (json dict \<times> json dict \<times> bytes \<times> bytes) option" where
  "open_token loads token =
     (case split_on (CHR ''.'') token of
        [h64, p64, s64] \<Rightarrow>
          (case (b64u_decode h64, b64u_decode p64, b64u_decode s64) of
             (Some h, Some p, Some sig) \<Rightarrow>
               (case (loads h, loads p) of
                  (Some (JObj header), Some (JObj payload)) \<Rightarrow>
                    Some (header, payload, to_bytes (h64 @ ''.'' @ p64), sig)
                | _ \<Rightarrow> None)
           | _ \<Rightarrow> None)
      | _ \<Rightarrow> None)"

text \<open>The claims, read after the signature: subject, identifier and expiry.\<close>

definition check_claims :: "sso_cfg \<Rightarrow> json dict \<Rightarrow> int \<Rightarrow> (string \<times> string \<times> int) option" where
  "check_claims c payload now =
     (if jget payload ''iss'' \<noteq> JStr (so_issuer c) then None
      else if jget payload ''aud'' \<noteq> JStr (so_audience c) then None
      else case (as_int (jget payload ''exp''), as_int (jget payload ''iat'')) of
          (Some ex, Some iat) \<Rightarrow>
            if ex \<le> now \<or> now + CLOCK_SKEW < iat then None
            else (case jget payload ''sub'' of
                JStr sub \<Rightarrow>
                  if sub = [] then None
                  else (case jget payload ''jti'' of
                      JStr jti \<Rightarrow> if jti = [] then None else Some (sub, jti, ex)
                    | _ \<Rightarrow> None)
              | _ \<Rightarrow> None)
        | _ \<Rightarrow> None)"

definition check_assertion :: "(bytes \<Rightarrow> bytes) \<Rightarrow> (bytes \<Rightarrow> json option) \<Rightarrow> sso_cfg option \<Rightarrow> string option \<Rightarrow> int \<Rightarrow>
    (string \<times> string \<times> int) option" where
  "check_assertion sha512 loads cfg token now =
     (case cfg of
        None \<Rightarrow> None
      | Some c \<Rightarrow>
          if length (pubkey_bytes cfg) \<noteq> 32 then None
          else (case token of
              None \<Rightarrow> None
            | Some t \<Rightarrow>
                (case open_token loads t of
                   None \<Rightarrow> None
                 | Some (header, payload, msg, sig) \<Rightarrow>
                     if jget header ''alg'' \<noteq> JStr ''EdDSA'' \<or> jget header ''typ'' \<noteq> JStr ''nxa'' then None
                     else if so_kid c \<noteq> [] \<and> jget header ''kid'' \<noteq> JStr (so_kid c) then None
                     else if \<not> ed_verify sha512 (pubkey_bytes cfg) msg sig then None
                     else check_claims c payload now)))"

text \<open>\<open>verify\<close>: the subject, and the replay cache.\<close>

definition sso_verify :: "(bytes \<Rightarrow> bytes) \<Rightarrow> (bytes \<Rightarrow> json option) \<Rightarrow> sso_cfg option \<Rightarrow> string option \<Rightarrow> int \<Rightarrow> int dict \<Rightarrow>
    string option \<times> int dict" where
  "sso_verify sha512 loads cfg token now seen =
     (case check_assertion sha512 loads cfg token now of
        None \<Rightarrow> (None, seen)
      | Some (sub, jti, ex) \<Rightarrow>
          (case remember jti ex now seen of
             (False, s) \<Rightarrow> (None, s)
           | (True, s) \<Rightarrow> (Some sub, s)))"

section \<open>The routes\<close>

text \<open>\<open>sso_callback\<close>: a redirect (its location), the session cookie and the replay cache.\<close>

definition sso_callback :: "(bytes \<Rightarrow> bytes) \<Rightarrow> (bytes \<Rightarrow> json option) \<Rightarrow> sso_cfg option \<Rightarrow> string option \<Rightarrow> string option \<Rightarrow>
    int \<Rightarrow> session \<Rightarrow> config \<Rightarrow> int dict \<Rightarrow> string resp \<times> session \<times> int dict" where
  "sso_callback sha512 loads cfg token next now se conf seen =
     (if \<not> sso_enabled cfg then (Fail 404 ''Not found'', se, seen)
      else case sso_verify sha512 loads cfg token now seen of
          (None, s) \<Rightarrow> (Done ''/?sso_error=1'', se, s)
        | (Some sub, s) \<Rightarrow>
            (case map_of (cf_users conf) sub of
               None \<Rightarrow> (Done ''/?sso_error=unknown_user'', se, s)
             | Some u \<Rightarrow> (Done (safe_next next), start_session sub u, s)))"

record sso_view =
  sw_configured :: bool
  sw_locked :: bool
  sw_source :: "string option"
  sw_issuer :: string
  sw_audience :: string
  sw_kid :: string

definition sso_status :: "sso_env \<Rightarrow> string \<Rightarrow> json option \<Rightarrow> sso_view" where
  "sso_status env hostname file =
     (let cfg = sso_config env hostname file
      in \<lparr>sw_configured = (cfg \<noteq> None), sw_locked = sso_locked env, sw_source = map_option so_source cfg,
          sw_issuer = (case cfg of None \<Rightarrow> [] | Some c \<Rightarrow> so_issuer c),
          sw_audience = (case cfg of None \<Rightarrow> [] | Some c \<Rightarrow> so_audience c),
          sw_kid = (case cfg of None \<Rightarrow> [] | Some c \<Rightarrow> so_kid c)\<rparr>)"

text \<open>What an issuer answers to an enrollment code: a JSON body, an error status with its parsed body,
  or any other failure.\<close>

datatype issuer_reply = Reply json | HttpError nat "json option" | Unreachable string

text \<open>\<open>redeem\<close>: the result, \<open>Fail 400\<close> with the error it reports, or the crash of a body that is no
  object.\<close>

definition redeem :: "issuer_reply \<Rightarrow> json dict resp" where
  "redeem r = (case r of
      Unreachable m \<Rightarrow> Fail 400 (''Could not reach the issuer: '' @ m)
    | HttpError code body \<Rightarrow>
        Fail 400 (let dflt = ''Issuer refused the code (HTTP '' @ show_nat code @ '')''
          in case body of Some (JObj d) \<Rightarrow> if truthy (jget d ''error'') then py_str (jget d ''error'') else dflt
             | _ \<Rightarrow> dflt)
    | Reply (JObj d) \<Rightarrow>
        if \<not> truthy (jget d ''success'') then
          Fail 400 (if truthy (jget d ''error'') then py_str (jget d ''error'') else ''Enrollment failed'')
        else (case find (\<lambda>k. \<not> truthy (jget d k)) [''issuer'', ''key'', ''audience''] of
            Some k \<Rightarrow> Fail 400 (''Issuer response was missing '' @ repr_str k)
          | None \<Rightarrow> Done d)
    | Reply _ \<Rightarrow> Crash AttributeError)"

definition sso_fixed :: string where
  "sso_fixed = ''Single sign-on is fixed by this host's configuration and cannot be changed here''"

definition kid_or_empty :: "json dict \<Rightarrow> json" where
  "kid_or_empty d = (case map_of d ''kid'' of None \<Rightarrow> JStr [] | Some v \<Rightarrow> v)"

definition sso_enroll :: "sso_env \<Rightarrow> (string \<Rightarrow> string \<Rightarrow> issuer_reply) \<Rightarrow> json dict \<Rightarrow> json option \<Rightarrow>
    (json \<times> json \<times> json) resp \<times> json option" where
  "sso_enroll env ask data file =
     (if sso_locked env then (Fail 409 sso_fixed, file)
      else
        let issuer = rstrip_slash (strip (or_str (jget data ''issuer'')));
            code = strip (or_str (jget data ''code''))
        in if \<not> (startswith ''http://'' issuer \<or> startswith ''https://'' issuer)
             then (Fail 400 ''Issuer must be an http:// or https:// URL'', file)
           else if code = [] then (Fail 400 ''Enrollment code is required'', file)
           else (case redeem (ask issuer code) of
               Fail c m \<Rightarrow> (Fail c m, file)
             | Crash e \<Rightarrow> (Crash e, file)
             | Done d \<Rightarrow> (Done (jget d ''issuer'', jget d ''audience'', kid_or_empty d),
                 save_stored (jget d ''issuer'') (jget d ''key'') (kid_or_empty d) (jget d ''audience''))))"

definition sso_disable :: "(string \<Rightarrow> string \<Rightarrow> bool) \<Rightarrow> sso_env \<Rightarrow> ctx \<Rightarrow> json dict \<Rightarrow> config \<Rightarrow> json option \<Rightarrow>
    unit resp \<times> json option" where
  "sso_disable check_pw env c data conf file =
     (if sso_locked env then (Fail 409 sso_fixed, file)
      else case map_of (cf_users conf) (g_name c) of
          None \<Rightarrow> (Fail 403 ''Current password is incorrect'', file)
        | Some u \<Rightarrow>
            (case (if truthy (jget data ''password'') then jget data ''password'' else JStr []) of
               JStr pw \<Rightarrow> if check_pw (u_password u) pw then (Done (), None)
                 else (Fail 403 ''Current password is incorrect'', file)
             | _ \<Rightarrow> (Crash AttributeError, file)))"

end
