(* ===== verification/Ed25519Facts.thy ===== *)
theory Ed25519Facts
  imports Ed25519
begin

text \<open>
  What the verifier promises: its arithmetic is the arithmetic modulo the prime, every point it
  computes stays on the curve, double-and-add adds up the doublings at the set bits of the scalar,
  an encoding that decompresses is the one encoding of its point, and no second scalar of a
  signature is accepted.
\<close>

section \<open>Exponentiation\<close>

lemma field_P_pos [simp]: "0 < field_P" "field_P \<noteq> 0" "1 < field_P"
  by (simp_all add: field_P_def)

lemma mul_mod_iter: "(mul_mod x ^^ e) 1 = x ^ e mod field_P"
proof (induction e)
  case (Suc e)
  then show ?case by (simp add: mul_mod_def mod_simps)
qed simp

lemma pow_mod_power: "pow_mod x e = x ^ e mod field_P"
proof -
  have "efficient_funpow mul_mod 1 x e = (mul_mod x ^^ e) 1"
    by (rule efficient_funpow_correct) (simp add: mul_mod_def mod_simps mult.assoc)
  then show ?thesis by (simp add: pow_mod_def mul_mod_iter)
qed

section \<open>Points on the curve\<close>

text \<open>The curve equation and the product invariant of extended coordinates, modulo the prime.\<close>

fun on_curve :: "point \<Rightarrow> bool" where
  "on_curve (x, y, z, t) \<longleftrightarrow>
     (y * y - x * x - (z * z + curve_D * (t * t))) mod field_P = 0 \<and> (x * y - z * t) mod field_P = 0"

lemma identity_on_curve: "on_curve IDENTITY"
  by (simp add: IDENTITY_def)

text \<open>The addition formulas before reduction: the sum's equation is a combination of the two points'.\<close>

lemma sum_equation:
  fixes x1 y1 z1 t1 x2 y2 z2 t2 d :: int
  assumes r1: "m dvd y1 * y1 - x1 * x1 - (z1 * z1 + d * (t1 * t1))" and s1: "m dvd x1 * y1 - z1 * t1"
    and r2: "m dvd y2 * y2 - x2 * x2 - (z2 * z2 + d * (t2 * t2))" and s2: "m dvd x2 * y2 - z2 * t2"
  defines "e \<equiv> x1 * y2 + y1 * x2" and "h \<equiv> y1 * y2 + x1 * x2"
    and "f \<equiv> z1 * z2 - d * (t1 * t2)" and "g \<equiv> z1 * z2 + d * (t1 * t2)"
  shows "m dvd (g * h) * (g * h) - (e * f) * (e * f) - ((f * g) * (f * g) + d * ((e * h) * (e * h)))"
proof -
  let ?u = "h * (x1 * y2 - y1 * x2)" and ?v = "f * (t1 * z2 - t2 * z1)"
  have "?u - ?v = (x1 * y1 - z1 * t1) * (y2 * y2 - x2 * x2)
      + z1 * t1 * (y2 * y2 - x2 * x2 - (z2 * z2 + d * (t2 * t2)))
      - (x2 * y2 - z2 * t2) * (y1 * y1 - x1 * x1)
      - z2 * t2 * (y1 * y1 - x1 * x1 - (z1 * z1 + d * (t1 * t1)))"
    unfolding e_def h_def f_def g_def by (simp add: algebra_simps)
  then have uv: "m dvd ?u - ?v" using r1 s1 r2 s2 by (simp add: dvd_diff dvd_add)
  have "x1 * y1 * (x2 * y2) - z1 * t1 * (z2 * t2) =
      (x1 * y1 - z1 * t1) * (x2 * y2) + z1 * t1 * (x2 * y2 - z2 * t2)" by (simp add: algebra_simps)
  then have prod: "m dvd x1 * y1 * (x2 * y2) - z1 * t1 * (z2 * t2)" using s1 s2 by (simp add: dvd_add)
  have "h * h - e * e - (z1 * z1 + d * (t1 * t1)) * (z2 * z2 + d * (t2 * t2)) =
      (y1 * y1 - x1 * x1) * (y2 * y2 - x2 * x2 - (z2 * z2 + d * (t2 * t2)))
      + (y1 * y1 - x1 * x1 - (z1 * z1 + d * (t1 * t1))) * (z2 * z2 + d * (t2 * t2))"
    unfolding e_def h_def by (simp add: algebra_simps)
  then have he: "m dvd h * h - e * e - (z1 * z1 + d * (t1 * t1)) * (z2 * z2 + d * (t2 * t2))"
    using r1 r2 by (simp add: dvd_add)
  have "(g * h) * (g * h) - (e * f) * (e * f) - ((f * g) * (f * g) + d * ((e * h) * (e * h))) =
      f * f * (h * h - e * e - (z1 * z1 + d * (t1 * t1)) * (z2 * z2 + d * (t2 * t2)))
      - 4 * d * (h * h) * (x1 * y1 * (x2 * y2) - z1 * t1 * (z2 * t2))
      - d * ((?u - ?v) * (?u + ?v))"
    unfolding e_def h_def f_def g_def by (simp add: algebra_simps)
  then show ?thesis using he prod uv by (simp only: dvd_diff dvd_mult dvd_mult2)
qed

lemma on_curve_mod [simp]:
  "on_curve (x mod field_P, y mod field_P, z mod field_P, t mod field_P) = on_curve (x, y, z, t)"
proof -
  let ?m = "\<lambda>a. a mod field_P"
  have "?m (?m y * ?m y - ?m x * ?m x - (?m z * ?m z + curve_D * (?m t * ?m t))) =
      ?m (y * y - x * x - (z * z + curve_D * (t * t)))"
    by (intro mod_diff_cong mod_add_cong mod_mult_cong refl mod_mod_trivial)
  moreover have "?m (?m x * ?m y - ?m z * ?m t) = ?m (x * y - z * t)"
    by (intro mod_diff_cong mod_mult_cong mod_mod_trivial)
  ultimately show ?thesis by simp
qed

lemma point_add_formula:
  "point_add (x1, y1, z1, t1) (x2, y2, z2, t2) =
     (let e = x1 * y2 + y1 * x2; h = y1 * y2 + x1 * x2;
          f = z1 * z2 - curve_D * (t1 * t2); g = z1 * z2 + curve_D * (t1 * t2)
      in (4 * (e * f) mod field_P, 4 * (g * h) mod field_P, 4 * (f * g) mod field_P, 4 * (e * h) mod field_P))"
proof -
  have "((y1 + x1) * (y2 + x2) - (y1 - x1) * (y2 - x2)) = 2 * (x1 * y2 + y1 * x2)"
    "(y1 + x1) * (y2 + x2) + (y1 - x1) * (y2 - x2) = 2 * (y1 * y2 + x1 * x2)"
    "2 * z1 * z2 - 2 * t1 * t2 * curve_D = 2 * (z1 * z2 - curve_D * (t1 * t2))"
    "2 * z1 * z2 + 2 * t1 * t2 * curve_D = 2 * (z1 * z2 + curve_D * (t1 * t2))"
    by (simp_all add: algebra_simps)
  moreover have "(a mod field_P - b mod field_P) * (c mod field_P - d mod field_P) mod field_P = (a - b) * (c - d) mod field_P"
    "(a mod field_P + b mod field_P) * (c mod field_P + d mod field_P) mod field_P = (a + b) * (c + d) mod field_P"
    "(a mod field_P - b mod field_P) * (c mod field_P + d mod field_P) mod field_P = (a - b) * (c + d) mod field_P"
    for a b c d by (intro mod_mult_cong mod_diff_cong mod_add_cong mod_mod_trivial)+
  ultimately show ?thesis by (simp add: point_add_def Let_def mult.assoc) (simp add: algebra_simps)
qed

lemma add_closed:
  assumes "on_curve p" and "on_curve q"
  shows "on_curve (point_add p q)"
proof -
  obtain x1 y1 z1 t1 x2 y2 z2 t2 where p: "p = (x1, y1, z1, t1)" and q: "q = (x2, y2, z2, t2)"
    by (metis prod.exhaust)
  define e h f g where "e = x1 * y2 + y1 * x2" and "h = y1 * y2 + x1 * x2"
    and "f = z1 * z2 - curve_D * (t1 * t2)" and "g = z1 * z2 + curve_D * (t1 * t2)"
  have "field_P dvd (g * h) * (g * h) - (e * f) * (e * f) - ((f * g) * (f * g) + curve_D * ((e * h) * (e * h)))"
    using sum_equation [of field_P y1 x1 z1 curve_D t1 y2 x2 z2 t2] assms
    by (simp add: p q dvd_eq_mod_eq_0 e_def h_def f_def g_def)
  then have "field_P dvd 16 * ((g * h) * (g * h) - (e * f) * (e * f) - ((f * g) * (f * g) + curve_D * ((e * h) * (e * h))))"
    by (rule dvd_mult)
  also have "16 * ((g * h) * (g * h) - (e * f) * (e * f) - ((f * g) * (f * g) + curve_D * ((e * h) * (e * h)))) =
      4 * (g * h) * (4 * (g * h)) - 4 * (e * f) * (4 * (e * f)) -
      (4 * (f * g) * (4 * (f * g)) + curve_D * (4 * (e * h) * (4 * (e * h))))"
    by (simp add: algebra_simps)
  finally have "on_curve (4 * (e * f), 4 * (g * h), 4 * (f * g), 4 * (e * h))"
    by (simp add: dvd_eq_mod_eq_0 mult.commute mult.left_commute)
  then show ?thesis
    by (simp only: p q point_add_formula Let_def e_def h_def f_def g_def on_curve_mod)
qed

section \<open>Scalar multiplication\<close>

lemma mul_loop_Pos: "0 < s \<Longrightarrow> mul_loop s p out = mul_loop (s div 2) (point_add p p) (if s mod 2 = 1 then point_add out p else out)"
  and mul_loop_zero: "s \<le> 0 \<Longrightarrow> mul_loop s p out = out"
  by (simp_all add: mul_loop.simps [of s])

text \<open>The specification: the doublings of a point, summed in order over the set bits of the scalar.\<close>

fun bits_of :: "int \<Rightarrow> nat \<Rightarrow> nat list" where
  "bits_of s 0 = []"
| "bits_of s (Suc n) = (if s mod 2 = 1 then [0] else []) @ map Suc (bits_of (s div 2) n)"

definition doubling :: "point \<Rightarrow> nat \<Rightarrow> point" where
  "doubling p n = ((\<lambda>q. point_add q q) ^^ n) p"

lemma doubling_Suc: "doubling (point_add p p) n = doubling p (Suc n)"
  unfolding doubling_def by (simp only: funpow_Suc_right comp_apply)

lemma bits_of_mem: "0 \<le> s \<Longrightarrow> i \<in> set (bits_of s n) \<longleftrightarrow> i < n \<and> s div 2 ^ i mod 2 = 1"
proof (induction n arbitrary: s i)
  case (Suc n)
  show ?case
  proof (cases i)
    case (Suc j)
    then show ?thesis using Suc.IH [of "s div 2" j] Suc.prems by (auto simp: zdiv_zmult2_eq)
  qed auto
qed simp

lemma mul_loop_bits:
  "0 \<le> s \<Longrightarrow> s < 2 ^ n \<Longrightarrow> mul_loop s p out = foldl point_add out (map (doubling p) (bits_of s n))"
proof (induction n arbitrary: s p out)
  case 0
  then show ?case by (simp add: mul_loop_zero)
next
  case (Suc n)
  have shift: "map (doubling (point_add p p)) (bits_of (s div 2) n) = map (doubling p) (map Suc (bits_of (s div 2) n))"
    by (simp add: doubling_Suc)
  have half: "mul_loop (s div 2) (point_add p p) o2 = foldl point_add o2 (map (doubling p) (map Suc (bits_of (s div 2) n)))" for o2
    unfolding shift [symmetric] by (rule Suc.IH) (use Suc.prems in auto)
  have zero: "doubling p 0 = p" by (simp add: doubling_def)
  show ?case
  proof (cases "s = 0")
    case True
    then show ?thesis using half [of out] by (simp add: mul_loop_zero)
  next
    case False
    then show ?thesis using mul_loop_Pos [of s p out] half Suc.prems
      by (simp only: bits_of.simps map_append foldl_append) (simp add: zero)
  qed
qed

text \<open>Double-and-add is right: for a scalar below \<open>2 ^ n\<close> it returns the sum of the doublings
  \<open>2 ^ i * p\<close> over exactly the bits set in the scalar, and the loop ends after at most \<open>n\<close> rounds.\<close>

theorem point_mul_bits:
  assumes "0 \<le> s" and "s < 2 ^ n"
  shows "point_mul s p = foldl point_add IDENTITY (map (doubling p) (bits_of s n)) \<and>
    (\<forall>i. i \<in> set (bits_of s n) \<longleftrightarrow> i < n \<and> s div 2 ^ i mod 2 = 1) \<and> sorted (bits_of s n) \<and> distinct (bits_of s n)"
proof -
  have "sorted (bits_of s n) \<and> distinct (bits_of s n)"
    by (induction n arbitrary: s) (auto simp: sorted_map distinct_map sorted_wrt_map)
  then show ?thesis using assms mul_loop_bits bits_of_mem by (simp add: point_mul_def)
qed

theorem point_mul_bits_witness:
  "point_mul 5 IDENTITY = point_add (point_add IDENTITY IDENTITY) (doubling IDENTITY 2)"
  using point_mul_bits [of 5 3 IDENTITY] by (simp add: numeral_3_eq_3 numeral_2_eq_2 doubling_def)

lemma point_mul_on_curve:
  assumes "on_curve p"
  shows "on_curve (point_mul s p)"
proof -
  have "on_curve p \<Longrightarrow> on_curve out \<Longrightarrow> on_curve (mul_loop s p out)" for p out
    by (induction s p out rule: mul_loop.induct) (simp add: mul_loop.simps add_closed)
  then show ?thesis using assms identity_on_curve by (simp add: point_mul_def)
qed

text \<open>Every point the verifier computes satisfies the curve equation and the extended-coordinate
  invariant: the identity does, and addition keeps them (modulo the field prime).\<close>

theorem points_on_curve:
  assumes "on_curve p" and "on_curve q"
  shows "on_curve (point_add p q) \<and> on_curve (point_mul s p) \<and> on_curve IDENTITY"
  using assms add_closed point_mul_on_curve identity_on_curve by blast

theorem points_on_curve_witness: "on_curve (point_mul 5 IDENTITY)"
  using points_on_curve [OF identity_on_curve identity_on_curve, of 5] by blast

section \<open>Encodings\<close>

lemma int_le_Nil [simp]: "int_le [] = 0"
  and int_le_Cons [simp]: "int_le (b # bs) = uint b + 256 * int_le bs"
  by (simp_all add: int_le_def)

lemma int_le_nonneg: "0 \<le> int_le bs"
  by (induction bs) auto

lemma byte_range: "0 \<le> uint (b :: 8 word)" "uint (b :: 8 word) < 256"
  using uint_lt2p [of b] by simp_all

lemma int_le_bound: "int_le bs < 256 ^ length bs"
proof (induction bs)
  case (Cons b bs)
  then show ?case using byte_range [of b] by simp
qed simp

lemma base_256_inject:
  fixes a b A B :: int
  shows "0 \<le> a \<Longrightarrow> a < 256 \<Longrightarrow> 0 \<le> b \<Longrightarrow> b < 256 \<Longrightarrow> a + 256 * A = b + 256 * B \<Longrightarrow> a = b \<and> A = B"
proof -
  assume r: "0 \<le> a" "a < 256" "0 \<le> b" "b < 256" and eq: "a + 256 * A = b + 256 * B"
  have "a = (a + 256 * A) mod 256" "b = (b + 256 * B) mod 256" using r by simp_all
  then have "a = b" using eq by simp
  then show ?thesis using eq by simp
qed

lemma int_le_inject: "length as = length bs \<Longrightarrow> int_le as = int_le bs \<Longrightarrow> as = bs"
proof (induction as bs rule: list_induct2)
  case (Cons a as b bs)
  then have "uint a + 256 * int_le as = uint b + 256 * int_le bs" by (simp only: int_le_Cons)
  from base_256_inject [OF byte_range [of a] byte_range [of b] this] Cons.IH have "a = b" "as = bs"
    by (simp_all only: word_uint_eq_iff simp_thms)
  then show ?case by simp
qed simp

lemma recover_x_range:
  assumes "recover_x y sign = Some x" and "0 \<le> y" and "sign \<in> {0, 1}"
  shows "0 \<le> x" "x < field_P" "y < field_P" "x mod 2 = sign"
proof -
  define x2 where "x2 = (y * y - 1) * modp_inv (curve_D * y * y + 1) mod field_P"
  define x0 where "x0 = pow_mod x2 (nat ((field_P + 3) div 8))"
  define x1 where "x1 = (if (x0 * x0 - x2) mod field_P \<noteq> 0 then x0 * SQRT_M1 mod field_P else x0)"
  show y: "y < field_P" using assms(1) by (auto simp: recover_x_def split: if_splits)
  have x2: "0 \<le> x2" "x2 < field_P" by (simp_all add: x2_def)
  have x1: "0 \<le> x1" "x1 < field_P" by (simp_all add: x1_def x0_def pow_mod_power)
  have val: "(x2 = 0 \<and> sign = 0 \<and> x = 0) \<or> (x2 \<noteq> 0 \<and> (x1 * x1 - x2) mod field_P = 0 \<and> x = (if x1 mod 2 \<noteq> sign then field_P - x1 else x1))"
    using assms(1) by (auto simp: recover_x_def Let_def x2_def [symmetric] x0_def [symmetric] x1_def [symmetric] split: if_splits)
  have "x1 \<noteq> 0" if "x2 \<noteq> 0" "(x1 * x1 - x2) mod field_P = 0"
  proof
    assume "x1 = 0"
    with that(2) have "field_P dvd x2" by (simp add: dvd_eq_mod_eq_0 [symmetric])
    with x2 that(1) show False using zdvd_not_zless [of x2 field_P] by simp
  qed
  moreover have "odd field_P" by (simp add: field_P_def)
  ultimately show "0 \<le> x" "x < field_P" "x mod 2 = sign"
    using val x1 assms(3) by (auto simp: even_iff_mod_2_eq_zero [symmetric] odd_iff_mod_2_eq_one [symmetric])
qed

text \<open>An encoding that decompresses is canonical: its bytes are its point's y coordinate with the parity
  of x in the top bit, both coordinates are reduced, and no other byte string gives that point.\<close>

theorem decompress_canonical:
  assumes "point_decompress s = Some (x, y, z, t)"
  shows "int_le s = y + 2 ^ 255 * (x mod 2) \<and> 0 \<le> x \<and> x < field_P \<and> 0 \<le> y \<and> y < field_P \<and> z = 1 \<and>
    t = x * y mod field_P \<and> (\<forall>s'. point_decompress s' = Some (x, y, z, t) \<longrightarrow> s' = s)"
proof -
  have enc: "int_le b = y + 2 ^ 255 * (x mod 2) \<and> 0 \<le> x \<and> x < field_P \<and> 0 \<le> y \<and> y < field_P \<and> z = 1 \<and>
      t = x * y mod field_P \<and> length b = 32"
    if "point_decompress b = Some (x, y, z, t)" for b
  proof -
    have len: "length b = 32" and y: "y = int_le b mod 2 ^ 255" and
      rec: "recover_x y (int_le b div 2 ^ 255) = Some x" and zt: "z = 1" "t = x * y mod field_P"
      using that by (auto simp: point_decompress_def Let_def split: if_splits option.splits)
    have "int_le b < 2 ^ 256" using int_le_bound [of b] by (simp add: len)
    then have sign: "int_le b div 2 ^ 255 \<in> {0, 1}" using int_le_nonneg [of b] by auto
    have "0 \<le> y" by (simp add: y)
    note r = recover_x_range [OF rec this sign]
    have "int_le b = 2 ^ 255 * (int_le b div 2 ^ 255) + int_le b mod 2 ^ 255" by (simp only: mult_div_mod_eq)
    then have "int_le b = y + 2 ^ 255 * (x mod 2)" by (simp only: y [symmetric] r(4) add.commute)
    with r len zt \<open>0 \<le> y\<close> show ?thesis by blast
  qed
  have "s' = s" if "point_decompress s' = Some (x, y, z, t)" for s'
    using enc [OF that] enc [OF assms] by (intro int_le_inject) simp_all
  with enc [OF assms] show ?thesis by blast
qed

section \<open>Signatures\<close>

text \<open>C31: a signature cannot be altered into a second one by its scalar: of two signatures whose scalars
  differ by a multiple of the group order at most one is accepted.\<close>

theorem scalar_not_malleable:
  assumes "int_le (drop 32 sig') = int_le (drop 32 sig) + k * group_Q" and "k \<noteq> 0"
  shows "\<not> (ed_verify sha512 pk msg sig \<and> ed_verify sha512 pk' msg' sig')"
proof
  assume both: "ed_verify sha512 pk msg sig \<and> ed_verify sha512 pk' msg' sig'"
  have acc: "int_le (drop 32 b) < group_Q" if "ed_verify h p m b" for h p m b
    using that by (auto simp: ed_verify_def Let_def split: if_splits option.splits)
  have q: "0 < group_Q" by (simp add: group_Q_def)
  have "int_le (drop 32 sig) < group_Q" "int_le (drop 32 sig) + k * group_Q < group_Q"
    "0 \<le> int_le (drop 32 sig) + k * group_Q"
    using both acc [of sha512 pk msg sig] acc [of sha512 pk' msg' sig'] int_le_nonneg [of "drop 32 sig'"] assms(1)
    by simp_all
  then have "k * group_Q < 1 * group_Q" "-1 * group_Q < k * group_Q"
    using int_le_nonneg [of "drop 32 sig"] by linarith+
  then show False using q assms(2) by (simp only: mult_less_cancel_right_pos)
qed

section \<open>At concrete inputs\<close>

definition one_bytes :: bytes where
  "one_bytes = 1 # replicate 31 0"

lemma decompress_one: "point_decompress one_bytes = Some (0, 1, 1, 0)"
proof -
  have zero: "int_le (replicate n 0) = 0" for n by (induction n) simp_all
  have "int_le one_bytes = 1" by (simp add: one_bytes_def zero)
  moreover have "recover_x 1 0 = Some 0" by (simp add: recover_x_def field_P_def)
  ultimately show ?thesis by (simp add: point_decompress_def one_bytes_def)
qed

theorem decompress_canonical_witness: "int_le (1 # replicate 31 0) = 1 + 2 ^ 255 * (0 mod 2)"
  using decompress_canonical [OF decompress_one] unfolding one_bytes_def by blast

definition order_bytes :: bytes where
  "order_bytes = [237, 211, 245, 92, 26, 99, 18, 88, 214, 156, 247, 162, 222, 249, 222, 20, 0, 0, 0, 0, 0, 0, 0, 0, 0, 0, 0, 0, 0, 0, 0, 16]"

theorem scalar_not_malleable_witness:
  "\<not> (ed_verify (\<lambda>b. b) one_bytes [] (one_bytes @ replicate 32 0) \<and> ed_verify (\<lambda>b. b) one_bytes [] (one_bytes @ order_bytes))"
proof -
  have zero: "int_le (replicate n 0) = 0" for n by (induction n) simp_all
  have "length one_bytes = 32" by (simp add: one_bytes_def)
  moreover have "int_le order_bytes = group_Q" by (simp add: order_bytes_def group_Q_def)
  ultimately have "int_le (drop 32 (one_bytes @ order_bytes)) = int_le (drop 32 (one_bytes @ replicate 32 0)) + 1 * group_Q"
    by (simp add: zero)
  from scalar_not_malleable [OF this] show ?thesis by simp
qed

end
