(* ===== verification/SsoFacts.thy ===== *)
theory SsoFacts
  imports Sso Ed25519Facts LoginFacts
begin

text \<open>
  What single sign-on promises: an assertion is spent once, a session starts only for an existing
  account and with its local role, the return path stays on the site, the decoder undoes the
  issuer's base64, and an enrollment is stored as the configuration it announced.
\<close>

section \<open>The replay cache\<close>

lemma map_of_filter_value:
  "distinct (map fst d) \<Longrightarrow> map_of (filter (\<lambda>(k, v). P v) d) k =
     (case map_of d k of None \<Rightarrow> None | Some v \<Rightarrow> if P v then Some v else None)"
proof (induction d)
  case (Cons x d)
  obtain j v where x: "x = (j, v)" by fastforce
  have "map_of d j = None" using Cons.prems x by (simp add: map_of_eq_None_iff)
  then show ?case using Cons x by (auto split: option.split)
qed simp

lemma remember_lookup:
  assumes "distinct (map fst seen)" and "remember jti ex now seen = (b, seen')"
  shows "distinct (map fst seen')"
    and "b \<longleftrightarrow> (case map_of seen jti of None \<Rightarrow> True | Some v \<Rightarrow> v \<le> now)"
    and "map_of seen' j = (if b \<and> j = jti then Some ex
       else case map_of seen j of None \<Rightarrow> None | Some v \<Rightarrow> if now < v then Some v else None)"
proof -
  let ?live = "filter (\<lambda>(k, v). now < v) seen"
  have live: "map_of ?live k = (case map_of seen k of None \<Rightarrow> None | Some v \<Rightarrow> if now < v then Some v else None)" for k
    by (rule map_of_filter_value [OF assms(1)])
  have dist: "distinct (map fst ?live)" using assms(1) by (rule distinct_map_filter)
  have r: "(b, seen') = (if map_of ?live jti \<noteq> None then (False, ?live) else (True, AList.update jti ex ?live))"
    using assms(2) by (simp add: remember_def Let_def)
  show "distinct (map fst seen')" using r dist distinct_keys_update [OF dist] by (auto split: if_splits)
  show "b \<longleftrightarrow> (case map_of seen jti of None \<Rightarrow> True | Some v \<Rightarrow> v \<le> now)"
    using r by (auto simp: live split: if_splits option.splits)
  show "map_of seen' j = (if b \<and> j = jti then Some ex
       else case map_of seen j of None \<Rightarrow> None | Some v \<Rightarrow> if now < v then Some v else None)"
    using r by (auto simp: live split: if_splits)
qed

section \<open>What an accepted assertion is\<close>

lemma check_claims_some:
  assumes "check_claims c payload now = Some (sub, jti, ex)"
  shows "jget payload ''iss'' = JStr (so_issuer c)" "jget payload ''aud'' = JStr (so_audience c)"
    "as_int (jget payload ''exp'') = Some ex" "now < ex" "jget payload ''sub'' = JStr sub" "sub \<noteq> []"
    "jget payload ''jti'' = JStr jti"
  using assms by (auto simp: check_claims_def split: if_splits option.splits json.splits)

lemma check_assertion_some:
  assumes "check_assertion sha512 loads cfg token now = Some (sub, jti, ex)"
  shows "\<exists>c t header payload msg sig. cfg = Some c \<and> token = Some t \<and>
     open_token loads t = Some (header, payload, msg, sig) \<and> jget header ''alg'' = JStr ''EdDSA'' \<and>
     ed_verify sha512 (pubkey_bytes cfg) msg sig \<and> check_claims c payload now = Some (sub, jti, ex)"
  using assms by (auto simp: check_assertion_def split: if_splits option.splits)

definition spent_as :: "(bytes \<Rightarrow> json option) \<Rightarrow> string \<Rightarrow> string \<Rightarrow> int \<Rightarrow> bool" where
  "spent_as loads t jti ex = (\<exists>header payload msg sig. open_token loads t = Some (header, payload, msg, sig) \<and>
     jget payload ''jti'' = JStr jti \<and> as_int (jget payload ''exp'') = Some ex)"

lemma spent_as_unique: "spent_as loads t jti ex \<Longrightarrow> spent_as loads t jti' ex' \<Longrightarrow> jti' = jti \<and> ex' = ex"
  by (auto simp: spent_as_def)

lemma check_assertion_spent:
  "check_assertion sha512 loads cfg (Some t) now = Some (sub, jti, ex) \<Longrightarrow> spent_as loads t jti ex \<and> now < ex"
  using check_assertion_some [of sha512 loads cfg "Some t" now sub jti ex]
  by (fastforce simp: spent_as_def dest: check_claims_some)

section \<open>An assertion is spent once\<close>

record presentation =
  pr_cfg :: "sso_cfg option"
  pr_token :: "string option"
  pr_time :: int

fun present :: "(bytes \<Rightarrow> bytes) \<Rightarrow> (bytes \<Rightarrow> json option) \<Rightarrow> int dict \<Rightarrow> presentation list \<Rightarrow> string option list" where
  "present sha512 loads seen [] = []"
| "present sha512 loads seen (p # ps) =
     (let (r, seen') = sso_verify sha512 loads (pr_cfg p) (pr_token p) (pr_time p) seen
      in r # present sha512 loads seen' ps)"

lemma verify_cases:
  assumes "sso_verify sha512 loads cfg token now seen = (r, seen')" and "distinct (map fst seen)"
  shows "distinct (map fst seen')"
    and "map_of seen jti = Some ex \<Longrightarrow> now < ex \<Longrightarrow> map_of seen' jti = Some ex"
    and "r = Some sub \<Longrightarrow> \<exists>jti ex. check_assertion sha512 loads cfg token now = Some (sub, jti, ex) \<and>
       (case map_of seen jti of None \<Rightarrow> True | Some v \<Rightarrow> v \<le> now) \<and> map_of seen' jti = Some ex"
proof -
  note look = remember_lookup [OF assms(2)]
  have "(r = None \<and> seen' = seen) \<or> (\<exists>sub jti ex b. check_assertion sha512 loads cfg token now = Some (sub, jti, ex) \<and>
      remember jti ex now seen = (b, seen') \<and> r = (if b then Some sub else None))"
    using assms(1) by (auto simp: sso_verify_def split: option.splits prod.splits bool.splits)
  then consider "r = None" "seen' = seen"
    | s j e b where "check_assertion sha512 loads cfg token now = Some (s, j, e)"
        "remember j e now seen = (b, seen')" "r = (if b then Some s else None)" by blast
  note split = this
  show "distinct (map fst seen')" using split by cases (use assms(2) look(1) in auto)
  show "map_of seen jti = Some ex \<Longrightarrow> now < ex \<Longrightarrow> map_of seen' jti = Some ex"
  proof (cases rule: split)
    case (2 s j e b)
    then show "map_of seen jti = Some ex \<Longrightarrow> now < ex \<Longrightarrow> map_of seen' jti = Some ex"
      using look(2,3) [OF 2(2)] by auto
  qed simp
  show "r = Some sub \<Longrightarrow> \<exists>jti ex. check_assertion sha512 loads cfg token now = Some (sub, jti, ex) \<and>
       (case map_of seen jti of None \<Rightarrow> True | Some v \<Rightarrow> v \<le> now) \<and> map_of seen' jti = Some ex"
  proof (cases rule: split)
    case (2 s j e b)
    assume "r = Some sub"
    with 2(3) have "b" "s = sub" by (auto split: if_splits)
    with 2(1) look(2,3) [OF 2(2)] show ?thesis by auto
  qed simp
qed

definition accepted :: "string \<Rightarrow> presentation list \<Rightarrow> string option list \<Rightarrow> nat" where
  "accepted t ps rs = length (filter (\<lambda>(p, r). pr_token p = Some t \<and> r \<noteq> None) (zip ps rs))"

text \<open>Once it is in the cache, or has expired, an assertion is refused for good.\<close>

lemma spent_refused:
  assumes "spent_as loads t jti ex" and "distinct (map fst seen)" and "sorted (map pr_time ps)"
    and "\<forall>p\<in>set ps. now \<le> pr_time p" and "map_of seen jti = Some ex \<or> ex \<le> now"
  shows "accepted t ps (present sha512 loads seen ps) = 0"
  using assms(2-5)
proof (induction ps arbitrary: seen now)
  case (Cons p ps)
  obtain r seen' where v: "sso_verify sha512 loads (pr_cfg p) (pr_token p) (pr_time p) seen = (r, seen')" by fastforce
  note vc = verify_cases [OF v Cons.prems(1)]
  have "map_of seen' jti = Some ex \<or> ex \<le> pr_time p"
    using vc(2) [of jti ex] Cons.prems(3,4) by fastforce
  then have "accepted t ps (present sha512 loads seen' ps) = 0"
    using Cons.IH [OF vc(1), of "pr_time p"] Cons.prems(2) by simp
  moreover have "\<not> (pr_token p = Some t \<and> r \<noteq> None)"
  proof
    assume a: "pr_token p = Some t \<and> r \<noteq> None"
    then obtain sub where "r = Some sub" by blast
    then obtain j e where je: "check_assertion sha512 loads (pr_cfg p) (Some t) (pr_time p) = Some (sub, j, e)"
      "case map_of seen j of None \<Rightarrow> True | Some v \<Rightarrow> v \<le> pr_time p" using vc(3) a by metis
    have "j = jti \<and> e = ex" "pr_time p < e"
      using check_assertion_spent [OF je(1)] spent_as_unique [OF assms(1)] by blast+
    then show False using je(2) Cons.prems(3,4) by auto
  qed
  ultimately show ?case by (simp add: accepted_def v)
qed (simp add: accepted_def)

text \<open>C29: an assertion is single-use: over any sequence of presentations at nondecreasing times, of this and of
  other assertions and whatever the configuration is by then, one assertion is accepted at most once.\<close>

theorem assertion_single_use:
  assumes "sorted (map pr_time ps)"
  shows "accepted t ps (present sha512 loads [] ps) \<le> 1"
proof -
  have "distinct (map fst seen) \<Longrightarrow> accepted t ps (present sha512 loads seen ps) \<le> 1" for seen
    using assms
  proof (induction ps arbitrary: seen)
    case (Cons p ps)
    obtain r seen' where v: "sso_verify sha512 loads (pr_cfg p) (pr_token p) (pr_time p) seen = (r, seen')" by fastforce
    note vc = verify_cases [OF v Cons.prems(1)]
    show ?case
    proof (cases "pr_token p = Some t \<and> r \<noteq> None")
      case True
      then obtain sub where "r = Some sub" by blast
      then obtain j e where je: "check_assertion sha512 loads (pr_cfg p) (Some t) (pr_time p) = Some (sub, j, e)"
        "map_of seen' j = Some e" using vc(3) True by metis
      from check_assertion_spent [OF je(1)] have "spent_as loads t j e" by blast
      from spent_refused [OF this vc(1), of ps "pr_time p"] je(2) Cons.prems(2)
      have "accepted t ps (present sha512 loads seen' ps) = 0" by simp
      then show ?thesis unfolding present.simps v Let_def prod.case by (simp add: accepted_def True)
    next
      case False
      have "accepted t ps (present sha512 loads seen' ps) \<le> 1" using Cons.IH [OF vc(1)] Cons.prems(2) by simp
      moreover have "accepted t (p # ps) (present sha512 loads seen (p # ps)) = accepted t ps (present sha512 loads seen' ps)"
        using False by (auto simp: accepted_def v)
      ultimately show ?thesis by simp
    qed
  qed (simp add: accepted_def)
  then show ?thesis by simp
qed

theorem assertion_single_use_witness:
  "accepted ''h.p.s'' [\<lparr>pr_cfg = None, pr_token = Some ''h.p.s'', pr_time = 0\<rparr>, \<lparr>pr_cfg = None, pr_token = Some ''h.p.s'', pr_time = 5\<rparr>]
     (present (\<lambda>b. b) (\<lambda>b. None) [] [\<lparr>pr_cfg = None, pr_token = Some ''h.p.s'', pr_time = 0\<rparr>,
       \<lparr>pr_cfg = None, pr_token = Some ''h.p.s'', pr_time = 5\<rparr>]) \<le> 1"
  by (rule assertion_single_use) simp

section \<open>The callback\<close>

text \<open>C30: the callback leaves the cookie as it is, or the assertion carries the enrolled issuer's signature
  over this controller's audience, has not expired, and names a login that exists here: then the new
  session is that login with the role stored here, and the browser is sent to a path on this site.\<close>

theorem sso_callback_sound:
  "case sso_callback sha512 loads cfg token next now se conf seen of (r, se', seen') \<Rightarrow>
     se' = se \<or>
     (\<exists>c t header payload msg sig sub u. cfg = Some c \<and> token = Some t \<and>
        open_token loads t = Some (header, payload, msg, sig) \<and> ed_verify sha512 (pubkey_bytes cfg) msg sig \<and>
        jget payload ''iss'' = JStr (so_issuer c) \<and> jget payload ''aud'' = JStr (so_audience c) \<and>
        jget payload ''sub'' = JStr sub \<and> (\<exists>ex. as_int (jget payload ''exp'') = Some ex \<and> now < ex) \<and>
        map_of (cf_users conf) sub = Some u \<and> resolve_session se' conf = Login sub (u_role u) None \<and>
        r = Done (safe_next next))"
proof -
  obtain r se' seen' where cb: "sso_callback sha512 loads cfg token next now se conf seen = (r, se', seen')"
    using prod_cases3 by blast
  show ?thesis
  proof (cases "se' = se")
    case False
    obtain v s where ver: "sso_verify sha512 loads cfg token now seen = (v, s)" by fastforce
    from cb False obtain sub u where su: "v = Some sub" "map_of (cf_users conf) sub = Some u"
      "se' = start_session sub u" "r = Done (safe_next next)"
      by (auto simp: sso_callback_def ver split: if_splits option.splits)
    then obtain jti ex where "check_assertion sha512 loads cfg token now = Some (sub, jti, ex)"
      using ver by (auto simp: sso_verify_def split: option.splits prod.splits bool.splits)
    then obtain c t header payload msg sig where a: "cfg = Some c" "token = Some t"
      "open_token loads t = Some (header, payload, msg, sig)" "ed_verify sha512 (pubkey_bytes cfg) msg sig"
      "check_claims c payload now = Some (sub, jti, ex)"
      using check_assertion_some by blast
    note cl = check_claims_some [OF a(5)]
    have "resolve_session se' conf = Login sub (u_role u) None"
      using su(2,3) cl(6) by (simp add: resolve_session_def start_session_def)
    with a cl su show ?thesis unfolding cb prod.case by blast
  qed (simp add: cb)
qed

lemma safe_next_Some:
  "safe_next (Some s) = (let t = map (\<lambda>c. if c = CHR 0x5C then CHR ''/'' else c) s
     in if s \<noteq> [] \<and> length s \<le> 512 \<and> (\<forall>c\<in>set s. 32 \<le> (of_char c :: nat) \<and> (of_char c :: nat) \<noteq> 127) \<and>
           startswith ''/'' t \<and> \<not> startswith ''//'' t then t else ''/'')"
  by (auto simp: safe_next_def Let_def not_less)

text \<open>The return path stays on this site: it begins with a single slash (so it names neither a host nor
  a scheme), holds no backslash and no control character, and cleaning it again changes nothing.\<close>

theorem safe_next_same_site:
  "startswith ''/'' (safe_next v) \<and> \<not> startswith ''//'' (safe_next v) \<and> CHR 0x5C \<notin> set (safe_next v) \<and>
   (\<nexists>c. c \<in> set (safe_next v) \<and> ((of_char c :: nat) < 32 \<or> (of_char c :: nat) = 127)) \<and>
   length (safe_next v) \<le> 512 \<and> safe_next (Some (safe_next v)) = safe_next v"
proof -
  define clean :: "string \<Rightarrow> string" where "clean = map (\<lambda>c. if c = CHR 0x5C then CHR ''/'' else c)"
  have "safe_next v = ''/'' \<or> (\<exists>s. safe_next v = clean s \<and> s \<noteq> [] \<and> length s \<le> 512 \<and>
      (\<forall>c\<in>set s. 32 \<le> (of_char c :: nat) \<and> (of_char c :: nat) \<noteq> 127) \<and>
      startswith ''/'' (clean s) \<and> \<not> startswith ''//'' (clean s))"
  proof (cases v)
    case (Some s)
    show ?thesis unfolding Some safe_next_Some clean_def by (auto simp: Let_def)
  qed (simp add: safe_next_def)
  then show ?thesis
  proof
    assume "safe_next v = ''/''"
    then show ?thesis by (simp add: safe_next_def startswith_def)
  next
    assume "\<exists>s. safe_next v = clean s \<and> s \<noteq> [] \<and> length s \<le> 512 \<and>
      (\<forall>c\<in>set s. 32 \<le> (of_char c :: nat) \<and> (of_char c :: nat) \<noteq> 127) \<and>
      startswith ''/'' (clean s) \<and> \<not> startswith ''//'' (clean s)"
    then obtain s where s: "safe_next v = clean s" "s \<noteq> []" "length s \<le> 512"
      "\<forall>c\<in>set s. 32 \<le> (of_char c :: nat) \<and> (of_char c :: nat) \<noteq> 127"
      "startswith ''/'' (clean s)" "\<not> startswith ''//'' (clean s)" by blast
    have ctl: "32 \<le> (of_char c :: nat) \<and> (of_char c :: nat) \<noteq> 127 \<and> c \<noteq> CHR 0x5C" if "c \<in> set (clean s)" for c
      using that s(4) by (auto simp: clean_def)
    have idem: "clean (clean s) = clean s" by (simp add: clean_def)
    have len: "clean s \<noteq> []" "length (clean s) \<le> 512" using s(2,3) by (simp_all add: clean_def)
    have none: "\<not> (\<exists>c\<in>set (clean s). (of_char c :: nat) < 32 \<or> (of_char c :: nat) = 127)"
      using ctl by fastforce
    have "safe_next (Some (clean s)) = clean s"
      using len s(5,6) none idem by (simp add: safe_next_def clean_def [symmetric] Let_def)
    with s(1,5,6) len(2) ctl none show ?thesis by auto
  qed
qed

section \<open>The decoder undoes the issuer's encoding\<close>

text \<open>Unpadded URL-safe base64, as the issuer writes it (the specification of the decoder).\<close>

definition b64_code :: "nat \<Rightarrow> nat" where
  "b64_code v = (if v < 26 then v + 65 else if v < 52 then v + 71 else if v < 62 then v - 4 else if v = 62 then 45 else 95)"

fun b64u_codes :: "bytes \<Rightarrow> nat list" where
  "b64u_codes [] = []"
| "b64u_codes [x] = map b64_code [unat x div 4, unat x mod 4 * 16]"
| "b64u_codes [x, y] = map b64_code [unat x div 4, unat x mod 4 * 16 + unat y div 16, unat y mod 16 * 4]"
| "b64u_codes (x # y # z # bs) =
     map b64_code [unat x div 4, unat x mod 4 * 16 + unat y div 16, unat y mod 16 * 4 + unat z div 64, unat z mod 64] @
     b64u_codes bs"

definition b64u_encode :: "bytes \<Rightarrow> string" where
  "b64u_encode bs = map char_of (b64u_codes bs)"

lemma b64_val_code: "v < 64 \<Longrightarrow> b64_val (b64_code v) = Some v" "v < 64 \<Longrightarrow> b64_code v \<noteq> 61" "b64_code v < 123"
  by (auto simp: b64_val_def b64_code_def)

lemma byte_lt: "unat (x :: 8 word) < 256"
proof -
  have "unat x < 2 ^ LENGTH(8)" by (rule unsigned_less)
  then show ?thesis by simp
qed

lemma word_back: "of_nat (unat (x :: 8 word)) = x"
  by simp

lemma byte_join: "of_nat (unat x div 4 * 4 + (unat x mod 4 * 16 + unat (y :: 8 word) div 16) div 16) = (x :: 8 word)"
  "(unat x mod 4 * 16 + unat y div 16) mod 16 = unat y div 16"
  "of_nat (unat y div 16 * 16 + (unat y mod 16 * 4 + unat (z :: 8 word) div 64) div 4) = y"
  "(unat y mod 16 * 4 + unat z div 64) mod 4 = unat z div 64"
  "of_nat (unat z div 64 * 64 + unat z mod 64) = z"
proof -
  have y: "unat y div 16 < 16" and z: "unat z div 64 < 4" using byte_lt [of y] byte_lt [of z] by simp_all
  then have "(unat x mod 4 * 16 + unat y div 16) div 16 = unat x mod 4" by simp
  then show "of_nat (unat x div 4 * 4 + (unat x mod 4 * 16 + unat y div 16) div 16) = x"
    by (simp only: div_mult_mod_eq word_back)
  from z have "(unat y mod 16 * 4 + unat z div 64) div 4 = unat y mod 16" by simp
  then show "of_nat (unat y div 16 * 16 + (unat y mod 16 * 4 + unat z div 64) div 4) = y"
    by (simp only: div_mult_mod_eq word_back)
  show "of_nat (unat z div 64 * 64 + unat z mod 64) = z" by (simp only: div_mult_mod_eq word_back)
qed (use byte_lt [of y] byte_lt [of z] in simp_all)

lemma a2b_step:
  "v < 64 \<Longrightarrow> a2b 0 l p (b64_code v # cs) = a2b 1 v 0 cs"
  "v < 64 \<Longrightarrow> a2b (Suc 0) l p (b64_code v # cs) = map_option ((#) (of_nat (l * 4 + v div 16))) (a2b 2 (v mod 16) 0 cs)"
  "v < 64 \<Longrightarrow> a2b 2 l p (b64_code v # cs) = map_option ((#) (of_nat (l * 16 + v div 4))) (a2b 3 (v mod 4) 0 cs)"
  "v < 64 \<Longrightarrow> a2b 3 l p (b64_code v # cs) = map_option ((#) (of_nat (l * 64 + v))) (a2b 0 0 0 cs)"
  by (simp_all add: b64_val_code)

lemma a2b_four:
  "v1 < 64 \<Longrightarrow> v2 < 64 \<Longrightarrow> v3 < 64 \<Longrightarrow> v4 < 64 \<Longrightarrow> a2b 0 l p (map b64_code [v1, v2, v3, v4] @ rest) =
     map_option (\<lambda>r. of_nat (v1 * 4 + v2 div 16) # of_nat (v2 mod 16 * 16 + v3 div 4) # of_nat (v3 mod 4 * 64 + v4) # r)
       (a2b 0 0 0 rest)"
  by (simp add: a2b_step option.map_comp comp_def del: a2b.simps of_nat_add of_nat_mult)

lemma a2b_three:
  "v1 < 64 \<Longrightarrow> v2 < 64 \<Longrightarrow> v3 < 64 \<Longrightarrow> a2b 0 l p (map b64_code [v1, v2, v3] @ [61]) =
     Some [of_nat (v1 * 4 + v2 div 16), of_nat (v2 mod 16 * 16 + v3 div 4)]"
proof -
  have "a2b 3 k 0 [61] = Some []" for k by simp
  then show "v1 < 64 \<Longrightarrow> v2 < 64 \<Longrightarrow> v3 < 64 \<Longrightarrow> ?thesis"
    by (simp add: a2b_step del: a2b.simps of_nat_add of_nat_mult)
qed

lemma a2b_two:
  "v1 < 64 \<Longrightarrow> v2 < 64 \<Longrightarrow> a2b 0 l p (map b64_code [v1, v2] @ [61, 61]) = Some [of_nat (v1 * 4 + v2 div 16)]"
proof -
  have "a2b 2 k 0 [61, 61] = Some []" for k by simp
  then show "v1 < 64 \<Longrightarrow> v2 < 64 \<Longrightarrow> ?thesis"
    by (simp add: a2b_step del: a2b.simps of_nat_add of_nat_mult)
qed

lemma code_values:
  "unat (x :: 8 word) div 4 < 64" "unat x mod 4 * 16 + unat (y :: 8 word) div 16 < 64"
  "unat y mod 16 * 4 + unat (z :: 8 word) div 64 < 64" "unat z mod 64 < 64" "unat x mod 4 * 16 < 64" "unat y mod 16 * 4 < 64"
  using byte_lt [of x] byte_lt [of y] byte_lt [of z] by simp_all

lemma a2b_codes: "a2b 0 l p (b64u_codes bs @ pad_to_quad (length (b64u_codes bs))) = Some bs"
proof (induction bs arbitrary: l p rule: b64u_codes.induct)
  case (2 x)
  have "a2b 0 l p (b64u_codes [x] @ pad_to_quad (length (b64u_codes [x]))) = a2b 0 l p (map b64_code [unat x div 4, unat x mod 4 * 16] @ [61, 61])"
    by (simp add: pad_to_quad_def numeral_2_eq_2 del: a2b.simps)
  also have "\<dots> = Some [of_nat (unat x div 4 * 4 + (unat x mod 4 * 16) div 16)]"
    by (rule a2b_two [OF code_values(1,5)])
  also have "\<dots> = Some [x]" by simp
  finally show ?case .
next
  case (3 x y)
  have "a2b 0 l p (b64u_codes [x, y] @ pad_to_quad (length (b64u_codes [x, y]))) =
      a2b 0 l p (map b64_code [unat x div 4, unat x mod 4 * 16 + unat y div 16, unat y mod 16 * 4] @ [61])"
    by (simp add: pad_to_quad_def del: a2b.simps)
  also have "\<dots> = Some [of_nat (unat x div 4 * 4 + (unat x mod 4 * 16 + unat y div 16) div 16),
      of_nat ((unat x mod 4 * 16 + unat y div 16) mod 16 * 16 + (unat y mod 16 * 4) div 4)]"
    by (rule a2b_three [OF code_values(1,2,6)])
  also have "(unat y mod 16 * 4) div 4 = unat y mod 16" by simp
  finally show ?case unfolding byte_join(1,2) by (simp only: div_mult_mod_eq word_back)
next
  case (4 x y z bs)
  have pad: "pad_to_quad (length (b64u_codes (x # y # z # bs))) = pad_to_quad (length (b64u_codes bs))"
    by (simp add: pad_to_quad_def)
  have step: "a2b 0 l p (b64u_codes (x # y # z # bs) @ rest) = map_option (\<lambda>r. x # y # z # r) (a2b 0 0 0 (b64u_codes bs @ rest))" for rest
    unfolding b64u_codes.simps append_assoc a2b_four [OF code_values(1-4)] byte_join ..
  show ?case unfolding pad step 4 by simp
qed (simp add: pad_to_quad_def)

lemma codes_ascii: "n \<in> set (b64u_codes bs) \<Longrightarrow> n < 128"
proof -
  have "b64_code v < 128" for v using b64_val_code(3) [of v] by simp
  then show "n \<in> set (b64u_codes bs) \<Longrightarrow> n < 128" by (induction bs rule: b64u_codes.induct) auto
qed

text \<open>What an issuer encodes as unpadded URL-safe base64, the decoder gives back, for every byte string.\<close>

theorem b64_roundtrip: "b64u_decode (b64u_encode bs) = Some bs"
proof -
  have "utf8 (map char_of ns) = ns" if "\<forall>n\<in>set ns. n < 128" for ns
    using that by (induction ns) (auto simp: utf8_def utf8_char_def of_char_of)
  then have "utf8 (b64u_encode bs) = b64u_codes bs" using codes_ascii by (simp add: b64u_encode_def)
  then show ?thesis by (simp add: b64u_decode_def Let_def a2b_codes)
qed

section \<open>Enrollment\<close>

text \<open>Where the host's environment fixes the issuer, no enrollment and no removal changes the stored file
  or the configuration in force; elsewhere a successful enrollment stores what the issuer announced, and
  that is the configuration from then on, for an issuer whose answer is text.\<close>

theorem enrollment_in_force:
  "(sso_locked env \<longrightarrow> snd (sso_enroll env ask data file) = file \<and> snd (sso_disable check_pw env c d conf file) = file \<and>
      sso_config env h file = sso_config env h file') \<and>
   (\<not> sso_locked env \<and> sso_enroll env ask data file = (Done (JStr iss, JStr aud, kid), file') \<and> rstrip_slash iss \<noteq> [] \<and> aud \<noteq> [] \<longrightarrow>
      (\<exists>cf. sso_config env h file' = Some cf \<and> so_issuer cf = rstrip_slash iss \<and> so_audience cf = aud \<and> so_source cf = ''stored''))"
proof -
  have idem: "rstrip_slash (rstrip_slash u) = rstrip_slash u" for u by (simp add: rstrip_slash_def)
  have ok: "truthy (jget d ''issuer'') \<and> truthy (jget d ''key'') \<and> truthy (jget d ''audience'')" if "redeem r = Done d" for r d
    using that by (auto simp: redeem_def find_None_iff split: issuer_reply.splits json.splits if_splits option.splits)
  have en: "\<exists>cf. sso_config env h file' = Some cf \<and> so_issuer cf = rstrip_slash iss \<and> so_audience cf = aud \<and> so_source cf = ''stored''"
    if lk: "\<not> sso_locked env" and e: "sso_enroll env ask data file = (Done (JStr iss, JStr aud, kid), file')"
      and ne: "rstrip_slash iss \<noteq> []" "aud \<noteq> []"
  proof -
    obtain d r where d: "redeem r = Done d" "jget d ''issuer'' = JStr iss" "jget d ''audience'' = JStr aud"
      "file' = save_stored (JStr iss) (jget d ''key'') (kid_or_empty d) (JStr aud)"
      using e lk by (auto simp: sso_enroll_def Let_def split: if_splits resp.splits)
    then show ?thesis using lk ne ok [OF d(1)] idem
      by (simp add: sso_config_def sso_locked_def stored_of_def save_stored_def jget_def py_str_def)
  qed
  show ?thesis using en by (auto simp: sso_locked_def sso_enroll_def sso_disable_def sso_config_def)
qed

definition no_env :: sso_env where
  "no_env = \<lparr>env_issuer = [], env_pubkey = [], env_kid = [], env_audience = [], env_auto_redirect = False\<rparr>"

definition enroll_body :: "json dict" where
  "enroll_body = [(''issuer'', JStr ''https://sso.lan/''), (''code'', JStr ''abc'')]"

definition issuer_says :: json where
  "issuer_says = JObj [(''success'', JBool True), (''issuer'', JStr ''https://sso.lan''), (''key'', JStr ''AAAA''), (''audience'', JStr ''ctl'')]"

theorem enrollment_in_force_witness:
  "\<exists>cf. sso_config no_env ''host'' (snd (sso_enroll no_env (\<lambda>i c. Reply issuer_says) enroll_body None)) = Some cf \<and> so_audience cf = ''ctl''"
proof -
  have e: "sso_enroll no_env (\<lambda>i c. Reply issuer_says) enroll_body None =
      (Done (JStr ''https://sso.lan'', JStr ''ctl'', JStr []), snd (sso_enroll no_env (\<lambda>i c. Reply issuer_says) enroll_body None))"
    by code_simp
  have r: "rstrip_slash ''https://sso.lan'' \<noteq> []" "\<not> sso_locked no_env" by code_simp+
  show ?thesis
    using enrollment_in_force [of no_env "\<lambda>i c. Reply issuer_says" enroll_body None] e r by blast
qed

end
