(* ===== verification/History.thy ===== *)
theory History
  imports Fleet
begin

text \<open>
  The sample history (\<open>history.py\<close>) and its routes in \<open>app.py\<close>: the ring buffer of per-host samples,
  least squares, the capacity forecast, downsampling and availability. The table is a list of rows in
  insertion order; a time stamp is never \<open>NULL\<close>. Floating-point arithmetic is exact here: a rational
  stands for a float, and rounding errors of the source are not modelled.
\<close>

section \<open>Trend arithmetic\<close>

text \<open>\<open>linreg\<close>: points with a missing coordinate are dropped first.\<close>

definition present_points :: "(rat option \<times> rat option) list \<Rightarrow> (rat \<times> rat) list" where
  "present_points ps = concat (map (\<lambda>p. case p of (Some x, Some y) \<Rightarrow> [(x, y)] | _ \<Rightarrow> []) ps)"

definition linreg :: "(rat option \<times> rat option) list \<Rightarrow> (rat \<times> rat) option" where
  "linreg points =
     (let pts = present_points points; n = of_nat (length pts)
      in if length pts < 2 then None
         else
           let sx = (\<Sum>(x, y)\<leftarrow>pts. x); sy = (\<Sum>(x, y)\<leftarrow>pts. y);
               sxx = (\<Sum>(x, y)\<leftarrow>pts. x * x); sxy = (\<Sum>(x, y)\<leftarrow>pts. x * y);
               denom = n * sxx - sx * sx
           in if denom = 0 then None
              else let slope = (n * sxy - sx * sy) / denom; intercept = (sy - slope * sx) / n
                in Some (slope, intercept))"

datatype trend = Flat | Shrinking | Growing

record forecast =
  fc_per_day :: rat
  fc_days_to_full :: "rat option"
  fc_trend :: trend

definition MIN_SPAN_HOURS :: rat where "MIN_SPAN_HOURS = 1"

definition forecast_capacity :: "(rat option \<times> rat option) list \<Rightarrow> rat \<Rightarrow> rat option \<Rightarrow> forecast option" where
  "forecast_capacity points capacity used_now =
     (let pts = present_points points
      in if length pts < 4 \<or> capacity = 0 then None
         else if Max (fst ` set pts) - Min (fst ` set pts) < MIN_SPAN_HOURS * 3600 then None
         else (case linreg (map (\<lambda>(x, y). (Some x, Some y)) pts) of
             None \<Rightarrow> None
           | Some (slope, intercept) \<Rightarrow>
               let per_day = slope * 86400;
                   used = (case used_now of Some u \<Rightarrow> u | None \<Rightarrow> snd (last pts))
               in if \<bar>per_day\<bar> < capacity / 3650
                    then Some \<lparr>fc_per_day = per_day, fc_days_to_full = None, fc_trend = Flat\<rparr>
                  else if per_day \<le> 0
                    then Some \<lparr>fc_per_day = per_day, fc_days_to_full = None, fc_trend = Shrinking\<rparr>
                  else Some \<lparr>fc_per_day = per_day, fc_days_to_full = Some (max 0 (capacity - used) / per_day),
                         fc_trend = Growing\<rparr>))"

section \<open>Downsampling\<close>

definition mean :: "rat list \<Rightarrow> rat option" where
  "mean vs = (if vs = [] then None else Some (sum_list vs / of_nat (length vs)))"

definition known_values :: "rat option list \<Rightarrow> rat list" where
  "known_values vs = concat (map (\<lambda>v. case v of None \<Rightarrow> [] | Some x \<Rightarrow> [x]) vs)"

definition bucket_of :: "int \<Rightarrow> rat \<Rightarrow> int \<Rightarrow> int \<Rightarrow> int" where
  "bucket_of t0 width buckets ts = min (buckets - 1) (py_trunc (of_int (ts - t0) / width))"

text \<open>\<open>acc.setdefault(b, []).append(v)\<close>.\<close>

definition add_to :: "int \<Rightarrow> rat option \<Rightarrow> (int \<times> rat option list) list \<Rightarrow> (int \<times> rat option list) list" where
  "add_to b v acc = AList.update b ((case map_of acc b of None \<Rightarrow> [] | Some vs \<Rightarrow> vs) @ [v]) acc"

definition downsample :: "(int \<times> rat option) list \<Rightarrow> int \<Rightarrow> (int \<times> rat option) list" where
  "downsample rows0 buckets =
     (let rows = sort_key fst rows0
      in if rows = [] \<or> buckets < 1 then []
         else
           let t0 = fst (hd rows); t1 = fst (last rows)
           in if t1 = t0 then [(t0, mean (known_values (map snd rows)))]
              else
                let width = of_int (t1 - t0) / of_int buckets;
                    acc = foldl (\<lambda>d (ts, v). add_to (bucket_of t0 width buckets ts) v d) [] rows
                in map (\<lambda>(b, vs). (py_trunc (of_int t0 + of_int b * width), mean (known_values vs))) (sort_key fst acc))"

section \<open>The store\<close>

record sample =
  sm_host :: string
  sm_ts :: int
  sm_ok :: bool
  sm_cpu :: "rat option"
  sm_mem :: "rat option"
  sm_used :: "int option"
  sm_size :: "int option"

definition HISTORY_DAYS :: int where "HISTORY_DAYS = 30"

definition retention :: int where "retention = HISTORY_DAYS * 86400"

definition sample_of :: "int \<Rightarrow> envelope \<Rightarrow> sample" where
  "sample_of now r = \<lparr>sm_host = e_id r, sm_ts = now, sm_ok = e_ok r, sm_cpu = e_cpu_pct r, sm_mem = e_mem_pct r,
     sm_used = (if e_used_bytes r = 0 then None else Some (e_used_bytes r)),
     sm_size = (if e_size_bytes r = 0 then None else Some (e_size_bytes r))\<rparr>"

text \<open>\<open>HistoryStore.record\<close>: one row per host with an id, then the prune.\<close>

definition record_samples :: "envelope list \<Rightarrow> int \<Rightarrow> sample list \<Rightarrow> sample list" where
  "record_samples results now store =
     filter (\<lambda>s. \<not> sm_ts s < now - retention)
       (store @ map (sample_of now) (filter (\<lambda>r. e_id r \<noteq> []) results))"

definition query :: "string \<Rightarrow> int \<Rightarrow> sample list \<Rightarrow> sample list" where
  "query host since store = sort_key sm_ts (filter (\<lambda>s. sm_host s = host \<and> since \<le> sm_ts s) store)"

definition since_of :: "rat \<Rightarrow> rat \<Rightarrow> int" where
  "since_of now hours = py_trunc now - py_trunc (hours * 3600)"

text \<open>\<open>series\<close>: any metric but \<open>mem\<close> reads the CPU column.\<close>

definition series :: "rat \<Rightarrow> string \<Rightarrow> rat \<Rightarrow> int \<Rightarrow> string \<Rightarrow> sample list \<Rightarrow> (int \<times> rat option) list" where
  "series now host hours buckets metric store =
     downsample (map (\<lambda>s. (sm_ts s, if metric = ''mem'' then sm_mem s else sm_cpu s))
       (query host (since_of now hours) store)) buckets"

text \<open>Python's \<open>round(x, n)\<close>.\<close>

definition round_to :: "nat \<Rightarrow> rat \<Rightarrow> rat" where
  "round_to n x = of_int (py_round (x * 10 ^ n)) / 10 ^ n"

definition availability :: "rat \<Rightarrow> string \<Rightarrow> rat \<Rightarrow> sample list \<Rightarrow> rat option \<times> nat" where
  "availability now host hours store =
     (let rows = filter (\<lambda>s. sm_host s = host \<and> since_of now hours \<le> sm_ts s) store
      in (case mean (map (\<lambda>s. if sm_ok s then 1 else 0) rows) of None \<Rightarrow> None
          | Some avg \<Rightarrow> Some (round_to 2 (avg * 100)), length rows))"

definition storage_points :: "rat \<Rightarrow> string \<Rightarrow> rat \<Rightarrow> sample list \<Rightarrow> (int \<times> int) list" where
  "storage_points now host hours store =
     concat (map (\<lambda>s. case sm_used s of None \<Rightarrow> [] | Some u \<Rightarrow> [(sm_ts s, u)])
       (query host (since_of now hours) store))"

section \<open>The routes\<close>

text \<open>\<open>_qnum\<close> with \<open>float\<close> and with \<open>int\<close>: \<open>None\<close> is a missing parameter. \<open>max\<close> and \<open>min\<close> keep their first
  argument when a comparison with \<open>NaN\<close> fails.\<close>

definition qnum_float :: "string option \<Rightarrow> rat \<Rightarrow> rat \<Rightarrow> rat \<Rightarrow> rat" where
  "qnum_float arg dflt lo hi =
     (let v = (case arg of None \<Rightarrow> Fin dflt
         | Some t \<Rightarrow> (case py_float (JStr t) of Inl e \<Rightarrow> Fin dflt | Inr x \<Rightarrow> x));
          m = (if fl_less (Fin lo) v then v else Fin lo)
      in case (if fl_less m (Fin hi) then m else Fin hi) of Fin r \<Rightarrow> r | _ \<Rightarrow> hi)"

definition qnum_int :: "string option \<Rightarrow> int \<Rightarrow> int \<Rightarrow> int \<Rightarrow> int" where
  "qnum_int arg dflt lo hi =
     (let v = (case arg of None \<Rightarrow> dflt | Some t \<Rightarrow> (case int_of_str t of None \<Rightarrow> dflt | Some i \<Rightarrow> i))
      in min hi (max lo v))"

definition history_spark :: "ctx \<Rightarrow> rat \<Rightarrow> string option \<Rightarrow> string option \<Rightarrow> string option \<Rightarrow> node list \<Rightarrow> sample list \<Rightarrow>
    rat option list dict" where
  "history_spark c now hours buckets metric nodes store =
     (let h = qnum_float hours 6 1 168; b = qnum_int buckets 24 4 60;
          m = (case metric of None \<Rightarrow> ''cpu'' | Some x \<Rightarrow> x)
      in foldl (\<lambda>d n. let pts = series now (n_id n) h b m store
           in if pts = [] then d else AList.update (n_id n) (map (\<lambda>(t, v). map_option (round_to 1) v) pts) d)
         [] (visible_nodes (g_scope c) nodes))"

record host_history =
  hh_availability :: "rat option"
  hh_samples :: nat
  hh_forecast :: "forecast option"

definition rat_points :: "(int \<times> int) list \<Rightarrow> (rat option \<times> rat option) list" where
  "rat_points ps = map (\<lambda>(t, u). (Some (of_int t), Some (of_int u))) ps"

definition host_sizes :: "fleet option \<Rightarrow> string \<Rightarrow> int \<times> int" where
  "host_sizes data hid = (case data of None \<Rightarrow> (0, 0)
     | Some f \<Rightarrow> (case find_by e_id hid (rev (f_nodes f)) of None \<Rightarrow> (0, 0) | Some r \<Rightarrow> (e_size_bytes r, e_used_bytes r)))"

definition host_summary :: "rat \<Rightarrow> rat \<Rightarrow> fleet option \<Rightarrow> sample list \<Rightarrow> string \<Rightarrow> host_history" where
  "host_summary now hours data store hid =
     (let (avail, n) = availability now hid hours store; (capacity, used) = host_sizes data hid
      in \<lparr>hh_availability = avail, hh_samples = n,
          hh_forecast = (if capacity = 0 then None
            else forecast_capacity (rat_points (storage_points now hid hours store)) (of_int capacity) (Some (of_int used)))\<rparr>)"

text \<open>\<open>fleet_pts[ts] = fleet_pts.get(ts, 0) + u\<close>.\<close>

definition add_point :: "(int \<times> int) list \<Rightarrow> int \<times> int \<Rightarrow> (int \<times> int) list" where
  "add_point d p = AList.update (fst p) ((case map_of d (fst p) of None \<Rightarrow> 0 | Some v \<Rightarrow> v) + snd p) d"

definition history_summary :: "ctx \<Rightarrow> rat \<Rightarrow> string option \<Rightarrow> app \<Rightarrow> sample list \<Rightarrow> host_history dict \<times> forecast option" where
  "history_summary c now hours_arg s store =
     (let hours = qnum_float hours_arg 168 1 720;
          ids = map n_id (visible_nodes (g_scope c) (st_nodes s));
          hosts = foldl (\<lambda>d i. AList.update i (host_summary now hours (st_cache s) store i) d) [] ids;
          pts = foldl add_point [] (concat (map (\<lambda>i. storage_points now i hours store) ids));
          capacity = (\<Sum>i\<leftarrow>ids. fst (host_sizes (st_cache s) i)); used = (\<Sum>i\<leftarrow>ids. snd (host_sizes (st_cache s) i))
      in (hosts, if capacity = 0 then None
            else forecast_capacity (rat_points (sort_key fst pts)) (of_int capacity) (Some (of_int used))))"

record host_series =
  hs_cpu :: "(int \<times> rat option) list"
  hs_mem :: "(int \<times> rat option) list"
  hs_availability :: "rat option"

definition history_host :: "ctx \<Rightarrow> rat \<Rightarrow> string \<Rightarrow> string option \<Rightarrow> string option \<Rightarrow> node list \<Rightarrow> sample list \<Rightarrow> host_series resp" where
  "history_host c now hid hours_arg buckets_arg nodes store =
     (case find_node (g_scope c) hid nodes of
        None \<Rightarrow> Fail 404 ''node not found''
      | Some n \<Rightarrow>
          let hours = qnum_float hours_arg 24 1 720; buckets = qnum_int buckets_arg 96 4 200
          in Done \<lparr>hs_cpu = series now hid hours buckets ''cpu'' store, hs_mem = series now hid hours buckets ''mem'' store,
               hs_availability = fst (availability now hid hours store)\<rparr>)"

end
