(* ===== verification/HistoryFacts.thy ===== *)
theory HistoryFacts
  imports History
begin

text \<open>
  What the history promises: the ring buffer holds exactly the last thirty days, downsampling is the
  mean over equal time slices and loses no sample, least squares recovers a line, and the forecast of
  a steadily filling disk names the moment it is full.
\<close>

section \<open>The ring buffer\<close>

definition samples_of :: "envelope list \<times> int \<Rightarrow> sample list" where
  "samples_of c = map (sample_of (snd c)) (filter (\<lambda>r. e_id r \<noteq> []) (fst c))"

definition store_after :: "(envelope list \<times> int) list \<Rightarrow> sample list" where
  "store_after cs = foldl (\<lambda>store (rs, now). record_samples rs now store) [] cs"

lemma record_samples_append:
  "record_samples rs now store = filter (\<lambda>s. now - retention \<le> sm_ts s) (store @ samples_of (rs, now))"
  by (simp add: record_samples_def samples_of_def not_less)

lemma filter_stricter: "(\<And>x. Q x \<Longrightarrow> P x) \<Longrightarrow> filter Q (filter P xs) = filter Q xs"
  by (induction xs) auto

text \<open>After any run of the monitor at nondecreasing times the store is exactly the samples of the last
  thirty days: everything older is gone, nothing younger is lost, in the order it was recorded.\<close>

theorem history_window:
  assumes "sorted (map snd cs)" and "cs \<noteq> []"
  shows "store_after cs = filter (\<lambda>s. snd (last cs) - retention \<le> sm_ts s) (concat (map samples_of cs))"
  using assms
proof (induction cs rule: rev_induct)
  case (snoc c cs)
  obtain rs now where c: "c = (rs, now)" by fastforce
  show ?case
  proof (cases "cs = []")
    case True
    then show ?thesis by (simp add: store_after_def c record_samples_append)
  next
    case False
    then have "snd (last cs) \<le> now" using snoc.prems(1) c by (simp add: sorted_append)
    then have "filter (\<lambda>s. now - retention \<le> sm_ts s) (filter (\<lambda>s. snd (last cs) - retention \<le> sm_ts s) xs) =
        filter (\<lambda>s. now - retention \<le> sm_ts s) xs" for xs
      by (intro filter_stricter) linarith
    moreover have "store_after (cs @ [c]) = record_samples rs now (store_after cs)"
      by (simp add: store_after_def c)
    ultimately show ?thesis
      using snoc.IH snoc.prems(1) False by (simp add: c record_samples_append sorted_append)
  qed
qed simp

section \<open>Downsampling\<close>

lemma add_to_lookup:
  "map_of (add_to b v acc) c = (if c = b then Some ((case map_of acc b of None \<Rightarrow> [] | Some vs \<Rightarrow> vs) @ [v]) else map_of acc c)"
  by (simp add: add_to_def)

text \<open>What \<open>acc\<close> holds: for every bucket that occurs the values of its rows, in order.\<close>

lemma acc_lookup:
  fixes g :: "int \<Rightarrow> int"
  shows "map_of (foldl (\<lambda>d (ts, v). add_to (g ts) v d) [] rows) b =
     (if \<exists>r\<in>set rows. g (fst r) = b then Some (map snd (filter (\<lambda>r. g (fst r) = b) rows)) else None)
   \<and> distinct (map fst (foldl (\<lambda>d (ts, v). add_to (g ts) v d) [] rows))"
proof (induction rows arbitrary: b rule: rev_induct)
  case (snoc r rows)
  let ?acc = "foldl (\<lambda>d (ts, v). add_to (g ts) v d) [] rows"
  obtain t v where r: "r = (t, v)" by fastforce
  have none: "\<not> (\<exists>r\<in>set rows. g (fst r) = g t) \<Longrightarrow> filter (\<lambda>r. g (fst r) = g t) rows = []"
    by (auto simp: filter_empty_conv)
  have "distinct (map fst (add_to (g t) v ?acc))"
    using snoc.IH by (simp add: add_to_def distinct_keys_update)
  moreover have "map_of (add_to (g t) v ?acc) b =
     (if \<exists>r\<in>set (rows @ [r]). g (fst r) = b then Some (map snd (filter (\<lambda>r. g (fst r) = b) (rows @ [r]))) else None)"
    using snoc.IH none by (auto simp: add_to_lookup r)
  ultimately show ?case by (simp add: r)
qed simp

lemma sort_acc:
  fixes acc :: "(int \<times> 'a) list"
  assumes "distinct (map fst acc)"
  shows "sort_key fst acc = map (\<lambda>k. (k, the (map_of acc k))) (sorted_list_of_set (fst ` set acc))"
proof -
  have keys: "map fst (sort_key fst acc) = sorted_list_of_set (fst ` set acc)"
    using assms by (intro sorted_distinct_set_unique) (auto simp: distinct_map)
  have "(fst p, the (map_of acc (fst p))) = p" if "p \<in> set acc" for p
  proof -
    have "map_of acc (fst p) = Some (snd p)" using assms that by simp
    then show ?thesis by simp
  qed
  then have "sort_key fst acc = map (\<lambda>p. (fst p, the (map_of acc (fst p)))) (sort_key fst acc)"
    by (intro map_idI [symmetric]) simp
  also have "\<dots> = map (\<lambda>k. (k, the (map_of acc k))) (map fst (sort_key fst acc))" by simp
  finally show ?thesis unfolding keys .
qed

text \<open>The slice of a row, and the mean of a slice.\<close>

definition slice :: "(int \<times> rat option) list \<Rightarrow> (int \<Rightarrow> int) \<Rightarrow> int \<Rightarrow> rat option list" where
  "slice rows g b = map snd (filter (\<lambda>r. g (fst r) = b) rows)"

lemma bucket_range:
  assumes "0 < w" and "t0 \<le> ts" and "1 \<le> n"
  shows "0 \<le> bucket_of t0 w n ts" "bucket_of t0 w n ts < n"
proof -
  have q: "0 \<le> of_int (ts - t0) / w" using assms(1,2) by simp
  then have "0 \<le> \<lfloor>of_int (ts - t0) / w\<rfloor>" by (simp only: zero_le_floor)
  moreover have "py_trunc (of_int (ts - t0) / w) = \<lfloor>of_int (ts - t0) / w\<rfloor>"
    using q unfolding py_trunc_def by (simp only: not_less [symmetric] if_False)
  ultimately show "0 \<le> bucket_of t0 w n ts" "bucket_of t0 w n ts < n"
    using assms(3) by (simp_all only: bucket_of_def)
qed

lemma keys_as_upto:
  assumes "\<And>k. k \<in> A \<Longrightarrow> 0 \<le> k \<and> k < n"
  shows "sorted_list_of_set A = filter (\<lambda>k. k \<in> A) [0..n - 1]"
proof -
  have "finite A" by (rule finite_subset [of _ "{0..n}"]) (use assms in force)+
  moreover have "set (filter (\<lambda>k. k \<in> A) [0..n - 1]) = A" using assms by force
  moreover have "sorted (filter (\<lambda>k. k \<in> A) [0..n - 1])" by (simp add: sorted_wrt_filter)
  ultimately show ?thesis by (intro sorted_distinct_set_unique) simp_all
qed

lemma sorted_ends:
  assumes "sorted (map fst rows)" and "r \<in> set rows"
  shows "fst (hd rows) \<le> fst r" and "fst r \<le> fst (last rows)"
proof -
  show "fst (hd rows) \<le> fst r" using assms by (cases rows) auto
  show "fst r \<le> fst (last rows)" using assms by (cases rows rule: rev_cases) (auto simp: sorted_append)
qed

text \<open>Downsampling cuts the window into equal slices and gives the mean of each slice that has rows, in
  time order: every row counts in exactly one slice, and there are at most as many points as asked for.\<close>

theorem downsample_slices:
  fixes rows0 :: "(int \<times> rat option) list"
  assumes "1 \<le> n"
  defines "rows \<equiv> sort_key fst rows0" and "t0 \<equiv> fst (hd (sort_key fst rows0))" and "t1 \<equiv> fst (last (sort_key fst rows0))"
  defines "w \<equiv> of_int (t1 - t0) / (of_int n :: rat)"
  assumes "t0 < t1" and "rows0 \<noteq> []"
  shows "downsample rows0 n =
      map (\<lambda>b. (py_trunc (of_int t0 + of_int b * w), mean (known_values (slice rows (bucket_of t0 w n) b))))
        (filter (\<lambda>b. slice rows (bucket_of t0 w n) b \<noteq> []) [0..n - 1]) \<and>
    length (downsample rows0 n) \<le> nat n \<and>
    (\<forall>r\<in>set rows0. bucket_of t0 w n (fst r) \<in> {0..n - 1})"
proof -
  let ?g = "bucket_of t0 w n"
  let ?acc = "foldl (\<lambda>d (ts, v). add_to (?g ts) v d) [] rows"
  have w: "0 < w" using assms by (simp add: w_def)
  have srt: "sorted (map fst rows)" by (simp add: rows_def)
  have rng: "0 \<le> ?g (fst r) \<and> ?g (fst r) < n" if "r \<in> set rows" for r
    using bucket_range [OF w _ assms(1)] sorted_ends(1) [OF srt that] by (simp add: t0_def rows_def)
  have look: "map_of ?acc b = (if slice rows ?g b \<noteq> [] then Some (slice rows ?g b) else None)" for b
    using acc_lookup [of ?g rows b] by (auto simp: slice_def filter_empty_conv)
  have keys: "fst ` set ?acc = {b. slice rows ?g b \<noteq> []}"
    using look by (auto simp: dom_map_of_conv_image_fst [symmetric] split: if_splits)
  have bound: "0 \<le> b \<and> b < n" if "b \<in> {b. slice rows ?g b \<noteq> []}" for b
    using that rng by (auto simp: slice_def filter_empty_conv)
  have "distinct (map fst ?acc)" using acc_lookup [of ?g rows] by blast
  from sort_acc [OF this]
  have "sort_key fst ?acc = map (\<lambda>b. (b, the (map_of ?acc b))) (sorted_list_of_set {b. slice rows ?g b \<noteq> []})"
    unfolding keys .
  also have "sorted_list_of_set {b. slice rows ?g b \<noteq> []} = filter (\<lambda>b. slice rows ?g b \<noteq> []) [0..n - 1]"
    using keys_as_upto [where A = "{b. slice rows ?g b \<noteq> []}" and n = n, OF bound] by simp
  also have "map (\<lambda>b. (b, the (map_of ?acc b))) (filter (\<lambda>b. slice rows ?g b \<noteq> []) [0..n - 1]) =
      map (\<lambda>b. (b, slice rows ?g b)) (filter (\<lambda>b. slice rows ?g b \<noteq> []) [0..n - 1])"
    by (intro map_cong refl) (auto simp: look)
  finally have acc: "sort_key fst ?acc = map (\<lambda>b. (b, slice rows ?g b)) (filter (\<lambda>b. slice rows ?g b \<noteq> []) [0..n - 1])" .
  have "downsample rows0 n = map (\<lambda>(b, vs). (py_trunc (of_int t0 + of_int b * w), mean (known_values vs))) (sort_key fst ?acc)"
    using assms by (simp add: downsample_def Let_def w_def t0_def t1_def rows_def)
  then have eq: "downsample rows0 n =
      map (\<lambda>b. (py_trunc (of_int t0 + of_int b * w), mean (known_values (slice rows ?g b))))
        (filter (\<lambda>b. slice rows ?g b \<noteq> []) [0..n - 1])" by (simp add: acc comp_def)
  moreover have "length (downsample rows0 n) \<le> nat n"
    unfolding eq length_map by (rule order.trans [OF length_filter_le]) simp
  ultimately show ?thesis using rng by (auto simp: rows_def)
qed

theorem downsample_slices_witness:
  "length (downsample [(0, Some 10), (30, None), (59, Some 20), (60, Some 40)] 2) \<le> 2"
proof -
  have "sort_key fst [(0, Some 10), (30, None), (59, Some 20), (60, Some 40)] = [(0, Some (10 :: rat)), (30, None), (59, Some 20), (60 :: int, Some 40)]"
    by simp
  then show ?thesis
    using conjunct1 [OF conjunct2 [OF downsample_slices [of 2 "[(0, Some 10), (30, None), (59, Some 20), (60, Some 40)]"]]] by simp
qed

theorem history_window_witness:
  "store_after [([], 0), ([], 5)] = []"
  using history_window [of "[([], 0), ([], 5)]"] by (simp add: samples_of_def)

section \<open>Least squares\<close>

lemma present_all: "present_points (map (\<lambda>(x, y). (Some x, Some y)) ps) = ps"
  by (induction ps) (auto simp: present_points_def)

lemma sum_line:
  fixes a b :: rat
  assumes "\<forall>(x, y)\<in>set ps. y = a + b * x"
  shows "(\<Sum>(x, y)\<leftarrow>ps. y) = of_nat (length ps) * a + b * (\<Sum>(x, y)\<leftarrow>ps. x)"
    and "(\<Sum>(x, y)\<leftarrow>ps. x * y) = a * (\<Sum>(x, y)\<leftarrow>ps. x) + b * (\<Sum>(x, y)\<leftarrow>ps. x * x)"
  using assms by (induction ps) (auto simp: algebra_simps)

text \<open>The denominator is the spread of the abscissas: \<open>n\<close> times the sum of squared distances from the mean.\<close>

lemma spread:
  fixes xs :: "rat list" and m :: rat
  shows "(\<Sum>x\<leftarrow>xs. (x - m) * (x - m)) = (\<Sum>x\<leftarrow>xs. x * x) - 2 * m * sum_list xs + of_nat (length xs) * (m * m)"
  by (induction xs) (auto simp: algebra_simps)

lemma squares_zero: "(\<Sum>x\<leftarrow>xs. (x - m) * (x - m)) = (0 :: rat) \<Longrightarrow> \<forall>x\<in>set xs. x = m"
proof -
  have pos: "0 \<le> (\<Sum>x\<leftarrow>xs. (x - m) * (x - m))" for xs :: "rat list" by (intro sum_list_nonneg) auto
  show "(\<Sum>x\<leftarrow>xs. (x - m) * (x - m)) = 0 \<Longrightarrow> \<forall>x\<in>set xs. x = m"
  proof (induction xs)
    case (Cons x xs)
    have "0 \<le> (x - m) * (x - m)" by simp
    with pos [of xs] Cons.prems have "(x - m) * (x - m) = 0" "(\<Sum>x\<leftarrow>xs. (x - m) * (x - m)) = 0"
      by (simp_all add: add_nonneg_eq_0_iff)
    with Cons.IH show ?case by simp
  qed simp
qed

lemma denom_nonzero:
  fixes xs :: "rat list"
  assumes "x \<in> set xs" and "x' \<in> set xs" and "x \<noteq> x'"
  shows "of_nat (length xs) * (\<Sum>x\<leftarrow>xs. x * x) - sum_list xs * sum_list xs \<noteq> 0"
proof
  let ?n = "of_nat (length xs) :: rat" and ?m = "sum_list xs / of_nat (length xs)"
  assume zero: "?n * (\<Sum>x\<leftarrow>xs. x * x) - sum_list xs * sum_list xs = 0"
  have n: "?n \<noteq> 0" using assms(1) by auto
  have "?n * (\<Sum>x\<leftarrow>xs. (x - ?m) * (x - ?m)) = ?n * (\<Sum>x\<leftarrow>xs. x * x) - sum_list xs * sum_list xs"
    unfolding spread using n by (simp add: field_simps)
  with zero n have "(\<Sum>x\<leftarrow>xs. (x - ?m) * (x - ?m)) = 0" by simp
  from squares_zero [OF this] assms show False by metis
qed

lemma linreg_line:
  fixes a b :: rat
  assumes "\<forall>(x, y)\<in>set ps. y = a + b * x" and "(x1, y1) \<in> set ps" and "(x2, y2) \<in> set ps" and "x1 \<noteq> x2"
  shows "linreg (map (\<lambda>(x, y). (Some x, Some y)) ps) = Some (b, a)"
proof -
  let ?n = "of_nat (length ps) :: rat" and ?sx = "\<Sum>(x, y)\<leftarrow>ps. x" and ?sxx = "\<Sum>(x, y)\<leftarrow>ps. x * x"
  have xs: "?sx = sum_list (map fst ps)" "?sxx = (\<Sum>x\<leftarrow>map fst ps. x * x)"
    by (induction ps) auto
  have den: "?n * ?sxx - ?sx * ?sx \<noteq> 0"
    unfolding xs using denom_nonzero [of x1 "map fst ps" x2] assms(2-4) by (force simp: image_iff)
  have two: "2 \<le> length ps"
  proof (rule ccontr)
    assume "\<not> 2 \<le> length ps"
    then obtain p where "ps = [] \<or> ps = [p]" by (cases ps; cases "tl ps") auto
    with assms(2-4) show False by auto
  qed
  then have n: "?n \<noteq> 0" by auto
  have num: "?n * (\<Sum>(x, y)\<leftarrow>ps. x * y) - ?sx * (\<Sum>(x, y)\<leftarrow>ps. y) = b * (?n * ?sxx - ?sx * ?sx)"
    unfolding sum_line [OF assms(1)] by (simp add: algebra_simps)
  have slope: "(?n * (\<Sum>(x, y)\<leftarrow>ps. x * y) - ?sx * (\<Sum>(x, y)\<leftarrow>ps. y)) / (?n * ?sxx - ?sx * ?sx) = b"
    unfolding num using den by simp
  have inter: "((\<Sum>(x, y)\<leftarrow>ps. y) - b * ?sx) / ?n = a"
    unfolding sum_line(1) [OF assms(1)] using n by simp
  show ?thesis unfolding linreg_def present_all Let_def using two den slope inter by simp
qed

text \<open>A disk that fills at a steady rate is forecast exactly: for samples on a line that grows by \<open>b\<close>
  bytes a second, over at least an hour and fast enough not to count as flat, the forecast is the rate
  per day and the time until the line, continued from now, reaches the size; a disk already over its
  size is full now.\<close>

theorem forecast_exact:
  fixes a b :: rat
  assumes "\<forall>(x, y)\<in>set ps. y = a + b * x" and "4 \<le> length ps" and "0 < cap"
    and "3600 \<le> Max (fst ` set ps) - Min (fst ` set ps)" and "cap / 3650 \<le> b * 86400"
  shows "forecast_capacity (map (\<lambda>(x, y). (Some x, Some y)) ps) cap (Some (a + b * now)) =
      Some \<lparr>fc_per_day = b * 86400, fc_days_to_full = Some (max 0 (cap - (a + b * now)) / (b * 86400)), fc_trend = Growing\<rparr> \<and>
    (a + b * now \<le> cap \<longrightarrow> a + b * (now + max 0 (cap - (a + b * now)) / (b * 86400) * 86400) = cap)"
proof -
  have fin: "finite (fst ` set ps)" "fst ` set ps \<noteq> {}" using assms(2) by auto
  obtain x1 y1 x2 y2 where p: "(x1, y1) \<in> set ps" "(x2, y2) \<in> set ps" "x1 = Max (fst ` set ps)" "x2 = Min (fst ` set ps)"
    using Max_in [OF fin] Min_in [OF fin] by force
  then have "x1 \<noteq> x2" using assms(4) by auto
  note reg = linreg_line [OF assms(1) p(1,2) this]
  have "0 < cap / 3650" using assms(3) by simp
  then have b: "0 < b * 86400" using assms(5) by (rule less_le_trans)
  have "forecast_capacity (map (\<lambda>(x, y). (Some x, Some y)) ps) cap (Some (a + b * now)) =
      Some \<lparr>fc_per_day = b * 86400, fc_days_to_full = Some (max 0 (cap - (a + b * now)) / (b * 86400)), fc_trend = Growing\<rparr>"
    unfolding forecast_capacity_def present_all Let_def reg
    using assms(2-5) b by (simp add: MIN_SPAN_HOURS_def not_less)
  then show ?thesis using b by (auto simp: field_simps)
qed

theorem forecast_exact_witness:
  "forecast_capacity (map (\<lambda>(x, y). (Some x, Some y)) [(0, 0), (1200, 1200), (2400, 2400), (3600, 3600)]) 90000 (Some 3600) =
     Some \<lparr>fc_per_day = 86400, fc_days_to_full = Some 1, fc_trend = Growing\<rparr>"
  using forecast_exact [of "[(0, 0), (1200, 1200), (2400, 2400), (3600, 3600)]" 0 1 90000 3600] by simp

end
