(* ===== verification/Metrics.thy ===== *)
theory Metrics
  imports Fleet
begin

text \<open>
  The Prometheus exposition (\<open>metrics.py\<close>) and its route: label escaping, one line per sample, the
  lines of a host and of a check, and the whole text. Python's \<open>repr\<close> of a float that is no whole
  number is the parameter \<open>rp\<close>.
\<close>

datatype num = NBool bool | NInt int | NFloat rat

text \<open>\<open>_lv\<close>: three replacements, in this order.\<close>

definition lv :: "string \<Rightarrow> string" where
  "lv v = replace_char newline [CHR 0x5C, CHR ''n''] (replace_char CHR 0x22 [CHR 0x5C, CHR 0x22]
     (replace_char CHR 0x5C [CHR 0x5C, CHR 0x5C] v))"

definition show_num :: "(rat \<Rightarrow> string) \<Rightarrow> num \<Rightarrow> string" where
  "show_num rp v = (case v of
      NBool b \<Rightarrow> if b then ''1'' else ''0''
    | NInt i \<Rightarrow> show_int i
    | NFloat f \<Rightarrow> if of_int \<lfloor>f\<rfloor> = f then show_int \<lfloor>f\<rfloor> else rp f)"

definition show_label :: "string \<times> string \<Rightarrow> string" where
  "show_label kv = fst kv @ ''='' @ [CHR 0x22] @ lv (snd kv) @ [CHR 0x22]"

definition line :: "(rat \<Rightarrow> string) \<Rightarrow> string \<Rightarrow> (string \<times> string) list \<Rightarrow> num \<Rightarrow> string" where
  "line rp name labels value =
     name @ (if labels = [] then [] else ''{'' @ join '','' (map show_label labels) @ ''}'') @ '' '' @ show_num rp value"

definition or_default :: "string \<Rightarrow> string \<Rightarrow> string" where
  "or_default dflt s = (if s = [] then dflt else s)"

definition host_labels :: "envelope \<Rightarrow> (string \<times> string) list" where
  "host_labels r = [(''host'', e_id r), (''name'', e_name r), (''host_type'', or_default ''nexus'' (e_host_type r)),
     (''category'', or_default ''Unknown'' (e_type r))]"

definition show_sev :: "severity \<Rightarrow> string" where
  "show_sev s = (case s of Critical \<Rightarrow> ''critical'' | Warning \<Rightarrow> ''warning'' | Info \<Rightarrow> ''info'')"

definition opt_lines :: "'a option \<Rightarrow> ('a \<Rightarrow> string list) \<Rightarrow> string list" where
  "opt_lines v f = (case v of None \<Rightarrow> [] | Some x \<Rightarrow> f x)"

text \<open>The guest counts: a node's own block has one running total for all kinds.\<close>

definition int_or_0 :: "int option \<Rightarrow> int" where
  "int_or_0 v = (case v of None \<Rightarrow> 0 | Some i \<Rightarrow> i)"

definition guest_lines :: "(rat \<Rightarrow> string) \<Rightarrow> (string \<times> string) list \<Rightarrow> envelope \<Rightarrow> string list" where
  "guest_lines rp labels r =
     (if e_virt r = None \<and> e_instances r = None then []
      else
        let v = guests_of (e_virt r); i = guests_of (e_instances r);
            (vms_r, ct_r) = (if e_instances r \<noteq> None \<and> g_running i \<noteq> None \<and> g_vms_running i = None
              then (int_or_0 (g_running i), 0)
              else (int_or_0 (g_vms_running v) + int_or_0 (g_vms_running i),
                    int_or_0 (g_cts_running v) + int_or_0 (g_cts_running i)));
            ln = (\<lambda>kind state n. line rp ''nexus_host_guests'' (labels @ [(''kind'', kind), (''state'', state)]) (NInt n))
        in [ln ''vm'' ''total'' (g_vms v + g_vms i), ln ''vm'' ''running'' vms_r,
            ln ''container'' ''total'' (g_containers v + g_containers i), ln ''container'' ''running'' ct_r])"

definition update_lines :: "(rat \<Rightarrow> string) \<Rightarrow> (string \<times> string) list \<Rightarrow> updates_block \<Rightarrow> string list" where
  "update_lines rp labels u =
     [line rp ''nexus_host_updates_pending'' labels (NInt (up_available u)),
      line rp ''nexus_host_security_updates_pending'' labels (NInt (up_security u)),
      line rp ''nexus_host_reboot_required'' labels (NBool (up_reboot u))]"

definition host_lines :: "(rat \<Rightarrow> string) \<Rightarrow> envelope \<Rightarrow> string list" where
  "host_lines rp r =
     (let labels = host_labels r
      in line rp ''nexus_host_paused'' labels (NBool (e_disabled r)) #
         (if e_disabled r then []
          else
            line rp ''nexus_host_up'' labels (NBool (e_ok r)) #
            opt_lines (e_cpu_pct r) (\<lambda>x. [line rp ''nexus_host_cpu_percent'' labels (NFloat x)]) @
            opt_lines (e_mem_pct r) (\<lambda>x. [line rp ''nexus_host_memory_percent'' labels (NFloat x)]) @
            (if e_size_bytes r = 0 then []
             else [line rp ''nexus_host_storage_bytes'' (labels @ [(''kind'', ''used'')]) (NInt (e_used_bytes r)),
                   line rp ''nexus_host_storage_bytes'' (labels @ [(''kind'', ''size'')]) (NInt (e_size_bytes r))]) @
            (if \<not> e_ok r then []
             else
               [line rp ''nexus_host_alerts'' labels (NInt (raw_alerts r)),
                line rp ''nexus_host_health_issues'' labels (NInt (int (length (health_of r))))] @
               map (\<lambda>e. line rp ''nexus_host_health_issue''
                 (labels @ [(''key'', h_key e), (''severity'', show_sev (h_sev e))]) (NInt 1)) (health_of r) @
               guest_lines rp labels r @
               opt_lines (su_updates (summary_of r)) (update_lines rp labels) @
               [line rp ''nexus_host_version_lag'' labels (NBool (case e_version_lag r of None \<Rightarrow> False | Some v \<Rightarrow> v \<noteq> [])),
                line rp ''nexus_host_stale'' labels (NBool (e_stale r))])))"

definition check_lines :: "(rat \<Rightarrow> string) \<Rightarrow> check \<Rightarrow> check_result option \<Rightarrow> string dict \<Rightarrow> string list" where
  "check_lines rp c res host_names =
     (let labels = [(''check'', k_id c), (''name'', k_name c), (''service'', k_service c), (''target'', k_target c),
            (''host'', case k_node_id c of None \<Rightarrow> [] | Some i \<Rightarrow> (case map_of host_names i of None \<Rightarrow> [] | Some n \<Rightarrow> n))]
      in case res of
          None \<Rightarrow> []
        | Some r \<Rightarrow>
            (case r_ok r of
               None \<Rightarrow> []
             | Some ok \<Rightarrow>
                 if r_paused r then []
                 else line rp ''nexus_check_up'' labels (NBool ok) #
                   opt_lines (r_latency_ms r) (\<lambda>ms. [line rp ''nexus_check_latency_seconds'' labels (NFloat (of_int ms / 1000))])))"

definition rollup_lines :: "(rat \<Rightarrow> string) \<Rightarrow> rollup \<Rightarrow> string list" where
  "rollup_lines rp ro =
     ''# TYPE nexus_fleet_hosts gauge'' #
     map (\<lambda>(st, n). line rp ''nexus_fleet_hosts'' [(''state'', st)] (NInt (int n)))
       [(''healthy'', ro_healthy ro), (''unreachable'', ro_unreachable ro), (''paused'', ro_disabled ro), (''degraded'', ro_degraded ro)] @
     [''# TYPE nexus_fleet_storage_bytes gauge'',
      line rp ''nexus_fleet_storage_bytes'' [(''kind'', ''used'')] (NInt (ro_storage_used ro)),
      line rp ''nexus_fleet_storage_bytes'' [(''kind'', ''size'')] (NInt (ro_storage_size ro))]"

definition fleet_lines :: "(rat \<Rightarrow> string) \<Rightarrow> fleet \<Rightarrow> string list" where
  "fleet_lines rp f =
     (case parse_utc (f_generated_at f) of
        None \<Rightarrow> []
      | Some us \<Rightarrow> [''# TYPE nexus_fleet_generated_timestamp_seconds gauge'',
          line rp ''nexus_fleet_generated_timestamp_seconds'' [] (NFloat (of_int us / 1000000))]) @
     rollup_lines rp (f_rollup f) @
     (let hl = concat (map (host_lines rp) (sort_key (\<lambda>r. lower (e_name r)) (f_nodes f)))
      in if hl = [] then [] else ''# HELP nexus_host_up 1 when the last poll reached the host.'' # hl)"

definition render_lines :: "(rat \<Rightarrow> string) \<Rightarrow> fleet option \<Rightarrow> check list \<Rightarrow> check_result dict \<Rightarrow> string dict \<Rightarrow> string \<Rightarrow> string list" where
  "render_lines rp f checks results host_names version =
     [''# HELP nexus_controller_info Nexus Controller build.'', ''# TYPE nexus_controller_info gauge'',
      line rp ''nexus_controller_info'' [(''version'', version)] (NInt 1)] @
     opt_lines f (fleet_lines rp) @
     (let cl = concat (map (\<lambda>c. check_lines rp c (map_of results (k_id c)) host_names) checks)
      in if cl = [] then [] else ''# HELP nexus_check_up 1 when the service check passed on its last run.'' # cl)"

definition render :: "(rat \<Rightarrow> string) \<Rightarrow> fleet option \<Rightarrow> check list \<Rightarrow> check_result dict \<Rightarrow> string dict \<Rightarrow> string \<Rightarrow> string" where
  "render rp f checks results host_names version =
     join [newline] (render_lines rp f checks results host_names version) @ [newline]"

text \<open>\<open>prometheus_metrics\<close>: the cached fleet as the login may see it, with the checks of its hosts.\<close>

definition visible_checks :: "ctx \<Rightarrow> app \<Rightarrow> check list" where
  "visible_checks c s = filter (\<lambda>k. case k_node_id k of None \<Rightarrow> True
     | Some i \<Rightarrow> i = [] \<or> i \<in> set (map n_id (visible_nodes (g_scope c) (st_nodes s)))) (st_checks s)"

definition prometheus_metrics :: "(rat \<Rightarrow> string) \<Rightarrow> string \<Rightarrow> ctx \<Rightarrow> app \<Rightarrow> string" where
  "prometheus_metrics rp version c s =
     render rp (map_option (\<lambda>f. scoped_fleet f (g_scope c)) (st_cache s)) (visible_checks c s) (st_results s)
       (rev (map (\<lambda>n. (n_id n, n_name n)) (st_nodes s))) version"

end
