(* ===== verification/MetricsFacts.thy ===== *)
theory MetricsFacts
  imports Metrics Text
begin

text \<open>
  What the exposition promises a scraper: a sample line reads back to the name, the labels and the
  value it was printed from, whatever the labels hold, and no host name, tag or check target can put
  a line of its own into the text.
\<close>

section \<open>A reader of sample lines\<close>

text \<open>A quoted label value, up to its closing quote: the value and what follows the quote.\<close>

fun read_quoted :: "string \<Rightarrow> (string \<times> string) option" where
  "read_quoted [] = None"
| "read_quoted (c # s) =
     (if c = CHR 0x22 then Some ([], s)
      else if c = CHR 0x5C then
        (case s of [] \<Rightarrow> None
         | d # t \<Rightarrow> map_option (\<lambda>(v, r). ((if d = CHR ''n'' then newline else d) # v, r)) (read_quoted t))
      else map_option (\<lambda>(v, r). (c # v, r)) (read_quoted s))"

text \<open>The labels after the opening brace, with fuel for the number of labels.\<close>

fun read_labels :: "nat \<Rightarrow> string \<Rightarrow> ((string \<times> string) list \<times> string) option" where
  "read_labels 0 s = None"
| "read_labels (Suc n) s =
     (case dropWhile (\<lambda>c. c \<noteq> CHR ''='') s of
        e # q # t \<Rightarrow>
          (case read_quoted t of
             Some (v, c # r) \<Rightarrow>
               if c = CHR '','' then map_option (\<lambda>(ls, r'). ((takeWhile (\<lambda>c. c \<noteq> CHR ''='') s, v) # ls, r')) (read_labels n r)
               else Some ([(takeWhile (\<lambda>c. c \<noteq> CHR ''='') s, v)], r)
           | _ \<Rightarrow> None)
      | _ \<Rightarrow> None)"

definition name_char :: "char \<Rightarrow> bool" where
  "name_char c = (c \<noteq> CHR ''{'' \<and> c \<noteq> CHR '' '')"

definition read_line :: "string \<Rightarrow> (string \<times> (string \<times> string) list \<times> string) option" where
  "read_line s =
     (case dropWhile name_char s of
        [] \<Rightarrow> None
      | c # r \<Rightarrow>
          if c = CHR '' '' then Some (takeWhile name_char s, [], r)
          else (case read_labels (length r) r of
                  Some (ls, b # v) \<Rightarrow> Some (takeWhile name_char s, ls, v)
                | _ \<Rightarrow> None))"

section \<open>Round trips\<close>

definition esc :: "char \<Rightarrow> string" where
  "esc c = (if c = CHR 0x5C then [CHR 0x5C, CHR 0x5C] else if c = CHR 0x22 then [CHR 0x5C, CHR 0x22]
     else if c = newline then [CHR 0x5C, CHR ''n''] else [c])"

text \<open>The three replacements in sequence do what one pass over the characters does: no replacement
  touches what an earlier one put in.\<close>

lemma lv_esc: "lv s = concat (map esc s)"
  by (induction s) (auto simp: lv_def replace_char_def esc_def newline_def)

lemma lv_simps [simp]: "lv [] = []" "lv (c # s) = esc c @ lv s"
  by (simp_all add: lv_esc)

lemma read_quoted_esc:
  "read_quoted (esc c @ s) = map_option (\<lambda>(v, r). (c # v, r)) (read_quoted s)"
  by (simp add: esc_def newline_def)

lemma read_quoted_lv: "read_quoted (lv s @ CHR 0x22 # rest) = Some (s, rest)"
  by (induction s) (simp_all add: read_quoted_esc del: read_quoted.simps, simp)

lemma newline_lv: "newline \<notin> set (lv s)"
  by (induction s) (auto simp: esc_def newline_def)

lemma quote_in_lv: "read_quoted (lv s) = None"
  by (induction s) (simp_all add: read_quoted_esc)

lemma stop_at:
  assumes "\<forall>c\<in>set k. P c" and "\<not> P d"
  shows "takeWhile P (k @ d # r) = k" and "dropWhile P (k @ d # r) = d # r"
  using assms by (simp_all add: takeWhile_append2 dropWhile_append2)

lemma read_labels_join:
  assumes "ls \<noteq> []" and "\<forall>kv\<in>set ls. CHR ''='' \<notin> set (fst kv)" and "length ls \<le> n"
  shows "read_labels n (join '','' (map show_label ls) @ CHR ''}'' # rest) = Some (ls, rest)"
  using assms
proof (induction ls arbitrary: n)
  case Nil
  then show ?case by simp
next
  case (Cons kv ls)
  obtain k v where kv: "kv = (k, v)" by (cases kv)
  obtain m where n: "n = Suc m" using Cons.prems(3) by (cases n) auto
  have k: "\<forall>c\<in>set k. c \<noteq> CHR ''=''" using Cons.prems(2) kv by auto
  show ?case
  proof (cases ls)
    case Nil
    show ?thesis
      using k by (simp add: kv n Nil show_label_def stop_at read_quoted_lv)
  next
    case (Cons l ls')
    have "read_labels m (join '','' (map show_label ls) @ CHR ''}'' # rest) = Some (ls, rest)"
      using Cons Cons.IH Cons.prems n by auto
    then have "read_labels n (show_label kv @ '','' @ join '','' (map show_label ls) @ CHR ''}'' # rest) = Some (kv # ls, rest)"
      using k by (simp add: kv n show_label_def [of "(k, v)"] stop_at read_quoted_lv)
    then show ?thesis by (simp add: Cons)
  qed
qed

lemma join_length: "length ws \<le> length (join sep ws @ [c])" if "\<forall>w\<in>set ws. w \<noteq> []"
  using that by (induction sep ws rule: join.induct) (auto simp: Suc_le_eq neq_Nil_conv)

text \<open>A sample line the exposition prints reads back to exactly the metric name, the labels and the
  printed value it was built from, whatever characters the label values hold (quotes, backslashes,
  newlines, braces, commas): the escaping of \<open>_lv\<close> is faithful.\<close>

theorem sample_line_roundtrip:
  assumes "\<forall>c\<in>set name. name_char c"
    and "\<forall>kv\<in>set labels. CHR ''='' \<notin> set (fst kv)"
  shows "read_line (line rp name labels value) = Some (name, labels, show_num rp value)"
proof (cases "labels = []")
  case True
  then show ?thesis
    using assms(1) by (simp add: line_def read_line_def name_char_def stop_at)
next
  case False
  define body where "body = join '','' (map show_label labels)"
  have "length labels \<le> length (body @ ''}'')"
    using join_length [of "map show_label labels" "'',''" "CHR ''}''"] by (simp add: body_def show_label_def)
  then have "read_labels (length (body @ ''} '' @ show_num rp value)) (body @ CHR ''}'' # '' '' @ show_num rp value) =
      Some (labels, '' '' @ show_num rp value)"
    unfolding body_def using False assms(2) by (intro read_labels_join) auto
  then show ?thesis
    using False assms(1) by (simp add: line_def read_line_def name_char_def stop_at flip: body_def)
qed

theorem sample_line_roundtrip_witness:
  "read_line (line (\<lambda>_. []) ''nexus_host_up'' [(''name'', [CHR 0x22, CHR 0x5C, newline, CHR ''}'']), (''k'', [])] (NBool True)) =
    Some (''nexus_host_up'', [(''name'', [CHR 0x22, CHR 0x5C, newline, CHR ''}'']), (''k'', [])], ''1'')"
  using sample_line_roundtrip [of "''nexus_host_up''" "[(''name'', [CHR 0x22, CHR 0x5C, newline, CHR ''}'']), (''k'', [])]" "\<lambda>_. []" "NBool True"]
  by (simp add: name_char_def show_num_def)

section \<open>No line of its own\<close>

definition one_liner :: "string \<Rightarrow> bool" where
  "one_liner s = (newline \<notin> set s)"

lemma show_int_clean: "newline \<notin> set (show_int i)"
proof -
  have "\<not> is_digit newline" by (simp add: is_digit_def newline_def)
  then have "newline \<notin> set (show_nat n)" for n using show_nat_digits(2) [of n] by blast
  then show ?thesis by (simp add: show_int_def newline_def)
qed

lemma show_num_clean: "(\<And>f. newline \<notin> set (rp f)) \<Longrightarrow> newline \<notin> set (show_num rp v)"
  by (cases v) (auto simp: show_num_def show_int_clean, simp_all add: newline_def)

lemma split_on_append:
  "sep \<notin> set w \<Longrightarrow> split_on sep (w @ sep # s) = w # split_on sep s"
  by (induction w) auto

lemma split_on_clean: "sep \<notin> set w \<Longrightarrow> split_on sep w = [w]"
  by (induction w) auto

lemma split_join_line:
  "ws \<noteq> [] \<Longrightarrow> \<forall>w\<in>set ws. sep \<notin> set w \<Longrightarrow> split_on sep (join [sep] ws @ [sep]) = ws @ [[]]"
  by (induction "[sep]" ws rule: join.induct) (auto simp: split_on_append)

definition clean_labels :: "(string \<times> string) list \<Rightarrow> bool" where
  "clean_labels ls = (\<forall>kv\<in>set ls. one_liner (fst kv))"

lemma clean_labels_simps [simp]:
  "clean_labels []" "clean_labels (kv # ls) \<longleftrightarrow> one_liner (fst kv) \<and> clean_labels ls"
  "clean_labels (ls @ ms) \<longleftrightarrow> clean_labels ls \<and> clean_labels ms"
  by (auto simp: clean_labels_def)

lemma one_liner_simps [simp]: "one_liner []" "one_liner (c # s) \<longleftrightarrow> c \<noteq> newline \<and> one_liner s"
  by (auto simp: one_liner_def)

lemma line_clean:
  assumes "\<And>f. newline \<notin> set (rp f)" and "one_liner name" and "clean_labels labels"
  shows "one_liner (line rp name labels v)"
proof -
  have "newline \<notin> set (show_label kv)" if "kv \<in> set labels" for kv
    using that assms(3) newline_lv [of "snd kv"] by (auto simp: show_label_def clean_labels_def one_liner_def newline_def)
  then have "newline \<notin> set (join '','' (map show_label labels))"
    using join_set [of "'',''" "map show_label labels"] by (auto simp: newline_def)
  moreover have "newline \<notin> set (show_num rp v)" using assms(1) by (rule show_num_clean)
  ultimately show ?thesis
    using assms(2) by (simp add: line_def one_liner_def) (simp add: newline_def)
qed

definition rp_clean :: "(rat \<Rightarrow> string) \<Rightarrow> bool" where
  "rp_clean rp = (\<forall>f. newline \<notin> set (rp f))"

definition tidy :: "string list \<Rightarrow> bool" where
  "tidy ws = list_all one_liner ws"

lemma tidy_simps [simp]:
  "tidy []" "tidy (w # ws) \<longleftrightarrow> one_liner w \<and> tidy ws" "tidy (ws @ vs) \<longleftrightarrow> tidy ws \<and> tidy vs"
  "tidy (map f xs) \<longleftrightarrow> (\<forall>x\<in>set xs. one_liner (f x))" "tidy (concat wss) \<longleftrightarrow> (\<forall>ws\<in>set wss. tidy ws)"
  "tidy (if b then ws else vs) \<longleftrightarrow> (if b then tidy ws else tidy vs)"
  by (auto simp: tidy_def list_all_iff)

lemma tidy_opt_lines [simp]: "(\<And>x. tidy (f x)) \<Longrightarrow> tidy (opt_lines v f)"
  by (cases v) (simp_all add: opt_lines_def)

lemma tidy_line [simp]: "rp_clean rp \<Longrightarrow> one_liner name \<Longrightarrow> clean_labels labels \<Longrightarrow> one_liner (line rp name labels v)"
  by (rule line_clean) (simp_all add: rp_clean_def)

lemma host_labels_clean [simp]: "clean_labels (host_labels r)"
  by (simp add: host_labels_def) (simp add: newline_def)

lemma guest_lines_tidy: "rp_clean rp \<Longrightarrow> clean_labels labels \<Longrightarrow> tidy (guest_lines rp labels r)"
  by (simp add: guest_lines_def split_def Let_def newline_def)

lemma update_lines_tidy: "rp_clean rp \<Longrightarrow> clean_labels labels \<Longrightarrow> tidy (update_lines rp labels u)"
  by (simp add: update_lines_def newline_def)

lemma host_lines_tidy: "rp_clean rp \<Longrightarrow> tidy (host_lines rp r)"
  by (simp add: host_lines_def Let_def guest_lines_tidy update_lines_tidy) (simp add: newline_def)

lemma check_lines_tidy: "rp_clean rp \<Longrightarrow> tidy (check_lines rp c res hn)"
  by (simp add: check_lines_def Let_def newline_def split: option.split)

lemma rollup_lines_tidy: "rp_clean rp \<Longrightarrow> tidy (rollup_lines rp ro)"
  by (simp add: rollup_lines_def newline_def)

lemma fleet_lines_tidy: "rp_clean rp \<Longrightarrow> tidy (fleet_lines rp f)"
  by (simp add: fleet_lines_def Let_def rollup_lines_tidy host_lines_tidy split: option.split)
    (simp add: newline_def)

lemma render_lines_tidy: "rp_clean rp \<Longrightarrow> tidy (render_lines rp f checks results hn version)"
  by (simp add: render_lines_def Let_def fleet_lines_tidy check_lines_tidy) (simp add: newline_def)

text \<open>Cut at its newlines, the text of a scrape is exactly the lines the exposition built, one per
  sample, and an empty rest: whatever an operator, a host or a check puts into a name, a tag, a key or
  a target, it never adds, splits or ends a line. (The hypothesis: \<open>repr\<close> of a float prints no newline.)\<close>

theorem scrape_lines_exact:
  assumes "\<And>f. newline \<notin> set (rp f)"
  shows "split_on newline (prometheus_metrics rp version c s) =
    render_lines rp (map_option (\<lambda>f. scoped_fleet f (g_scope c)) (st_cache s)) (visible_checks c s) (st_results s)
      (rev (map (\<lambda>n. (n_id n, n_name n)) (st_nodes s))) version @ [[]]"
proof -
  have "rp_clean rp" using assms by (simp add: rp_clean_def)
  then have "\<forall>w\<in>set (render_lines rp f checks results hn version). newline \<notin> set w" for f checks results hn
    using render_lines_tidy [of rp f checks results hn version] by (simp add: tidy_def list_all_iff one_liner_def)
  moreover have "render_lines rp f checks results hn version \<noteq> []" for f checks results hn
    by (simp add: render_lines_def)
  ultimately show ?thesis
    unfolding prometheus_metrics_def render_def by (intro split_join_line) blast+
qed

theorem scrape_lines_exact_witness:
  "split_on newline (prometheus_metrics (\<lambda>_. ''0.5'') ''1.0''
      \<lparr>g_name = ''op'', g_role = ''viewer'', g_scope = None, g_token = None\<rparr>
      empty_app) =
    [''# HELP nexus_controller_info Nexus Controller build.'', ''# TYPE nexus_controller_info gauge'',
     ''nexus_controller_info{version='' @ [CHR 0x22] @ ''1.0'' @ [CHR 0x22] @ ''} 1''] @ [[]]"
proof -
  have "split_on newline (prometheus_metrics (\<lambda>_. ''0.5'') ''1.0''
      \<lparr>g_name = ''op'', g_role = ''viewer'', g_scope = None, g_token = None\<rparr>
      empty_app) = render_lines (\<lambda>_. ''0.5'') None [] (st_results empty_app) (rev (map (\<lambda>n. (n_id n, n_name n)) (st_nodes empty_app))) ''1.0'' @ [[]]"
    using scrape_lines_exact [of "\<lambda>_. ''0.5''" "''1.0''" "\<lparr>g_name = ''op'', g_role = ''viewer'', g_scope = None, g_token = None\<rparr>"
        empty_app]
    by (simp add: newline_def visible_checks_def empty_app_def)
  moreover have "digit_char 1 = CHR ''1''" by code_simp
  ultimately show ?thesis
    by (simp add: render_lines_def opt_lines_def line_def show_label_def lv_def replace_char_def show_num_def
        show_int_def show_nat.simps newline_def empty_app_def)
qed

end
