(* ===== verification/Backup.thy ===== *)
theory Backup
  imports SsoFacts Fleet
begin

text \<open>
  The encrypted configuration backup (\<open>backup.py\<close>) and its callers in \<open>app.py\<close>: the download route and
  the two commands. A bundle is represented by the value \<open>json.loads\<close> reads from its bytes
  (\<open>None\<close>: not JSON, or not UTF-8). Key derivation and Fernet are the parameters \<open>kdf\<close>, \<open>seal\<close> and
  \<open>unseal\<close> (the last two together with the JSON text of the payload they carry). The file system is
  a dictionary from paths to texts (UTF-8, as the program writes its files); a write that fails is decided by the parameter \<open>io\<close>. A failed
  write leaves no trace: the source writes a temporary file, renames it, and unlinks it on any error.
\<close>

section \<open>Bundles\<close>

text \<open>What the functions of \<open>backup.py\<close> end in: a \<open>ValueError\<close> with its text, a \<open>FileExistsError\<close>, another
  exception, or a value.\<close>

datatype 'a attempt = Bad string | Exists string | Died exn | DiskFailed | Got 'a

definition FORMAT :: string where "FORMAT = ''nexus-controller-backup/1''"

definition KDF_ITERATIONS :: int where "KDF_ITERATIONS = 600000"

definition MIN_PASSPHRASE :: nat where "MIN_PASSPHRASE = 12"

definition MEMBERS :: "string list" where
  "MEMBERS = [''controller-auth.json'', ''nodes.json'', ''checks.json'', ''sso.json'', ''certs/controller.crt'',
     ''certs/controller.key'']"

text \<open>\<open>base64.b64encode\<close> and \<open>base64.b64decode\<close>: the standard alphabet, padded; characters outside it are
  skipped when reading, a text that is not ASCII is a \<open>ValueError\<close>.\<close>

definition std_code :: "nat \<Rightarrow> nat" where
  "std_code c = (if c = 45 then 43 else if c = 95 then 47 else c)"

definition b64encode :: "bytes \<Rightarrow> string" where
  "b64encode bs = map (\<lambda>n. char_of (std_code n)) (b64u_codes bs @ pad_to_quad (length (b64u_codes bs)))"

definition b64decode :: "string \<Rightarrow> bytes option" where
  "b64decode s = (let codes = map of_char s :: nat list
     in if list_all (\<lambda>n. n < 128) codes then a2b 0 0 0 (filter (\<lambda>n. n \<noteq> 45 \<and> n \<noteq> 95) codes) else None)"

definition short_passphrase :: string where
  "short_passphrase = ''passphrase must be at least '' @ show_nat MIN_PASSPHRASE @ '' characters''"

definition payload_of :: "string dict \<Rightarrow> json" where
  "payload_of files = JObj [(''files'', JObj (sort_key fst (map (\<lambda>(n, t). (n, JStr t)) files)))]"

definition make_bundle :: "(string \<Rightarrow> bytes \<Rightarrow> int \<Rightarrow> exn + 'k) \<Rightarrow> ('k \<Rightarrow> json \<Rightarrow> string) \<Rightarrow> bytes \<Rightarrow> string \<Rightarrow> int \<Rightarrow>
    string dict \<Rightarrow> json \<Rightarrow> json attempt" where
  "make_bundle kdf seal salt created iterations files passphrase =
     (case passphrase of
        JStr pw \<Rightarrow>
          if length pw < MIN_PASSPHRASE then Bad short_passphrase
          else (case kdf pw salt iterations of
              Inl e \<Rightarrow> Died e
            | Inr k \<Rightarrow> Got (JObj
                [(''format'', JStr FORMAT), (''created'', JStr created), (''kdf'', JStr ''pbkdf2-sha256''),
                 (''iterations'', JInt iterations), (''salt'', JStr (b64encode salt)),
                 (''members'', JArr (map JStr (sort (map fst files)))), (''data'', JStr (seal k (payload_of files)))]))
      | _ \<Rightarrow> Bad short_passphrase)"

record bundle_info =
  bi_created :: json
  bi_members :: "json list"

definition inspect_bundle :: "json option \<Rightarrow> bundle_info attempt" where
  "inspect_bundle blob = (case blob of
      Some (JObj env) \<Rightarrow>
        if jget env ''format'' \<noteq> JStr FORMAT then Bad ''not a controller backup''
        else (case py_list (if truthy (jget env ''members'') then jget env ''members'' else JArr []) of
            Inl e \<Rightarrow> Died e
          | Inr ms \<Rightarrow> Got \<lparr>bi_created = jget env ''created'', bi_members = ms\<rparr>)
    | _ \<Rightarrow> Bad ''not a controller backup'')"

definition corrupt :: string where
  "corrupt = ''wrong passphrase or corrupt bundle''"

text \<open>The exceptions \<open>open_bundle\<close> turns into its \<open>ValueError\<close>.\<close>

definition as_corrupt :: "exn \<Rightarrow> 'a attempt" where
  "as_corrupt e = (if e = ValueError \<or> e = TypeError then Bad corrupt else Died e)"

definition decrypt_with :: "('k \<Rightarrow> string \<Rightarrow> json option) \<Rightarrow> 'k \<Rightarrow> json dict \<Rightarrow> json dict attempt" where
  "decrypt_with unseal k env = (case map_of env ''data'' of
      None \<Rightarrow> Bad corrupt
    | Some (JStr token) \<Rightarrow>
        (case unseal k token of
           Some (JObj p) \<Rightarrow> (case jget p ''files'' of JObj fs \<Rightarrow> Got fs | _ \<Rightarrow> Bad corrupt)
         | _ \<Rightarrow> Bad corrupt)
    | Some _ \<Rightarrow> Died AttributeError)"

definition open_env :: "(string \<Rightarrow> bytes \<Rightarrow> int \<Rightarrow> exn + 'k) \<Rightarrow> ('k \<Rightarrow> string \<Rightarrow> json option) \<Rightarrow> json dict \<Rightarrow> string \<Rightarrow> json dict attempt" where
  "open_env kdf unseal env pw =
     (case map_of env ''salt'' of
        Some (JStr s) \<Rightarrow>
          (case (b64decode s, map_of env ''iterations'') of
             (Some salt, Some it) \<Rightarrow>
               (case py_int it of
                  Inl e \<Rightarrow> as_corrupt e
                | Inr i \<Rightarrow> (case kdf pw salt i of Inl e \<Rightarrow> as_corrupt e | Inr k \<Rightarrow> decrypt_with unseal k env))
           | _ \<Rightarrow> Bad corrupt)
      | _ \<Rightarrow> Bad corrupt)"

definition bundle_open :: "(string \<Rightarrow> bytes \<Rightarrow> int \<Rightarrow> exn + 'k) \<Rightarrow> ('k \<Rightarrow> string \<Rightarrow> json option) \<Rightarrow> json option \<Rightarrow> string \<Rightarrow>
    json dict attempt" where
  "bundle_open kdf unseal blob pw =
     (case inspect_bundle blob of
        Got i \<Rightarrow> (case blob of Some (JObj env) \<Rightarrow> open_env kdf unseal env pw | _ \<Rightarrow> Bad corrupt)
      | Bad e \<Rightarrow> Bad e | Exists e \<Rightarrow> Exists e | Died e \<Rightarrow> Died e | DiskFailed \<Rightarrow> DiskFailed)"

section \<open>Files\<close>

text \<open>A file opened in text mode: a carriage return, alone or before a line feed, is read as a line feed.\<close>

fun universal_newlines :: "string \<Rightarrow> string" where
  "universal_newlines [] = []"
| "universal_newlines [c] = [if c = CHR 0x0D then newline else c]"
| "universal_newlines (c # d # cs) =
     (if c = CHR 0x0D \<and> d = newline then newline # universal_newlines cs
      else (if c = CHR 0x0D then newline else c) # universal_newlines (d # cs))"

definition read_text :: "string dict \<Rightarrow> string \<Rightarrow> string option" where
  "read_text fs path = map_option universal_newlines (map_of fs path)"

definition collect :: "string dict \<Rightarrow> string dict \<Rightarrow> string dict" where
  "collect paths fs = concat (map (\<lambda>(name, path). case read_text fs path of None \<Rightarrow> [] | Some t \<Rightarrow> [(name, t)]) paths)"

text \<open>\<open>{n: paths[n] for n in files if n in paths}\<close>.\<close>

definition targets :: "json dict \<Rightarrow> string dict \<Rightarrow> string dict" where
  "targets files paths = concat (map (\<lambda>(n, v). case map_of paths n of None \<Rightarrow> [] | Some p \<Rightarrow> [(n, p)]) files)"

fun write_all :: "(string \<Rightarrow> bool) \<Rightarrow> json dict \<Rightarrow> string dict \<Rightarrow> string list \<Rightarrow> string dict \<Rightarrow>
    string list attempt \<times> string dict" where
  "write_all io files [] written fs = (Got written, fs)"
| "write_all io files ((n, p) # ts) written fs =
     (if \<not> io p then (DiskFailed, fs)
      else case jget files n of
          JStr t \<Rightarrow> write_all io files ts (written @ [p]) (AList.update p t fs)
        | _ \<Rightarrow> (Died TypeError, fs))"

definition restore :: "(string \<Rightarrow> bool) \<Rightarrow> json dict \<Rightarrow> string dict \<Rightarrow> bool \<Rightarrow> string dict \<Rightarrow> string list attempt \<times> string dict" where
  "restore io files paths force fs =
     (let ts = targets files paths; clash = filter (\<lambda>p. map_of fs p \<noteq> None) (map snd ts)
      in if \<not> force \<and> clash \<noteq> [] then (Exists (''refusing to overwrite: '' @ join '', '' (sort clash)), fs)
         else write_all io files ts [] fs)"

section \<open>The route and the commands\<close>

record install =
  in_auth :: string
  in_nodes :: string
  in_checks :: string
  in_acks :: string
  in_sso :: string
  in_crt :: string
  in_key :: string

definition state_paths :: "install \<Rightarrow> string dict" where
  "state_paths i = [(''controller-auth.json'', in_auth i), (''nodes.json'', in_nodes i), (''checks.json'', in_checks i),
     (''acks.json'', in_acks i), (''sso.json'', in_sso i), (''certs/controller.crt'', in_crt i),
     (''certs/controller.key'', in_key i)]"

text \<open>\<open>backup_download\<close>: the bundle, its file name and what the audit line names.\<close>

definition backup_download :: "(string \<Rightarrow> bytes \<Rightarrow> int \<Rightarrow> exn + 'k) \<Rightarrow> ('k \<Rightarrow> json \<Rightarrow> string) \<Rightarrow> bytes \<Rightarrow> string \<Rightarrow> string \<Rightarrow>
    install \<Rightarrow> json dict \<Rightarrow> string dict \<Rightarrow> (json \<times> string \<times> string) resp" where
  "backup_download kdf seal salt created stamp inst data fs =
     (let refusal = Fail 400 short_passphrase; files = collect (state_paths inst) fs
      in case jget data ''passphrase'' of
          JStr pw \<Rightarrow>
            if length pw < MIN_PASSPHRASE then refusal
            else (case make_bundle kdf seal salt created KDF_ITERATIONS files (JStr pw) of
                Got blob \<Rightarrow> Done (blob, ''nexus-controller-backup-'' @ stamp @ ''.ncb'',
                  ''backup ('' @ show_nat (length files) @ '' files)'')
              | Died e \<Rightarrow> Crash e
              | _ \<Rightarrow> Crash ValueError)
        | _ \<Rightarrow> refusal)"

text \<open>\<open>_backup_passphrase\<close>: the environment's, or what the operator types, twice where it must be confirmed.\<close>

definition backup_passphrase :: "string option \<Rightarrow> string \<Rightarrow> string \<Rightarrow> bool \<Rightarrow> string option" where
  "backup_passphrase env typed again confirm =
     (if env \<noteq> None \<and> env \<noteq> Some [] then env
      else if confirm \<and> typed \<noteq> again then None else Some typed)"

datatype 'a exit = Exit int 'a | Traceback

definition cli_backup :: "(string \<Rightarrow> bytes \<Rightarrow> int \<Rightarrow> exn + 'k) \<Rightarrow> ('k \<Rightarrow> json \<Rightarrow> string) \<Rightarrow> bytes \<Rightarrow> string \<Rightarrow>
    string option \<Rightarrow> string \<Rightarrow> string \<Rightarrow> install \<Rightarrow> string list \<Rightarrow> string dict \<Rightarrow> (string \<times> json) option exit" where
  "cli_backup kdf seal salt created env typed again inst argv fs =
     (if length argv < 3 then Exit 2 None
      else case backup_passphrase env typed again True of
          None \<Rightarrow> Exit 1 None
        | Some pw \<Rightarrow>
            (case make_bundle kdf seal salt created KDF_ITERATIONS (collect (state_paths inst) fs) (JStr pw) of
               Got blob \<Rightarrow> Exit 0 (Some (argv ! 2, blob))
             | Bad e \<Rightarrow> Exit 1 None
             | Died e \<Rightarrow> if e = ValueError then Exit 1 None else Traceback
             | _ \<Rightarrow> Traceback))"

definition cli_restore :: "(string \<Rightarrow> bytes \<Rightarrow> int \<Rightarrow> exn + 'k) \<Rightarrow> ('k \<Rightarrow> string \<Rightarrow> json option) \<Rightarrow> (string \<Rightarrow> bool) \<Rightarrow>
    string option \<Rightarrow> string \<Rightarrow> install \<Rightarrow> (string \<Rightarrow> json option option) \<Rightarrow> string list \<Rightarrow> string dict \<Rightarrow>
    string list exit \<times> string dict" where
  "cli_restore kdf unseal io env typed inst bundles argv fs =
     (case filter (\<lambda>a. \<not> startswith ''--'' a) (drop 2 argv) of
        [] \<Rightarrow> (Exit 2 [], fs)
      | a # rest \<Rightarrow>
          (case (bundles a, backup_passphrase env typed [] False) of
             (Some blob, Some pw) \<Rightarrow>
               (case bundle_open kdf unseal blob pw of
                  Bad e \<Rightarrow> (Exit 1 [], fs)
                | Got files \<Rightarrow>
                    (case restore io files (state_paths inst) (''--force'' \<in> set argv) fs of
                       (Got written, fs') \<Rightarrow> (Exit 0 written, fs')
                     | (Exists e, fs') \<Rightarrow> (Exit 1 [], fs')
                     | (_, fs') \<Rightarrow> (Traceback, fs'))
                | _ \<Rightarrow> (Traceback, fs))
           | _ \<Rightarrow> (Traceback, fs)))"

end
