(* ===== verification/BackupFacts.thy ===== *)
theory BackupFacts
  imports Backup
begin

text \<open>
  What the backup promises: a restore on a fresh machine brings back exactly the files the backup was
  made of and touches no other file, and a restore into a live installation overwrites nothing unless
  it is forced to, whatever the bundle holds.
\<close>

section \<open>The salt\<close>

lemma a2b_std: "a2b q l p (map std_code cs) = a2b q l p cs"
proof (induction cs arbitrary: q l p)
  case (Cons c cs)
  have "b64_val (std_code c) = b64_val c" and "std_code c = 61 \<longleftrightarrow> c = 61"
    by (auto simp: std_code_def b64_val_def)
  then show ?case by (simp add: Cons.IH split: option.split)
qed simp

lemma std_code_clean: "std_code c \<noteq> 45" "std_code c \<noteq> 95" "c < 128 \<Longrightarrow> std_code c < 128"
  by (auto simp: std_code_def)

lemma b64decode_encode: "b64decode (b64encode bs) = Some bs"
proof -
  define cs where "cs = b64u_codes bs @ pad_to_quad (length (b64u_codes bs))"
  have "c < 128" if "c \<in> set cs" for c
    using that codes_ascii [of c bs] by (auto simp: cs_def pad_to_quad_def)
  then have lt: "\<forall>c\<in>set (map std_code cs). c < 128" using std_code_clean(3) by auto
  have codes_back: "map of_char (map char_of ns) = ns" if "\<forall>c\<in>set ns. c < 128" for ns :: "nat list"
    using that by (induction ns) (auto simp: of_char_of)
  have "b64encode bs = map char_of (map std_code cs)" by (simp add: b64encode_def cs_def)
  then have codes: "map of_char (b64encode bs) = map std_code cs" using codes_back [OF lt] by simp
  have "filter (\<lambda>n. n \<noteq> 45 \<and> n \<noteq> 95) (map std_code cs) = map std_code cs"
    using std_code_clean(1,2) by (simp add: filter_True)
  then have "b64decode (b64encode bs) = a2b 0 0 0 (map std_code cs)"
    using lt by (simp add: b64decode_def codes Let_def list_all_iff)
  then show ?thesis using a2b_codes [of 0 0 bs] unfolding a2b_std by (simp add: cs_def)
qed

section \<open>Opening what was made\<close>

definition json_files :: "string dict \<Rightarrow> json dict" where
  "json_files files = sort_key fst (map (\<lambda>(n, t). (n, JStr t)) files)"

lemma open_made:
  assumes "make_bundle kdf seal salt created it files (JStr pw) = Got blob" and "kdf pw salt it = Inr k"
    and "unseal k (seal k (payload_of files)) = Some (payload_of files)"
  shows "bundle_open kdf unseal (Some blob) pw = Got (json_files files)"
proof -
  have "inspect_bundle (Some blob) = Got \<lparr>bi_created = JStr created, bi_members = map JStr (sort (map fst files))\<rparr>"
    using assms(1,2) by (auto simp: make_bundle_def inspect_bundle_def py_list_def jget_def split: if_splits)
  then show ?thesis
    using assms by (auto simp: make_bundle_def bundle_open_def open_env_def decrypt_with_def b64decode_encode
        py_int_def jget_def payload_of_def json_files_def split: if_splits)
qed

section \<open>Writing\<close>

lemma write_all_frame: "q \<notin> set (map snd ts) \<Longrightarrow> map_of (snd (write_all io files ts w fs)) q = map_of fs q"
  by (induction io files ts w fs rule: write_all.induct) (auto split: json.split)

lemma write_all_ok:
  assumes "distinct (map snd ts)" and "\<forall>(n, p)\<in>set ts. io p \<and> jget files n = JStr (stored n)"
  shows "\<exists>fs'. write_all io files ts w fs = (Got (w @ map snd ts), fs') \<and>
    (\<forall>(n, p)\<in>set ts. map_of fs' p = Some (stored n))"
  using assms
proof (induction ts arbitrary: w fs)
  case Nil
  then show ?case by simp
next
  case (Cons np ts)
  obtain n p where np: "np = (n, p)" by (cases np)
  have "jget files n = JStr (stored n)" "io p" using Cons.prems np by auto
  then have step: "write_all io files (np # ts) w fs = write_all io files ts (w @ [p]) (AList.update p (stored n) fs)"
    by (simp add: np)
  obtain fs' where fs': "write_all io files ts (w @ [p]) (AList.update p (stored n) fs) = (Got ((w @ [p]) @ map snd ts), fs')"
      "\<forall>(n, p)\<in>set ts. map_of fs' p = Some (stored n)"
    using Cons.IH [of "w @ [p]" "AList.update p (stored n) fs"] Cons.prems by auto
  have "map_of fs' p = Some (stored n)"
    using write_all_frame [of p ts io files "w @ [p]" "AList.update p (stored n) fs"] fs'(1) Cons.prems(1) by (simp add: np)
  then show ?case using step fs' by (simp add: np)
qed

lemma targets_in: "(n, p) \<in> set (targets files paths) \<longleftrightarrow> n \<in> fst ` set files \<and> map_of paths n = Some p"
  by (force simp: targets_def split: option.splits)

lemma targets_snd: "set (map snd (targets files paths)) \<subseteq> set (map snd paths)"
  by (force simp: targets_in dest: map_of_SomeD)

text \<open>Whatever the bundle, a restore changes no file outside the installation, and without force none
  that exists.\<close>

lemma restore_frame:
  "q \<notin> set (map snd paths) \<or> (\<not> force \<and> map_of fs q \<noteq> None) \<Longrightarrow>
   map_of (snd (restore io files paths force fs)) q = map_of fs q"
proof -
  assume q: "q \<notin> set (map snd paths) \<or> (\<not> force \<and> map_of fs q \<noteq> None)"
  let ?clash = "filter (\<lambda>p. map_of fs p \<noteq> None) (map snd (targets files paths))"
  show ?thesis
  proof (cases "\<not> force \<and> ?clash \<noteq> []")
    case False
    then have "q \<notin> set (map snd (targets files paths))"
      using q targets_snd [of files paths] by (auto simp: filter_empty_conv)
    then show ?thesis using False write_all_frame by (auto simp: restore_def Let_def)
  qed (simp add: restore_def Let_def)
qed

section \<open>Round trip\<close>

lemma universal_newlines_no_return: "CHR 0x0D \<notin> set (universal_newlines t)"
  by (induction t rule: universal_newlines.induct) (simp_all add: newline_def)

lemma universal_newlines_id: "CHR 0x0D \<notin> set t \<Longrightarrow> universal_newlines t = t"
  by (induction t rule: universal_newlines.induct) auto

text \<open>Exactly the texts without a carriage return are read as they are.\<close>

lemma read_text_id: "map_of fs p = Some t \<Longrightarrow> read_text fs p = Some t \<longleftrightarrow> CHR 0x0D \<notin> set t"
  unfolding read_text_def using universal_newlines_no_return [of t] universal_newlines_id [of t] by auto

lemma collect_simps [simp]:
  "collect [] fs = []"
  "collect ((n, p) # paths) fs = (case read_text fs p of None \<Rightarrow> [] | Some t \<Rightarrow> [(n, t)]) @ collect paths fs"
  by (simp_all add: collect_def)

lemma collect_names: "n \<in> fst ` set (collect paths fs) \<Longrightarrow> n \<in> fst ` set paths"
proof (induction paths)
  case (Cons np paths)
  then show ?case by (cases np) (auto split: option.splits)
qed simp

lemma one_path: "distinct (map snd paths) \<Longrightarrow> map_of paths m = Some p \<Longrightarrow> map_of paths n = Some p \<Longrightarrow> m = n"
proof -
  assume d: "distinct (map snd paths)" and "map_of paths m = Some p" "map_of paths n = Some p"
  then have "(m, p) \<in> set paths" "(n, p) \<in> set paths" by (simp_all add: map_of_SomeD)
  then show "m = n" using d inj_onD [of snd "set paths" "(m, p)" "(n, p)"] by (simp add: distinct_map)
qed

lemma collect_of:
  "distinct (map fst paths) \<Longrightarrow> map_of (collect paths fs) n = (case map_of paths n of None \<Rightarrow> None | Some p \<Rightarrow> read_text fs p)"
proof (induction paths)
  case (Cons np paths)
  obtain m p where np: "np = (m, p)" by (cases np)
  have "map_of (collect paths fs) m = None"
    using Cons.prems np collect_names [of m paths fs] by (auto simp: map_of_eq_None_iff)
  then show ?case using Cons np by (auto split: option.splits)
qed simp

lemma collect_distinct: "distinct (map fst paths) \<Longrightarrow> distinct (map fst (collect paths fs))"
proof (induction paths)
  case (Cons np paths)
  obtain n p where np: "np = (n, p)" by (cases np)
  then show ?case using Cons collect_names [of n paths fs] by (auto split: option.split)
qed simp

lemma json_files_of:
  assumes "distinct (map fst files)"
  shows "map_of (json_files files) n = map_option JStr (map_of files n)" and "distinct (map fst (json_files files))"
proof -
  have keys: "map fst (map (\<lambda>(n, t). (n, JStr t)) files) = map fst files" by auto
  have d: "distinct (map fst (map (\<lambda>(n, t). (n, JStr t)) files))" unfolding keys by (rule assms)
  show s: "distinct (map fst (json_files files))"
    using d by (simp add: json_files_def distinct_map del: map_map)
  have "map_of (json_files files) = map_of (map (\<lambda>(n, t). (n, JStr t)) files)"
    using d s by (simp add: map_of_inject_set json_files_def)
  moreover have "map_of (map (\<lambda>(n, t). (n, JStr t)) files) n = map_option JStr (map_of files n)"
    by (induction files) auto
  ultimately show "map_of (json_files files) n = map_option JStr (map_of files n)" by simp
qed

lemma targets_distinct:
  assumes "distinct (map fst files)" and "distinct (map snd paths)"
  shows "distinct (map snd (targets files paths))"
  using assms(1)
proof (induction files)
  case (Cons nv files)
  obtain n v where nv: "nv = (n, v)" by (cases nv)
  have step: "targets (nv # files) paths = (case map_of paths n of None \<Rightarrow> [] | Some p \<Rightarrow> [(n, p)]) @ targets files paths"
    by (simp add: targets_def nv)
  have "p \<notin> set (map snd (targets files paths))" if p: "map_of paths n = Some p" for p
  proof
    assume "p \<in> set (map snd (targets files paths))"
    then obtain m where "(m, p) \<in> set (targets files paths)" by auto
    then have m: "m \<in> fst ` set files" "map_of paths m = Some p" by (simp_all only: targets_in)
    then have "m = n" using one_path [OF assms(2)] p by blast
    then show False using m(1) Cons.prems nv by auto
  qed
  then show ?case using Cons by (simp add: step split: option.split)
qed (simp add: targets_def)

lemma restore_collected:
  assumes names: "distinct (map fst old)" "map fst new = map fst old" and paths: "distinct (map snd new)"
    and fresh: "\<forall>p\<in>set (map snd new). map_of fs2 p = None \<and> io p"
  shows "\<exists>written fs'. restore io (json_files (collect old fs1)) new force fs2 = (Got written, fs') \<and>
    map (\<lambda>np. map_of fs' (snd np)) new = map (\<lambda>np. read_text fs1 (snd np)) old"
proof -
  define files where "files = collect old fs1"
  define ts where "ts = targets (json_files files) new"
  have dist: "distinct (map fst files)" unfolding files_def by (rule collect_distinct [OF names(1)])
  note jf = json_files_of [OF dist]
  have keys: "fst ` set (json_files files) = fst ` set files" by (auto simp: json_files_def image_iff split_beta) (metis fst_conv)+
  have stored: "\<forall>(n, p)\<in>set ts. io p \<and> jget (json_files files) n = JStr (the (map_of files n))"
  proof clarify
    fix n p assume np: "(n, p) \<in> set ts"
    then have "n \<in> fst ` set files" "p \<in> set (map snd new)"
      by (auto simp: ts_def targets_in keys dest: map_of_SomeD intro: rev_image_eqI)
    moreover from this have "map_of files n \<noteq> None" by (auto simp: map_of_eq_None_iff)
    ultimately show "io p \<and> jget (json_files files) n = JStr (the (map_of files n))"
      using fresh by (auto simp: jget_def jf)
  qed
  have dts: "distinct (map snd ts)" unfolding ts_def by (rule targets_distinct [OF jf(2) paths])
  obtain fs' where w: "write_all io (json_files files) ts [] fs2 = (Got (map snd ts), fs')"
      and got: "\<forall>(n, p)\<in>set ts. map_of fs' p = Some (the (map_of files n))"
    using write_all_ok [OF dts stored, of "[]" fs2] by auto
  have "filter (\<lambda>p. map_of fs2 p \<noteq> None) (map snd ts) = []"
    using fresh targets_snd [of "json_files files" new] unfolding ts_def filter_empty_conv by (metis subsetD)
  then have r: "restore io (json_files files) new force fs2 = (Got (map snd ts), fs')"
    using w by (simp add: restore_def Let_def ts_def)
  have "map_of fs' p' = read_text fs1 p" if "(n, p) \<in> set old" "(n, p') \<in> set new" for n p p'
  proof -
    have o: "map_of old n = Some p" "map_of new n = Some p'"
      using that names by (simp_all add: map_of_is_SomeI)
    then have f: "map_of files n = read_text fs1 p" by (simp add: files_def collect_of [OF names(1)])
    show ?thesis
    proof (cases "read_text fs1 p")
      case None
      then have "n \<notin> fst ` set files" using f by (metis map_of_eq_None_iff)
      have "p' \<notin> set (map snd ts)"
      proof
        assume "p' \<in> set (map snd ts)"
        then obtain m where "(m, p') \<in> set ts" by auto
        then have m: "m \<in> fst ` set files" "map_of new m = Some p'" by (simp_all only: ts_def targets_in keys)
        then have "m = n" using one_path [OF paths] o(2) by blast
        then show False using m(1) \<open>n \<notin> fst ` set files\<close> by simp
      qed
      then have "map_of fs' p' = map_of fs2 p'" using write_all_frame [of p' ts io "json_files files" "[]" fs2] w by simp
      then show ?thesis using None fresh that(2) by force
    next
      case (Some t)
      then have "n \<in> fst ` set files" using f by (metis map_of_eq_None_iff option.distinct(1))
      then have "(n, p') \<in> set ts" using o by (simp add: ts_def targets_in keys)
      then show ?thesis using got f Some by auto
    qed
  qed
  note same = this
  have len: "length new = length old" using names(2) by (rule map_eq_imp_length_eq)
  have "map_of fs' (snd (new ! i)) = read_text fs1 (snd (old ! i))" if i: "i < length old" for i
  proof (rule same)
    have "fst (new ! i) = fst (old ! i)" using names(2) i len by (metis nth_map)
    then show "(fst (old ! i), snd (new ! i)) \<in> set new" using i len nth_mem [of i new] by (metis prod.collapse)
    show "(fst (old ! i), snd (old ! i)) \<in> set old" using i by simp
  qed
  then have "map (\<lambda>np. map_of fs' (snd np)) new = map (\<lambda>np. read_text fs1 (snd np)) old"
    using len by (simp add: list_eq_iff_nth_eq)
  then show ?thesis using r by (auto simp: files_def)
qed

section \<open>The commands\<close>

lemma state_paths_names: "map fst (state_paths i) = map fst (state_paths j)" "distinct (map fst (state_paths i))"
  by (simp_all add: state_paths_def)

text \<open>C32: \<open>backup\<close> on one machine and \<open>restore\<close> of its bundle on a fresh one with the same passphrase give the second
  machine, file by file, the configuration of the first: no file where the first has none, and otherwise its text as a
  text-mode read gives it, which is the text itself exactly when it has no carriage return (a certificate uploaded
  with CRLF line ends comes back with LF); every file outside the configuration is left alone. (The
  hypotheses: the passphrase is long enough, Fernet decrypts what it encrypted under the same key, the
  seven configured paths are different, none of the files exists yet on the second machine and they can be written.)\<close>

theorem backup_restores_exactly:
  assumes pw: "MIN_PASSPHRASE \<le> length pw" and key: "kdf pw salt KDF_ITERATIONS = Inr k"
    and fernet: "unseal k (seal k (payload_of (collect (state_paths old) fs1))) = Some (payload_of (collect (state_paths old) fs1))"
    and paths: "distinct (map snd (state_paths new))"
    and fresh: "\<forall>p\<in>set (map snd (state_paths new)). map_of fs2 p = None \<and> io p"
    and name: "\<not> startswith ''--'' out"
  shows "\<exists>blob written fs'.
    cli_backup kdf seal salt created (Some pw) t1 t2 old [app, ''backup'', out] fs1 = Exit 0 (Some (out, blob)) \<and>
    cli_restore kdf unseal io (Some pw) t3 new (\<lambda>f. if f = out then Some (Some blob) else None) [app, ''restore'', out] fs2 =
      (Exit 0 written, fs') \<and>
    map (\<lambda>np. map_of fs' (snd np)) (state_paths new) = map (\<lambda>np. read_text fs1 (snd np)) (state_paths old) \<and>
    (\<forall>p t. map_of fs1 p = Some t \<longrightarrow> (read_text fs1 p = Some t \<longleftrightarrow> CHR 0x0D \<notin> set t)) \<and>
    (\<forall>q. q \<notin> set (map snd (state_paths new)) \<longrightarrow> map_of fs' q = map_of fs2 q)"
proof -
  let ?files = "collect (state_paths old) fs1"
  have ne: "Some pw \<noteq> Some []" using pw by (auto simp: MIN_PASSPHRASE_def)
  obtain blob where blob: "make_bundle kdf seal salt created KDF_ITERATIONS ?files (JStr pw) = Got blob"
    using pw key by (simp add: make_bundle_def)
  note opened = open_made [where kdf = kdf and seal = seal and unseal = unseal and k = k, OF blob key fernet]
  obtain written fs' where r: "restore io (json_files ?files) (state_paths new) (''--force'' \<in> set [app, ''restore'', out]) fs2 = (Got written, fs')"
    and same: "map (\<lambda>np. map_of fs' (snd np)) (state_paths new) = map (\<lambda>np. read_text fs1 (snd np)) (state_paths old)"
    using restore_collected [OF state_paths_names(2) state_paths_names(1) paths fresh] by blast
  have frame: "\<forall>q. q \<notin> set (map snd (state_paths new)) \<longrightarrow> map_of fs' q = map_of fs2 q"
    using restore_frame [of _ "state_paths new" "''--force'' \<in> set [app, ''restore'', out]" fs2 io "json_files ?files"] r by simp
  have "cli_backup kdf seal salt created (Some pw) t1 t2 old [app, ''backup'', out] fs1 = Exit 0 (Some (out, blob))"
    using ne blob by (simp add: cli_backup_def backup_passphrase_def numeral_2_eq_2)
  moreover have "cli_restore kdf unseal io (Some pw) t3 new (\<lambda>f. if f = out then Some (Some blob) else None)
      [app, ''restore'', out] fs2 = (Exit 0 written, fs')"
    using ne name opened r by (simp add: cli_restore_def backup_passphrase_def)
  ultimately show ?thesis using same frame read_text_id by blast
qed

text \<open>C33: without \<open>--force\<close> a restore changes no out that exists, with or without it no out outside the
  configuration, for every bundle, well formed or crafted, and also when it ends in an error half way;
  a bundle the passphrase does not open changes nothing at all.\<close>

theorem restore_never_overwrites:
  "(map_of fs q \<noteq> None \<and> ''--force'' \<notin> set argv) \<or> q \<notin> set (map snd (state_paths inst)) \<or>
     (\<forall>k token. unseal k token = None) \<Longrightarrow>
   map_of (snd (cli_restore kdf unseal io env typed inst bundles argv fs)) q = map_of fs q"
proof -
  assume h: "(map_of fs q \<noteq> None \<and> ''--force'' \<notin> set argv) \<or> q \<notin> set (map snd (state_paths inst)) \<or>
    (\<forall>k token. unseal k token = None)"
  have closed: "bundle_open kdf unseal blob pw \<noteq> Got files" if "\<forall>k token. unseal k token = None" for blob pw files
    using that by (auto simp: bundle_open_def open_env_def decrypt_with_def as_corrupt_def
        split: attempt.splits option.splits json.splits sum.splits if_splits)
  have fr: "map_of (snd (restore io files (state_paths inst) (''--force'' \<in> set argv) fs)) q = map_of fs q"
    if "\<not> (\<forall>k token. unseal k token = None)" for files
    using h that by (intro restore_frame) blast
  have pieces: "map_of fs' q = map_of fs q"
    if "restore io files (state_paths inst) (''--force'' \<in> set argv) fs = (a, fs')" "bundle_open kdf unseal blob pw = Got files"
    for files a fs' blob pw
    using fr [of files] closed that by (metis snd_conv)
  show ?thesis
    by (auto simp: cli_restore_def split: list.split option.split attempt.split prod.split intro: pieces)
qed

definition demo_install :: install where
  "demo_install = \<lparr>in_auth = ''auth'', in_nodes = ''nodes'', in_checks = ''checks'', in_acks = ''acks'', in_sso = ''sso'',
     in_crt = ''crt'', in_key = ''key''\<rparr>"

definition demo_files :: "string dict" where
  "demo_files = [(''nodes'', ''[]''), (''acks'', ''{}''), (''crt'', ''a'' @ [CHR 0x0D, newline] @ ''b'')]"

theorem backup_restores_exactly_witness:
  "\<exists>blob written fs'.
    cli_backup (\<lambda>pw salt it. Inr pw) (\<lambda>k v. ''sealed'') [] ''now'' (Some ''correct horse'') [] [] demo_install [''app'', ''backup'', ''out''] demo_files =
      Exit 0 (Some (''out'', blob)) \<and>
    cli_restore (\<lambda>pw salt it. Inr pw) (\<lambda>k t. Some (payload_of (collect (state_paths demo_install) demo_files))) (\<lambda>p. True)
      (Some ''correct horse'') [] demo_install (\<lambda>f. if f = ''out'' then Some (Some blob) else None) [''app'', ''restore'', ''out''] [] =
      (Exit 0 written, fs') \<and>
    map (\<lambda>np. map_of fs' (snd np)) (state_paths demo_install) = [None, Some ''[]'', None, Some ''{}'', None, Some (''a'' @ newline # ''b''), None]"
proof -
  have h: "MIN_PASSPHRASE \<le> length ''correct horse''" "distinct (map snd (state_paths demo_install))"
    "\<forall>p\<in>set (map snd (state_paths demo_install)). map_of ([] :: string dict) p = None \<and> (\<lambda>p. True) p"
    "\<not> startswith ''--'' ''out''"
    by (simp_all add: MIN_PASSPHRASE_def state_paths_def demo_install_def startswith_def)
  have m: "map (\<lambda>np. read_text demo_files (snd np)) (state_paths demo_install) = [None, Some ''[]'', None, Some ''{}'', None, Some (''a'' @ newline # ''b''), None]"
    by (simp add: state_paths_def demo_install_def demo_files_def read_text_def newline_def)
  define un where "un = (\<lambda>(k :: string) (t :: string). Some (payload_of (collect (state_paths demo_install) demo_files)))"
  have un: "un k ((\<lambda>k v. ''sealed'') k v) = Some (payload_of (collect (state_paths demo_install) demo_files))" for k v
    by (simp add: un_def)
  obtain blob written fs' where
    "cli_backup (\<lambda>pw salt it. Inr pw) (\<lambda>k v. ''sealed'') [] ''now'' (Some ''correct horse'') [] [] demo_install [''app'', ''backup'', ''out''] demo_files =
      Exit 0 (Some (''out'', blob))"
    "cli_restore (\<lambda>pw salt it. Inr pw) un (\<lambda>p. True) (Some ''correct horse'') [] demo_install
      (\<lambda>f. if f = ''out'' then Some (Some blob) else None) [''app'', ''restore'', ''out''] [] = (Exit 0 written, fs')"
    "map (\<lambda>np. map_of fs' (snd np)) (state_paths demo_install) = map (\<lambda>np. read_text demo_files (snd np)) (state_paths demo_install)"
    using backup_restores_exactly [where kdf = "\<lambda>pw salt it. Inr pw" and seal = "\<lambda>k v. ''sealed''" and unseal = un and k = "''correct horse''"
        and salt = "[]" and old = demo_install and new = demo_install and out = "''out''" and app = "''app''" and created = "''now''"
        and ?t1.0 = "[]" and ?t2.0 = "[]" and ?t3.0 = "[]", OF h(1) refl un h(2,3,4)] by blast
  then show ?thesis unfolding m un_def by (intro exI conjI) assumption+
qed

theorem restore_never_overwrites_witness:
  "map_of (snd (cli_restore (\<lambda>pw salt it. Inr pw) (\<lambda>k t. Some (payload_of [(''nodes.json'', ''evil'')])) (\<lambda>p. True) (Some ''pw'') [] demo_install
     (\<lambda>f. Some None) [''app'', ''restore'', ''in''] demo_files)) ''nodes'' = Some ''[]''"
  using restore_never_overwrites [of demo_files "''nodes''" "[''app'', ''restore'', ''in'']" demo_install
      "\<lambda>k t. Some (payload_of [(''nodes.json'', ''evil'')])" "\<lambda>pw salt it. Inr pw" "\<lambda>p. True" "Some ''pw''" "[]" "\<lambda>f. Some None"]
  by (simp add: demo_files_def)

end
