(* ===== verification/Adapters.thy ===== *)
theory Adapters
  imports Fleet
begin

text \<open>
  How the controller talks to a host (\<open>adapters/base.py\<close>) and the Nexus node adapter
  (\<open>adapters/nexus.py\<close>): the pinned request, the node client, the enrollment probe, the live fetch and
  the classification of a node. The network is a parameter: the certificate a host shows, and what
  answers a request. \<open>dec\<close> is the decryption of a stored secret, \<open>text\<close> the text of a Python exception,
  \<open>view\<close> and \<open>pct\<close> how the other parts of the controller read the JSON summary and the two percentages
  of the resources (the record types of \<open>Envelope\<close>). The dashes of messages are written as hyphens.
\<close>

section \<open>Failures\<close>

text \<open>A \<open>NodeError\<close> with its text, the \<open>OSError\<close> of a socket, or another exception.\<close>

datatype failure = NodeErr string | OsErr string | Escaped exn

definition and_then :: "'e + 'a \<Rightarrow> ('a \<Rightarrow> 'e + 'b) \<Rightarrow> 'e + 'b" where
  "and_then r f = (case r of Inl e \<Rightarrow> Inl e | Inr x \<Rightarrow> f x)"

lemma and_then_simps [simp]: "and_then (Inr x) f = f x" "and_then (Inl e) f = Inl e"
  by (simp_all add: and_then_def)

lemma and_then_Inr: "and_then r f = Inr y \<longleftrightarrow> (\<exists>x. r = Inr x \<and> f x = Inr y)"
  by (cases r) auto

definition escaping :: "exn + 'a \<Rightarrow> failure + 'a" where
  "escaping r = (case r of Inl e \<Rightarrow> Inl (Escaped e) | Inr x \<Rightarrow> Inr x)"

definition fail_text :: "(exn \<Rightarrow> string) \<Rightarrow> failure \<Rightarrow> string" where
  "fail_text exc_text f = (case f of NodeErr t \<Rightarrow> t | OsErr t \<Rightarrow> t | Escaped e \<Rightarrow> exc_text e)"

text \<open>\<open>envelope_error\<close>.\<close>

definition envelope_error :: "(exn \<Rightarrow> string) \<Rightarrow> failure \<Rightarrow> string" where
  "envelope_error exc_text f = friendly_error (fail_text exc_text f)"

definition with_error :: "(exn \<Rightarrow> string) \<Rightarrow> failure \<Rightarrow> envelope \<Rightarrow> envelope" where
  "with_error exc_text f out = out\<lparr>e_error := Some (envelope_error exc_text f)\<rparr>"

text \<open>\<open>try: ... except NodeError: pass\<close> around one request.\<close>

definition best_effort :: "failure + 'a \<Rightarrow> failure + 'a option" where
  "best_effort r = (case r of Inr v \<Rightarrow> Inr (Some v) | Inl (NodeErr t) \<Rightarrow> Inr None | Inl f \<Rightarrow> Inl f)"

text \<open>\<open>v or {}\<close> where a \<open>.get\<close> follows, and a \<open>.get\<close> on a value as it is.\<close>

definition as_dict :: "json \<Rightarrow> exn + json dict" where
  "as_dict v = (case v of JObj d \<Rightarrow> Inr d | _ \<Rightarrow> Inl AttributeError)"

definition dict_or_empty :: "json \<Rightarrow> exn + json dict" where
  "dict_or_empty v = (if truthy v then as_dict v else Inr [])"

section \<open>Requests\<close>

text \<open>What a request meets: a transport error, a TLS error, or a peer with the certificate of the handshake, and the status
  and the body (\<open>None\<close>: not JSON) it answers with when it is asked. (That a peer with another certificate is not
  asked at all is expressed in \<open>NodeProxy\<close>, where the requests that leave are recorded.)\<close>

datatype reply = NoConn string | TlsError string | Peer string nat "json option"

record net =
  nt_cert :: "string \<Rightarrow> int \<Rightarrow> string + string"
  nt_ask :: "string \<Rightarrow> string option \<Rightarrow> reply"

definition before_api :: "string \<Rightarrow> string" where
  "before_api url = (let n = length url;
       hits = filter (\<lambda>i. startswith ''/api/'' (drop i url)) [0..<n]
     in case hits of [] \<Rightarrow> url | i # is \<Rightarrow> take i url)"

definition fp_changed :: "string \<Rightarrow> string \<Rightarrow> string" where
  "fp_changed url fp = ''certificate fingerprint changed for '' @ before_api url @ '' (pinned '' @ take 16 fp @ [ellipsis] @ '')''"

text \<open>The pin applies to \<open>https\<close> URLs (the prefix the adapter is mounted on) when there is one.\<close>

definition pins :: "string \<Rightarrow> string option \<Rightarrow> bool" where
  "pins url fp = (fp \<noteq> None \<and> fp \<noteq> Some [] \<and> startswith ''https://'' (lower url))"

definition pinned_request :: "net \<Rightarrow> string \<Rightarrow> string option \<Rightarrow> string option \<Rightarrow> failure + nat \<times> json option" where
  "pinned_request net url fp auth =
     (case nt_ask net url auth of
        NoConn t \<Rightarrow> Inl (NodeErr t)
      | TlsError t \<Rightarrow>
          if contains ''fingerprint'' (lower t)
          then (case fp of None \<Rightarrow> Inl (Escaped TypeError) | Some f \<Rightarrow> Inl (NodeErr (fp_changed url f)))
          else Inl (NodeErr t)
      | Peer cert status body \<Rightarrow>
          if pins url fp \<and> fp \<noteq> Some cert
          then Inl (NodeErr (fp_changed url (case fp of None \<Rightarrow> [] | Some f \<Rightarrow> f)))
          else Inr (status, body))"

text \<open>\<open>NodeClient\<close>: an empty stored token sends no header; so does one that does not decrypt.\<close>

definition client_token :: "(string \<Rightarrow> string option) \<Rightarrow> node \<Rightarrow> string option" where
  "client_token dec n = (if n_token_enc n = [] then None
     else case dec (n_token_enc n) of Some t \<Rightarrow> if t = [] then None else Some t | None \<Rightarrow> None)"

definition lstrip_slash :: "string \<Rightarrow> string" where
  "lstrip_slash u = dropWhile (\<lambda>c. c = CHR ''/'') u"

definition client_url :: "node \<Rightarrow> string \<Rightarrow> string" where
  "client_url n path = rstrip_slash (n_base_url n) @ ''/api/'' @ lstrip_slash path"

definition client_request :: "net \<Rightarrow> (string \<Rightarrow> string option) \<Rightarrow> node \<Rightarrow> string \<Rightarrow> failure + nat \<times> json option" where
  "client_request net dec n path = pinned_request net (client_url n path) (n_cert_fp n) (client_token dec n)"

definition get_json :: "net \<Rightarrow> (string \<Rightarrow> string option) \<Rightarrow> node \<Rightarrow> string \<Rightarrow> failure + json" where
  "get_json net dec n path =
     and_then (client_request net dec n path) (\<lambda>(status, body).
       if status \<noteq> 200 then Inl (NodeErr (''HTTP '' @ show_nat status))
       else case body of
           None \<Rightarrow> Inl (NodeErr (''non-JSON response from '' @ path @ '' (is this the right URL?)''))
         | Some v \<Rightarrow> Inr v)"

section \<open>Nexus nodes\<close>

definition unit_mult :: "char \<Rightarrow> nat" where
  "unit_mult c = (if c = CHR ''K'' then 1024 else if c = CHR ''M'' then 1024 ^ 2 else if c = CHR ''G'' then 1024 ^ 3
     else if c = CHR ''T'' then 1024 ^ 4 else if c = CHR ''P'' then 1024 ^ 5 else 1)"

text \<open>\<open>parse_human_bytes\<close>: digits and dots, then at most one unit, with spaces around. A run of digits and
  dots that is no number is the \<open>ValueError\<close> of \<open>float\<close>.\<close>

definition num_char :: "char \<Rightarrow> bool" where
  "num_char c = (is_digit c \<or> c = CHR ''.'')"

definition human_parts :: "string \<Rightarrow> (string \<times> char) option" where
  "human_parts s =
     (let t = lstrip s; m = takeWhile num_char t; r = lstrip (dropWhile num_char t)
      in if m = [] then None
         else case r of
             [] \<Rightarrow> Some (m, CHR ''B'')
           | c # r' \<Rightarrow> if c \<in> set ''BKMGTP'' \<and> lstrip r' = [] then Some (m, c) else None)"

definition parse_human_bytes :: "json \<Rightarrow> exn + int" where
  "parse_human_bytes v =
     (if \<not> truthy v then Inr 0
      else case human_parts (py_str v) of
          None \<Rightarrow> Inr 0
        | Some (m, u) \<Rightarrow>
            (case parse_decimal m of
               None \<Rightarrow> Inl ValueError
             | Some x \<Rightarrow>
                 (case to_float x of
                    Fin y \<Rightarrow> (case to_float (y * of_nat (unit_mult u)) of Fin z \<Rightarrow> Inr (py_trunc z) | _ \<Rightarrow> Inl OverflowError)
                  | _ \<Rightarrow> Inl OverflowError)))"

text \<open>\<open>_serves_ai\<close>.\<close>

definition serves_ai :: "json \<Rightarrow> exn + bool" where
  "serves_ai llama = (case llama of
      JObj d \<Rightarrow>
        and_then (dict_or_empty (jget d ''health'')) (\<lambda>health.
          if truthy (jget health ''ok'') then Inr True
          else and_then (dict_or_empty (jget d ''service'')) (\<lambda>svc.
            Inr (jget svc ''active'' = JStr ''active'' \<and> truthy (jget d ''model''))))
    | _ \<Rightarrow> Inr False)"

definition AI_CAPS :: "string list" where
  "AI_CAPS = [''llamacpp'', ''llama'', ''ai'', ''gpu'']"

definition STORAGE_CAPS :: "string list" where
  "STORAGE_CAPS = [''zfs'', ''iscsi'', ''nfs'', ''smb'', ''lvm'', ''mdraid'', ''disks'', ''replication'', ''schedules'', ''minidlna'']"

text \<open>The storage evidence of a summary; a block is read only when the ones before it show nothing.\<close>

definition serves_storage :: "json \<Rightarrow> exn + bool" where
  "serves_storage summary = (case summary of
      JObj d \<Rightarrow>
        and_then (dict_or_empty (jget d ''zfs'')) (\<lambda>zfs.
          if truthy (jget zfs ''pools'') then Inr True
          else and_then (dict_or_empty (jget d ''smb'')) (\<lambda>smb.
            if truthy (jget smb ''shares'') then Inr True
            else and_then (dict_or_empty (jget d ''nfs'')) (\<lambda>nfs.
              if truthy (jget nfs ''exports'') then Inr True
              else and_then (dict_or_empty (jget d ''iscsi'')) (\<lambda>iscsi. Inr (truthy (jget iscsi ''targets''))))))
    | _ \<Rightarrow> Inr False)"

text \<open>\<open>set(capabilities)\<close>: a list or a dictionary in it is not hashable.\<close>

definition hashable :: "json \<Rightarrow> bool" where
  "hashable v = (case v of JArr x \<Rightarrow> False | JObj x \<Rightarrow> False | _ \<Rightarrow> True)"

definition by_caps :: "json list \<Rightarrow> exn + string" where
  "by_caps caps =
     (if \<exists>v\<in>set caps. \<not> hashable v then Inl TypeError
      else
        let has = (\<lambda>names. \<exists>nm\<in>set names. JStr nm \<in> set caps)
        in Inr (if has AI_CAPS \<and> has STORAGE_CAPS then ''Mixed''
             else if has AI_CAPS then ''AI''
             else if has STORAGE_CAPS then ''Storage''
             else if has [''instances''] then ''Virtualization'' else ''Unknown''))"

definition classify_node :: "json \<Rightarrow> json list \<Rightarrow> json option \<Rightarrow> guests option \<Rightarrow> exn + string" where
  "classify_node summary caps llama instances =
     and_then (case llama of None \<Rightarrow> Inr False | Some l \<Rightarrow> serves_ai l) (\<lambda>ai.
       and_then (serves_storage summary) (\<lambda>storage.
         if \<not> (storage \<or> ai) then
           (if (case instances of None \<Rightarrow> False | Some g \<Rightarrow> g_running g \<noteq> None \<and> g_running g \<noteq> Some 0)
            then Inr ''Virtualization'' else by_caps caps)
         else Inr (if storage \<and> ai then ''Mixed'' else if storage then ''Storage'' else ''AI'')))"

text \<open>\<open>probe_node\<close>: the certificate captured first pins the request that validates the token.\<close>

record identity_info =
  id_fp :: "string option"
  id_role :: json
  id_version :: json
  id_fqdn :: json
  id_caps :: json

definition capture_fp :: "net \<Rightarrow> string \<Rightarrow> failure + (string \<times> int) \<times> string" where
  "capture_fp net base_url =
     and_then (escaping (split_host_port base_url)) (\<lambda>(host, port).
       if host = [] then Inl (NodeErr ''invalid base URL'')
       else case nt_cert net host port of
           Inl e \<Rightarrow> Inl (NodeErr (''cannot reach '' @ host @ '':'' @ show_int port @ '' ('' @ e @ '')''))
         | Inr fp \<Rightarrow> Inr ((host, port), fp))"

definition probe_node :: "net \<Rightarrow> string \<Rightarrow> string option \<Rightarrow> failure + identity_info" where
  "probe_node net base_url token =
     and_then (capture_fp net base_url) (\<lambda>(hp, fp).
       and_then (pinned_request net (rstrip_slash base_url @ ''/api/me'') (Some fp) (if token = Some [] then None else token)) (\<lambda>(status, body).
         if status = 401 then Inl (NodeErr ''token rejected (401) - check the token and that it is admin/readonly'')
         else if status \<noteq> 200 then Inl (NodeErr (''unexpected response (HTTP '' @ show_nat status @ '')''))
         else case body of
             None \<Rightarrow> Inl (NodeErr ''non-JSON response from /api/me (is this a Nexus Dashboard URL?)'')
           | Some (JObj d) \<Rightarrow> Inr \<lparr>id_fp = Some fp, id_role = jget d ''role'', id_version = jget d ''version'', id_fqdn = jget d ''fqdn'',
               id_caps = (case map_of d ''capabilities'' of None \<Rightarrow> JArr [] | Some v \<Rightarrow> v)\<rparr>
           | Some v \<Rightarrow> Inl (NodeErr ''unexpected /api/me shape (is this a Nexus Dashboard URL?)'')))"

section \<open>The live fetch of a node\<close>

text \<open>The steps after the summary. Each takes the envelope built so far; an exception keeps what was
  built, because the source fills one dictionary in place.\<close>

record views =
  vw_summary :: "json \<Rightarrow> summary"
  vw_pct :: "json \<Rightarrow> rat option"

definition put_resources :: "views \<Rightarrow> json option \<Rightarrow> envelope \<Rightarrow> envelope" where
  "put_resources vw r out = (case r of
      Some (JObj d) \<Rightarrow> out\<lparr>e_cpu_pct := vw_pct vw (jget d ''cpu_pct''),
        e_mem_pct := (case jget d ''memory'' of JObj m \<Rightarrow> vw_pct vw (jget m ''pct'') | _ \<Rightarrow> None)\<rparr>
    | _ \<Rightarrow> out)"

text \<open>The ZFS block, and its two sizes one after the other.\<close>

definition zfs_of :: "json \<Rightarrow> exn + json dict" where
  "zfs_of summary = and_then (dict_or_empty summary) (\<lambda>d. dict_or_empty (jget d ''zfs''))"

definition put_storage :: "json \<Rightarrow> envelope \<Rightarrow> exn option \<times> envelope" where
  "put_storage summary out = (case zfs_of summary of
      Inl e \<Rightarrow> (Some e, out)
    | Inr zfs \<Rightarrow>
        (case parse_human_bytes (jget zfs ''used'') of
           Inl e \<Rightarrow> (Some e, out)
         | Inr used \<Rightarrow>
             let out1 = out\<lparr>e_used_bytes := used\<rparr>
             in (case parse_human_bytes (jget zfs ''size'') of
                   Inl e \<Rightarrow> (Some e, out1)
                 | Inr bytes_total \<Rightarrow> (None, out1\<lparr>e_size_bytes := bytes_total, e_ok := True\<rparr>))))"

definition str_caps :: "json list \<Rightarrow> string list" where
  "str_caps vs = concat (map (\<lambda>v. case v of JStr s \<Rightarrow> [s] | _ \<Rightarrow> []) vs)"

text \<open>\<open>me\<close>: the version and the capabilities straight from the node.\<close>

definition self_heal :: "json option \<Rightarrow> envelope \<Rightarrow> json list \<Rightarrow> exn + envelope \<times> json list" where
  "self_heal me out caps = (case me of
      None \<Rightarrow> Inr (out, caps)
    | Some v \<Rightarrow>
        and_then (as_dict v) (\<lambda>d.
          let out1 = (if truthy (jget d ''version'') then out\<lparr>e_version := Some (py_str (jget d ''version''))\<rparr> else out)
          in (case jget d ''capabilities'' of
                JArr vs \<Rightarrow> Inr (out1\<lparr>e_capabilities := str_caps vs\<rparr>, vs)
              | _ \<Rightarrow> Inr (out1, caps))))"

text \<open>The llama status with its health, when the node runs or serves a model.\<close>

definition fetch_llama :: "net \<Rightarrow> (string \<Rightarrow> string option) \<Rightarrow> node \<Rightarrow> failure + json option" where
  "fetch_llama net dec n =
     and_then (best_effort (get_json net dec n ''llama'')) (\<lambda>li.
       case li of
         None \<Rightarrow> Inr None
       | Some v \<Rightarrow>
           and_then (best_effort (get_json net dec n ''llama/health'')) (\<lambda>h.
             let health = (case h of None \<Rightarrow> JObj [(''ok'', JBool False)] | Some x \<Rightarrow> x)
             in case v of
                 JObj d \<Rightarrow>
                   let d' = AList.update ''health'' health d
                   in if truthy (jget d' ''configured'') then Inr (Some (JObj d'))
                      else and_then (escaping (serves_ai (JObj d'))) (\<lambda>ai. Inr (if ai then Some (JObj d') else None))
               | _ \<Rightarrow> Inl (Escaped TypeError)))"

definition inst_running :: "json dict \<Rightarrow> bool" where
  "inst_running d = (let v = jget d ''status'' in truthy v \<and> lower (py_str v) = ''running'')"

definition inst_vm :: "json dict \<Rightarrow> bool" where
  "inst_vm d = (jget d ''type'' = JStr ''virtual-machine'')"

definition count_instances :: "json \<Rightarrow> exn + guests option" where
  "count_instances v = (case v of
      JArr xs \<Rightarrow>
        if \<exists>x\<in>set xs. \<not> (case x of JObj d \<Rightarrow> True | _ \<Rightarrow> False) then Inl AttributeError
        else
          let ds = concat (map (\<lambda>x. case x of JObj d \<Rightarrow> [d] | _ \<Rightarrow> []) xs)
          in Inr (Some \<lparr>g_vms = int (length (filter inst_vm ds)), g_containers = int (length (filter (\<lambda>d. \<not> inst_vm d) ds)),
               g_vms_running = None, g_cts_running = None, g_running = Some (int (length (filter inst_running ds)))\<rparr>)
    | _ \<Rightarrow> Inr None)"

definition fetch_instances :: "net \<Rightarrow> (string \<Rightarrow> string option) \<Rightarrow> node \<Rightarrow> failure + guests option" where
  "fetch_instances net dec n =
     and_then (best_effort (get_json net dec n ''instances'')) (\<lambda>r.
       case r of None \<Rightarrow> Inr None | Some v \<Rightarrow> escaping (count_instances v))"

definition nexus_extras :: "net \<Rightarrow> (string \<Rightarrow> string option) \<Rightarrow> (exn \<Rightarrow> string) \<Rightarrow> node \<Rightarrow> json \<Rightarrow> envelope \<Rightarrow> json list \<Rightarrow> envelope" where
  "nexus_extras net dec text n summary out caps =
     (case (if JStr ''llamacpp'' \<in> set caps then fetch_llama net dec n else Inr None) of
        Inl f \<Rightarrow> with_error text f out
      | Inr llama \<Rightarrow>
          (case (if JStr ''instances'' \<in> set caps then fetch_instances net dec n else Inr None) of
             Inl f \<Rightarrow> with_error text f out
           | Inr insts \<Rightarrow>
               let out1 = out\<lparr>e_instances := insts\<rparr>
               in (case classify_node summary caps llama insts of
                     Inl e \<Rightarrow> with_error text (Escaped e) out1
                   | Inr ty \<Rightarrow> out1\<lparr>e_type_auto := Some ty\<rparr>)))"

text \<open>\<open>NexusAdapter.fetch\<close>.\<close>

definition nexus_fetch :: "net \<Rightarrow> (string \<Rightarrow> string option) \<Rightarrow> (exn \<Rightarrow> string) \<Rightarrow> views \<Rightarrow> node \<Rightarrow> envelope" where
  "nexus_fetch net dec text vw n =
     (let out0 = base_envelope n; caps0 = map JStr (n_capabilities n)
      in case get_json net dec n ''summary'' of
          Inl f \<Rightarrow> with_error text f out0
        | Inr summary \<Rightarrow>
            let out1 = out0\<lparr>e_summary := (if truthy summary then Some (vw_summary vw summary) else None)\<rparr>
            in case best_effort (get_json net dec n ''system/resources'') of
                Inl f \<Rightarrow> with_error text f out1
              | Inr res \<Rightarrow>
                  let out2 = put_resources vw res out1
                  in case put_storage summary out2 of
                      (Some e, out3) \<Rightarrow> with_error text (Escaped e) out3
                    | (None, out3) \<Rightarrow>
                        (case best_effort (get_json net dec n ''me'') of
                            Inl f \<Rightarrow> with_error text f out3
                          | Inr me \<Rightarrow>
                              (case self_heal me out3 caps0 of
                                 Inl e \<Rightarrow> with_error text (Escaped e) out3
                               | Inr (out4, caps) \<Rightarrow> nexus_extras net dec text n summary out4 caps)))"

end
