(* ===== verification/HostTypes.thy ===== *)
theory HostTypes
  imports Adapters
begin

text \<open>
  The host types that answer one JSON request: the agent of a bare machine (\<open>adapters/agent.py\<close>), a
  dnsmasq manager (\<open>adapters/dnsmaq.py\<close>), a UniFi network (\<open>adapters/unifi.py\<close>) and a DGX Spark cluster
  (\<open>adapters/sparkdash.py\<close>). Each maps a payload the host sent, of any shape, into the envelope; a
  shape the code does not expect raises, and the fetch turns that into the host's error. A block that
  only the web interface displays is built beside the envelope; that of the network is part of it.
\<close>

section \<open>Reading payloads\<close>

text \<open>\<open>for m in (v or [])\<close> with a \<open>m.get\<close> in the body: every item must be a dictionary.\<close>

fun all_dicts :: "json list \<Rightarrow> exn + json dict list" where
  "all_dicts [] = Inr []"
| "all_dicts (v # vs) = and_then (as_dict v) (\<lambda>d. and_then (all_dicts vs) (\<lambda>ds. Inr (d # ds)))"

definition items_of :: "json \<Rightarrow> exn + json list" where
  "items_of v = (if truthy v then py_list v else Inr [])"

definition dicts_of :: "json \<Rightarrow> exn + json dict list" where
  "dicts_of v = and_then (items_of v) all_dicts"

text \<open>\<open>sum(int(m.get(k) or 0) for m in ms)\<close>.\<close>

fun sum_ints :: "string \<Rightarrow> json dict list \<Rightarrow> exn + int" where
  "sum_ints k [] = Inr 0"
| "sum_ints k (d # ds) =
     and_then (py_int (if truthy (jget d k) then jget d k else JInt 0)) (\<lambda>i. and_then (sum_ints k ds) (\<lambda>j. Inr (i + j)))"

definition text_or_none :: "json \<Rightarrow> string option" where
  "text_or_none v = (if truthy v then Some (py_str v) else None)"

text \<open>\<open>d.get(k) or dflt\<close>, and a new dictionary of some keys of another one.\<close>

definition get_or :: "json \<Rightarrow> string \<Rightarrow> json dict \<Rightarrow> json" where
  "get_or dflt k d = (if truthy (jget d k) then jget d k else dflt)"

definition pick_keys :: "string list \<Rightarrow> json dict \<Rightarrow> json dict" where
  "pick_keys ks m = map (\<lambda>k. (k, jget m k)) ks"

text \<open>\<open>_scheme\<close>.\<close>

definition scheme :: "string \<Rightarrow> string" where
  "scheme base_url = (if startswith ''https://'' (lower base_url) then ''https'' else ''http'')"

definition node_token :: "(string \<Rightarrow> string option) \<Rightarrow> node \<Rightarrow> string" where
  "node_token dec n = (if n_token_enc n = [] then [] else case dec (n_token_enc n) of None \<Rightarrow> [] | Some t \<Rightarrow> t)"

section \<open>The agent\<close>

definition build_agent_envelope :: "views \<Rightarrow> node \<Rightarrow> json dict \<Rightarrow> exn + envelope" where
  "build_agent_envelope vw n payload =
     and_then (dict_or_empty (jget payload ''cpu'')) (\<lambda>cpu.
       and_then (dict_or_empty (jget payload ''memory'')) (\<lambda>mem.
         and_then (dicts_of (jget payload ''mounts'')) (\<lambda>mounts.
           and_then (sum_ints ''used'' mounts) (\<lambda>used.
             and_then (sum_ints ''total'' mounts) (\<lambda>capacity.
               Inr ((base_envelope n)\<lparr>e_ok := True, e_cpu_pct := vw_pct vw (jget cpu ''percent''),
                 e_mem_pct := vw_pct vw (jget mem ''percent''), e_used_bytes := used, e_size_bytes := capacity,
                 e_version := (case text_or_none (jget payload ''version'') of None \<Rightarrow> n_version n | Some v \<Rightarrow> Some v),
                 e_type_auto := Some ''Unknown''\<rparr>))))))"

text \<open>The row of an agent; its parts are dictionaries by then.\<close>

definition agent_block :: "json dict \<Rightarrow> json dict \<Rightarrow> json dict list \<Rightarrow> json dict" where
  "agent_block payload cpu mounts =
     pick_keys [''platform'', ''os'', ''kernel'', ''hostname'', ''uptime_seconds''] payload @
     [(''load1'', jget cpu ''load1''), (''mounts'', JInt (int (length mounts))),
      (''mount_list'', JArr (map (\<lambda>m. JObj (pick_keys [''mountpoint'', ''fstype'', ''percent'', ''total'', ''used''] m)) mounts))]"

definition agent_metrics :: "net \<Rightarrow> string \<Rightarrow> string option \<Rightarrow> string \<Rightarrow> failure + json dict" where
  "agent_metrics net base_url fp token =
     and_then (pinned_request net (rstrip_slash base_url @ ''/api/v1/metrics'') fp (Some token)) (\<lambda>(status, body).
       if status = 401 then Inl (NodeErr (''agent token rejected (401) - token is printed by '' @ ''install.sh (or: /opt/nexus-agent/data/token)''))
       else if status \<noteq> 200 then Inl (NodeErr (''agent answered HTTP '' @ show_nat status))
       else case body of
           None \<Rightarrow> Inl (NodeErr ''non-JSON response (is this a nexus-agent URL?)'')
         | Some v \<Rightarrow> and_then (escaping (as_dict v)) (\<lambda>d.
             if jget d ''agent'' \<noteq> JStr ''nexus-agent'' then Inl (NodeErr ''not a nexus-agent endpoint'') else Inr d))"

definition fetched :: "(exn \<Rightarrow> string) \<Rightarrow> node \<Rightarrow> failure + envelope \<Rightarrow> envelope" where
  "fetched text n r = (case r of Inr env \<Rightarrow> env | Inl f \<Rightarrow> with_error text f (base_envelope n))"

definition agent_fetch :: "net \<Rightarrow> (string \<Rightarrow> string option) \<Rightarrow> (exn \<Rightarrow> string) \<Rightarrow> views \<Rightarrow> node \<Rightarrow> envelope" where
  "agent_fetch net dec text vw n = fetched text n
     (and_then (agent_metrics net (n_base_url n) (n_cert_fp n) (node_token dec n)) (\<lambda>payload. escaping (build_agent_envelope vw n payload)))"

text \<open>The probe pins only over \<open>https\<close>.\<close>

definition agent_probe :: "net \<Rightarrow> string \<Rightarrow> string \<Rightarrow> failure + string option \<times> json dict" where
  "agent_probe net base_url token0 =
     (let token = strip token0
      in if token = [] then Inl (NodeErr ''the agent token is required'')
         else and_then (escaping (split_host_port base_url)) (\<lambda>(host, port).
           if host = [] then Inl (NodeErr ''invalid base URL'')
           else and_then (if scheme base_url = ''https'' then and_then (capture_fp net base_url) (\<lambda>(hp, fp). Inr (Some fp)) else Inr None)
             (\<lambda>fp. and_then (agent_metrics net base_url fp token) (\<lambda>payload. Inr (fp, payload)))))"

section \<open>The dnsmasq manager\<close>

text \<open>\<open>_classify_role\<close>: the names this instance mirrors from, and the peers it pushes to.\<close>

definition sources_of :: "json \<Rightarrow> exn + string list" where
  "sources_of mirror = (case mirror of
      JObj d \<Rightarrow>
        and_then (items_of (jget d ''sources'')) (\<lambda>vs.
          if \<exists>v\<in>set vs. \<not> (case v of JStr s \<Rightarrow> True | _ \<Rightarrow> False) then Inl TypeError
          else Inr (sort (str_caps vs)))
    | _ \<Rightarrow> Inr [])"

definition peers_of :: "json \<Rightarrow> exn + json list" where
  "peers_of peers = (case peers of JObj d \<Rightarrow> items_of (jget d ''peers'') | _ \<Rightarrow> Inr [])"

definition classify_role :: "string list \<Rightarrow> nat \<Rightarrow> string \<times> string list \<times> nat" where
  "classify_role sources npeers =
     (if sources \<noteq> [] \<and> npeers \<noteq> 0 then (''relay'', sources, npeers)
      else if sources \<noteq> [] then (''secondary'', sources, 0)
      else if npeers \<noteq> 0 then (''primary'', [], npeers)
      else (''standalone'', [], 0))"

record dns_block =
  dn_running :: bool
  dn_role :: string
  dn_mirror_from :: "string option"
  dn_peers_total :: nat
  dn_peers_ok :: nat
  dn_shown :: "json dict"
  dn_pools :: "json dict list"

definition dns_shown :: "json dict \<Rightarrow> json dict \<Rightarrow> json dict \<Rightarrow> json dict" where
  "dns_shown status dns dhcp =
     (''dnsmasq_version'', jget status ''version'') # pick_keys [''mode'', ''dns_enabled'', ''dhcp_enabled'', ''tftp_enabled''] status @
     [(''hit_ratio'', jget dns ''hit_ratio''), (''cache_size'', jget dns ''cachesize''), (''active_leases'', jget dhcp ''active_leases'')]"

definition dns_block_of :: "json \<Rightarrow> json dict \<Rightarrow> json \<Rightarrow> json \<Rightarrow> exn + dns_block" where
  "dns_block_of stats status mirror peers =
     and_then (dict_or_empty stats) (\<lambda>st.
       and_then (dict_or_empty (jget st ''dns'')) (\<lambda>dns.
         and_then (dict_or_empty (jget st ''dhcp'')) (\<lambda>dhcp.
           and_then (sources_of mirror) (\<lambda>sources.
             and_then (peers_of peers) (\<lambda>peer_list.
               and_then (dicts_of (jget dhcp ''pools'')) (\<lambda>pools.
                 and_then (all_dicts peer_list) (\<lambda>ps.
                   let (role, from, total) = classify_role sources (length peer_list)
                   in Inr \<lparr>dn_running = truthy (jget status ''running''), dn_role = role,
                        dn_mirror_from = (if from = [] then None else Some (join '', '' from)), dn_peers_total = total,
                        dn_peers_ok = length (filter (\<lambda>p. jget p ''last_status'' = JStr ''ok'') ps),
                        dn_shown = dns_shown status dns dhcp, dn_pools = map (pick_keys [''tag'', ''pct'']) pools\<rparr>)))))))"

definition dnsmasq_service :: "bool \<Rightarrow> service_st" where
  "dnsmasq_service running = \<lparr>sv_enabled = Some ''enabled'', sv_active = Some (if running then ''active'' else ''inactive'')\<rparr>"

definition build_dnsmaq_envelope :: "node \<Rightarrow> json \<Rightarrow> json \<Rightarrow> json \<Rightarrow> json \<Rightarrow> exn + envelope \<times> dns_block" where
  "build_dnsmaq_envelope n status0 stats mirror peers =
     and_then (dict_or_empty status0) (\<lambda>status.
       and_then (dns_block_of stats status mirror peers) (\<lambda>blk.
         Inr ((base_envelope n)\<lparr>e_ok := True,
             e_summary := Some (no_summary\<lparr>su_services := [(''dnsmasq'', dnsmasq_service (dn_running blk))]\<rparr>),
             e_type_auto := Some ''DNS''\<rparr>, blk)))"

definition or_null :: "json option \<Rightarrow> json" where
  "or_null v = (case v of None \<Rightarrow> JNull | Some x \<Rightarrow> x)"

text \<open>One required call, three best-effort ones, and the version of the instance.\<close>

definition dnsmaq_fetch :: "net \<Rightarrow> (string \<Rightarrow> string option) \<Rightarrow> (exn \<Rightarrow> string) \<Rightarrow> node \<Rightarrow> envelope" where
  "dnsmaq_fetch net dec text n = fetched text n
     (and_then (get_json net dec n ''dnsmasq/status'') (\<lambda>status.
       and_then (best_effort (get_json net dec n ''stats/current'')) (\<lambda>stats.
         and_then (best_effort (get_json net dec n ''mirror/status'')) (\<lambda>mirror.
           and_then (best_effort (get_json net dec n ''peers'')) (\<lambda>peers.
             and_then (escaping (build_dnsmaq_envelope n status (or_null stats) (or_null mirror) (or_null peers))) (\<lambda>(env, blk).
               and_then (best_effort (get_json net dec n ''me'')) (\<lambda>me.
                 case me of
                   None \<Rightarrow> Inr env
                 | Some v \<Rightarrow> and_then (escaping (as_dict v)) (\<lambda>d.
                     case text_or_none (jget d ''version'') of None \<Rightarrow> Inr env | Some t \<Rightarrow> Inr (env\<lparr>e_version := Some t\<rparr>)))))))))"

section \<open>The UniFi network\<close>

definition SEVERITIES :: "string list" where
  "SEVERITIES = [''critical'', ''warning'', ''info'']"

text \<open>An issue worth an alarm: active, not acknowledged there, not muted there.\<close>

definition issue_live :: "json dict \<Rightarrow> bool" where
  "issue_live i = (truthy (jget i ''active'') \<and> \<not> truthy (jget i ''ackedAt'') \<and> \<not> truthy (jget i ''muted''))"

definition severity_index :: "json dict \<Rightarrow> nat" where
  "severity_index i = (if jget i ''severity'' = JStr ''critical'' then 0 else if jget i ''severity'' = JStr ''warning'' then 1
     else if jget i ''severity'' = JStr ''info'' then 2 else length SEVERITIES)"

text \<open>\<open>-(i.get('occurrences') or 0)\<close> of a finite number.\<close>

definition occurrences :: "json dict \<Rightarrow> exn + rat" where
  "occurrences i = (case jget i ''occurrences'' of
      JNull \<Rightarrow> Inr 0
    | JInt k \<Rightarrow> Inr (of_int k)
    | JBool b \<Rightarrow> Inr (if b then 1 else 0)
    | JFloat (Fin r) t \<Rightarrow> Inr r
    | v \<Rightarrow> if truthy v then Inl TypeError else Inr 0)"

fun with_keys :: "json dict list \<Rightarrow> exn + ((nat \<times> rat) \<times> json dict) list" where
  "with_keys [] = Inr []"
| "with_keys (i # is) = and_then (occurrences i) (\<lambda>k. and_then (with_keys is) (\<lambda>r. Inr (((severity_index i, - k), i) # r)))"

definition sort_issues :: "json dict list \<Rightarrow> exn + json dict list" where
  "sort_issues is = and_then (with_keys is) (\<lambda>ks. Inr (map snd (sort_key fst ks)))"

definition stripped :: "json \<Rightarrow> exn + string" where
  "stripped v = (if truthy v then (case v of JStr s \<Rightarrow> Inr (strip s) | _ \<Rightarrow> Inl AttributeError) else Inr [])"

text \<open>\<open>_line\<close>: the operator's name for the subject before the raw one.\<close>

definition issue_line :: "json dict \<Rightarrow> exn + string" where
  "issue_line i =
     and_then (stripped (if truthy (jget i ''subjectName'') then jget i ''subjectName'' else jget i ''subject'')) (\<lambda>who.
       and_then (stripped (jget i ''message'')) (\<lambda>msg.
         Inr (if who \<noteq> [] \<and> msg \<noteq> [] then who @ '': '' @ msg else if who \<noteq> [] then who else msg)))"

fun issue_lines :: "json dict list \<Rightarrow> exn + string list" where
  "issue_lines [] = Inr []"
| "issue_lines (i # is) = and_then (issue_line i) (\<lambda>l. and_then (issue_lines is) (\<lambda>ls. Inr (l # ls)))"

definition of_severity :: "string \<Rightarrow> json dict list \<Rightarrow> json dict list" where
  "of_severity sev is = filter (\<lambda>i. jget i ''severity'' = JStr sev) is"

definition tally_issues :: "string \<Rightarrow> json dict list \<Rightarrow> nat" where
  "tally_issues sev live = length (of_severity sev live)"

definition issue_view :: "json dict \<Rightarrow> json dict" where
  "issue_view i = [(''severity'', jget i ''severity''), (''kind'', jget i ''kind''),
     (''subject'', get_or (get_or (JStr []) ''subject'' i) ''subjectName'' i), (''message'', get_or (JStr []) ''message'' i)]"

definition network_of :: "json dict \<Rightarrow> json dict \<Rightarrow> json dict \<Rightarrow> json dict list \<Rightarrow> json dict list \<Rightarrow> json \<Rightarrow> network_block" where
  "network_of thr counts wan live subsystems generated = \<lparr>
     nb_values =
       [(''wan_rx_bps'', get_or (JInt 0) ''wanRxBps'' thr), (''wan_tx_bps'', get_or (JInt 0) ''wanTxBps'' thr),
        (''lan_rx_bps'', get_or (JInt 0) ''lanRxBps'' thr), (''lan_tx_bps'', get_or (JInt 0) ''lanTxBps'' thr),
        (''clients'', get_or (JInt 0) ''clients'' counts), (''wireless'', get_or (JInt 0) ''wireless'' counts),
        (''wired'', get_or (JInt 0) ''wired'' counts), (''devices_online'', get_or (JInt 0) ''devicesOnline'' counts),
        (''devices_total'', get_or (JInt 0) ''devicesTotal'' counts), (''latency_ms'', jget wan ''latencyMs''),
        (''wan_status'', get_or (JStr ''unknown'') ''status'' wan), (''isp'', get_or (JStr []) ''isp'' wan), (''generated_at'', generated)],
     nb_critical = tally_issues ''critical'' live, nb_warning = tally_issues ''warning'' live, nb_info = tally_issues ''info'' live,
     nb_issues = map issue_view (take 12 live), nb_subsystems = map (pick_keys [''name'', ''status'']) subsystems\<rparr>"

text \<open>Only critical issues become alerts of the host, five at most.\<close>

definition unifi_summary :: "json dict list \<Rightarrow> exn + summary option" where
  "unifi_summary live =
     (if of_severity ''critical'' live = [] then Inr None
      else and_then (issue_lines (of_severity ''critical'' live)) (\<lambda>ls. Inr (Some (no_summary\<lparr>su_alerts := take 5 ls\<rparr>))))"

definition build_unifi_envelope :: "node \<Rightarrow> json dict \<Rightarrow> exn + envelope \<times> network_block" where
  "build_unifi_envelope n snap =
     and_then (dicts_of (jget snap ''issues'')) (\<lambda>issues.
       and_then (sort_issues (filter issue_live issues)) (\<lambda>live.
         and_then (dict_or_empty (jget snap ''throughput'')) (\<lambda>thr.
           and_then (dict_or_empty (jget snap ''counts'')) (\<lambda>counts.
             and_then (dict_or_empty (jget snap ''wan'')) (\<lambda>wan.
               and_then (dicts_of (jget snap ''subsystems'')) (\<lambda>subsystems.
                 and_then (unifi_summary live) (\<lambda>sm.
                   let blk = network_of thr counts wan live subsystems (jget snap ''generatedAt'')
                   in Inr ((base_envelope n)\<lparr>e_ok := True, e_network := Some blk, e_summary := sm, e_type_auto := Some ''Network''\<rparr>, blk))))))))"

definition unifi_overview :: "net \<Rightarrow> string \<Rightarrow> string option \<Rightarrow> string \<Rightarrow> failure + json dict" where
  "unifi_overview net base_url fp token =
     and_then (pinned_request net (rstrip_slash base_url @ ''/api/overview'') fp (if token = [] then None else Some token)) (\<lambda>(status, body).
       if status = 401 \<or> status = 403 then
         Inl (NodeErr (''overview requires authentication - supply an API '' @ ''token, or enable the public overview in UnifiDash''))
       else if status \<noteq> 200 then Inl (NodeErr (''overview failed (HTTP '' @ show_nat status @ '')''))
       else case body of
           None \<Rightarrow> Inl (NodeErr ''overview returned non-JSON (is this a UnifiDash URL?)'')
         | Some (JObj d) \<Rightarrow>
             if has_key d ''counts'' \<and> has_key d ''throughput'' then Inr d
             else Inl (NodeErr ''unexpected overview shape (is this a UnifiDash URL?)'')
         | Some v \<Rightarrow> Inl (NodeErr ''unexpected overview shape (is this a UnifiDash URL?)''))"

definition unifi_fetch :: "net \<Rightarrow> (string \<Rightarrow> string option) \<Rightarrow> (exn \<Rightarrow> string) \<Rightarrow> node \<Rightarrow> envelope" where
  "unifi_fetch net dec text n = fetched text n
     (and_then (unifi_overview net (n_base_url n) (n_cert_fp n) (node_token dec n)) (\<lambda>snap.
       and_then (escaping (build_unifi_envelope n snap)) (\<lambda>(env, blk). Inr env)))"

definition unifi_probe :: "net \<Rightarrow> string \<Rightarrow> string \<Rightarrow> failure + string \<times> string option \<times> string \<times> json dict" where
  "unifi_probe net base_url token0 =
     (let token = strip token0
      in and_then (escaping (split_host_port base_url)) (\<lambda>(host, port).
        if host = [] then Inl (NodeErr ''invalid base URL'')
        else if \<not> startswith ''https://'' (lower base_url) then
          Inl (NodeErr (''UnifiDash must be reached over https:// so its '' @ ''certificate can be pinned - put it behind a TLS '' @ ''reverse proxy''))
        else and_then (capture_fp net base_url) (\<lambda>(hp, fp).
          and_then (unifi_overview net base_url (Some fp) token) (\<lambda>snap.
            Inr (fp, if token = [] then None else Some ''admin'', host, snap)))))"

section \<open>The Spark cluster\<close>

text \<open>The head node, the first node without one, nothing without nodes. A truthy \<open>nodes\<close> that is no list
  raises one way or another; the class is the one of a dictionary.\<close>

definition spark_nodes :: "json dict \<Rightarrow> exn + json dict list" where
  "spark_nodes snap = (let v = jget snap ''nodes''
     in if \<not> truthy v then Inr [] else case v of JArr vs \<Rightarrow> all_dicts vs | _ \<Rightarrow> Inl KeyError)"

definition head_node :: "json dict list \<Rightarrow> json dict" where
  "head_node ns = (case find (\<lambda>d. jget d ''role'' = JStr ''head'') ns of Some d \<Rightarrow> d
     | None \<Rightarrow> (case ns of [] \<Rightarrow> [] | d # ds \<Rightarrow> d))"

definition num_of :: "json \<Rightarrow> exn + rat" where
  "num_of v = (case v of JInt k \<Rightarrow> Inr (of_int k) | JBool b \<Rightarrow> Inr (if b then 1 else 0) | JFloat (Fin r) t \<Rightarrow> Inr r | _ \<Rightarrow> Inl TypeError)"

definition up_when :: "bool \<Rightarrow> service_st" where
  "up_when b = \<lparr>sv_enabled = Some ''enabled'', sv_active = Some (if b then ''active'' else ''inactive'')\<rparr>"

text \<open>\<open>max\<close> of the loads that are there: numbers compare with numbers and text with text. (A load that is a list
  is taken for one that does not compare.)\<close>

fun json_less :: "json \<Rightarrow> json \<Rightarrow> exn + bool" where
  "json_less (JStr a) (JStr b) = Inr (a < b)"
| "json_less (JFloat a s) (JFloat b t) = Inr (fl_less a b)"
| "json_less (JFloat a s) v = and_then (num_of v) (\<lambda>b. Inr (fl_less a (Fin b)))"
| "json_less v (JFloat b t) = and_then (num_of v) (\<lambda>a. Inr (fl_less (Fin a) b))"
| "json_less v w = and_then (num_of v) (\<lambda>a. and_then (num_of w) (\<lambda>b. Inr (a < b)))"

fun json_max :: "json \<Rightarrow> json list \<Rightarrow> exn + json" where
  "json_max best [] = Inr best"
| "json_max best (v # vs) = and_then (json_less best v) (\<lambda>b. json_max (if b then v else best) vs)"

definition gpu_load :: "json dict list \<Rightarrow> exn + json" where
  "gpu_load ns = (case filter (\<lambda>v. v \<noteq> JNull) (map (\<lambda>d. jget d ''gpu_util_pct'') ns) of [] \<Rightarrow> Inr JNull | v # vs \<Rightarrow> json_max v vs)"

fun sum_or_zero :: "string \<Rightarrow> json dict list \<Rightarrow> exn + rat" where
  "sum_or_zero k [] = Inr 0"
| "sum_or_zero k (d # ds) = and_then (num_of (get_or (JInt 0) k d)) (\<lambda>x. and_then (sum_or_zero k ds) (\<lambda>y. Inr (x + y)))"

record spark_block =
  sk_healthy :: bool
  sk_nodes :: json
  sk_nodes_online :: nat
  sk_gpu_util_pct :: json
  sk_vram_used_mb :: rat
  sk_model :: json
  sk_vllm_healthy :: bool
  sk_recipe :: json
  sk_recipe_running :: bool
  sk_ray_alive :: json
  sk_ray_total :: json
  sk_node_list :: "json dict list"

definition spark_block_of :: "json dict \<Rightarrow> json dict list \<Rightarrow> json \<Rightarrow> rat \<Rightarrow> json dict \<Rightarrow> json dict \<Rightarrow> json dict \<Rightarrow> spark_block" where
  "spark_block_of snap nodes gpu vram vllm recipe ray = \<lparr>sk_healthy = truthy (jget snap ''cluster_healthy''),
     sk_nodes = get_or (JInt (int (length nodes))) ''node_count'' snap, sk_nodes_online = length (filter (\<lambda>d. truthy (jget d ''online'')) nodes),
     sk_gpu_util_pct = gpu, sk_vram_used_mb = vram, sk_model = jget vllm ''model'', sk_vllm_healthy = truthy (jget vllm ''healthy''),
     sk_recipe = jget recipe ''name'', sk_recipe_running = truthy (jget recipe ''running''), sk_ray_alive = jget ray ''nodes_alive'',
     sk_ray_total = jget ray ''nodes_total'',
     sk_node_list = map (\<lambda>d. pick_keys [''name'', ''ip'', ''role''] d @ (''online'', JBool (truthy (jget d ''online''))) #
       pick_keys [''gpu_util_pct'', ''vram_used_mb''] d) nodes\<rparr>"

text \<open>vLLM always, Ray only for a cluster of several nodes.\<close>

definition spark_services :: "json dict \<Rightarrow> json dict \<Rightarrow> exn + service_st dict" where
  "spark_services vllm ray =
     (let v = (''vllm'', up_when (truthy (jget vllm ''healthy'')))
      in if \<not> truthy (jget ray ''nodes_total'') then Inr [v]
         else and_then (num_of (if truthy (jget ray ''nodes_alive'') then jget ray ''nodes_alive'' else JInt 0)) (\<lambda>alive.
           and_then (num_of (jget ray ''nodes_total'')) (\<lambda>all. Inr [v, (''ray'', up_when (all \<le> alive))])))"

definition build_spark_envelope :: "views \<Rightarrow> node \<Rightarrow> json dict \<Rightarrow> exn + envelope \<times> spark_block" where
  "build_spark_envelope vw n snap =
     and_then (spark_nodes snap) (\<lambda>nodes.
       and_then (sum_ints ''disk_used'' nodes) (\<lambda>used.
         and_then (sum_ints ''disk_total'' nodes) (\<lambda>capacity.
           and_then (gpu_load nodes) (\<lambda>gpu.
             and_then (sum_or_zero ''vram_used_mb'' nodes) (\<lambda>vram.
               and_then (dict_or_empty (jget snap ''vllm'')) (\<lambda>vllm.
                 and_then (dict_or_empty (jget snap ''recipe'')) (\<lambda>recipe.
                   and_then (dict_or_empty (jget snap ''ray'')) (\<lambda>ray.
                     and_then (spark_services vllm ray) (\<lambda>services.
                   let head = head_node nodes
                   in Inr ((base_envelope n)\<lparr>e_ok := True, e_cpu_pct := vw_pct vw (jget head ''cpu_pct''),
                        e_mem_pct := vw_pct vw (jget head ''mem_used_pct''), e_used_bytes := used, e_size_bytes := capacity,
                        e_cluster_healthy := Some (truthy (jget snap ''cluster_healthy'')),
                        e_summary := Some (no_summary\<lparr>su_services := services\<rparr>), e_type_auto := Some ''AI''\<rparr>,
                     spark_block_of snap nodes gpu vram vllm recipe ray))))))))))"

definition spark_snapshot :: "net \<Rightarrow> string \<Rightarrow> string option \<Rightarrow> failure + json" where
  "spark_snapshot net base_url fp =
     and_then (pinned_request net (rstrip_slash base_url @ ''/api/v1/snapshot'') fp None) (\<lambda>(status, body).
       if status \<noteq> 200 then Inl (NodeErr (''snapshot failed (HTTP '' @ show_nat status @ '')''))
       else case body of None \<Rightarrow> Inl (NodeErr ''snapshot returned non-JSON (is this a sparkdash URL?)'') | Some v \<Rightarrow> Inr v)"

definition spark_collect :: "net \<Rightarrow> (exn \<Rightarrow> string) \<Rightarrow> views \<Rightarrow> node \<Rightarrow> envelope" where
  "spark_collect net text vw n =
     (case and_then (spark_snapshot net (n_base_url n) (n_cert_fp n)) (\<lambda>v.
         and_then (escaping (as_dict v)) (\<lambda>snap. escaping (build_spark_envelope vw n snap))) of
        Inr (env, blk) \<Rightarrow> env
      | Inl f \<Rightarrow> (with_error text f (base_envelope n))\<lparr>e_type_auto := Some ''AI''\<rparr>)"

text \<open>The probe looks for the head node up to the first one, and checks a token, when there is one, on a
  request only an administrator may make.\<close>

fun find_head :: "json list \<Rightarrow> exn + json dict" where
  "find_head [] = Inr []"
| "find_head (v # vs) = and_then (as_dict v) (\<lambda>d. if jget d ''role'' = JStr ''head'' then Inr d else find_head vs)"

definition spark_probe :: "net \<Rightarrow> string \<Rightarrow> string \<Rightarrow> failure + string \<times> string option \<times> json \<times> json dict" where
  "spark_probe net base_url token0 =
     (let token = strip token0
      in and_then (capture_fp net base_url) (\<lambda>(hp, fp).
        and_then (spark_snapshot net base_url (Some fp)) (\<lambda>v.
          and_then (escaping (as_dict v)) (\<lambda>snap.
            case jget snap ''nodes'' of
              JArr ns \<Rightarrow>
                and_then (if token = [] then Inr None
                  else and_then (pinned_request net (rstrip_slash base_url @ ''/api/admin/cert'') (Some fp) (Some token)) (\<lambda>(status, body).
                    if status = 401 \<or> status = 403 then
                      Inl (NodeErr (''API token rejected ('' @ show_nat status @ '') - mint one in SparkDash '' @ ''admin > API tokens''))
                    else if status \<noteq> 200 then Inl (NodeErr (''token check failed (HTTP '' @ show_nat status @ '')''))
                    else Inr (Some ''admin'')))
                  (\<lambda>role. and_then (escaping (find_head ns)) (\<lambda>head. Inr (fp, role, jget head ''hostname'', snap)))
            | _ \<Rightarrow> Inl (NodeErr ''unexpected snapshot shape (is this a sparkdash URL?)'')))))"

end
