(* ===== verification/PolledHosts.thy ===== *)
theory PolledHosts
  imports HostTypes
begin

text \<open>
  The background-polled hosts that log in with a library of their own: hypervisors
  (\<open>adapters/virt.py\<close>, \<open>adapters/proxmox.py\<close>, \<open>adapters/vmware.py\<close>) and storage appliances
  (\<open>adapters/truenas.py\<close>, \<open>zimaos.py\<close>, \<open>omv.py\<close>, \<open>unraid.py\<close>). The collector and the guest action are
  parameters that get the address, the credentials and the verification flag of one login; an
  exception of theirs is its text. A metric a collector did not report reads as zero or empty.
\<close>

section \<open>One login\<close>

record login =
  lg_host :: string
  lg_port :: int
  lg_scheme :: "string option"
  lg_user :: string
  lg_secret :: string
  lg_verify :: bool

type_synonym 'm collector = "login \<Rightarrow> string + 'm"

text \<open>\<open>_verify_poll_pin\<close>: fails closed on a changed certificate; the \<open>OSError\<close> of the connection passes.\<close>

definition poll_pin_changed :: "string \<Rightarrow> int \<Rightarrow> string \<Rightarrow> string \<Rightarrow> string" where
  "poll_pin_changed host port pin live =
     ''certificate fingerprint changed for '' @ host @ '':'' @ show_int port @ '' (pinned '' @ take 16 pin @ [ellipsis] @
     '', saw '' @ take 16 live @ [ellipsis] @ '')''"

definition verify_poll_pin :: "net \<Rightarrow> node \<Rightarrow> string \<Rightarrow> int \<Rightarrow> failure + unit" where
  "verify_poll_pin net n host port =
     (case n_cert_fp n of
        None \<Rightarrow> Inr ()
      | Some pin \<Rightarrow>
          if pin = [] then Inr ()
          else (case nt_cert net host port of
              Inl e \<Rightarrow> Inl (OsErr e)
            | Inr live \<Rightarrow> if live \<noteq> pin then Inl (NodeErr (poll_pin_changed host port pin live)) else Inr ()))"

definition secret_of :: "(string \<Rightarrow> string option) \<Rightarrow> string \<Rightarrow> string" where
  "secret_of dec enc = (case dec enc of None \<Rightarrow> [] | Some t \<Rightarrow> t)"

definition userpass_login :: "(string \<Rightarrow> string option) \<Rightarrow> node \<Rightarrow> string \<Rightarrow> int \<Rightarrow> string option \<Rightarrow> login" where
  "userpass_login dec n host port sch = \<lparr>lg_host = host, lg_port = port, lg_scheme = sch, lg_user = n_username n,
     lg_secret = secret_of dec (n_password_enc n), lg_verify = n_verify_ssl n\<rparr>"

definition collected :: "string + 'm \<Rightarrow> failure + 'm" where
  "collected r = (case r of Inl t \<Rightarrow> Inl (OsErr t) | Inr m \<Rightarrow> Inr m)"

text \<open>The end of every poll: the envelope, or the error with the default type of the host.\<close>

definition polled_result :: "(exn \<Rightarrow> string) \<Rightarrow> string \<Rightarrow> node \<Rightarrow> failure + envelope \<Rightarrow> envelope" where
  "polled_result text dflt n r = (case r of Inr env \<Rightarrow> env
     | Inl f \<Rightarrow> (with_error text f (base_envelope n))\<lparr>e_type_auto := Some dflt\<rparr>)"

section \<open>Hypervisors\<close>

record guest =
  gu_id :: string
  gu_state :: string

record virt_metrics =
  vm_cpu :: "rat option"
  vm_mem :: "rat option"
  vm_storage_used :: rat
  vm_storage_total :: rat
  vm_guests :: "guest list"

definition is_ct :: "guest \<Rightarrow> bool" where
  "is_ct v = startswith ''lxc-'' (gu_id v)"

definition guest_running :: "guest \<Rightarrow> bool" where
  "guest_running v = (gu_state v = ''running'' \<or> gu_state v = ''poweredOn'')"

text \<open>\<open>int(x * 1024 ** 3)\<close>.\<close>

definition gb_bytes :: "rat \<Rightarrow> int" where
  "gb_bytes x = py_trunc (x * 1024 ^ 3)"

definition build_virt_envelope :: "node \<Rightarrow> virt_metrics \<Rightarrow> envelope" where
  "build_virt_envelope n m =
     (let containers = filter is_ct (vm_guests m); vms = filter (\<lambda>v. \<not> is_ct v) (vm_guests m);
          running = (\<lambda>vs. int (length (filter guest_running vs)))
      in (base_envelope n)\<lparr>e_ok := True, e_cpu_pct := vm_cpu m, e_mem_pct := vm_mem m,
           e_used_bytes := gb_bytes (vm_storage_used m), e_size_bytes := gb_bytes (vm_storage_total m),
           e_virt := Some \<lparr>g_vms = int (length vms), g_containers = int (length containers),
             g_vms_running = Some (running vms), g_cts_running = Some (running containers), g_running = None\<rparr>,
           e_type_auto := Some ''Virtualization''\<rparr>)"

text \<open>\<open>VirtAdapter.collect\<close>, with the adapter's envelope builder.\<close>

definition virt_collect :: "net \<Rightarrow> (string \<Rightarrow> string option) \<Rightarrow> (exn \<Rightarrow> string) \<Rightarrow> 'm collector \<Rightarrow>
    (node \<Rightarrow> 'm \<Rightarrow> envelope) \<Rightarrow> node \<Rightarrow> envelope" where
  "virt_collect net dec text coll envelope_of n =
     polled_result text (ad_default_type (adapter_for n)) n
       (and_then (escaping (split_host_port (n_base_url n))) (\<lambda>(host, port).
         and_then (verify_poll_pin net n host port) (\<lambda>_.
           and_then (collected (coll (userpass_login dec n host port None))) (\<lambda>m. Inr (envelope_of n m)))))"

text \<open>\<open>VirtAdapter.probe\<close>: the certificate and the first metrics.\<close>

definition virt_probe :: "net \<Rightarrow> 'm collector \<Rightarrow> string \<Rightarrow> creds \<Rightarrow> failure + string \<times> 'm" where
  "virt_probe net coll base_url cr =
     (if cr_username cr = [] \<or> cr_password cr = [] then Inl (NodeErr ''username and password are required'')
      else and_then (capture_fp net base_url) (\<lambda>((host, port), fp).
        case coll \<lparr>lg_host = host, lg_port = port, lg_scheme = None, lg_user = cr_username cr,
            lg_secret = cr_password cr, lg_verify = cr_verify cr\<rparr> of
          Inl e \<Rightarrow> Inl (NodeErr (''connection/credentials rejected: '' @ e))
        | Inr m \<Rightarrow> Inr (fp, m)))"

definition VM_ACTIONS :: "string list" where
  "VM_ACTIONS = [''start'', ''stop'', ''shutdown'', ''reboot'']"

text \<open>\<open>vm_action\<close>: the guards, the pin, then the action; \<open>act\<close> is the adapter's \<open>_vm_action\<close>.\<close>

definition vm_action :: "net \<Rightarrow> (string \<Rightarrow> string option) \<Rightarrow> (login \<Rightarrow> string \<Rightarrow> string \<Rightarrow> string + 'r) \<Rightarrow> node \<Rightarrow> string \<Rightarrow> string \<Rightarrow>
    failure + 'r" where
  "vm_action net dec act n vm_id action =
     (if \<not> ad_writes (adapter_for n) then Inl (NodeErr ''guest actions are not supported for this host type'')
      else if action \<notin> set VM_ACTIONS then Inl (NodeErr (''unsupported action: '' @ action))
      else and_then (escaping (split_host_port (n_base_url n))) (\<lambda>(host, port).
        and_then (verify_poll_pin net n host port) (\<lambda>_.
          case act (userpass_login dec n host port None) vm_id action of
            Inl e \<Rightarrow> Inl (NodeErr e) | Inr r \<Rightarrow> Inr r)))"

text \<open>The guest identifier of Proxmox, \<open>^(qemu|lxc)-(.+)-(\d+)\Z\<close>: the machine's name is as long as it can
  be, so the number is the run of digits after the last dash.\<close>

definition node_name_char :: "char \<Rightarrow> bool" where
  "node_name_char c = (let k = (of_char c :: nat) in is_digit c \<or> (65 \<le> k \<and> k \<le> 90) \<or> (97 \<le> k \<and> k \<le> 122) \<or>
     c = CHR ''.'' \<or> c = CHR ''_'' \<or> c = CHR ''-'')"

definition guest_id :: "string \<Rightarrow> (string \<times> string \<times> string) option" where
  "guest_id s =
     (case (if startswith ''qemu-'' s then Some (''qemu'', drop 5 s) else if startswith ''lxc-'' s then Some (''lxc'', drop 4 s) else None) of
        None \<Rightarrow> None
      | Some (kind, rest) \<Rightarrow>
          let vmid = rev (takeWhile (\<lambda>c. c \<noteq> CHR ''-'') (rev rest)); name = take (length rest - length vmid - 1) rest
          in if vmid = rest \<or> vmid = [] \<or> \<not> list_all is_digit vmid \<or> name = [] \<or> newline \<in> set name then None
             else Some (kind, name, vmid))"

definition proxmox_action :: "(login \<Rightarrow> string \<Rightarrow> string \<Rightarrow> string \<Rightarrow> string \<Rightarrow> string + 'r) \<Rightarrow> login \<Rightarrow> string \<Rightarrow> string \<Rightarrow> string + 'r" where
  "proxmox_action api lg vm_id action = (case guest_id vm_id of
      None \<Rightarrow> Inl (''unrecognized guest id: '' @ vm_id)
    | Some (kind, name, vmid) \<Rightarrow>
        if \<not> list_all node_name_char name then Inl (''invalid node name in guest id: '' @ vm_id)
        else api lg name kind vmid action)"

section \<open>Storage appliances\<close>

record nas_metrics =
  nm_cpu :: "rat option"
  nm_mem :: "rat option"
  nm_storage_used :: rat
  nm_storage_total :: rat
  nm_services :: "service_st dict"
  nm_pools_degraded :: int
  nm_alert_count :: int
  nm_alerts :: "string list"

definition build_nas_envelope :: "node \<Rightarrow> nas_metrics \<Rightarrow> envelope" where
  "build_nas_envelope n m = (base_envelope n)\<lparr>e_ok := True, e_cpu_pct := nm_cpu m, e_mem_pct := nm_mem m,
     e_used_bytes := gb_bytes (nm_storage_used m), e_size_bytes := gb_bytes (nm_storage_total m),
     e_summary := (if nm_services m = [] then None else Some (no_summary\<lparr>su_services := nm_services m\<rparr>)),
     e_nas := Some \<lparr>nas_alerts = nm_alert_count m, nas_alert_list = nm_alerts m, nas_pools_degraded = nm_pools_degraded m\<rparr>,
     e_type_auto := Some ''Storage''\<rparr>"

definition truenas_collect :: "net \<Rightarrow> (string \<Rightarrow> string option) \<Rightarrow> (exn \<Rightarrow> string) \<Rightarrow> nas_metrics collector \<Rightarrow> node \<Rightarrow> envelope" where
  "truenas_collect net dec text coll n =
     polled_result text ''Storage'' n
       (and_then (escaping (split_host_port (n_base_url n))) (\<lambda>(host, port).
         and_then (verify_poll_pin net n host port) (\<lambda>_.
           and_then (collected (coll \<lparr>lg_host = host, lg_port = port, lg_scheme = None, lg_user = [],
               lg_secret = secret_of dec (n_token_enc n), lg_verify = n_verify_ssl n\<rparr>)) (\<lambda>m. Inr (build_nas_envelope n m)))))"

definition truenas_probe :: "net \<Rightarrow> 'm collector \<Rightarrow> string \<Rightarrow> creds \<Rightarrow> failure + string \<times> 'm" where
  "truenas_probe net coll base_url cr =
     (let token = strip (cr_token cr)
      in if token = [] then Inl (NodeErr ''an API key is required'')
         else and_then (capture_fp net base_url) (\<lambda>((host, port), fp).
           case coll \<lparr>lg_host = host, lg_port = port, lg_scheme = None, lg_user = [], lg_secret = token, lg_verify = cr_verify cr\<rparr> of
             Inl e \<Rightarrow> Inl (NodeErr (''connection/API key rejected: '' @ e))
           | Inr m \<Rightarrow> Inr (fp, m)))"

text \<open>ZimaOS, OpenMediaVault and Unraid often serve plain HTTP: the pin is checked over \<open>https\<close> only. Their
  three adapters have the same code over their own collectors.\<close>

definition lan_poll :: "net \<Rightarrow> (string \<Rightarrow> string option) \<Rightarrow> (exn \<Rightarrow> string) \<Rightarrow> nas_metrics collector \<Rightarrow> node \<Rightarrow> envelope" where
  "lan_poll net dec text coll n =
     polled_result text ''Storage'' n
       (and_then (escaping (split_host_port (n_base_url n))) (\<lambda>(host, port).
         let sch = scheme (n_base_url n)
         in and_then (if sch = ''https'' then verify_poll_pin net n host port else Inr ()) (\<lambda>_.
           and_then (collected (coll (userpass_login dec n host port (Some sch)))) (\<lambda>m. Inr (build_nas_envelope n m)))))"

definition zimaos_collect :: "net \<Rightarrow> (string \<Rightarrow> string option) \<Rightarrow> (exn \<Rightarrow> string) \<Rightarrow> nas_metrics collector \<Rightarrow> node \<Rightarrow> envelope" where
  "zimaos_collect net dec text zimaos n = lan_poll net dec text zimaos n"

definition omv_collect :: "net \<Rightarrow> (string \<Rightarrow> string option) \<Rightarrow> (exn \<Rightarrow> string) \<Rightarrow> nas_metrics collector \<Rightarrow> node \<Rightarrow> envelope" where
  "omv_collect net dec text omv n = lan_poll net dec text omv n"

definition unraid_collect :: "net \<Rightarrow> (string \<Rightarrow> string option) \<Rightarrow> (exn \<Rightarrow> string) \<Rightarrow> nas_metrics collector \<Rightarrow> node \<Rightarrow> envelope" where
  "unraid_collect net dec text unraid n = lan_poll net dec text unraid n"

definition lan_probe :: "net \<Rightarrow> 'm collector \<Rightarrow> string \<Rightarrow> creds \<Rightarrow> failure + string option \<times> 'm" where
  "lan_probe net coll base_url cr =
     (if cr_username cr = [] \<or> cr_password cr = [] then Inl (NodeErr ''username and password are required'')
      else and_then (escaping (split_host_port base_url)) (\<lambda>(host, port).
        if host = [] then Inl (NodeErr ''invalid base URL'')
        else
          let sch = scheme base_url
          in and_then (if sch = ''https'' then and_then (capture_fp net base_url) (\<lambda>(hp, fp). Inr (Some fp)) else Inr None) (\<lambda>fp.
            case coll \<lparr>lg_host = host, lg_port = port, lg_scheme = Some sch, lg_user = cr_username cr,
                lg_secret = cr_password cr, lg_verify = cr_verify cr\<rparr> of
              Inl e \<Rightarrow> Inl (NodeErr (''connection/credentials rejected: '' @ e))
            | Inr m \<Rightarrow> Inr (fp, m))))"

definition zimaos_probe :: "net \<Rightarrow> 'm collector \<Rightarrow> string \<Rightarrow> creds \<Rightarrow> failure + string option \<times> 'm" where
  "zimaos_probe net zimaos base_url cr = lan_probe net zimaos base_url cr"

definition omv_probe :: "net \<Rightarrow> 'm collector \<Rightarrow> string \<Rightarrow> creds \<Rightarrow> failure + string option \<times> 'm" where
  "omv_probe net omv base_url cr = lan_probe net omv base_url cr"

definition unraid_probe :: "net \<Rightarrow> 'm collector \<Rightarrow> string \<Rightarrow> creds \<Rightarrow> failure + string option \<times> 'm" where
  "unraid_probe net unraid base_url cr = lan_probe net unraid base_url cr"

end
