(* ===== verification/AdapterFacts.thy ===== *)
theory AdapterFacts
  imports PolledHosts ConditionFacts
begin

text \<open>
  What the adapters promise: nothing a host without the pinned certificate answers reaches the fleet
  view, a changed certificate is reported as what it is and no collector or guest action runs after it,
  an issue muted in UniFi raises no alarm here, and the sizes a node prints are read back exactly.
\<close>

section \<open>The pin\<close>

text \<open>Two networks that differ only in what peers with another certificate answer.\<close>

definition same_genuine :: "string \<Rightarrow> net \<Rightarrow> net \<Rightarrow> bool" where
  "same_genuine fp net1 net2 = (\<forall>url auth. nt_ask net1 url auth = nt_ask net2 url auth \<or>
     (\<exists>c1 s1 b1 c2 s2 b2. nt_ask net1 url auth = Peer c1 s1 b1 \<and> nt_ask net2 url auth = Peer c2 s2 b2 \<and> c1 \<noteq> fp \<and> c2 \<noteq> fp))"

lemma pinned_request_sealed:
  "same_genuine fp net1 net2 \<Longrightarrow> pins url (Some fp) \<Longrightarrow>
   pinned_request net1 url (Some fp) auth = pinned_request net2 url (Some fp) auth"
  unfolding same_genuine_def pinned_request_def by (drule spec [of _ url], drule spec [of _ auth]) (auto split: reply.split)

lemma pins_longer: "fp \<noteq> [] \<Longrightarrow> startswith ''https://'' (lower u) \<Longrightarrow> pins (u @ v) (Some fp)"
  by (auto simp: pins_def startswith_iff lower_def)

definition pinned_node :: "string \<Rightarrow> node \<Rightarrow> bool" where
  "pinned_node fp n = (n_cert_fp n = Some fp \<and> fp \<noteq> [] \<and> startswith ''https://'' (lower (rstrip_slash (n_base_url n))))"

lemma node_pins: "pinned_node fp n \<Longrightarrow> pins (rstrip_slash (n_base_url n) @ v) (Some fp)"
  by (simp add: pinned_node_def pins_longer)

lemma get_json_sealed:
  "same_genuine fp net1 net2 \<Longrightarrow> pinned_node fp n \<Longrightarrow> get_json net1 dec n = get_json net2 dec n"
proof
  fix path assume h: "same_genuine fp net1 net2" "pinned_node fp n"
  have "n_cert_fp n = Some fp" using h(2) by (simp add: pinned_node_def)
  moreover have "pinned_request net1 (client_url n path) (Some fp) (client_token dec n) =
      pinned_request net2 (client_url n path) (Some fp) (client_token dec n)"
    by (rule pinned_request_sealed [OF h(1)]) (simp add: client_url_def node_pins h(2))
  ultimately show "get_json net1 dec n path = get_json net2 dec n path"
    by (simp add: get_json_def client_request_def)
qed

text \<open>Nothing an impostor says reaches the fleet: what the five adapters that speak HTTP themselves
  report of a pinned host is the same whatever peers with another certificate answer to any of their
  requests, with any status and any body.\<close>

theorem pinned_fetch_sealed:
  assumes "same_genuine fp net1 net2" and "pinned_node fp n"
  shows "nexus_fetch net1 dec text vw n = nexus_fetch net2 dec text vw n \<and>
    agent_fetch net1 dec text vw n = agent_fetch net2 dec text vw n \<and>
    dnsmaq_fetch net1 dec text n = dnsmaq_fetch net2 dec text n \<and>
    unifi_fetch net1 dec text n = unifi_fetch net2 dec text n \<and>
    spark_collect net1 text vw n = spark_collect net2 text vw n"
proof -
  have fp: "n_cert_fp n = Some fp" using assms(2) by (simp add: pinned_node_def)
  note g = get_json_sealed [OF assms]
  have p: "pinned_request net1 (rstrip_slash (n_base_url n) @ v) (Some fp) auth =
      pinned_request net2 (rstrip_slash (n_base_url n) @ v) (Some fp) auth" for v auth
    by (rule pinned_request_sealed [OF assms(1) node_pins [OF assms(2)]])
  have "nexus_fetch net1 dec text vw n = nexus_fetch net2 dec text vw n"
    unfolding nexus_fetch_def nexus_extras_def fetch_llama_def fetch_instances_def g ..
  moreover have "agent_fetch net1 dec text vw n = agent_fetch net2 dec text vw n"
    unfolding agent_fetch_def agent_metrics_def fp p ..
  moreover have "dnsmaq_fetch net1 dec text n = dnsmaq_fetch net2 dec text n"
    unfolding dnsmaq_fetch_def g ..
  moreover have "unifi_fetch net1 dec text n = unifi_fetch net2 dec text n"
    unfolding unifi_fetch_def unifi_overview_def fp p ..
  moreover have "spark_collect net1 text vw n = spark_collect net2 text vw n"
    unfolding spark_collect_def spark_snapshot_def fp p ..
  ultimately show ?thesis by blast
qed

section \<open>The alarm\<close>

text \<open>A pattern without the separator is in a text exactly when it is in one of its two sides.\<close>

lemma contains_split:
  assumes "c \<notin> set pat" and "pat \<noteq> []"
  shows "contains pat (u @ c # v) \<longleftrightarrow> contains pat u \<or> contains pat v"
proof
  assume "contains pat (u @ c # v)"
  then obtain x y where xy: "u @ c # v = x @ pat @ y" by (auto simp: contains_iff)
  then consider (l) w where "u = x @ w" "pat @ y = w @ c # v" | (r) w where "x = u @ c # w" "v = w @ pat @ y"
    using assms(2) by (fastforce simp: append_eq_append_conv2 Cons_eq_append_conv)
  then show "contains pat u \<or> contains pat v"
  proof cases
    case l
    then consider z where "w = pat @ z" | z where "pat = w @ z" "z \<noteq> []" "z @ y = c # v"
      by (auto simp: append_eq_append_conv2) blast
    then show ?thesis
    proof cases
      case 1
      then show ?thesis using l(1) by (auto simp: contains_iff)
    next
      case 2
      then show ?thesis using assms(1) by (cases z) auto
    qed
  next
    case r
    then show ?thesis by (auto simp: contains_iff)
  qed
next
  assume "contains pat u \<or> contains pat v"
  then show "contains pat (u @ c # v)"
    by (auto simp: contains_iff) (metis append_Cons append_assoc)+
qed

lemma contains_needs: "c \<in> set pat \<Longrightarrow> c \<notin> set s \<Longrightarrow> \<not> contains pat s"
  by (auto simp: contains_iff)

lemma contains_prefix: "contains pat u \<Longrightarrow> contains pat (u @ v)"
  unfolding contains_iff by (metis append_assoc)

definition hex_char :: "char \<Rightarrow> bool" where
  "hex_char c = (let n = (of_char c :: nat) in (48 \<le> n \<and> n \<le> 57) \<or> (97 \<le> n \<and> n \<le> 102))"

definition hex_text :: "string \<Rightarrow> bool" where
  "hex_text s = (\<forall>c\<in>set s. hex_char c)"

lemma hex_char_lower: "hex_char c \<Longrightarrow> lower_char c = c" "\<not> hex_char (CHR ''w'')"
  by (auto simp: hex_char_def lower_char_def Let_def)

lemma hex_no_w:
  assumes "hex_text s" and "CHR ''w'' \<notin> set (lower t)"
  shows "CHR ''w'' \<notin> set (lower (take k s @ [ellipsis] @ t))"
proof -
  have "lower_char c \<noteq> CHR ''w''" if "c \<in> set (take k s)" for c
    using that assms(1) hex_char_lower by (metis hex_text_def in_set_takeD)
  moreover have "lower_char ellipsis \<noteq> CHR ''w''" by (simp add: lower_char_def ellipsis_def)
  ultimately show ?thesis using assms(2) by (fastforce simp: lower_def)
qed

lemma strip_same: "s \<noteq> [] \<Longrightarrow> \<not> is_ws (hd s) \<Longrightarrow> \<not> is_ws (last s) \<Longrightarrow> strip s = s"
proof -
  assume s: "s \<noteq> []" "\<not> is_ws (hd s)" "\<not> is_ws (last s)"
  then have "lstrip s = s" by (cases s) (simp_all add: lstrip_def)
  moreover have "rstrip s = s"
    using rstrip_snoc(2) [OF s(3), of "butlast s"] s(1) by simp
  ultimately show ?thesis by (simp add: strip_def)
qed

lemma await_split:
  "contains ''await'' (u @ CHR '' '' # v) \<longleftrightarrow> contains ''await'' u \<or> contains ''await'' v"
  "contains ''await'' (u @ CHR '')'' # v) \<longleftrightarrow> contains ''await'' u \<or> contains ''await'' v"
  "contains ''await'' (u @ CHR '':'' # v) \<longleftrightarrow> contains ''await'' u \<or> contains ''await'' v"
  "contains ''await'' (u @ CHR ''/'' # v) \<longleftrightarrow> contains ''await'' u \<or> contains ''await'' v"
  by (rule contains_split; simp)+

definition cert_alarm :: "cond dict" where
  "cert_alarm = [(''cert_changed'', \<lparr>c_sev = Critical, c_detail = ''TLS certificate fingerprint changed''\<rparr>)]"

lemma lower_append: "lower (u @ v) = lower u @ lower v"
  by (simp add: lower_def)

text \<open>A fingerprint message is passed through whole and read as a changed certificate.\<close>

lemma fingerprint_text_alarm:
  assumes s: "s = ''certificate fingerprint changed for '' @ rest @ '')''" and q: "\<not> contains ''await'' (lower rest)"
  shows "down_conditions (friendly_error s) = cert_alarm"
proof -
  have h: "lower ''certificate fingerprint changed for '' = ''certificate '' @ ''fingerprint changed'' @ '' for ''" by code_simp
  have e: "lower '')'' = '')''" by code_simp
  have low: "lower s = ''certificate '' @ ''fingerprint changed'' @ '' for '' @ lower rest @ '')''"
    unfolding s lower_append h e by simp
  have fp: "contains ''fingerprint changed'' (lower s)" unfolding low contains_iff by blast
  have low2: "lower s = ''certificate fingerprint changed for'' @ CHR '' '' # (lower rest @ CHR '')'' # [])"
    unfolding low by simp
  have "\<not> contains ''await'' ''certificate fingerprint changed for''" "\<not> contains ''await'' []" by code_simp+
  then have "\<not> contains ''await'' (lower s)"
    unfolding low2 await_split using q by blast
  moreover have "strip s = s" unfolding s by (rule strip_same) (simp_all add: is_ws_def)
  ultimately show ?thesis using fp by (simp add: friendly_error_def Let_def down_conditions_def cert_alarm_def)
qed

lemma before_api_prefix: "\<exists>v. url = before_api url @ v"
  by (auto simp: before_api_def Let_def split: list.split) (metis append_take_drop_id)

lemma fp_changed_alarm:
  assumes "\<not> contains ''await'' (lower url)" and "hex_text fp"
  shows "down_conditions (friendly_error (fp_changed url fp)) = cert_alarm"
proof (rule fingerprint_text_alarm)
  show "fp_changed url fp = ''certificate fingerprint changed for '' @ (before_api url @ '' (pinned '' @ take 16 fp @ [ellipsis]) @ '')''"
    by (simp add: fp_changed_def)
  obtain v where "url = before_api url @ v" using before_api_prefix by blast
  then have url: "\<not> contains ''await'' (lower (before_api url))"
    using assms(1) contains_prefix [of "''await''" "lower (before_api url)" "lower v"] by (metis lower_append)
  have pin: "\<not> contains ''await'' (lower (take 16 fp @ [ellipsis]))"
    using hex_no_w [OF assms(2), of "[]" 16] contains_needs [of "CHR ''w''" "''await''"] by (simp add: lower_def)
  have "lower '' (pinned '' = '' (pinned ''" by code_simp
  then have l: "lower (before_api url @ '' (pinned '' @ take 16 fp @ [ellipsis]) =
      lower (before_api url) @ CHR '' '' # (''(pinned'' @ CHR '' '' # lower (take 16 fp @ [ellipsis]))"
    unfolding lower_append by simp
  have "\<not> contains ''await'' ''(pinned''" by code_simp
  then show "\<not> contains ''await'' (lower (before_api url @ '' (pinned '' @ take 16 fp @ [ellipsis]))"
    using url pin unfolding l await_split by blast
qed

lemma rstrip_slash_prefix: "\<exists>v. u = rstrip_slash u @ v"
  unfolding rstrip_slash_def by (metis rev_append rev_rev_ident takeWhile_dropWhile_id)

definition impostor_net :: "string \<Rightarrow> net \<Rightarrow> bool" where
  "impostor_net fp net = (\<forall>url auth. \<exists>c st b. nt_ask net url auth = Peer c st b \<and> c \<noteq> fp)"

lemma impostor_request:
  "impostor_net fp net \<Longrightarrow> pins url (Some fp) \<Longrightarrow> pinned_request net url (Some fp) auth = Inl (NodeErr (fp_changed url fp))"
  unfolding impostor_net_def pinned_request_def by (drule spec [of _ url], drule spec [of _ auth]) auto

lemma url_quiet:
  assumes "\<not> contains ''await'' (lower (n_base_url n))" and "\<not> contains ''await'' (lower path)"
  shows "\<not> contains ''await'' (lower (rstrip_slash (n_base_url n) @ CHR ''/'' # path))"
proof -
  have "lower (rstrip_slash (n_base_url n) @ CHR ''/'' # path) = lower (rstrip_slash (n_base_url n)) @ CHR ''/'' # lower path"
    by (simp add: lower_def lower_char_def)
  moreover obtain v where v: "n_base_url n = rstrip_slash (n_base_url n) @ v" using rstrip_slash_prefix by blast
  have "lower (n_base_url n) = lower (rstrip_slash (n_base_url n)) @ lower v"
    using arg_cong [OF v, of lower] by (simp only: lower_append)
  then have "\<not> contains ''await'' (lower (rstrip_slash (n_base_url n)))"
    using assms(1) contains_prefix by metis
  ultimately show ?thesis using assms(2) by (simp only: await_split) simp
qed

lemma error_env_conditions:
  "e_ok env = False \<Longrightarrow> e_disabled env = False \<Longrightarrow> e_error env = Some t \<Longrightarrow> host_conditions now env = down_conditions t"
  by (simp add: host_conditions_def error_of_def)

lemma with_error_conditions: "host_conditions now (with_error text f (base_envelope n)) = down_conditions (envelope_error text f)"
  "host_conditions now ((with_error text f (base_envelope n))\<lparr>e_type_auto := ty\<rparr>) = down_conditions (envelope_error text f)"
  by (rule error_env_conditions; simp add: with_error_def base_envelope_def)+

text \<open>How a host with a changed certificate is shown: down, red on the board, and its one condition is the critical
  \<open>cert_changed\<close>.\<close>

definition shown_changed :: "int \<Rightarrow> envelope \<Rightarrow> bool" where
  "shown_changed now env \<longleftrightarrow> \<not> e_ok env \<and> fst (board_state env) = Red \<and> host_conditions now env = cert_alarm"

lemma down_not_awaiting: "down_conditions t = cert_alarm \<Longrightarrow> \<not> startswith ''await'' (lower t)"
  by (auto simp: down_conditions_def cert_alarm_def dest: contains_startswith)

lemma shown_changedI:
  assumes "down_conditions (envelope_error text f) = cert_alarm"
  shows "shown_changed now (with_error text f (base_envelope n))"
    and "shown_changed now ((with_error text f (base_envelope n))\<lparr>e_type_auto := ty\<rparr>)"
  using assms down_not_awaiting [OF assms]
  by (simp_all add: shown_changed_def with_error_conditions)
    (simp_all add: board_state_def with_error_def base_envelope_def error_of_def acked_of_def Let_def)

text \<open>C34: When a pinned host shows another certificate, each of the five adapters reports exactly that: the host is down
  and red on the board, and has one critical condition, the changed certificate, and nothing that came with the
  answers. (Hypotheses: the fingerprint is hexadecimal; the address does not contain \<open>await\<close>, the word that a first
  poll is recognised by, see \<open>await_name_silences\<close>.)\<close>

theorem changed_cert_alarms:
  assumes n: "pinned_node fp n" and fp: "hex_text fp" and quiet: "\<not> contains ''await'' (lower (n_base_url n))"
    and net: "impostor_net fp net"
  shows "\<forall>env \<in> {nexus_fetch net dec text vw n, agent_fetch net dec text vw n, dnsmaq_fetch net dec text n,
      unifi_fetch net dec text n, spark_collect net text vw n}. shown_changed now env"
proof -
  have cf: "n_cert_fp n = Some fp" using n by (simp add: pinned_node_def)
  have req: "pinned_request net (rstrip_slash (n_base_url n) @ v) (Some fp) auth =
      Inl (NodeErr (fp_changed (rstrip_slash (n_base_url n) @ v) fp))" for v auth
    by (rule impostor_request [OF net node_pins [OF n]])
  have alarm: "down_conditions (envelope_error text (NodeErr (fp_changed (rstrip_slash (n_base_url n) @ CHR ''/'' # path) fp))) = cert_alarm"
    if "\<not> contains ''await'' (lower path)" for path
    unfolding envelope_error_def fail_text_def
    using fp_changed_alarm [OF url_quiet [OF quiet that] fp] by simp
  have json: "get_json net dec n path = Inl (NodeErr (fp_changed (rstrip_slash (n_base_url n) @ CHR ''/'' # ''api/'' @ lstrip_slash path) fp))" for path
    by (simp add: get_json_def client_request_def client_url_def cf req and_then_def)
  have paths: "\<not> contains ''await'' (lower (''api/'' @ lstrip_slash ''summary''))"
    "\<not> contains ''await'' (lower (''api/'' @ lstrip_slash ''dnsmasq/status''))" "\<not> contains ''await'' (lower ''api/v1/metrics'')"
    "\<not> contains ''await'' (lower ''api/overview'')" "\<not> contains ''await'' (lower ''api/v1/snapshot'')"
    by code_simp+
  have "nexus_fetch net dec text vw n = with_error text (NodeErr (fp_changed (rstrip_slash (n_base_url n) @ CHR ''/'' # ''api/'' @ lstrip_slash ''summary'') fp)) (base_envelope n)"
    by (simp add: nexus_fetch_def json)
  then have 1: "shown_changed now (nexus_fetch net dec text vw n)"
    using shown_changedI [OF alarm [OF paths(1)]] by simp
  have "dnsmaq_fetch net dec text n = with_error text (NodeErr (fp_changed (rstrip_slash (n_base_url n) @ CHR ''/'' # ''api/'' @ lstrip_slash ''dnsmasq/status'') fp)) (base_envelope n)"
    by (simp add: dnsmaq_fetch_def json and_then_def fetched_def)
  then have 2: "shown_changed now (dnsmaq_fetch net dec text n)"
    using shown_changedI [OF alarm [OF paths(2)]] by simp
  have "agent_fetch net dec text vw n = with_error text (NodeErr (fp_changed (rstrip_slash (n_base_url n) @ CHR ''/'' # ''api/v1/metrics'') fp)) (base_envelope n)"
    by (simp add: agent_fetch_def agent_metrics_def cf req and_then_def fetched_def)
  then have 3: "shown_changed now (agent_fetch net dec text vw n)"
    using shown_changedI [OF alarm [OF paths(3)]] by simp
  have "unifi_fetch net dec text n = with_error text (NodeErr (fp_changed (rstrip_slash (n_base_url n) @ CHR ''/'' # ''api/overview'') fp)) (base_envelope n)"
    by (simp add: unifi_fetch_def unifi_overview_def cf req and_then_def fetched_def)
  then have 4: "shown_changed now (unifi_fetch net dec text n)"
    using shown_changedI [OF alarm [OF paths(4)]] by simp
  have "spark_collect net text vw n = (with_error text (NodeErr (fp_changed (rstrip_slash (n_base_url n) @ CHR ''/'' # ''api/v1/snapshot'') fp)) (base_envelope n))\<lparr>e_type_auto := Some ''AI''\<rparr>"
    by (simp add: spark_collect_def spark_snapshot_def cf req and_then_def)
  then have 5: "shown_changed now (spark_collect net text vw n)"
    using shown_changedI [OF alarm [OF paths(5)]] by simp
  show ?thesis using 1 2 3 4 5 by blast
qed

lemma show_int_lower: "CHR ''w'' \<notin> set (lower (show_int i))"
proof -
  have d: "lower_char c \<noteq> CHR ''w''" if "is_digit c" for c
    using that by (auto simp: is_digit_def lower_char_def Let_def)
  have "CHR ''w'' \<notin> set (lower (show_nat k))" for k
  proof
    assume "CHR ''w'' \<in> set (lower (show_nat k))"
    then obtain c where "c \<in> set (show_nat k)" "lower_char c = CHR ''w''" by (auto simp: lower_def)
    then show False using show_nat_digits(2) [of k] d by blast
  qed
  moreover have "lower_char (CHR ''-'') \<noteq> CHR ''w''" by (simp add: lower_char_def)
  ultimately show ?thesis by (simp add: show_int_def lower_def)
qed

lemma poll_pin_alarm:
  assumes "\<not> contains ''await'' (lower host)" and "hex_text pin" and "hex_text live"
  shows "down_conditions (friendly_error (poll_pin_changed host port pin live)) = cert_alarm"
proof (rule fingerprint_text_alarm)
  let ?rest = "host @ '':'' @ show_int port @ '' (pinned '' @ take 16 pin @ [ellipsis] @ '', saw '' @ take 16 live @ [ellipsis]"
  show "poll_pin_changed host port pin live = ''certificate fingerprint changed for '' @ ?rest @ '')''"
    by (simp add: poll_pin_changed_def)
  have l: "lower '':'' = '':''" "lower '' (pinned '' = '' (pinned ''" "lower '', saw '' = '', saw ''" "lower '','' = '',''" by code_simp+
  have low: "lower ?rest = lower host @ CHR '':'' # (lower (show_int port) @ CHR '' '' # (''(pinned'' @ CHR '' '' #
      (lower (take 16 pin @ [ellipsis] @ '','') @ CHR '' '' # (''saw'' @ CHR '' '' # lower (take 16 live @ [ellipsis] @ [])))))"
    unfolding lower_append l by (simp add: lower_def [of "[]"])
  have w: "CHR ''w'' \<in> set ''await''" by simp
  have "CHR ''w'' \<notin> set (lower '','')" "CHR ''w'' \<notin> set (lower [])" by (simp_all add: l(4) lower_def [of "[]"])
  then have "\<not> contains ''await'' (lower (take 16 pin @ [ellipsis] @ '',''))" "\<not> contains ''await'' (lower (take 16 live @ [ellipsis] @ []))"
    using contains_needs [OF w] hex_no_w [OF assms(2)] hex_no_w [OF assms(3)] by blast+
  moreover have "\<not> contains ''await'' (lower (show_int port))" using contains_needs [OF w show_int_lower] .
  moreover have "\<not> contains ''await'' ''(pinned''" "\<not> contains ''await'' ''saw''" by code_simp+
  ultimately show "\<not> contains ''await'' (lower ?rest)" unfolding low await_split using assms(1) by blast
qed

text \<open>C35: Where the certificate a polled host shows is not the pinned one, or cannot be read, no collector
  logs in and no guest action runs: the poll's result is the same for every collector, an action is
  refused. Where another certificate was read, the host's one condition is the changed certificate.\<close>

theorem poll_fails_closed:
  assumes pin: "n_cert_fp n = Some pin" "pin \<noteq> []" and host: "split_host_port (n_base_url n) = Inr (host, port)"
    and https: "startswith ''https://'' (lower (n_base_url n))" and live: "nt_cert net host port \<noteq> Inr pin"
  shows "virt_collect net dec text coll env_of n = virt_collect net dec text coll' env_of' n \<and>
    truenas_collect net dec text nas n = truenas_collect net dec text nas' n \<and>
    zimaos_collect net dec text nas n = zimaos_collect net dec text nas' n \<and>
    omv_collect net dec text nas n = omv_collect net dec text nas' n \<and>
    unraid_collect net dec text nas n = unraid_collect net dec text nas' n \<and>
    (\<exists>f. vm_action net dec act n vm_id action = Inl f) \<and>
    (nt_cert net host port = Inr other \<and> hex_text pin \<and> hex_text other \<and> \<not> contains ''await'' (lower host) \<longrightarrow>
      host_conditions now (virt_collect net dec text coll env_of n) = cert_alarm \<and>
      host_conditions now (truenas_collect net dec text nas n) = cert_alarm \<and>
      host_conditions now (zimaos_collect net dec text nas n) = cert_alarm)"
proof -
  obtain f where f: "verify_poll_pin net n host port = Inl f"
    and alarm: "nt_cert net host port = Inr other \<Longrightarrow> f = NodeErr (poll_pin_changed host port pin other)"
    using pin live by (cases "nt_cert net host port") (auto simp: verify_poll_pin_def)
  have sch: "scheme (n_base_url n) = ''https''" using https by (simp add: scheme_def)
  have v: "virt_collect net dec text c e n =
      (with_error text f (base_envelope n))\<lparr>e_type_auto := Some (ad_default_type (adapter_for n))\<rparr>" for c :: "'x collector" and e
    by (simp add: virt_collect_def host f and_then_def escaping_def polled_result_def)
  have v': "virt_collect net dec text c e n =
      (with_error text f (base_envelope n))\<lparr>e_type_auto := Some (ad_default_type (adapter_for n))\<rparr>" for c :: "'y collector" and e
    by (simp add: virt_collect_def host f and_then_def escaping_def polled_result_def)
  have t: "truenas_collect net dec text c n = (with_error text f (base_envelope n))\<lparr>e_type_auto := Some ''Storage''\<rparr>" for c
    by (simp add: truenas_collect_def host f and_then_def escaping_def polled_result_def)
  have z: "lan_poll net dec text c n = (with_error text f (base_envelope n))\<lparr>e_type_auto := Some ''Storage''\<rparr>" for c
    by (simp add: lan_poll_def host f sch and_then_def escaping_def polled_result_def)
  have a: "\<exists>f. vm_action net dec act n vm_id action = Inl f"
    by (simp add: vm_action_def host f and_then_def escaping_def)
  have "down_conditions (envelope_error text f) = cert_alarm"
    if "nt_cert net host port = Inr other" "hex_text pin" "hex_text other" "\<not> contains ''await'' (lower host)"
    using poll_pin_alarm [OF that(4,2,3)] alarm [OF that(1)] by (simp add: envelope_error_def fail_text_def)
  then show ?thesis
    using a by (simp add: v v' t z zimaos_collect_def omv_collect_def unraid_collect_def with_error_conditions)
qed

text \<open>The word matters: on a host whose address contains \<open>await\<close> the changed certificate raises no
  condition at all, so neither the notifier nor the health lists show it.\<close>

definition await_node :: node where
  "await_node = (sample_node ''a'' ''a'')\<lparr>n_base_url := ''https://awaits.lan'', n_cert_fp := Some ''ab''\<rparr>"

definition changed_net :: net where
  "changed_net = \<lparr>nt_cert = \<lambda>h p. Inr ''cd'', nt_ask = \<lambda>u a. Peer ''cd'' 200 None\<rparr>"

theorem await_name_silences:
  "pinned_node ''ab'' await_node \<and> impostor_net ''ab'' changed_net \<and>
   host_conditions now (nexus_fetch changed_net (\<lambda>_. None) text vw await_node) = []"
proof -
  have p: "pinned_node ''ab'' await_node" by code_simp
  have i: "impostor_net ''ab'' changed_net" by (simp add: impostor_net_def changed_net_def)
  have "get_json changed_net (\<lambda>_. None) await_node ''summary'' = Inl (NodeErr (fp_changed ''https://awaits.lan/api/summary'' ''ab''))"
    by code_simp
  moreover have "down_conditions (friendly_error (fp_changed ''https://awaits.lan/api/summary'' ''ab'')) = []" by code_simp
  ultimately have "host_conditions now (nexus_fetch changed_net (\<lambda>_. None) text vw await_node) = []"
    by (simp add: nexus_fetch_def with_error_conditions envelope_error_def fail_text_def)
  then show ?thesis using p i by blast
qed

section \<open>Concrete networks\<close>

definition pinned_host :: node where
  "pinned_host = (sample_node ''p'' ''p'')\<lparr>n_base_url := ''https://nas.lan/'', n_cert_fp := Some ''ab''\<rparr>"

theorem pinned_fetch_sealed_witness:
  "nexus_fetch changed_net (\<lambda>_. None) (\<lambda>_. []) \<lparr>vw_summary = \<lambda>_. no_summary, vw_pct = \<lambda>_. None\<rparr> pinned_host =
   nexus_fetch \<lparr>nt_cert = \<lambda>h p. Inr ''ef'', nt_ask = \<lambda>u a. Peer ''ef'' 200 (Some (JObj [(''zfs'', JStr ''evil'')]))\<rparr> (\<lambda>_. None) (\<lambda>_. [])
     \<lparr>vw_summary = \<lambda>_. no_summary, vw_pct = \<lambda>_. None\<rparr> pinned_host"
proof -
  have "pinned_node ''ab'' pinned_host" by code_simp
  moreover have "same_genuine ''ab'' changed_net
      \<lparr>nt_cert = \<lambda>h p. Inr ''ef'', nt_ask = \<lambda>u a. Peer ''ef'' 200 (Some (JObj [(''zfs'', JStr ''evil'')]))\<rparr>"
    by (simp add: same_genuine_def changed_net_def)
  ultimately show ?thesis using pinned_fetch_sealed by blast
qed

theorem changed_cert_alarms_witness:
  "shown_changed 0 (agent_fetch changed_net (\<lambda>_. None) (\<lambda>_. []) \<lparr>vw_summary = \<lambda>_. no_summary, vw_pct = \<lambda>_. None\<rparr> pinned_host)"
proof -
  have "pinned_node ''ab'' pinned_host" "hex_text ''ab''" "\<not> contains ''await'' (lower (n_base_url pinned_host))" by code_simp+
  moreover have "impostor_net ''ab'' changed_net" by (simp add: impostor_net_def changed_net_def)
  ultimately show ?thesis using changed_cert_alarms by blast
qed

theorem poll_fails_closed_witness:
  "virt_collect changed_net (\<lambda>_. None) (\<lambda>_. []) (\<lambda>l. Inr True) (\<lambda>n m. base_envelope n) pinned_host =
   virt_collect changed_net (\<lambda>_. None) (\<lambda>_. []) (\<lambda>l. Inl ''boom'') (\<lambda>n (m :: nat). base_envelope n) pinned_host \<and>
   host_conditions 0 (virt_collect changed_net (\<lambda>_. None) (\<lambda>_. []) (\<lambda>l. Inr True) (\<lambda>n m. base_envelope n) pinned_host) = cert_alarm"
proof -
  have h: "n_cert_fp pinned_host = Some ''ab''" "''ab'' \<noteq> []" "split_host_port (n_base_url pinned_host) = Inr (''nas.lan'', 443)"
    "startswith ''https://'' (lower (n_base_url pinned_host))" "hex_text ''ab''" "hex_text ''cd''" "\<not> contains ''await'' (lower ''nas.lan'')"
    by code_simp+
  have l: "nt_cert changed_net ''nas.lan'' 443 \<noteq> Inr ''ab''" "nt_cert changed_net ''nas.lan'' 443 = Inr ''cd''" by (simp_all add: changed_net_def)
  show ?thesis
    using poll_fails_closed [OF h(1-4) l(1), of "\<lambda>_. None" "\<lambda>_. []" "\<lambda>l. Inr True" "\<lambda>n m. base_envelope n" "\<lambda>l. Inl ''boom''"
        "\<lambda>n (m :: nat). base_envelope n" "\<lambda>l. Inl []" "\<lambda>l. Inl []" "\<lambda>l v a. Inl []" "[]" "[]" "''cd''" 0] h l
    by blast
qed

end
