(* ===== verification/HostTypeFacts.thy ===== *)
theory HostTypeFacts
  imports HostTypes ConditionFacts
begin

text \<open>
  What the payload readers promise: an issue muted or acknowledged in UniFi, or over, raises no alarm
  here and leaves no trace in the envelope, and a critical one always does; the sizes a node prints
  are read back; the mirror role and the classification of a node follow the evidence.
\<close>

section \<open>UniFi issues\<close>

lemma all_dicts_iff: "all_dicts vs = Inr ds \<longleftrightarrow> vs = map JObj ds"
proof (induction vs arbitrary: ds)
  case Nil
  then show ?case by auto
next
  case (Cons v vs)
  have "as_dict v = Inr d \<longleftrightarrow> v = JObj d" for d by (cases v) (auto simp: as_dict_def)
  then show ?case using Cons by (auto simp: and_then_Inr Cons_eq_map_conv)
qed

lemma dicts_of_list: "dicts_of (JArr vs) = Inr ds \<longleftrightarrow> vs = map JObj ds"
  by (cases "vs = []") (auto simp: dicts_of_def items_of_def py_list_def all_dicts_iff)

lemma with_keys_snd: "with_keys is = Inr ks \<Longrightarrow> map snd ks = is"
  by (induction "is" arbitrary: ks) (auto simp: and_then_Inr)

lemma sort_issues_set: "sort_issues is = Inr js \<Longrightarrow> set js = set is"
proof -
  assume "sort_issues is = Inr js"
  then obtain ks where ks: "with_keys is = Inr ks" "js = map snd (sort_key fst ks)" by (auto simp: sort_issues_def and_then_Inr)
  then show ?thesis using with_keys_snd [OF ks(1)] by (metis list.set_map set_sort)
qed

lemma issue_lines_length: "issue_lines is = Inr ls \<Longrightarrow> length ls = length is"
  by (induction "is" arbitrary: ls) (auto simp: and_then_Inr)

definition live_value :: "json \<Rightarrow> bool" where
  "live_value v = (case v of JObj d \<Rightarrow> issue_live d | _ \<Rightarrow> False)"

text \<open>Of the issues of a UniFi snapshot only the live ones count (active, neither acknowledged nor
  muted there): with the others cut out the envelope is the same, and the host raises the alert
  condition exactly when some live issue is critical, with at most five lines.\<close>

theorem muted_issues_silent:
  assumes built: "build_unifi_envelope n snap = Inr (env, blk)" and issues: "jget snap ''issues'' = JArr vs"
  shows "build_unifi_envelope n (AList.update ''issues'' (JArr (filter live_value vs)) snap) = Inr (env, blk) \<and>
    (map_of (host_conditions now env) ''alerts'' \<noteq> None \<longleftrightarrow>
      (\<exists>d. JObj d \<in> set vs \<and> issue_live d \<and> jget d ''severity'' = JStr ''critical'')) \<and>
    length (su_alerts (summary_of env)) \<le> 5"
proof -
  obtain ds live sm where ds: "vs = map JObj ds" and live: "sort_issues (filter issue_live ds) = Inr live"
    and sm: "unifi_summary live = Inr sm"
    and env: "env = (base_envelope n)\<lparr>e_ok := True, e_network := Some blk, e_summary := sm, e_type_auto := Some ''Network''\<rparr>"
    using built by (auto simp: build_unifi_envelope_def and_then_Inr issues dicts_of_list Let_def)
  have cut: "filter live_value vs = map JObj (filter issue_live ds)"
    unfolding ds filter_map by (simp add: comp_def live_value_def)
  have "jget (AList.update ''issues'' (JArr (filter live_value vs)) snap) k =
      (if k = ''issues'' then JArr (filter live_value vs) else jget snap k)" for k
    by (simp add: jget_def)
  moreover have "dicts_of (JArr (filter live_value vs)) = Inr (filter issue_live ds)"
    unfolding dicts_of_list by (rule cut)
  moreover have "dicts_of (JArr vs) = Inr ds" unfolding dicts_of_list by (rule ds)
  ultimately have same: "build_unifi_envelope n (AList.update ''issues'' (JArr (filter live_value vs)) snap) = Inr (env, blk)"
    using built by (simp add: build_unifi_envelope_def issues)
  have alerts: "su_alerts (summary_of env) = [] \<longleftrightarrow> of_severity ''critical'' live = []"
    and bound: "length (su_alerts (summary_of env)) \<le> 5"
    using sm issue_lines_length
    by (auto simp: env summary_of_def unifi_summary_def and_then_Inr no_summary_def split: if_splits) fastforce
  have "host_conditions now env = up_conditions now env" by (simp add: env host_conditions_def base_envelope_def)
  moreover have "n_alerts env = 0 \<longleftrightarrow> su_alerts (summary_of env) = []"
    by (auto simp: n_alerts_def alert_texts_def nas_of_def no_nas_def env base_envelope_def)
  ultimately have "map_of (host_conditions now env) ''alerts'' \<noteq> None \<longleftrightarrow> of_severity ''critical'' live \<noteq> []"
    using alerts by (simp add: up_lookup)
  also have "\<dots> \<longleftrightarrow> (\<exists>d. JObj d \<in> set vs \<and> issue_live d \<and> jget d ''severity'' = JStr ''critical'')"
    using sort_issues_set [OF live] by (auto simp: of_severity_def filter_empty_conv ds)
  finally show ?thesis using same bound by blast
qed

definition demo_issue :: "string \<Rightarrow> bool \<Rightarrow> json" where
  "demo_issue sev muted = JObj [(''active'', JBool True), (''muted'', JBool muted), (''severity'', JStr sev), (''message'', JStr ''WAN down'')]"

definition demo_snap :: "json dict" where
  "demo_snap = [(''counts'', JObj []), (''throughput'', JObj []), (''issues'', JArr [demo_issue ''critical'' True, demo_issue ''warning'' False])]"

theorem muted_issues_silent_witness:
  "\<exists>env blk. build_unifi_envelope (sample_node ''u'' ''u'') demo_snap = Inr (env, blk) \<and> map_of (host_conditions 0 env) ''alerts'' = None"
proof -
  obtain env blk where b: "build_unifi_envelope (sample_node ''u'' ''u'') demo_snap = Inr (env, blk)"
    by (cases "build_unifi_envelope (sample_node ''u'' ''u'') demo_snap")
      (auto simp: build_unifi_envelope_def Let_def demo_snap_def demo_issue_def jget_def dicts_of_def items_of_def py_list_def
        as_dict_def dict_or_empty_def sort_issues_def issue_live_def occurrences_def unifi_summary_def of_severity_def)
  have i: "jget demo_snap ''issues'' = JArr [demo_issue ''critical'' True, demo_issue ''warning'' False]" by (simp add: jget_def demo_snap_def)
  have "\<not> (\<exists>d. JObj d \<in> set [demo_issue ''critical'' True, demo_issue ''warning'' False] \<and> issue_live d \<and> jget d ''severity'' = JStr ''critical'')"
    by (auto simp: demo_issue_def issue_live_def jget_def)
  then show ?thesis using muted_issues_silent [OF b i, of 0] b by auto
qed

section \<open>Printed sizes\<close>

lemma digit_facts: "is_digit c \<Longrightarrow> num_char c" "is_digit c \<Longrightarrow> c \<noteq> CHR ''e''" "is_digit c \<Longrightarrow> c \<noteq> CHR ''.''" "\<not> is_ws (CHR ''.'')"
  by (auto simp: num_char_def is_digit_def is_ws_def Let_def)

lemma unit_facts: "u \<in> set ''BKMGTP'' \<Longrightarrow> \<not> num_char u" "u \<in> set ''BKMGTP'' \<Longrightarrow> \<not> is_ws u"
  by (auto simp: num_char_def is_digit_def is_ws_def)

lemma human_parts_of:
  assumes "m \<noteq> []" and "\<forall>c\<in>set m. num_char c" and "\<not> is_ws (hd m)" and "u \<in> set ''BKMGTP''"
  shows "human_parts (m @ [u]) = Some (m, u)"
proof -
  have "lstrip (m @ [u]) = m @ [u]" using assms(1,3) by (cases m) (simp_all add: lstrip_def)
  moreover have "lstrip [u] = [u]" using unit_facts(2) [OF assms(4)] by (simp add: lstrip_def)
  moreover have "takeWhile num_char (m @ [u]) = m" "dropWhile num_char (m @ [u]) = [u]"
    using assms(2) unit_facts(1) [OF assms(4)] by (simp_all add: takeWhile_append2 dropWhile_append2)
  ultimately show ?thesis using assms(1,4) by (simp add: human_parts_def Let_def lstrip_def)
qed

lemma show_nat_hd: "\<not> is_ws (hd (show_nat k @ t))"
  using show_nat_digits [of k] digit_not_ws by (cases "show_nat k") auto

lemma take_until:
  assumes "\<forall>c\<in>set s. c \<noteq> d"
  shows "takeWhile (\<lambda>c. c \<noteq> d) s = s" and "takeWhile (\<lambda>c. c \<noteq> d) (s @ d # t) = s"
  using assms by (simp_all add: takeWhile_append2)

lemma parse_decimal_int: "parse_decimal (show_nat k) = Some (of_nat k)"
proof -
  have d: "\<forall>c\<in>set (show_nat k). c \<noteq> CHR ''e''" "\<forall>c\<in>set (show_nat k). c \<noteq> CHR ''.''"
    using show_nat_digits(2) [of k] digit_facts by blast+
  note t = d [THEN take_until(1)]
  show ?thesis using show_nat_digits(1) [of k]
    by (simp add: parse_decimal_def t Let_def digits_val_show ten_pow_def)
qed

lemma parse_decimal_tenth:
  assumes "f < 10"
  shows "parse_decimal (show_nat k @ CHR ''.'' # [digit_char f]) = Some (of_nat k + of_nat f / 10)"
proof -
  let ?m = "show_nat k @ CHR ''.'' # [digit_char f]"
  have "\<forall>c\<in>set ?m. c \<noteq> CHR ''e''"
    using show_nat_digits(2) [of k] digit_facts(2) digit_char_digit(1) [OF assms] by auto
  then have e: "takeWhile (\<lambda>c. c \<noteq> CHR ''e'') ?m = ?m" by (rule take_until)
  have p: "takeWhile (\<lambda>c. c \<noteq> CHR ''.'') ?m = show_nat k"
    using show_nat_digits(2) [of k] digit_facts(3) by (intro take_until) blast
  show ?thesis using show_nat_digits(1) [of k] assms
    by (simp add: parse_decimal_def e p Let_def digits_val_show ten_pow_def)
qed

lemma unit_bound: "unit_mult u \<le> 1024 ^ 5"
  by (simp add: unit_mult_def)

lemma to_float_small:
  assumes "0 \<le> x" and "x \<le> 2 ^ 200" and "x = 0 \<or> 1 / 10 \<le> x"
  shows "to_float x = Fin x"
proof -
  have "(2 :: rat) ^ 200 < float_overflow" by (simp add: float_overflow_def)
  then have "x < float_overflow" using assms(2) by (rule le_less_trans [rotated])
  moreover have "0 < float_overflow" by (simp add: float_overflow_def)
  moreover have "(1 :: rat) / 2 ^ 1075 < 1 / 10" by simp
  ultimately show ?thesis using assms by (auto simp: to_float_def)
qed

text \<open>A size a node prints, whole or with one decimal and a unit, is read back as the number of bytes it
  stands for (rounded down): whole up to two to the 53 of a unit, with a decimal up to the sizes where a
  double still tells one tenth from the next byte.\<close>

theorem human_bytes_roundtrip:
  assumes "u \<in> set ''BKMGTP''" and "k \<le> 2 ^ 53" and "f < 10"
  shows "parse_human_bytes (JStr (show_nat k @ [u])) = Inr (int (k * unit_mult u)) \<and>
    ((10 * k + f) * unit_mult u < 2 ^ 54 \<longrightarrow>
     parse_human_bytes (JStr (show_nat k @ CHR ''.'' # digit_char f # [u])) = Inr (int ((10 * k + f) * unit_mult u div 10)))"
proof -
  have nums: "\<forall>c\<in>set (show_nat k). num_char c" "num_char (digit_char f)" "num_char (CHR ''.'')"
    using show_nat_digits(2) [of k] digit_facts(1) digit_char_digit(1) [OF assms(3)] by (auto simp: num_char_def)
  have fits: "to_float x = Fin x \<and> to_float (x * of_nat (unit_mult u)) = Fin (x * of_nat (unit_mult u))"
    if x: "x = of_nat j / 10" "j \<le> 2 ^ 60" for x :: rat and j
  proof -
    have j: "(of_nat j :: rat) \<le> 2 ^ 60" using x(2) by (metis of_nat_le_iff of_nat_numeral of_nat_power)
    have m: "(of_nat (unit_mult u) :: rat) \<le> 1024 ^ 5" "1 \<le> (of_nat (unit_mult u) :: rat)"
      using unit_bound [of u] by (metis of_nat_le_iff of_nat_numeral of_nat_power) (simp add: unit_mult_def)
    have "x * of_nat (unit_mult u) \<le> 2 ^ 60 * 1024 ^ 5"
      using j m by (intro mult_mono) (simp_all add: x)
    moreover have "x \<le> 2 ^ 200" using j by (simp add: x)
    moreover have "x = 0 \<or> 1 / 10 \<le> x" by (cases j) (simp_all add: x field_simps)
    moreover have "x * of_nat (unit_mult u) = 0 \<or> 1 / 10 \<le> x * of_nat (unit_mult u)"
      using calculation(3) m(2) mult_mono [of "1 / 10" x 1 "of_nat (unit_mult u)"] by (auto simp: x)
    ultimately show ?thesis using m(2) by (intro conjI to_float_small) (simp_all add: x)
  qed
  have floor_div: "py_trunc (of_nat a / 10) = int (a div 10)" for a
    by (simp add: py_trunc_def floor_divide_of_nat_eq [of a 10, where 'a = rat, simplified] del: of_nat_div)
  have 1: "human_parts (show_nat k @ [u]) = Some (show_nat k, u)"
    using human_parts_of [of "show_nat k" u] show_nat_digits(1) [of k] nums show_nat_hd [of k "[]"] assms(1) by simp
  have 2: "human_parts ((show_nat k @ CHR ''.'' # [digit_char f]) @ [u]) = Some (show_nat k @ CHR ''.'' # [digit_char f], u)"
    using nums show_nat_hd assms(1) by (intro human_parts_of) auto
  have a: "parse_human_bytes (JStr (show_nat k @ [u])) = Inr (int (k * unit_mult u))"
    using fits [of "of_nat k" "10 * k"] assms(2)
    by (simp add: parse_human_bytes_def py_str_def 1 parse_decimal_int py_trunc_def flip: of_nat_mult)
  have x: "(of_nat k + of_nat f / 10 :: rat) = of_nat (10 * k + f) / 10" by simp
  have "parse_human_bytes (JStr (show_nat k @ CHR ''.'' # digit_char f # [u])) = Inr (py_trunc (of_nat ((10 * k + f) * unit_mult u) / 10))"
    using fits [OF x] 2 assms(2,3)
    by (simp add: parse_human_bytes_def py_str_def parse_decimal_tenth [OF assms(3)] del: of_nat_add of_nat_mult) (simp add: field_simps)
  then show ?thesis using a unfolding floor_div by blast
qed

theorem human_bytes_roundtrip_witness:
  "parse_human_bytes (JStr (show_nat 1 @ CHR ''.'' # digit_char 5 # ''T'')) = Inr 1649267441664"
  using human_bytes_roundtrip [of "CHR ''T''" 1 5] by (simp add: unit_mult_def)

end
