(* ===== verification/Agent.thy ===== *)
theory Agent
  imports History HostTypes
begin

text \<open>
  The agent of a bare Linux machine (\<open>agent/nexus_agent.py\<close>): the parsers of \<open>/proc\<close>, the sampler, the
  metrics payload and the request handler with its token. The texts of \<open>/proc\<close>, \<open>statvfs\<close> and the facts
  of \<open>uname\<close> are parameters; percentages are exact rationals, and \<open>rp\<close> is \<open>repr\<close> of a float.
\<close>

section \<open>Lines\<close>

text \<open>\<open>str.splitlines\<close> on Latin-1: the line boundaries, \<open>CR LF\<close> as one, no empty last line.\<close>

definition is_break :: "char \<Rightarrow> bool" where
  "is_break c = ((of_char c :: nat) \<in> {10, 11, 12, 13, 28, 29, 30, 133})"

fun lines_from :: "string \<Rightarrow> bool \<Rightarrow> string \<Rightarrow> string list" where
  "lines_from cur cr [] = (if cur = [] then [] else [cur])"
| "lines_from cur cr (c # s) =
     (if cr \<and> c = newline then lines_from [] False s
      else if is_break c then cur # lines_from [] (c = CHR 0x0D) s
      else lines_from (cur @ [c]) False s)"

definition splitlines :: "string \<Rightarrow> string list" where
  "splitlines s = lines_from [] False s"

text \<open>\<open>s.replace(pat, new)\<close>; the counter skips the rest of a match.\<close>

fun replace_sub :: "string \<Rightarrow> string \<Rightarrow> nat \<Rightarrow> string \<Rightarrow> string" where
  "replace_sub pat new k [] = []"
| "replace_sub pat new (Suc k) (c # s) = replace_sub pat new k s"
| "replace_sub pat new 0 (c # s) =
     (if startswith pat (c # s) then new @ replace_sub pat new (length pat - 1) s else c # replace_sub pat new 0 s)"

section \<open>CPU\<close>

fun all_ints :: "string list \<Rightarrow> exn + int list" where
  "all_ints [] = Inr []"
| "all_ints (w # ws) = (case int_of_str w of None \<Rightarrow> Inl ValueError
     | Some i \<Rightarrow> and_then (all_ints ws) (\<lambda>is. Inr (i # is)))"

definition cpu_ticks :: "string \<Rightarrow> exn + int \<times> int" where
  "cpu_ticks l = and_then (all_ints (drop 1 (split_ws l))) (\<lambda>f.
     if length f < 4 then Inl IndexError else Inr (f ! 3 + (if 4 < length f then f ! 4 else 0), sum_list f))"

definition parse_proc_stat :: "string \<Rightarrow> exn + (int \<times> int) option" where
  "parse_proc_stat text = (case find (startswith ''cpu '') (splitlines text) of
      None \<Rightarrow> Inr None
    | Some l \<Rightarrow> and_then (cpu_ticks l) (\<lambda>t. Inr (Some t)))"

definition cpu_percent :: "(int \<times> int) option \<Rightarrow> (int \<times> int) option \<Rightarrow> rat option" where
  "cpu_percent prev cur = (case (prev, cur) of
      (Some (idle0, total0), Some (idle1, total1)) \<Rightarrow>
        let didle = idle1 - idle0; dtotal = total1 - total0
        in if dtotal \<le> 0 then None
           else Some (round_to 1 (max 0 (min 100 (100 * (1 - of_int didle / of_int dtotal)))))
    | _ \<Rightarrow> None)"

section \<open>Memory\<close>

definition mem_entry :: "string \<Rightarrow> exn + (string \<times> int) option" where
  "mem_entry l = (case split_ws l of
      k # v # rest \<Rightarrow>
        if last k = CHR '':'' then (case int_of_str v of None \<Rightarrow> Inl ValueError | Some i \<Rightarrow> Inr (Some (butlast k, i * 1024)))
        else Inr None
    | _ \<Rightarrow> Inr None)"

fun mem_table :: "string list \<Rightarrow> int dict \<Rightarrow> exn + int dict" where
  "mem_table [] kv = Inr kv"
| "mem_table (l # ls) kv = and_then (mem_entry l) (\<lambda>e. mem_table ls (case e of None \<Rightarrow> kv | Some (k, v) \<Rightarrow> AList.update k v kv))"

record meminfo =
  mi_total :: int
  mi_available :: int
  mi_used :: int
  mi_percent :: "rat option"

definition get_or_0 :: "int dict \<Rightarrow> string \<Rightarrow> int" where
  "get_or_0 kv k = (case map_of kv k of None \<Rightarrow> 0 | Some v \<Rightarrow> v)"

definition parse_meminfo :: "string \<Rightarrow> exn + meminfo" where
  "parse_meminfo text = and_then (mem_table (splitlines text) []) (\<lambda>kv.
     let total = get_or_0 kv ''MemTotal'';
         avail = (case map_of kv ''MemAvailable'' of Some a \<Rightarrow> a | None \<Rightarrow> get_or_0 kv ''MemFree'' + get_or_0 kv ''Cached'');
         used = max 0 (total - avail)
     in Inr \<lparr>mi_total = total, mi_available = avail, mi_used = used,
          mi_percent = (if total = 0 then None else Some (round_to 1 (of_int used / of_int total * 100)))\<rparr>)"

section \<open>Mounts\<close>

definition SKIP_FSTYPES :: "string list" where
  "SKIP_FSTYPES = [''proc'', ''sysfs'', ''devtmpfs'', ''devpts'', ''tmpfs'', ''cgroup'', ''cgroup2'', ''pstore'', ''bpf'',
     ''securityfs'', ''debugfs'', ''tracefs'', ''configfs'', ''fusectl'', ''mqueue'', ''hugetlbfs'', ''autofs'', ''binfmt_misc'',
     ''nsfs'', ''efivarfs'', ''ramfs'', ''squashfs'', ''overlay'', ''aufs'', ''fuse.gvfsd-fuse'', ''fuse.portal'', ''fuse.lxcfs'',
     ''rpc_pipefs'', ''selinuxfs'', ''sunrpc'']"

definition skip_mount :: "string \<Rightarrow> string \<Rightarrow> bool" where
  "skip_mount mp fty =
     (fty \<in> set SKIP_FSTYPES \<or> startswith ''fuse.gvfs'' fty \<or> startswith ''cgroup'' fty \<or>
      list_ex (\<lambda>p. startswith p mp) [''/proc'', ''/sys'', ''/dev'', ''/run/user'', ''/snap'', ''/var/lib/docker/'', ''/var/snap''])"

text \<open>One line of \<open>/proc/mounts\<close>, when it is a storage mount.\<close>

definition mount_entry :: "string \<Rightarrow> (string \<times> string \<times> string) option" where
  "mount_entry l = (case split_ws l of
      dev # mp0 # fty # rest \<Rightarrow>
        let mp = replace_sub (CHR 0x5C # ''040'') '' '' 0 mp0
        in if skip_mount mp fty then None else Some (dev, mp, fty)
    | _ \<Rightarrow> None)"

definition see_mount :: "(string \<times> string \<times> string) list \<Rightarrow> string \<times> string \<times> string \<Rightarrow> (string \<times> string \<times> string) list" where
  "see_mount seen e = (case e of (dev, mp, fty) \<Rightarrow>
     (case map_of seen dev of
        Some (mp', fty') \<Rightarrow> if length mp' \<le> length mp then seen else AList.update dev (mp, fty) seen
      | None \<Rightarrow> AList.update dev (mp, fty) seen))"

definition mount_entries :: "string \<Rightarrow> (string \<times> string \<times> string) list" where
  "mount_entries text = concat (map (\<lambda>l. case mount_entry l of None \<Rightarrow> [] | Some e \<Rightarrow> [e]) (splitlines text))"

definition parse_mounts :: "string \<Rightarrow> (string \<times> string \<times> string) list" where
  "parse_mounts text = foldl see_mount [] (mount_entries text)"

record mount =
  mo_device :: string
  mo_point :: string
  mo_fstype :: string
  mo_total :: int
  mo_used :: int
  mo_free :: int
  mo_percent :: rat

text \<open>\<open>statvfs\<close> gives the blocks, the free blocks and the fragment size, or fails.\<close>

definition usage_of :: "(string \<Rightarrow> (int \<times> int \<times> int) option) \<Rightarrow> string \<times> string \<times> string \<Rightarrow> mount option" where
  "usage_of statvfs e = (case e of (dev, mp, fty) \<Rightarrow>
     (case statvfs mp of
        None \<Rightarrow> None
      | Some (blocks, bfree, frsize) \<Rightarrow>
          let total = blocks * frsize; free = bfree * frsize; used = total - free
          in if total = 0 then None
             else Some \<lparr>mo_device = dev, mo_point = mp, mo_fstype = fty, mo_total = total, mo_used = used, mo_free = free,
               mo_percent = round_to 1 (of_int used / of_int total * 100)\<rparr>))"

definition mount_usage :: "(string \<Rightarrow> (int \<times> int \<times> int) option) \<Rightarrow> (string \<times> string \<times> string) list \<Rightarrow> mount list" where
  "mount_usage statvfs entries =
     sort_key mo_point (concat (map (\<lambda>e. case usage_of statvfs e of None \<Rightarrow> [] | Some m \<Rightarrow> [m]) entries))"

section \<open>The sampler\<close>

record sampler =
  sp_prev :: "(int \<times> int) option"
  sp_cpu :: "rat option"
  sp_mounts :: "mount list"
  sp_at :: rat

definition start_sampler :: "(int \<times> int) option \<Rightarrow> sampler" where
  "start_sampler prev = \<lparr>sp_prev = prev, sp_cpu = None, sp_mounts = [], sp_at = 0\<rparr>"

record reading =
  rd_stat :: string
  rd_mounts :: string
  rd_statvfs :: "string \<Rightarrow> (int \<times> int \<times> int) option"
  rd_now :: rat

text \<open>One turn of \<open>_sampler_loop\<close>: an exception skips it.\<close>

definition sampler_step :: "sampler \<Rightarrow> reading \<Rightarrow> sampler" where
  "sampler_step sp r = (case parse_proc_stat (rd_stat r) of
      Inl e \<Rightarrow> sp
    | Inr cur \<Rightarrow> \<lparr>sp_prev = cur, sp_cpu = cpu_percent (sp_prev sp) cur,
        sp_mounts = mount_usage (rd_statvfs r) (parse_mounts (rd_mounts r)), sp_at = rd_now r\<rparr>)"

section \<open>The payload\<close>

record machine =
  ma_hostname :: string
  ma_os :: "string option"
  ma_kernel :: string
  ma_arch :: string
  ma_cpus :: int
  ma_load1 :: "rat option"
  ma_uptime :: "int option"
  ma_meminfo :: string

definition AGENT_VERSION :: string where "AGENT_VERSION = ''1.0.0''"

definition jnum :: "(rat \<Rightarrow> string) \<Rightarrow> rat \<Rightarrow> json" where
  "jnum rp x = JFloat (Fin x) (rp x)"

definition jopt :: "('a \<Rightarrow> json) \<Rightarrow> 'a option \<Rightarrow> json" where
  "jopt f v = (case v of None \<Rightarrow> JNull | Some x \<Rightarrow> f x)"

definition mount_json :: "(rat \<Rightarrow> string) \<Rightarrow> mount \<Rightarrow> json" where
  "mount_json rp m = JObj [(''device'', JStr (mo_device m)), (''mountpoint'', JStr (mo_point m)), (''fstype'', JStr (mo_fstype m)),
     (''total'', JInt (mo_total m)), (''used'', JInt (mo_used m)), (''free'', JInt (mo_free m)), (''percent'', jnum rp (mo_percent m))]"

definition meminfo_json :: "(rat \<Rightarrow> string) \<Rightarrow> meminfo \<Rightarrow> json" where
  "meminfo_json rp m = JObj [(''total'', JInt (mi_total m)), (''available'', JInt (mi_available m)), (''used'', JInt (mi_used m)),
     (''percent'', jopt (jnum rp) (mi_percent m))]"

definition build_metrics :: "(rat \<Rightarrow> string) \<Rightarrow> machine \<Rightarrow> sampler \<Rightarrow> exn + json dict" where
  "build_metrics rp ma sp = and_then (parse_meminfo (ma_meminfo ma)) (\<lambda>mem. Inr
     [(''agent'', JStr ''nexus-agent''), (''version'', JStr AGENT_VERSION), (''platform'', JStr ''linux''),
      (''hostname'', JStr (ma_hostname ma)), (''os'', jopt JStr (ma_os ma)), (''kernel'', JStr (ma_kernel ma)),
      (''arch'', JStr (ma_arch ma)), (''uptime_seconds'', jopt JInt (ma_uptime ma)), (''sampled_at'', jnum rp (sp_at sp)),
      (''cpu'', JObj [(''percent'', jopt (jnum rp) (sp_cpu sp)), (''count'', JInt (ma_cpus ma)),
        (''load1'', jopt (\<lambda>l. jnum rp (round_to 2 l)) (ma_load1 ma))]),
      (''memory'', meminfo_json rp mem), (''mounts'', JArr (map (mount_json rp) (sp_mounts sp)))])"

section \<open>Requests\<close>

text \<open>\<open>hmac.compare_digest\<close> of two strings raises when one is not ASCII.\<close>

definition agent_authed :: "string \<Rightarrow> string \<Rightarrow> exn + bool" where
  "agent_authed tok header =
     (let supplied = (if startswith ''bearer '' (lower header) then strip (drop 7 header) else [])
      in if supplied = [] then Inr False
         else if \<exists>c\<in>set (supplied @ tok). (128 :: nat) \<le> of_char c then Inl TypeError
         else Inr (supplied = tok))"

definition request_path :: "string \<Rightarrow> string" where
  "request_path p = (let q = rstrip_slash (takeWhile (\<lambda>c. c \<noteq> CHR ''?'') p) in if q = [] then ''/'' else q)"

text \<open>\<open>do_GET\<close>: the status and the body; an exception drops the connection.\<close>

definition do_GET :: "(rat \<Rightarrow> string) \<Rightarrow> string \<Rightarrow> machine \<Rightarrow> sampler \<Rightarrow> string \<Rightarrow> string \<Rightarrow> exn + nat \<times> json" where
  "do_GET rp tok ma sp path header =
     (let p = request_path path
      in if p = ''/'' then Inr (200, JObj [(''app'', JStr ''nexus-agent''), (''version'', JStr AGENT_VERSION)])
         else if p = ''/api/v1/metrics'' \<or> p = ''/metrics'' then
           and_then (agent_authed tok header) (\<lambda>ok.
             if \<not> ok then Inr (401, JObj [(''error'', JStr ''authentication required'')])
             else and_then (build_metrics rp ma sp) (\<lambda>m. Inr (200, JObj m)))
         else Inr (404, JObj [(''error'', JStr ''not found'')]))"

text \<open>\<open>_load_token\<close>: the token of the file, or a new one that is written to it.\<close>

definition load_token :: "string \<Rightarrow> string option \<Rightarrow> string \<times> string option" where
  "load_token fresh content =
     (let tok = (case content of None \<Rightarrow> [] | Some t \<Rightarrow> strip t)
      in if tok \<noteq> [] then (tok, content) else (''na_'' @ fresh, Some (''na_'' @ fresh @ [newline])))"

end
