(* ===== verification/AgentFacts.thy ===== *)
theory AgentFacts
  imports Agent HostTypeFacts
begin

text \<open>
  What the agent promises: every snapshot it ever serves has a percentage between 0 and 100 and one
  mount per device, the mounts are the shortest of each device, nothing about the machine leaves it
  without the token, and the controller shows what the agent measured.
\<close>

section \<open>Percentages\<close>

lemma py_round_bounds: "of_int a \<le> x \<Longrightarrow> a \<le> py_round x" "x \<le> of_int b \<Longrightarrow> py_round x \<le> b"
proof -
  have f: "\<lfloor>x\<rfloor> \<le> py_round x" "py_round x \<le> \<lfloor>x\<rfloor> + 1" by (simp_all add: py_round_def Let_def)
  show "of_int a \<le> x \<Longrightarrow> a \<le> py_round x" using f(1) by (simp add: le_floor_iff [symmetric] order_trans)
  assume b: "x \<le> of_int b"
  show "py_round x \<le> b"
  proof (cases "x = of_int b")
    case True
    then show ?thesis by (simp add: py_round_def)
  next
    case False
    then have "\<lfloor>x\<rfloor> < b" using b by (simp add: floor_less_iff)
    then show ?thesis using f(2) by linarith
  qed
qed

lemma round_to_bounds: "0 \<le> x \<Longrightarrow> x \<le> 100 \<Longrightarrow> 0 \<le> round_to 1 x \<and> round_to 1 x \<le> 100"
proof -
  assume "0 \<le> x" "x \<le> 100"
  then have "0 \<le> py_round (x * 10)" "py_round (x * 10) \<le> 1000" by (intro py_round_bounds; simp)+
  then show ?thesis by (simp add: round_to_def)
qed

lemma cpu_percent_bounds:
  assumes "cpu_percent prev cur = Some p"
  shows "0 \<le> p \<and> p \<le> 100"
proof -
  obtain x where "p = round_to 1 (max 0 (min 100 x))"
    using assms by (auto simp: cpu_percent_def Let_def simp del: One_nat_def split: option.splits prod.splits if_splits)
  then show ?thesis using round_to_bounds [of "max 0 (min 100 x)"] by simp
qed

section \<open>Mounts\<close>

lemma see_mount_simp: "see_mount seen (d, mp, fs) = (case map_of seen d of
    None \<Rightarrow> AList.update d (mp, fs) seen
  | Some x \<Rightarrow> if length (fst x) \<le> length mp then seen else AList.update d (mp, fs) seen)"
  by (simp add: see_mount_def split: option.split prod.split)

lemma see_mount_keys: "distinct (map fst seen) \<Longrightarrow> distinct (map fst (see_mount seen e))"
  by (auto simp: see_mount_def distinct_update split: prod.split option.split)

lemma parse_mounts_distinct: "distinct (map fst (parse_mounts text))"
proof -
  have "distinct (map fst (foldl see_mount seen es))" if "distinct (map fst seen)" for seen es
    using that by (induction es arbitrary: seen) (auto simp: see_mount_keys)
  then show ?thesis by (simp add: parse_mounts_def)
qed

text \<open>The mount of a device that is kept: shorter than all before it, no longer than any after it.\<close>

definition shortest_in :: "(string \<times> string \<times> string) list \<Rightarrow> string \<Rightarrow> string \<times> string \<Rightarrow> bool" where
  "shortest_in es dev x = (\<exists>us vs. es = us @ (dev, x) # vs \<and>
     (\<forall>y. (dev, y) \<in> set us \<longrightarrow> length (fst x) < length (fst y)) \<and> (\<forall>y. (dev, y) \<in> set vs \<longrightarrow> length (fst x) \<le> length (fst y)))"

lemma shortest_in_dev: "shortest_in es dev x \<Longrightarrow> (dev, x) \<in> set es"
  by (auto simp: shortest_in_def)

lemma shortest_in_least: "shortest_in es dev x \<Longrightarrow> (dev, y) \<in> set es \<Longrightarrow> length (fst x) \<le> length (fst y)"
proof -
  assume "shortest_in es dev x" and y: "(dev, y) \<in> set es"
  then obtain us vs where es: "es = us @ (dev, x) # vs" "\<forall>z. (dev, z) \<in> set us \<longrightarrow> length (fst x) < length (fst z)"
    "\<forall>z. (dev, z) \<in> set vs \<longrightarrow> length (fst x) \<le> length (fst z)" unfolding shortest_in_def by blast
  then consider "(dev, y) \<in> set us" | "y = x" | "(dev, y) \<in> set vs" using y by auto
  then show ?thesis using es(2,3) by cases (blast intro: less_imp_le, simp, blast)
qed

lemma shortest_in_snoc_new:
  "(\<forall>y. (dev, y) \<in> set es \<longrightarrow> length (fst x) < length (fst y)) \<Longrightarrow> shortest_in (es @ [(dev, x)]) dev x"
  unfolding shortest_in_def by (rule exI [of _ es]) auto

lemma shortest_in_snoc_old:
  assumes "shortest_in es dev x" and "d = dev \<longrightarrow> length (fst x) \<le> length (fst y)"
  shows "shortest_in (es @ [(d, y)]) dev x"
proof -
  obtain us vs where "es = us @ (dev, x) # vs" "\<forall>z. (dev, z) \<in> set us \<longrightarrow> length (fst x) < length (fst z)"
    "\<forall>z. (dev, z) \<in> set vs \<longrightarrow> length (fst x) \<le> length (fst z)" using assms(1) by (auto simp: shortest_in_def)
  then show ?thesis using assms(2) unfolding shortest_in_def
    by (intro exI [of _ us] exI [of _ "vs @ [(d, y)]"]) auto
qed

lemma see_mounts_shortest:
  "case map_of (foldl see_mount [] es) dev of None \<Rightarrow> dev \<notin> fst ` set es | Some x \<Rightarrow> shortest_in es dev x"
proof (induction es rule: rev_induct)
  case Nil
  then show ?case by simp
next
  case (snoc e es)
  obtain d mp fs where e: "e = (d, mp, fs)" by (cases e)
  let ?seen = "foldl see_mount [] es"
  show ?case
  proof (cases "d = dev")
    case False
    then have "map_of (see_mount ?seen e) dev = map_of ?seen dev"
      by (auto simp: see_mount_simp e split: option.split)
    then show ?thesis using snoc False
      by (auto simp: e split: option.splits intro: shortest_in_snoc_old)
  next
    case True
    show ?thesis
    proof (cases "map_of ?seen dev")
      case None
      then have "dev \<notin> fst ` set es" using snoc by simp
      then have "shortest_in (es @ [(dev, mp, fs)]) dev (mp, fs)"
        by (intro shortest_in_snoc_new) force
      then show ?thesis using None True by (simp add: see_mount_simp e)
    next
      case (Some x)
      then have x: "shortest_in es dev x" using snoc by simp
      show ?thesis
      proof (cases "length (fst x) \<le> length mp")
        case True
        then show ?thesis using Some \<open>d = dev\<close> shortest_in_snoc_old [OF x, of dev "(mp, fs)"]
          by (simp add: see_mount_simp e)
      next
        case False
        have "\<forall>y. (dev, y) \<in> set es \<longrightarrow> length (fst (mp, fs)) < length (fst y)"
          using shortest_in_least [OF x] False by fastforce
        then show ?thesis using Some False \<open>d = dev\<close> shortest_in_snoc_new [of dev es "(mp, fs)"]
          by (simp add: see_mount_simp e)
      qed
    qed
  qed
qed

text \<open>The mount table has one entry per device, the shortest storage mount point of that device (the
  first of them), and no device with a storage mount is missing.\<close>

theorem parse_mounts_exact:
  "distinct (map fst (parse_mounts text)) \<and>
   ((dev, x) \<in> set (parse_mounts text) \<longleftrightarrow> shortest_in (mount_entries text) dev x)"
proof -
  note s = see_mounts_shortest [where es = "mount_entries text" and dev = dev, folded parse_mounts_def]
  have in_map: "(dev, x) \<in> set (parse_mounts text) \<longleftrightarrow> map_of (parse_mounts text) dev = Some x"
    using parse_mounts_distinct by (simp add: map_of_eq_Some_iff)
  have uniq: "x = y" if xy: "shortest_in (mount_entries text) dev x" "shortest_in (mount_entries text) dev y" for x y
  proof -
    obtain us vs where u: "mount_entries text = us @ (dev, x) # vs" "\<forall>z. (dev, z) \<in> set us \<longrightarrow> length (fst x) < length (fst z)"
      "\<forall>z. (dev, z) \<in> set vs \<longrightarrow> length (fst x) \<le> length (fst z)" using xy(1) by (auto simp: shortest_in_def)
    obtain us' vs' where u': "mount_entries text = us' @ (dev, y) # vs'" "\<forall>z. (dev, z) \<in> set us' \<longrightarrow> length (fst y) < length (fst z)"
      "\<forall>z. (dev, z) \<in> set vs' \<longrightarrow> length (fst y) \<le> length (fst z)" using xy(2) by (auto simp: shortest_in_def)
    have len: "length (fst x) = length (fst y)"
      using shortest_in_least [OF xy(1) shortest_in_dev [OF xy(2)]] shortest_in_least [OF xy(2) shortest_in_dev [OF xy(1)]] by simp
    have "us @ (dev, x) # vs = us' @ (dev, y) # vs'" using u(1) u'(1) by simp
    then consider "us = us'" "x = y" | "(dev, x) \<in> set us'" | "(dev, y) \<in> set us"
      by (auto simp: append_eq_append_conv2 Cons_eq_append_conv append_eq_Cons_conv)
    then show "x = y"
    proof cases
      case 2
      then have "length (fst y) < length (fst x)" using u'(2) by blast
      then show ?thesis using len by simp
    next
      case 3
      then have "length (fst x) < length (fst y)" using u(2) by blast
      then show ?thesis using len by simp
    qed simp
  qed
  have h: "map_of (parse_mounts text) dev = Some x \<longleftrightarrow> shortest_in (mount_entries text) dev x"
  proof (cases "map_of (parse_mounts text) dev")
    case None
    then have "dev \<notin> fst ` set (mount_entries text)" using s by simp
    then have "\<not> shortest_in (mount_entries text) dev x" using shortest_in_dev by (metis fst_conv image_eqI)
    then show ?thesis using None by simp
  next
    case (Some y)
    then have "shortest_in (mount_entries text) dev y" using s by simp
    then show ?thesis using Some uniq by (metis option.inject)
  qed
  show ?thesis by (intro conjI parse_mounts_distinct trans [OF in_map h])
qed

section \<open>The sampler\<close>

definition sampler_ok :: "sampler \<Rightarrow> bool" where
  "sampler_ok sp = ((\<forall>p. sp_cpu sp = Some p \<longrightarrow> 0 \<le> p \<and> p \<le> 100) \<and> sorted (map mo_point (sp_mounts sp)) \<and>
     distinct (map mo_device (sp_mounts sp)) \<and> (\<forall>m\<in>set (sp_mounts sp). mo_total m \<noteq> 0 \<and> mo_used m = mo_total m - mo_free m))"

lemma usage_of_Some: "usage_of st e = Some m \<Longrightarrow> mo_device m = fst e \<and> mo_total m \<noteq> 0 \<and> mo_used m = mo_total m - mo_free m"
  by (auto simp: usage_of_def Let_def split: prod.splits option.splits if_splits)

lemma in_concat_map: "y \<in> set (concat (map f xs)) \<longleftrightarrow> (\<exists>x\<in>set xs. y \<in> set (f x))"
  by simp

lemma usage_distinct:
  "distinct (map fst es) \<Longrightarrow> distinct (map mo_device (concat (map (\<lambda>e. case usage_of st e of None \<Rightarrow> [] | Some m \<Rightarrow> [m]) es)))"
proof (induction es)
  case (Cons e es)
  have sub: "mo_device m \<in> fst ` set es" if mem: "m \<in> set (concat (map (\<lambda>e. case usage_of st e of None \<Rightarrow> [] | Some m \<Rightarrow> [m]) es))" for m
  proof -
    obtain e' where "e' \<in> set es" and m: "m \<in> set (case usage_of st e' of None \<Rightarrow> [] | Some m \<Rightarrow> [m])"
      using mem unfolding in_concat_map ..
    moreover have "usage_of st e' = Some m" using m by (cases "usage_of st e'") simp_all
    ultimately show ?thesis using usage_of_Some [of st e' m] by auto
  qed
  show ?case
  proof (cases "usage_of st e")
    case None
    then show ?thesis using Cons by simp
  next
    case (Some m)
    have "mo_device m \<notin> fst ` set es" using usage_of_Some [OF Some] Cons.prems by simp
    then have "mo_device m \<notin> mo_device ` set (concat (map (\<lambda>e. case usage_of st e of None \<Rightarrow> [] | Some m \<Rightarrow> [m]) es))"
    proof (rule contrapos_nn)
      assume "mo_device m \<in> mo_device ` set (concat (map (\<lambda>e. case usage_of st e of None \<Rightarrow> [] | Some m \<Rightarrow> [m]) es))"
      then show "mo_device m \<in> fst ` set es" by (elim imageE) (simp only: sub)
    qed
    moreover have "distinct (map mo_device (concat (map (\<lambda>e. case usage_of st e of None \<Rightarrow> [] | Some m \<Rightarrow> [m]) es)))"
      by (rule Cons.IH) (use Cons.prems in simp)
    ultimately show ?thesis
      by (simp only: list.map concat.simps Some option.case append_Cons append_Nil distinct.simps set_map)
        simp
  qed
qed simp

lemma mount_usage_ok:
  assumes "distinct (map fst es)"
  shows "sorted (map mo_point (mount_usage st es))" and "distinct (map mo_device (mount_usage st es))"
    and "m \<in> set (mount_usage st es) \<Longrightarrow> mo_total m \<noteq> 0 \<and> mo_used m = mo_total m - mo_free m"
proof -
  show "sorted (map mo_point (mount_usage st es))" by (simp add: mount_usage_def)
  show "distinct (map mo_device (mount_usage st es))"
    using usage_distinct [OF assms, of st] by (simp add: mount_usage_def distinct_map)
  show "m \<in> set (mount_usage st es) \<Longrightarrow> mo_total m \<noteq> 0 \<and> mo_used m = mo_total m - mo_free m"
    using usage_of_Some [of st] by (fastforce simp: mount_usage_def split: option.splits)
qed

lemma sampler_step_ok: "sampler_ok sp \<Longrightarrow> sampler_ok (sampler_step sp r)"
  using mount_usage_ok [OF parse_mounts_distinct] cpu_percent_bounds
  by (auto simp: sampler_step_def sampler_ok_def split: sum.split)

interpretation agent: step_system sampler_step sampler_ok
  by unfold_locales (rule sampler_step_ok)

text \<open>Whatever \<open>/proc\<close> and \<open>statvfs\<close> say, turn after turn, a snapshot the agent serves has a CPU
  percentage between 0 and 100 or none, mounts sorted by mount point with one entry per device, and no
  empty file system.\<close>

theorem agent_snapshots_ok: "sampler_ok (foldl sampler_step (start_sampler prev) readings)"
  by (rule agent.run_inv) (simp add: sampler_ok_def start_sampler_def)

section \<open>The token\<close>

lemma token_gets_metrics:
  assumes tok: "tok \<noteq> []" "strip tok = tok" "\<forall>c\<in>set tok. (of_char c :: nat) < 128" and m: "build_metrics rp ma sp = Inr m"
  shows "do_GET rp tok ma sp ''/api/v1/metrics'' (''Bearer '' @ tok) = Inr (200, JObj m)"
proof -
  have "lower ''Bearer '' = ''bearer ''" by code_simp
  then have "lower (''Bearer '' @ tok) = ''bearer '' @ lower tok" by (simp add: lower_def)
  then have b: "startswith ''bearer '' (lower (''Bearer '' @ tok))" by (simp only: startswith_append)
  have d: "drop 7 (''Bearer '' @ tok) = tok" by simp
  have p: "request_path ''/api/v1/metrics'' = ''/api/v1/metrics''" by code_simp
  have "agent_authed tok (''Bearer '' @ tok) = Inr True"
    unfolding agent_authed_def Let_def if_P [OF b] d using tok by auto
  then show ?thesis using m by (simp add: do_GET_def p)
qed

text \<open>A request that does not present the token learns nothing about the machine: its answer is the same
  whatever the machine and the sampler hold; the right token (ASCII, without spaces at its ends) gets
  the metrics.\<close>

theorem agent_needs_token:
  "(\<not> startswith ''bearer '' (lower header) \<or> strip (drop 7 header) \<noteq> tok \<or> tok = [] \<longrightarrow>
     do_GET rp tok ma sp path header = do_GET rp' tok ma' sp' path header) \<and>
   (tok \<noteq> [] \<and> strip tok = tok \<and> (\<forall>c\<in>set tok. (of_char c :: nat) < 128) \<and> build_metrics rp ma sp = Inr m \<longrightarrow>
     do_GET rp tok ma sp ''/api/v1/metrics'' (''Bearer '' @ tok) = Inr (200, JObj m))"
proof -
  have no: "agent_authed tok header \<noteq> Inr True" if "\<not> startswith ''bearer '' (lower header) \<or> strip (drop 7 header) \<noteq> tok \<or> tok = []"
    using that by (auto simp: agent_authed_def Let_def)
  have "do_GET rp tok ma sp path header = do_GET rp' tok ma' sp' path header"
    if "\<not> startswith ''bearer '' (lower header) \<or> strip (drop 7 header) \<noteq> tok \<or> tok = []"
    using no [OF that] by (cases "agent_authed tok header") (auto simp: do_GET_def Let_def)
  then show ?thesis using token_gets_metrics by blast
qed

definition demo_machine :: "string \<Rightarrow> machine" where
  "demo_machine host = \<lparr>ma_hostname = host, ma_os = None, ma_kernel = ''6.8'', ma_arch = ''x86_64'', ma_cpus = 4, ma_load1 = None,
     ma_uptime = None, ma_meminfo = []\<rparr>"

theorem agent_needs_token_witness:
  "do_GET (\<lambda>_. []) ''na_1'' (demo_machine ''db'') (start_sampler None) ''/metrics'' ''Bearer na_2'' =
   do_GET (\<lambda>_. []) ''na_1'' (demo_machine ''web'') (start_sampler (Some (1, 2))) ''/metrics'' ''Bearer na_2'' \<and>
   (\<exists>m. do_GET (\<lambda>_. []) ''na_1'' (demo_machine ''db'') (start_sampler None) ''/api/v1/metrics'' (''Bearer '' @ ''na_1'') = Inr (200, JObj m))"
proof -
  have h: "strip (drop 7 ''Bearer na_2'') \<noteq> ''na_1''" "strip ''na_1'' = ''na_1''" "\<forall>c\<in>set ''na_1''. (of_char c :: nat) < 128"
    by (simp_all add: strip_def lstrip_def rstrip_def is_ws_def)
  obtain m where m: "build_metrics (\<lambda>_. []) (demo_machine ''db'') (start_sampler None) = Inr m"
    by (auto simp: build_metrics_def parse_meminfo_def demo_machine_def splitlines_def Let_def)
  show ?thesis
    using agent_needs_token [of "''Bearer na_2''" "''na_1''" "\<lambda>_. []" "demo_machine ''db''" "start_sampler None" "''/metrics''"
        "\<lambda>_. []" "demo_machine ''web''" "start_sampler (Some (1, 2))" m] h m by simp
qed

section \<open>Agent and controller\<close>

text \<open>The address a URL connects to and the target its request line names.\<close>

definition origin_of :: "string \<Rightarrow> string" where
  "origin_of url =
     (let pre = takeWhile (\<lambda>c. c \<noteq> CHR '':'') url
      in pre @ ''://'' @ takeWhile (\<lambda>c. c \<noteq> CHR ''/'') (drop (length pre + 3) url))"

definition target_of :: "string \<Rightarrow> string" where
  "target_of url =
     (let t = dropWhile (\<lambda>c. c \<noteq> CHR ''/'') (drop (length (takeWhile (\<lambda>c. c \<noteq> CHR '':'') url) + 3) url)
      in if t = [] then ''/'' else t)"

text \<open>A network with one agent, at \<open>origin\<close>: it is handed the target of the URL that is asked for and the header
  that is sent; nobody answers elsewhere.\<close>

definition agent_net :: "(rat \<Rightarrow> string) \<Rightarrow> string \<Rightarrow> machine \<Rightarrow> sampler \<Rightarrow> string \<Rightarrow> string \<Rightarrow> net" where
  "agent_net rp tok ma sp origin cert = \<lparr>nt_cert = \<lambda>h p. Inr cert, nt_ask = \<lambda>url auth.
     (if origin_of url \<noteq> origin then NoConn ''connection refused''
      else case do_GET rp tok ma sp (target_of url) (case auth of None \<Rightarrow> [] | Some t \<Rightarrow> ''Bearer '' @ t) of
        Inr (st, b) \<Rightarrow> Peer cert st (Some b) | Inl e \<Rightarrow> NoConn ''Remote end closed connection without response'')\<rparr>"

lemma origin_target:
  assumes "origin_of base = base"
  shows "origin_of (base @ CHR ''/'' # p) = base" and "target_of (base @ CHR ''/'' # p) = CHR ''/'' # p"
proof -
  define pre where "pre = takeWhile (\<lambda>c. c \<noteq> CHR '':'') base"
  define auth where "auth = takeWhile (\<lambda>c. c \<noteq> CHR ''/'') (drop (length pre + 3) base)"
  have base: "base = pre @ ''://'' @ auth"
    using assms by (simp add: origin_of_def pre_def auth_def Let_def)
  have pre: "\<forall>c\<in>set pre. c \<noteq> CHR '':''"
    unfolding pre_def by (auto dest: set_takeWhileD)
  then have p: "takeWhile (\<lambda>c. c \<noteq> CHR '':'') (pre @ CHR '':'' # r) = pre" for r
    by (simp add: takeWhile_append2)
  have "\<forall>c\<in>set auth. c \<noteq> CHR ''/''"
    unfolding auth_def by (auto dest: set_takeWhileD)
  then have a: "takeWhile (\<lambda>c. c \<noteq> CHR ''/'') (auth @ CHR ''/'' # p) = auth"
    "dropWhile (\<lambda>c. c \<noteq> CHR ''/'') (auth @ CHR ''/'' # p) = CHR ''/'' # p"
    by (simp_all add: takeWhile_append2 dropWhile_append2)
  have "drop (length pre + 3) (pre @ ''://'' @ r) = r" for r :: string
    by simp
  then show "origin_of (base @ CHR ''/'' # p) = base" "target_of (base @ CHR ''/'' # p) = CHR ''/'' # p"
    using p a by (simp_all add: base origin_of_def target_of_def Let_def)
qed

lemma mount_dicts: "all_dicts (map (mount_json rp) ms) = Inr (map (\<lambda>m. case mount_json rp m of JObj d \<Rightarrow> d) ms)"
  by (simp add: all_dicts_iff mount_json_def)

lemma sum_mounts:
  "sum_ints ''used'' (map (\<lambda>m. case mount_json rp m of JObj d \<Rightarrow> d) ms) = Inr (\<Sum>m\<leftarrow>ms. mo_used m)"
  "sum_ints ''total'' (map (\<lambda>m. case mount_json rp m of JObj d \<Rightarrow> d) ms) = Inr (\<Sum>m\<leftarrow>ms. mo_total m)"
  by (induction ms) (auto simp: mount_json_def jget_def py_int_def)

lemma payload_envelope:
  assumes "build_metrics rp ma sp = Inr payload" and "parse_meminfo (ma_meminfo ma) = Inr mem"
    and "\<And>x. vw_pct vw (jnum rp x) = Some x" and "vw_pct vw JNull = None"
  shows "build_agent_envelope vw n payload = Inr ((base_envelope n)\<lparr>e_ok := True, e_cpu_pct := sp_cpu sp,
     e_mem_pct := mi_percent mem, e_used_bytes := (\<Sum>m\<leftarrow>sp_mounts sp. mo_used m),
     e_size_bytes := (\<Sum>m\<leftarrow>sp_mounts sp. mo_total m), e_version := Some AGENT_VERSION, e_type_auto := Some ''Unknown''\<rparr>)"
proof -
  have opt: "vw_pct vw (jopt (jnum rp) v) = v" for v using assms(3,4) by (cases v) (simp_all add: jopt_def)
  have mounts: "dicts_of (JArr (map (mount_json rp) ms)) = Inr (map (\<lambda>m. case mount_json rp m of JObj d \<Rightarrow> d) ms)" for ms
    by (cases ms) (simp_all add: dicts_of_def items_of_def py_list_def mount_dicts flip: list.map)
  have cpu: "dict_or_empty (jget payload ''cpu'') = Inr [(''percent'', jopt (jnum rp) (sp_cpu sp)), (''count'', JInt (ma_cpus ma)),
      (''load1'', jopt (\<lambda>l. jnum rp (round_to 2 l)) (ma_load1 ma))]"
    and memory: "jget payload ''memory'' = meminfo_json rp mem"
    and mts: "jget payload ''mounts'' = JArr (map (mount_json rp) (sp_mounts sp))"
    and version: "text_or_none (jget payload ''version'') = Some AGENT_VERSION"
    using assms(1,2) by (auto simp: build_metrics_def jget_def dict_or_empty_def as_dict_def text_or_none_def AGENT_VERSION_def py_str_def)
  have "dict_or_empty (meminfo_json rp mem) = Inr [(''total'', JInt (mi_total mem)), (''available'', JInt (mi_available mem)),
      (''used'', JInt (mi_used mem)), (''percent'', jopt (jnum rp) (mi_percent mem))]"
    by (simp add: meminfo_json_def dict_or_empty_def as_dict_def)
  then show ?thesis
    unfolding build_agent_envelope_def cpu memory mts version mounts sum_mounts and_then_simps by (simp add: jget_def opt)
qed

text \<open>C36: The controller shows what the agent measured: the live fetch of an agent at the host's address, which asks for a
  path the agent serves, with its token, over the certificate pinned for it, reports the host up with the sampled CPU
  percentage, the memory percentage, and the sums of the mounts. (Hypotheses: the token is the agent's, ASCII and without
  spaces at its ends; the address has no path; \<open>/proc/meminfo\<close> parses; a percentage of the payload reads back
  as the number.)\<close>

theorem agent_fetch_exact:
  assumes tok: "node_token dec n = tok" "tok \<noteq> []" "strip tok = tok" "\<forall>c\<in>set tok. (of_char c :: nat) < 128"
    and base: "rstrip_slash (n_base_url n) = origin" "origin_of origin = origin"
    and pin: "n_cert_fp n = Some cert" and mem: "parse_meminfo (ma_meminfo ma) = Inr mem"
    and view: "\<And>x. vw_pct vw (jnum rp x) = Some x" "vw_pct vw JNull = None"
  shows "agent_fetch (agent_net rp tok ma sp origin cert) dec text vw n = (base_envelope n)\<lparr>e_ok := True, e_cpu_pct := sp_cpu sp,
     e_mem_pct := mi_percent mem, e_used_bytes := (\<Sum>m\<leftarrow>sp_mounts sp. mo_used m),
     e_size_bytes := (\<Sum>m\<leftarrow>sp_mounts sp. mo_total m), e_version := Some AGENT_VERSION, e_type_auto := Some ''Unknown''\<rparr>"
proof -
  obtain m where m: "build_metrics rp ma sp = Inr m" using mem by (simp add: build_metrics_def)
  note get = token_gets_metrics [OF tok(2,3,4) m]
  have "pinned_request (agent_net rp tok ma sp origin cert) (rstrip_slash (n_base_url n) @ ''/api/v1/metrics'') (Some cert) (Some tok) =
      Inr (200, Some (JObj m))"
    unfolding pinned_request_def agent_net_def base(1)
    using get origin_target [OF base(2), of "''api/v1/metrics''"] by simp
  moreover have "jget m ''agent'' = JStr ''nexus-agent''" using m mem by (auto simp: build_metrics_def jget_def)
  ultimately show ?thesis
    using payload_envelope [OF m mem view, where n = n]
    by (simp add: agent_fetch_def agent_metrics_def pin tok(1) escaping_def as_dict_def fetched_def)
qed

definition demo_views :: views where
  "demo_views = \<lparr>vw_summary = \<lambda>_. no_summary, vw_pct = \<lambda>v. case v of JFloat (Fin r) t \<Rightarrow> Some r | _ \<Rightarrow> None\<rparr>"

definition agent_host :: node where
  "agent_host = (sample_node ''a'' ''a'')\<lparr>n_base_url := ''https://a.lan:9143'', n_cert_fp := Some ''ab'', n_token_enc := ''x''\<rparr>"

theorem agent_fetch_exact_witness:
  "e_ok (agent_fetch (agent_net (\<lambda>_. []) ''na_1'' (demo_machine ''db'') (start_sampler None) ''https://a.lan:9143'' ''ab'')
    (\<lambda>_. Some ''na_1'') (\<lambda>_. [])
    demo_views agent_host)"
proof -
  have h: "node_token (\<lambda>_. Some ''na_1'') agent_host = ''na_1''" "''na_1'' \<noteq> []" "strip ''na_1'' = ''na_1''"
    "\<forall>c\<in>set ''na_1''. (of_char c :: nat) < 128"
    "rstrip_slash (n_base_url agent_host) = ''https://a.lan:9143''" "origin_of ''https://a.lan:9143'' = ''https://a.lan:9143''"
    "n_cert_fp agent_host = Some ''ab''"
    by (simp_all add: strip_def rstrip_slash_def origin_of_def lstrip_def rstrip_def is_ws_def node_token_def agent_host_def)
  obtain mem where mem: "parse_meminfo (ma_meminfo (demo_machine ''db'')) = Inr mem"
    by (auto simp: parse_meminfo_def demo_machine_def splitlines_def Let_def)
  have v: "\<And>x. vw_pct demo_views (jnum (\<lambda>_. []) x) = Some x" "vw_pct demo_views JNull = None"
    by (simp_all add: demo_views_def jnum_def)
  show ?thesis using agent_fetch_exact [OF h mem v] by simp
qed

end
