(* ===== verification/Appliances.thy ===== *)
theory Appliances
  imports History PolledHosts
begin

text \<open>
  What the collectors of the storage appliances make of an appliance's answers: the \<open>build_metrics\<close> and
  \<open>map_services\<close> of \<open>collectors/truenas.py\<close>, \<open>synology.py\<close>, \<open>omv.py\<close>, \<open>zimaos.py\<close>, \<open>unraid.py\<close> and
  \<open>ugreen.py\<close>. The payloads are JSON; a step that raises in Python is the left side of a sum. Numbers are
  exact rationals; an infinite or undefined number raises here, in Python it raises when the envelope is
  built from the metrics.
\<close>

section \<open>Reading payloads\<close>

fun each :: "('a \<Rightarrow> 'e + 'b) \<Rightarrow> 'a list \<Rightarrow> 'e + 'b list" where
  "each f [] = Inr []"
| "each f (x # xs) = and_then (f x) (\<lambda>y. and_then (each f xs) (\<lambda>ys. Inr (y # ys)))"

lemma each_Inr: "each f xs = Inr ys \<longleftrightarrow> list_all2 (\<lambda>x y. f x = Inr y) xs ys"
  by (induction xs arbitrary: ys) (auto simp: and_then_Inr list_all2_Cons1)

lemma each_mem: "each f xs = Inr ys \<Longrightarrow> x \<in> set xs \<Longrightarrow> \<exists>y\<in>set ys. f x = Inr y"
  by (induction xs arbitrary: ys) (auto simp: and_then_Inr)

lemma each_back: "each f xs = Inr ys \<Longrightarrow> y \<in> set ys \<Longrightarrow> \<exists>x\<in>set xs. f x = Inr y"
  by (induction xs arbitrary: ys) (auto simp: and_then_Inr)

lemma each_length: "each f xs = Inr ys \<Longrightarrow> length ys = length xs"
  by (auto simp: each_Inr dest: list_all2_lengthD)

text \<open>\<open>a or b\<close>, a string method on \<open>v or ''\<close>, \<open>v is not None\<close>.\<close>

definition or_else :: "json \<Rightarrow> json \<Rightarrow> json" where
  "or_else a b = (if truthy a then a else b)"

definition text_of :: "json \<Rightarrow> exn + string" where
  "text_of v = (if truthy v then (case v of JStr s \<Rightarrow> Inr s | _ \<Rightarrow> Inl AttributeError) else Inr [])"

text \<open>\<open>float(v)\<close> that lets the caller catch a value that is no number, as \<open>_num\<close> does.\<close>

definition finite_num :: "pyfloat \<Rightarrow> exn + rat" where
  "finite_num x = (case x of Fin r \<Rightarrow> Inr r | _ \<Rightarrow> Inl OverflowError)"

definition float_num :: "json \<Rightarrow> exn + rat" where
  "float_num v = and_then (py_float v) finite_num"

definition num_or_0 :: "json \<Rightarrow> exn + rat" where
  "num_or_0 v = (case py_float v of
      Inl e \<Rightarrow> if e = TypeError \<or> e = ValueError then Inr 0 else Inl e
    | Inr x \<Rightarrow> finite_num x)"

text \<open>\<open>round(float(v), 1) if v is not None else None\<close>.\<close>

definition pct_of :: "json \<Rightarrow> exn + rat option" where
  "pct_of v = (if v = JNull then Inr None else and_then (float_num v) (\<lambda>x. Inr (Some (round_to 1 x))))"

text \<open>\<open>v or 0\<close> as an operand of \<open>+\<close>, and \<open>int(v or 0)\<close>.\<close>

definition operand :: "json \<Rightarrow> exn + rat" where
  "operand v = num_of (or_else v (JInt 0))"

definition int_of :: "json \<Rightarrow> exn + int" where
  "int_of v = py_int (or_else v (JInt 0))"

definition dict_get :: "json \<Rightarrow> string \<Rightarrow> exn + json" where
  "dict_get v k = and_then (dict_or_empty v) (\<lambda>d. Inr (jget d k))"

section \<open>The normalized report\<close>

definition GB :: rat where "GB = 1024 ^ 3"

record pool =
  pl_name :: json
  pl_status :: json
  pl_healthy :: bool
  pl_size_gb :: rat
  pl_used_gb :: rat
  pl_used_pct :: "rat option"

definition pool_of :: "json \<Rightarrow> json \<Rightarrow> bool \<Rightarrow> rat \<Rightarrow> rat \<Rightarrow> pool" where
  "pool_of name status ok capacity used = \<lparr>pl_name = name, pl_status = status, pl_healthy = ok,
     pl_size_gb = round_to 1 (capacity / GB), pl_used_gb = round_to 1 (used / GB),
     pl_used_pct = (if capacity = 0 then None else Some (round_to 1 (used / capacity * 100)))\<rparr>"

record nas_report = nas_metrics +
  nr_hostname :: json
  nr_version :: json
  nr_model :: json
  nr_uptime :: json
  nr_mem_total_gb :: "rat option"
  nr_mem_used_gb :: "rat option"
  nr_storage_pct :: "rat option"
  nr_pool_count :: nat
  nr_pools_healthy :: int
  nr_pools :: "pool list"
  nr_disks :: nat

definition sick_pools :: "pool list \<Rightarrow> int" where
  "sick_pools pools = int (length (filter (\<lambda>p. \<not> pl_healthy p) pools))"

text \<open>The end of every \<open>build_metrics\<close>, from the capacity, the use, the pools, the disks and the alerts.\<close>

definition nas_totals :: "rat option \<Rightarrow> rat option \<Rightarrow> rat \<Rightarrow> rat \<Rightarrow> pool list \<Rightarrow> nat \<Rightarrow> string list \<Rightarrow> service_st dict \<Rightarrow> nas_report" where
  "nas_totals cpu mem capacity used pools disks alerts services =
     \<lparr>nm_cpu = cpu, nm_mem = mem, nm_storage_used = used / GB, nm_storage_total = capacity / GB, nm_services = services,
      nm_pools_degraded = sick_pools pools, nm_alert_count = int (length alerts), nm_alerts = take 10 alerts,
      nr_hostname = JNull, nr_version = JNull, nr_model = JNull, nr_uptime = JNull, nr_mem_total_gb = None, nr_mem_used_gb = None,
      nr_storage_pct = (if capacity = 0 then None else Some (round_to 1 (used / capacity * 100))),
      nr_pool_count = length pools, nr_pools_healthy = int (length (filter pl_healthy pools)), nr_pools = pools, nr_disks = disks\<rparr>"

text \<open>The memory block over byte counts: nothing is shown without a total.\<close>

definition with_memory :: "int \<Rightarrow> rat option \<Rightarrow> nas_report \<Rightarrow> nas_report" where
  "with_memory capacity used r = r\<lparr>nr_mem_total_gb := (if capacity = 0 then None else Some (round_to 1 (of_int capacity / GB))),
     nr_mem_used_gb := (if capacity = 0 then None else map_option (\<lambda>u. round_to 1 (u / GB)) used)\<rparr>"

text \<open>The \<open>nas\<close> block of \<open>build_nas_envelope\<close>, with what the page shows of it.\<close>

record nas_view =
  nv_kind :: string
  nv_hostname :: json
  nv_model :: json
  nv_version :: json
  nv_pools :: nat
  nv_pools_healthy :: int
  nv_pools_degraded :: int
  nv_disks :: nat
  nv_alerts :: int
  nv_alert_list :: "string list"
  nv_pool_list :: "pool list"
  nv_storage_used_gb :: rat
  nv_storage_total_gb :: rat

definition nas_view_of :: "node \<Rightarrow> nas_report \<Rightarrow> nas_view" where
  "nas_view_of n m = \<lparr>nv_kind = n_host_type n, nv_hostname = nr_hostname m, nv_model = nr_model m, nv_version = nr_version m,
     nv_pools = nr_pool_count m, nv_pools_healthy = nr_pools_healthy m, nv_pools_degraded = nm_pools_degraded m, nv_disks = nr_disks m,
     nv_alerts = nm_alert_count m, nv_alert_list = nm_alerts m, nv_pool_list = nr_pools m,
     nv_storage_used_gb = round_to 1 (nm_storage_used m), nv_storage_total_gb = round_to 1 (nm_storage_total m)\<rparr>"

section \<open>TrueNAS\<close>

definition SEVERE :: "string list" where
  "SEVERE = [''WARNING'', ''ERROR'', ''CRITICAL'', ''ALERT'', ''EMERGENCY'']"

text \<open>\<open>_recent_avg\<close>: the column of the legend, then the mean of the last complete samples.\<close>

definition position :: "string \<Rightarrow> string \<Rightarrow> nat option" where
  "position pat s = find (\<lambda>i. startswith pat (drop i s)) [0..<Suc (length s)]"

definition legend_index :: "json \<Rightarrow> string \<Rightarrow> exn + nat option" where
  "legend_index legend column = (case legend of
      JArr vs \<Rightarrow> Inr (find (\<lambda>i. vs ! i = JStr column) [0..<length vs])
    | JStr s \<Rightarrow> Inr (position column s)
    | JObj d \<Rightarrow> if has_key d column then Inl AttributeError else Inr None
    | _ \<Rightarrow> Inl TypeError)"

definition row_value :: "nat \<Rightarrow> json \<Rightarrow> exn + rat list" where
  "row_value i row = (case row of
      JArr vs \<Rightarrow> if i < length vs \<and> vs ! i \<noteq> JNull then and_then (num_of (vs ! i)) (\<lambda>x. Inr [x]) else Inr []
    | JStr s \<Rightarrow> if i < length s then Inl TypeError else Inr []
    | JObj d \<Rightarrow> if i < length d then Inl KeyError else Inr []
    | _ \<Rightarrow> Inl TypeError)"

definition last_n :: "nat \<Rightarrow> 'a list \<Rightarrow> 'a list" where
  "last_n n xs = drop (length xs - n) xs"

definition recent_avg :: "json \<Rightarrow> string \<Rightarrow> exn + rat option" where
  "recent_avg graph column = (case graph of
      JObj g \<Rightarrow>
        let legend = or_else (jget g ''legend'') (JArr []); data = or_else (jget g ''data'') (JArr [])
        in and_then (legend_index legend column) (\<lambda>found.
          case found of
            None \<Rightarrow> Inr None
          | Some i \<Rightarrow>
              if \<not> truthy data then Inr None
              else and_then (case data of JArr rows \<Rightarrow> Inr rows | JStr s \<Rightarrow> Inr (map (\<lambda>c. JStr [c]) s) | _ \<Rightarrow> Inl TypeError) (\<lambda>rows.
                and_then (each (row_value i) (last_n 60 (if 1 < length rows then butlast rows else rows))) (\<lambda>vals.
                  let xs = concat vals in Inr (if xs = [] then None else Some (sum_list xs / of_nat (length xs))))))
    | _ \<Rightarrow> Inr None)"

text \<open>\<open>map_services\<close>: enabled or running services under the names the other hosts use.\<close>

definition truenas_keys :: "string dict" where
  "truenas_keys = [(''cifs'', ''smb''), (''nfs'', ''nfs''), (''iscsitarget'', ''iscsi''), (''ftp'', ''ftp''), (''rsync'', ''rsync''), (''ssh'', ''ssh'')]"

definition service_row :: "bool \<Rightarrow> bool \<Rightarrow> service_st" where
  "service_row enabled running = \<lparr>sv_enabled = Some (if enabled then ''enabled'' else ''disabled''),
     sv_active = Some (if running then ''active'' else ''inactive'')\<rparr>"

text \<open>The key a service is known by, none when it is not listed; a lookup needs a hashable name.\<close>

definition known_key :: "string dict \<Rightarrow> json \<Rightarrow> exn + string option" where
  "known_key keys v = (if \<not> hashable v then Inl TypeError
     else Inr (case v of JStr s \<Rightarrow> map_of keys s | _ \<Rightarrow> None))"

definition truenas_service :: "service_st dict \<Rightarrow> json dict \<Rightarrow> exn + service_st dict" where
  "truenas_service out s =
     and_then (known_key truenas_keys (jget s ''service'')) (\<lambda>mapped.
       case mapped of
         None \<Rightarrow> Inr out
       | Some key \<Rightarrow>
           and_then (text_of (jget s ''state'')) (\<lambda>state.
             let enabled = truthy (jget s ''enable''); running = (lower state = ''running'')
             in Inr (if enabled \<or> running then AList.update key (service_row enabled running) out else out)))"

fun fold_each :: "('b \<Rightarrow> 'a \<Rightarrow> 'e + 'b) \<Rightarrow> 'b \<Rightarrow> 'a list \<Rightarrow> 'e + 'b" where
  "fold_each f b [] = Inr b"
| "fold_each f b (x # xs) = and_then (f b x) (\<lambda>b'. fold_each f b' xs)"

definition truenas_services :: "json \<Rightarrow> exn + service_st dict" where
  "truenas_services services = and_then (dicts_of services) (fold_each truenas_service [])"

definition truenas_pool :: "json dict \<Rightarrow> exn + (rat \<times> rat) \<times> pool" where
  "truenas_pool p =
     and_then (operand (jget p ''size'')) (\<lambda>capacity.
       and_then (operand (jget p ''allocated'')) (\<lambda>used.
         Inr ((capacity, used), pool_of (jget p ''name'') (jget p ''status'') (truthy (jget p ''healthy'')) capacity used)))"

definition alert_active :: "json dict \<Rightarrow> exn + bool" where
  "alert_active a = (if truthy (jget a ''dismissed'') then Inr False
     else if \<not> hashable (jget a ''level'') then Inl TypeError
     else Inr (case jget a ''level'' of JStr s \<Rightarrow> s \<in> set SEVERE | _ \<Rightarrow> False))"

definition alert_line :: "json dict \<Rightarrow> exn + string list" where
  "alert_line a =
     and_then (alert_active a) (\<lambda>active.
       if \<not> active then Inr []
       else and_then (text_of (or_else (jget a ''formatted'') (jget a ''text''))) (\<lambda>t. Inr [strip t]))"

definition truenas_metrics :: "json \<Rightarrow> json \<Rightarrow> json \<Rightarrow> json \<Rightarrow> json \<Rightarrow> json \<Rightarrow> json \<Rightarrow> exn + nas_report" where
  "truenas_metrics info0 pools0 disks0 alerts0 cpu_graph mem_graph services0 =
     and_then (dicts_of pools0) (\<lambda>ps.
       and_then (each truenas_pool ps) (\<lambda>pools.
         and_then (dicts_of alerts0) (\<lambda>alerts.
           and_then (each alert_line alerts) (\<lambda>lines.
             and_then (dict_or_empty info0) (\<lambda>info.
               and_then (operand (jget info ''physmem'')) (\<lambda>phys.
                 and_then (recent_avg mem_graph ''available'') (\<lambda>avail.
                   and_then (recent_avg cpu_graph ''cpu'') (\<lambda>cpu.
                     and_then (items_of disks0) (\<lambda>disks.
                       and_then (truenas_services services0) (\<lambda>services.
                         let used = (if phys = 0 then None else map_option (\<lambda>a. phys - a) avail);
                             capacity = sum_list (map (fst \<circ> fst) pools); alloc = sum_list (map (snd \<circ> fst) pools);
                             r = nas_totals (map_option (round_to 1) cpu) (map_option (\<lambda>u. round_to 1 (u / phys * 100)) used)
                               capacity alloc (map snd pools) (length disks) (concat lines) services
                         in Inr (r\<lparr>nr_hostname := jget info ''hostname'', nr_version := jget info ''version'', nr_model := jget info ''model'',
                              nr_uptime := jget info ''uptime_seconds'', nr_mem_total_gb := (if phys = 0 then None else Some (phys / GB)),
                              nr_mem_used_gb := map_option (\<lambda>u. u / GB) used\<rparr>)))))))))))"

section \<open>Synology\<close>

definition synology_keys :: "string dict" where
  "synology_keys = [(''pkg-synosamba-smbd'', ''smb''), (''nfs-server'', ''nfs''), (''atalk'', ''afp''), (''ftp-pure'', ''ftp''),
     (''ftp-ssl'', ''ftp''), (''rsyncd'', ''rsync''), (''sftp'', ''sftp''), (''ssh-shell'', ''ssh'')]"

definition synology_service :: "service_st dict \<Rightarrow> json dict \<Rightarrow> exn + service_st dict" where
  "synology_service out s =
     and_then (known_key synology_keys (jget s ''service_id'')) (\<lambda>mapped.
       case mapped of
         None \<Rightarrow> Inr out
       | Some key \<Rightarrow> Inr (if jget s ''enable_status'' = JStr ''enabled'' then AList.update key (service_row True True) out else out))"

definition synology_services :: "json \<Rightarrow> exn + service_st dict" where
  "synology_services services =
     and_then (dict_get services ''service'') (\<lambda>v. and_then (dicts_of v) (fold_each synology_service []))"

text \<open>A volume: its sizes, its pool entry, and a line when its status is not normal.\<close>

definition synology_volume :: "json dict \<Rightarrow> exn + (rat \<times> rat) \<times> pool \<times> string list" where
  "synology_volume v =
     and_then (text_of (jget v ''status'')) (\<lambda>st.
       and_then (dict_or_empty (jget v ''size'')) (\<lambda>sz.
         and_then (num_or_0 (jget sz ''total'')) (\<lambda>capacity.
           and_then (num_or_0 (jget sz ''used'')) (\<lambda>used.
             let ok = (lower st = ''normal''); name = or_else (or_else (jget v ''display_name'') (jget v ''id'')) (JStr ''volume'')
             in Inr ((capacity, used), pool_of name (jget v ''status'') ok capacity used,
                  if ok then [] else [py_str name @ '': status '' @ py_str (jget v ''status'')])))))"

definition synology_disk :: "json dict \<Rightarrow> exn + string list" where
  "synology_disk d =
     and_then (text_of (jget d ''status'')) (\<lambda>st.
       and_then (text_of (jget d ''smart_status'')) (\<lambda>smart.
         Inr (if lower st \<notin> set [[], ''normal''] \<or> lower smart \<notin> set [[], ''normal'', ''safe'']
              then [''disk '' @ py_str (or_else (jget d ''name'') (jget d ''id'')) @ '': status '' @ py_str (jget d ''status'') @ ''/smart '' @
                py_str (jget d ''smart_status'')]
              else [])))"

definition synology_cpu :: "json dict \<Rightarrow> exn + rat option" where
  "synology_cpu cpu =
     (if jget cpu ''user_load'' = JNull \<and> jget cpu ''system_load'' = JNull then Inr None
      else and_then (num_or_0 (jget cpu ''user_load'')) (\<lambda>u.
        and_then (num_or_0 (jget cpu ''system_load'')) (\<lambda>s. Inr (Some (round_to 1 (u + s))))))"

definition synology_metrics :: "json \<Rightarrow> json \<Rightarrow> json \<Rightarrow> json \<Rightarrow> exn + nas_report" where
  "synology_metrics info0 util0 storage0 services =
     and_then (dict_or_empty storage0) (\<lambda>storage.
       and_then (dicts_of (jget storage ''volumes'')) (\<lambda>volumes.
         and_then (each synology_volume volumes) (\<lambda>vs.
           and_then (dicts_of (jget storage ''disks'')) (\<lambda>disks.
             and_then (each synology_disk disks) (\<lambda>disk_lines.
               and_then (dict_or_empty util0) (\<lambda>util.
                 and_then (dict_or_empty (jget util ''cpu'')) (\<lambda>cpu.
                   and_then (synology_cpu cpu) (\<lambda>cpu_pct.
                     and_then (dict_or_empty (jget util ''memory'')) (\<lambda>mem.
                       and_then (if jget mem ''real_usage'' = JNull then Inr None
                           else and_then (num_or_0 (jget mem ''real_usage'')) (\<lambda>x. Inr (Some x))) (\<lambda>mem_pct.
                         and_then (num_or_0 (jget mem ''memory_size'')) (\<lambda>kb.
                           and_then (dict_or_empty info0) (\<lambda>info.
                             and_then (text_of (jget info ''firmware_ver'')) (\<lambda>firmware.
                               and_then (synology_services services) (\<lambda>svcs.
                                 let capacity = sum_list (map (fst \<circ> fst) vs); used = sum_list (map (snd \<circ> fst) vs);
                                     alerts = concat (map (snd \<circ> snd) vs) @ concat disk_lines;
                                     r = nas_totals cpu_pct mem_pct capacity used (map (fst \<circ> snd) vs) (length disks) alerts svcs
                                 in Inr (r\<lparr>nr_hostname := jget info ''hostname'', nr_model := jget info ''model'',
                                      nr_version := (if strip firmware = [] then JNull else JStr (strip firmware)),
                                      nr_mem_total_gb := (if kb = 0 then None else Some (round_to 1 (kb * 1024 / GB))),
                                      nr_mem_used_gb := (if kb = 0 then None else map_option (\<lambda>p. round_to 1 (kb * 1024 / GB * p / 100)) mem_pct)\<rparr>)))))))))))))))"

section \<open>OpenMediaVault\<close>

definition omv_keys :: "string dict" where
  "omv_keys = [(''samba'', ''smb''), (''nfs'', ''nfs''), (''rsyncd'', ''rsync''), (''ftp'', ''ftp''), (''ssh'', ''ssh'')]"

text \<open>A service that is not listed passes through under its own name.\<close>

definition omv_service :: "service_st dict \<Rightarrow> json dict \<Rightarrow> exn + service_st dict" where
  "omv_service out s =
     (let enabled = truthy (jget s ''enabled''); running = truthy (jget s ''running'')
      in if \<not> truthy (jget s ''name'') \<or> \<not> (enabled \<or> running) then Inr out
         else and_then (text_of (jget s ''name'')) (\<lambda>name.
           Inr (AList.update (case map_of omv_keys name of Some key \<Rightarrow> key | None \<Rightarrow> lower name) (service_row enabled running) out)))"

definition omv_services :: "json \<Rightarrow> exn + service_st dict" where
  "omv_services services = and_then (dicts_of services) (fold_each omv_service [])"

definition MD_OK :: "string list" where
  "MD_OK = [''clean'', ''active'', ''active, checking'', ''clean, checking'']"

text \<open>\<open>md_by_dev\<close>: the array of every device file it names, the last one winning.\<close>

definition md_devices :: "json dict \<Rightarrow> exn + json list" where
  "md_devices r = and_then (items_of (jget r ''devicefiles'')) (\<lambda>ds.
     let devs = filter truthy (jget r ''devicefile'' # ds)
     in if list_all hashable devs then Inr devs else Inl TypeError)"

definition put_array :: "(json \<times> json dict) list \<Rightarrow> json dict \<Rightarrow> exn + (json \<times> json dict) list" where
  "put_array by_dev r = and_then (md_devices r) (\<lambda>devs. Inr (foldl (\<lambda>m dev. AList.update dev r m) by_dev devs))"

definition md_bad :: "string \<Rightarrow> bool" where
  "md_bad state = (state \<noteq> [] \<and> lower state \<notin> set MD_OK)"

text \<open>\<open>any(name in a for a in alerts)\<close> needs a text as soon as there is an alert.\<close>

definition named_in :: "json \<Rightarrow> string list \<Rightarrow> exn + bool" where
  "named_in name alerts = (if alerts = [] then Inr False
     else case name of JStr s \<Rightarrow> Inr (\<exists>a\<in>set alerts. contains s a) | _ \<Rightarrow> Inl TypeError)"

text \<open>\<open>fs.get('status', 1) == 1\<close> and \<open>fs.get('mounted', True)\<close>.\<close>

definition is_one :: "json \<Rightarrow> bool" where
  "is_one v = (case v of JInt i \<Rightarrow> i = 1 | JBool b \<Rightarrow> b | JFloat (Fin r) t \<Rightarrow> r = 1 | _ \<Rightarrow> False)"

definition fs_up :: "json dict \<Rightarrow> bool" where
  "fs_up fs = ((has_key fs ''status'' \<longrightarrow> is_one (jget fs ''status'')) \<and> (has_key fs ''mounted'' \<longrightarrow> truthy (jget fs ''mounted'')))"

text \<open>The array under a file system: its state, the status it shows, and whether it is in trouble.\<close>

definition md_verdict :: "json dict option \<Rightarrow> json \<Rightarrow> exn + (string \<times> json)" where
  "md_verdict md status = (case md of
      None \<Rightarrow> Inr ([], status)
    | Some m \<Rightarrow> and_then (text_of (jget m ''state'')) (\<lambda>state.
        let level = or_else (jget m ''level'') (JStr ''md'')
        in Inr (state, if state = [] then level else JStr (py_str level @ '' '' @ lower state))))"

definition array_of :: "(json \<times> json dict) list \<Rightarrow> json dict \<Rightarrow> exn + json dict option" where
  "array_of by_dev fs =
     (let dev = or_else (jget fs ''canonicaldevicefile'') (jget fs ''parentdevicefile'')
      in if \<not> hashable dev then Inl TypeError
         else Inr (case map_of by_dev dev of None \<Rightarrow> None | Some m \<Rightarrow> if m = [] then None else Some m))"

definition md_lines :: "json \<Rightarrow> json dict option \<Rightarrow> string \<Rightarrow> string list" where
  "md_lines name md state = (case md of
      Some m \<Rightarrow> if md_bad state then [py_str name @ '' ('' @ py_str (jget m ''devicefile'') @ ''): RAID state '' @ py_str (jget m ''state'')] else []
    | None \<Rightarrow> [])"

text \<open>One turn of the loop over the file systems, with the alerts so far.\<close>

type_synonym omv_acc = "(rat \<times> rat) list \<times> pool list \<times> string list"

definition omv_filesystem :: "(json \<times> json dict) list \<Rightarrow> omv_acc \<Rightarrow> json dict \<Rightarrow> exn + omv_acc" where
  "omv_filesystem by_dev acc fs = (case acc of (sizes, pools, alerts) \<Rightarrow>
     and_then (num_or_0 (jget fs ''size'')) (\<lambda>capacity.
       and_then (num_or_0 (jget fs ''available'')) (\<lambda>avail.
         and_then (array_of by_dev fs) (\<lambda>md.
           and_then (md_verdict md (or_else (jget fs ''type'') (JStr ''filesystem''))) (\<lambda>(state, status).
             let name = or_else (or_else (jget fs ''label'') (jget fs ''devicename'')) (JStr ''filesystem'');
                 used = max 0 (capacity - avail); ok = (fs_up fs \<and> \<not> md_bad state); alerts1 = alerts @ md_lines name md state
             in and_then (if ok then Inr True else named_in name alerts1) (\<lambda>said.
               Inr (sizes @ [(capacity, used)], pools @ [pool_of name status ok capacity used],
                 if said then alerts1
                 else alerts1 @ [py_str name @ '': not healthy (status '' @ py_str (jget fs ''status'') @ '', mounted '' @
                   py_str (jget fs ''mounted'') @ '')'']))))))
     )"

text \<open>Arrays in trouble that no alert names yet, then the monitored disks.\<close>

definition omv_array :: "string list \<Rightarrow> json dict \<Rightarrow> exn + string list" where
  "omv_array alerts r =
     and_then (text_of (jget r ''state'')) (\<lambda>state.
       let dev = py_str (jget r ''devicefile'')
       in Inr (if md_bad state \<and> \<not> (\<exists>a\<in>set alerts. contains dev a)
            then alerts @ [dev @ '': RAID state '' @ py_str (jget r ''state'')] else alerts))"

definition omv_disk :: "json dict \<Rightarrow> string list" where
  "omv_disk d =
     (if truthy (jget d ''monitor'') \<and> or_else (jget d ''overallstatus'') (JStr ''GOOD'') \<noteq> JStr ''GOOD''
      then [''disk '' @ py_str (jget d ''devicename'') @ '' ('' @ py_str (or_else (jget d ''model'') (JStr ''?'')) @ ''): SMART '' @
        py_str (jget d ''overallstatus'')]
      else [])"

definition omv_metrics :: "json \<Rightarrow> json \<Rightarrow> json \<Rightarrow> json \<Rightarrow> json \<Rightarrow> exn + nas_report" where
  "omv_metrics info0 filesystems raids0 smart0 services =
     and_then (dicts_of raids0) (\<lambda>raids.
       and_then (fold_each put_array [] raids) (\<lambda>by_dev.
         and_then (dicts_of filesystems) (\<lambda>fss.
           and_then (fold_each (omv_filesystem by_dev) ([], [], []) fss) (\<lambda>(sizes, pools, alerts1).
             and_then (fold_each omv_array alerts1 raids) (\<lambda>alerts2.
               and_then (dicts_of smart0) (\<lambda>smart.
                 and_then (dict_or_empty info0) (\<lambda>info.
                   and_then (num_or_0 (jget info ''memTotal'')) (\<lambda>mem_total.
                     and_then (num_or_0 (jget info ''memUsed'')) (\<lambda>mem_used.
                       and_then (text_of (jget info ''version'')) (\<lambda>version.
                         and_then (num_or_0 (jget info ''uptime'')) (\<lambda>up.
                           and_then (pct_of (jget info ''cpuUtilization'')) (\<lambda>cpu.
                             and_then (omv_services services) (\<lambda>svcs.
                               let capacity = sum_list (map fst sizes); used = sum_list (map snd sizes);
                                   r = nas_totals cpu (if mem_total = 0 then None else Some (round_to 1 (mem_used / mem_total * 100)))
                                     capacity used pools (length smart) (alerts2 @ concat (map omv_disk smart)) svcs
                               in Inr (r\<lparr>nr_hostname := jget info ''hostname'', nr_model := jget info ''cpuModelName'',
                                    nr_version := (case split_ws version of [] \<Rightarrow> JNull | w # ws \<Rightarrow> JStr (''OMV '' @ w)),
                                    nr_uptime := (if py_trunc up = 0 then JNull else JInt (py_trunc up)),
                                    nr_mem_total_gb := (if mem_total = 0 then None else Some (round_to 1 (mem_total / GB))),
                                    nr_mem_used_gb := (if mem_total = 0 then None else Some (round_to 1 (mem_used / GB)))\<rparr>))))))))))))))"

section \<open>ZimaOS\<close>

definition put_raid :: "(json \<times> json dict) list \<Rightarrow> json \<Rightarrow> exn + (json \<times> json dict) list" where
  "put_raid by_name r = (case r of
      JObj d \<Rightarrow> if hashable (jget d ''name'') then Inr (AList.update (jget d ''name'') d by_name) else Inl TypeError
    | _ \<Rightarrow> Inr by_name)"

definition member_line :: "json \<Rightarrow> json dict \<Rightarrow> string list" where
  "member_line name dev =
     (if truthy (jget dev ''faulty'') \<or> truthy (jget dev ''missing'') \<or> jget dev ''health'' = JBool False
      then [py_str name @ '' member '' @ py_str (jget dev ''path'') @ '': '' @
        (if truthy (jget dev ''missing'') then ''missing'' else if truthy (jget dev ''faulty'') then ''faulty'' else ''unhealthy'')]
      else [])"

text \<open>The array of a storage: whether it is in trouble, the status it shows, and its lines.\<close>

definition raid_verdict :: "json \<Rightarrow> json \<Rightarrow> json dict \<Rightarrow> exn + bool \<times> json \<times> string list" where
  "raid_verdict name status raid =
     and_then (text_of (jget raid ''raid_status'')) (\<lambda>rst.
       and_then (dicts_of (jget raid ''devices'')) (\<lambda>devs.
         let bad = (rst \<noteq> [] \<and> lower rst \<noteq> ''ok''); short = truthy (jget raid ''shortage'')
         in Inr (bad \<or> short, if bad then JStr (py_str status @ '' ('' @ lower rst @ '')'') else status,
              (if bad then [py_str name @ '': RAID status '' @ py_str (jget raid ''raid_status'')] else []) @
              (if short then [py_str name @ '': RAID is missing a member disk''] else []) @
              concat (map (member_line name) devs))))"

definition zimaos_storage :: "(json \<times> json dict) list \<Rightarrow> json dict \<Rightarrow> exn + (int \<times> int) \<times> pool \<times> string list" where
  "zimaos_storage by_name st =
     and_then (dict_or_empty (jget st ''extensions'')) (\<lambda>ext.
       let name = or_else (or_else (jget st ''name'') (jget st ''path'')) (JStr ''storage'');
           well = (has_key ext ''health'' \<longrightarrow> truthy (jget ext ''health''));
           status = or_else (jget st ''type'') (JStr ''storage'')
       in if \<not> hashable name then Inl TypeError
          else and_then (case map_of by_name name of
              None \<Rightarrow> Inr (False, status, if well then [] else [py_str name @ '': unhealthy''])
            | Some raid \<Rightarrow> if raid = [] then Inr (False, status, if well then [] else [py_str name @ '': unhealthy''])
                else raid_verdict name status raid) (\<lambda>(bad, status', lines).
            and_then (int_of (jget ext ''size'')) (\<lambda>capacity.
              and_then (int_of (jget ext ''used'')) (\<lambda>used.
                Inr ((capacity, used), pool_of name status' (well \<and> \<not> bad) (of_int capacity) (of_int used), lines)))))"

definition zimaos_disk :: "json dict \<Rightarrow> string list" where
  "zimaos_disk d =
     (if jget d ''health'' = JBool False
      then [''disk '' @ py_str (or_else (jget d ''path'') (jget d ''name'')) @ '': unhealthy ('' @ py_str (or_else (jget d ''model'') (JStr ''?'')) @ '')'']
      else [])"

definition zimaos_metrics :: "json \<Rightarrow> json \<Rightarrow> json \<Rightarrow> json \<Rightarrow> exn + nas_report" where
  "zimaos_metrics util0 storages0 raids0 disks0 =
     and_then (items_of raids0) (\<lambda>raids.
       and_then (fold_each put_raid [] raids) (\<lambda>by_name.
         and_then (dicts_of storages0) (\<lambda>storages.
           and_then (each (zimaos_storage by_name) storages) (\<lambda>sts.
             and_then (dicts_of disks0) (\<lambda>disks.
               and_then (dict_or_empty util0) (\<lambda>util.
                 and_then (dict_or_empty (jget util ''cpu'')) (\<lambda>cpu.
                   and_then (dict_or_empty (jget util ''mem'')) (\<lambda>mem.
                     and_then (int_of (jget mem ''total'')) (\<lambda>mem_total.
                       and_then (int_of (jget mem ''used'')) (\<lambda>mem_used.
                         and_then (pct_of (jget cpu ''percent'')) (\<lambda>cpu_pct.
                           and_then (pct_of (jget mem ''usedPercent'')) (\<lambda>mem_pct.
                             let capacity = sum_list (map (fst \<circ> fst) sts); used = sum_list (map (snd \<circ> fst) sts);
                                 alerts = concat (map (snd \<circ> snd) sts) @ concat (map zimaos_disk disks)
                             in Inr (with_memory mem_total (Some (of_int mem_used))
                                  (nas_totals cpu_pct mem_pct (of_int capacity) (of_int used) (map (fst \<circ> snd) sts) (length disks) alerts []))))))))))))))"

section \<open>Unraid\<close>

text \<open>\<open>str.upper\<close> on the letters of Latin-1 that have an upper case there.\<close>

definition upper_char :: "char \<Rightarrow> char" where
  "upper_char c = (let n = (of_char c :: nat)
     in if (97 \<le> n \<and> n \<le> 122) \<or> (224 \<le> n \<and> n \<le> 254 \<and> n \<noteq> 247) then char_of (n - 32) else c)"

definition upper :: "string \<Rightarrow> string" where
  "upper s = map upper_char s"

text \<open>\<open>_kb\<close>: a count of kilobytes as bytes.\<close>

definition kb_bytes :: "json \<Rightarrow> exn + int" where
  "kb_bytes v = (case py_float v of
      Inl e \<Rightarrow> if e = TypeError \<or> e = ValueError then Inr 0 else Inl e
    | Inr (Fin r) \<Rightarrow> Inr (py_trunc r * 1024)
    | Inr NaN \<Rightarrow> Inr 0
    | Inr x \<Rightarrow> Inl OverflowError)"

definition disk_ok :: "json dict \<Rightarrow> bool" where
  "disk_ok d = (or_else (jget d ''status'') (JStr ''DISK_OK'') = JStr ''DISK_OK'')"

text \<open>The parity array as one pool, when it has a capacity.\<close>

definition array_pool :: "string \<Rightarrow> json dict list \<Rightarrow> int \<Rightarrow> int \<Rightarrow> pool" where
  "array_pool state ds capacity used =
     (let ok = (state = ''STARTED'' \<and> list_all disk_ok ds)
      in pool_of (JStr ''array'') (JStr (if state \<noteq> ''STARTED'' then state else if ok then ''STARTED'' else ''DEGRADED'')) ok
           (of_int capacity) (of_int used))"

definition cache_pool :: "json dict \<Rightarrow> exn + ((int \<times> int) \<times> pool) list" where
  "cache_pool c =
     (if jget c ''fsSize'' = JNull then Inr []
      else and_then (kb_bytes (jget c ''fsSize'')) (\<lambda>capacity.
        and_then (kb_bytes (jget c ''fsUsed'')) (\<lambda>used.
          Inr [((capacity, used), pool_of (or_else (jget c ''name'') (JStr ''pool'')) (jget c ''status'') (disk_ok c)
            (of_int capacity) (of_int used))])))"

definition unraid_disk :: "json dict \<Rightarrow> string list" where
  "unraid_disk d = (if disk_ok d then [] else
     [py_str (or_else (jget d ''name'') (JStr ''disk'')) @ '': '' @ py_str (jget d ''status'')])"

definition unread_lines :: "json dict \<Rightarrow> string list" where
  "unread_lines unread =
     (if truthy (jget unread ''alert'') then [py_str (jget unread ''alert'') @ '' unread ALERT notification(s) in Unraid''] else []) @
     (if truthy (jget unread ''warning'') then [py_str (jget unread ''warning'') @ '' unread warning notification(s) in Unraid''] else [])"

definition unraid_services :: "json dict \<Rightarrow> service_st dict" where
  "unraid_services vars = concat (map (\<lambda>(flag, key). if truthy (jget vars flag) then [(key, service_row True True)] else [])
     [(''shareSmbEnabled'', ''smb''), (''shareNfsEnabled'', ''nfs''), (''useSsh'', ''ssh'')])"

text \<open>The disks of the array, of the parity and of the pools; they are joined as lists.\<close>

definition list_of :: "json \<Rightarrow> exn + json dict list" where
  "list_of v = (if \<not> truthy v then Inr [] else case v of JArr vs \<Rightarrow> all_dicts vs | _ \<Rightarrow> Inl TypeError)"

definition unraid_storage :: "json dict \<Rightarrow> json dict \<Rightarrow> exn + ((int \<times> int) \<times> pool) list \<times> string list \<times> nat" where
  "unraid_storage arr unread =
     and_then (text_of (jget arr ''state'')) (\<lambda>state0.
       and_then (and_then (dict_get (jget arr ''capacity'') ''kilobytes'') dict_or_empty) (\<lambda>cap.
         and_then (kb_bytes (jget cap ''total'')) (\<lambda>cap_total.
           and_then (kb_bytes (jget cap ''used'')) (\<lambda>cap_used.
             and_then (list_of (jget arr ''disks'')) (\<lambda>disks.
               and_then (list_of (jget arr ''parities'')) (\<lambda>parities.
                 and_then (list_of (jget arr ''caches'')) (\<lambda>caches.
                   and_then (each cache_pool caches) (\<lambda>cps.
                     let state = upper state0
                     in Inr ((if cap_total \<noteq> 0 then [((cap_total, cap_used), array_pool state (disks @ parities) cap_total cap_used)] else []) @
                          concat cps,
                          (if cap_total = 0 \<and> state \<noteq> [] \<and> state \<noteq> ''STARTED'' then [''array state: '' @ state] else []) @
                          concat (map unraid_disk (disks @ parities @ caches)) @ unread_lines unread,
                          length (disks @ parities @ caches))))))))))"

text \<open>The CPU percentage, the memory percentage, and the memory in bytes.\<close>

definition unraid_load :: "json dict \<Rightarrow> exn + rat option \<times> rat option \<times> int \<times> int" where
  "unraid_load metrics =
     and_then (dict_get (jget metrics ''cpu'') ''percentTotal'') (\<lambda>cpu.
       and_then (dict_or_empty (jget metrics ''memory'')) (\<lambda>mem.
         and_then (int_of (jget mem ''total'')) (\<lambda>mem_total.
           and_then (int_of (jget mem ''used'')) (\<lambda>mem_used.
             and_then (pct_of cpu) (\<lambda>cpu_pct.
               and_then (pct_of (jget mem ''percentTotal'')) (\<lambda>mem_pct. Inr (cpu_pct, mem_pct, mem_total, mem_used)))))))"

definition unraid_metrics :: "json \<Rightarrow> exn + nas_report" where
  "unraid_metrics data =
     and_then (dict_or_empty data) (\<lambda>d.
       and_then (and_then (dict_get (jget d ''info'') ''os'') dict_or_empty) (\<lambda>info.
         and_then (dict_or_empty (jget d ''metrics'')) (\<lambda>metrics.
           and_then (dict_or_empty (jget d ''array'')) (\<lambda>arr.
             and_then (and_then (dict_get (jget d ''notifications'') ''overview'') (\<lambda>v. dict_get v ''unread'')) (\<lambda>u.
               and_then (dict_or_empty u) (\<lambda>unread.
                 and_then (unraid_storage arr unread) (\<lambda>(entries, alerts, disks).
                   and_then (dict_or_empty (jget d ''vars'')) (\<lambda>vars.
                     and_then (text_of (jget info ''release'')) (\<lambda>release.
                       and_then (unraid_load metrics) (\<lambda>(cpu_pct, mem_pct, mem_total, mem_used).
                         let r = with_memory mem_total (Some (of_int mem_used)) (nas_totals cpu_pct mem_pct
                               (of_int (sum_list (map (fst \<circ> fst) entries))) (of_int (sum_list (map (snd \<circ> fst) entries)))
                               (map snd entries) disks alerts (unraid_services vars))
                         in Inr (r\<lparr>nr_hostname := jget info ''hostname'', nr_model := jget info ''distro'',
                              nr_version := (case split_ws release of [] \<Rightarrow> JNull | w # ws \<Rightarrow> JStr (''Unraid '' @ w))\<rparr>)))))))))))"

section \<open>Ugreen\<close>

definition OK_WORDS :: "string list" where
  "OK_WORDS = [''normal'', ''ok'', ''good'', ''healthy'', ''online'']"

definition ok_status :: "int list \<Rightarrow> json \<Rightarrow> exn + bool" where
  "ok_status ok_ints v =
     (if v = JNull \<or> v = JStr [] then Inr True
      else case v of
          JBool b \<Rightarrow> Inr b
        | JInt i \<Rightarrow> Inr (i \<in> set ok_ints)
        | JFloat x t \<Rightarrow> and_then (py_int v) (\<lambda>i. Inr (i \<in> set ok_ints))
        | _ \<Rightarrow> Inr (lower (strip (py_str v)) \<in> set OK_WORDS))"

definition vol_ok :: "json \<Rightarrow> exn + bool" where
  "vol_ok v = ok_status [0, 1] v"

text \<open>A volume of a pool: nothing when it is well, one line when it is not.\<close>

definition volume_line :: "json \<Rightarrow> json dict \<Rightarrow> exn + string list" where
  "volume_line pname v =
     and_then (vol_ok (jget v ''health'')) (\<lambda>h.
       and_then (if h then vol_ok (jget v ''status'') else Inr False) (\<lambda>ok.
         let vname = or_else (or_else (jget v ''label'') (jget v ''name'')) (JStr ''volume'')
         in Inr (if ok then [] else [py_str pname @ ''/'' @ py_str vname @ '': health '' @ py_str (jget v ''health'') @ ''/status '' @
              py_str (jget v ''status'')])))"

definition sum_nums :: "string \<Rightarrow> json dict list \<Rightarrow> exn + rat" where
  "sum_nums k ds = and_then (each (\<lambda>d. num_or_0 (jget d k)) ds) (\<lambda>xs. Inr (sum_list xs))"

definition ugreen_pool :: "json dict \<Rightarrow> exn + (rat \<times> rat) \<times> pool \<times> string list" where
  "ugreen_pool p =
     and_then (ok_status [1] (jget p ''status'')) (\<lambda>ok.
       and_then (dicts_of (jget p ''volumes'')) (\<lambda>vols.
         let name = or_else (or_else (jget p ''label'') (jget p ''name'')) (JStr ''pool'');
             level0 = strip (if truthy (jget p ''level'') then py_str (jget p ''level'') else []);
             level = (if level0 = [] then ''pool'' else level0);
             status = (if ok then level else level @ '' (status '' @ py_str (jget p ''status'') @ '')'')
         in and_then (each (volume_line name) vols) (\<lambda>vol_lines.
           and_then (if vols \<noteq> [] then sum_nums ''total'' vols else num_or_0 (jget p ''total'')) (\<lambda>capacity.
             and_then (if vols \<noteq> [] then sum_nums ''used'' vols else Inr 0) (\<lambda>used.
               let well = (ok \<and> concat vol_lines = [])
               in Inr ((capacity, used), pool_of name (JStr status) well capacity used,
                    (if ok then [] else [py_str name @ '': status '' @ py_str (jget p ''status'')]) @ concat vol_lines))))))"

definition ugreen_disk :: "json dict \<Rightarrow> exn + string list" where
  "ugreen_disk d =
     and_then (ok_status [1] (jget d ''status'')) (\<lambda>ok. Inr (if ok then [] else
       [''disk '' @ py_str (or_else (jget d ''label'') (jget d ''name'')) @ '': status '' @ py_str (jget d ''status'') @ '' ('' @
        py_str (or_else (jget d ''model'') (JStr ''?'')) @ '')'']))"

text \<open>\<open>(v or [{}])[0]\<close>, read with \<open>get\<close>.\<close>

definition first_of :: "json \<Rightarrow> exn + json dict" where
  "first_of v = (if \<not> truthy v then Inr []
     else case v of JArr (x # xs) \<Rightarrow> as_dict x | JObj d \<Rightarrow> Inl KeyError | JStr s \<Rightarrow> Inl AttributeError | _ \<Rightarrow> Inl TypeError)"

definition ugreen_metrics :: "json \<Rightarrow> json \<Rightarrow> json \<Rightarrow> json \<Rightarrow> exn + nas_report" where
  "ugreen_metrics info0 stat pools disks =
     and_then (dict_or_empty info0) (\<lambda>info.
       and_then (dict_or_empty (jget info ''common'')) (\<lambda>common.
         and_then (dict_or_empty (jget info ''hardware'')) (\<lambda>hardware.
           and_then (and_then (dict_get stat ''overview'') dict_or_empty) (\<lambda>overview.
             and_then (and_then (dict_get pools ''result'') dicts_of) (\<lambda>pool_res.
               and_then (and_then (dict_get disks ''result'') dicts_of) (\<lambda>disk_res.
                 and_then (each ugreen_pool pool_res) (\<lambda>ps.
                   and_then (each ugreen_disk disk_res) (\<lambda>disk_lines.
                     and_then (first_of (jget overview ''cpu'')) (\<lambda>cpu.
                       and_then (first_of (jget overview ''mem'')) (\<lambda>mem.
                         and_then (and_then (dicts_of (jget hardware ''mem'')) (sum_ints ''size'')) (\<lambda>mem_total.
                           and_then (pct_of (jget cpu ''used_percent'')) (\<lambda>cpu_pct.
                             and_then (if jget mem ''used_percent'' = JNull then Inr None
                                 else and_then (float_num (jget mem ''used_percent'')) (\<lambda>x. Inr (Some x))) (\<lambda>mem_raw.
      let capacity = sum_list (map (fst \<circ> fst) ps); used = sum_list (map (snd \<circ> fst) ps);
          r = with_memory mem_total (map_option (\<lambda>p. of_int mem_total * p / 100) mem_raw)
            (nas_totals cpu_pct (map_option (round_to 1) mem_raw) capacity used (map (fst \<circ> snd) ps) (length disk_res)
              (concat (map (snd \<circ> snd) ps) @ concat disk_lines) [])
      in Inr (r\<lparr>nr_hostname := jget common ''nas_name'', nr_version := jget common ''system_version'', nr_model := jget common ''model'',
           nr_uptime := jget common ''run_time''\<rparr>))))))))))))))"

end
