(* ===== verification/ApplianceFacts.thy ===== *)
theory ApplianceFacts
  imports Appliances ConditionFacts
begin

text \<open>
  A sick pool cannot hide: for every storage appliance the condition a host is reported with counts
  exactly the volumes whose payload says they are not well.
\<close>

section \<open>From the report to the condition\<close>

lemma nas_pool_condition:
  "map_of (host_conditions now (build_nas_envelope n (nas_metrics.truncate r))) ''pool_degraded'' =
   (if nm_pools_degraded r = 0 then None
    else Some \<lparr>c_sev = Critical, c_detail = show_int (nm_pools_degraded r) @ '' pool(s) degraded''\<rparr>)"
  by (simp add: host_conditions_def up_lookup_pool build_nas_envelope_def base_envelope_def summary_of_def nas_of_def no_summary_def
      nas_metrics.truncate_def)

lemma nas_totals_degraded [simp]: "nm_pools_degraded (nas_totals c m k u ps d al sv) = sick_pools ps"
  by (simp add: nas_totals_def)

lemma with_memory_degraded [simp]: "nm_pools_degraded (with_memory k u r) = nm_pools_degraded r"
  by (simp add: with_memory_def)

lemma pool_of_healthy [simp]: "pl_healthy (pool_of name status ok k u) = ok"
  by (simp add: pool_of_def)

lemma each_count:
  assumes "each f xs = Inr ys" and "\<And>x y. f x = Inr y \<Longrightarrow> bad (g y) = sick x"
  shows "length (filter bad (map g ys)) = length (filter sick xs)"
  using assms by (induction xs arbitrary: ys) (auto simp: and_then_Inr)

definition sick_alarm :: "nat \<Rightarrow> cond option" where
  "sick_alarm k = (if k = 0 then None else Some \<lparr>c_sev = Critical, c_detail = show_int (int k) @ '' pool(s) degraded''\<rparr>)"

lemma alarm_of_count:
  "nm_pools_degraded r = int k \<Longrightarrow>
   map_of (host_conditions now (build_nas_envelope n (nas_metrics.truncate r))) ''pool_degraded'' = sick_alarm k"
  by (simp add: nas_pool_condition sick_alarm_def)

section \<open>Each appliance\<close>

lemma and_then_InrE: "and_then r f = Inr y \<Longrightarrow> (\<And>x. r = Inr x \<Longrightarrow> f x = Inr y \<Longrightarrow> P) \<Longrightarrow> P"
  by (auto simp: and_then_Inr)

lemma dict_or_empty_JObj: "dict_or_empty (JObj d) = Inr d"
  by (simp add: dict_or_empty_def as_dict_def)

definition synology_sick :: "json dict \<Rightarrow> bool" where
  "synology_sick v = (\<not> (\<exists>s. jget v ''status'' = JStr s \<and> lower s = ''normal''))"

lemma text_of_cases: "text_of v = Inr s \<longleftrightarrow> (if truthy v then v = JStr s else s = [])"
  by (auto simp: text_of_def split: json.splits)

lemma synology_count:
  assumes "synology_metrics info util (JObj sd) services = Inr r" and "dicts_of (jget sd ''volumes'') = Inr volumes"
  shows "nm_pools_degraded r = int (length (filter synology_sick volumes))"
proof -
  obtain vs where vs: "each synology_volume volumes = Inr vs" and r: "nm_pools_degraded r = sick_pools (map (fst \<circ> snd) vs)"
    using assms unfolding synology_metrics_def Let_def by (elim and_then_InrE) (clarsimp simp: dict_or_empty_JObj)
  have "length (filter (\<lambda>p. \<not> pl_healthy p) (map (fst \<circ> snd) vs)) = length (filter synology_sick volumes)"
    using vs by (rule each_count)
      (auto simp: synology_volume_def and_then_Inr Let_def synology_sick_def text_of_cases lower_def split: if_splits)
  then show ?thesis using r by (simp add: sick_pools_def)
qed

lemma truenas_count:
  assumes "truenas_metrics info pools disks alerts cg mg services = Inr r" and "dicts_of pools = Inr ps"
  shows "nm_pools_degraded r = int (length (filter (\<lambda>p. \<not> truthy (jget p ''healthy'')) ps))"
proof -
  obtain vs where vs: "each truenas_pool ps = Inr vs" and r: "nm_pools_degraded r = sick_pools (map snd vs)"
    using assms by (auto simp: truenas_metrics_def and_then_Inr Let_def)
  have "length (filter (\<lambda>p. \<not> pl_healthy p) (map snd vs)) = length (filter (\<lambda>p. \<not> truthy (jget p ''healthy'')) ps)"
    using vs by (rule each_count) (auto simp: truenas_pool_def and_then_Inr)
  then show ?thesis using r by (simp add: sick_pools_def)
qed

definition ugreen_sick :: "json dict \<Rightarrow> bool" where
  "ugreen_sick p = (ok_status [1] (jget p ''status'') \<noteq> Inr True \<or>
     (\<exists>vols. dicts_of (jget p ''volumes'') = Inr vols \<and>
       (\<exists>v\<in>set vols. vol_ok (jget v ''health'') \<noteq> Inr True \<or> vol_ok (jget v ''status'') \<noteq> Inr True)))"

lemma volume_line_well: "volume_line nm v = Inr l \<Longrightarrow> (l = []) = (vol_ok (jget v ''health'') = Inr True \<and> vol_ok (jget v ''status'') = Inr True)"
  by (auto simp: volume_line_def and_then_Inr Let_def split: if_splits)

lemma volume_lines_well:
  "each (volume_line nm) vs = Inr ls \<Longrightarrow>
   (concat ls = []) = (\<forall>v\<in>set vs. vol_ok (jget v ''health'') = Inr True \<and> vol_ok (jget v ''status'') = Inr True)"
  by (induction vs arbitrary: ls) (auto simp: and_then_Inr volume_line_well)

lemma ugreen_count:
  assumes "ugreen_metrics info stat pools disks = Inr r" and "and_then (dict_get pools ''result'') dicts_of = Inr ps"
  shows "nm_pools_degraded r = int (length (filter ugreen_sick ps))"
proof -
  obtain vs where vs: "each ugreen_pool ps = Inr vs" and r: "nm_pools_degraded r = sick_pools (map (fst \<circ> snd) vs)"
    using assms by (auto simp: ugreen_metrics_def and_then_Inr Let_def)
  have "(\<not> pl_healthy ((fst \<circ> snd) y)) = ugreen_sick x" if y: "ugreen_pool x = Inr y" for x y
  proof -
    obtain ok vols ls where "ok_status [1] (jget x ''status'') = Inr ok" "dicts_of (jget x ''volumes'') = Inr vols"
      "each (volume_line (or_else (or_else (jget x ''label'') (jget x ''name'')) (JStr ''pool''))) vols = Inr ls"
      "pl_healthy (fst (snd y)) = (ok \<and> concat ls = [])"
      using y by (auto simp: ugreen_pool_def and_then_Inr Let_def simp del: concat_eq_Nil_conv)
    then show ?thesis using volume_lines_well by (auto simp: ugreen_sick_def simp del: concat_eq_Nil_conv)
  qed
  then have "length (filter (\<lambda>p. \<not> pl_healthy p) (map (fst \<circ> snd) vs)) = length (filter ugreen_sick ps)"
    by (intro each_count [OF vs]) blast
  then show ?thesis using r by (simp add: sick_pools_def)
qed

definition omv_sick :: "(json \<times> json dict) list \<Rightarrow> json dict \<Rightarrow> bool" where
  "omv_sick by_dev fs = (\<not> fs_up fs \<or> (\<exists>m s. array_of by_dev fs = Inr (Some m) \<and> jget m ''state'' = JStr s \<and> md_bad s))"

lemma omv_fold:
  assumes "fold_each (omv_filesystem by_dev) (sizes, pools, alerts) fss = Inr (sizes', pools', alerts')"
  shows "sick_pools pools' = sick_pools pools + int (length (filter (omv_sick by_dev) fss))"
  using assms
proof (induction fss arbitrary: sizes pools alerts)
  case (Cons fs fss)
  then obtain s1 p1 a1 where step: "omv_filesystem by_dev (sizes, pools, alerts) fs = Inr (s1, p1, a1)"
    and rest: "fold_each (omv_filesystem by_dev) (s1, p1, a1) fss = Inr (sizes', pools', alerts')"
    by (auto simp: and_then_Inr)
  obtain md state status p where md: "array_of by_dev fs = Inr md"
    and v: "md_verdict md (or_else (jget fs ''type'') (JStr ''filesystem'')) = Inr (state, status)"
    and p1: "p1 = pools @ [p]" "pl_healthy p = (fs_up fs \<and> \<not> md_bad state)"
    using step by (auto simp: omv_filesystem_def and_then_Inr Let_def split del: if_split)
  have "md_bad state = (\<exists>m s. md = Some m \<and> jget m ''state'' = JStr s \<and> md_bad s)"
    using v by (cases md) (auto simp: md_verdict_def and_then_Inr text_of_cases Let_def md_bad_def split: if_splits)
  then have "sick_pools p1 = sick_pools pools + (if omv_sick by_dev fs then 1 else 0)"
    using p1 md by (auto simp: sick_pools_def omv_sick_def)
  then show ?case using Cons.IH [OF rest] by simp
qed simp

lemma omv_count:
  assumes "omv_metrics info filesystems raids smart services = Inr r"
    and "and_then (dicts_of raids) (fold_each put_array []) = Inr by_dev" and "dicts_of filesystems = Inr fss"
  shows "nm_pools_degraded r = int (length (filter (omv_sick by_dev) fss))"
proof -
  obtain sizes pools alerts where "fold_each (omv_filesystem by_dev) ([], [], []) fss = Inr (sizes, pools, alerts)"
    and "nm_pools_degraded r = sick_pools pools"
    using assms by (auto simp: omv_metrics_def and_then_Inr Let_def)
  then show ?thesis using omv_fold by (fastforce simp: sick_pools_def)
qed

definition zimaos_sick :: "(json \<times> json dict) list \<Rightarrow> json dict \<Rightarrow> bool" where
  "zimaos_sick by_name st =
     ((\<exists>ext. dict_or_empty (jget st ''extensions'') = Inr ext \<and> has_key ext ''health'' \<and> \<not> truthy (jget ext ''health'')) \<or>
      (\<exists>raid. map_of by_name (or_else (or_else (jget st ''name'') (jget st ''path'')) (JStr ''storage'')) = Some raid \<and> raid \<noteq> [] \<and>
        (truthy (jget raid ''shortage'') \<or> (\<exists>s. jget raid ''raid_status'' = JStr s \<and> s \<noteq> [] \<and> lower s \<noteq> ''ok''))))"

lemma raid_verdict_bad:
  "raid_verdict name status raid = Inr (bad, x) \<Longrightarrow>
   bad = (truthy (jget raid ''shortage'') \<or> (\<exists>s. jget raid ''raid_status'' = JStr s \<and> s \<noteq> [] \<and> lower s \<noteq> ''ok''))"
  by (auto simp: raid_verdict_def and_then_Inr text_of_cases Let_def split: if_splits)

lemma zimaos_storage_well:
  assumes "zimaos_storage by_name st = Inr y"
  shows "(\<not> pl_healthy (fst (snd y))) = zimaos_sick by_name st"
proof -
  let ?name = "or_else (or_else (jget st ''name'') (jget st ''path'')) (JStr ''storage'')"
  obtain ext bad status lines where ext: "dict_or_empty (jget st ''extensions'') = Inr ext"
    and h: "pl_healthy (fst (snd y)) = ((has_key ext ''health'' \<longrightarrow> truthy (jget ext ''health'')) \<and> \<not> bad)"
    and c: "(case map_of by_name ?name of None \<Rightarrow> bad = False
      | Some raid \<Rightarrow> if raid = [] then bad = False else raid_verdict ?name (or_else (jget st ''type'') (JStr ''storage'')) raid = Inr (bad, status, lines))"
    using assms by (auto simp: zimaos_storage_def and_then_Inr Let_def split: if_splits option.splits)
  show ?thesis
  proof (cases "map_of by_name ?name")
    case None
    then show ?thesis using h ext c by (auto simp: zimaos_sick_def)
  next
    case (Some raid)
    show ?thesis
    proof (cases "raid = []")
      case False
      then have "raid_verdict ?name (or_else (jget st ''type'') (JStr ''storage'')) raid = Inr (bad, status, lines)" using c Some by simp
      note bad = raid_verdict_bad [OF this]
      show ?thesis using h ext Some False unfolding zimaos_sick_def bad by auto
    qed (use h ext c Some in \<open>auto simp: zimaos_sick_def\<close>)
  qed
qed

lemma zimaos_count:
  assumes "zimaos_metrics util storages raids disks = Inr r"
    and "and_then (items_of raids) (fold_each put_raid []) = Inr by_name" and "dicts_of storages = Inr sts"
  shows "nm_pools_degraded r = int (length (filter (zimaos_sick by_name) sts))"
proof -
  obtain vs where vs: "each (zimaos_storage by_name) sts = Inr vs" and r: "nm_pools_degraded r = sick_pools (map (fst \<circ> snd) vs)"
    using assms unfolding zimaos_metrics_def Let_def by (elim and_then_InrE) clarsimp
  have "length (filter (\<lambda>p. \<not> pl_healthy p) (map (fst \<circ> snd) vs)) = length (filter (zimaos_sick by_name) sts)"
    using vs by (rule each_count) (simp add: zimaos_storage_well)
  then show ?thesis using r by (simp add: sick_pools_def)
qed

text \<open>An Unraid pool counts when it is mounted (its size is known), the array when it has a capacity.\<close>

definition unraid_sick :: "string \<Rightarrow> bool \<Rightarrow> json dict list \<Rightarrow> json dict list \<Rightarrow> nat" where
  "unraid_sick state capacity array caches =
     (if capacity \<and> (upper state \<noteq> ''STARTED'' \<or> (\<exists>d\<in>set array. \<not> disk_ok d)) then 1 else 0) +
     length (filter (\<lambda>c. jget c ''fsSize'' \<noteq> JNull \<and> \<not> disk_ok c) caches)"

lemma cache_pools_sick:
  "each cache_pool cs = Inr ps \<Longrightarrow>
   sick_pools (map snd (concat ps)) = int (length (filter (\<lambda>c. jget c ''fsSize'' \<noteq> JNull \<and> \<not> disk_ok c) cs))"
  by (induction cs arbitrary: ps) (auto simp: and_then_Inr cache_pool_def sick_pools_def split: if_splits)

lemma sick_pools_append: "sick_pools (ps @ qs) = sick_pools ps + sick_pools qs"
  by (simp add: sick_pools_def)

lemma array_pool_healthy: "pl_healthy (array_pool state ds k u) = (state = ''STARTED'' \<and> (\<forall>d\<in>set ds. disk_ok d))"
  by (auto simp: array_pool_def Let_def list_all_iff)

lemma unraid_storage_sick:
  assumes "unraid_storage a unread = Inr (entries, x)" and "text_of (jget a ''state'') = Inr state"
    and "and_then (dict_get (jget a ''capacity'') ''kilobytes'') dict_or_empty = Inr cap" and "kb_bytes (jget cap ''total'') = Inr k"
    and "list_of (jget a ''disks'') = Inr disks" and "list_of (jget a ''parities'') = Inr parities" and "list_of (jget a ''caches'') = Inr caches"
  shows "sick_pools (map snd entries) = int (unraid_sick state (k \<noteq> 0) (disks @ parities) caches)"
proof -
  obtain used cps where cps: "each cache_pool caches = Inr cps"
    and e: "entries = (if k \<noteq> 0 then [((k, used), array_pool (upper state) (disks @ parities) k used)] else []) @ concat cps"
    using assms by (auto simp: unraid_storage_def Let_def and_then_Inr split del: if_split)
  show ?thesis using cache_pools_sick [OF cps]
    by (cases "k = 0") (auto simp: e sick_pools_append unraid_sick_def sick_pools_def array_pool_healthy)
qed

lemma unraid_count:
  assumes "unraid_metrics (JObj d) = Inr r" and "jget d ''array'' = JObj a" and "text_of (jget a ''state'') = Inr state"
    and "and_then (dict_get (jget a ''capacity'') ''kilobytes'') dict_or_empty = Inr cap" and "kb_bytes (jget cap ''total'') = Inr k"
    and "list_of (jget a ''disks'') = Inr disks" and "list_of (jget a ''parities'') = Inr parities" and "list_of (jget a ''caches'') = Inr caches"
  shows "nm_pools_degraded r = int (unraid_sick state (k \<noteq> 0) (disks @ parities) caches)"
proof -
  obtain unread entries x where e: "unraid_storage a unread = Inr (entries, x)" and r: "nm_pools_degraded r = sick_pools (map snd entries)"
    using assms(1,2) by (auto simp: unraid_metrics_def Let_def and_then_Inr dict_or_empty_JObj)
  show ?thesis unfolding r by (rule unraid_storage_sick [OF e assms(3-)])
qed

section \<open>Alarms\<close>

definition pool_alarm :: "int \<Rightarrow> node \<Rightarrow> nas_report \<Rightarrow> cond option" where
  "pool_alarm now n r = map_of (host_conditions now (build_nas_envelope n (nas_metrics.truncate r))) ''pool_degraded''"

text \<open>C37: none of the six storage appliances hides a sick pool: whatever else its answers hold, the host has the critical
  condition exactly when its payload shows a volume that is not well, and the condition says how many. The volumes of
  an Unraid are the array, when it has a capacity, which is well when it is started and its disks are, and the mounted
  pools (a pool that is not mounted has no row; its disks are in the alerts).\<close>

theorem sick_storage_alarms:
  "(truenas_metrics info pools disks alerts cg mg services = Inr r \<and> dicts_of pools = Inr ps \<longrightarrow>
      pool_alarm now n r = sick_alarm (length (filter (\<lambda>p. \<not> truthy (jget p ''healthy'')) ps))) \<and>
   (synology_metrics info util (JObj sd) services = Inr r \<and> dicts_of (jget sd ''volumes'') = Inr volumes \<longrightarrow>
      pool_alarm now n r = sick_alarm (length (filter synology_sick volumes))) \<and>
   (omv_metrics info filesystems raids smart services = Inr r \<and>
    and_then (dicts_of raids) (fold_each put_array []) = Inr by_dev \<and> dicts_of filesystems = Inr fss \<longrightarrow>
      pool_alarm now n r = sick_alarm (length (filter (omv_sick by_dev) fss))) \<and>
   (zimaos_metrics util storages raids disks = Inr r \<and>
    and_then (items_of raids) (fold_each put_raid []) = Inr by_name \<and> dicts_of storages = Inr sts \<longrightarrow>
      pool_alarm now n r = sick_alarm (length (filter (zimaos_sick by_name) sts))) \<and>
   (ugreen_metrics info stat pools disks = Inr r \<and> and_then (dict_get pools ''result'') dicts_of = Inr ps \<longrightarrow>
      pool_alarm now n r = sick_alarm (length (filter ugreen_sick ps))) \<and>
   (unraid_metrics (JObj ud) = Inr r \<and> jget ud ''array'' = JObj a \<and> text_of (jget a ''state'') = Inr state \<and>
    and_then (dict_get (jget a ''capacity'') ''kilobytes'') dict_or_empty = Inr cap \<and> kb_bytes (jget cap ''total'') = Inr k \<and>
    list_of (jget a ''disks'') = Inr ds \<and> list_of (jget a ''parities'') = Inr parities \<and> list_of (jget a ''caches'') = Inr caches \<longrightarrow>
      pool_alarm now n r = sick_alarm (unraid_sick state (k \<noteq> 0) (ds @ parities) caches))"
  unfolding pool_alarm_def
  by (intro conjI impI; elim conjE; rule alarm_of_count)
    (rule truenas_count synology_count omv_count zimaos_count ugreen_count unraid_count; assumption)+

definition demo_volume :: "string \<Rightarrow> json dict" where
  "demo_volume st = [(''id'', JStr ''volume_1''), (''status'', JStr st)]"

definition demo_storage :: "json dict" where
  "demo_storage = [(''volumes'', JArr [JObj (demo_volume ''normal''), JObj (demo_volume ''degraded'')])]"

theorem sick_storage_alarms_witness:
  "\<exists>r. synology_metrics JNull JNull (JObj demo_storage) JNull = Inr r \<and>
    pool_alarm 0 (sample_node ''s'' ''s'') r = Some \<lparr>c_sev = Critical, c_detail = ''1 pool(s) degraded''\<rparr>"
proof -
  have "case synology_metrics JNull JNull (JObj demo_storage) JNull of Inr r \<Rightarrow> True | Inl e \<Rightarrow> False" by code_simp
  then obtain r where r: "synology_metrics JNull JNull (JObj demo_storage) JNull = Inr r" by (auto split: sum.splits)
  have vs: "dicts_of (jget demo_storage ''volumes'') = Inr [demo_volume ''normal'', demo_volume ''degraded'']" by code_simp
  have n: "jget (demo_volume st) ''status'' = JStr st" for st by (simp add: demo_volume_def jget_def)
  have "lower ''normal'' = ''normal''" "lower ''degraded'' \<noteq> ''normal''" by code_simp+
  then have "length (filter synology_sick [demo_volume ''normal'', demo_volume ''degraded'']) = 1" by (simp add: synology_sick_def n)
  moreover have "sick_alarm 1 = Some \<lparr>c_sev = Critical, c_detail = ''1 pool(s) degraded''\<rparr>" by code_simp
  moreover note sick_storage_alarms [where info = JNull and util = JNull and sd = demo_storage and services = JNull and r = r
      and volumes = "[demo_volume ''normal'', demo_volume ''degraded'']" and now = 0 and n = "sample_node ''s'' ''s''", THEN conjunct2, THEN conjunct1]
  ultimately show ?thesis using r vs by metis
qed

end
