(* ===== verification/Sessions.thy ===== *)
theory Sessions
  imports Appliances
begin

text \<open>
  How the collectors of the storage appliances talk to an appliance: \<open>collectors/__init__.py\<close> and the
  requests, logins and cached sessions of \<open>omv.py\<close>, \<open>synology.py\<close>, \<open>ugreen.py\<close>, \<open>unraid.py\<close> and
  \<open>zimaos.py\<close>. The library \<open>requests\<close> and the appliance behind it are a parameter, a \<open>web\<close> over a world
  \<open>'w\<close> that every request changes: opening a session, one request, whether a session holds a cookie.
  SHA-256 and the RSA encryption are parameters too. A dash in a message is a hyphen.
\<close>

section \<open>Actions\<close>

text \<open>The collector's own error, the \<open>PermissionError\<close> of a lost session with its code, any other.\<close>

datatype api_fail = Refused string | Denied string json | Threw exn

type_synonym ('w, 'a) act = "'w \<Rightarrow> (api_fail + 'a) \<times> 'w"

definition give :: "'a \<Rightarrow> ('w, 'a) act" where
  "give x = (\<lambda>w. (Inr x, w))"

definition give_up :: "api_fail \<Rightarrow> ('w, 'a) act" where
  "give_up f = (\<lambda>w. (Inl f, w))"

definition then_do :: "('w, 'a) act \<Rightarrow> ('a \<Rightarrow> ('w, 'b) act) \<Rightarrow> ('w, 'b) act" where
  "then_do m k = (\<lambda>w. case m w of (Inl f, w') \<Rightarrow> (Inl f, w') | (Inr x, w') \<Rightarrow> k x w')"

definition lift :: "exn + 'a \<Rightarrow> ('w, 'a) act" where
  "lift r = (case r of Inl e \<Rightarrow> give_up (Threw e) | Inr x \<Rightarrow> give x)"

definition rewording :: "(api_fail \<Rightarrow> api_fail) \<Rightarrow> ('w, 'a) act \<Rightarrow> ('w, 'a) act" where
  "rewording h m = (\<lambda>w. case m w of (Inl f, w') \<Rightarrow> (Inl (h f), w') | r \<Rightarrow> r)"

text \<open>\<open>try: ... except CollectorError: v\<close>.\<close>

definition or_on_refusal :: "'a \<Rightarrow> ('w, 'a) act \<Rightarrow> ('w, 'a) act" where
  "or_on_refusal v m = (\<lambda>w. case m w of (Inl (Refused t), w') \<Rightarrow> (Inr v, w') | r \<Rightarrow> r)"

record answer =
  an_status :: nat
  an_json :: "json option"
  an_text :: string
  an_rsa :: string

record ('s, 'w) web =
  wb_new :: "bool \<Rightarrow> 'w \<Rightarrow> 's \<times> 'w"
  wb_send :: "'s \<Rightarrow> string \<Rightarrow> json \<Rightarrow> 'w \<Rightarrow> (string + answer) \<times> 'w"
  wb_cookies :: "'s \<Rightarrow> 'w \<Rightarrow> bool"

definition open_session :: "('s, 'w) web \<Rightarrow> bool \<Rightarrow> ('w, 's) act" where
  "open_session web verify = (\<lambda>w. case wb_new web verify w of (s, w') \<Rightarrow> (Inr s, w'))"

definition send :: "('s, 'w) web \<Rightarrow> string \<Rightarrow> 's \<Rightarrow> string \<Rightarrow> json \<Rightarrow> ('w, answer) act" where
  "send web what s url body = (\<lambda>w. case wb_send web s url body w of
      (Inl e, w') \<Rightarrow> (Inl (Refused (what @ '': '' @ e)), w') | (Inr a, w') \<Rightarrow> (Inr a, w'))"

definition json_body :: "string \<Rightarrow> answer \<Rightarrow> ('w, json) act" where
  "json_body refusal a = (case an_json a of None \<Rightarrow> give_up (Refused refusal) | Some v \<Rightarrow> give v)"

definition http_hint :: "string \<Rightarrow> answer \<Rightarrow> string \<Rightarrow> string" where
  "http_hint what a product = what @ '': non-JSON response (HTTP '' @ show_nat (an_status a) @ '' - is this '' @ product @ '' URL?)''"

definition base_of :: "string \<Rightarrow> string \<Rightarrow> int \<Rightarrow> string" where
  "base_of sch host port = sch @ ''://'' @ host @ '':'' @ show_int port"

section \<open>Cached sessions\<close>

type_synonym skey = "string \<times> string \<times> string"

definition session_key :: "(string \<Rightarrow> string) \<Rightarrow> string \<Rightarrow> string \<Rightarrow> string \<Rightarrow> skey" where
  "session_key sha base user pw = (base, user, sha pw)"

type_synonym 's sessions = "skey \<Rightarrow> 's option"

text \<open>One poll, the same in four collectors: the cached session first, one fresh login when it is lost. A
  session is kept once it has been of use; \<open>refresh\<close> words the denial of a fresh one.\<close>

definition fresh_poll :: "('s \<Rightarrow> ('w, 'm) act) \<Rightarrow> ('w, 's) act \<Rightarrow> (api_fail \<Rightarrow> api_fail) \<Rightarrow> skey \<Rightarrow> 's sessions \<Rightarrow> 'w \<Rightarrow>
    (api_fail + 'm) \<times> 's sessions \<times> 'w" where
  "fresh_poll collect login refresh key cache w = (case login w of
      (Inl f, w1) \<Rightarrow> (Inl f, cache, w1)
    | (Inr s, w1) \<Rightarrow> (case collect s w1 of
          (Inl f, w2) \<Rightarrow> (Inl (refresh f), cache, w2)
        | (Inr m, w2) \<Rightarrow> (Inr m, cache(key \<mapsto> s), w2)))"

definition session_poll :: "('s \<Rightarrow> ('w, 'm) act) \<Rightarrow> ('w, 's) act \<Rightarrow> (api_fail \<Rightarrow> api_fail) \<Rightarrow> skey \<Rightarrow> 's sessions \<Rightarrow> 'w \<Rightarrow>
    (api_fail + 'm) \<times> 's sessions \<times> 'w" where
  "session_poll collect login refresh key cache w = (case cache key of
      None \<Rightarrow> fresh_poll collect login refresh key cache w
    | Some s \<Rightarrow> (case collect s w of
          (Inl (Denied t c), w1) \<Rightarrow> fresh_poll collect login refresh key cache w1
        | (r, w1) \<Rightarrow> (r, cache, w1)))"

section \<open>OpenMediaVault\<close>

definition omv_rpc :: "('s, 'w) web \<Rightarrow> 's \<Rightarrow> string \<Rightarrow> string \<Rightarrow> string \<Rightarrow> json \<Rightarrow> ('w, json) act" where
  "omv_rpc web s base service method params =
     (let what = service @ ''.'' @ method
      in then_do (send web what s (base @ ''/rpc.php'') (JObj [(''service'', JStr service), (''method'', JStr method), (''params'', params)])) (\<lambda>a.
        then_do (json_body (http_hint what a ''an OpenMediaVault'') a) (\<lambda>doc.
          then_do (lift (as_dict doc)) (\<lambda>d.
            then_do (lift (dict_get (jget d ''error'') ''message'')) (\<lambda>e.
              if \<not> truthy e then give (jget d ''response'')
              else then_do (lift (text_of e)) (\<lambda>t.
                if contains ''not authenticated'' (lower t) then give_up (Denied t JNull)
                else give_up (Refused (what @ '': '' @ t))))))))"

definition omv_login_error :: "api_fail \<Rightarrow> api_fail" where
  "omv_login_error f = (case f of
      Denied t c \<Rightarrow> Refused (''login: '' @ t)
    | Refused t \<Rightarrow> if contains ''Incorrect username or password'' t
        then Refused (''login failed: incorrect username or password (note: OMV'' @ [CHR 0x27] @ ''s WEB-UI password, not the SSH one)'')
        else Refused t
    | Threw e \<Rightarrow> Threw e)"

definition omv_login :: "('s, 'w) web \<Rightarrow> string \<Rightarrow> string \<Rightarrow> string \<Rightarrow> bool \<Rightarrow> ('w, 's) act" where
  "omv_login web base user pw verify =
     then_do (open_session web verify) (\<lambda>s.
       then_do (rewording omv_login_error
           (omv_rpc web s base ''Session'' ''login'' (JObj [(''username'', JStr user), (''password'', JStr pw)]))) (\<lambda>resp.
         then_do (lift (and_then (dict_get resp ''permissions'') (\<lambda>p. dict_get p ''role''))) (\<lambda>role.
           if role \<noteq> JStr ''admin''
           then give_up (Refused (''login ok but role is '' @ py_repr role @ '' - an admin-role web-UI account is required (the RPC API is admin-gated)''))
           else give s)))"

definition omv_paged :: "('s, 'w) web \<Rightarrow> 's \<Rightarrow> string \<Rightarrow> string \<Rightarrow> string \<Rightarrow> ('w, json) act" where
  "omv_paged web s base service method =
     then_do (omv_rpc web s base service method
         (JObj [(''start'', JInt 0), (''limit'', JInt 500), (''sortfield'', JNull), (''sortdir'', JNull)])) (\<lambda>r.
       then_do (lift (dict_get r ''data'')) (\<lambda>v. give (or_else v (JArr []))))"

definition omv_read :: "('s, 'w) web \<Rightarrow> string \<Rightarrow> 's \<Rightarrow> ('w, nas_report) act" where
  "omv_read web base s =
     then_do (omv_rpc web s base ''System'' ''getInformation'' JNull) (\<lambda>info.
       then_do (omv_paged web s base ''FileSystemMgmt'' ''getList'') (\<lambda>filesystems.
         then_do (or_on_refusal (JArr []) (omv_paged web s base ''MdMgmt'' ''getList'')) (\<lambda>raids.
           then_do (or_on_refusal (JArr []) (omv_paged web s base ''Smart'' ''getList'')) (\<lambda>smart.
             then_do (or_on_refusal (JArr []) (omv_paged web s base ''Services'' ''getStatus'')) (\<lambda>services.
               lift (omv_metrics info filesystems raids smart services))))))"

text \<open>What the denial of a fresh session becomes.\<close>

definition denied_as :: "string \<Rightarrow> api_fail \<Rightarrow> api_fail" where
  "denied_as text f = (case f of Denied t c \<Rightarrow> Refused (text @ t) | _ \<Rightarrow> f)"

definition omv_poll :: "(string \<Rightarrow> string) \<Rightarrow> ('s, 'w) web \<Rightarrow> string \<Rightarrow> string \<Rightarrow> string \<Rightarrow> bool \<Rightarrow> 's sessions \<Rightarrow> 'w \<Rightarrow>
    (api_fail + nas_report) \<times> 's sessions \<times> 'w" where
  "omv_poll sha web base user pw verify =
     session_poll (omv_read web base) (omv_login web base user pw verify)
       (denied_as ''authenticated but the RPC rejected the session: '') (session_key sha base user pw)"

section \<open>Synology\<close>

definition SESSION_LOST :: "int list" where
  "SESSION_LOST = [105, 106, 107, 119]"

definition AUTH_ERRORS :: "(int \<times> string) list" where
  "AUTH_ERRORS = [(400, ''invalid account or password''), (401, ''account disabled''), (402, ''account lacks permission''),
     (403, ''2-factor auth required - use a local account without 2FA''), (404, ''2-factor auth failed''),
     (406, ''2FA enforced on this account - use a local account without 2FA''),
     (407, ''IP blocked by DSM auto-block (check Security > Account)''), (408, ''password expired''), (409, ''password expired''),
     (410, ''password must be changed'')]"

definition int_code :: "json \<Rightarrow> int option" where
  "int_code v = (case v of JInt i \<Rightarrow> Some i | JBool b \<Rightarrow> Some (if b then 1 else 0)
     | JFloat (Fin r) t \<Rightarrow> if of_int \<lfloor>r\<rfloor> = r then Some \<lfloor>r\<rfloor> else None | _ \<Rightarrow> None)"

definition code_in :: "int list \<Rightarrow> json \<Rightarrow> bool" where
  "code_in codes v = (case int_code v of None \<Rightarrow> False | Some i \<Rightarrow> i \<in> set codes)"

definition synology_error :: "string \<Rightarrow> json \<Rightarrow> api_fail" where
  "synology_error what code =
     (if \<not> hashable code then Threw TypeError
      else case (if what = ''login'' then Option.bind (int_code code) (map_of AUTH_ERRORS) else None) of
          Some msg \<Rightarrow> Refused (''login failed: '' @ msg @ '' (code '' @ py_str code @ '')'')
        | None \<Rightarrow> if what \<noteq> ''login'' \<and> code_in SESSION_LOST code
            then Denied (what @ '': session rejected (code '' @ py_str code @ '')'') code
            else Refused (what @ '': API error code '' @ py_str code))"

definition synology_get :: "('s, 'w) web \<Rightarrow> 's \<Rightarrow> string \<Rightarrow> json \<Rightarrow> string \<Rightarrow> ('w, json) act" where
  "synology_get web s url params what =
     then_do (send web what s url params) (\<lambda>a.
       if an_status a \<noteq> 200 then give_up (Refused (what @ '': HTTP '' @ show_nat (an_status a)))
       else then_do (json_body (what @ '': non-JSON response (is this a DSM URL?)'') a) (\<lambda>doc.
         then_do (lift (as_dict doc)) (\<lambda>d.
           if truthy (jget d ''success'') then give (or_else (jget d ''data'') (JObj []))
           else then_do (lift (dict_get (jget d ''error'') ''code'')) (\<lambda>code. give_up (synology_error what code)))))"

definition api_path :: "json \<Rightarrow> string \<Rightarrow> string \<Rightarrow> exn + string" where
  "api_path apis base api =
     and_then (as_dict apis) (\<lambda>d. and_then (dict_get (jget d api) ''path'') (\<lambda>p.
       case or_else p (JStr ''entry.cgi'') of JStr t \<Rightarrow> Inr (base @ ''/'' @ t) | _ \<Rightarrow> Inl TypeError))"

definition api_version :: "json \<Rightarrow> string \<Rightarrow> int \<Rightarrow> exn + json" where
  "api_version apis api want =
     and_then (as_dict apis) (\<lambda>d. and_then (dict_get (jget d api) ''maxVersion'') (\<lambda>v.
       and_then (num_of (or_else v (JInt want))) (\<lambda>k. Inr (if k < of_int want then v else JInt want))))"

definition synology_call :: "('s, 'w) web \<Rightarrow> 's \<Rightarrow> string \<Rightarrow> json \<Rightarrow> json \<Rightarrow> string \<Rightarrow> json \<Rightarrow> string \<Rightarrow> string \<Rightarrow> ('w, json) act" where
  "synology_call web s base apis sid api version method what =
     then_do (lift (api_path apis base api)) (\<lambda>url.
       synology_get web s url (JObj [(''api'', JStr api), (''version'', version), (''method'', JStr method), (''_sid'', sid)]) what)"

text \<open>A session of DSM: the HTTP session, the session id and the table of the API.\<close>

type_synonym 's dsm = "'s \<times> json \<times> json"

definition synology_read :: "('s, 'w) web \<Rightarrow> string \<Rightarrow> 's dsm \<Rightarrow> ('w, nas_report) act" where
  "synology_read web base session = (case session of (s, sid, apis) \<Rightarrow>
     then_do (lift (api_version apis ''SYNO.Core.System'' 3)) (\<lambda>v1.
       then_do (synology_call web s base apis sid ''SYNO.Core.System'' v1 ''info'' ''system info'') (\<lambda>info.
         then_do (synology_call web s base apis sid ''SYNO.Core.System.Utilization'' (JInt 1) ''get'' ''utilization'') (\<lambda>util.
           then_do (synology_call web s base apis sid ''SYNO.Storage.CGI.Storage'' (JInt 1) ''load_info'' ''storage info'') (\<lambda>storage.
             then_do (lift (api_version apis ''SYNO.Core.Service'' 3)) (\<lambda>v2.
               then_do (or_on_refusal JNull (synology_call web s base apis sid ''SYNO.Core.Service'' v2 ''get'' ''services'')) (\<lambda>services.
                 lift (synology_metrics info util storage services))))))))"

definition synology_login :: "('s, 'w) web \<Rightarrow> string \<Rightarrow> string \<Rightarrow> string \<Rightarrow> bool \<Rightarrow> ('w, 's dsm) act" where
  "synology_login web base user pw verify =
     then_do (open_session web verify) (\<lambda>s.
       then_do (synology_get web s (base @ ''/query.cgi'') (JObj [(''api'', JStr ''SYNO.API.Info''), (''version'', JInt 1), (''method'', JStr ''query''),
           (''query'', JStr (''SYNO.API.Auth,SYNO.Core.System,SYNO.Core.System.Utilization,SYNO.Storage.CGI.Storage,'' @ ''SYNO.Core.Service''))])
           ''API discovery'') (\<lambda>apis.
         then_do (lift (api_path apis base ''SYNO.API.Auth'')) (\<lambda>url.
           then_do (lift (api_version apis ''SYNO.API.Auth'' 7)) (\<lambda>version.
             then_do (synology_get web s url (JObj [(''api'', JStr ''SYNO.API.Auth''), (''version'', version), (''method'', JStr ''login''),
                 (''account'', JStr user), (''passwd'', JStr pw), (''session'', JStr ''NexusController''), (''format'', JStr ''sid'')]) ''login'') (\<lambda>auth.
               then_do (lift (as_dict auth)) (\<lambda>d.
                 if \<not> truthy (jget d ''sid'') then give_up (Refused ''login returned no session id'')
                 else give (s, jget d ''sid'', apis)))))))"

definition synology_refresh :: "api_fail \<Rightarrow> api_fail" where
  "synology_refresh f = (case f of
      Denied t c \<Rightarrow> if int_code c = Some 105 then Refused (t @ '' - the account must be in the administrators group'')
        else Refused (''authenticated but DSM rejected the fresh session: '' @ t)
    | _ \<Rightarrow> f)"

definition synology_poll :: "(string \<Rightarrow> string) \<Rightarrow> ('s, 'w) web \<Rightarrow> string \<Rightarrow> string \<Rightarrow> string \<Rightarrow> bool \<Rightarrow> 's dsm sessions \<Rightarrow> 'w \<Rightarrow>
    (api_fail + nas_report) \<times> 's dsm sessions \<times> 'w" where
  "synology_poll sha web base user pw verify =
     session_poll (synology_read web base) (synology_login web base user pw verify) synology_refresh (session_key sha base user pw)"

section \<open>Ugreen\<close>

definition TOKEN_LOST :: "int list" where
  "TOKEN_LOST = [1010, 1024]"

text \<open>\<open>rsa\<close> is \<open>_encrypt_password\<close>: the key of the header and the password, or no usable key.\<close>

definition ugreen_login :: "(string \<Rightarrow> string \<Rightarrow> string option) \<Rightarrow> ('s, 'w) web \<Rightarrow> 's \<Rightarrow> string \<Rightarrow> string \<Rightarrow> string \<Rightarrow> ('w, json) act" where
  "ugreen_login rsa web s base user pw =
     then_do (send web ''login'' s (base @ ''/ugreen/v1/verify/check?token='') (JObj [(''username'', JStr user)])) (\<lambda>a.
       if an_rsa a = [] then give_up (Refused (''login: no RSA key in the verify/check response (HTTP '' @ show_nat (an_status a) @
         '' - is this a UGOS Pro URL?)''))
       else case rsa (an_rsa a) pw of
           None \<Rightarrow> give_up (Refused ''cannot parse the RSA public key from the NAS'')
         | Some secret \<Rightarrow>
             then_do (send web ''login'' s (base @ ''/ugreen/v1/verify/login'') (JObj [(''is_simple'', JBool True), (''keepalive'', JBool True),
                 (''otp'', JBool False), (''username'', JStr user), (''password'', JStr secret)])) (\<lambda>b.
               then_do (json_body (''login: non-JSON response (HTTP '' @ show_nat (an_status b) @ '')'') b) (\<lambda>doc.
                 then_do (lift (as_dict doc)) (\<lambda>d.
                   then_do (lift (dict_get (jget d ''data'') ''token'')) (\<lambda>token.
                     if int_code (jget d ''code'') \<noteq> Some 200 \<or> \<not> truthy token
                     then give_up (Refused (''login failed: '' @ py_str (or_else (jget d ''msg'') (JStr ''rejected'')) @ '' (code '' @
                       py_str (jget d ''code'') @ '') - use a local UGOS account without 2FA''))
                     else give token)))))"

definition ugreen_url :: "string \<Rightarrow> string \<Rightarrow> json \<Rightarrow> exn + string" where
  "ugreen_url base path token = (case token of
      JStr t \<Rightarrow> Inr (base @ path @ (if CHR ''?'' \<in> set path then ''&'' else ''?'') @ ''token='' @ t)
    | _ \<Rightarrow> Inl TypeError)"

definition ugreen_get :: "('s, 'w) web \<Rightarrow> 's \<Rightarrow> string \<Rightarrow> string \<Rightarrow> json \<Rightarrow> string \<Rightarrow> ('w, json) act" where
  "ugreen_get web s base path token what =
     then_do (lift (ugreen_url base path token)) (\<lambda>url.
       then_do (send web what s url JNull) (\<lambda>a.
         then_do (json_body (http_hint what a ''a UGOS Pro'') a) (\<lambda>doc.
           then_do (lift (as_dict doc)) (\<lambda>d.
             let code = jget d ''code''
             in if \<not> hashable code then give_up (Threw TypeError)
                else if code_in TOKEN_LOST code then give_up (Denied (what @ '': token rejected (code '' @ py_str code @ '')'') code)
                else if int_code code \<noteq> Some 200
                then give_up (Refused (what @ '': '' @ py_str (or_else (jget d ''msg'') (JStr ''API error'')) @ '' (code '' @ py_str code @ '')''))
                else give (or_else (jget d ''data'') (JObj []))))))"

definition ugreen_read :: "('s, 'w) web \<Rightarrow> string \<Rightarrow> 's \<times> json \<Rightarrow> ('w, nas_report) act" where
  "ugreen_read web base session = (case session of (s, token) \<Rightarrow>
     then_do (ugreen_get web s base ''/ugreen/v1/sysinfo/machine/common'' token ''system info'') (\<lambda>info.
       then_do (ugreen_get web s base ''/ugreen/v1/taskmgr/stat/get_all'' token ''utilization'') (\<lambda>stat.
         then_do (ugreen_get web s base ''/ugreen/v1/storage/pool/list'' token ''pool list'') (\<lambda>pools.
           then_do (ugreen_get web s base ''/ugreen/v2/storage/disk/list'' token ''disk list'') (\<lambda>disks.
             lift (ugreen_metrics info stat pools disks))))))"

definition ugreen_open :: "(string \<Rightarrow> string \<Rightarrow> string option) \<Rightarrow> ('s, 'w) web \<Rightarrow> string \<Rightarrow> string \<Rightarrow> string \<Rightarrow> bool \<Rightarrow> ('w, 's \<times> json) act" where
  "ugreen_open rsa web base user pw verify =
     then_do (open_session web verify) (\<lambda>s. then_do (ugreen_login rsa web s base user pw) (\<lambda>token. give (s, token)))"

definition ugreen_poll :: "(string \<Rightarrow> string) \<Rightarrow> (string \<Rightarrow> string \<Rightarrow> string option) \<Rightarrow> ('s, 'w) web \<Rightarrow> string \<Rightarrow> string \<Rightarrow> string \<Rightarrow> bool \<Rightarrow>
    ('s \<times> json) sessions \<Rightarrow> 'w \<Rightarrow> (api_fail + nas_report) \<times> ('s \<times> json) sessions \<times> 'w" where
  "ugreen_poll sha rsa web base user pw verify =
     session_poll (ugreen_read web base) (ugreen_open rsa web base user pw verify)
       (denied_as ''authenticated but UGOS rejected the fresh token: '') (session_key sha base user pw)"

section \<open>Unraid\<close>

text \<open>The first match of \<open>csrf_token['"]?\s*[:=]\s*['"]([0-9A-Fa-f]{8,})\<close>.\<close>

definition is_hex :: "char \<Rightarrow> bool" where
  "is_hex c = (is_digit c \<or> lower_char c \<in> set ''abcdef'')"

definition is_quote :: "char \<Rightarrow> bool" where
  "is_quote c = (c = CHR 0x27 \<or> c = CHR 0x22)"

definition csrf_at :: "string \<Rightarrow> string option" where
  "csrf_at s =
     (if \<not> startswith ''csrf_token'' s then None
      else
        let r0 = drop 10 s;
            r1 = (if r0 \<noteq> [] \<and> is_quote (hd r0) then tl r0 else r0);
            r2 = lstrip r1
        in if r2 = [] \<or> hd r2 \<notin> set '':='' then None
           else
             let r3 = lstrip (tl r2)
             in if r3 = [] \<or> \<not> is_quote (hd r3) then None
                else let tok = takeWhile is_hex (tl r3) in if 8 \<le> length tok then Some tok else None)"

fun csrf_token :: "string \<Rightarrow> string option" where
  "csrf_token [] = None"
| "csrf_token (c # s) = (case csrf_at (c # s) of Some tok \<Rightarrow> Some tok | None \<Rightarrow> csrf_token s)"

definition unraid_login :: "('s, 'w) web \<Rightarrow> string \<Rightarrow> string \<Rightarrow> string \<Rightarrow> bool \<Rightarrow> ('w, 's \<times> string) act" where
  "unraid_login web base user pw verify =
     then_do (open_session web verify) (\<lambda>s.
       then_do (send web ''login'' s (base @ ''/login'') (JObj [(''username'', JStr user), (''password'', JStr pw)])) (\<lambda>a. \<lambda>w.
         if an_status a \<noteq> 302 \<or> \<not> wb_cookies web s w then (Inl (Refused ''login failed: invalid username or password''), w)
         else then_do (send web ''login'' s (base @ ''/Main'') JNull) (\<lambda>page.
           case csrf_token (an_text page) of
             None \<Rightarrow> give_up (Refused ''login ok but no csrf_token on the webGui page (unsupported Unraid version?)'')
           | Some tok \<Rightarrow> give (s, tok)) w))"

text \<open>An error of the answer: whether it says the session is gone.\<close>

definition gone_error :: "json \<Rightarrow> exn + bool" where
  "gone_error v =
     and_then (as_dict v) (\<lambda>e.
       and_then (if has_key e ''extensions'' then as_dict (jget e ''extensions'') else Inr []) (\<lambda>ext.
         Inr (contains ''UNAUTHENTICATED'' (py_str (jget ext ''code'')) \<or>
           contains ''CSRF'' (if has_key e ''message'' then py_str (jget e ''message'') else []))))"

fun any_gone :: "json list \<Rightarrow> exn + bool" where
  "any_gone [] = Inr False"
| "any_gone (e # es) = and_then (gone_error e) (\<lambda>b. if b then Inr True else any_gone es)"

definition error_text :: "json \<Rightarrow> exn + string" where
  "error_text v = and_then (as_dict v) (\<lambda>e.
     case (if has_key e ''message'' then jget e ''message'' else JStr ''?'') of JStr t \<Rightarrow> Inr (take 80 t) | _ \<Rightarrow> Inl TypeError)"

definition QUERY :: string where
  "QUERY = join [newline]
    [''{'',
     ''  info { os { distro release hostname } }'',
     ''  metrics { cpu { percentTotal } memory { percentTotal total used } }'',
     ''  array {'',
     ''    state'',
     ''    capacity { kilobytes { free used total } }'',
     ''    disks   { name status temp fsSize fsUsed fsFree }'',
     ''    parities { name status }'',
     ''    caches  { name status fsSize fsUsed fsFree }'',
     ''  }'',
     ''  notifications { overview { unread { alert warning total } } }'',
     ''  vars { shareSmbEnabled shareNfsEnabled useSsh }'',
     ''}'']"

definition unraid_query :: "('s, 'w) web \<Rightarrow> string \<Rightarrow> 's \<times> string \<Rightarrow> ('w, json) act" where
  "unraid_query web base session = (case session of (s, csrf) \<Rightarrow>
     then_do (send web ''graphql'' s (base @ ''/graphql'') (JObj [(''query'', JStr QUERY), (''csrf_token'', JStr csrf)])) (\<lambda>a.
       then_do (json_body (http_hint ''graphql'' a ''an Unraid 7.x'') a) (\<lambda>doc.
         then_do (lift (as_dict doc)) (\<lambda>d.
           then_do (lift (items_of (jget d ''errors''))) (\<lambda>errs.
             then_do (lift (any_gone errs)) (\<lambda>gone.
               if gone then give_up (Denied ''session expired'' JNull)
               else if errs \<noteq> [] \<and> \<not> truthy (jget d ''data'')
               then then_do (lift (each error_text (take 3 errs))) (\<lambda>ts. give_up (Refused (''graphql: '' @ join ''; '' ts)))
               else give (or_else (jget d ''data'') (JObj []))))))))"

definition unraid_refresh :: "api_fail \<Rightarrow> api_fail" where
  "unraid_refresh f = (case f of
      Denied t c \<Rightarrow> Refused ''authenticated but the GraphQL API rejected the session (is the Unraid API enabled?)'' | _ \<Rightarrow> f)"

text \<open>The session is kept as soon as the query has answered, before the metrics are built.\<close>

definition unraid_poll :: "(string \<Rightarrow> string) \<Rightarrow> ('s, 'w) web \<Rightarrow> string \<Rightarrow> string \<Rightarrow> string \<Rightarrow> bool \<Rightarrow> ('s \<times> string) sessions \<Rightarrow> 'w \<Rightarrow>
    (api_fail + nas_report) \<times> ('s \<times> string) sessions \<times> 'w" where
  "unraid_poll sha web base user pw verify cache w =
     (case session_poll (unraid_query web base) (unraid_login web base user pw verify) unraid_refresh (session_key sha base user pw) cache w of
        (Inl f, rest) \<Rightarrow> (Inl f, rest)
      | (Inr data, rest) \<Rightarrow> (case unraid_metrics data of Inl e \<Rightarrow> (Inl (Threw e), rest) | Inr r \<Rightarrow> (Inr r, rest)))"

section \<open>ZimaOS\<close>

definition zimaos_get :: "('s, 'w) web \<Rightarrow> 's \<Rightarrow> string \<Rightarrow> string \<Rightarrow> json \<Rightarrow> string \<Rightarrow> ('w, json) act" where
  "zimaos_get web s base path token what =
     then_do (send web what s (base @ path) token) (\<lambda>a.
       then_do (json_body (http_hint what a ''a ZimaOS'') a) (\<lambda>doc.
         if an_status a \<noteq> 200 then
           let msg = (case doc of JObj d \<Rightarrow> jget d ''message'' | _ \<Rightarrow> JNull)
           in give_up (Refused (what @ '': '' @ (if truthy msg then py_str msg else ''HTTP '' @ show_nat (an_status a))))
         else give (case doc of JObj d \<Rightarrow> jget d ''data'' | _ \<Rightarrow> doc)))"

text \<open>One login per poll; nothing is kept.\<close>

definition zimaos_poll :: "('s, 'w) web \<Rightarrow> string \<Rightarrow> string \<Rightarrow> string \<Rightarrow> bool \<Rightarrow> ('w, nas_report) act" where
  "zimaos_poll web base user pw verify =
     then_do (open_session web verify) (\<lambda>s.
       then_do (send web ''login'' s (base @ ''/v1/users/login'') (JObj [(''username'', JStr user), (''password'', JStr pw)])) (\<lambda>a.
         then_do (json_body (http_hint ''login'' a ''a ZimaOS'') a) (\<lambda>doc.
           then_do (lift (as_dict doc)) (\<lambda>d.
             then_do (lift (and_then (dict_get (jget d ''data'') ''token'') (\<lambda>t. dict_get t ''access_token''))) (\<lambda>token.
               if an_status a \<noteq> 200 \<or> \<not> truthy token
               then give_up (Refused (''login failed: '' @ (if truthy (jget d ''message'') then py_str (jget d ''message'')
                 else ''HTTP '' @ show_nat (an_status a))))
               else then_do (zimaos_get web s base ''/v1/sys/utilization'' token ''utilization'') (\<lambda>util.
                 then_do (zimaos_get web s base ''/v2/local_storage/storages'' token ''storages'') (\<lambda>storages.
                   then_do (zimaos_get web s base ''/v2/local_storage/raid'' token ''raid info'') (\<lambda>raids.
                     then_do (zimaos_get web s base ''/v2/local_storage/disk'' token ''disk list'') (\<lambda>disks.
                       lift (zimaos_metrics util storages raids disks))))))))))"

section \<open>As collectors\<close>

text \<open>What the adapters call, at one moment: the report, or the text of the error. \<open>text\<close> is the text of
  a Python exception.\<close>

definition api_text :: "(exn \<Rightarrow> string) \<Rightarrow> api_fail \<Rightarrow> string" where
  "api_text text f = (case f of Refused t \<Rightarrow> t | Denied t c \<Rightarrow> t | Threw e \<Rightarrow> text e)"

definition as_collector :: "(exn \<Rightarrow> string) \<Rightarrow> (login \<Rightarrow> api_fail + nas_report) \<Rightarrow> nas_metrics collector" where
  "as_collector text poll lg = (case poll lg of Inl f \<Rightarrow> Inl (api_text text f) | Inr r \<Rightarrow> Inr (nas_metrics.truncate r))"

definition login_base :: "login \<Rightarrow> string" where
  "login_base lg = base_of (case lg_scheme lg of None \<Rightarrow> ''https'' | Some s \<Rightarrow> s) (lg_host lg) (lg_port lg)"

end
