(* ===== verification/SessionFacts.thy ===== *)
theory SessionFacts
  imports Sessions
begin

text \<open>
  A cached session is bound to the credentials that opened it. The contract of a collector that caches
  sessions is the locale \<open>cached_polls\<close>; the four collectors are its interpretations.
\<close>

section \<open>The contract\<close>

definition refuses :: "(string \<Rightarrow> string \<Rightarrow> string \<Rightarrow> bool \<Rightarrow> ('w, 's) act) \<Rightarrow> string \<Rightarrow> string \<Rightarrow> string \<Rightarrow> bool" where
  "refuses login base user pw = (\<forall>verify w. \<exists>f w'. login base user pw verify w = (Inl f, w'))"

type_synonym credentials = "string \<times> string \<times> string \<times> bool"

type_synonym ('s, 'w, 'm) poller = "string \<Rightarrow> string \<Rightarrow> string \<Rightarrow> bool \<Rightarrow> 's sessions \<Rightarrow> 'w \<Rightarrow> (api_fail + 'm) \<times> 's sessions \<times> 'w"

definition poll_step :: "('s, 'w, 'm) poller \<Rightarrow> 's sessions \<times> 'w \<Rightarrow> credentials \<Rightarrow> 's sessions \<times> 'w" where
  "poll_step poll st cr = (case st of (cache, w) \<Rightarrow> case cr of (base, user, pw, verify) \<Rightarrow> snd (poll base user pw verify cache w))"

definition after_polls :: "('s, 'w, 'm) poller \<Rightarrow> 'w \<Rightarrow> credentials list \<Rightarrow> 's sessions \<times> 'w" where
  "after_polls poll w crs = foldl (poll_step poll) (\<lambda>k. None, w) crs"

locale cached_polls =
  fixes sha :: "string \<Rightarrow> string"
    and login :: "string \<Rightarrow> string \<Rightarrow> string \<Rightarrow> bool \<Rightarrow> ('w, 's) act"
    and poll :: "('s, 'w, 'm) poller"
  assumes other_keys: "poll base user pw verify cache w = (r, cache', w') \<Longrightarrow> k \<noteq> session_key sha base user pw \<Longrightarrow> cache' k = cache k"
    and own_key: "poll base user pw verify cache w = (r, cache', w') \<Longrightarrow> refuses login base user pw \<Longrightarrow>
      cache (session_key sha base user pw) = None \<Longrightarrow> (\<exists>f. r = Inl f) \<and> cache' (session_key sha base user pw) = None"
begin

lemma refused_key_empty:
  assumes "refuses login base user pw" and "\<And>p. sha p = sha pw \<Longrightarrow> p = pw"
    and "fst st (session_key sha base user pw) = None"
  shows "fst (foldl (poll_step poll) st crs) (session_key sha base user pw) = None"
  using assms(3)
proof (induction crs arbitrary: st)
  case (Cons cr crs)
  obtain cache w where st: "st = (cache, w)" by (cases st)
  obtain b u p v where cr: "cr = (b, u, p, v)" by (cases cr)
  obtain r cache' w' where step: "poll b u p v cache w = (r, cache', w')" by (cases "poll b u p v cache w")
  have "cache' (session_key sha base user pw) = None"
  proof (cases "session_key sha base user pw = session_key sha b u p")
    case True
    then have "b = base" "u = user" "p = pw" using assms(2) by (auto simp: session_key_def)
    then show ?thesis using own_key [OF step] assms(1) Cons.prems by (simp add: st)
  next
    case False
    then show ?thesis using other_keys [OF step] Cons.prems by (simp add: st)
  qed
  then show ?case using Cons.IH by (simp add: poll_step_def st cr step)
qed simp

lemma refused_poll_fails:
  assumes "refuses login base user pw" and "\<And>p. sha p = sha pw \<Longrightarrow> p = pw" and "after_polls poll w0 crs = (cache, w)"
  shows "\<exists>f. fst (poll base user pw verify cache w) = Inl f"
proof -
  have "cache (session_key sha base user pw) = None"
    using refused_key_empty [OF assms(1,2), of "(\<lambda>k. None, w0)" crs] assms(3) by (simp add: after_polls_def)
  moreover obtain r cache' w' where p: "poll base user pw verify cache w = (r, cache', w')"
    by (cases "poll base user pw verify cache w")
  ultimately show ?thesis using own_key [OF p assms(1)] by simp
qed

end

section \<open>The collectors keep it\<close>

lemma session_poll_other: "session_poll collect log_in refresh key cache w = (r, cache', w') \<Longrightarrow> k \<noteq> key \<Longrightarrow> cache' k = cache k"
  by (auto simp: session_poll_def fresh_poll_def split: option.splits prod.splits sum.splits api_fail.splits)

lemma session_poll_own:
  "session_poll collect log_in refresh key cache w = (r, cache', w') \<Longrightarrow> \<forall>w. \<exists>f w'. log_in w = (Inl f, w') \<Longrightarrow> cache key = None \<Longrightarrow>
   (\<exists>f. r = Inl f) \<and> cache' key = None"
  by (auto simp: session_poll_def fresh_poll_def split: prod.splits sum.splits) (metis Pair_inject sum.distinct(1))+

lemma unraid_poll_of:
  "unraid_poll sha web base user pw verify cache w = (r, cache', w') \<Longrightarrow>
   \<exists>q. session_poll (unraid_query web base) (unraid_login web base user pw verify) unraid_refresh (session_key sha base user pw) cache w =
     (q, cache', w') \<and> (\<forall>f. q = Inl f \<longrightarrow> r = Inl f)"
  by (auto simp: unraid_poll_def split: prod.splits sum.splits)

interpretation omv: cached_polls sha "omv_login web" "omv_poll sha web"
  by unfold_locales (auto simp: omv_poll_def refuses_def dest: session_poll_other session_poll_own)

interpretation synology: cached_polls sha "synology_login web" "synology_poll sha web"
  by unfold_locales (auto simp: synology_poll_def refuses_def dest: session_poll_other session_poll_own)

interpretation ugreen: cached_polls sha "ugreen_open rsa web" "ugreen_poll sha rsa web"
  by unfold_locales (auto simp: ugreen_poll_def refuses_def ugreen_open_def dest: session_poll_other session_poll_own)

interpretation unraid: cached_polls sha "unraid_login web" "unraid_poll sha web"
proof
  fix base user pw verify cache w r cache' w' k
  assume p: "unraid_poll sha web base user pw verify cache w = (r, cache', w')"
  obtain q where q: "session_poll (unraid_query web base) (unraid_login web base user pw verify) unraid_refresh
      (session_key sha base user pw) cache w = (q, cache', w')" "\<forall>f. q = Inl f \<longrightarrow> r = Inl f"
    using unraid_poll_of [OF p] by blast
  show "k \<noteq> session_key sha base user pw \<Longrightarrow> cache' k = cache k"
    by (rule session_poll_other [OF q(1)])
  assume "refuses (unraid_login web) base user pw" "cache (session_key sha base user pw) = None"
  then show "(\<exists>f. r = Inl f) \<and> cache' (session_key sha base user pw) = None"
    using session_poll_own [OF q(1)] q(2) unfolding refuses_def by blast
qed

text \<open>A password an appliance refuses never polls it, whatever was polled before and whatever sessions of
  other passwords are cached: so a connection test with a wrong password fails while a session of the
  right one is alive. (Hypothesis: no other password has its SHA-256.)\<close>

theorem wrong_password_never_polls:
  assumes "\<And>p. sha p = sha pw \<Longrightarrow> p = pw"
  shows "(refuses (omv_login web) base user pw \<and> after_polls (omv_poll sha web) world crs = (cache_a, world_a) \<longrightarrow>
       (\<exists>f. fst (omv_poll sha web base user pw verify cache_a world_a) = Inl f)) \<and>
     (refuses (synology_login web) base user pw \<and> after_polls (synology_poll sha web) world crs = (cache_b, world_b) \<longrightarrow>
       (\<exists>f. fst (synology_poll sha web base user pw verify cache_b world_b) = Inl f)) \<and>
     (refuses (ugreen_open rsa web) base user pw \<and> after_polls (ugreen_poll sha rsa web) world crs = (cache_c, world_c) \<longrightarrow>
       (\<exists>f. fst (ugreen_poll sha rsa web base user pw verify cache_c world_c) = Inl f)) \<and>
     (refuses (unraid_login web) base user pw \<and> after_polls (unraid_poll sha web) world crs = (cache_d, world_d) \<longrightarrow>
       (\<exists>f. fst (unraid_poll sha web base user pw verify cache_d world_d) = Inl f))"
  by (intro conjI impI; elim conjE)
    (rule omv.refused_poll_fails [OF _ assms] synology.refused_poll_fails [OF _ assms] ugreen.refused_poll_fails [OF _ assms]
      unraid.refused_poll_fails [OF _ assms]; assumption)+

text \<open>An appliance that knows one password, and answers every read of a session.\<close>

definition demo_reply :: "json \<Rightarrow> json" where
  "demo_reply body =
     (if body = JObj [(''service'', JStr ''Session''), (''method'', JStr ''login''),
        (''params'', JObj [(''username'', JStr ''admin''), (''password'', JStr ''wrong'')])]
      then JObj [(''error'', JObj [(''message'', JStr ''Incorrect username or password'')])]
      else JObj [(''response'', JObj [(''permissions'', JObj [(''role'', JStr ''admin'')])])])"

definition demo_web :: "(unit, unit) web" where
  "demo_web = \<lparr>wb_new = \<lambda>v w. ((), ()), wb_send = \<lambda>s url body w. (Inr \<lparr>an_status = 200, an_json = Some (demo_reply body), an_text = [], an_rsa = []\<rparr>, ()),
     wb_cookies = \<lambda>s w. True\<rparr>"

lemma demo_refuses: "refuses (omv_login demo_web) base ''admin'' ''wrong''"
  by (simp add: refuses_def omv_login_def then_do_def open_session_def demo_web_def rewording_def omv_rpc_def Let_def send_def json_body_def
      demo_reply_def give_def lift_def as_dict_def dict_get_def dict_or_empty_def jget_def text_of_def give_up_def omv_login_error_def)

theorem wrong_password_never_polls_witness:
  "(case after_polls (omv_poll id demo_web) () [(''http://nas:80'', ''admin'', ''right'', False)] of (c, w) \<Rightarrow>
     c (session_key id ''http://nas:80'' ''admin'' ''right'') = Some () \<and>
     (\<exists>f. fst (omv_poll id demo_web ''http://nas:80'' ''admin'' ''wrong'' False c w) = Inl f))"
proof -
  obtain c where c: "after_polls (omv_poll id demo_web) () [(''http://nas:80'', ''admin'', ''right'', False)] = (c, ())"
    by (cases "after_polls (omv_poll id demo_web) () [(''http://nas:80'', ''admin'', ''right'', False)]") auto
  have "fst (after_polls (omv_poll id demo_web) () [(''http://nas:80'', ''admin'', ''right'', False)])
      (session_key id ''http://nas:80'' ''admin'' ''right'') = Some ()" by code_simp
  then show ?thesis
    using wrong_password_never_polls [where sha = id and pw = "''wrong''" and web = demo_web and base = "''http://nas:80''" and user = "''admin''"
        and world = "()" and crs = "[(''http://nas:80'', ''admin'', ''right'', False)]" and cache_a = c and world_a = "()" and verify = False] demo_refuses c
    by auto
qed

end
