(* ===== verification/Hypervisors.thy ===== *)
theory Hypervisors
  imports Sessions
begin

text \<open>
  The collectors of the hypervisors (\<open>collectors/proxmox.py\<close>, \<open>collectors/vmware.py\<close>): the metrics they
  build, the guest actions, and the loops that wait for a submitted task; and the JSON-RPC socket of
  \<open>collectors/truenas.py\<close>, whose reader skips what is not its answer. These loops may not end, so they are
  partial functions: not returning is \<open>None\<close>. What a task or a peer says in its \<open>i\<close>-th answer and the clock
  are parameters.
\<close>

section \<open>Proxmox metrics\<close>

text \<open>\<open>d.get(k, 0)\<close> as an operand: only a missing key has the default.\<close>

definition num_at :: "json dict \<Rightarrow> string \<Rightarrow> exn + rat" where
  "num_at d k = (if has_key d k then num_of (jget d k) else Inr 0)"

fun sum_at :: "string \<Rightarrow> json dict list \<Rightarrow> exn + rat" where
  "sum_at k [] = Inr 0"
| "sum_at k (d # ds) = and_then (num_at d k) (\<lambda>x. and_then (sum_at k ds) (\<lambda>y. Inr (x + y)))"

definition dict_at :: "json dict \<Rightarrow> string \<Rightarrow> exn + json dict" where
  "dict_at d k = (if has_key d k then as_dict (jget d k) else Inr [])"

record blob =
  bl_node :: string
  bl_status :: json
  bl_storages :: json
  bl_qemus :: json
  bl_containers :: json

text \<open>A guest of a node: its identifier, state, name and memory in mebibytes.\<close>

record vm_row =
  vr_guest :: guest
  vr_name :: json
  vr_cpus :: json
  vr_memory_mb :: json
  vr_os :: json
  vr_host :: json

definition guest_row :: "string \<Rightarrow> string \<Rightarrow> string \<Rightarrow> json \<Rightarrow> json dict \<Rightarrow> exn + vm_row" where
  "guest_row prefix label node os vm =
     (if \<not> has_key vm ''vmid'' then Inl KeyError
      else and_then (num_at vm ''maxmem'') (\<lambda>m.
        let vmid = py_str (jget vm ''vmid'')
        in Inr \<lparr>vr_guest = \<lparr>gu_id = prefix @ node @ ''-'' @ vmid,
               gu_state = (if has_key vm ''status'' then py_str (jget vm ''status'') else ''unknown'')\<rparr>,
             vr_name = (if has_key vm ''name'' then jget vm ''name'' else JStr (label @ '' '' @ vmid)),
             vr_cpus = jget vm ''cpus'', vr_memory_mb = JInt \<lfloor>m / (1024 * 1024)\<rfloor>, vr_os = os, vr_host = JStr node\<rparr>))"

record node_totals =
  nt_cpu :: rat
  nt_mem_used :: rat
  nt_mem_total :: rat
  nt_st_used :: rat
  nt_st_total :: rat
  nt_guests :: "vm_row list"

definition blob_totals :: "blob \<Rightarrow> exn + node_totals" where
  "blob_totals b =
     and_then (dict_or_empty (bl_status b)) (\<lambda>status.
       and_then (num_at status ''cpu'') (\<lambda>cpu.
         and_then (dict_at status ''memory'') (\<lambda>mem.
           and_then (num_at mem ''used'') (\<lambda>mem_used.
             and_then (num_at mem ''total'') (\<lambda>mem_total.
               and_then (dicts_of (bl_storages b)) (\<lambda>sts.
                 and_then (sum_at ''used'' sts) (\<lambda>st_used.
                   and_then (sum_at ''total'' sts) (\<lambda>st_total.
                     and_then (dicts_of (bl_qemus b)) (\<lambda>qemus.
                       and_then (each (guest_row ''qemu-'' ''VM'' (bl_node b) JNull) qemus) (\<lambda>vms.
                         and_then (dicts_of (bl_containers b)) (\<lambda>cts.
                           and_then (each (guest_row ''lxc-'' ''CT'' (bl_node b) (JStr ''LXC'')) cts) (\<lambda>lxcs.
                             Inr \<lparr>nt_cpu = cpu * 100, nt_mem_used = mem_used, nt_mem_total = mem_total, nt_st_used = st_used,
                               nt_st_total = st_total, nt_guests = vms @ lxcs\<rparr>))))))))))))"

record virt_report = virt_metrics +
  vp_mem_used_gb :: rat
  vp_mem_total_gb :: rat
  vp_storage_pct :: "rat option"
  vp_running :: nat
  vp_hosts :: nat
  vp_rows :: "vm_row list"

text \<open>The \<open>virt\<close> block of \<open>build_virt_envelope\<close>, with what the page shows of it.\<close>

record virt_block =
  vb_kind :: string
  vb_hosts :: nat
  vb_vms :: nat
  vb_vms_running :: nat
  vb_containers :: nat
  vb_containers_running :: nat
  vb_mem_used_gb :: rat
  vb_mem_total_gb :: rat
  vb_storage_used_gb :: rat
  vb_storage_total_gb :: rat
  vb_vm_list :: "vm_row list"

definition virt_block_of :: "node \<Rightarrow> virt_report \<Rightarrow> virt_block" where
  "virt_block_of n m = (let containers = filter is_ct (vm_guests m); guests = filter (\<lambda>v. \<not> is_ct v) (vm_guests m) in
     \<lparr>vb_kind = n_host_type n, vb_hosts = vp_hosts m, vb_vms = length guests, vb_vms_running = length (filter guest_running guests),
      vb_containers = length containers, vb_containers_running = length (filter guest_running containers),
      vb_mem_used_gb = round_to 1 (vp_mem_used_gb m), vb_mem_total_gb = round_to 1 (vp_mem_total_gb m),
      vb_storage_used_gb = round_to 1 (vm_storage_used m), vb_storage_total_gb = round_to 1 (vm_storage_total m), vb_vm_list = vp_rows m\<rparr>)"

definition pct :: "rat \<Rightarrow> rat \<Rightarrow> rat option" where
  "pct used capacity = (if capacity = 0 then None else Some (used / capacity * 100))"

definition proxmox_metrics :: "blob list \<Rightarrow> exn + virt_report" where
  "proxmox_metrics blobs =
     and_then (each blob_totals blobs) (\<lambda>ts.
       let rows = concat (map nt_guests ts); mem_used = sum_list (map nt_mem_used ts); mem_total = sum_list (map nt_mem_total ts);
           st_used = sum_list (map nt_st_used ts); st_total = sum_list (map nt_st_total ts)
       in Inr \<lparr>vm_cpu = (if ts = [] then None else Some (sum_list (map nt_cpu ts) / of_nat (length ts))), vm_mem = pct mem_used mem_total,
            vm_storage_used = st_used / GB, vm_storage_total = st_total / GB, vm_guests = map vr_guest rows,
            vp_mem_used_gb = mem_used / GB, vp_mem_total_gb = mem_total / GB, vp_storage_pct = pct st_used st_total,
            vp_running = length (filter (\<lambda>r. gu_state (vr_guest r) = ''running'') rows), vp_hosts = length ts, vp_rows = rows\<rparr>)"

text \<open>The reads of one node: what a node refuses is empty.\<close>

record node_reads =
  rd_name :: json
  rd_status :: "string + json"
  rd_storages :: "string + json"
  rd_qemus :: "string + json"
  rd_lxcs :: "string + json"

definition or_value :: "json \<Rightarrow> string + json \<Rightarrow> json" where
  "or_value v r = (case r of Inl e \<Rightarrow> v | Inr x \<Rightarrow> x)"

definition blob_of :: "node_reads \<Rightarrow> blob" where
  "blob_of r = \<lparr>bl_node = py_str (rd_name r), bl_status = or_value (JObj []) (rd_status r), bl_storages = or_value (JArr []) (rd_storages r),
     bl_qemus = or_value (JArr []) (rd_qemus r), bl_containers = or_value (JArr []) (rd_lxcs r)\<rparr>"

definition proxmox_collect :: "(login \<Rightarrow> string + node_reads list) \<Rightarrow> (exn \<Rightarrow> string) \<Rightarrow> virt_metrics collector" where
  "proxmox_collect api text lg = (case api lg of
      Inl e \<Rightarrow> Inl e
    | Inr rs \<Rightarrow> (case proxmox_metrics (map blob_of rs) of Inl e \<Rightarrow> Inl (text e) | Inr r \<Rightarrow> Inr (virt_metrics.truncate r)))"

section \<open>VMware metrics\<close>

text \<open>\<open>v or 0\<close> over rows of properties.\<close>

fun sum_or_0 :: "string \<Rightarrow> json dict list \<Rightarrow> exn + rat" where
  "sum_or_0 k [] = Inr 0"
| "sum_or_0 k (d # ds) = and_then (operand (jget d k)) (\<lambda>x. and_then (sum_or_0 k ds) (\<lambda>y. Inr (x + y)))"

fun total_mhz :: "json dict list \<Rightarrow> exn + rat" where
  "total_mhz [] = Inr 0"
| "total_mhz (h # hs) =
     and_then (operand (jget h ''hardware.cpuInfo.numCpuCores'')) (\<lambda>cores.
       and_then (operand (jget h ''hardware.cpuInfo.hz'')) (\<lambda>hz. and_then (total_mhz hs) (\<lambda>x. Inr (cores * hz / 1000000 + x))))"

text \<open>A virtual machine with its managed object id and the one of its host.\<close>

record vsphere_vm =
  vv_moid :: string
  vv_host :: "string option"
  vv_props :: "json dict"

definition vsphere_row :: "(string \<Rightarrow> json) \<Rightarrow> vsphere_vm \<Rightarrow> vm_row" where
  "vsphere_row host_names v = (let p = vv_props v
     in \<lparr>vr_guest = \<lparr>gu_id = vv_moid v, gu_state = py_str (jget p ''runtime.powerState'')\<rparr>, vr_name = jget p ''name'',
          vr_cpus = jget p ''config.hardware.numCPU'', vr_memory_mb = jget p ''config.hardware.memoryMB'',
          vr_os = jget p ''config.guestFullName'', vr_host = (case vv_host v of None \<Rightarrow> JNull | Some h \<Rightarrow> host_names h)\<rparr>)"

definition vmware_metrics :: "json dict list \<Rightarrow> vsphere_vm list \<Rightarrow> json dict list \<Rightarrow> (string \<Rightarrow> json) \<Rightarrow> exn + virt_report" where
  "vmware_metrics hosts vms datastores host_names =
     and_then (total_mhz hosts) (\<lambda>cpu_total.
       and_then (sum_or_0 ''summary.quickStats.overallCpuUsage'' hosts) (\<lambda>cpu_used.
         and_then (sum_or_0 ''hardware.memorySize'' hosts) (\<lambda>mem_total.
           and_then (sum_or_0 ''summary.quickStats.overallMemoryUsage'' hosts) (\<lambda>mem_mb.
             and_then (sum_or_0 ''summary.capacity'' datastores) (\<lambda>st_total.
               and_then (sum_or_0 ''summary.freeSpace'' datastores) (\<lambda>st_free.
                 let mem_used = mem_mb * 1024 * 1024; st_used = st_total - st_free; rows = map (vsphere_row host_names) vms; guests = map vr_guest rows
                 in Inr \<lparr>vm_cpu = pct cpu_used cpu_total, vm_mem = pct mem_used mem_total, vm_storage_used = st_used / GB,
                      vm_storage_total = st_total / GB, vm_guests = guests, vp_mem_used_gb = mem_used / GB, vp_mem_total_gb = mem_total / GB,
                      vp_storage_pct = pct st_used st_total, vp_running = length (filter (\<lambda>g. gu_state g = ''poweredOn'') guests),
                      vp_hosts = length hosts, vp_rows = rows\<rparr>))))))"

section \<open>Waiting for a task\<close>

text \<open>\<open>_wait_task\<close> of Proxmox: the \<open>i\<close>-th status, then the clock. It returns when the task has stopped, a
  failure when its exit status says so, or when the time is up.\<close>

definition exit_verdict :: "json dict \<Rightarrow> string + unit" where
  "exit_verdict st = (let e = or_else (jget st ''exitstatus'') (JStr [])
     in if e = JStr [] \<or> e = JStr ''OK'' then Inr () else Inl (''task failed: '' @ py_str e))"

partial_function (option) proxmox_wait ::
  "(nat \<Rightarrow> string + json dict) \<Rightarrow> (nat \<Rightarrow> rat) \<Rightarrow> rat \<Rightarrow> nat \<Rightarrow> (string + unit) option" where
  "proxmox_wait status clock deadline i =
     (case status i of
        Inl e \<Rightarrow> Some (Inl e)
      | Inr st \<Rightarrow>
          if or_else (jget st ''status'') (JStr []) \<noteq> JStr ''running'' then Some (exit_verdict st)
          else if deadline \<le> clock i then Some (Inr ())
          else proxmox_wait status clock deadline (Suc i))"

text \<open>\<open>_wait_task\<close> of VMware. An error state may come before its message, which is then read once more. Each
  read is a request, which may fail.\<close>

datatype task_state = TaskSuccess | TaskError "string + string option" "string + string option" | TaskOther | TaskUnread string

definition task_message :: "string + string option \<Rightarrow> string" where
  "task_message m = (case m of Inl e \<Rightarrow> e | Inr None \<Rightarrow> ''task failed'' | Inr (Some msg) \<Rightarrow> if msg = [] then ''task failed'' else msg)"

partial_function (option) vmware_wait ::
  "(nat \<Rightarrow> task_state) \<Rightarrow> (nat \<Rightarrow> rat) \<Rightarrow> rat \<Rightarrow> nat \<Rightarrow> (string + unit) option" where
  "vmware_wait state clock deadline i =
     (case state i of
        TaskSuccess \<Rightarrow> Some (Inr ())
      | TaskUnread e \<Rightarrow> Some (Inl e)
      | TaskError now later \<Rightarrow> Some (Inl (task_message (if now = Inr None \<or> now = Inr (Some []) then later else now)))
      | TaskOther \<Rightarrow> if deadline \<le> clock i then Some (Inr ()) else vmware_wait state clock deadline (Suc i))"

section \<open>Guest actions\<close>

text \<open>\<open>vm_action\<close> of Proxmox: the guards, the submission, which answers with a task, and the wait. \<open>submit\<close>
  is the request of the library.\<close>

definition task_timeout :: rat where "task_timeout = 10"

definition after_wait :: "(string + unit) option \<Rightarrow> string \<Rightarrow> (string + string) option" where
  "after_wait w task = (case w of None \<Rightarrow> None | Some (Inl e) \<Rightarrow> Some (Inl e) | Some (Inr u) \<Rightarrow> Some (Inr task))"

definition proxmox_act :: "(login \<Rightarrow> string \<Rightarrow> string \<Rightarrow> string \<Rightarrow> string \<Rightarrow> string + string) \<Rightarrow> (string \<Rightarrow> nat \<Rightarrow> string + json dict) \<Rightarrow>
    (nat \<Rightarrow> rat) \<Rightarrow> rat \<Rightarrow> login \<Rightarrow> string \<Rightarrow> string \<Rightarrow> string \<Rightarrow> string \<Rightarrow> (string + string) option" where
  "proxmox_act submit status clock now lg node kind vmid action =
     (if action \<notin> set VM_ACTIONS then Some (Inl (''unsupported action: '' @ action))
      else if kind \<noteq> ''qemu'' \<and> kind \<noteq> ''lxc'' then Some (Inl (''unknown guest kind: '' @ kind))
      else case submit lg node kind vmid action of
          Inl e \<Rightarrow> Some (Inl e)
        | Inr upid \<Rightarrow> after_wait (proxmox_wait (status upid) clock (now + task_timeout) 0) upid)"

section \<open>The TrueNAS socket\<close>

text \<open>\<open>call\<close>: after the request is sent, messages are read until the one with its id. \<open>recv i\<close> is the
  \<open>i\<close>-th message on the socket, a timeout or a text that is no JSON.\<close>

definition rpc_verdict :: "string \<Rightarrow> json dict \<Rightarrow> string + json" where
  "rpc_verdict method msg = (let e = jget msg ''error''
     in if \<not> truthy e then Inr (jget msg ''result'')
        else Inl (method @ '': '' @ py_str (case e of JObj d \<Rightarrow> (if has_key d ''message'' then jget d ''message'' else e) | _ \<Rightarrow> e)))"

partial_function (option) await_reply :: "(exn \<Rightarrow> string) \<Rightarrow> (nat \<Rightarrow> string + json) \<Rightarrow> string \<Rightarrow> int \<Rightarrow> nat \<Rightarrow> ((string + json) \<times> nat) option" where
  "await_reply text recv method rid i =
     (case recv i of
        Inl e \<Rightarrow> Some (Inl e, Suc i)
      | Inr (JObj msg) \<Rightarrow>
          if int_code (jget msg ''id'') = Some rid then Some (rpc_verdict method msg, Suc i)
          else await_reply text recv method rid (Suc i)
      | Inr v \<Rightarrow> Some (Inl (text AttributeError), Suc i))"

text \<open>The calls of one run share the id and the place on the socket. A call that is not answered is
  \<open>None\<close>; the best-effort ones have a value for an error.\<close>

type_synonym 'a rpc = "int \<times> nat \<Rightarrow> ((string + 'a) \<times> int \<times> nat) option"

definition rpc_call :: "(exn \<Rightarrow> string) \<Rightarrow> (nat \<Rightarrow> string + json) \<Rightarrow> string \<Rightarrow> json rpc" where
  "rpc_call text recv method st = (case st of (rid, i) \<Rightarrow>
     (case await_reply text recv method (rid + 1) i of None \<Rightarrow> None | Some (r, j) \<Rightarrow> Some (r, rid + 1, j)))"

definition rpc_then :: "'a rpc \<Rightarrow> ('a \<Rightarrow> 'b rpc) \<Rightarrow> 'b rpc" where
  "rpc_then m k st = (case m st of None \<Rightarrow> None | Some (Inl e, st') \<Rightarrow> Some (Inl e, st') | Some (Inr x, st') \<Rightarrow> k x st')"

definition rpc_or :: "'a \<Rightarrow> 'a rpc \<Rightarrow> 'a rpc" where
  "rpc_or v m st = (case m st of Some (Inl e, st') \<Rightarrow> Some (Inr v, st') | r \<Rightarrow> r)"

text \<open>\<open>by_name\<close>: the graphs of the answer, the last one of a name winning, none when one is malformed.\<close>

definition graph_named :: "json \<Rightarrow> string \<Rightarrow> json" where
  "graph_named graphs name = (case graphs of
      JArr gs \<Rightarrow>
        (case all_dicts gs of
           Inl e \<Rightarrow> JNull
         | Inr ds \<Rightarrow>
             if list_all (\<lambda>d. hashable (jget d ''name'')) ds
             then (case find (\<lambda>d. jget d ''name'' = JStr name) (rev ds) of None \<Rightarrow> JNull | Some d \<Rightarrow> JObj d) else JNull)
    | _ \<Rightarrow> JNull)"

definition truenas_run :: "(exn \<Rightarrow> string) \<Rightarrow> (nat \<Rightarrow> string + json) \<Rightarrow> nas_report rpc" where
  "truenas_run text recv =
     rpc_then (rpc_call text recv ''auth.login_with_api_key'') (\<lambda>auth.
       if auth \<noteq> JBool True then (\<lambda>st. Some (Inl ''API key rejected (needs the Read Only Admin role)'', st))
       else rpc_then (rpc_call text recv ''system.info'') (\<lambda>info.
         rpc_then (rpc_call text recv ''pool.query'') (\<lambda>pools.
           rpc_then (rpc_or (JArr []) (rpc_call text recv ''disk.query'')) (\<lambda>disks.
             rpc_then (rpc_or (JArr []) (rpc_call text recv ''alert.list'')) (\<lambda>alerts.
               rpc_then (rpc_or (JArr []) (rpc_call text recv ''service.query'')) (\<lambda>services.
                 rpc_then (rpc_or JNull (rpc_call text recv ''reporting.get_data'')) (\<lambda>graphs. \<lambda>st.
                   Some (case truenas_metrics info pools disks alerts (graph_named graphs ''cpu'') (graph_named graphs ''memory'') services of
                       Inl e \<Rightarrow> Inl (text e) | Inr r \<Rightarrow> Inr r, st))))))))"

end
