(* ===== verification/HypervisorFacts.thy ===== *)
theory HypervisorFacts
  imports Hypervisors
begin

text \<open>
  The waiting loops end: a task is waited for as long as the clock allows, twenty-one looks at most; the
  reader of the TrueNAS socket finds its answer behind any number of other messages, and waits for ever
  only for one that never comes.
\<close>

section \<open>Tasks\<close>

lemma proxmox_wait_ends:
  assumes "i \<le> n" and "deadline \<le> clock n"
  shows "\<exists>r. proxmox_wait status clock deadline i = Some r"
  using assms(1)
proof (induction rule: inc_induct)
  case base
  then show ?case using assms(2) by (subst proxmox_wait.simps) (simp split: sum.split)
next
  case (step i)
  then show ?case by (subst proxmox_wait.simps) (auto split: sum.split)
qed

lemma proxmox_wait_reads:
  assumes "i \<le> n" and "deadline \<le> clock n" and "\<forall>j\<le>n. status' j = status j"
  shows "proxmox_wait status' clock deadline i = proxmox_wait status clock deadline i"
  using assms(1)
proof (induction rule: inc_induct)
  case base
  then show ?case using assms(2,3) by (subst (1 2) proxmox_wait.simps) (simp split: sum.split)
next
  case (step i)
  then show ?case using assms(3) by (subst (1 2) proxmox_wait.simps) (simp split: sum.split)
qed

lemma vmware_wait_ends:
  assumes "i \<le> n" and "deadline \<le> clock n"
  shows "\<exists>r. vmware_wait state clock deadline i = Some r"
  using assms(1)
proof (induction rule: inc_induct)
  case base
  then show ?case using assms(2) by (subst vmware_wait.simps) (simp split: task_state.split)
next
  case (step i)
  then show ?case by (subst vmware_wait.simps) (auto split: task_state.split)
qed

lemma vmware_wait_reads:
  assumes "i \<le> n" and "deadline \<le> clock n" and "\<forall>j\<le>n. state' j = state j"
  shows "vmware_wait state' clock deadline i = vmware_wait state clock deadline i"
  using assms(1)
proof (induction rule: inc_induct)
  case base
  then show ?case using assms(2,3) by (subst (1 2) vmware_wait.simps) (simp split: task_state.split)
next
  case (step i)
  then show ?case using assms(3) by (subst (1 2) vmware_wait.simps) (simp split: task_state.split)
qed

text \<open>Half a second of sleep per turn.\<close>

lemma clock_runs:
  fixes clock :: "nat \<Rightarrow> rat"
  assumes "\<And>i. clock i + 1 / 2 \<le> clock (Suc i)" and "now \<le> clock 0"
  shows "now + of_nat n / 2 \<le> clock n"
proof (induction n)
  case (Suc n)
  then show ?case using assms(1) [of n] by (simp add: field_simps)
qed (use assms(2) in simp)

lemma time_is_up:
  assumes "\<And>i. clock i + 1 / 2 \<le> clock (Suc i)" and "now \<le> clock 0"
  shows "now + task_timeout \<le> clock 20"
  using clock_runs [OF assms, of 20] by (simp add: task_timeout_def)

lemma after_wait_returns: "w \<noteq> None \<Longrightarrow> after_wait w task \<noteq> None"
  by (auto simp: after_wait_def split: sum.split)

lemma proxmox_act_bounded:
  assumes "\<And>i. clock i + 1 / 2 \<le> clock (Suc i)" and "now \<le> clock 0"
  shows "proxmox_act submit status clock now lg node kind vmid action \<noteq> None"
    and "\<forall>upid. \<forall>i\<le>20. status' upid i = status upid i \<Longrightarrow>
      proxmox_act submit status' clock now lg node kind vmid action = proxmox_act submit status clock now lg node kind vmid action"
proof -
  have up: "now + task_timeout \<le> clock 20" by (rule time_is_up [OF assms])
  have p: "proxmox_wait st clock (now + task_timeout) 0 \<noteq> None" for st
    using proxmox_wait_ends [of 0 20 "now + task_timeout" clock st] up by simp
  show "proxmox_act submit status clock now lg node kind vmid action \<noteq> None"
    unfolding proxmox_act_def by (simp add: after_wait_returns p del: not_None_eq split: sum.split)
  assume same: "\<forall>upid. \<forall>i\<le>20. status' upid i = status upid i"
  have "proxmox_wait (status' u) clock (now + task_timeout) 0 = proxmox_wait (status u) clock (now + task_timeout) 0" for u
    by (rule proxmox_wait_reads [where n = 20]) (use same up in simp_all)
  then show "proxmox_act submit status' clock now lg node kind vmid action = proxmox_act submit status clock now lg node kind vmid action"
    by (simp add: proxmox_act_def split: sum.split)
qed

section \<open>Answers\<close>

definition quiet :: "(nat \<Rightarrow> string + json) \<Rightarrow> int \<Rightarrow> nat \<Rightarrow> bool" where
  "quiet recv rid i = (\<forall>j\<ge>i. \<exists>m. recv j = Inr (JObj m) \<and> int_code (jget m ''id'') \<noteq> Some rid)"

lemma quiet_Suc: "quiet recv rid i \<Longrightarrow> quiet recv rid (Suc i) \<and> (\<exists>m. recv i = Inr (JObj m) \<and> int_code (jget m ''id'') \<noteq> Some rid)"
  by (simp add: quiet_def)

lemma reply_not_quiet:
  assumes "await_reply tx recv call rid i = Some y"
  shows "\<not> quiet recv rid i"
proof (rule await_reply.raw_induct [where P = "\<lambda>tx recv call rid i y. \<not> quiet recv rid i", OF _ assms])
  fix await and tx :: "exn \<Rightarrow> string" and recv call rid i and y :: "(string + json) \<times> nat"
  assume IH: "\<And>tx recv call rid i y. await tx recv call rid i = Some y \<Longrightarrow> \<not> quiet recv rid i"
    and step: "(case recv i of Inl e \<Rightarrow> Some (Inl e, Suc i)
      | Inr (JObj msg) \<Rightarrow> if int_code (jget msg ''id'') = Some rid then Some (rpc_verdict call msg, Suc i) else await tx recv call rid (Suc i)
      | Inr v \<Rightarrow> Some (Inl (tx AttributeError), Suc i)) = Some y"
  show "\<not> quiet recv rid i"
  proof
    assume q: "quiet recv rid i"
    then obtain m where m: "recv i = Inr (JObj m)" "int_code (jget m ''id'') \<noteq> Some rid" using quiet_Suc by blast
    have "await tx recv call rid (Suc i) = Some y" using step by (simp add: m)
    then have "\<not> quiet recv rid (Suc i)" by (rule IH)
    then show False using quiet_Suc [OF q] by simp
  qed
qed

lemma reply_after:
  assumes "i \<le> n" and "\<forall>j. i \<le> j \<and> j < n \<longrightarrow> (\<exists>m. recv j = Inr (JObj m) \<and> int_code (jget m ''id'') \<noteq> Some rid)"
    and "recv n = Inr (JObj msg)" and "int_code (jget msg ''id'') = Some rid"
  shows "await_reply tx recv call rid i = Some (rpc_verdict call msg, Suc n)"
  using assms(1,2)
proof (induction rule: inc_induct)
  case base
  then show ?case using assms(3,4) by (subst await_reply.simps) simp
next
  case (step k)
  then obtain m where "recv k = Inr (JObj m)" "int_code (jget m ''id'') \<noteq> Some rid" by blast
  moreover have "await_reply tx recv call rid (Suc k) = Some (rpc_verdict call msg, Suc n)"
    using step by simp
  ultimately show ?case by (subst await_reply.simps) simp
qed

text \<open>A call on the TrueNAS socket returns the answer to its own request, however many other messages
  come before it; and it does not return when they keep coming and its answer does not.\<close>

theorem reply_found:
  "(i \<le> n \<and> (\<forall>j. i \<le> j \<and> j < n \<longrightarrow> (\<exists>m. recv j = Inr (JObj m) \<and> int_code (jget m ''id'') \<noteq> Some rid)) \<and>
     recv n = Inr (JObj msg) \<and> int_code (jget msg ''id'') = Some rid \<longrightarrow>
     await_reply tx recv call rid i = Some (rpc_verdict call msg, Suc n)) \<and>
   (quiet recv rid i \<longrightarrow> await_reply tx recv call rid i = None)"
proof (intro conjI impI)
  show "await_reply tx recv call rid i = None" if "quiet recv rid i"
    using reply_not_quiet that by (cases "await_reply tx recv call rid i") auto
qed (use reply_after in blast)

theorem reply_found_witness:
  "await_reply (\<lambda>e. []) (\<lambda>j. Inr (JObj [(''id'', JInt (int j))])) ''pool.query'' 3 0 = Some (Inr JNull, 4)"
proof -
  have "rpc_verdict ''pool.query'' [(''id'', JInt 3)] = Inr JNull" by code_simp
  then show ?thesis
    using reply_found [where i = 0 and n = 3 and recv = "\<lambda>j. Inr (JObj [(''id'', JInt (int j))])" and rid = 3 and msg = "[(''id'', JInt 3)]"
        and tx = "\<lambda>e. []" and call = "''pool.query''", THEN conjunct1]
    by (simp add: jget_def int_code_def)
qed

end
