(* ===== verification/AuditLog.thy ===== *)
theory AuditLog
  imports Accounts History
begin

text \<open>
  The audit trail of \<open>app.py\<close> ("Audit"): the line every write leaves in the log, the view of the log an
  administrator reads, and the security headers of a response. The log file is the list of its lines,
  oldest first; a line is the JSON value it parses to, \<open>None\<close> when it does not parse. \<open>writable\<close> says
  whether the file can be appended to, \<open>ts\<close> is the clock's text.
\<close>

section \<open>Writing\<close>

text \<open>Who a line is about: a background thread has no request; a request may have no identity.\<close>

datatype caller = Background | Remote "ctx option" string

definition caller_name :: "caller \<Rightarrow> string" where
  "caller_name w = (case w of
      Background \<Rightarrow> ''monitor''
    | Remote None ip \<Rightarrow> ''-''
    | Remote (Some c) ip \<Rightarrow> g_name c)"

definition caller_ip :: "caller \<Rightarrow> string" where
  "caller_ip w = (case w of Background \<Rightarrow> ''-'' | Remote c ip \<Rightarrow> ip)"

definition caller_token :: "caller \<Rightarrow> string option" where
  "caller_token w = (case w of Remote (Some c) ip \<Rightarrow> g_token c | _ \<Rightarrow> None)"

definition audit_entry :: "string \<Rightarrow> caller \<Rightarrow> string \<Rightarrow> string \<Rightarrow> string option \<Rightarrow> nat \<Rightarrow> json dict" where
  "audit_entry ts w meth path target status =
     [(''ts'', JStr ts), (''user'', JStr (caller_name w)), (''ip'', JStr (caller_ip w)), (''method'', JStr meth),
      (''path'', JStr path), (''target'', JStr (case target of None \<Rightarrow> ''-'' | Some t \<Rightarrow> if t = [] then ''-'' else t)),
      (''status'', JInt (int status))] @
     (case caller_token w of None \<Rightarrow> [] | Some t \<Rightarrow> if t = [] then [] else [(''via'', JStr (''token:'' @ t))])"

definition audit_line :: "bool \<Rightarrow> string \<Rightarrow> caller \<Rightarrow> string \<Rightarrow> string \<Rightarrow> string option \<Rightarrow> nat \<Rightarrow>
    json option list \<Rightarrow> json option list" where
  "audit_line writable ts w meth path target status trail =
     (if writable then trail @ [Some (JObj (audit_entry ts w meth path target status))] else trail)"

text \<open>\<open>_audit\<close>, after every response: \<open>c\<close> and \<open>target\<close> are what the request left on \<open>g\<close>.\<close>

definition audit_response :: "bool \<Rightarrow> string \<Rightarrow> ctx option \<Rightarrow> string \<Rightarrow> string \<Rightarrow> string \<Rightarrow> string \<Rightarrow> string option \<Rightarrow> nat \<Rightarrow>
    json option list \<Rightarrow> json option list" where
  "audit_response writable ts c ip meth endpoint path target status trail =
     (if meth \<in> set WRITE_METHODS \<and> endpoint \<notin> set PUBLIC_ENDPOINTS
      then audit_line writable ts (Remote c ip) meth path target status trail else trail)"

section \<open>Reading\<close>

definition AUDIT_FIELDS :: "string list" where
  "AUDIT_FIELDS = [''ts'', ''user'', ''ip'', ''method'', ''path'', ''target'', ''status'', ''via'']"

definition audit_field :: "json dict \<Rightarrow> string \<Rightarrow> string" where
  "audit_field d k = (case map_of d k of None \<Rightarrow> [] | Some v \<Rightarrow> py_str v)"

definition audit_matches :: "json dict \<Rightarrow> string \<Rightarrow> bool" where
  "audit_matches d q = contains q (lower (join '' '' (map (audit_field d) AUDIT_FIELDS)))"

text \<open>A line that parses to something else than a dictionary has no \<open>get\<close>.\<close>

fun audit_filter :: "string \<Rightarrow> json list \<Rightarrow> exn + json list" where
  "audit_filter q [] = Inr []"
| "audit_filter q (e # es) = (case e of
      JObj d \<Rightarrow> (case audit_filter q es of
          Inl x \<Rightarrow> Inl x | Inr r \<Rightarrow> Inr (if audit_matches d q then e # r else r))
    | _ \<Rightarrow> Inl AttributeError)"

definition last_n :: "nat \<Rightarrow> 'a list \<Rightarrow> 'a list" where
  "last_n n xs = drop (length xs - n) xs"

definition parsed :: "json option list \<Rightarrow> json list" where
  "parsed ls = concat (map (\<lambda>l. case l of None \<Rightarrow> [] | Some v \<Rightarrow> [v]) ls)"

text \<open>A missing file is the empty log.\<close>

definition audit_list :: "string option \<Rightarrow> string \<Rightarrow> json option list \<Rightarrow> json list resp" where
  "audit_list limit_arg q0 trail =
     (let limit = qnum_int limit_arg 200 1 1000; q = lower (strip q0);
          entries = parsed (last_n 5000 trail)
      in if q = [] then Done (rev (last_n (nat limit) entries))
         else case audit_filter q entries of
             Inl x \<Rightarrow> Crash x
           | Inr es \<Rightarrow> Done (rev (last_n (nat limit) es)))"

section \<open>Security headers\<close>

definition CSP_SELF :: string where
  "CSP_SELF = ''default-src 'self'; script-src 'self' 'unsafe-inline'; '' @
     ''style-src 'self' 'unsafe-inline'; img-src 'self' data:; '' @
     ''connect-src 'self'; frame-ancestors 'none'; base-uri 'self'; '' @
     ''form-action 'self'; object-src 'none'' @ [CHR 0x27]"

definition CSP_DRILLIN :: string where
  "CSP_DRILLIN = ''frame-ancestors 'none'' @ [CHR 0x27]"

definition DRILLIN_ENDPOINTS :: "string list" where
  "DRILLIN_ENDPOINTS = [''node_drillin'', ''node_static'', ''node_plugin_asset'', ''node_ws'']"

definition security_headers :: "string \<Rightarrow> string \<Rightarrow> bool \<Rightarrow> bool \<Rightarrow> string dict" where
  "security_headers endpoint path tls hsts =
     [(''X-Content-Type-Options'', ''nosniff''), (''X-Frame-Options'', ''DENY''),
      (''Referrer-Policy'', ''strict-origin-when-cross-origin''),
      (''Content-Security-Policy'', if endpoint \<in> set DRILLIN_ENDPOINTS then CSP_DRILLIN else CSP_SELF)] @
     (if startswith ''/api/'' path then [(''Cache-Control'', ''no-store'')] else []) @
     (if tls \<and> hsts then [(''Strict-Transport-Security'', ''max-age=31536000'')] else [])"

text \<open>\<open>_secure_headers\<close>: \<open>setdefault\<close> leaves what the view has set.\<close>

definition secure_headers :: "string \<Rightarrow> string \<Rightarrow> bool \<Rightarrow> bool \<Rightarrow> string dict \<Rightarrow> string dict" where
  "secure_headers endpoint path tls hsts headers =
     foldl (\<lambda>h kv. set_default (fst kv) (snd kv) h) headers (security_headers endpoint path tls hsts)"

section \<open>The newest write is the first line read\<close>

lemma last_n_snoc: "0 < n \<Longrightarrow> last_n n (xs @ [x]) = last_n (n - 1) xs @ [x]"
  by (cases n) (simp_all add: last_n_def)

lemma parsed_append [simp]: "parsed (xs @ ys) = parsed xs @ parsed ys"
  by (simp add: parsed_def)

lemma parsed_Cons [simp]: "parsed [] = []" "parsed (Some v # ls) = v # parsed ls" "parsed (None # ls) = parsed ls"
  by (simp_all add: parsed_def)

lemma audit_filter_append:
  "audit_filter q (xs @ ys) = (case audit_filter q xs of Inl x \<Rightarrow> Inl x
     | Inr a \<Rightarrow> (case audit_filter q ys of Inl x \<Rightarrow> Inl x | Inr b \<Rightarrow> Inr (a @ b)))"
  by (induction xs) (simp_all split: sum.split json.split)

lemma audit_filter_dicts:
  "\<forall>e\<in>set es. \<exists>d. e = JObj d \<Longrightarrow>
   audit_filter q es = Inr (filter (\<lambda>e. case e of JObj d \<Rightarrow> audit_matches d q | _ \<Rightarrow> False) es)"
  by (induction es) auto

lemma qnum_int_range: "1 \<le> qnum_int a d 1 1000 \<and> qnum_int a d 1 1000 \<le> 1000"
  by (simp add: qnum_int_def Let_def split: option.splits)

lemma contains_append_left: "contains q w \<Longrightarrow> contains q (u @ w)"
  by (metis append.assoc contains_iff)

lemma contains_append_right: "contains q w \<Longrightarrow> contains q (w @ v)"
  by (metis append.assoc contains_iff)

lemma contains_join: "w \<in> set ws \<Longrightarrow> contains q w \<Longrightarrow> contains q (join sep ws)"
  by (induction sep ws rule: join.induct) (auto intro: contains_append_left contains_append_right)

lemma contains_refl: "contains q q"
  by (metis append_Nil append_Nil2 contains_iff)

end
