(* ===== verification/AuditFacts.thy ===== *)
theory AuditFacts
  imports AuditLog
begin

text \<open>What the audit trail shows (\<open>AuditLog\<close>): a write is the newest line an administrator reads.\<close>

definition dict_line :: "json option \<Rightarrow> bool" where
  "dict_line l = (case l of None \<Rightarrow> True | Some v \<Rightarrow> (case v of JObj d \<Rightarrow> True | _ \<Rightarrow> False))"

lemma parsed_dicts: "\<forall>l\<in>set ls. dict_line l \<Longrightarrow> \<forall>e\<in>set (parsed ls). \<exists>d. e = JObj d"
  by (induction ls) (auto simp: dict_line_def parsed_def split: option.splits json.splits)

lemma set_last_n: "set (last_n n xs) \<subseteq> set xs"
  by (auto simp: last_n_def dest: in_set_dropD)

lemma rev_last_n_snoc: "0 < n \<Longrightarrow> rev (last_n n (xs @ [x])) = x # rev (last_n (n - 1) xs)"
  by (simp add: last_n_snoc)

lemma limit_positive: "0 < qnum_int a 200 1 1000"
  using qnum_int_range [of a 200] by simp

lemma audit_line_dicts:
  "\<forall>l\<in>set trail. dict_line l \<Longrightarrow> \<forall>l\<in>set (audit_line w ts c meth path target status trail). dict_line l"
  by (auto simp: audit_line_def dict_line_def)

lemma lower_join: "lower (join sep ws) = join (lower sep) (map lower ws)"
  by (induction sep ws rule: join.induct) (simp_all add: lower_def)

lemma audit_matches_field:
  assumes "k \<in> set AUDIT_FIELDS" and "contains p (lower (audit_field d k))"
  shows "audit_matches d p"
proof -
  have "lower (audit_field d k) \<in> set (map lower (map (audit_field d) AUDIT_FIELDS))"
    using assms(1) by simp
  then show ?thesis
    using assms(2) contains_join unfolding audit_matches_def lower_join by blast
qed

lemma audit_list_snoc:
  assumes dicts: "\<forall>l\<in>set trail. dict_line l"
    and q: "strip q = [] \<or> audit_matches d (lower (strip q))"
  shows "\<exists>rest. audit_list limit_arg q (trail @ [Some (JObj d)]) = Done (JObj d # rest)"
proof (cases "lower (strip q) = []")
  case True
  then show ?thesis
    by (simp add: audit_list_def last_n_snoc rev_last_n_snoc limit_positive)
next
  case False
  then have m: "audit_matches d (lower (strip q))"
    using q by (auto simp: lower_def)
  have "\<forall>e\<in>set (parsed (last_n 4999 trail)). \<exists>d. e = JObj d"
    using dicts set_last_n [of 4999 trail] by (intro parsed_dicts) blast
  then obtain es where "audit_filter (lower (strip q)) (parsed (last_n 4999 trail)) = Inr es"
    by (simp add: audit_filter_dicts)
  then have "audit_filter (lower (strip q)) (parsed (last_n 4999 trail) @ [JObj d]) = Inr (es @ [JObj d])"
    using m by (simp add: audit_filter_append)
  then show ?thesis
    using False by (simp add: audit_list_def last_n_snoc rev_last_n_snoc limit_positive)
qed

text \<open>Every write leaves one line, whatever its status: the trail an administrator reads, with no filter or with any
  filter that occurs in one of the line's fields, starts with that line. A read, and a public route,
  leaves the trail as it is.\<close>

theorem write_heads_trail:
  assumes "\<forall>l\<in>set trail. dict_line l"
    and "strip q = [] \<or> (\<exists>k\<in>set AUDIT_FIELDS. contains (lower (strip q))
      (lower (audit_field (audit_entry ts (Remote c ip) meth path target status) k)))"
  shows "if meth \<in> set WRITE_METHODS \<and> endpoint \<notin> set PUBLIC_ENDPOINTS
    then \<exists>rest. audit_list limit_arg q (audit_response True ts c ip meth endpoint path target status trail) =
      Done (JObj (audit_entry ts (Remote c ip) meth path target status) # rest)
    else audit_response True ts c ip meth endpoint path target status trail = trail"
proof -
  have "strip q = [] \<or> audit_matches (audit_entry ts (Remote c ip) meth path target status) (lower (strip q))"
    using assms(2) audit_matches_field by blast
  then show ?thesis
    using audit_list_snoc [OF assms(1)] by (simp add: audit_response_def audit_line_def)
qed

theorem write_heads_trail_witness:
  "\<exists>rest. audit_list (Some ''50'') ''OPS-1''
     (audit_response True ''t'' (Some \<lparr>g_name = ''ops-1'', g_role = ''operator'', g_scope = None, g_token = None\<rparr>)
       ''10.0.0.7'' ''DELETE'' ''node_delete'' ''/api/nodes/a'' (Some ''nas'') 403 [None]) =
     Done (JObj (audit_entry ''t'' (Remote (Some \<lparr>g_name = ''ops-1'', g_role = ''operator'', g_scope = None, g_token = None\<rparr>)
       ''10.0.0.7'') ''DELETE'' ''/api/nodes/a'' (Some ''nas'') 403) # rest)"
proof -
  let ?c = "Some \<lparr>g_name = ''ops-1'', g_role = ''operator'', g_scope = None, g_token = None\<rparr>"
  have "\<forall>l\<in>set [None]. dict_line l"
    by (simp add: dict_line_def)
  moreover have "contains (lower (strip ''OPS-1''))
      (lower (audit_field (audit_entry ''t'' (Remote ?c ''10.0.0.7'') ''DELETE'' ''/api/nodes/a'' (Some ''nas'') 403) ''user''))"
    by code_simp
  then have "strip ''OPS-1'' = [] \<or> (\<exists>k\<in>set AUDIT_FIELDS. contains (lower (strip ''OPS-1''))
      (lower (audit_field (audit_entry ''t'' (Remote ?c ''10.0.0.7'') ''DELETE'' ''/api/nodes/a'' (Some ''nas'') 403) k)))"
    by (auto simp: AUDIT_FIELDS_def)
  moreover have "''DELETE'' \<in> set WRITE_METHODS \<and> ''node_delete'' \<notin> set PUBLIC_ENDPOINTS"
    by code_simp
  ultimately show ?thesis
    using write_heads_trail [of "[None]" "''OPS-1''" "''t''" ?c "''10.0.0.7''" "''DELETE''" "''/api/nodes/a''"
      "Some ''nas''" 403 "''node_delete''" "Some ''50''"] by presburger
qed

end
