(* ===== verification/Webhooks.thy ===== *)
theory Webhooks
  imports Notifier Registry
begin

text \<open>
  The notification settings of \<open>app.py\<close>: what an administrator sees of the webhooks (never their full
  URL), how a saved form replaces them, and the delivery of one message. The identifiers
  \<open>secrets.token_hex\<close> draws are a parameter, one per entry of the form; \<open>post\<close> is what a webhook
  answers, its status or the text of the failure. The dash and the tick of the test message are a hyphen
  and a stand-in character.
\<close>

section \<open>What a URL shows\<close>

text \<open>\<open>urlparse\<close>: control characters and spaces in front go, tabs and line ends go everywhere.\<close>

definition url_clean :: "string \<Rightarrow> string" where
  "url_clean u = filter (\<lambda>c. c \<notin> {CHR 0x09, CHR 0x0A, CHR 0x0D}) (dropWhile (\<lambda>c. (of_char c :: nat) \<le> 32) u)"

definition host_char :: "char \<Rightarrow> bool" where
  "host_char c \<longleftrightarrow> c \<notin> {CHR ''/'', CHR ''?'', CHR ''#''}"

definition url_after_host :: "string \<Rightarrow> string" where
  "url_after_host u = (let rest = drop_scheme (url_clean u)
     in if startswith ''//'' rest then dropWhile host_char (drop 2 rest) else rest)"

definition url_no_fragment :: "string \<Rightarrow> string" where
  "url_no_fragment u = takeWhile (\<lambda>c. c \<noteq> CHR ''#'') (url_after_host u)"

definition url_query :: "string \<Rightarrow> string" where
  "url_query u = drop 1 (dropWhile (\<lambda>c. c \<noteq> CHR ''?'') (url_no_fragment u))"

text \<open>The path loses the parameters of its last segment in the schemes that have some.\<close>

definition PARAM_SCHEMES :: "string list" where
  "PARAM_SCHEMES = ['''', ''ftp'', ''hdl'', ''prospero'', ''http'', ''imap'', ''https'', ''shttp'', ''rtsp'', ''rtsps'',
     ''rtspu'', ''sip'', ''sips'', ''mms'', ''sftp'', ''tel'']"

definition cut_params :: "string \<Rightarrow> string" where
  "cut_params p = (let seg = rev (takeWhile (\<lambda>c. c \<noteq> CHR ''/'') (rev p))
     in take (length p - length seg) p @ takeWhile (\<lambda>c. c \<noteq> CHR '';'') seg)"

definition url_path :: "string \<Rightarrow> string" where
  "url_path u = (let p = takeWhile (\<lambda>c. c \<noteq> CHR ''?'') (url_no_fragment u)
     in if url_scheme u \<in> set PARAM_SCHEMES then cut_params p else p)"

text \<open>\<open>hostname\<close> as an f-string prints it: the zone of an address keeps its case.\<close>

definition url_hostname :: "string \<Rightarrow> string" where
  "url_hostname loc = (let h = fst (host_port_text loc); base = takeWhile (\<lambda>c. c \<noteq> CHR ''%'') h
     in if h = [] then ''None'' else lower base @ drop (length base) h)"

definition mask_url :: "string \<Rightarrow> string" where
  "mask_url u = (case url_netloc u of
      None \<Rightarrow> ''(hidden)''
    | Some loc \<Rightarrow>
        let p = url_path u; tail = (if length p \<le> 24 then p else take 23 p @ [ellipsis])
        in url_scheme u @ ''://'' @ url_hostname loc @ tail @ (if url_query u \<noteq> [] then [CHR ''?'', ellipsis] else []))"

section \<open>The public view\<close>

record public_hook =
  ph_id :: string
  ph_name :: string
  ph_format :: string
  ph_min_severity :: string
  ph_tags :: "string list"
  ph_url_display :: string

record notify_view =
  nv_enabled :: bool
  nv_webhooks :: "public_hook list"
  nv_interval :: int

definition public_hook_of :: "webhook \<Rightarrow> public_hook" where
  "public_hook_of h = \<lparr>ph_id = w_id h, ph_name = w_name h, ph_format = w_format h,
     ph_min_severity = w_min_severity h, ph_tags = w_tags h, ph_url_display = mask_url (w_url h)\<rparr>"

definition public_notify_config :: "config \<Rightarrow> notify_view" where
  "public_notify_config cfg = \<lparr>nv_enabled = cf_notify_enabled cfg,
     nv_webhooks = map public_hook_of (cf_webhooks cfg), nv_interval = tuned cfg ''monitor_interval''\<rparr>"

section \<open>Saving\<close>

definition http_url :: "string \<Rightarrow> bool" where
  "http_url u \<longleftrightarrow> startswith ''http://'' (lower u) \<or> startswith ''https://'' (lower u)"

definition SEVERITY_NAMES :: "string list" where
  "SEVERITY_NAMES = [''critical'', ''warning'', ''info'']"

text \<open>\<open>sev not in SEVERITY\<close> needs a hashable value.\<close>

definition clean_severity :: "json dict \<Rightarrow> exn + string" where
  "clean_severity d = (case map_of d ''min_severity'' of
      None \<Rightarrow> Inr ''warning''
    | Some (JStr s) \<Rightarrow> Inr (if s \<in> set SEVERITY_NAMES then s else ''warning'')
    | Some (JArr vs) \<Rightarrow> Inl TypeError
    | Some (JObj x) \<Rightarrow> Inl TypeError
    | Some v \<Rightarrow> Inr ''warning'')"

definition or_default :: "string \<Rightarrow> string \<Rightarrow> string" where
  "or_default s dflt = (if s = [] then dflt else s)"

text \<open>One entry of the form; \<open>Inr None\<close> when it is left out. \<open>existing\<close> is the stored hooks by id.\<close>

definition save_hook :: "string \<Rightarrow> webhook dict \<Rightarrow> json \<Rightarrow> exn + webhook option" where
  "save_hook fresh existing v = (case v of
      JObj d \<Rightarrow>
        let hid = or_default (field_str (jget d ''id'')) fresh;
            typed = field_str (jget d ''url'');
            url = (if typed = [] then (case map_of existing hid of None \<Rightarrow> typed | Some h \<Rightarrow> w_url h) else typed)
        in if \<not> http_url url then Inr None
           else (case clean_severity d of
               Inl e \<Rightarrow> Inl e
             | Inr sev \<Rightarrow> Inr (Some \<lparr>w_id = hid, w_name = or_default (field_str (jget d ''name'')) ''webhook'',
                 w_url = url, w_format = or_default (field_str (jget d ''format'')) ''gchat'',
                 w_min_severity = sev, w_tags = clean_scope_tags (jget d ''tags'')\<rparr>))
    | _ \<Rightarrow> Inr None)"

fun save_hooks :: "(nat \<Rightarrow> string) \<Rightarrow> nat \<Rightarrow> webhook dict \<Rightarrow> json list \<Rightarrow> exn + webhook list" where
  "save_hooks fresh i existing [] = Inr []"
| "save_hooks fresh i existing (v # vs) = (case save_hook (fresh i) existing v of
      Inl e \<Rightarrow> Inl e
    | Inr r \<Rightarrow> (case save_hooks fresh (Suc i) existing vs of
        Inl e \<Rightarrow> Inl e
      | Inr hs \<Rightarrow> Inr (case r of None \<Rightarrow> hs | Some h \<Rightarrow> h # hs)))"

text \<open>Of two stored hooks with one id the dictionary keeps the later.\<close>

definition hooks_by_id :: "webhook list \<Rightarrow> webhook dict" where
  "hooks_by_id hs = rev (map (\<lambda>h. (w_id h, h)) hs)"

definition notifications_save :: "(nat \<Rightarrow> string) \<Rightarrow> json dict \<Rightarrow> app \<Rightarrow> notify_view resp \<times> app" where
  "notifications_save fresh data s =
     (let incoming = (case jget data ''webhooks'' of JArr vs \<Rightarrow> vs | _ \<Rightarrow> [])
      in case save_hooks fresh 0 (hooks_by_id (cf_webhooks (st_cfg s))) incoming of
           Inl e \<Rightarrow> (Crash e, s)
         | Inr hooks \<Rightarrow>
             let cfg = (st_cfg s)\<lparr>cf_notify_enabled := truthy (jget data ''enabled''), cf_webhooks := hooks\<rparr>
             in (Done (public_notify_config cfg),
                 set_audit (''notifications ('' @ show_nat (length hooks) @ '' webhook(s))'') (s\<lparr>st_cfg := cfg\<rparr>)))"

definition notifications_get :: "app \<Rightarrow> notify_view" where
  "notifications_get s = public_notify_config (st_cfg s)"

section \<open>Delivery\<close>

definition send_webhook :: "(string \<Rightarrow> payload \<Rightarrow> string + nat) \<Rightarrow> webhook \<Rightarrow> string \<Rightarrow> string \<Rightarrow> bool \<times> string option" where
  "send_webhook post hook title message =
     (case post (w_url hook) (webhook_payload (w_format hook) title message) of
        Inl e \<Rightarrow> (False, Some e)
      | Inr status \<Rightarrow> if 300 \<le> status then (False, Some (''HTTP '' @ show_nat status)) else (True, None))"

record hook_result =
  hr_name :: string
  hr_ok :: bool
  hr_error :: "string option"

definition test_message :: "webhook \<Rightarrow> string" where
  "test_message h = CHR 0x89 # '' Test notification - webhook *'' @ w_name h @ ''* is working.''"

definition notifications_test :: "(string \<Rightarrow> payload \<Rightarrow> string + nat) \<Rightarrow> app \<Rightarrow> hook_result list resp \<times> app" where
  "notifications_test post s =
     (let hooks = cf_webhooks (st_cfg s)
      in if hooks = [] then (Fail 400 ''no webhooks configured'', s)
         else (Done (map (\<lambda>h. let (ok, e) = send_webhook post h ''Nexus Controller'' (test_message h)
                 in \<lparr>hr_name = w_name h, hr_ok = ok, hr_error = e\<rparr>) hooks),
               set_audit ''notifications-test'' s))"

end
