(* ===== verification/WebhookFacts.thy ===== *)
theory WebhookFacts
  imports Webhooks
begin

text \<open>
  What the notification settings promise (\<open>Webhooks\<close>): a save leaves only well-formed webhooks, whose URL
  the administrator typed or the same webhook had before; sending back what the public view shows
  changes nothing; and the shown URL hides the query, where the tokens are.
\<close>

section \<open>Stored webhooks\<close>

definition hook_ok :: "webhook \<Rightarrow> bool" where
  "hook_ok h \<longleftrightarrow> w_id h \<noteq> [] \<and> strip (w_id h) = w_id h \<and> w_name h \<noteq> [] \<and> strip (w_name h) = w_name h \<and>
     w_format h \<noteq> [] \<and> strip (w_format h) = w_format h \<and> http_url (w_url h) \<and>
     w_min_severity h \<in> set SEVERITY_NAMES \<and> tags_ok (w_tags h)"

text \<open>Where the URL of a saved webhook is from.\<close>

definition url_known :: "webhook list \<Rightarrow> json list \<Rightarrow> webhook \<Rightarrow> bool" where
  "url_known stored form h \<longleftrightarrow>
     (\<exists>d. JObj d \<in> set form \<and> field_str (jget d ''url'') = w_url h) \<or> (\<exists>p\<in>set stored. w_id p = w_id h \<and> w_url p = w_url h)"

lemma strip_field_str [simp]: "strip (field_str v) = field_str v"
proof (cases v)
  case JNull
  then show ?thesis by (simp add: field_str_def strip_def lstrip_def)
qed (simp_all add: field_str_def)

lemma strip_or_default: "strip dflt = dflt \<Longrightarrow> strip (or_default (field_str v) dflt) = or_default (field_str v) dflt"
  by (auto simp: or_default_def)

lemma or_default_nonempty: "dflt \<noteq> [] \<Longrightarrow> or_default s dflt \<noteq> []"
  by (simp add: or_default_def)

lemma or_default_given [simp]: "s \<noteq> [] \<Longrightarrow> or_default s dflt = s"
  by (simp add: or_default_def)

lemma clean_severity_known: "clean_severity d = Inr s \<Longrightarrow> s \<in> set SEVERITY_NAMES"
  by (auto simp: clean_severity_def SEVERITY_NAMES_def split: option.splits json.splits if_splits)

lemma strip_defaults: "strip ''webhook'' = ''webhook''" "strip ''gchat'' = ''gchat''"
  by code_simp+

lemma hooks_by_id_Some: "map_of (hooks_by_id hs) i = Some h \<Longrightarrow> h \<in> set hs \<and> w_id h = i"
  by (drule map_of_SomeD) (auto simp: hooks_by_id_def)

lemma save_hook_ok:
  assumes saved: "save_hook new (hooks_by_id stored) v = Inr (Some h)"
    and new: "new \<noteq> []" "strip new = new"
  shows "hook_ok h \<and> (v \<in> set form \<longrightarrow> url_known stored form h)"
proof -
  obtain d sev where v: "v = JObj d" and sev: "clean_severity d = Inr sev"
    using saved by (auto simp: save_hook_def Let_def split: json.splits if_splits sum.splits)
  define hid where "hid = or_default (field_str (jget d ''id'')) new"
  define url where "url = (if field_str (jget d ''url'') = []
    then (case map_of (hooks_by_id stored) hid of None \<Rightarrow> field_str (jget d ''url'') | Some p \<Rightarrow> w_url p) else field_str (jget d ''url''))"
  have h: "http_url url" "h = \<lparr>w_id = hid, w_name = or_default (field_str (jget d ''name'')) ''webhook'', w_url = url,
      w_format = or_default (field_str (jget d ''format'')) ''gchat'', w_min_severity = sev,
      w_tags = clean_scope_tags (jget d ''tags'')\<rparr>"
    using saved sev unfolding v save_hook_def hid_def url_def by (auto simp: Let_def split: if_splits)
  have "hid \<noteq> []" "strip hid = hid"
    unfolding hid_def by (simp_all add: or_default_nonempty strip_or_default new)
  moreover have "url_known stored form h" if "v \<in> set form"
  proof (cases "field_str (jget d ''url'') = []")
    case True
    then have "map_of (hooks_by_id stored) hid \<noteq> None"
      using h(1) by (auto simp: url_def http_url_def startswith_def lower_def split: option.splits)
    then show ?thesis
      using True hooks_by_id_Some h(2) by (fastforce simp: url_known_def url_def)
  next
    case False
    then show ?thesis
      using that v h(2) by (auto simp: url_known_def url_def)
  qed
  ultimately show ?thesis
    using h clean_severity_known [OF sev] clean_scope_tags_shape
    by (simp add: hook_ok_def or_default_nonempty strip_or_default strip_defaults)
qed

lemma save_hooks_ok:
  assumes "\<forall>i. fresh i \<noteq> [] \<and> strip (fresh i) = fresh i"
  shows "save_hooks fresh i (hooks_by_id stored) vs = Inr hs \<Longrightarrow> set vs \<subseteq> set form \<Longrightarrow>
    \<forall>h\<in>set hs. hook_ok h \<and> url_known stored form h"
proof (induction vs arbitrary: i hs)
  case (Cons v vs)
  obtain r ks where r: "save_hook (fresh i) (hooks_by_id stored) v = Inr r"
      and ks: "save_hooks fresh (Suc i) (hooks_by_id stored) vs = Inr ks"
      and hs: "hs = (case r of None \<Rightarrow> ks | Some h \<Rightarrow> h # ks)"
    using Cons.prems(1) by (auto split: sum.splits)
  have "\<forall>h\<in>set ks. hook_ok h \<and> url_known stored form h"
    using Cons.IH [OF ks] Cons.prems(2) by simp
  moreover have "hook_ok h \<and> url_known stored form h" if "r = Some h" for h
    using save_hook_ok r that assms Cons.prems(2) by fastforce
  ultimately show ?case
    using hs by (auto split: option.splits)
qed simp

text \<open>The entries of a form.\<close>

definition form_hooks :: "json dict \<Rightarrow> json list" where
  "form_hooks data = (case jget data ''webhooks'' of JArr vs \<Rightarrow> vs | _ \<Rightarrow> [])"

text \<open>A save of the notification settings keeps the stored webhooks well formed: each has an identifier,
  a name, an http or https URL, a known severity and clean tags. And no webhook gets the URL of
  another: its URL was typed in the form, or is the one stored under the same identifier.\<close>

theorem saved_hooks_sound:
  assumes "\<forall>i. fresh i \<noteq> [] \<and> strip (fresh i) = fresh i"
    and "\<forall>h\<in>set (cf_webhooks (st_cfg s)). hook_ok h"
  shows "\<forall>h\<in>set (cf_webhooks (st_cfg (snd (notifications_save fresh data s)))).
    hook_ok h \<and> url_known (cf_webhooks (st_cfg s)) (form_hooks data) h"
proof (cases "save_hooks fresh 0 (hooks_by_id (cf_webhooks (st_cfg s))) (form_hooks data)")
  case (Inl e)
  then show ?thesis
    using assms(2) by (auto simp: notifications_save_def form_hooks_def [symmetric] url_known_def)
next
  case (Inr hs)
  then show ?thesis
    using save_hooks_ok [OF assms(1) Inr, of "form_hooks data"] by (simp add: notifications_save_def form_hooks_def [symmetric] set_audit_def Let_def)
qed

section \<open>Sending the view back\<close>

definition resave_entry :: "public_hook \<Rightarrow> json" where
  "resave_entry p = JObj [(''id'', JStr (ph_id p)), (''name'', JStr (ph_name p)), (''url'', JStr []),
     (''format'', JStr (ph_format p)), (''min_severity'', JStr (ph_min_severity p)), (''tags'', JArr (map JStr (ph_tags p)))]"

definition resave_form :: "notify_view \<Rightarrow> json dict" where
  "resave_form v = [(''enabled'', JBool (nv_enabled v)), (''webhooks'', JArr (map resave_entry (nv_webhooks v)))]"

lemma hooks_by_id_self:
  assumes "distinct (map w_id hs)" and "h \<in> set hs"
  shows "map_of (hooks_by_id hs) (w_id h) = Some h"
  using assms by (intro map_of_is_SomeI) (auto simp: hooks_by_id_def rev_map [symmetric] o_def)

lemma save_hook_resave:
  assumes "distinct (map w_id hs)" "h \<in> set hs" "hook_ok h" "\<forall>t\<in>set (w_tags h). strip t = t"
  shows "save_hook new (hooks_by_id hs) (resave_entry (public_hook_of h)) = Inr (Some h)"
proof -
  have ok: "w_id h \<noteq> []" "strip (w_id h) = w_id h" "w_name h \<noteq> []" "strip (w_name h) = w_name h"
      "w_format h \<noteq> []" "strip (w_format h) = w_format h" "http_url (w_url h)" "w_min_severity h \<in> set SEVERITY_NAMES"
    using assms(3) by (simp_all add: hook_ok_def)
  have tags: "clean_scope_tags (JArr (map JStr (w_tags h))) = w_tags h"
    using assms(3,4) by (intro clean_scope_tags_id) (simp_all add: hook_ok_def)
  have empty: "field_str (JStr []) = []"
    by (simp add: field_str_def py_str_def strip_def lstrip_def)
  have str: "field_str (JStr x) = x" if "strip x = x" for x
    using that by (simp add: field_str_def py_str_def)
  show ?thesis
    using ok by (simp add: save_hook_def resave_entry_def public_hook_of_def jget_def clean_severity_def
        str empty hooks_by_id_self [OF assms(1,2)] tags Let_def)
qed

lemma save_hooks_resave:
  assumes "distinct (map w_id all)" "\<forall>h\<in>set all. hook_ok h \<and> (\<forall>t\<in>set (w_tags h). strip t = t)"
  shows "set hs \<subseteq> set all \<Longrightarrow>
    save_hooks fresh i (hooks_by_id all) (map (\<lambda>h. resave_entry (public_hook_of h)) hs) = Inr hs"
proof (induction hs arbitrary: i)
  case (Cons h hs)
  have "save_hook (fresh i) (hooks_by_id all) (resave_entry (public_hook_of h)) = Inr h'" if "h' = Some h" for h'
    using save_hook_resave [OF assms(1)] assms(2) Cons.prems that by simp
  then show ?case
    using Cons by simp
qed simp

text \<open>C23: The masked settings can be saved back without typing the URLs again: with well-formed webhooks of
  distinct identifiers, whose tags have no spaces at their ends, saving what the public view shows, URLs left blank, answers with the same view
  and changes neither the webhooks nor anything else but the audit target.\<close>

theorem masked_resave:
  assumes "\<forall>h\<in>set (cf_webhooks (st_cfg s)). hook_ok h \<and> (\<forall>t\<in>set (w_tags h). strip t = t)"
    and "distinct (map w_id (cf_webhooks (st_cfg s)))"
  shows "notifications_save fresh (resave_form (notifications_get s)) s =
    (Done (notifications_get s), set_audit (''notifications ('' @ show_nat (length (cf_webhooks (st_cfg s))) @ '' webhook(s))'') s)"
proof -
  have "save_hooks fresh 0 (hooks_by_id (cf_webhooks (st_cfg s)))
      (map (\<lambda>h. resave_entry (public_hook_of h)) (cf_webhooks (st_cfg s))) = Inr (cf_webhooks (st_cfg s))"
    by (rule save_hooks_resave [OF assms(2,1)]) simp
  then show ?thesis
    by (simp add: notifications_save_def resave_form_def notifications_get_def public_notify_config_def jget_def
        o_def set_audit_def Let_def)
qed

section \<open>What a shown URL hides\<close>

definition visible_char :: "char \<Rightarrow> bool" where
  "visible_char c \<longleftrightarrow> c \<notin> {CHR 0x09, CHR 0x0A, CHR 0x0D}"

definition scheme_ok :: "string \<Rightarrow> bool" where
  "scheme_ok s \<longleftrightarrow> s \<noteq> [] \<and> list_all scheme_char s \<and> \<not> is_digit (hd s) \<and> hd s \<notin> {CHR ''+'', CHR ''-'', CHR ''.''}"

lemma scheme_char_plain:
  assumes "scheme_char c"
  shows "32 < (of_char c :: nat)" "visible_char c" "c \<noteq> CHR '':''"
  using assms by (auto simp: scheme_char_def visible_char_def is_digit_def Let_def)

lemma url_clean_scheme:
  assumes "scheme_ok s"
  shows "url_clean (s @ ''://'' @ r) = s @ ''://'' @ filter visible_char r"
proof -
  have "filter visible_char s = s"
    using assms by (auto simp: scheme_ok_def list_all_iff scheme_char_plain intro: filter_True)
  moreover have "dropWhile (\<lambda>c. (of_char c :: nat) \<le> 32) (s @ ''://'' @ r) = s @ ''://'' @ r"
    using assms scheme_char_plain(1) [of "hd s"] by (cases s) (auto simp: scheme_ok_def)
  moreover have "filter visible_char ''://'' = ''://''"
    by code_simp
  ultimately show ?thesis
    by (simp add: url_clean_def visible_char_def [abs_def])
qed

lemma takeWhile_scheme: "scheme_ok s \<Longrightarrow> takeWhile (\<lambda>c. c \<noteq> CHR '':'') (s @ CHR '':'' # r) = s"
  by (auto simp: takeWhile_append scheme_ok_def list_all_iff dest: scheme_char_plain(3))

lemma drop_scheme_ok: "scheme_ok s \<Longrightarrow> drop_scheme (s @ ''://'' @ r) = ''//'' @ r"
  using takeWhile_scheme [of s "''//'' @ r"] by (auto simp: drop_scheme_def Let_def scheme_ok_def list_all_iff)

lemma url_scheme_ok: "scheme_ok s \<Longrightarrow> url_scheme (s @ ''://'' @ r) = lower s"
  using url_clean_scheme [of s r] drop_scheme_ok [of s "filter visible_char r"]
  by (simp add: url_scheme_def url_clean_def Let_def)

lemma after_at_prefix: "after_at (u @ CHR ''@'' # n) = after_at n"
proof (cases "CHR ''@'' \<in> set n")
  case True
  then show ?thesis by (simp add: after_at_def takeWhile_append1)
next
  case False
  then have "takeWhile (\<lambda>c. c \<noteq> CHR ''@'') (rev n @ CHR ''@'' # rev u) = rev n" "takeWhile (\<lambda>c. c \<noteq> CHR ''@'') (rev n) = rev n"
    by (auto simp: takeWhile_append takeWhile_eq_all_conv)
  then show ?thesis unfolding after_at_def rev_append rev.simps append.assoc append_Cons append_Nil by argo
qed

lemma url_hostname_prefix: "url_hostname (u @ CHR ''@'' # n) = url_hostname n"
  by (simp add: url_hostname_def host_port_text_def after_at_prefix)

text \<open>The shown form of \<open>scheme://r?query\<close>.\<close>

definition shown :: "string \<Rightarrow> string \<Rightarrow> string \<Rightarrow> string" where
  "shown sch loc after =
     (let p0 = after; p = (if lower sch \<in> set PARAM_SCHEMES then cut_params p0 else p0)
      in lower sch @ ''://'' @ url_hostname loc @ (if length p \<le> 24 then p else take 23 p @ [ellipsis]) @ [CHR ''?'', ellipsis])"

lemma url_netloc_clean:
  "url_netloc u = (let rest = drop_scheme (url_clean u); loc = (if startswith ''//'' rest then takeWhile host_char (drop 2 rest) else [])
     in if (CHR ''['' \<in> set loc) \<noteq> (CHR '']'' \<in> set loc) then None else Some loc)"
  by (simp add: url_netloc_def url_clean_def host_char_def [abs_def] Let_def)

lemma host_char_at [simp]: "host_char (CHR ''@'')" "\<not> host_char (CHR ''?'')"
  by (simp_all add: host_char_def)

lemma filter_visible: "list_all p s \<Longrightarrow> list_all p (filter visible_char s)"
  by (auto simp: list_all_iff)

lemma mask_url_parts:
  assumes s: "scheme_ok s" and u: "list_all host_char u"
    and r: "list_all (\<lambda>c. c \<noteq> CHR ''?'' \<and> c \<noteq> CHR ''#'') r"
    and q: "q \<noteq> []" "hd q \<noteq> CHR ''#''" "visible_char (hd q)"
  defines "fu \<equiv> filter visible_char u" and "fr \<equiv> filter visible_char r"
  defines "loc \<equiv> fu @ takeWhile host_char fr"
  shows "mask_url (s @ ''://'' @ u @ r @ ''?'' @ q) =
    (if (CHR ''['' \<in> set loc) \<noteq> (CHR '']'' \<in> set loc) then ''(hidden)'' else shown s loc (dropWhile host_char fr))"
proof -
  define fq where "fq = filter visible_char q"
  let ?url = "s @ ''://'' @ u @ r @ ''?'' @ q"
  have clean: "url_clean ?url = s @ ''://'' @ fu @ fr @ CHR ''?'' # fq"
    using url_clean_scheme [OF s, of "u @ r @ ''?'' @ q"] by (simp add: fu_def fr_def fq_def visible_char_def)
  have rest: "drop_scheme (url_clean ?url) = ''//'' @ fu @ fr @ CHR ''?'' # fq"
    unfolding clean by (rule drop_scheme_ok [OF s])
  have fu: "list_all host_char fu" and fr: "list_all (\<lambda>c. c \<noteq> CHR ''?'' \<and> c \<noteq> CHR ''#'') fr"
    unfolding fu_def fr_def by (rule filter_visible [OF u], rule filter_visible [OF r])
  have tw: "takeWhile host_char (fu @ fr @ CHR ''?'' # fq) = loc"
    using fu by (auto simp: loc_def takeWhile_append list_all_iff intro: takeWhile_eq_all_conv [THEN iffD2, symmetric])
  have dw: "dropWhile host_char (fu @ fr @ CHR ''?'' # fq) = dropWhile host_char fr @ CHR ''?'' # fq"
    using fu by (simp add: dropWhile_append list_all_iff dropWhile_append3)
  have nofrag: "url_no_fragment ?url = dropWhile host_char fr @ CHR ''?'' # takeWhile (\<lambda>c. c \<noteq> CHR ''#'') fq"
    using fr rest dw by (auto simp: url_no_fragment_def url_after_host_def startswith_def takeWhile_append list_all_iff
        dest: set_dropWhileD)
  have stop: "takeWhile (\<lambda>c. c \<noteq> CHR ''?'') (dropWhile host_char fr @ CHR ''?'' # x) = dropWhile host_char fr"
      "dropWhile (\<lambda>c. c \<noteq> CHR ''?'') (dropWhile host_char fr @ CHR ''?'' # x) = CHR ''?'' # x" for x
    using fr by (auto simp: takeWhile_append dropWhile_append list_all_iff dest: set_dropWhileD)
  have "takeWhile (\<lambda>c. c \<noteq> CHR ''#'') fq \<noteq> []"
    using q by (cases q) (auto simp: fq_def)
  then have query: "url_query ?url \<noteq> []"
    unfolding url_query_def nofrag stop by simp
  have netloc: "url_netloc ?url = (if (CHR ''['' \<in> set loc) \<noteq> (CHR '']'' \<in> set loc) then None else Some loc)"
    unfolding url_netloc_clean rest using tw by (simp add: startswith_def Let_def)
  have path: "url_path ?url = (if lower s \<in> set PARAM_SCHEMES then cut_params (dropWhile host_char fr) else dropWhile host_char fr)"
    unfolding url_path_def nofrag stop url_scheme_ok [OF s] by (simp add: Let_def)
  show ?thesis
    unfolding mask_url_def netloc path url_scheme_ok [OF s] using query by (simp add: shown_def Let_def)
qed

text \<open>The shown URL of a webhook hides its secrets: neither the query nor the user information before the
  host leave a trace in it, beyond the mark that there is a query.\<close>

theorem mask_url_hides:
  assumes "scheme_ok s" and "list_all (\<lambda>c. host_char c \<and> c \<noteq> CHR ''['' \<and> c \<noteq> CHR '']'') u"
    and "list_all (\<lambda>c. c \<noteq> CHR ''?'' \<and> c \<noteq> CHR ''#'') r"
    and "q \<noteq> [] \<and> hd q \<noteq> CHR ''#'' \<and> visible_char (hd q)" and "p \<noteq> [] \<and> hd p \<noteq> CHR ''#'' \<and> visible_char (hd p)"
  shows "mask_url (s @ ''://'' @ u @ ''@'' @ r @ ''?'' @ q) = mask_url (s @ ''://'' @ r @ ''?'' @ p)"
proof -
  let ?fu = "filter visible_char u" and ?loc = "takeWhile host_char (filter visible_char r)"
  have user: "list_all host_char (u @ ''@'')"
    using assms(2) by (auto simp: list_all_iff)
  have at: "filter visible_char (u @ ''@'') = ?fu @ ''@''"
    by (simp add: visible_char_def)
  have eq: "(?fu @ ''@'') @ ?loc = ?fu @ CHR ''@'' # ?loc"
    by simp
  have q: "q \<noteq> []" "hd q \<noteq> CHR ''#''" "visible_char (hd q)"
    using assms(4) by simp_all
  have left: "mask_url (s @ ''://'' @ (u @ ''@'') @ r @ ''?'' @ q) =
    (if (CHR ''['' \<in> set (?fu @ CHR ''@'' # ?loc)) \<noteq> (CHR '']'' \<in> set (?fu @ CHR ''@'' # ?loc)) then ''(hidden)''
     else shown s (?fu @ CHR ''@'' # ?loc) (dropWhile host_char (filter visible_char r)))"
    using mask_url_parts [OF assms(1) user assms(3) q] unfolding at eq .
  have "shown s (?fu @ CHR ''@'' # ?loc) x = shown s ?loc x" for x
    by (simp add: shown_def url_hostname_prefix)
  moreover have "mask_url (s @ ''://'' @ [] @ r @ ''?'' @ p) =
    (if (CHR ''['' \<in> set ?loc) \<noteq> (CHR '']'' \<in> set ?loc) then ''(hidden)'' else shown s ?loc (dropWhile host_char (filter visible_char r)))"
    using mask_url_parts [OF assms(1) _ assms(3), of "[]" p] assms(5) by simp
  moreover have "CHR ''['' \<notin> set u \<and> CHR '']'' \<notin> set u"
    using assms(2) by (auto simp: list_all_iff)
  ultimately show ?thesis
    using left by simp
qed

section \<open>Concrete instances\<close>

definition chat_hook :: webhook where
  "chat_hook = \<lparr>w_id = ''a1'', w_name = ''chat'', w_url = ''https://chat/x?key=k'', w_format = ''gchat'',
     w_min_severity = ''critical'', w_tags = [''lab'']\<rparr>"

definition hooked :: app where
  "hooked = empty_app\<lparr>st_cfg := empty_config\<lparr>cf_notify_enabled := True, cf_webhooks := [chat_hook]\<rparr>\<rparr>"

lemma chat_hook_ok: "hook_ok chat_hook"
  by code_simp

lemma hooked_hooks: "cf_webhooks (st_cfg hooked) = [chat_hook]"
  by (simp add: hooked_def)

theorem saved_hooks_sound_witness:
  "\<forall>h\<in>set (cf_webhooks (st_cfg (snd (notifications_save (\<lambda>i. ''f'' @ show_nat i)
      [(''enabled'', JBool True), (''webhooks'', JArr [JObj [(''id'', JStr ''a1'')], JObj [(''url'', JStr ''ftp://x'')],
        JObj [(''url'', JStr '' http://n ''), (''min_severity'', JInt 3)]])] hooked)))).
    hook_ok h \<and> url_known [chat_hook]
      [JObj [(''id'', JStr ''a1'')], JObj [(''url'', JStr ''ftp://x'')], JObj [(''url'', JStr '' http://n ''), (''min_severity'', JInt 3)]] h"
proof -
  have "\<not> is_ws (CHR ''f'')"
    by code_simp
  then have "strip (''f'' @ show_nat i) = ''f'' @ show_nat i" for i
    using show_nat_digits(2) [of i] by (intro strip_no_ws) (auto dest: digit_not_ws)
  then have fresh: "\<forall>i. ''f'' @ show_nat i \<noteq> [] \<and> strip (''f'' @ show_nat i) = ''f'' @ show_nat i"
    by simp
  have "\<forall>h\<in>set (cf_webhooks (st_cfg hooked)). hook_ok h"
    by (simp add: hooked_hooks chat_hook_ok)
  from saved_hooks_sound [OF fresh this, of "[(''enabled'', JBool True), (''webhooks'', JArr [JObj [(''id'', JStr ''a1'')],
      JObj [(''url'', JStr ''ftp://x'')], JObj [(''url'', JStr '' http://n ''), (''min_severity'', JInt 3)]])]"]
  show ?thesis
    by (simp add: hooked_hooks form_hooks_def jget_def)
qed

theorem masked_resave_witness:
  "notifications_save (\<lambda>i. []) (resave_form (notifications_get hooked)) hooked =
     (Done (notifications_get hooked), set_audit (''notifications ('' @ show_nat 1 @ '' webhook(s))'') hooked)"
proof -
  have "\<forall>t\<in>set (w_tags chat_hook). strip t = t"
    by code_simp
  then show ?thesis
    using masked_resave [of hooked "\<lambda>i. []"] by (simp add: hooked_hooks chat_hook_ok)
qed

theorem mask_url_hides_witness:
  "mask_url (''https'' @ ''://'' @ ''me:pw'' @ ''@'' @ ''chat/v1/spaces'' @ ''?'' @ ''key=secret'') =
     mask_url (''https'' @ ''://'' @ ''chat/v1/spaces'' @ ''?'' @ ''x'')"
proof -
  have "scheme_ok ''https''" "list_all (\<lambda>c. host_char c \<and> c \<noteq> CHR ''['' \<and> c \<noteq> CHR '']'') ''me:pw''"
      "list_all (\<lambda>c. c \<noteq> CHR ''?'' \<and> c \<noteq> CHR ''#'') ''chat/v1/spaces''"
      "''key=secret'' \<noteq> [] \<and> hd ''key=secret'' \<noteq> CHR ''#'' \<and> visible_char (hd ''key=secret'')"
      "''x'' \<noteq> [] \<and> hd ''x'' \<noteq> CHR ''#'' \<and> visible_char (hd ''x'')"
    by code_simp+
  then show ?thesis
    by (rule mask_url_hides)
qed

end
