(* ===== verification/NodeProxy.thy ===== *)
theory NodeProxy
  imports AuditLog PolledHosts
begin

text \<open>
  The controller in front of its hosts (\<open>app.py\<close>, "Drill-in" and the action routes): the pages, assets and
  API of a node passed through with the node's token, the console bridge, service actions fanned out to
  many nodes and guest actions on a hypervisor. A host is a parameter, \<open>peer\<close>: the certificate it shows, and what
  it answers to a method, an address, the token, the content type and the body of the request. \<open>dec\<close> is the decryption of a stored
  secret and \<open>text\<close> the text of a Python exception. Dashes and arrows in messages are written in ASCII.
\<close>

section \<open>Requests to a node\<close>

record wire =
  wi_status :: nat
  wi_headers :: "string dict"
  wi_body :: string
  wi_json :: "json option"

text \<open>A host in two stages, as a request meets it: what the connection and the TLS handshake of an address give (a
  failure, or the certificate shown; over plain HTTP the certificate is not looked at), and, for a request that was
  sent, a failure or the response. Redirects that the library follows are part of the answer. Every function that
  may talk to a host returns, beside its result, the requests it sent, credentials included.\<close>

datatype hello = NoRoute string | NoTls string | Shown string

datatype wire_reply = Unreachable string | BadTls string | Answer wire

record peer =
  pe_hello :: "string \<Rightarrow> hello"
  pe_answer :: "string \<Rightarrow> string \<Rightarrow> string option \<Rightarrow> string option \<Rightarrow> string \<Rightarrow> wire_reply"

record sent =
  se_method :: string
  se_url :: string
  se_token :: "string option"
  se_type :: "string option"
  se_body :: string

text \<open>The \<open>except\<close> clauses of \<open>pinned_request\<close>.\<close>

definition tls_failure :: "string \<Rightarrow> string option \<Rightarrow> string \<Rightarrow> failure" where
  "tls_failure url fp t =
     (if contains ''fingerprint'' (lower t)
      then (case fp of None \<Rightarrow> Escaped TypeError | Some f \<Rightarrow> NodeErr (fp_changed url f))
      else NodeErr t)"

text \<open>\<open>pinned_request\<close> with the whole response: the pin is compared in the handshake, on the connection that
  carries the request and before it is sent.\<close>

definition wire_request :: "peer \<Rightarrow> string \<Rightarrow> string \<Rightarrow> string option \<Rightarrow> string option \<Rightarrow> string option \<Rightarrow> string \<Rightarrow>
    (failure + wire) \<times> sent list" where
  "wire_request peer meth url fp auth ctype body =
     (case pe_hello peer url of
        NoRoute t \<Rightarrow> (Inl (NodeErr t), [])
      | NoTls t \<Rightarrow> (Inl (tls_failure url fp t), [])
      | Shown cert \<Rightarrow>
          if pins url fp \<and> fp \<noteq> Some cert
          then (Inl (NodeErr (fp_changed url (case fp of None \<Rightarrow> [] | Some f \<Rightarrow> f))), [])
          else (case pe_answer peer meth url auth ctype body of
                  Unreachable t \<Rightarrow> Inl (NodeErr t)
                | BadTls t \<Rightarrow> Inl (tls_failure url fp t)
                | Answer w \<Rightarrow> Inr w,
                [\<lparr>se_method = meth, se_url = url, se_token = auth, se_type = ctype, se_body = body\<rparr>]))"

definition node_request :: "peer \<Rightarrow> (string \<Rightarrow> string option) \<Rightarrow> node \<Rightarrow> string \<Rightarrow> string \<Rightarrow> string option \<Rightarrow> string \<Rightarrow>
    (failure + wire) \<times> sent list" where
  "node_request peer dec n meth path ctype body =
     wire_request peer meth (client_url n path) (n_cert_fp n) (client_token dec n) ctype body"

text \<open>\<open>raw_get\<close>: a path outside the API, with no token unless the node asks for one there.\<close>

definition raw_get :: "peer \<Rightarrow> (string \<Rightarrow> string option) \<Rightarrow> node \<Rightarrow> string \<Rightarrow> bool \<Rightarrow> (failure + wire) \<times> sent list" where
  "raw_get peer dec n path auth =
     wire_request peer ''GET'' (rstrip_slash (n_base_url n) @ path) (n_cert_fp n)
       (if auth then client_token dec n else None) None []"

section \<open>Retargeting\<close>

text \<open>\<open>str.replace\<close> of a pattern that is not empty, everywhere and once.\<close>

function replace_str :: "string \<Rightarrow> string \<Rightarrow> string \<Rightarrow> string" where
  "replace_str old new [] = []"
| "replace_str old new (c # cs) =
     (if old \<noteq> [] \<and> startswith old (c # cs) then new @ replace_str old new (drop (length old) (c # cs))
      else c # replace_str old new cs)"
  by pat_completeness auto
termination
  by (relation "measure (\<lambda>(old, new, s). length s)") (auto simp: Suc_le_eq)

fun replace_once :: "string \<Rightarrow> string \<Rightarrow> string \<Rightarrow> string" where
  "replace_once old new [] = []"
| "replace_once old new (c # cs) =
     (if startswith old (c # cs) then new @ drop (length old) (c # cs) else c # replace_once old new cs)"

definition node_base :: "string \<Rightarrow> string" where
  "node_base node_id = ''/nodes/'' @ node_id"

definition backslash :: char where
  "backslash = CHR 0x5C"

text \<open>The script put into a node's page: \<open>fetch\<close> and \<open>WebSocket\<close> go through the controller.\<close>

definition drillin_shim :: "string \<Rightarrow> string" where
  "drillin_shim node_id =
     ''<script>(function(){var P=\"/api/nodes/'' @ node_id @ ''/proxy/\";'' @
     ''var f=window.fetch;window.fetch=function(u,o){'' @
     ''if(typeof u===\"string\"&&u.indexOf(\"/api/\")===0){u=P+u.slice(5);}'' @
     ''return f.call(this,u,o);};'' @
     ''var W=window.WebSocket,B=\"/nodes/'' @ node_id @ ''/ws/\";'' @
     ''function r(u){if(typeof u!==\"string\")return u;'' @
     ''var m=u.match(/^(wss?:'' @ [backslash] @ ''/'' @ [backslash] @ ''/[^'' @ [backslash] @ ''/]+)'' @ [backslash] @
     ''/ws'' @ [backslash] @ ''/(.*)$/);'' @
     ''if(m)return m[1]+B+m[2];'' @
     ''if(u.indexOf(\"/ws/\")===0)return B+u.slice(4);return u;}'' @
     ''window.WebSocket=function(u,p){return p===undefined?new W(r(u)):new W(r(u),p);};'' @
     ''window.WebSocket.prototype=W.prototype;'' @
     ''})();</script>''"

definition render_drillin_html :: "string \<Rightarrow> string \<Rightarrow> string" where
  "render_drillin_html html0 node_id =
     (let base = node_base node_id;
          html1 = replace_str ''href=\"/static/'' (''href=\"'' @ base @ ''/static/'') html0;
          html2 = replace_str ''src=\"/static/'' (''src=\"'' @ base @ ''/static/'') html1;
          shim = drillin_shim node_id
      in if contains ''<head>'' html2 then replace_once ''<head>'' (''<head>'' @ shim) html2 else shim @ html2)"

text \<open>\<open>retarget_asset_urls\<close>: the asset URLs of the modules a node's manifest lists.\<close>

definition retarget_url :: "string \<Rightarrow> json \<Rightarrow> json" where
  "retarget_url node_id v = (case v of
      JStr u \<Rightarrow> if startswith ''/plugin-assets/'' u then JStr (node_base node_id @ u) else v
    | _ \<Rightarrow> v)"

definition retarget_kind :: "string \<Rightarrow> string \<Rightarrow> json dict \<Rightarrow> json dict" where
  "retarget_kind node_id kind assets = (case map_of assets kind of
      Some (JArr urls) \<Rightarrow> AList.update kind (JArr (map (retarget_url node_id) urls)) assets
    | _ \<Rightarrow> assets)"

definition retarget_module :: "string \<Rightarrow> json \<Rightarrow> exn + json" where
  "retarget_module node_id m =
     (if \<not> truthy m then Inr m
      else case m of
          JObj d \<Rightarrow> (case jget d ''assets'' of
              JObj a \<Rightarrow> Inr (JObj (AList.update ''assets'' (JObj (retarget_kind node_id ''css'' (retarget_kind node_id ''js'' a))) d))
            | _ \<Rightarrow> Inr m)
        | _ \<Rightarrow> Inl AttributeError)"

fun retarget_modules :: "string \<Rightarrow> json list \<Rightarrow> exn + json list" where
  "retarget_modules node_id [] = Inr []"
| "retarget_modules node_id (m # ms) =
     and_then (retarget_module node_id m) (\<lambda>m'. and_then (retarget_modules node_id ms) (\<lambda>ms'. Inr (m' # ms')))"

definition retarget_asset_urls :: "json \<Rightarrow> string \<Rightarrow> exn + json" where
  "retarget_asset_urls payload node_id = (case payload of
      JObj d \<Rightarrow>
        let mods = jget d ''modules''
        in if \<not> truthy mods then Inr payload
           else and_then (py_list mods) (\<lambda>ms. and_then (retarget_modules node_id ms) (\<lambda>ms'.
             Inr (case mods of JArr x \<Rightarrow> JObj (AList.update ''modules'' (JArr ms') d) | _ \<Rightarrow> payload)))
    | _ \<Rightarrow> Inr payload)"

section \<open>Pages and assets\<close>

record page =
  pg_status :: nat
  pg_type :: string
  pg_body :: string

text \<open>The headers of a response are looked up whatever their case.\<close>

definition page_type :: "wire \<Rightarrow> string" where
  "page_type w = (case find (\<lambda>(k, v). lower k = ''content-type'') (wi_headers w) of
      None \<Rightarrow> ''application/octet-stream'' | Some (k, t) \<Rightarrow> t)"

text \<open>What no handler catches.\<close>

definition uncaught :: "failure \<Rightarrow> exn" where
  "uncaught f = (case f of Escaped e \<Rightarrow> e | _ \<Rightarrow> OSError)"

definition asset_page :: "failure + wire \<Rightarrow> page resp" where
  "asset_page r = (case r of
      Inr w \<Rightarrow> Done \<lparr>pg_status = wi_status w, pg_type = page_type w, pg_body = wi_body w\<rparr>
    | Inl (NodeErr t) \<Rightarrow> Fail 502 t
    | Inl f \<Rightarrow> Crash (uncaught f))"

definition drillin_page :: "string \<Rightarrow> failure + wire \<Rightarrow> page resp" where
  "drillin_page node_id r = (case r of
      Inl (NodeErr t) \<Rightarrow> Done \<lparr>pg_status = 502, pg_type = ''text/html'',
        pg_body = ''<h2>Drill-in unavailable</h2><p>'' @ t @ ''</p><p><a href=\"/\">&larr; back to fleet</a></p>''\<rparr>
    | Inl f \<Rightarrow> Crash (uncaught f)
    | Inr w \<Rightarrow> Done \<lparr>pg_status = 200, pg_type = ''text/html'', pg_body = render_drillin_html (wi_body w) node_id\<rparr>)"

definition node_drillin :: "peer \<Rightarrow> (string \<Rightarrow> string option) \<Rightarrow> ctx \<Rightarrow> string \<Rightarrow> app \<Rightarrow> page resp \<times> sent list" where
  "node_drillin peer dec c node_id s = (case find_node (g_scope c) node_id (st_nodes s) of
      None \<Rightarrow> (Fail 404 ''node not found'', [])
    | Some n \<Rightarrow> apfst (drillin_page node_id) (raw_get peer dec n ''/'' False))"

definition node_static :: "peer \<Rightarrow> (string \<Rightarrow> string option) \<Rightarrow> ctx \<Rightarrow> string \<Rightarrow> string \<Rightarrow> app \<Rightarrow>
    page resp \<times> sent list" where
  "node_static peer dec c node_id subpath s = (case find_node (g_scope c) node_id (st_nodes s) of
      None \<Rightarrow> (Fail 404 ''node not found'', [])
    | Some n \<Rightarrow> apfst asset_page (raw_get peer dec n (''/static/'' @ subpath) False))"

definition with_query :: "string \<Rightarrow> string \<Rightarrow> string" where
  "with_query path qs = path @ (if qs = [] then [] else ''?'' @ qs)"

definition node_plugin_asset :: "peer \<Rightarrow> (string \<Rightarrow> string option) \<Rightarrow> ctx \<Rightarrow> string \<Rightarrow> string \<Rightarrow> string \<Rightarrow> app \<Rightarrow>
    page resp \<times> sent list" where
  "node_plugin_asset peer dec c node_id subpath qs s = (case find_node (g_scope c) node_id (st_nodes s) of
      None \<Rightarrow> (Fail 404 ''node not found'', [])
    | Some n \<Rightarrow> apfst asset_page (raw_get peer dec n (with_query (''/plugin-assets/'' @ subpath) qs) True))"

section \<open>The API of a node\<close>

definition HOP_HEADERS :: "string list" where
  "HOP_HEADERS = [''content-encoding'', ''transfer-encoding'', ''connection'', ''content-length'', ''keep-alive'',
     ''te'', ''trailer'', ''upgrade'']"

datatype proxied = Raw nat "string dict" string | Rewritten nat json

definition pass_through :: "wire \<Rightarrow> proxied" where
  "pass_through w = Raw (wi_status w) (filter (\<lambda>(k, v). lower k \<notin> set HOP_HEADERS) (wi_headers w)) (wi_body w)"

definition proxy_answer :: "string \<Rightarrow> string \<Rightarrow> string \<Rightarrow> wire \<Rightarrow> proxied" where
  "proxy_answer node_id meth subpath w =
     (if meth = ''GET'' \<and> takeWhile (\<lambda>ch. ch \<noteq> CHR ''?'') subpath = ''modules/nav'' \<and> wi_status w = 200
      then (case wi_json w of
          None \<Rightarrow> pass_through w
        | Some v \<Rightarrow> (case retarget_asset_urls v node_id of Inl e \<Rightarrow> pass_through w | Inr v' \<Rightarrow> Rewritten (wi_status w) v'))
      else pass_through w)"

definition node_proxy :: "peer \<Rightarrow> (string \<Rightarrow> string option) \<Rightarrow> ctx \<Rightarrow> string \<Rightarrow> string \<Rightarrow> string \<Rightarrow> string \<Rightarrow> string option \<Rightarrow> string \<Rightarrow>
    app \<Rightarrow> proxied resp \<times> app \<times> sent list" where
  "node_proxy peer dec c node_id meth subpath qs ctype body s = (case find_node (g_scope c) node_id (st_nodes s) of
      None \<Rightarrow> (Fail 404 ''node not found'', s, [])
    | Some n \<Rightarrow>
        let s' = set_audit (n_name n @ '':/api/'' @ subpath) s;
            (r, sent) = node_request peer dec n meth (with_query subpath qs) (if ctype = Some [] then None else ctype) body
        in (case r of
              Inl (NodeErr t) \<Rightarrow> Fail 502 (''proxy to node failed: '' @ t)
            | Inl f \<Rightarrow> Crash (uncaught f)
            | Inr w \<Rightarrow> Done (proxy_answer node_id meth subpath w), s', sent))"

section \<open>Service actions\<close>

definition FLEET_ACTIONS :: "string list" where
  "FLEET_ACTIONS = [''start'', ''stop'', ''restart'', ''enable'', ''disable'']"

definition service_char :: "char \<Rightarrow> bool" where
  "service_char c = (let n = (of_char c :: nat) in (97 \<le> n \<and> n \<le> 122) \<or> (65 \<le> n \<and> n \<le> 90) \<or>
     is_digit c \<or> c \<in> {CHR ''_'', CHR ''.'', CHR ''@'', CHR ''-''})"

definition service_ok :: "string \<Rightarrow> bool" where
  "service_ok s \<longleftrightarrow> s \<noteq> [] \<and> list_all service_char s"

record action_row =
  ar_id :: string
  ar_name :: string
  ar_ok :: bool
  ar_status :: "nat option"
  ar_error :: json

definition action_error :: "(exn \<Rightarrow> string) \<Rightarrow> wire \<Rightarrow> json" where
  "action_error text w =
     (let fallback = JStr (''HTTP '' @ show_nat (wi_status w))
      in case wi_json w of
           None \<Rightarrow> fallback
         | Some v \<Rightarrow>
             if \<not> truthy v then fallback
             else (case v of
                 JObj d \<Rightarrow> if truthy (jget d ''error'') then jget d ''error'' else fallback
               | _ \<Rightarrow> JStr (text AttributeError)))"

definition service_row :: "(exn \<Rightarrow> string) \<Rightarrow> node \<Rightarrow> failure + wire \<Rightarrow> action_row" where
  "service_row text n r =
     (case r of
        Inl f \<Rightarrow> \<lparr>ar_id = n_id n, ar_name = n_name n, ar_ok = False, ar_status = None, ar_error = JStr (fail_text text f)\<rparr>
      | Inr w \<Rightarrow> \<lparr>ar_id = n_id n, ar_name = n_name n, ar_ok = (wi_status w = 200), ar_status = Some (wi_status w),
          ar_error = (if wi_status w = 200 then JNull else action_error text w)\<rparr>)"

definition proxy_service_action :: "peer \<Rightarrow> (string \<Rightarrow> string option) \<Rightarrow> (exn \<Rightarrow> string) \<Rightarrow> string \<Rightarrow> string \<Rightarrow> node \<Rightarrow>
    action_row \<times> sent list" where
  "proxy_service_action peer dec text service action n =
     apfst (service_row text n) (node_request peer dec n ''POST'' (''service/'' @ service @ ''/'' @ action) None [])"

text \<open>The hosts an action reaches and how its scope reads.\<close>

definition fleet_targets :: "ctx \<Rightarrow> json dict \<Rightarrow> app \<Rightarrow> node list \<times> string" where
  "fleet_targets c data s =
     (let reachable = filter (\<lambda>n. scope_allows (g_scope c) (n_tags n) \<and> \<not> n_disabled n) (st_nodes s);
          by_tags = (case jget data ''tags'' of
              JArr (t # ts) \<Rightarrow>
                let want = map py_str (t # ts)
                in (filter (\<lambda>n. set want \<inter> set (n_tags n) \<noteq> {}) reachable, ''tag(s) '' @ join '','' (sort (remdups want)))
            | _ \<Rightarrow> (reachable, ''all nodes''))
      in case jget data ''node_ids'' of
           JArr (i # is) \<Rightarrow>
             let picked = filter (\<lambda>n. n_id n \<in> py_str ` set (i # is)) reachable
             in (picked, show_nat (length picked) @ '' node(s)'')
         | _ \<Rightarrow> by_tags)"

record action_report =
  rp_service :: string
  rp_action :: string
  rp_scope :: string
  rp_ok :: nat
  rp_failed :: nat
  rp_results :: "action_row list"

text \<open>\<open>finish\<close> is the order in which the workers' results come in.\<close>

definition fleet_action :: "peer \<Rightarrow> (string \<Rightarrow> string option) \<Rightarrow> (exn \<Rightarrow> string) \<Rightarrow> (action_row list \<Rightarrow> action_row list) \<Rightarrow>
    ctx \<Rightarrow> json dict \<Rightarrow> app \<Rightarrow> action_report resp \<times> app \<times> sent list" where
  "fleet_action peer dec text finish c data s =
     (let service = field_str (jget data ''service''); action = field_str (jget data ''action'')
      in if action \<notin> set FLEET_ACTIONS then (Fail 400 ''invalid action (start/stop/restart/enable/disable)'', s, [])
         else if \<not> service_ok service then (Fail 400 ''invalid service name'', s, [])
         else
           let (nodes, scope) = fleet_targets c data s
           in if nodes = [] then (Fail 404 ''no matching nodes'', s, [])
              else
                let runs = map (proxy_service_action peer dec text service action) nodes;
                    rows = sort_key (\<lambda>r. lower (ar_name r)) (finish (map fst runs));
                    ok = length (filter ar_ok rows)
                in (Done \<lparr>rp_service = service, rp_action = action, rp_scope = scope, rp_ok = ok,
                      rp_failed = length rows - ok, rp_results = rows\<rparr>,
                    bust_fleet (set_audit (''fleet '' @ service @ ''/'' @ action @ '' ['' @ scope @ '' -> '' @
                      show_nat (length nodes) @ '' node(s)]'') s),
                    concat (map snd runs)))"

section \<open>Guest actions\<close>

text \<open>\<open>act\<close> is the action of the adapter of a host type (\<open>Hypervisors\<close>); the host's cached poll goes.\<close>

definition node_vm_action :: "net \<Rightarrow> (string \<Rightarrow> string option) \<Rightarrow> (exn \<Rightarrow> string) \<Rightarrow>
    (string \<Rightarrow> login \<Rightarrow> string \<Rightarrow> string \<Rightarrow> string + string) \<Rightarrow> ctx \<Rightarrow> string \<Rightarrow> string \<Rightarrow> string \<Rightarrow> app \<Rightarrow>
    (string \<times> string) resp \<times> app" where
  "node_vm_action net dec text act c node_id vm_id action s =
     (if action \<notin> set VM_ACTIONS then (Fail 400 ''invalid action (start/stop/shutdown/reboot)'', s)
      else case find_node (g_scope c) node_id (st_nodes s) of
          None \<Rightarrow> (Fail 404 ''node not found'', s)
        | Some n \<Rightarrow>
            if \<not> ad_writes (adapter_for n)
            then (Fail 400 (''host type '' @ repr_str (n_host_type n) @ '' does not support guest actions''), s)
            else (case vm_action net dec (act (n_host_type n)) n vm_id action of
                Inl (NodeErr t) \<Rightarrow> (Fail 502 t, s)
              | Inl f \<Rightarrow> (Fail 502 (''action failed: '' @ fail_text text f), s)
              | Inr task \<Rightarrow>
                  let s' = bust_fleet s
                  in (Done (task, action),
                      set_audit (n_name n @ '' guest '' @ vm_id @ '' -> '' @ action)
                        (s'\<lparr>st_poll := AList.delete node_id (st_poll s')\<rparr>))))"

section \<open>The console bridge\<close>

text \<open>What the bridge meets: a connection, the certificate of the handshake, the upgrade.\<close>

record ws_net =
  wn_connect :: "string \<Rightarrow> int \<Rightarrow> string option"
  wn_cert :: "string \<Rightarrow> int \<Rightarrow> string + string"
  wn_upgrade :: "string \<Rightarrow> int \<Rightarrow> string \<Rightarrow> string \<Rightarrow> string option"

definition ws_is_tls :: "node \<Rightarrow> bool" where
  "ws_is_tls n = startswith ''https://'' (lower (n_base_url n))"

definition ws_changed :: "string \<Rightarrow> int \<Rightarrow> string \<Rightarrow> string \<Rightarrow> string" where
  "ws_changed host port pin fp = ''certificate fingerprint changed for '' @ host @ '':'' @ show_int port @
     '' (pinned '' @ take 16 pin @ [ellipsis] @ '', saw '' @ take 16 fp @ [ellipsis] @ '')''"

text \<open>The certificate is compared on the connection itself; the upgrade, the first bytes of HTTP and the token among
  them, is asked after that.\<close>

definition ws_check :: "ws_net \<Rightarrow> node \<Rightarrow> string \<Rightarrow> int \<Rightarrow> failure + unit" where
  "ws_check net n host port =
     (if \<not> ws_is_tls n then Inr ()
      else case wn_cert net host port of
          Inl t \<Rightarrow> Inl (OsErr t)
        | Inr fp \<Rightarrow>
            (case n_cert_fp n of
               None \<Rightarrow> Inr ()
             | Some pin \<Rightarrow> if pin \<noteq> [] \<and> fp \<noteq> pin then Inl (NodeErr (ws_changed host port pin fp)) else Inr ()))"

definition pinned_ws_connect :: "ws_net \<Rightarrow> (string \<Rightarrow> string option) \<Rightarrow> node \<Rightarrow> string \<Rightarrow> (failure + string \<times> int) \<times> sent list" where
  "pinned_ws_connect net dec n path = (case split_host_port (n_base_url n) of
      Inl e \<Rightarrow> (Inl (Escaped e), [])
    | Inr (host, port) \<Rightarrow>
        (case wn_connect net host port of
           Some t \<Rightarrow> (Inl (OsErr t), [])
         | None \<Rightarrow>
             (case ws_check net n host port of
                Inl f \<Rightarrow> (Inl f, [])
              | Inr _ \<Rightarrow>
                  let token = (case dec (n_token_enc n) of None \<Rightarrow> [] | Some t \<Rightarrow> t)
                  in (case wn_upgrade net host port path token of Some t \<Rightarrow> Inl (OsErr t) | None \<Rightarrow> Inr (host, port),
                      [\<lparr>se_method = ''GET'', se_url = ''ws://'' @ host @ '':'' @ show_int port @ path, se_token = Some token,
                        se_type = None, se_body = []\<rparr>]))))"

datatype bridge = BridgeError string | Bridged string int

definition node_ws :: "ws_net \<Rightarrow> (string \<Rightarrow> string option) \<Rightarrow> (exn \<Rightarrow> string) \<Rightarrow> bool \<Rightarrow> string \<Rightarrow> ctx \<Rightarrow> string \<Rightarrow> string \<Rightarrow> string \<Rightarrow>
    string \<Rightarrow> string \<Rightarrow> app \<Rightarrow> json option list \<Rightarrow> bridge \<times> json option list \<times> sent list" where
  "node_ws net dec text writable ts c ip req_path node_id subpath qs s trail =
     (case find_node (g_scope c) node_id (st_nodes s) of
        None \<Rightarrow> (BridgeError ''node not found'', trail, [])
      | Some n \<Rightarrow>
          let path = with_query (''/ws/'' @ subpath) qs; (r, sent) = pinned_ws_connect net dec n path
          in (case r of
                Inl f \<Rightarrow> (BridgeError (''bridge: '' @ fail_text text f), trail, sent)
              | Inr (host, port) \<Rightarrow>
                  (Bridged host port, audit_line writable ts (Remote (Some c) ip) ''WS'' req_path
                     (Some (n_name n @ '':'' @ takeWhile (\<lambda>ch. ch \<noteq> CHR ''?'') path)) 101 trail, sent)))"

text \<open>The two pumps: an empty message of the node ends it; a time-out of the browser does not.\<close>

datatype frame = TextFrame (payload_of_frame: string) | BinaryFrame (payload_of_frame: string)

fun pump_node_to_browser :: "frame option list \<Rightarrow> frame list" where
  "pump_node_to_browser [] = []"
| "pump_node_to_browser (None # ms) = []"
| "pump_node_to_browser (Some f # ms) = (if payload_of_frame f = [] then [] else f # pump_node_to_browser ms)"

fun pump_browser_to_node :: "frame option list \<Rightarrow> frame list" where
  "pump_browser_to_node [] = []"
| "pump_browser_to_node (None # ms) = pump_browser_to_node ms"
| "pump_browser_to_node (Some f # ms) = f # pump_browser_to_node ms"

end
