(* ===== verification/NodeProxyFacts.thy ===== *)
theory NodeProxyFacts
  imports NodeProxy AdapterFacts Registry Acks History "HOL-Library.Multiset"
begin

text \<open>
  What the controller promises in front of its hosts (\<open>NodeProxy\<close>): an account reaches the hosts of its
  scope only, through every route; to a host whose certificate changed nothing is sent; a fan-out
  reports each host it reached once; and rewritten asset URLs stay as they are.
\<close>

section \<open>Scope\<close>


text \<open>The reply of a route and what it sent to hosts, without the state it leaves.\<close>

definition answered :: "'a \<times> app \<times> sent list \<Rightarrow> 'a \<times> sent list" where
  "answered r = (fst r, snd (snd r))"

lemma visible_nodes_idem [simp]: "visible_nodes scope (visible_nodes scope ns) = visible_nodes scope ns"
  by (simp add: visible_nodes_def)




section \<open>Changed certificates\<close>

text \<open>A host that, when it can be reached at all, shows another certificate than \<open>fp\<close>.\<close>

definition swapped_peer :: "string \<Rightarrow> peer \<Rightarrow> bool" where
  "swapped_peer fp peer = (\<forall>u. pe_hello peer u \<noteq> Shown fp)"

definition swapped_ws :: "string \<Rightarrow> ws_net \<Rightarrow> bool" where
  "swapped_ws fp ws = (\<forall>h k. wn_cert ws h k \<noteq> Inr fp)"

lemma wire_request_changed:
  assumes "swapped_peer fp peer" and "pins url (Some fp)"
  shows "\<exists>t. wire_request peer m url (Some fp) a ct b = (Inl (NodeErr t), [])"
  using assms by (auto simp: wire_request_def swapped_peer_def tls_failure_def split: hello.split)

lemma pinned_urls:
  assumes "pinned_node fp n"
  shows "pins (client_url n path) (Some fp)" "pins (rstrip_slash (n_base_url n) @ path) (Some fp)" "n_cert_fp n = Some fp"
  using assms by (auto simp: pinned_node_def client_url_def intro: pins_longer)

lemma node_request_changed:
  assumes "swapped_peer fp peer" and "pinned_node fp n"
  shows "\<exists>t. node_request peer dec n m q ct b = (Inl (NodeErr t), [])"
  unfolding node_request_def pinned_urls(3) [OF assms(2)]
  by (rule wire_request_changed [OF assms(1) pinned_urls(1) [OF assms(2)]])

lemma raw_get_changed:
  assumes "swapped_peer fp peer" and "pinned_node fp n"
  shows "\<exists>t. raw_get peer dec n q a = (Inl (NodeErr t), [])"
  unfolding raw_get_def pinned_urls(3) [OF assms(2)]
  by (rule wire_request_changed [OF assms(1) pinned_urls(2) [OF assms(2)]])

lemma pinned_is_tls:
  assumes "pinned_node fp n"
  shows "ws_is_tls n"
proof -
  obtain v where "n_base_url n = rstrip_slash (n_base_url n) @ v"
    using rstrip_slash_prefix by blast
  then show ?thesis
    using assms pins_longer [of fp "rstrip_slash (n_base_url n)" v]
    by (simp add: pinned_node_def ws_is_tls_def pins_def)
qed

lemma ws_connect_changed:
  assumes "swapped_ws fp ws" and "pinned_node fp n"
  shows "\<exists>f. pinned_ws_connect ws dec n q = (Inl f, [])"
proof (cases "split_host_port (n_base_url n)")
  case (Inr hp)
  have "ws_is_tls n" "fp \<noteq> []" "n_cert_fp n = Some fp"
    using assms(2) by (auto simp: pinned_node_def pinned_is_tls)
  then have "\<exists>f. ws_check ws n h k = Inl f" for h k
    using assms(1) by (auto simp: ws_check_def swapped_ws_def split: sum.split)
  from this [of "fst hp" "snd hp"] show ?thesis
    using Inr by (cases hp) (auto simp: pinned_ws_connect_def split: option.split)
qed (simp add: pinned_ws_connect_def)

text \<open>C20: To a pinned node that shows another certificate nothing is sent, no request and no token: its page, assets,
  API, plugin assets and service actions fail without a request having left, whatever the node would answer,
  and its console is not asked for the upgrade, not bridged, and leaves no trace of having been opened.\<close>

theorem changed_cert_no_passthrough:
  assumes found: "find_node (g_scope c) i (st_nodes s) = Some n"
    and pinned: "pinned_node fp n"
    and peer: "swapped_peer fp peer"
    and ws: "swapped_ws fp ws"
  shows "(\<exists>t. answered (node_proxy peer dec c i meth p qs ct body s) = (Fail 502 t, [])) \<and>
    (\<exists>t. node_static peer dec c i p s = (Fail 502 t, [])) \<and>
    (\<exists>t. node_plugin_asset peer dec c i p qs s = (Fail 502 t, [])) \<and>
    (\<exists>pg. node_drillin peer dec c i s = (Done pg, []) \<and> pg_status pg = 502) \<and>
    (\<exists>row. proxy_service_action peer dec text service action n = (row, []) \<and> \<not> ar_ok row \<and> ar_status row = None) \<and>
    (\<exists>t. node_ws ws dec text w ts c ip rp i p qs s trail = (BridgeError t, trail, []))"
proof -
  note api = node_request_changed [OF peer pinned, of dec]
  note raw = raw_get_changed [OF peer pinned, of dec]
  obtain f where "pinned_ws_connect ws dec n (with_query (''/ws/'' @ p) qs) = (Inl f, [])"
    using ws_connect_changed [OF ws pinned] by blast
  moreover obtain t where "node_request peer dec n meth (with_query p qs) (if ct = Some [] then None else ct) body = (Inl (NodeErr t), [])"
    using api by blast
  moreover obtain t where "node_request peer dec n ''POST'' (''service/'' @ service @ ''/'' @ action) None [] = (Inl (NodeErr t), [])"
    using api by blast
  moreover obtain t where "raw_get peer dec n ''/'' False = (Inl (NodeErr t), [])"
    using raw by blast
  moreover obtain t where "raw_get peer dec n (''/static/'' @ p) False = (Inl (NodeErr t), [])"
    using raw by blast
  moreover obtain t where "raw_get peer dec n (with_query (''/plugin-assets/'' @ p) qs) True = (Inl (NodeErr t), [])"
    using raw by blast
  ultimately show ?thesis
    using found by (simp add: node_proxy_def node_static_def node_plugin_asset_def node_drillin_def node_ws_def
        proxy_service_action_def service_row_def asset_page_def drillin_page_def answered_def)
qed

section \<open>Fan-out\<close>

text \<open>Which visible host a request picks: explicit identifiers win over tags, no selector picks all.\<close>

definition picked :: "json dict \<Rightarrow> node \<Rightarrow> bool" where
  "picked data n = (case jget data ''node_ids'' of
      JArr (i # is) \<Rightarrow> n_id n \<in> py_str ` set (i # is)
    | _ \<Rightarrow> (case jget data ''tags'' of
        JArr (t # ts) \<Rightarrow> (\<exists>v\<in>set (t # ts). py_str v \<in> set (n_tags n))
      | _ \<Rightarrow> True))"

definition nonempty_arr :: "json \<Rightarrow> json list option" where
  "nonempty_arr v = (case v of JArr (x # xs) \<Rightarrow> Some (x # xs) | _ \<Rightarrow> None)"

lemma nonempty_arr_case: "(case v of JArr (x # xs) \<Rightarrow> f x xs | _ \<Rightarrow> y) =
    (case nonempty_arr v of Some (x # xs) \<Rightarrow> f x xs | _ \<Rightarrow> y)"
  by (simp add: nonempty_arr_def split: json.split list.split)

lemma nonempty_arr_Some: "nonempty_arr v = Some vs \<Longrightarrow> vs \<noteq> []"
  by (auto simp: nonempty_arr_def split: json.splits list.splits)

lemma fleet_targets_picked:
  "fst (fleet_targets c data s) =
    filter (\<lambda>n. scope_allows (g_scope c) (n_tags n) \<and> \<not> n_disabled n \<and> picked data n) (st_nodes s)"
proof -
  let ?in = "\<lambda>n. scope_allows (g_scope c) (n_tags n) \<and> \<not> n_disabled n"
  have tags: "py_str ` set vs \<inter> set (n_tags n) \<noteq> {} \<longleftrightarrow> (\<exists>v\<in>set vs. py_str v \<in> set (n_tags n))" for vs n
    by auto
  have fst: "fst (fleet_targets c data s) = filter (picked data) (filter ?in (st_nodes s))"
    unfolding fleet_targets_def picked_def nonempty_arr_case
    by (cases "nonempty_arr (jget data ''node_ids'')"; cases "nonempty_arr (jget data ''tags'')")
      (auto simp: Let_def neq_Nil_conv tags dest!: nonempty_arr_Some)
  show ?thesis
    unfolding fst filter_filter by (rule filter_cong) auto
qed

text \<open>C22: A service action reaches exactly the hosts of the account's scope that are in service and that the
  request picks, each once, and reports each once, sorted by name, with the count of successes and
  failures; it runs only for one of the five actions and a plain service name.\<close>

theorem fleet_action_exact:
  assumes "fst (fleet_action peer dec text finish c data s) = Done rep" and "\<forall>rows. mset (finish rows) = mset rows"
  shows "mset (rp_results rep) = mset (map (\<lambda>n. fst (proxy_service_action peer dec text (rp_service rep) (rp_action rep) n))
      (filter (\<lambda>n. scope_allows (g_scope c) (n_tags n) \<and> \<not> n_disabled n \<and> picked data n) (st_nodes s))) \<and>
    sorted (map (\<lambda>r. lower (ar_name r)) (rp_results rep)) \<and>
    rp_ok rep = length (filter ar_ok (rp_results rep)) \<and> rp_ok rep + rp_failed rep = length (rp_results rep) \<and>
    rp_action rep \<in> set FLEET_ACTIONS \<and> service_ok (rp_service rep)"
proof -
  let ?rows = "map (\<lambda>n. fst (proxy_service_action peer dec text (field_str (jget data ''service'')) (field_str (jget data ''action'')) n))
      (fst (fleet_targets c data s))"
  have rep: "field_str (jget data ''action'') \<in> set FLEET_ACTIONS" "service_ok (field_str (jget data ''service''))"
      "rp_service rep = field_str (jget data ''service'')" "rp_action rep = field_str (jget data ''action'')"
      "rp_results rep = sort_key (\<lambda>r. lower (ar_name r)) (finish ?rows)"
      "rp_ok rep = length (filter ar_ok (rp_results rep))" "rp_failed rep = length (rp_results rep) - rp_ok rep"
    using assms(1) by (auto simp: fleet_action_def Let_def comp_def split: if_splits prod.splits)
  have "mset (rp_results rep) = mset ?rows"
    unfolding rep(5) using assms(2) by (simp only: mset_sort)
  moreover have "sorted (map (\<lambda>r. lower (ar_name r)) (rp_results rep))"
    unfolding rep(5) by (rule sorted_sort_key)
  moreover have "rp_ok rep + rp_failed rep = length (rp_results rep)"
    using rep(6,7) length_filter_le [of ar_ok "rp_results rep"] by linarith
  ultimately show ?thesis
    using rep(1-4,6) by (simp only: fleet_targets_picked)
qed

section \<open>Asset URLs\<close>

lemma retarget_url_settled: "retarget_url j (retarget_url i v) = retarget_url i v"
  by (simp add: retarget_url_def node_base_def startswith_def split: json.split)

definition settled :: "string \<Rightarrow> json dict \<Rightarrow> bool" where
  "settled kind a = (case map_of a kind of Some (JArr urls) \<Rightarrow> \<forall>i. map (retarget_url i) urls = urls | _ \<Rightarrow> True)"

lemma retarget_kind_settles: "settled kind (retarget_kind i kind a)"
  by (auto simp: settled_def retarget_kind_def retarget_url_settled split: option.splits json.splits)

lemma retarget_kind_other: "k \<noteq> kind \<Longrightarrow> settled k a \<Longrightarrow> settled k (retarget_kind i kind a)"
  by (auto simp: settled_def retarget_kind_def split: option.splits json.splits)

lemma retarget_kind_id: "settled kind a \<Longrightarrow> retarget_kind i kind a = a"
  by (auto simp: settled_def retarget_kind_def update_triv split: option.splits json.splits)

lemma update_nonempty [simp]: "AList.update k v d \<noteq> []"
  by (cases d) auto

lemma retarget_assets_settles:
  "retarget_kind j ''css'' (retarget_kind j ''js'' (retarget_kind i ''css'' (retarget_kind i ''js'' a))) =
    retarget_kind i ''css'' (retarget_kind i ''js'' a)"
  by (simp add: retarget_kind_id retarget_kind_settles retarget_kind_other)

lemma retarget_module_assets:
  "d \<noteq> [] \<Longrightarrow> retarget_module i (JObj d) = Inr (case jget d ''assets'' of
      JObj a \<Rightarrow> JObj (AList.update ''assets'' (JObj (retarget_kind i ''css'' (retarget_kind i ''js'' a))) d) | _ \<Rightarrow> JObj d)"
  by (simp add: retarget_module_def split: json.split)

lemma retarget_module_settles:
  assumes "retarget_module i m = Inr m'"
  shows "retarget_module j m' = Inr m'"
proof (cases "truthy m")
  case True
  then obtain d where d: "m = JObj d" "d \<noteq> []"
    using assms by (cases m) (simp_all add: retarget_module_def)
  have "retarget_module j (JObj (AList.update ''assets'' (JObj x) d)) =
      Inr (JObj (AList.update ''assets'' (JObj (retarget_kind j ''css'' (retarget_kind j ''js'' x))) d))" for x
    by (simp add: retarget_module_assets jget_def)
  then show ?thesis
    using assms d by (cases "jget d ''assets''") (auto simp: retarget_module_assets retarget_assets_settles)
qed (use assms in \<open>simp add: retarget_module_def\<close>)

lemma retarget_modules_settles: "retarget_modules i ms = Inr ms' \<Longrightarrow> retarget_modules j ms' = Inr ms'"
  by (induction ms arbitrary: ms') (auto simp: and_then_Inr retarget_module_settles)

lemma retarget_module_any: "retarget_module i m = Inr x \<Longrightarrow> \<exists>y. retarget_module j m = Inr y"
  by (cases m) (simp_all add: retarget_module_def split: if_splits json.split)

lemma retarget_modules_any: "retarget_modules i ms = Inr x \<Longrightarrow> \<exists>y. retarget_modules j ms = Inr y"
  by (induction ms arbitrary: x) (auto simp: and_then_Inr dest: retarget_module_any [of i _ _ j])

text \<open>Rewriting a manifest twice is rewriting it once: a rewritten URL is not taken for a plugin's again, through
  whichever node the page is served.\<close>

theorem retarget_settles:
  assumes "retarget_asset_urls p i = Inr p'"
  shows "retarget_asset_urls p' j = Inr p'"
proof (cases "\<exists>d vs. p = JObj d \<and> jget d ''modules'' = JArr vs \<and> vs \<noteq> []")
  case True
  then obtain d vs where p: "p = JObj d" "jget d ''modules'' = JArr vs" "vs \<noteq> []" by blast
  then obtain ms where ms: "retarget_modules i vs = Inr ms" and p': "p' = JObj (AList.update ''modules'' (JArr ms) d)"
    using assms by (auto simp: retarget_asset_urls_def py_list_def and_then_Inr)
  then show ?thesis
    using retarget_modules_settles [OF ms, of j]
    by (simp add: retarget_asset_urls_def jget_def py_list_def update_triv Let_def)
next
  case False
  show ?thesis
  proof (cases "\<exists>d. p = JObj d \<and> truthy (jget d ''modules'')")
    case True
    then obtain d where d: "p = JObj d" "truthy (jget d ''modules'')" by blast
    then obtain vs ms where vs: "py_list (jget d ''modules'') = Inr vs" "retarget_modules i vs = Inr ms"
      using assms by (auto simp: retarget_asset_urls_def and_then_Inr Let_def)
    obtain ms' where "retarget_modules j vs = Inr ms'"
      using retarget_modules_any [OF vs(2)] by blast
    moreover have "case jget d ''modules'' of JArr x \<Rightarrow> False | _ \<Rightarrow> True"
      using False d by (auto split: json.split)
    ultimately have "retarget_asset_urls p k = Inr p" if "retarget_modules k vs = Inr ms''" for k ms''
      using d vs(1) that by (cases "jget d ''modules''") (simp_all add: retarget_asset_urls_def)
    then show ?thesis
      using assms vs(2) \<open>retarget_modules j vs = Inr ms'\<close> by fastforce
  next
    case False
    then have "retarget_asset_urls p k = Inr p" for k
      by (cases p) (simp_all add: retarget_asset_urls_def)
    then show ?thesis
      using assms by simp
  qed
qed

section \<open>Concrete instances\<close>

definition lab_ctx :: ctx where
  "lab_ctx = \<lparr>g_name = ''ops'', g_role = ''operator'', g_scope = Some {''lab''}, g_token = None\<rparr>"

text \<open>Four hosts: one in scope, one elsewhere, one in scope but paused, and one pinned.\<close>

definition lab_nodes :: "node list" where
  "lab_nodes = [(sample_node ''a'' ''Alpha'')\<lparr>n_tags := [''lab'']\<rparr>, (sample_node ''b'' ''beta'')\<lparr>n_tags := [''prod'']\<rparr>,
     (sample_node ''c'' ''gamma'')\<lparr>n_tags := [''lab''], n_disabled := True\<rparr>,
     (sample_node ''d'' ''delta'')\<lparr>n_tags := [''lab''], n_cert_fp := Some ''ab''\<rparr>]"

definition lab_app :: app where
  "lab_app = empty_app\<lparr>st_nodes := lab_nodes\<rparr>"

text \<open>Hosts that show the certificate \<open>cd\<close> and answer every request with an empty 200.\<close>

definition calm_peer :: peer where
  "calm_peer = \<lparr>pe_hello = (\<lambda>url. Shown ''cd''), pe_answer = (\<lambda>meth url auth ctype body.
     Answer \<lparr>wi_status = 200, wi_headers = [], wi_body = [], wi_json = None\<rparr>)\<rparr>"

definition calm_ws :: ws_net where
  "calm_ws = \<lparr>wn_connect = (\<lambda>h k. None), wn_cert = (\<lambda>h k. Inr ''cd''), wn_upgrade = (\<lambda>h k p t. None)\<rparr>"




theorem changed_cert_no_passthrough_witness:
  "\<exists>t. answered (node_proxy calm_peer Some lab_ctx ''d'' ''GET'' ''summary'' [] None [] lab_app) = (Fail 502 t, [])"
proof -
  let ?n = "(sample_node ''d'' ''delta'')\<lparr>n_tags := [''lab''], n_cert_fp := Some ''ab''\<rparr>"
  have "find_node (g_scope lab_ctx) ''d'' (st_nodes lab_app) = Some ?n"
    by (simp add: find_node_def lab_app_def lab_nodes_def find_by_def scope_allows_def lab_ctx_def sample_node_def)
  moreover have "pinned_node ''ab'' ?n"
    by code_simp
  moreover have "swapped_peer ''ab'' calm_peer" "swapped_ws ''ab'' calm_ws"
    by (simp_all add: swapped_peer_def swapped_ws_def calm_peer_def calm_ws_def)
  ultimately show ?thesis
    using changed_cert_no_passthrough [of lab_ctx "''d''" lab_app ?n "''ab''" calm_peer calm_ws Some "''GET''" "''summary''" "[]"
        None "[]" "\<lambda>e. []" "''smbd''" "''start''" True "''t''" "''ip''" "''/''" "[]"] by blast
qed

theorem fleet_action_exact_witness:
  "\<exists>rep. fst (fleet_action calm_peer Some (\<lambda>e. []) rev lab_ctx
      [(''service'', JStr ''smbd''), (''action'', JStr ''restart''), (''node_ids'', JArr [JStr ''a'', JStr ''b'', JStr ''c''])] lab_app) = Done rep \<and>
    mset (rp_results rep) = mset (map (\<lambda>n. fst (proxy_service_action calm_peer Some (\<lambda>e. []) (rp_service rep) (rp_action rep) n))
      [(sample_node ''a'' ''Alpha'')\<lparr>n_tags := [''lab'']\<rparr>])"
proof -
  let ?data = "[(''service'', JStr ''smbd''), (''action'', JStr ''restart''), (''node_ids'', JArr [JStr ''a'', JStr ''b'', JStr ''c''])]"
  have done_form: "case fst (fleet_action calm_peer Some (\<lambda>e. []) rev lab_ctx ?data lab_app) of Done r \<Rightarrow> True | _ \<Rightarrow> False"
    by code_simp
  then obtain rep where rep: "fst (fleet_action calm_peer Some (\<lambda>e. []) rev lab_ctx ?data lab_app) = Done rep"
    by (auto split: resp.splits)
  have "filter (\<lambda>n. scope_allows (g_scope lab_ctx) (n_tags n) \<and> \<not> n_disabled n \<and> picked ?data n) (st_nodes lab_app) =
      [(sample_node ''a'' ''Alpha'')\<lparr>n_tags := [''lab'']\<rparr>]"
    by (simp add: lab_app_def lab_nodes_def lab_ctx_def scope_allows_def picked_def jget_def py_str_def sample_node_def)
  then show ?thesis
    using fleet_action_exact [OF rep] rep by auto
qed

theorem retarget_settles_witness:
  "retarget_asset_urls (JObj [(''modules'', JArr [JObj [(''assets'', JObj [(''js'', JArr [JStr ''/nodes/a/plugin-assets/x.js''])])]])]) ''b'' =
     Inr (JObj [(''modules'', JArr [JObj [(''assets'', JObj [(''js'', JArr [JStr ''/nodes/a/plugin-assets/x.js''])])]])])"
proof -
  have "retarget_asset_urls (JObj [(''modules'', JArr [JObj [(''assets'', JObj [(''js'', JArr [JStr ''/plugin-assets/x.js''])])]])]) ''a'' =
     Inr (JObj [(''modules'', JArr [JObj [(''assets'', JObj [(''js'', JArr [JStr ''/nodes/a/plugin-assets/x.js''])])]])])"
    by (simp add: retarget_asset_urls_def jget_def py_list_def retarget_module_def retarget_kind_def retarget_url_def
        node_base_def startswith_def)
  then show ?thesis
    by (rule retarget_settles)
qed

end
