(* ===== verification/Files.thy ===== *)
theory Files
  imports Text PyJson
begin

text \<open>
  The files the controller keeps its state in (\<open>app.py\<close>, "Atomic JSON I/O" and the certificate
  routines). A disk maps paths to files; a file knows whether its contents have been flushed to the
  medium. \<open>write_json_atomic\<close> is a step relation, one step per system call, so that the threads of the
  process may interleave and the process may die between any two calls. What a call does on its failure
  is a step too. Documented behaviour of the system used: \<open>rename\<close> is atomic and \<open>fsync\<close> makes the contents
  of a file survive a crash. Everything else may be lost in one: other contents, modes, and what changed in a
  directory, which the code never flushes.
\<close>

section \<open>Files\<close>

record disk_file =
  fl_text :: string
  fl_mode :: nat
  fl_synced :: bool

type_synonym disk = "disk_file dict"

text \<open>One call of \<open>write_json_atomic\<close>: the path, \<open>json.dumps\<close> of the data, the mode.\<close>

record job =
  jb_path :: string
  jb_text :: string
  jb_mode :: nat

text \<open>Where a call is: still to write, all written, flushed, mode set, replaced, or ended by an exception.\<close>

datatype phase = Idle | Writing string | Flushed | Ready | Replaced | Failed

definition tmp_name :: "nat \<Rightarrow> nat \<Rightarrow> string \<Rightarrow> string" where
  "tmp_name pid tid path = path @ ''.tmp.'' @ show_nat pid @ ''.'' @ show_nat tid"

text \<open>Opening truncates, and gives the mode to a new file only.\<close>

definition opened :: "nat \<Rightarrow> disk_file option \<Rightarrow> disk_file" where
  "opened m old = \<lparr>fl_text = [], fl_mode = (case old of None \<Rightarrow> m | Some f \<Rightarrow> fl_mode f), fl_synced = False\<rparr>"

inductive write_step :: "string \<Rightarrow> job \<Rightarrow> phase \<Rightarrow> disk \<Rightarrow> phase \<Rightarrow> disk \<Rightarrow> bool" for tmp j where
  opens: "write_step tmp j Idle d (Writing (jb_text j)) (AList.update tmp (opened (jb_mode j) (map_of d tmp)) d)"
| open_fails: "write_step tmp j Idle d Failed d"
| dumps: "map_of d tmp = Some f \<Longrightarrow>
    write_step tmp j (Writing (u @ v)) d (Writing v) (AList.update tmp (f\<lparr>fl_text := fl_text f @ u, fl_synced := False\<rparr>) d)"
| flushes: "map_of d tmp = Some f \<Longrightarrow> write_step tmp j (Writing []) d Flushed (AList.update tmp (f\<lparr>fl_synced := True\<rparr>) d)"
| chmods: "map_of d tmp = Some f \<Longrightarrow> write_step tmp j Flushed d Ready (AList.update tmp (f\<lparr>fl_mode := jb_mode j\<rparr>) d)"
| replaces: "map_of d tmp = Some f \<Longrightarrow> write_step tmp j Ready d Replaced (AList.update (jb_path j) f (AList.delete tmp d))"
| raises: "ph \<notin> {Idle, Replaced, Failed} \<Longrightarrow> write_step tmp j ph d Failed (AList.delete tmp d)"
| raises_no_unlink: "ph \<notin> {Idle, Replaced, Failed} \<Longrightarrow> write_step tmp j ph d Failed d"

inductive_cases write_step_E: "write_step tmp j ph d ph' d'"

text \<open>The process: its threads, each in one call at a time, and the calls that returned, oldest first.\<close>

record process =
  ps_disk :: disk
  ps_threads :: "nat \<Rightarrow> job \<times> phase"
  ps_done :: "job list"

definition booted :: "disk \<Rightarrow> process" where
  "booted d = \<lparr>ps_disk = d, ps_threads = (\<lambda>t. (\<lparr>jb_path = [], jb_text = [], jb_mode = 0\<rparr>, Failed)), ps_done = []\<rparr>"

inductive process_step :: "nat \<Rightarrow> string set \<Rightarrow> process \<Rightarrow> process \<Rightarrow> bool" for pid targets where
  calling: "snd (ps_threads s t) \<in> {Replaced, Failed} \<Longrightarrow> jb_path j \<in> targets \<Longrightarrow>
    process_step pid targets s (s\<lparr>ps_threads := (ps_threads s)(t := (j, Idle))\<rparr>)"
| working: "ps_threads s t = (j, ph) \<Longrightarrow> write_step (tmp_name pid t (jb_path j)) j ph (ps_disk s) ph' d' \<Longrightarrow>
    process_step pid targets s (s\<lparr>ps_disk := d', ps_threads := (ps_threads s)(t := (j, ph')),
      ps_done := (if ph' = Replaced then ps_done s @ [j] else ps_done s)\<rparr>)"

definition last_write :: "string \<Rightarrow> job list \<Rightarrow> job option" where
  "last_write p js = find (\<lambda>j. jb_path j = p) (rev js)"

definition job_file :: "job \<Rightarrow> disk_file" where
  "job_file j = \<lparr>fl_text = jb_text j, fl_mode = jb_mode j, fl_synced = True\<rparr>"

section \<open>A crash and the next start\<close>

text \<open>The disks of a run up to its present state.\<close>

definition moments :: "nat \<Rightarrow> string set \<Rightarrow> disk \<Rightarrow> process \<Rightarrow> disk set" where
  "moments pid targets d0 s = {ps_disk s1 | s1. (process_step pid targets)\<^sup>*\<^sup>* (booted d0) s1 \<and> (process_step pid targets)\<^sup>*\<^sup>* s1 s}"

text \<open>After a crash each name is what it was at some moment of \<open>past\<close>, each name at its own: a rename, a removal and
  a new name may all be lost. Of a file that is there only a flushed text is sure. When only the process dies
  the past is the last disk.\<close>

definition crashed :: "disk set \<Rightarrow> disk \<Rightarrow> bool" where
  "crashed past d' \<longleftrightarrow> (\<forall>p. \<exists>d\<in>past. case map_of d p of
      None \<Rightarrow> map_of d' p = None
    | Some f \<Rightarrow> (\<exists>g. map_of d' p = Some g \<and> (fl_synced f \<longrightarrow> fl_text g = fl_text f)))"

definition dir_of :: "string \<Rightarrow> string" where
  "dir_of p = rev (dropWhile (\<lambda>c. c \<noteq> CHR ''/'') (rev p))"

definition base_of :: "string \<Rightarrow> string" where
  "base_of p = rev (takeWhile (\<lambda>c. c \<noteq> CHR ''/'') (rev p))"

definition stale :: "string \<Rightarrow> string \<Rightarrow> bool" where
  "stale path k \<longleftrightarrow> dir_of k = dir_of path \<and> startswith (base_of path @ ''.tmp.'') (base_of k)"

text \<open>\<open>sweep_stale_tmp\<close>: the names removed and the disk after; \<open>listable\<close> is whether the directory can be read,
  \<open>removable\<close> whether a file can be unlinked.\<close>

definition sweep_stale_tmp :: "bool \<Rightarrow> (string \<Rightarrow> bool) \<Rightarrow> string \<Rightarrow> disk \<Rightarrow> string list \<times> disk" where
  "sweep_stale_tmp listable removable path d =
     (if \<not> listable then ([], d)
      else let gone = filter (\<lambda>k. stale path k \<and> removable k) (map fst d)
        in (map base_of gone, del_keys gone d))"

text \<open>The sweep of \<open>main\<close>, over the state files. \<open>removable\<close> is whether a file can be listed and unlinked.\<close>

definition startup_sweep :: "(string \<Rightarrow> bool) \<Rightarrow> string list \<Rightarrow> disk \<Rightarrow> disk" where
  "startup_sweep removable paths d = foldl (\<lambda>d p. snd (sweep_stale_tmp True removable p d)) d paths"

text \<open>\<open>load_json\<close>: \<open>parse\<close> is \<open>json.load\<close>, \<open>None\<close> its \<open>ValueError\<close>.\<close>

definition load_json :: "(string \<Rightarrow> json option) \<Rightarrow> string \<Rightarrow> json \<Rightarrow> disk \<Rightarrow> json" where
  "load_json parse path dflt d = (case map_of d path of
      None \<Rightarrow> dflt
    | Some f \<Rightarrow> (case parse (fl_text f) of None \<Rightarrow> dflt | Some v \<Rightarrow> v))"

end
