(* ===== verification/FileFacts.thy ===== *)
theory FileFacts
  imports Files
begin

text \<open>
  No state file is ever torn (\<open>Files\<close>): whatever the threads of the process do, in whatever order, and
  whenever it dies, a state file holds the text of the last write that returned (or what it held
  before the start), and after the system went down the text of some write that returned.
\<close>

section \<open>Names\<close>

lemma show_nat_plain: "c \<in> set (show_nat n) \<Longrightarrow> c \<noteq> CHR ''.'' \<and> c \<noteq> CHR ''/''"
  using show_nat_digits(2) [of n] by (auto simp: is_digit_def)

lemma show_nat_inj: "show_nat m = show_nat n \<Longrightarrow> m = n"
  by (metis show_nat_value)

lemma takeWhile_rev_suffix:
  assumes "\<forall>c\<in>set v. c \<noteq> x"
  shows "takeWhile (\<lambda>c. c \<noteq> x) (rev (u @ x # v)) = rev v"
  using assms by (auto simp: takeWhile_append takeWhile_eq_all_conv [THEN iffD2])

lemma tmp_name_thread:
  assumes "tmp_name pid t p = tmp_name pid t' q"
  shows "t = t'"
proof -
  have last: "takeWhile (\<lambda>c. c \<noteq> CHR ''.'') (rev (tmp_name pid t p)) = rev (show_nat t)" for t p
    using takeWhile_rev_suffix [of "show_nat t" "CHR ''.''" "p @ ''.tmp.'' @ show_nat pid"] show_nat_plain
    by (simp add: tmp_name_def)
  have "rev (show_nat t) = rev (show_nat t')"
    using last [of t p] last [of t' q] assms by simp
  then show ?thesis
    using show_nat_inj by blast
qed

lemma dir_base_append:
  assumes "\<forall>c\<in>set v. c \<noteq> CHR ''/''"
  shows "dir_of (p @ v) = dir_of p" "base_of (p @ v) = base_of p @ v"
proof -
  have "dropWhile (\<lambda>c. c \<noteq> CHR ''/'') (rev v @ rev p) = dropWhile (\<lambda>c. c \<noteq> CHR ''/'') (rev p)"
    by (rule dropWhile_append2) (use assms in auto)
  moreover have "takeWhile (\<lambda>c. c \<noteq> CHR ''/'') (rev v @ rev p) = rev v @ takeWhile (\<lambda>c. c \<noteq> CHR ''/'') (rev p)"
    by (rule takeWhile_append2) (use assms in auto)
  ultimately show "dir_of (p @ v) = dir_of p" "base_of (p @ v) = base_of p @ v"
    by (simp_all add: dir_of_def base_of_def)
qed

lemma tmp_name_stale: "stale p (tmp_name pid t p)"
proof -
  have "\<forall>c\<in>set (''.tmp.'' @ show_nat pid @ ''.'' @ show_nat t). c \<noteq> CHR ''/''"
    using show_nat_plain by auto
  then show ?thesis
    unfolding stale_def tmp_name_def by (simp only: dir_base_append) (simp add: startswith_iff)
qed

text \<open>No state file is named like the temporary file of one.\<close>

definition apart :: "string list \<Rightarrow> bool" where
  "apart ps \<longleftrightarrow> list_all (\<lambda>p. list_all (\<lambda>q. \<not> stale p q) ps) ps"

lemma apart_tmp: "apart ps \<Longrightarrow> p \<in> set ps \<Longrightarrow> q \<in> set ps \<Longrightarrow> tmp_name pid t p \<noteq> q"
  using tmp_name_stale by (fastforce simp: apart_def list_all_iff)

section \<open>One call\<close>

definition phase_ok :: "string \<Rightarrow> job \<Rightarrow> phase \<Rightarrow> disk \<Rightarrow> bool" where
  "phase_ok tmp j ph d = (case ph of
      Writing v \<Rightarrow> (\<exists>f. map_of d tmp = Some f \<and> fl_text f @ v = jb_text j)
    | Flushed \<Rightarrow> (\<exists>f. map_of d tmp = Some f \<and> fl_text f = jb_text j \<and> fl_synced f)
    | Ready \<Rightarrow> map_of d tmp = Some (job_file j)
    | _ \<Rightarrow> True)"

lemma phase_ok_cong: "map_of d tmp = map_of d' tmp \<Longrightarrow> phase_ok tmp j ph d = phase_ok tmp j ph d'"
  by (simp add: phase_ok_def split: phase.split)

lemma write_step_phase:
  "write_step tmp j ph d ph' d' \<Longrightarrow> phase_ok tmp j ph d \<Longrightarrow> tmp \<noteq> jb_path j \<Longrightarrow>
   phase_ok tmp j ph' d' \<and> (ph' = Replaced \<longrightarrow> map_of d' (jb_path j) = Some (job_file j))"
  by (erule write_step_E) (auto simp: phase_ok_def opened_def job_file_def)

lemma write_step_frame:
  "write_step tmp j ph d ph' d' \<Longrightarrow> k \<noteq> tmp \<Longrightarrow> ph' = Replaced \<longrightarrow> k \<noteq> jb_path j \<Longrightarrow> map_of d' k = map_of d k"
  by (erule write_step_E) auto

section \<open>All threads\<close>

definition process_inv :: "nat \<Rightarrow> string list \<Rightarrow> disk \<Rightarrow> process \<Rightarrow> bool" where
  "process_inv pid ps d0 s \<longleftrightarrow>
     (\<forall>t j ph. ps_threads s t = (j, ph) \<and> ph \<noteq> Failed \<longrightarrow> jb_path j \<in> set ps \<and>
        phase_ok (tmp_name pid t (jb_path j)) j ph (ps_disk s)) \<and>
     (\<forall>p\<in>set ps. map_of (ps_disk s) p = (case last_write p (ps_done s) of None \<Rightarrow> map_of d0 p | Some j \<Rightarrow> Some (job_file j)))"

lemma last_write_snoc: "last_write p (js @ [j]) = (if jb_path j = p then Some j else last_write p js)"
  by (simp add: last_write_def)

lemma booted_inv: "process_inv pid ps d0 (booted d0)"
  by (simp add: process_inv_def booted_def last_write_def)

lemma working_inv:
  assumes inv: "process_inv pid ps d0 s" and apart: "apart ps"
    and thread: "ps_threads s t = (j, ph)" and step: "write_step (tmp_name pid t (jb_path j)) j ph (ps_disk s) ph' d'"
  shows "process_inv pid ps d0 (s\<lparr>ps_disk := d', ps_threads := (ps_threads s)(t := (j, ph')),
      ps_done := (if ph' = Replaced then ps_done s @ [j] else ps_done s)\<rparr>)"
proof -
  let ?tmp = "tmp_name pid t (jb_path j)"
  have "ph \<noteq> Failed"
    using step by (auto elim: write_step_E)
  then have j: "jb_path j \<in> set ps" "phase_ok ?tmp j ph (ps_disk s)"
    using inv thread by (auto simp: process_inv_def)
  have tmp: "tmp_name pid u (jb_path k) \<noteq> p" if "jb_path k \<in> set ps" "p \<in> set ps" for u k p
    by (rule apart_tmp [OF apart that])
  have own: "phase_ok ?tmp j ph' d'" "ph' = Replaced \<Longrightarrow> map_of d' (jb_path j) = Some (job_file j)"
    using write_step_phase [OF step j(2) tmp [OF j(1) j(1)]] by auto
  have other: "phase_ok (tmp_name pid u (jb_path k)) k qh d'"
    if "u \<noteq> t" "ps_threads s u = (k, qh)" "qh \<noteq> Failed" for u k qh
  proof -
    have k: "jb_path k \<in> set ps" "phase_ok (tmp_name pid u (jb_path k)) k qh (ps_disk s)"
      using inv that by (auto simp: process_inv_def)
    have "tmp_name pid u (jb_path k) \<noteq> ?tmp"
      using that(1) tmp_name_thread by blast
    then have "map_of d' (tmp_name pid u (jb_path k)) = map_of (ps_disk s) (tmp_name pid u (jb_path k))"
      using write_step_frame [OF step] tmp [OF k(1) j(1)] by blast
    then show ?thesis
      using k(2) phase_ok_cong by blast
  qed
  have paths: "\<forall>u k qh. ps_threads s u = (k, qh) \<and> qh \<noteq> Failed \<longrightarrow> jb_path k \<in> set ps"
    using inv by (auto simp: process_inv_def)
  have "map_of d' p = map_of (ps_disk s) p" if "p \<in> set ps" "ph' = Replaced \<longrightarrow> p \<noteq> jb_path j" for p
    using write_step_frame [OF step] tmp [OF j(1) that(1)] that(2) by metis
  then have "\<forall>p\<in>set ps. map_of d' p = (case last_write p (if ph' = Replaced then ps_done s @ [j] else ps_done s) of
      None \<Rightarrow> map_of d0 p | Some j \<Rightarrow> Some (job_file j))"
    using inv own(2) by (auto simp: process_inv_def last_write_snoc)
  then show ?thesis
    using own(1) other paths j(1) unfolding process_inv_def by auto
qed

lemma process_step_inv:
  assumes "process_step pid (set ps) s s'" and "apart ps" and "process_inv pid ps d0 s"
  shows "process_inv pid ps d0 s'"
  using assms
proof cases
  case (calling t j)
  then show ?thesis
    using assms(3) by (auto simp: process_inv_def phase_ok_def)
next
  case (working t j ph ph' d')
  then show ?thesis
    using working_inv [OF assms(3,2)] by blast
qed

lemma reachable_inv:
  assumes "(process_step pid (set ps))\<^sup>*\<^sup>* (booted d0) s" and "apart ps"
  shows "process_inv pid ps d0 s"
  using assms(1) by (induction rule: rtranclp_induct) (auto intro: booted_inv process_step_inv [OF _ assms(2)])

text \<open>C16: No interleaving of the threads tears a state file: at every moment of every run each state file is
  what it was at the start or, flushed, complete and with its mode, the text of the last write to it
  that returned, also while others are under way or have failed.\<close>

theorem no_torn_file:
  assumes "(process_step pid (set ps))\<^sup>*\<^sup>* (booted d0) s" and "apart ps" and "p \<in> set ps"
  shows "map_of (ps_disk s) p = (case last_write p (ps_done s) of None \<Rightarrow> map_of d0 p | Some j \<Rightarrow> Some (job_file j))"
  using reachable_inv [OF assms(1,2)] assms(3) by (simp add: process_inv_def)

section \<open>Crash and restart\<close>

lemma map_of_del_keys: "map_of (del_keys ks d) k = (if k \<in> set ks then None else map_of d k)"
  by (induction ks arbitrary: d) auto

lemma sweep_map:
  "map_of (snd (sweep_stale_tmp True removable p d)) k = (if stale p k \<and> removable k then None else map_of d k)"
  by (auto simp: sweep_stale_tmp_def Let_def map_of_del_keys map_of_eq_None_iff)

lemma startup_sweep_map:
  "map_of (startup_sweep removable ps d) k = (if (\<exists>p\<in>set ps. stale p k) \<and> removable k then None else map_of d k)"
  by (induction ps arbitrary: d) (auto simp: startup_sweep_def sweep_map)

lemma step_done: "process_step pid targets s s' \<Longrightarrow> set (ps_done s) \<subseteq> set (ps_done s')"
  by (auto elim!: process_step.cases)

lemma run_done: "(process_step pid targets)\<^sup>*\<^sup>* s s' \<Longrightarrow> set (ps_done s) \<subseteq> set (ps_done s')"
  by (induction rule: rtranclp_induct) (use step_done in blast)+

definition parsed :: "(string \<Rightarrow> json option) \<Rightarrow> json \<Rightarrow> string \<Rightarrow> json" where
  "parsed parse dflt t = (case parse t of None \<Rightarrow> dflt | Some v \<Rightarrow> v)"

lemma swept_start:
  assumes "apart ps" and "p \<in> set ps"
  shows "load_json parse p dflt (startup_sweep removable ps d) = load_json parse p dflt d"
proof -
  have "\<not> (\<exists>q\<in>set ps. stale q p)" using assms by (auto simp: apart_def list_all_iff)
  then show ?thesis by (simp add: load_json_def startup_sweep_map)
qed

text \<open>What one moment leaves of a state file.\<close>

lemma moment_text:
  assumes "(process_step pid (set ps))\<^sup>*\<^sup>* (booted d0) s" and "apart ps" and "p \<in> set ps"
    and "\<forall>f. map_of d0 p = Some f \<longrightarrow> fl_synced f"
    and "case map_of (ps_disk s) p of None \<Rightarrow> map_of d p = None
      | Some f \<Rightarrow> (\<exists>g. map_of d p = Some g \<and> (fl_synced f \<longrightarrow> fl_text g = fl_text f))"
  shows "load_json parse p dflt d = (case last_write p (ps_done s) of None \<Rightarrow> load_json parse p dflt d0 | Some j \<Rightarrow> parsed parse dflt (jb_text j))"
proof -
  have "map_of (ps_disk s) p = (case last_write p (ps_done s) of None \<Rightarrow> map_of d0 p | Some j \<Rightarrow> Some (job_file j))"
    using reachable_inv [OF assms(1,2)] assms(3) by (simp add: process_inv_def)
  then show ?thesis
    using assms(4,5) by (auto simp: load_json_def parsed_def job_file_def split: option.splits)
qed

lemma last_write_done: "last_write p js = Some j \<Longrightarrow> j \<in> set js \<and> jb_path j = p"
proof -
  have "find P xs = Some x \<Longrightarrow> x \<in> set xs \<and> P x" for P and xs :: "job list" and x by (induction xs) (auto split: if_splits)
  from this [of "\<lambda>j. jb_path j = p" "rev js" j] show "last_write p js = Some j \<Longrightarrow> j \<in> set js \<and> jb_path j = p"
    by (simp add: last_write_def)
qed

text \<open>C17: No crash tears a state file: whenever the system goes down, and whatever it loses that was not flushed,
  renames included, the next start reads from each state file what it held at the start or the whole text of
  some write to it that returned; when only the process dies, the last one that returned. The sweep of the
  state files removes each of their temporary files, of whichever process, that it can list and unlink.
  (No state file is named like the temporary file of another, and what they held at the start was flushed.)\<close>

theorem crash_recovery:
  assumes "(process_step pid (set ps))\<^sup>*\<^sup>* (booted d0) s" and "apart ps"
    and "\<forall>p\<in>set ps. \<forall>f. map_of d0 p = Some f \<longrightarrow> fl_synced f" and "p \<in> set ps"
  shows "(crashed (moments pid (set ps) d0 s) d \<longrightarrow>
      load_json parse p dflt (startup_sweep removable ps d) = load_json parse p dflt d0 \<or>
      (\<exists>j\<in>set (ps_done s). jb_path j = p \<and> load_json parse p dflt (startup_sweep removable ps d) = parsed parse dflt (jb_text j))) \<and>
    (crashed {ps_disk s} d \<longrightarrow> load_json parse p dflt (startup_sweep removable ps d) =
      (case last_write p (ps_done s) of None \<Rightarrow> load_json parse p dflt d0 | Some j \<Rightarrow> parsed parse dflt (jb_text j))) \<and>
    (\<forall>pid' t. removable (tmp_name pid' t p) \<longrightarrow> map_of (startup_sweep removable ps d) (tmp_name pid' t p) = None)"
proof (intro conjI impI allI)
  note left_text = moment_text [OF _ assms(2,4) bspec [OF assms(3,4)]]
  assume "crashed (moments pid (set ps) d0 s) d"
  then obtain s1 where s1: "(process_step pid (set ps))\<^sup>*\<^sup>* (booted d0) s1" "(process_step pid (set ps))\<^sup>*\<^sup>* s1 s"
    and left: "case map_of (ps_disk s1) p of None \<Rightarrow> map_of d p = None
      | Some f \<Rightarrow> (\<exists>g. map_of d p = Some g \<and> (fl_synced f \<longrightarrow> fl_text g = fl_text f))"
    by (auto simp: crashed_def moments_def)
  show "load_json parse p dflt (startup_sweep removable ps d) = load_json parse p dflt d0 \<or>
      (\<exists>j\<in>set (ps_done s). jb_path j = p \<and> load_json parse p dflt (startup_sweep removable ps d) = parsed parse dflt (jb_text j))"
    unfolding swept_start [OF assms(2,4)] left_text [OF s1(1) left]
    using run_done [OF s1(2)] by (auto split: option.split dest!: last_write_done)
next
  assume "crashed {ps_disk s} d"
  then show "load_json parse p dflt (startup_sweep removable ps d) =
      (case last_write p (ps_done s) of None \<Rightarrow> load_json parse p dflt d0 | Some j \<Rightarrow> parsed parse dflt (jb_text j))"
    unfolding swept_start [OF assms(2,4)]
    by (intro moment_text [OF assms(1,2,4) bspec [OF assms(3,4)]]) (simp add: crashed_def)
next
  fix pid' t assume "removable (tmp_name pid' t p)"
  then show "map_of (startup_sweep removable ps d) (tmp_name pid' t p) = None"
    using tmp_name_stale assms(4) by (auto simp: startup_sweep_map)
qed

section \<open>A call returns when its system calls do\<close>

definition go :: "process \<Rightarrow> nat \<Rightarrow> job \<Rightarrow> phase \<Rightarrow> disk \<Rightarrow> process" where
  "go s t j ph d = s\<lparr>ps_disk := d, ps_threads := (ps_threads s)(t := (j, ph))\<rparr>"

lemma go_step:
  assumes "write_step (tmp_name pid t (jb_path j)) j ph d ph' d'" and "ph' \<noteq> Replaced"
  shows "process_step pid ps (go s t j ph d) (go s t j ph' d')"
  using process_step.working [of "go s t j ph d" t j ph pid ph' d' ps] assms by (simp add: go_def)

lemma go_return:
  assumes "write_step (tmp_name pid t (jb_path j)) j ph d Replaced d'"
  shows "process_step pid ps (go s t j ph d) ((go s t j Replaced d')\<lparr>ps_done := ps_done s @ [j]\<rparr>)"
  using process_step.working [of "go s t j ph d" t j ph pid Replaced d' ps] assms by (simp add: go_def)

text \<open>From any moment of any run, a thread that is in no call can make one and return from it.\<close>

theorem write_can_complete:
  assumes "snd (ps_threads s t) \<in> {Replaced, Failed}" and "jb_path j \<in> ps"
  shows "\<exists>d. (process_step pid ps)\<^sup>*\<^sup>* s ((go s t j Replaced d)\<lparr>ps_done := ps_done s @ [j]\<rparr>)"
proof -
  let ?tmp = "tmp_name pid t (jb_path j)"
  define d0 where "d0 = ps_disk s"
  define f1 where "f1 = opened (jb_mode j) (map_of d0 ?tmp)"
  define d1 where "d1 = AList.update ?tmp f1 d0"
  define f2 where "f2 = f1\<lparr>fl_text := fl_text f1 @ jb_text j, fl_synced := False\<rparr>"
  define d2 where "d2 = AList.update ?tmp f2 d1"
  define f3 where "f3 = f2\<lparr>fl_synced := True\<rparr>"
  define d3 where "d3 = AList.update ?tmp f3 d2"
  define f4 where "f4 = f3\<lparr>fl_mode := jb_mode j\<rparr>"
  define d4 where "d4 = AList.update ?tmp f4 d3"
  define d5 where "d5 = AList.update (jb_path j) f4 (AList.delete ?tmp d4)"
  have start: "process_step pid ps s (go s t j Idle d0)"
    using process_step.calling [OF assms] by (simp add: go_def d0_def)
  have "write_step ?tmp j Idle d0 (Writing (jb_text j)) d1"
    unfolding d1_def f1_def by (rule write_step.opens)
  note s1 = go_step [OF this, of ps s]
  have "write_step ?tmp j (Writing (jb_text j @ [])) d1 (Writing []) d2"
    unfolding d2_def f2_def by (rule write_step.dumps) (simp add: d1_def)
  note s2 = go_step [OF this, of ps s]
  have "write_step ?tmp j (Writing []) d2 Flushed d3"
    unfolding d3_def f3_def by (rule write_step.flushes) (simp add: d2_def)
  note s3 = go_step [OF this, of ps s]
  have "write_step ?tmp j Flushed d3 Ready d4"
    unfolding d4_def f4_def by (rule write_step.chmods) (simp add: d3_def)
  note s4 = go_step [OF this, of ps s]
  have "write_step ?tmp j Ready d4 Replaced d5"
    unfolding d5_def by (rule write_step.replaces) (simp add: d4_def)
  note s5 = go_return [OF this, of ps s]
  show ?thesis
    using start s1 s2 s3 s4 s5 by (intro exI [of _ d5]) (auto intro: converse_rtranclp_into_rtranclp)
qed

section \<open>Concrete instances\<close>

definition nodes_job :: job where
  "nodes_job = \<lparr>jb_path = ''/data/nodes.json'', jb_text = ''{}'', jb_mode = 384\<rparr>"

definition state_files :: "string list" where
  "state_files = [''/data/nodes.json'', ''/data/acks.json'']"

lemma state_files_apart: "apart state_files"
  by code_simp

lemma half_written: "\<exists>s. (process_step 7 (set state_files))\<^sup>*\<^sup>* (booted []) s \<and> ps_done s = [nodes_job] \<and>
    ps_threads s 2 = (nodes_job\<lparr>jb_text := ''[]''\<rparr>, Writing ''[]'')"
proof -
  let ?k = "nodes_job\<lparr>jb_text := ''[]''\<rparr>"
  have mem: "jb_path nodes_job \<in> set state_files" "jb_path ?k \<in> set state_files"
    by (simp_all add: nodes_job_def state_files_def)
  obtain d where d: "(process_step 7 (set state_files))\<^sup>*\<^sup>* (booted [])
      ((go (booted []) 1 nodes_job Replaced d)\<lparr>ps_done := ps_done (booted []) @ [nodes_job]\<rparr>)"
    using write_can_complete [of "booted []" 1 nodes_job "set state_files" 7] mem by (auto simp: booted_def)
  let ?s = "(go (booted []) 1 nodes_job Replaced d)\<lparr>ps_done := ps_done (booted []) @ [nodes_job]\<rparr>"
  have "process_step 7 (set state_files) ?s (go ?s 2 ?k Idle (ps_disk ?s))"
    using process_step.calling [of ?s 2 ?k "set state_files" 7] mem by (simp add: go_def booted_def)
  moreover have "process_step 7 (set state_files) (go ?s 2 ?k Idle (ps_disk ?s)) (go ?s 2 ?k (Writing (jb_text ?k))
      (AList.update (tmp_name 7 2 (jb_path ?k)) (opened (jb_mode ?k) (map_of (ps_disk ?s) (tmp_name 7 2 (jb_path ?k)))) (ps_disk ?s)))"
    by (rule go_step [OF write_step.opens]) simp
  ultimately have "(process_step 7 (set state_files))\<^sup>*\<^sup>* (booted []) (go ?s 2 ?k (Writing (jb_text ?k))
      (AList.update (tmp_name 7 2 (jb_path ?k)) (opened (jb_mode ?k) (map_of (ps_disk ?s) (tmp_name 7 2 (jb_path ?k)))) (ps_disk ?s)))"
    using d by (meson rtranclp.rtrancl_into_rtrancl)
  then show ?thesis
    by (intro exI conjI) (assumption, simp_all add: go_def booted_def)
qed

theorem no_torn_file_witness:
  "\<exists>s. (process_step 7 (set state_files))\<^sup>*\<^sup>* (booted []) s \<and> ps_threads s 2 = (nodes_job\<lparr>jb_text := ''[]''\<rparr>, Writing ''[]'') \<and>
     map_of (ps_disk s) ''/data/nodes.json'' = Some (job_file nodes_job)"
proof -
  obtain s where s: "(process_step 7 (set state_files))\<^sup>*\<^sup>* (booted []) s" "ps_done s = [nodes_job]"
      "ps_threads s 2 = (nodes_job\<lparr>jb_text := ''[]''\<rparr>, Writing ''[]'')"
    using half_written by blast
  have "''/data/nodes.json'' \<in> set state_files"
    by (simp add: state_files_def)
  then have "map_of (ps_disk s) ''/data/nodes.json'' = Some (job_file nodes_job)"
    using no_torn_file [OF s(1) state_files_apart] by (simp add: s(2) last_write_def nodes_job_def)
  then show ?thesis
    using s(1,3) by blast
qed

theorem crash_recovery_witness:
  "\<exists>s :: process. ps_threads s 2 = (nodes_job\<lparr>jb_text := ''[]''\<rparr>, Writing ''[]'') \<and>
     load_json (\<lambda>t. Some (JStr t)) ''/data/nodes.json'' JNull (startup_sweep (\<lambda>k. True) state_files (ps_disk s)) = JStr ''{}''"
proof -
  obtain s where s: "(process_step 7 (set state_files))\<^sup>*\<^sup>* (booted []) s" "ps_done s = [nodes_job]"
      "ps_threads s 2 = (nodes_job\<lparr>jb_text := ''[]''\<rparr>, Writing ''[]'')"
    using half_written by blast
  have "''/data/nodes.json'' \<in> set state_files" "crashed {ps_disk s} (ps_disk s)"
    by (simp_all add: state_files_def crashed_def split: option.split)
  then have "load_json (\<lambda>t. Some (JStr t)) ''/data/nodes.json'' JNull (startup_sweep (\<lambda>k. True) state_files (ps_disk s)) = JStr ''{}''"
    using crash_recovery [OF s(1) state_files_apart, of "''/data/nodes.json''" "ps_disk s" "\<lambda>t. Some (JStr t)" JNull "\<lambda>k. True"]
    by (simp add: s(2) last_write_def nodes_job_def parsed_def)
  then show ?thesis
    using s(3) by blast
qed

text \<open>Since no directory is flushed, a write that returned may be gone after the system went down.\<close>

theorem returned_write_lost:
  "\<exists>s d. (process_step 7 (set state_files))\<^sup>*\<^sup>* (booted []) s \<and> ps_done s = [nodes_job] \<and>
     crashed (moments 7 (set state_files) [] s) d \<and> map_of d ''/data/nodes.json'' = None"
proof -
  obtain s where s: "(process_step 7 (set state_files))\<^sup>*\<^sup>* (booted []) s" "ps_done s = [nodes_job]" using half_written by blast
  then have "[] \<in> moments 7 (set state_files) [] s"
    by (auto simp: moments_def booted_def intro!: exI [of _ "booted []"])
  then have "crashed (moments 7 (set state_files) [] s) []" by (force simp: crashed_def)
  then show ?thesis using s by (intro exI [of _ s] exI [of _ "[]"]) simp
qed

end
