(* ===== verification/Certificates.thy ===== *)
theory Certificates
  imports Files Fleet
begin

text \<open>
  The controller's own certificate (\<open>app.py\<close>, "TLS certificate management"): what it shows about it, how
  it makes one at the first start, and how an uploaded pair is checked and installed. The X.509 library
  is a parameter (\<open>x509\<close>), as are the calls of the system that fail (\<open>works\<close>); a call that fails raises,
  and what was done before it stays done.
\<close>

section \<open>The serving certificate\<close>

record leaf =
  lf_subject :: string
  lf_issuer :: string
  lf_fp :: string
  lf_not_after :: string
  lf_expires :: string

text \<open>\<open>x_leaf\<close> and \<open>x_key\<close> read a PEM text; \<open>x_leaf_pub\<close> and \<open>x_key_pub\<close> are the public keys, \<open>None\<close> when they
  cannot be written out; \<open>x_make\<close> is a new self-signed pair, or the text of the failure.\<close>

record x509 =
  x_leaf :: "string \<Rightarrow> leaf option"
  x_key :: "string \<Rightarrow> bool"
  x_leaf_pub :: "string \<Rightarrow> string option"
  x_key_pub :: "string \<Rightarrow> string option"
  x_make :: "string + string \<times> string"

record serving =
  sg_path :: string
  sg_leaf :: leaf
  sg_days_left :: "int option"
  sg_self_signed :: bool
  sg_fingerprint :: string

datatype cert_report = NoCert | BadCert | Serving serving

fun byte_pairs :: "string \<Rightarrow> string list" where
  "byte_pairs [] = []"
| "byte_pairs [c] = [[c]]"
| "byte_pairs (c # d # cs) = [c, d] # byte_pairs cs"

definition cert_info :: "x509 \<Rightarrow> int \<Rightarrow> string \<Rightarrow> disk \<Rightarrow> cert_report" where
  "cert_info x clock path d = (case map_of d path of
      None \<Rightarrow> NoCert
    | Some f \<Rightarrow> (case x_leaf x (fl_text f) of
        None \<Rightarrow> BadCert
      | Some l \<Rightarrow> Serving \<lparr>sg_path = path, sg_leaf = l, sg_days_left = cert_days_left (Some (lf_not_after l)) clock,
          sg_self_signed = (lf_subject l = lf_issuer l), sg_fingerprint = join '':'' (byte_pairs (lf_fp l))\<rparr>))"

definition tls_info :: "x509 \<Rightarrow> int \<Rightarrow> string \<Rightarrow> bool \<Rightarrow> disk \<Rightarrow> cert_report \<times> bool" where
  "tls_info x clock path tls d = (cert_info x clock path d, tls)"

text \<open>\<open>_controller_cert_env\<close>: the controller as an entity of its own; its dictionary has five keys, every
  other field reads as missing.\<close>

definition controller_cert_env :: "x509 \<Rightarrow> int \<Rightarrow> string \<Rightarrow> bool \<Rightarrow> disk \<Rightarrow> envelope list" where
  "controller_cert_env x clock path tls d =
     (if \<not> tls then []
      else case cert_info x clock path d of
          Serving g \<Rightarrow>
            if lf_not_after (sg_leaf g) = [] then []
            else [(base_envelope (sample_node ''controller'' ''controller (this console)''))
              \<lparr>e_ok := True, e_summary := Some no_summary, e_cert_not_after := Some (lf_not_after (sg_leaf g))\<rparr>]
        | _ \<Rightarrow> [])"

section \<open>Calls that may fail\<close>

datatype cert_call = MakeDir | WriteCert | WriteKey | ReplaceCert | ReplaceKey | ChmodKey

text \<open>A call that fails may do so half way: a write may stop after a part of its text.\<close>

datatype outcome = Works | Fails "string option"

text \<open>The calls in order, with what each does and what its first half does, up to the first that fails.\<close>

fun run_calls :: "(cert_call \<Rightarrow> outcome) \<Rightarrow> (cert_call \<times> (disk \<Rightarrow> disk) \<times> (string \<Rightarrow> disk \<Rightarrow> disk)) list \<Rightarrow> disk \<Rightarrow> bool \<times> disk" where
  "run_calls works [] d = (True, d)"
| "run_calls works ((c, f, part) # cs) d = (case works c of
      Works \<Rightarrow> run_calls works cs (f d)
    | Fails None \<Rightarrow> (False, d)
    | Fails (Some t) \<Rightarrow> (False, part t d))"

definition at_once :: "(disk \<Rightarrow> disk) \<Rightarrow> (disk \<Rightarrow> disk) \<times> (string \<Rightarrow> disk \<Rightarrow> disk)" where
  "at_once f = (f, \<lambda>t d. d)"

definition write_file :: "string \<Rightarrow> nat \<Rightarrow> string \<Rightarrow> disk \<Rightarrow> disk" where
  "write_file p m t d = AList.update p ((opened m (map_of d p))\<lparr>fl_text := t\<rparr>) d"

definition writing :: "string \<Rightarrow> nat \<Rightarrow> string \<Rightarrow> (disk \<Rightarrow> disk) \<times> (string \<Rightarrow> disk \<Rightarrow> disk)" where
  "writing p m t = (write_file p m t, write_file p m)"

definition replace_file :: "string \<Rightarrow> string \<Rightarrow> disk \<Rightarrow> disk" where
  "replace_file src dst d = (case map_of d src of None \<Rightarrow> d | Some f \<Rightarrow> AList.update dst f (AList.delete src d))"

definition chmod_file :: "string \<Rightarrow> nat \<Rightarrow> disk \<Rightarrow> disk" where
  "chmod_file p m d = (case map_of d p of None \<Rightarrow> d | Some f \<Rightarrow> AList.update p (f\<lparr>fl_mode := m\<rparr>) d)"

text \<open>Modes 0600, and 0644 for a file opened without one.\<close>

definition private_mode :: nat where "private_mode = 384"
definition plain_mode :: nat where "plain_mode = 420"

section \<open>A self-signed pair\<close>

definition generate_self_signed :: "x509 \<Rightarrow> (cert_call \<Rightarrow> outcome) \<Rightarrow> string \<Rightarrow> string \<Rightarrow> disk \<Rightarrow> bool \<times> disk" where
  "generate_self_signed x works crt key d = (case x_make x of
      Inl e \<Rightarrow> (False, d)
    | Inr (c, k) \<Rightarrow> run_calls works 
        [(MakeDir, at_once (\<lambda>d. d)), (WriteCert, writing crt plain_mode c), (WriteKey, writing key private_mode k)] d)"

text \<open>\<open>ensure_tls_cert\<close>: \<open>False\<close> when it raises.\<close>

definition ensure_tls_cert :: "x509 \<Rightarrow> (cert_call \<Rightarrow> outcome) \<Rightarrow> string \<Rightarrow> string \<Rightarrow> disk \<Rightarrow> bool \<times> disk" where
  "ensure_tls_cert x works crt key d =
     (let have_cert = (map_of d crt \<noteq> None); have_key = (map_of d key \<noteq> None)
      in if have_cert \<and> have_key then (True, d)
         else if have_cert \<or> have_key then (False, d)
         else generate_self_signed x works crt key d)"

section \<open>An uploaded pair\<close>

datatype install = Refused string | Installed | Raising

definition install_pair :: "(cert_call \<Rightarrow> outcome) \<Rightarrow> (string \<Rightarrow> bool) \<Rightarrow> string \<Rightarrow> string \<Rightarrow> string \<Rightarrow> string \<Rightarrow> disk \<Rightarrow> install \<times> disk" where
  "install_pair works removable crt key cert_pem key_pem d0 =
     (if works MakeDir \<noteq> Works then (Raising, d0)
      else
        let tmp_cert = crt @ ''.upload''; tmp_key = key @ ''.upload'';
            (ok, d) = run_calls works
              [(WriteCert, writing tmp_cert plain_mode (cert_pem @ [newline])),
               (WriteKey, writing tmp_key private_mode (key_pem @ [newline])),
               (ReplaceCert, at_once (replace_file tmp_cert crt)), (ReplaceKey, at_once (replace_file tmp_key key)),
               (ChmodKey, at_once (chmod_file key private_mode))] d0;
            d' = del_keys (filter removable [tmp_cert, tmp_key]) d
        in (if ok then Installed else Raising, d'))"

definition pair_error :: "x509 \<Rightarrow> string \<Rightarrow> string \<Rightarrow> string option" where
  "pair_error x cert_pem key_pem =
     (if \<not> contains ''BEGIN CERTIFICATE'' cert_pem then Some ''Certificate must be PEM (-----BEGIN CERTIFICATE-----)''
      else if \<not> contains ''PRIVATE KEY'' key_pem then Some ''Key must be a PEM private key''
      else if 100000 < length cert_pem \<or> 100000 < length key_pem then Some ''Certificate or key too large''
      else if x_leaf x cert_pem = None then Some ''Invalid certificate''
      else if \<not> x_key x key_pem then Some ''Invalid private key''
      else if x_leaf_pub x cert_pem = None \<or> x_key_pub x key_pem = None then Some ''Could not compare certificate and key''
      else if x_leaf_pub x cert_pem \<noteq> x_key_pub x key_pem then Some ''Certificate and private key do not match''
      else None)"

definition validate_and_install_cert :: "x509 \<Rightarrow> (cert_call \<Rightarrow> outcome) \<Rightarrow> (string \<Rightarrow> bool) \<Rightarrow> string \<Rightarrow> string \<Rightarrow> string \<Rightarrow> string \<Rightarrow>
    disk \<Rightarrow> install \<times> disk" where
  "validate_and_install_cert x works removable crt key cert_pem key_pem d =
     (case pair_error x (strip cert_pem) (strip key_pem) of
        Some e \<Rightarrow> (Refused e, d)
      | None \<Rightarrow> install_pair works removable crt key (strip cert_pem) (strip key_pem) d)"

section \<open>The routes and the command line\<close>

definition tls_regenerate :: "x509 \<Rightarrow> (cert_call \<Rightarrow> outcome) \<Rightarrow> string \<Rightarrow> string \<Rightarrow> string \<Rightarrow> disk \<Rightarrow> app \<Rightarrow> unit resp \<times> disk \<times> app" where
  "tls_regenerate x works e crt key d s =
     (let (ok, d') = generate_self_signed x works crt key d
      in if ok then (Done (), d', set_audit ''tls-regenerate'' s)
         else (Fail 500 (''Failed to generate certificate: '' @ e), d', s))"

text \<open>A field that is no string has no \<open>strip\<close>; a false one is the empty string.\<close>

definition pem_field :: "json \<Rightarrow> string option" where
  "pem_field v = (if \<not> truthy v then Some [] else case v of JStr t \<Rightarrow> Some t | _ \<Rightarrow> None)"

definition tls_upload_cert :: "x509 \<Rightarrow> (cert_call \<Rightarrow> outcome) \<Rightarrow> (string \<Rightarrow> bool) \<Rightarrow> string \<Rightarrow> string \<Rightarrow> json dict \<Rightarrow> disk \<Rightarrow> app \<Rightarrow>
    unit resp \<times> disk \<times> app" where
  "tls_upload_cert x works removable crt key data d s =
     (case (pem_field (jget data ''cert''), pem_field (jget data ''key'')) of
        (Some c, Some k) \<Rightarrow>
          (case validate_and_install_cert x works removable crt key c k d of
             (Refused e, d') \<Rightarrow> (Fail 400 e, d', s)
           | (Installed, d') \<Rightarrow> (Done (), d', set_audit ''tls-cert'' s)
           | (Raising, d') \<Rightarrow> (Crash OSError, d', s))
      | _ \<Rightarrow> (Crash AttributeError, d, s))"

definition cli_install_cert :: "x509 \<Rightarrow> (cert_call \<Rightarrow> outcome) \<Rightarrow> (string \<Rightarrow> bool) \<Rightarrow> string \<Rightarrow> string \<Rightarrow> string list \<Rightarrow> disk \<Rightarrow> int \<times> disk" where
  "cli_install_cert x works removable crt key argv d =
     (case argv of
        a0 # a1 # cert_path # key_path # rest \<Rightarrow>
          (case (map_of d cert_path, map_of d key_path) of
             (Some cf, Some kf) \<Rightarrow>
               (case validate_and_install_cert x works removable crt key (fl_text cf) (fl_text kf) d of
                  (Installed, d') \<Rightarrow> (0, d') | (r, d') \<Rightarrow> (1, d'))
           | _ \<Rightarrow> (1, d))
      | _ \<Rightarrow> (1, d))"

end
