(* ===== verification/CertificateFacts.thy ===== *)
theory CertificateFacts
  imports Certificates
begin

text \<open>
  What the certificate routines promise (\<open>Certificates\<close>): a refused pair changes nothing, an installed pair
  is the uploaded one with matching keys and a private key nobody else reads, an operator's certificate
  is never overwritten at the start; and the one way an installation leaves two halves behind.
\<close>

lemma at_once_simps [simp]: "run_calls works ((c, at_once f) # cs) d = (case works c of Works \<Rightarrow> run_calls works cs (f d) | _ \<Rightarrow> (False, d))"
  by (simp add: at_once_def split: outcome.split option.split)

lemma write_file_map: "map_of (write_file p m t d) k = (if k = p then Some ((opened m (map_of d p))\<lparr>fl_text := t\<rparr>) else map_of d k)"
  by (simp add: write_file_def)

lemma replace_file_map: "map_of d src = Some f \<Longrightarrow> src \<noteq> dst \<Longrightarrow>
    map_of (replace_file src dst d) k = (if k = dst then Some f else if k = src then None else map_of d k)"
  by (simp add: replace_file_def)

lemma chmod_file_map: "map_of d p = Some f \<Longrightarrow> map_of (chmod_file p m d) k = (if k = p then Some (f\<lparr>fl_mode := m\<rparr>) else map_of d k)"
  by (simp add: chmod_file_def)

text \<open>The four paths an installation touches.\<close>

definition four_paths :: "string \<Rightarrow> string \<Rightarrow> bool" where
  "four_paths crt key \<longleftrightarrow> distinct [crt, key, crt @ ''.upload'', key @ ''.upload'']"

text \<open>What is at the serving paths: nothing new, the new certificate with the old key, or the new pair.\<close>

definition old_pair :: "string \<Rightarrow> string \<Rightarrow> disk \<Rightarrow> disk \<Rightarrow> bool" where
  "old_pair crt key d d' \<longleftrightarrow> map_of d' crt = map_of d crt \<and> map_of d' key = map_of d key"

definition holds_text :: "string \<Rightarrow> string \<Rightarrow> disk \<Rightarrow> bool" where
  "holds_text p t d \<longleftrightarrow> (case map_of d p of None \<Rightarrow> False | Some f \<Rightarrow> fl_text f = t)"

definition has_mode :: "string \<Rightarrow> nat \<Rightarrow> disk \<Rightarrow> bool" where
  "has_mode p m d \<longleftrightarrow> (case map_of d p of None \<Rightarrow> False | Some f \<Rightarrow> fl_mode f = m)"

lemma del_keys_map: "map_of (del_keys ks d) k = (if k \<in> set ks then None else map_of d k)"
  by (induction ks arbitrary: d) auto

lemma install_pair_outcomes:
  assumes "install_pair works (\<lambda>p. True) crt key c k d = (r, d')" and "four_paths crt key"
  shows "(\<forall>p. p \<notin> {crt, key, crt @ ''.upload'', key @ ''.upload''} \<longrightarrow> map_of d' p = map_of d p) \<and>
    (r \<noteq> Raising \<longrightarrow> r = Installed \<and> holds_text crt (c @ [newline]) d' \<and> holds_text key (k @ [newline]) d' \<and>
       has_mode key private_mode d') \<and>
    (r = Raising \<longrightarrow> old_pair crt key d d' \<or>
       (works ReplaceKey \<noteq> Works \<and> holds_text crt (c @ [newline]) d' \<and> map_of d' key = map_of d key) \<or>
       (works ChmodKey \<noteq> Works \<and> holds_text crt (c @ [newline]) d' \<and> holds_text key (k @ [newline]) d'))"
proof -
  let ?tc = "crt @ ''.upload''" and ?tk = "key @ ''.upload''"
  have paths: "crt \<noteq> key" "?tc \<noteq> crt" "?tc \<noteq> key" "?tk \<noteq> crt" "?tk \<noteq> key" "?tc \<noteq> ?tk"
    using assms(2) by (auto simp: four_paths_def)
  have works_cases: "w = Works \<or> (\<exists>t. w = Fails (Some t)) \<or> w = Fails None" for w
    by (cases w) (auto simp: not_None_eq)
  define cf where "cf = (opened plain_mode (map_of d ?tc))\<lparr>fl_text := c @ [newline]\<rparr>"
  define d1 where "d1 = write_file ?tc plain_mode (c @ [newline]) d"
  define kf where "kf = (opened private_mode (map_of d1 ?tk))\<lparr>fl_text := k @ [newline]\<rparr>"
  define d2 where "d2 = write_file ?tk private_mode (k @ [newline]) d1"
  define d3 where "d3 = replace_file ?tc crt d2"
  define d4 where "d4 = replace_file ?tk key d3"
  define d5 where "d5 = chmod_file key private_mode d4"
  note d_defs = d1_def [symmetric] d2_def [symmetric] d3_def [symmetric] d4_def [symmetric] d5_def [symmetric]
  have m1: "map_of d1 p = (if p = ?tc then Some cf else map_of d p)" for p
    by (simp add: d1_def cf_def write_file_map)
  have m2: "map_of d2 p = (if p = ?tk then Some kf else map_of d1 p)" for p
    by (simp add: d2_def kf_def write_file_map)
  have m3: "map_of d3 p = (if p = crt then Some cf else if p = ?tc then None else map_of d2 p)" for p
    unfolding d3_def by (rule replace_file_map) (use paths in \<open>simp_all add: m1 m2\<close>)
  have m4: "map_of d4 p = (if p = key then Some kf else if p = ?tk then None else map_of d3 p)" for p
    unfolding d4_def by (rule replace_file_map) (use paths in \<open>simp_all add: m1 m2 m3\<close>)
  have m5: "map_of d5 p = (if p = key then Some (kf\<lparr>fl_mode := private_mode\<rparr>) else map_of d4 p)" for p
    unfolding d5_def by (rule chmod_file_map) (simp add: m4)
  note maps = m1 m2 m3 m4 m5 write_file_map del_keys_map
  have texts: "fl_text cf = c @ [newline]" "fl_text kf = k @ [newline]"
    by (simp_all add: cf_def kf_def)
  consider "works MakeDir \<noteq> Works"
    | "works MakeDir = Works" "works WriteCert \<noteq> Works"
    | "works MakeDir = Works" "works WriteCert = Works" "works WriteKey \<noteq> Works"
    | "works MakeDir = Works" "works WriteCert = Works" "works WriteKey = Works" "works ReplaceCert \<noteq> Works"
    | "works MakeDir = Works" "works WriteCert = Works" "works WriteKey = Works" "works ReplaceCert = Works" "works ReplaceKey \<noteq> Works"
    | "works MakeDir = Works" "works WriteCert = Works" "works WriteKey = Works" "works ReplaceCert = Works" "works ReplaceKey = Works" "works ChmodKey \<noteq> Works"
    | "works MakeDir = Works" "works WriteCert = Works" "works WriteKey = Works" "works ReplaceCert = Works" "works ReplaceKey = Works" "works ChmodKey = Works"
    by blast
  then show ?thesis
  proof cases
    case 1
    then show ?thesis using assms(1) by (simp add: install_pair_def old_pair_def)
  next
    case 2
    have "r = Raising \<and> (d' = del_keys [?tc, ?tk] d \<or> (\<exists>t. d' = del_keys [?tc, ?tk] (write_file ?tc plain_mode t d)))"
      using assms(1) 2 works_cases [of "works WriteCert"] by (elim disjE exE) (auto simp: install_pair_def writing_def Let_def)
    then show ?thesis using paths by (elim conjE disjE exE) (simp_all add: old_pair_def write_file_map del_keys_map)
  next
    case 3
    have "r = Raising \<and> (d' = del_keys [?tc, ?tk] d1 \<or> (\<exists>t. d' = del_keys [?tc, ?tk] (write_file ?tk private_mode t d1)))"
      using assms(1) 3 works_cases [of "works WriteKey"] by (elim disjE exE) (auto simp: install_pair_def writing_def Let_def d_defs)
    then show ?thesis using paths by (elim conjE disjE exE) (simp_all add: old_pair_def write_file_map m1 del_keys_map)
  next
    case 4
    then have "r = Raising" "d' = del_keys [?tc, ?tk] d2"
      using assms(1) works_cases [of "works ReplaceCert"] by (auto simp: install_pair_def writing_def d_defs)
    then show ?thesis using paths by (auto simp: old_pair_def m1 m2 del_keys_map)
  next
    case 5
    then have "r = Raising" "d' = del_keys [?tc, ?tk] d3"
      using assms(1) works_cases [of "works ReplaceKey"] by (auto simp: install_pair_def writing_def d_defs)
    then show ?thesis using paths 5 texts by (auto simp: holds_text_def m1 m2 m3 del_keys_map)
  next
    case 6
    then have "r = Raising" "d' = del_keys [?tc, ?tk] d4"
      using assms(1) works_cases [of "works ChmodKey"] by (auto simp: install_pair_def writing_def d_defs)
    then show ?thesis using paths 6 texts by (auto simp: holds_text_def m1 m2 m3 m4 del_keys_map)
  next
    case 7
    then have "r = Installed" "d' = del_keys [?tc, ?tk] d5"
      using assms(1) by (auto simp: install_pair_def writing_def d_defs)
    then show ?thesis using paths texts by (auto simp: holds_text_def has_mode_def m1 m2 m3 m4 m5 del_keys_map)
  qed
qed

text \<open>C24: Uploading a certificate: a pair that is refused changes no file. One that is installed had a key that
  matches its certificate, and both are at the serving paths, the key with mode 0600. When a call fails
  the old pair stays, unless the calls that fail are the last two: then the new certificate is in place.
  No other file is touched.\<close>

theorem upload_installs_matching_pair:
  assumes "validate_and_install_cert x works (\<lambda>p. True) crt key c k d = (r, d')" and "four_paths crt key"
  shows "(\<forall>p. p \<notin> {crt, key, crt @ ''.upload'', key @ ''.upload''} \<longrightarrow> map_of d' p = map_of d p) \<and>
    (case r of
       Refused e \<Rightarrow> d' = d
     | Installed \<Rightarrow> x_leaf_pub x (strip c) \<noteq> None \<and> x_leaf_pub x (strip c) = x_key_pub x (strip k) \<and>
         holds_text crt (strip c @ [newline]) d' \<and> holds_text key (strip k @ [newline]) d' \<and> has_mode key private_mode d'
     | Raising \<Rightarrow> works ReplaceKey = Works \<and> works ChmodKey = Works \<longrightarrow> old_pair crt key d d')"
proof (cases "pair_error x (strip c) (strip k)")
  case (Some e)
  then show ?thesis using assms(1) by (auto simp: validate_and_install_cert_def)
next
  case None
  then have "x_leaf_pub x (strip c) \<noteq> None" "x_leaf_pub x (strip c) = x_key_pub x (strip k)"
    by (auto simp: pair_error_def split: if_splits)
  moreover have "install_pair works (\<lambda>p. True) crt key (strip c) (strip k) d = (r, d')"
    using assms(1) None by (simp add: validate_and_install_cert_def)
  note out = install_pair_outcomes [OF this assms(2)]
  ultimately show ?thesis
    using conjunct1 [OF out] conjunct2 [OF out] by (cases r) auto
qed

text \<open>An installation whose last rename fails (or that the process does not live to make) leaves the new
  certificate beside the old key. The next start takes the two for a usable pair.\<close>

theorem half_install_accepted:
  assumes "pair_error x (strip c) (strip k) = None" and "four_paths crt key"
    and "works MakeDir = Works" "works WriteCert = Works" "works WriteKey = Works" "works ReplaceCert = Works"
    and "works ReplaceKey = Fails None" and "map_of d key \<noteq> None"
  shows "\<exists>d'. validate_and_install_cert x works (\<lambda>p. True) crt key c k d = (Raising, d') \<and>
    holds_text crt (strip c @ [newline]) d' \<and> map_of d' key = map_of d key \<and> ensure_tls_cert x works crt key d' = (True, d')"
proof -
  let ?tc = "crt @ ''.upload''" and ?tk = "key @ ''.upload''"
  have paths: "crt \<noteq> key" "?tc \<noteq> crt" "?tc \<noteq> key" "?tk \<noteq> crt" "?tk \<noteq> key" "?tc \<noteq> ?tk"
    using assms(2) by (auto simp: four_paths_def)
  define d2 where "d2 = write_file ?tk private_mode (strip k @ [newline]) (write_file ?tc plain_mode (strip c @ [newline]) d)"
  define d3 where "d3 = replace_file ?tc crt d2"
  have m2: "map_of d2 ?tc = Some ((opened plain_mode (map_of d ?tc))\<lparr>fl_text := strip c @ [newline]\<rparr>)" "map_of d2 key = map_of d key"
    using paths by (simp_all add: d2_def write_file_map)
  have m3: "map_of d3 p = (if p = crt then Some ((opened plain_mode (map_of d ?tc))\<lparr>fl_text := strip c @ [newline]\<rparr>)
      else if p = ?tc then None else map_of d2 p)" for p
    unfolding d3_def by (rule replace_file_map [OF m2(1) paths(2)])
  let ?d' = "del_keys [?tc, ?tk] d3"
  have "validate_and_install_cert x works (\<lambda>p. True) crt key c k d = (Raising, ?d')"
    using assms by (simp add: validate_and_install_cert_def install_pair_def writing_def d2_def d3_def Let_def)
  moreover have "holds_text crt (strip c @ [newline]) ?d'" "map_of ?d' key = map_of d key"
    using paths m2 m3 by (simp_all add: holds_text_def)
  moreover from this have "ensure_tls_cert x works crt key ?d' = (True, ?d')"
    using assms(8) by (auto simp: ensure_tls_cert_def holds_text_def split: option.splits)
  ultimately show ?thesis by blast
qed

section \<open>Concrete instances\<close>

definition sample_x509 :: x509 where
  "sample_x509 = \<lparr>x_leaf = (\<lambda>t. Some \<lparr>lf_subject = ''s'', lf_issuer = ''s'', lf_fp = ''abcd'', lf_not_after = [], lf_expires = []\<rparr>),
     x_key = (\<lambda>t. True), x_leaf_pub = (\<lambda>t. Some ''pub''), x_key_pub = (\<lambda>t. Some ''pub''), x_make = Inl ''none''\<rparr>"

definition old_disk :: disk where
  "old_disk = [(''c'', \<lparr>fl_text = ''old'', fl_mode = 420, fl_synced = True\<rparr>), (''k'', \<lparr>fl_text = ''old'', fl_mode = 384, fl_synced = True\<rparr>)]"

definition key_stuck :: "cert_call \<Rightarrow> outcome" where
  "key_stuck c = (if c = ReplaceKey then Fails None else Works)"

lemma sample_paths: "four_paths ''c'' ''k''"
  by code_simp

lemma sample_texts:
  "contains ''BEGIN CERTIFICATE'' (strip '' BEGIN CERTIFICATE'')" "contains ''PRIVATE KEY'' (strip ''PRIVATE KEY'')"
  "length (strip '' BEGIN CERTIFICATE'') = 17" "length (strip ''PRIVATE KEY'') = 11"
  by code_simp+

lemma sample_pair: "pair_error sample_x509 (strip '' BEGIN CERTIFICATE'') (strip ''PRIVATE KEY'') = None"
  by (simp add: pair_error_def sample_texts sample_x509_def)

theorem upload_installs_matching_pair_witness:
  "\<exists>d'. validate_and_install_cert sample_x509 (\<lambda>c. Works) (\<lambda>p. True) ''c'' ''k'' '' BEGIN CERTIFICATE'' ''PRIVATE KEY'' old_disk =
     (Installed, d') \<and> holds_text ''c'' (strip '' BEGIN CERTIFICATE'' @ [newline]) d' \<and> has_mode ''k'' private_mode d'"
proof -
  let ?r = "validate_and_install_cert sample_x509 (\<lambda>c. Works) (\<lambda>p. True) ''c'' ''k'' '' BEGIN CERTIFICATE'' ''PRIVATE KEY'' old_disk"
  have "fst ?r = Installed"
    by (simp add: validate_and_install_cert_def sample_pair install_pair_def writing_def Let_def)
  then obtain d' where r: "?r = (Installed, d')"
    by (cases ?r) simp
  then show ?thesis
    using upload_installs_matching_pair [OF r sample_paths] by simp
qed

theorem half_install_accepted_witness:
  "\<exists>d'. validate_and_install_cert sample_x509 key_stuck (\<lambda>p. True) ''c'' ''k'' '' BEGIN CERTIFICATE'' ''PRIVATE KEY'' old_disk =
     (Raising, d') \<and> map_of d' ''k'' = map_of old_disk ''k''"
proof -
  have "map_of old_disk ''k'' \<noteq> None"
    by code_simp
  then show ?thesis
    using half_install_accepted [OF sample_pair sample_paths, of key_stuck old_disk] by (auto simp: key_stuck_def)
qed

end
