(* ===== verification/MonitorLoop.thy ===== *)
theory MonitorLoop
  imports Certificates Notifier History
begin

text \<open>
  One round of the monitor thread (\<open>_monitor_loop\<close> of \<open>app.py\<close>), composed of the components as the code
  composes them: the service checks run, the certificates are swept when it is time, the fleet is built,
  the notifier looks at its hosts, at the unpinned checks and at the controller's own certificate, and
  the history takes a sample of every host that is not paused. The clock is read once in a round.
\<close>

definition CERT_CHECK_INTERVAL :: rat where
  "CERT_CHECK_INTERVAL = 21600"

text \<open>\<open>_maybe_sweep_certs\<close>: the cache and the time of the last sweep.\<close>

definition maybe_sweep_certs :: "rat \<Rightarrow> (node \<Rightarrow> string option) \<Rightarrow> node list \<Rightarrow> rat \<times> string dict \<Rightarrow> rat \<times> string dict" where
  "maybe_sweep_certs now read nodes st =
     (let (last, cache) = st
      in if now - last < CERT_CHECK_INTERVAL then (last, cache) else (now, sweep_cert_expiry read nodes cache))"

text \<open>What a round meets.\<close>

record world =
  wd_clock :: int
  wd_now :: rat
  wd_ts :: string
  wd_net :: network
  wd_latency :: "check \<Rightarrow> int"
  wd_expiry :: "node \<Rightarrow> string option"
  wd_fetch :: "node \<Rightarrow> envelope"
  wd_own_cert :: "envelope list"

record watch =
  wt_app :: app
  wt_history :: "sample list"
  wt_swept :: rat

definition monitor_pass :: "world \<Rightarrow> watch \<Rightarrow> event list \<times> (string \<times> payload) list \<times> watch" where
  "monitor_pass w m =
     (let s1 = run_all_checks (wd_net w) (wd_latency w) (wd_ts w) (wt_app m);
          (swept, certs) = maybe_sweep_certs (wd_now w) (wd_expiry w) (st_nodes s1) (wt_swept m, st_cert_cache s1);
          (f, built, s2) = refresh_fleet None (wd_clock w) (wd_now w) (wd_ts w) (wd_fetch w) (s1\<lparr>st_cert_cache := certs\<rparr>);
          (events, posts, s3) = monitor_cycle (wd_clock w) (wd_now w) (wd_ts w)
             (f_nodes f @ check_monitor_envs s2 @ wd_own_cert w) s2
      in (events, posts, \<lparr>wt_app = s3,
            wt_history = record_samples (filter (\<lambda>r. \<not> e_disabled r) (f_nodes f)) (py_trunc (wd_now w)) (wt_history m),
            wt_swept = swept\<rparr>))"

text \<open>The seconds until the next round.\<close>

definition monitor_pause :: "watch \<Rightarrow> int" where
  "monitor_pause m = tuned (st_cfg (wt_app m)) ''monitor_interval''"

end
