(* ===== verification/MonitorFacts.thy ===== *)
theory MonitorFacts
  imports MonitorLoop NotifierRuns FleetFacts CheckFacts "HOL-Library.Multiset"
begin

text \<open>
  A whole round of the monitor (\<open>MonitorLoop\<close>): the components together keep the promise of a maintenance
  window, and the certificate sweep keeps its pace.
\<close>

section \<open>Who is in the fleet\<close>

lemma version_skew_fields: "map (\<lambda>r. (e_id r, e_disabled r)) (flag_version_skew rs) = map (\<lambda>r. (e_id r, e_disabled r)) rs"
  by (simp add: flag_version_skew_def Let_def o_def split: list.split)

lemma reflect_fields [simp]: "e_id (reflect_type ns r) = e_id r" "e_disabled (reflect_type ns r) = e_disabled r"
  by (simp_all add: reflect_type_def split: option.split)

lemma attach_fields: "map (\<lambda>r. (e_id r, e_disabled r)) (attach_svc_checks cs res rs) = map (\<lambda>r. (e_id r, e_disabled r)) rs"
  by (simp add: attach_svc_checks_def o_def)

lemma stamp_fields: "map (\<lambda>r. (e_id r, e_disabled r)) (map (stamp_cert c) rs) = map (\<lambda>r. (e_id r, e_disabled r)) rs"
  by (simp add: o_def)

lemma folded_fields:
  "map (\<lambda>r. (e_id r, e_disabled r)) (fst (fold_health clock now ts acks rs since)) = map (\<lambda>r. (e_id r, e_disabled r)) rs"
proof -
  obtain es where es: "fst (fold_health clock now ts acks rs since) = map2 (fold_entries acks now) es rs" "length es = length rs"
    using fold_health_shape by blast
  then show ?thesis
    by (intro nth_equalityI) simp_all
qed

lemma built_fields:
  assumes "build_fleet clock now ts fetch s = (f, s')"
  shows "mset (map (\<lambda>r. (e_id r, e_disabled r)) (f_nodes f)) =
    mset (map (\<lambda>r. (e_id r, e_disabled r)) (fan_out fetch (fst (expire_pauses clock (st_nodes s)))))"
proof -
  let ?g = "\<lambda>r :: envelope. (e_id r, e_disabled r)"
  let ?ns = "fst (expire_pauses clock (st_nodes s))"
  define rs where "rs = flag_version_skew (map (reflect_type ?ns) (fan_out fetch ?ns))"
  have rs: "map ?g rs = map ?g (fan_out fetch ?ns)"
    unfolding rs_def version_skew_fields by (simp add: o_def)
  define t where "t = s\<lparr>st_nodes := refresh_registry ts (rev (map (\<lambda>r. (e_id r, r)) (fan_out fetch ?ns))) ?ns\<rparr>"
  have "f = fst (build_fleet_finish clock now ts rs t)"
    using assms by (simp add: build_fleet_def rs_def t_def Let_def)
  then have "f_nodes f = sort_key (\<lambda>r. lower (e_name r)) (fst (fold_health clock now ts (st_acks t)
      (map (stamp_cert (st_cert_cache t)) (attach_svc_checks (st_checks t) (st_results t) rs)) (st_since t)))"
    by (simp add: build_fleet_finish_def Let_def split_beta)
  then have "mset (map ?g (f_nodes f)) = mset (map ?g (fst (fold_health clock now ts (st_acks t)
      (map (stamp_cert (st_cert_cache t)) (attach_svc_checks (st_checks t) (st_results t) rs)) (st_since t))))"
    by (simp only: mset_map mset_sort)
  then show ?thesis
    by (simp only: folded_fields stamp_fields attach_fields rs)
qed

lemma fan_out_fields:
  assumes "\<forall>k. e_id (fetch k) = n_id k \<and> \<not> e_disabled (fetch k)"
  shows "mset (map (\<lambda>r. (e_id r, e_disabled r)) (fan_out fetch ns)) = mset (map (\<lambda>k. (n_id k, n_disabled k)) ns)"
  using assms by (induction ns) (auto simp: fan_out_def disabled_envelope_def base_envelope_def)

lemma expire_ids: "map n_id (fst (expire_pauses clock ns)) = map n_id ns"
  by (simp add: expire_pauses_def resume_def)

lemma built_ids:
  assumes "build_fleet clock now ts fetch s = (f, s')" and "\<forall>k. e_id (fetch k) = n_id k \<and> \<not> e_disabled (fetch k)"
  shows "mset (map e_id (f_nodes f)) = mset (map n_id (st_nodes s))"
proof -
  have "mset (map (fst \<circ> (\<lambda>r. (e_id r, e_disabled r))) (f_nodes f)) =
      mset (map (fst \<circ> (\<lambda>k. (n_id k, n_disabled k))) (fst (expire_pauses clock (st_nodes s))))"
    using built_fields [OF assms(1)] fan_out_fields [OF assms(2)] unfolding map_map [symmetric] mset_map
    by (metis mset_map)
  then show ?thesis
    by (simp add: o_def expire_ids [symmetric, of "st_nodes s" clock])
qed

lemma built_paused:
  assumes "build_fleet clock now ts fetch s = (f, s')" and "\<forall>k. e_id (fetch k) = n_id k \<and> \<not> e_disabled (fetch k)"
    and "distinct (map n_id (st_nodes s))" and "n \<in> set (st_nodes s)" "n_disabled n" "\<not> window_over clock n"
    and "r \<in> set (f_nodes f)" "e_id r = n_id n"
  shows "e_disabled r"
proof -
  let ?ns = "fst (expire_pauses clock (st_nodes s))"
  have "(e_id r, e_disabled r) \<in># mset (map (\<lambda>r. (e_id r, e_disabled r)) (f_nodes f))"
    using assms(7) by simp
  then have "(e_id r, e_disabled r) \<in> (\<lambda>k. (n_id k, n_disabled k)) ` set ?ns"
    unfolding built_fields [OF assms(1)] fan_out_fields [OF assms(2)] by simp
  then obtain k where k: "k \<in> set ?ns" "n_id k = n_id n" "n_disabled k = e_disabled r"
    using assms(8) by auto
  have "n \<in> set ?ns"
    using assms(4,6) by (force simp: expire_pauses_def)
  moreover have "distinct (map n_id ?ns)"
    using assms(3) by (simp add: expire_ids)
  ultimately have "k = n"
    using k by (auto simp: distinct_map inj_on_def)
  then show ?thesis using k(3) assms(5) by simp
qed

section \<open>A round\<close>

lemma run_all_checks_frame [simp]:
  "st_nodes (run_all_checks net ms ts s) = st_nodes s" "st_checks (run_all_checks net ms ts s) = st_checks s"
  by (simp_all add: run_all_checks_def Let_def)

lemma build_fleet_checks: "build_fleet clock now ts fetch s = (f, s') \<Longrightarrow> st_checks s' = st_checks s"
  by (auto simp: build_fleet_def build_fleet_finish_def Let_def split: prod.splits)

lemma monitor_pass_parts:
  assumes "monitor_pass w m = (events, posts, m')"
  obtains s1 swept certs f s2 s3 where
    "s1 = run_all_checks (wd_net w) (wd_latency w) (wd_ts w) (wt_app m)"
    "maybe_sweep_certs (wd_now w) (wd_expiry w) (st_nodes s1) (wt_swept m, st_cert_cache s1) = (swept, certs)"
    "build_fleet (wd_clock w) (wd_now w) (wd_ts w) (wd_fetch w) (s1\<lparr>st_cert_cache := certs\<rparr>) = (f, s2)"
    "monitor_cycle (wd_clock w) (wd_now w) (wd_ts w)
       (f_nodes f @ check_monitor_envs (s2\<lparr>st_cache := Some f, st_cache_ts := wd_now w\<rparr>) @ wd_own_cert w)
       (s2\<lparr>st_cache := Some f, st_cache_ts := wd_now w\<rparr>) = (events, posts, s3)"
    "m' = \<lparr>wt_app = s3, wt_history = record_samples (filter (\<lambda>r. \<not> e_disabled r) (f_nodes f)) (py_trunc (wd_now w)) (wt_history m),
       wt_swept = swept\<rparr>"
  using assms by (auto simp: monitor_pass_def refresh_fleet_def Let_def split: prod.splits)

lemma check_env_ids: "map e_id (check_monitor_envs s) =
    map (\<lambda>c. ''check:'' @ k_id c) (filter (\<lambda>c. k_node_id c = None \<and>
      (case map_of (st_results s) (k_id c) of None \<Rightarrow> False | Some r \<Rightarrow> r_ok r \<noteq> None)) (st_checks s))"
proof -
  have one: "e_id (check_envelope c ok d) = ''check:'' @ k_id c" for c ok d
    by (simp add: check_envelope_def base_envelope_def sample_node_def)
  have "map e_id (concat (map (\<lambda>c. case map_of res (k_id c) of None \<Rightarrow> []
        | Some r \<Rightarrow> (case r_ok r of None \<Rightarrow> [] | Some ok \<Rightarrow> [check_envelope c ok (r_detail r)])) (filter (\<lambda>c. k_node_id c = None) cs))) =
      map (\<lambda>c. ''check:'' @ k_id c) (filter (\<lambda>c. k_node_id c = None \<and>
        (case map_of res (k_id c) of None \<Rightarrow> False | Some r \<Rightarrow> r_ok r \<noteq> None)) cs)" for res cs
    by (induction cs) (auto simp: one split: option.splits)
  then show ?thesis by (simp only: check_monitor_envs_def)
qed

lemma own_cert_ids: "map e_id (controller_cert_env x clock crt tls d) \<in> {[], [''controller'']}"
  by (simp add: controller_cert_env_def base_envelope_def sample_node_def split: cert_report.split)

lemma not_contacted:
  assumes "n \<in> set ns" "n_disabled n"
  shows "sweep_cert_expiry (rd(n := t)) ns c = sweep_cert_expiry rd ns c"
proof -
  have "foldl (\<lambda>d k. case (rd(n := t)) k of None \<Rightarrow> d | Some t \<Rightarrow> AList.update (n_id k) t d) c (sweep_todo ns) =
      foldl (\<lambda>d k. case rd k of None \<Rightarrow> d | Some t \<Rightarrow> AList.update (n_id k) t d) c (sweep_todo ns)"
    by (rule foldl_cong_in) (use assms(2) in \<open>auto simp: sweep_todo_def\<close>)
  then show ?thesis by (simp add: sweep_cert_expiry_def)
qed

lemma not_fetched:
  assumes "n_disabled n"
  shows "build_fleet clock now ts (fetch(n := env)) s = build_fleet clock now ts fetch s"
proof -
  have "fan_out (fetch(n := env)) ns = fan_out fetch ns" for ns
    by (rule fan_out_cong) (use assms in auto)
  then show ?thesis by (simp add: build_fleet_def)
qed

lemma maybe_not_contacted:
  "n \<in> set ns \<Longrightarrow> n_disabled n \<Longrightarrow> maybe_sweep_certs now (rd(n := t)) ns st = maybe_sweep_certs now rd ns st"
  by (simp add: maybe_sweep_certs_def not_contacted split: prod.split)

lemma refresh_not_fetched:
  "n_disabled n \<Longrightarrow> refresh_fleet None clock now ts (fetch(n := env)) s = refresh_fleet None clock now ts fetch s"
  by (simp add: refresh_fleet_def not_fetched)

text \<open>C15: A host in its maintenance window is left alone by a whole round of the monitor: no event is about it, no
  sample of it is taken, and the round goes as it would whatever the host and its certificate are.\<close>

theorem pause_is_respected:
  assumes pass: "monitor_pass w m = (events, posts, m')"
    and n: "n \<in> set (st_nodes (wt_app m))" "n_disabled n" "\<not> window_over (wd_clock w) n"
    and ids: "distinct (map n_id (st_nodes (wt_app m)))" "distinct (map k_id (st_checks (wt_app m)))"
    and names: "\<forall>k\<in>set (st_nodes (wt_app m)). n_id k \<noteq> ''controller'' \<and> \<not> startswith ''check:'' (n_id k)"
    and fetch: "\<forall>k. e_id (wd_fetch w k) = n_id k \<and> \<not> e_disabled (wd_fetch w k)"
    and own: "wd_own_cert w = controller_cert_env x clock crt tls d"
  shows "(\<forall>e\<in>set events. ev_host_id e \<noteq> n_id n) \<and>
    (\<forall>smp\<in>set (wt_history m'). sm_host smp = n_id n \<longrightarrow> smp \<in> set (wt_history m)) \<and>
    monitor_pass (w\<lparr>wd_fetch := (wd_fetch w)(n := env), wd_expiry := (wd_expiry w)(n := t)\<rparr>) m = (events, posts, m')"
proof -
  obtain s1 swept certs f s2 s3 where s1: "s1 = run_all_checks (wd_net w) (wd_latency w) (wd_ts w) (wt_app m)"
    and built: "build_fleet (wd_clock w) (wd_now w) (wd_ts w) (wd_fetch w) (s1\<lparr>st_cert_cache := certs\<rparr>) = (f, s2)"
    and cycle: "monitor_cycle (wd_clock w) (wd_now w) (wd_ts w)
       (f_nodes f @ check_monitor_envs (s2\<lparr>st_cache := Some f, st_cache_ts := wd_now w\<rparr>) @ wd_own_cert w)
       (s2\<lparr>st_cache := Some f, st_cache_ts := wd_now w\<rparr>) = (events, posts, s3)"
    and m': "m' = \<lparr>wt_app = s3, wt_history = record_samples (filter (\<lambda>r. \<not> e_disabled r) (f_nodes f)) (py_trunc (wd_now w)) (wt_history m),
       wt_swept = swept\<rparr>"
    using monitor_pass_parts [OF pass] by metis
  let ?envs = "check_monitor_envs (s2\<lparr>st_cache := Some f, st_cache_ts := wd_now w\<rparr>)"
  have nodes: "st_nodes (s1\<lparr>st_cert_cache := certs\<rparr>) = st_nodes (wt_app m)"
    by (simp add: s1)
  have checks: "st_checks s2 = st_checks (wt_app m)"
    using build_fleet_checks [OF built] by (simp add: s1)
  have paused: "e_disabled r" if "r \<in> set (f_nodes f)" "e_id r = n_id n" for r
    using built_paused [OF built fetch] ids(1) n that unfolding nodes by blast
  have f_ids: "mset (map e_id (f_nodes f)) = mset (map n_id (st_nodes (wt_app m)))"
    using built_ids [OF built fetch] unfolding nodes .
  then have f_distinct: "distinct (map e_id (f_nodes f))" and f_set: "e_id ` set (f_nodes f) = n_id ` set (st_nodes (wt_app m))"
    using ids(1) by (metis mset_eq_imp_distinct_iff, metis list.set_map mset_eq_setD)
  have e_set: "startswith ''check:'' (e_id r)" if "r \<in> set ?envs" for r
  proof -
    have "e_id r \<in> set (map e_id ?envs)" using that by simp
    then show ?thesis unfolding check_env_ids by (auto simp: startswith_def)
  qed
  have "distinct (map k_id (filter P (st_checks (wt_app m))))" for P
    using ids(2) by (rule distinct_map_filter)
  then have e_distinct: "distinct (map e_id ?envs)"
    unfolding check_env_ids by (simp add: checks distinct_map inj_on_def)
  have c_set: "e_id r = ''controller''" if "r \<in> set (wd_own_cert w)" for r
    using own_cert_ids [of x clock crt tls d] that unfolding own by auto
  have c_distinct: "distinct (map e_id (wd_own_cert w))"
    using own_cert_ids [of x clock crt tls d] unfolding own by auto
  have apart: "\<not> startswith ''check:'' ''controller''"
    by code_simp
  have f_names: "e_id r \<noteq> ''controller'' \<and> \<not> startswith ''check:'' (e_id r)" if "r \<in> set (f_nodes f)" for r
  proof -
    have "e_id r \<in> n_id ` set (st_nodes (wt_app m))" using that f_set by blast
    then show ?thesis using names by auto
  qed
  have "distinct (map e_id (f_nodes f @ ?envs @ wd_own_cert w))"
    using f_distinct e_distinct c_distinct f_names e_set c_set apart by (fastforce simp del: append_assoc)
  note live = notify_only_live_hosts [OF cycle _ this]
  have quiet: "ev_host_id e \<noteq> n_id n" if ev: "e \<in> set events" for e
  proof -
    obtain r where r: "r \<in> set (f_nodes f @ ?envs @ wd_own_cert w)" "e_id r = ev_host_id e" "\<not> e_disabled r"
      using live [OF ev] by blast
    show ?thesis
      using r paused e_set c_set names n(1) by force
  qed
  moreover have "\<forall>smp\<in>set (wt_history m'). sm_host smp = n_id n \<longrightarrow> smp \<in> set (wt_history m)"
    using paused by (auto simp: m' record_samples_def sample_of_def)
  moreover have "monitor_pass (w\<lparr>wd_fetch := (wd_fetch w)(n := env), wd_expiry := (wd_expiry w)(n := t)\<rparr>) m = monitor_pass w m"
    using n(1) by (simp add: monitor_pass_def refresh_not_fetched [OF n(2)] maybe_not_contacted [OF _ n(2)] Let_def)
  ultimately show ?thesis using pass by simp
qed

text \<open>A paused host, and a host that answers with nothing.\<close>

definition quiet_node :: node where
  "quiet_node = (sample_node ''h1'' ''nas'')\<lparr>n_disabled := True\<rparr>"

definition quiet_watch :: watch where
  "quiet_watch = \<lparr>wt_app = empty_app\<lparr>st_nodes := [quiet_node, sample_node ''h2'' ''web'']\<rparr>, wt_history = [], wt_swept = 0\<rparr>"

definition quiet_world :: world where
  "quiet_world = \<lparr>wd_clock = 0, wd_now = 60, wd_ts = ''t'',
     wd_net = \<lparr>net_tcp = \<lambda>h p m e. TimedOut, net_tls = \<lambda>h p. TimedOut, net_http = \<lambda>s h p. TimedOut, net_udp = \<lambda>h p b. TimedOut\<rparr>,
     wd_latency = (\<lambda>c. 0), wd_expiry = (\<lambda>n. None), wd_fetch = base_envelope, wd_own_cert = []\<rparr>"

theorem pause_is_respected_witness:
  "\<exists>events posts m'. monitor_pass quiet_world quiet_watch = (events, posts, m') \<and> (\<forall>e\<in>set events. ev_host_id e \<noteq> ''h1'') \<and>
     monitor_pass (quiet_world\<lparr>wd_fetch := base_envelope(quiet_node := pool_host), wd_expiry := (\<lambda>n. None)(quiet_node := Some ''x'')\<rparr>)
       quiet_watch = (events, posts, m')"
proof -
  obtain events posts m' where pass: "monitor_pass quiet_world quiet_watch = (events, posts, m')"
    by (metis prod_cases3)
  have nodes: "st_nodes (wt_app quiet_watch) = [quiet_node, sample_node ''h2'' ''web'']" "st_checks (wt_app quiet_watch) = []"
    by (simp_all add: quiet_watch_def empty_app_def)
  have n: "n_id quiet_node = ''h1''" "n_disabled quiet_node" "\<not> window_over (wd_clock quiet_world) quiet_node"
      "n_id (sample_node ''h2'' ''web'') = ''h2''"
    by (simp_all add: quiet_node_def sample_node_def window_over_def)
  have apart: "\<not> startswith ''check:'' ''h1''" "\<not> startswith ''check:'' ''h2''"
    by code_simp+
  have env: "e_id (base_envelope k) = n_id k" "\<not> e_disabled (base_envelope k)" for k
    by (simp_all add: base_envelope_def)
  have world: "wd_fetch quiet_world = base_envelope" "wd_expiry quiet_world = (\<lambda>n. None)"
      "wd_own_cert quiet_world = controller_cert_env
        \<lparr>x_leaf = \<lambda>t. None, x_key = \<lambda>t. False, x_leaf_pub = \<lambda>t. None, x_key_pub = \<lambda>t. None, x_make = Inl []\<rparr> 0 [] False []"
    by (simp_all add: quiet_world_def controller_cert_env_def)
  have "(\<forall>e\<in>set events. ev_host_id e \<noteq> n_id quiet_node) \<and>
    (\<forall>smp\<in>set (wt_history m'). sm_host smp = n_id quiet_node \<longrightarrow> smp \<in> set (wt_history quiet_watch)) \<and>
    monitor_pass (quiet_world\<lparr>wd_fetch := (wd_fetch quiet_world)(quiet_node := pool_host),
      wd_expiry := (wd_expiry quiet_world)(quiet_node := Some ''x'')\<rparr>) quiet_watch = (events, posts, m')"
    by (rule pause_is_respected [OF pass _ n(2,3) _ _ _ _ world(3)]) (simp_all add: nodes n apart env world)
  then show ?thesis
    using pass by (auto simp: n(1) world)
qed

end
