(* ===== verification/Vsphere.thy ===== *)
theory Vsphere
  imports Hypervisors
begin

text \<open>
  The VMware collector on its connection (\<open>collectors/vmware.py\<close>): the session at the host, the default socket
  timeout of the process, the container views and the property collector that hands out its answer in pages.
  pyVmomi is a parameter, a record of what it answers to a call given the calls before it; a call that
  raises is an \<open>Inl\<close>. The world keeps the default timeout, which belongs to the process and which the threads
  that poll other hosts set as well (\<open>vw_others\<close>: what they make of it before each call of this one), the
  sessions and views that were opened and that the host was not yet asked to close, and every call with the
  default it was made under. A page may always announce another one, so the loop is a partial function.
\<close>

section \<open>The library\<close>

record tls_context =
  tc_check_hostname :: bool
  tc_verify :: bool

definition vmware_tls :: "bool \<Rightarrow> tls_context" where
  "vmware_tls verify_ssl = (let ctx = \<lparr>tc_check_hostname = True, tc_verify = True\<rparr>
     in if \<not> verify_ssl then ctx\<lparr>tc_check_hostname := False, tc_verify := False\<rparr> else ctx)"

datatype vcall =
    VConnect login tls_context
  | VContent
  | VView string
  | VProps nat string "string list"
  | VMore string
  | VList nat
  | VDestroy nat
  | VDisconnect
  | VPower string string
  | VGuestOp string string
  | VTask string

text \<open>An object of an answer: its managed object id, the one of the host it runs on, the other properties.\<close>

record vobject =
  vo_moid :: string
  vo_host :: "string option"
  vo_props :: "(string \<times> json) list"

record vpage =
  pa_objects :: "vobject list"
  pa_token :: "string option"

record sdk =
  sd_connect :: "vcall list \<Rightarrow> string option"
  sd_content :: "vcall list \<Rightarrow> string option"
  sd_view :: "vcall list \<Rightarrow> string + nat"
  sd_props :: "vcall list \<Rightarrow> string + vpage option"
  sd_more :: "vcall list \<Rightarrow> string + vpage option"
  sd_list :: "vcall list \<Rightarrow> string + string list"
  sd_destroy :: "vcall list \<Rightarrow> string option"
  sd_disconnect :: "vcall list \<Rightarrow> string option"
  sd_power :: "vcall list \<Rightarrow> string + string"
  sd_guest_op :: "vcall list \<Rightarrow> string option"
  sd_task :: "vcall list \<Rightarrow> nat \<Rightarrow> task_state"

record vworld =
  vw_timeout :: "rat option"
  vw_others :: "nat \<Rightarrow> rat option \<Rightarrow> rat option"
  vw_sessions :: nat
  vw_views :: "nat list"
  vw_calls :: "(vcall \<times> rat option) list"

section \<open>Sequencing\<close>

text \<open>A piece of the collector: \<open>None\<close> when it does not return.\<close>

type_synonym 'a vs = "vworld \<Rightarrow> ((string + 'a) \<times> vworld) option"

definition vs_return :: "'a \<Rightarrow> 'a vs" where
  "vs_return x w = Some (Inr x, w)"

definition vs_raise :: "string \<Rightarrow> 'a vs" where
  "vs_raise e w = Some (Inl e, w)"

definition vs_then :: "'a vs \<Rightarrow> ('a \<Rightarrow> 'b vs) \<Rightarrow> 'b vs" where
  "vs_then m k w = (case m w of None \<Rightarrow> None | Some (Inl e, w') \<Rightarrow> Some (Inl e, w') | Some (Inr x, w') \<Rightarrow> k x w')"

text \<open>\<open>try: m finally: c\<close>: what \<open>c\<close> raises takes the place of the result.\<close>

definition vs_finally :: "'a vs \<Rightarrow> unit vs \<Rightarrow> 'a vs" where
  "vs_finally m c w = (case m w of
      None \<Rightarrow> None
    | Some (r, w') \<Rightarrow> (case c w' of
        None \<Rightarrow> None | Some (Inl e, w'') \<Rightarrow> Some (Inl e, w'') | Some (Inr u, w'') \<Rightarrow> Some (r, w'')))"

definition vs_ask :: "vcall \<Rightarrow> (vcall list \<Rightarrow> string + 'a) \<Rightarrow> 'a vs" where
  "vs_ask c answer w = (let t = vw_others w (length (vw_calls w)) (vw_timeout w); calls = vw_calls w @ [(c, t)]
     in Some (answer (map fst calls), w\<lparr>vw_timeout := t, vw_calls := calls\<rparr>))"

definition ok_or :: "string option \<Rightarrow> string + unit" where
  "ok_or r = (case r of None \<Rightarrow> Inr () | Some e \<Rightarrow> Inl e)"

definition vs_do :: "vcall \<Rightarrow> (vcall list \<Rightarrow> string option) \<Rightarrow> unit vs" where
  "vs_do c answer = vs_ask c (\<lambda>past. ok_or (answer past))"

section \<open>Timeout, session, view\<close>

definition CONNECT_TIMEOUT :: rat where "CONNECT_TIMEOUT = 30"

text \<open>What the others set between the two calls of the standard library here is overwritten.\<close>

definition socket_timeout :: "rat \<Rightarrow> 'a vs \<Rightarrow> 'a vs" where
  "socket_timeout seconds m w = (let previous = vw_timeout w
     in case m (w\<lparr>vw_timeout := Some seconds\<rparr>) of
          None \<Rightarrow> None | Some (r, w') \<Rightarrow> Some (r, w'\<lparr>vw_timeout := previous\<rparr>))"

definition vs_connect :: "sdk \<Rightarrow> login \<Rightarrow> unit vs" where
  "vs_connect api lg = vs_then (vs_do (VConnect lg (vmware_tls (lg_verify lg))) (sd_connect api))
     (\<lambda>_ w. Some (Inr (), w\<lparr>vw_sessions := Suc (vw_sessions w)\<rparr>))"

definition vs_disconnect :: "sdk \<Rightarrow> unit vs" where
  "vs_disconnect api w = vs_do VDisconnect (sd_disconnect api) (w\<lparr>vw_sessions := vw_sessions w - 1\<rparr>)"

definition with_session :: "sdk \<Rightarrow> login \<Rightarrow> 'a vs \<Rightarrow> 'a vs" where
  "with_session api lg body = vs_then (vs_connect api lg) (\<lambda>_. vs_finally body (vs_disconnect api))"

definition vs_create_view :: "sdk \<Rightarrow> string \<Rightarrow> nat vs" where
  "vs_create_view api obj_type = vs_then (vs_ask (VView obj_type) (sd_view api))
     (\<lambda>v w. Some (Inr v, w\<lparr>vw_views := v # vw_views w\<rparr>))"

definition vs_destroy :: "sdk \<Rightarrow> nat \<Rightarrow> unit vs" where
  "vs_destroy api v w = vs_do (VDestroy v) (sd_destroy api) (w\<lparr>vw_views := remove1 v (vw_views w)\<rparr>)"

definition with_view :: "sdk \<Rightarrow> string \<Rightarrow> (nat \<Rightarrow> 'a vs) \<Rightarrow> 'a vs" where
  "with_view api obj_type body = vs_then (vs_create_view api obj_type) (\<lambda>v. vs_finally (body v) (vs_destroy api v))"

section \<open>The property collector\<close>

text \<open>A property that comes twice has its last value.\<close>

definition object_row :: "vobject \<Rightarrow> vsphere_vm" where
  "object_row b = \<lparr>vv_moid = vo_moid b, vv_host = vo_host b,
     vv_props = foldl (\<lambda>row (name, val). AList.update name val row) [] (vo_props b)\<rparr>"

definition next_token :: "vpage \<Rightarrow> string option" where
  "next_token p = (if pa_token p = Some [] then None else pa_token p)"

partial_function (option) vs_pages :: "sdk \<Rightarrow> vpage option \<Rightarrow> vsphere_vm list \<Rightarrow> vworld \<Rightarrow> ((string + vsphere_vm list) \<times> vworld) option" where
  "vs_pages api result out w =
     (case result of
        None \<Rightarrow> Some (Inr out, w)
      | Some p \<Rightarrow>
          let out' = out @ map object_row (pa_objects p)
          in (case next_token p of
                None \<Rightarrow> Some (Inr out', w)
              | Some t \<Rightarrow> (case vs_ask (VMore t) (sd_more api) w of
                    None \<Rightarrow> None
                  | Some (Inl e, w') \<Rightarrow> Some (Inl e, w')
                  | Some (Inr r, w') \<Rightarrow> vs_pages api r out' w')))"

definition vs_collect :: "sdk \<Rightarrow> string \<Rightarrow> string list \<Rightarrow> vsphere_vm list vs" where
  "vs_collect api obj_type path_set = with_view api obj_type (\<lambda>v.
     vs_then (vs_ask (VProps v obj_type path_set) (sd_props api)) (\<lambda>result. vs_pages api result []))"

definition HOST_PATHS :: "string list" where
  "HOST_PATHS = [''name'', ''hardware.cpuInfo.numCpuCores'', ''hardware.cpuInfo.hz'', ''hardware.memorySize'',
     ''summary.quickStats.overallCpuUsage'', ''summary.quickStats.overallMemoryUsage'']"

definition VM_PATHS :: "string list" where
  "VM_PATHS = [''name'', ''config.hardware.numCPU'', ''config.hardware.memoryMB'', ''config.guestFullName'',
     ''runtime.powerState'', ''runtime.host'']"

definition DATASTORE_PATHS :: "string list" where
  "DATASTORE_PATHS = [''summary.capacity'', ''summary.freeSpace'']"

definition vs_inventory :: "sdk \<Rightarrow> login \<Rightarrow> (vsphere_vm list \<times> vsphere_vm list \<times> vsphere_vm list) vs" where
  "vs_inventory api lg =
     socket_timeout CONNECT_TIMEOUT (with_session api lg
       (vs_then (vs_do VContent (sd_content api)) (\<lambda>_.
         vs_then (vs_collect api ''HostSystem'' HOST_PATHS) (\<lambda>hosts.
           vs_then (vs_collect api ''VirtualMachine'' VM_PATHS) (\<lambda>vms.
             vs_then (vs_collect api ''Datastore'' DATASTORE_PATHS) (\<lambda>datastores.
               vs_return (hosts, vms, datastores)))))))"

definition host_names :: "vsphere_vm list \<Rightarrow> string \<Rightarrow> json" where
  "host_names hosts moid = (case map_of (rev (map (\<lambda>h. (vv_moid h, jget (vv_props h) ''name'')) hosts)) moid of
      None \<Rightarrow> JNull | Some v \<Rightarrow> v)"

definition collect_metrics :: "sdk \<Rightarrow> (exn \<Rightarrow> string) \<Rightarrow> login \<Rightarrow> virt_report vs" where
  "collect_metrics api text lg = vs_then (vs_inventory api lg) (\<lambda>(hosts, vms, datastores).
     case vmware_metrics (map vv_props hosts) vms (map vv_props datastores) (host_names hosts) of
       Inl e \<Rightarrow> vs_raise (text e) | Inr r \<Rightarrow> vs_return r)"

section \<open>Guest actions\<close>

definition find_vm_by_moid :: "sdk \<Rightarrow> string \<Rightarrow> string option vs" where
  "find_vm_by_moid api moid = with_view api ''VirtualMachine'' (\<lambda>v.
     vs_then (vs_ask (VList v) (sd_list api)) (\<lambda>moids. vs_return (find (\<lambda>i. i = moid) moids)))"

definition vs_wait :: "sdk \<Rightarrow> (nat \<Rightarrow> rat) \<Rightarrow> rat \<Rightarrow> string \<Rightarrow> string vs" where
  "vs_wait api clock now task = vs_then (vs_ask (VTask task) Inr) (\<lambda>past w.
     case after_wait (vmware_wait (sd_task api past) clock (now + task_timeout) 0) task of
       None \<Rightarrow> None | Some r \<Rightarrow> Some (r, w))"

definition vs_operate :: "sdk \<Rightarrow> (nat \<Rightarrow> rat) \<Rightarrow> rat \<Rightarrow> string \<Rightarrow> string \<Rightarrow> string vs" where
  "vs_operate api clock now vm action =
     (if action = ''start'' then vs_then (vs_ask (VPower vm ''PowerOnVM_Task'') (sd_power api)) (vs_wait api clock now)
      else if action = ''stop'' then vs_then (vs_ask (VPower vm ''PowerOffVM_Task'') (sd_power api)) (vs_wait api clock now)
      else if action = ''reboot'' then vs_then (vs_do (VGuestOp vm ''RebootGuest'') (sd_guest_op api)) (\<lambda>_. vs_return ''RebootGuest'')
      else vs_then (vs_do (VGuestOp vm ''ShutdownGuest'') (sd_guest_op api)) (\<lambda>_. vs_return ''ShutdownGuest''))"

definition vs_action :: "sdk \<Rightarrow> (nat \<Rightarrow> rat) \<Rightarrow> rat \<Rightarrow> login \<Rightarrow> string \<Rightarrow> string \<Rightarrow> string vs" where
  "vs_action api clock now lg moid action =
     (if action \<notin> set VM_ACTIONS then vs_raise (''unsupported action: '' @ action)
      else socket_timeout CONNECT_TIMEOUT (with_session api lg
        (vs_then (vs_do VContent (sd_content api)) (\<lambda>_.
          vs_then (find_vm_by_moid api moid) (\<lambda>vm.
            case vm of None \<Rightarrow> vs_raise (''VM '' @ moid @ '' not found'') | Some m \<Rightarrow> vs_operate api clock now m action)))))"

end
