(* ===== verification/VsphereFacts.thy ===== *)
theory VsphereFacts
  imports Vsphere HypervisorFacts
begin

text \<open>
  The VMware collector leaves nothing behind: on every way out, each exception included, the timeout of the
  process is the one it found, and it has closed the session and the views it opened; every call it made ran
  under its timeout when no other thread sets the default. All pages of an answer are read, in order, and an
  answer without end is never returned. A guest action comes back, on Proxmox too, and does what its name says.
\<close>

section \<open>Pieces that leave nothing behind\<close>

definition asked :: "vcall \<Rightarrow> vworld \<Rightarrow> vworld" where
  "asked c w = (let t = vw_others w (length (vw_calls w)) (vw_timeout w) in w\<lparr>vw_timeout := t, vw_calls := vw_calls w @ [(c, t)]\<rparr>)"

lemma vs_ask_asked: "vs_ask c answer w = Some (answer (map fst (vw_calls (asked c w))), asked c w)"
  by (simp add: vs_ask_def asked_def Let_def)

lemma asked_calls: "map fst (vw_calls (asked c w)) = map fst (vw_calls w) @ [c]"
  by (simp add: asked_def Let_def)

text \<open>No other thread touches the default timeout.\<close>

definition alone :: "vworld \<Rightarrow> bool" where
  "alone w \<longleftrightarrow> (\<forall>i t. vw_others w i t = t)"

definition tidy :: "rat option \<Rightarrow> vworld \<Rightarrow> vworld \<Rightarrow> bool" where
  "tidy t w w' \<longleftrightarrow> vw_others w' = vw_others w \<and> vw_sessions w' = vw_sessions w \<and> vw_views w' = vw_views w \<and>
     (\<exists>new. vw_calls w' = vw_calls w @ new \<and> (alone w \<and> vw_timeout w = t \<longrightarrow> vw_timeout w' = t \<and> (\<forall>c\<in>set new. snd c = t)))"

text \<open>A piece is tidy wherever it returns.\<close>

definition tidy_vs :: "rat option \<Rightarrow> 'a vs \<Rightarrow> bool" where
  "tidy_vs t m \<longleftrightarrow> (\<forall>w r w'. m w = Some (r, w') \<longrightarrow> tidy t w w')"

named_theorems tidy_intros \<open>the pieces of the collector are tidy\<close>

lemma tidy_refl: "tidy t w w"
  by (simp add: tidy_def)

lemma tidy_trans:
  assumes "tidy t w w'" and "tidy t w' w''"
  shows "tidy t w w''"
proof -
  obtain a where a: "vw_calls w' = vw_calls w @ a" "alone w \<and> vw_timeout w = t \<longrightarrow> vw_timeout w' = t \<and> (\<forall>c\<in>set a. snd c = t)"
    using assms(1) by (auto simp: tidy_def)
  obtain b where b: "vw_calls w'' = vw_calls w' @ b" "alone w' \<and> vw_timeout w' = t \<longrightarrow> vw_timeout w'' = t \<and> (\<forall>c\<in>set b. snd c = t)"
    using assms(2) by (auto simp: tidy_def)
  have "alone w' = alone w" using assms(1) by (simp add: tidy_def alone_def)
  then have "vw_calls w'' = vw_calls w @ (a @ b) \<and> (alone w \<and> vw_timeout w = t \<longrightarrow> vw_timeout w'' = t \<and> (\<forall>c\<in>set (a @ b). snd c = t))"
    using a b by auto
  then show ?thesis using assms unfolding tidy_def by (intro conjI exI [of _ "a @ b"]) simp_all
qed

lemma tidy_vsD: "tidy_vs t m \<Longrightarrow> m w = Some (r, w') \<Longrightarrow> tidy t w w'"
  by (auto simp: tidy_vs_def)

lemma tidy_asked: "tidy t w (asked c w)"
  by (auto simp: asked_def tidy_def alone_def Let_def)

lemma tidy_ask [tidy_intros]: "tidy_vs t (vs_ask c answer)"
  by (auto simp: tidy_vs_def vs_ask_asked tidy_asked)

lemma tidy_do [tidy_intros]: "tidy_vs t (vs_do c answer)"
  by (simp add: vs_do_def tidy_ask)

lemma tidy_return [tidy_intros]: "tidy_vs t (vs_return x)"
  by (auto simp: tidy_vs_def vs_return_def tidy_refl)

lemma tidy_raise [tidy_intros]: "tidy_vs t (vs_raise e)"
  by (auto simp: tidy_vs_def vs_raise_def tidy_refl)

lemma tidy_then [tidy_intros]:
  assumes "tidy_vs t m" and "\<And>x. tidy_vs t (k x)"
  shows "tidy_vs t (vs_then m k)"
  unfolding tidy_vs_def vs_then_def
  by (auto split: option.splits sum.splits dest: tidy_vsD [OF assms(1)] tidy_vsD [OF assms(2)] intro: tidy_trans)

lemma tidy_case_option [tidy_intros]:
  "tidy_vs t m \<Longrightarrow> (\<And>x. tidy_vs t (k x)) \<Longrightarrow> tidy_vs t (case v of None \<Rightarrow> m | Some x \<Rightarrow> k x)"
  by (simp split: option.split)

lemma tidy_pages [tidy_intros]: "tidy_vs t (vs_pages api result out)"
proof -
  have "tidy t w (snd y)" if "vs_pages api result out w = Some y" for w y
  proof (rule vs_pages.raw_induct [where P = "\<lambda>api result out w y. tidy t w (snd y)", OF _ that])
    fix pages api result out w and y :: "(string + vsphere_vm list) \<times> vworld"
    assume IH: "\<And>api result out w y. pages api result out w = Some y \<Longrightarrow> tidy t w (snd y)"
      and step: "(case result of None \<Rightarrow> Some (Inr out, w)
        | Some p \<Rightarrow> let out' = out @ map object_row (pa_objects p)
            in (case next_token p of None \<Rightarrow> Some (Inr out', w)
              | Some tok \<Rightarrow> (case vs_ask (VMore tok) (sd_more api) w of
                    None \<Rightarrow> None | Some (Inl e, w') \<Rightarrow> Some (Inl e, w') | Some (Inr r, w') \<Rightarrow> pages api r out' w'))) = Some y"
    show "tidy t w (snd y)"
      using step by (auto simp: tidy_refl tidy_asked vs_ask_asked Let_def split: option.splits sum.splits
          intro: tidy_trans [OF tidy_asked] dest!: IH)
  qed
  then show ?thesis by (auto simp: tidy_vs_def)
qed

text \<open>What is opened is closed: the count and the list are those of before.\<close>

lemma tidy_view [tidy_intros]:
  assumes "\<And>v. tidy_vs t (body v)"
  shows "tidy_vs t (with_view api obj_type body)"
  unfolding tidy_vs_def
proof (intro allI impI)
  fix w r w'
  assume run: "with_view api obj_type body w = Some (r, w')"
  let ?w1 = "asked (VView obj_type) w"
  show "tidy t w w'"
  proof (cases "sd_view api (map fst (vw_calls ?w1))")
    case (Inl e)
    then show ?thesis using run by (auto simp: with_view_def vs_create_view_def vs_then_def vs_ask_asked tidy_asked)
  next
    case (Inr v)
    define u where "u = ?w1\<lparr>vw_views := v # vw_views ?w1\<rparr>"
    have fin: "vs_finally (body v) (vs_destroy api v) u = Some (r, w')"
      using run by (simp add: with_view_def vs_create_view_def vs_then_def vs_ask_asked Inr u_def)
    then obtain b w2 where body: "body v u = Some (b, w2)" by (auto simp: vs_finally_def split: option.splits)
    have two: "tidy t u w2" by (rule tidy_vsD [OF assms body])
    obtain d where last: "vs_destroy api v w2 = Some (d, w')"
      using fin by (auto simp: vs_finally_def body split: option.splits sum.splits)
    then have three: "tidy t (w2\<lparr>vw_views := remove1 v (vw_views w2)\<rparr>) w'"
      using tidy_vsD [OF tidy_do] by (fastforce simp: vs_destroy_def)
    have "tidy t ?w1 (w2\<lparr>vw_views := remove1 v (vw_views w2)\<rparr>)" using two by (auto simp: tidy_def alone_def u_def)
    then show ?thesis using three by (blast intro: tidy_trans tidy_asked)
  qed
qed

lemma tidy_session [tidy_intros]:
  assumes "tidy_vs t body"
  shows "tidy_vs t (with_session api lg body)"
  unfolding tidy_vs_def
proof (intro allI impI)
  fix w r w'
  assume run: "with_session api lg body w = Some (r, w')"
  let ?w1 = "asked (VConnect lg (vmware_tls (lg_verify lg))) w"
  show "tidy t w w'"
  proof (cases "sd_connect api (map fst (vw_calls ?w1))")
    case (Some e)
    then show ?thesis using run by (auto simp: with_session_def vs_connect_def vs_then_def vs_do_def vs_ask_asked ok_or_def tidy_asked)
  next
    case None
    define u where "u = ?w1\<lparr>vw_sessions := Suc (vw_sessions ?w1)\<rparr>"
    have fin: "vs_finally body (vs_disconnect api) u = Some (r, w')"
      using run by (simp add: with_session_def vs_connect_def vs_then_def vs_do_def vs_ask_asked ok_or_def None u_def)
    then obtain b w2 where body: "body u = Some (b, w2)" by (auto simp: vs_finally_def split: option.splits)
    have two: "tidy t u w2" by (rule tidy_vsD [OF assms body])
    obtain d where last: "vs_disconnect api w2 = Some (d, w')"
      using fin by (auto simp: vs_finally_def body split: option.splits sum.splits)
    then have three: "tidy t (w2\<lparr>vw_sessions := vw_sessions w2 - 1\<rparr>) w'"
      using tidy_vsD [OF tidy_do] by (fastforce simp: vs_disconnect_def)
    have "tidy t ?w1 (w2\<lparr>vw_sessions := vw_sessions w2 - 1\<rparr>)" using two by (auto simp: tidy_def alone_def u_def)
    then show ?thesis using three by (blast intro: tidy_trans tidy_asked)
  qed
qed

lemma tidy_collect [tidy_intros]: "tidy_vs t (vs_collect api obj_type path_set)"
  unfolding vs_collect_def by (intro tidy_intros)

lemma tidy_wait [tidy_intros]: "tidy_vs t (vs_wait api clock now task)"
  unfolding vs_wait_def by (intro tidy_intros) (auto simp: tidy_vs_def tidy_refl split: option.splits)

lemma tidy_find [tidy_intros]: "tidy_vs t (find_vm_by_moid api moid)"
  unfolding find_vm_by_moid_def by (intro tidy_intros)

lemma tidy_operate [tidy_intros]: "tidy_vs t (vs_operate api clock now vm action)"
  unfolding vs_operate_def by (simp add: tidy_intros)

section \<open>Sealed\<close>

text \<open>What is left of a run: the sessions and views it found, the default timeout it read at its start put back,
  and, when no other thread sets the default, calls under its own timeout only.\<close>

definition sealed :: "vworld \<Rightarrow> vworld \<Rightarrow> bool" where
  "sealed w w' \<longleftrightarrow> vw_sessions w' = vw_sessions w \<and> vw_views w' = vw_views w \<and> vw_timeout w' = vw_timeout w \<and>
     (\<exists>new. vw_calls w' = vw_calls w @ new \<and> (alone w \<longrightarrow> (\<forall>c\<in>set new. snd c = Some CONNECT_TIMEOUT)))"

lemma timeout_sealed:
  assumes "\<And>t. tidy_vs t m" and "socket_timeout CONNECT_TIMEOUT m w = Some (r, w')"
  shows "sealed w w'"
proof -
  obtain w1 where m: "m (w\<lparr>vw_timeout := Some CONNECT_TIMEOUT\<rparr>) = Some (r, w1)" and w': "w' = w1\<lparr>vw_timeout := vw_timeout w\<rparr>"
    using assms(2) by (auto simp: socket_timeout_def Let_def split: option.splits)
  have "tidy (Some CONNECT_TIMEOUT) (w\<lparr>vw_timeout := Some CONNECT_TIMEOUT\<rparr>) w1" by (rule tidy_vsD [OF assms(1) m])
  then show ?thesis by (auto simp: tidy_def sealed_def alone_def w')
qed

lemma inventory_sealed: "vs_inventory api lg w = Some (r, w') \<Longrightarrow> sealed w w'"
  unfolding vs_inventory_def by (erule timeout_sealed [rotated]) (intro tidy_intros)

lemma sealed_refl: "sealed w w"
  by (simp add: sealed_def)

lemma metrics_sealed: "collect_metrics api tx lg w = Some (r, w') \<Longrightarrow> sealed w w'"
  unfolding collect_metrics_def vs_then_def
  by (auto simp: vs_raise_def vs_return_def split: option.splits sum.splits prod.splits dest: inventory_sealed)

lemma action_sealed: "vs_action api clock now lg moid action w = Some (r, w') \<Longrightarrow> sealed w w'"
  unfolding vs_action_def
  by (split if_split_asm) (auto simp: vs_raise_def sealed_refl intro!: tidy_intros dest!: timeout_sealed [rotated])

text \<open>C39: The collector of VMware leaves nothing behind: whatever the host answers, whichever call fails and
  whatever other threads do to the default timeout, a run that comes back has asked the host to close the
  session and to destroy every view it opened, and has put back the default it read at its start; and as long as
  no other thread sets the default, every call it made ran under 30 seconds. (Other threads do set it, see
  \<open>timeout_race\<close>.)\<close>

theorem vmware_sealed:
  "(collect_metrics api tx lg w = Some (r, w') \<longrightarrow> sealed w w') \<and>
   (vs_action api clock now lg moid action w = Some (q, w'') \<longrightarrow> sealed w w'')"
  using metrics_sealed action_sealed by blast

definition dead_sdk :: sdk where
  "dead_sdk = \<lparr>sd_connect = \<lambda>p. None, sd_content = \<lambda>p. None, sd_view = \<lambda>p. Inr 7, sd_props = \<lambda>p. Inl ''timed out'',
     sd_more = \<lambda>p. Inl ''timed out'', sd_list = \<lambda>p. Inr [''vm-1''], sd_destroy = \<lambda>p. None, sd_disconnect = \<lambda>p. None,
     sd_power = \<lambda>p. Inl ''timed out'', sd_guest_op = \<lambda>p. None, sd_task = \<lambda>p i. TaskOther\<rparr>"

definition some_login :: login where
  "some_login = \<lparr>lg_host = ''esxi'', lg_port = 443, lg_scheme = None, lg_user = ''root'', lg_secret = ''x'', lg_verify = False\<rparr>"

definition idle_world :: vworld where
  "idle_world = \<lparr>vw_timeout = Some 5, vw_others = \<lambda>i t. t, vw_sessions = 0, vw_views = [], vw_calls = []\<rparr>"

text \<open>A property read that times out.\<close>

lemma dead_run:
  "collect_metrics dead_sdk (\<lambda>e. []) some_login idle_world = Some (Inl ''timed out'', idle_world\<lparr>vw_calls := map (\<lambda>c. (c, Some 30))
     [VConnect some_login (vmware_tls False), VContent, VView ''HostSystem'', VProps 7 ''HostSystem'' HOST_PATHS, VDestroy 7, VDisconnect]\<rparr>)"
  by (simp add: collect_metrics_def vs_inventory_def with_session_def vs_connect_def vs_disconnect_def vs_collect_def with_view_def
      vs_create_view_def vs_destroy_def vs_then_def vs_finally_def vs_do_def vs_ask_def ok_or_def socket_timeout_def dead_sdk_def
      idle_world_def some_login_def CONNECT_TIMEOUT_def Let_def)

theorem vmware_sealed_witness:
  "\<exists>w'. collect_metrics dead_sdk (\<lambda>e. []) some_login idle_world = Some (Inl ''timed out'', w') \<and> sealed idle_world w'"
  using dead_run vmware_sealed [THEN conjunct1, rule_format] by blast

section \<open>Paging\<close>

text \<open>The pages a run gets, when each announced one comes.\<close>

fun turned :: "sdk \<Rightarrow> vpage option \<Rightarrow> vworld \<Rightarrow> vpage list \<Rightarrow> bool" where
  "turned api None w ps = (ps = [])"
| "turned api (Some p) w [] = False"
| "turned api (Some p) w (q # qs) = (p = q \<and> (case next_token p of
      None \<Rightarrow> qs = []
    | Some t \<Rightarrow> (case sd_more api (map fst (vw_calls (asked (VMore t) w))) of
          Inl e \<Rightarrow> False | Inr r \<Rightarrow> turned api r (asked (VMore t) w) qs)))"

lemma pages_read:
  "turned api result w ps \<Longrightarrow> \<exists>w'. vs_pages api result out w = Some (Inr (out @ concat (map (\<lambda>p. map object_row (pa_objects p)) ps)), w')"
proof (induction ps arbitrary: result w out)
  case Nil
  then show ?case by (cases result) (simp_all add: vs_pages.simps)
next
  case (Cons q qs)
  then obtain p where p: "result = Some p" by (cases result) auto
  show ?case
  proof (cases "next_token p")
    case None
    then show ?thesis using Cons.prems by (subst vs_pages.simps) (simp add: p)
  next
    case (Some t)
    obtain r where r: "sd_more api (map fst (vw_calls (asked (VMore t) w))) = Inr r" and rest: "turned api r (asked (VMore t) w) qs" and "p = q"
      using Cons.prems by (auto simp: p Some split: sum.splits)
    have "vs_pages api result out w = vs_pages api r (out @ map object_row (pa_objects q)) (asked (VMore t) w)"
      using r by (subst vs_pages.simps) (simp add: p Some vs_ask_asked \<open>p = q\<close> [symmetric])
    then show ?thesis using Cons.IH [OF rest, of "out @ map object_row (pa_objects q)"] by simp
  qed
qed

lemma pages_never_end:
  assumes "\<And>past. \<exists>p t. sd_more api past = Inr (Some p) \<and> next_token p = Some t"
    and "next_token p = Some t"
  shows "vs_pages api (Some p) out w = None"
proof -
  have "api' = api \<longrightarrow> (\<forall>p t. result = Some p \<longrightarrow> next_token p \<noteq> Some t)" if "vs_pages api' result out w = Some y" for api' result out w y
  proof (rule vs_pages.raw_induct [where P = "\<lambda>api' result out w y. api' = api \<longrightarrow> (\<forall>p t. result = Some p \<longrightarrow> next_token p \<noteq> Some t)", OF _ that])
    fix pages api' result out w and y :: "(string + vsphere_vm list) \<times> vworld"
    assume IH: "\<And>api' result out w y. pages api' result out w = Some y \<Longrightarrow> api' = api \<longrightarrow> (\<forall>p t. result = Some p \<longrightarrow> next_token p \<noteq> Some t)"
      and step: "(case result of None \<Rightarrow> Some (Inr out, w)
        | Some p \<Rightarrow> let out' = out @ map object_row (pa_objects p)
            in (case next_token p of None \<Rightarrow> Some (Inr out', w)
              | Some tok \<Rightarrow> (case vs_ask (VMore tok) (sd_more api') w of
                    None \<Rightarrow> None | Some (Inl e, w') \<Rightarrow> Some (Inl e, w') | Some (Inr r, w') \<Rightarrow> pages api' r out' w'))) = Some y"
    show "api' = api \<longrightarrow> (\<forall>p t. result = Some p \<longrightarrow> next_token p \<noteq> Some t)"
    proof (intro impI allI notI)
      fix p t
      assume "api' = api" and p: "result = Some p" and t: "next_token p = Some t"
      obtain q t' where q: "sd_more api (map fst (vw_calls (asked (VMore t) w))) = Inr (Some q)" "next_token q = Some t'"
        using assms(1) by blast
      have "pages api (Some q) (out @ map object_row (pa_objects p)) (asked (VMore t) w) = Some y"
        using step q(1) by (simp add: p t \<open>api' = api\<close> vs_ask_asked)
      then show False using IH q(2) by blast
    qed
  qed
  then show ?thesis using assms(2) by (cases "vs_pages api (Some p) out w") blast+
qed

lemma collect_run:
  assumes "\<And>past. sd_view api past = Inr v" and "\<And>past. sd_destroy api past = None"
  shows "vs_collect api obj_type paths w =
    (let w1 = (asked (VView obj_type) w)\<lparr>vw_views := v # vw_views w\<rparr>; w2 = asked (VProps v obj_type paths) w1
     in case sd_props api (map fst (vw_calls w2)) of
          Inl e \<Rightarrow> Some (Inl e, asked (VDestroy v) (w2\<lparr>vw_views := vw_views w\<rparr>))
        | Inr r \<Rightarrow> (case vs_pages api r [] w2 of None \<Rightarrow> None
            | Some (x, w3) \<Rightarrow> Some (x, asked (VDestroy v) (w3\<lparr>vw_views := remove1 v (vw_views w3)\<rparr>))))"
  by (simp add: vs_collect_def with_view_def vs_create_view_def vs_destroy_def vs_then_def vs_finally_def vs_do_def vs_ask_asked assms ok_or_def
      Let_def asked_def split: option.split sum.split)

text \<open>A read of the property collector returns the objects of every page, in order, and nothing else; a host
  that announces another page each time is read for ever. (Hypothesis: the view can be made and destroyed.)\<close>

theorem vmware_pages_complete:
  assumes "\<And>past. sd_view api past = Inr v" and "\<And>past. sd_destroy api past = None"
    and "w2 = asked (VProps v obj_type paths) ((asked (VView obj_type) w)\<lparr>vw_views := v # vw_views w\<rparr>)"
    and "sd_props api (map fst (vw_calls w2)) = Inr result"
  shows "(turned api result w2 ps \<longrightarrow> (\<exists>w'. vs_collect api obj_type paths w =
      Some (Inr (concat (map (\<lambda>p. map object_row (pa_objects p)) ps)), w'))) \<and>
    ((\<forall>past. \<exists>p t. sd_more api past = Inr (Some p) \<and> next_token p = Some t) \<and> (\<exists>p t. result = Some p \<and> next_token p = Some t) \<longrightarrow>
      vs_collect api obj_type paths w = None)"
proof (intro conjI impI)
  show "\<exists>w'. vs_collect api obj_type paths w = Some (Inr (concat (map (\<lambda>p. map object_row (pa_objects p)) ps)), w')"
    if "turned api result w2 ps"
    using pages_read [OF that, of "[]"] assms(3,4) by (auto simp: collect_run [OF assms(1,2)] Let_def)
  show "vs_collect api obj_type paths w = None"
    if "(\<forall>past. \<exists>p t. sd_more api past = Inr (Some p) \<and> next_token p = Some t) \<and> (\<exists>p t. result = Some p \<and> next_token p = Some t)"
    using that assms(3,4) pages_never_end [of api] by (auto simp: collect_run [OF assms(1,2)] Let_def)
qed

definition two_pages :: sdk where
  "two_pages = dead_sdk\<lparr>sd_props := \<lambda>p. Inr (Some \<lparr>pa_objects = [\<lparr>vo_moid = ''vm-1'', vo_host = None, vo_props = []\<rparr>], pa_token = Some ''t''\<rparr>),
     sd_more := \<lambda>p. Inr (Some \<lparr>pa_objects = [\<lparr>vo_moid = ''vm-2'', vo_host = None, vo_props = []\<rparr>], pa_token = None\<rparr>)\<rparr>"

theorem vmware_pages_complete_witness:
  "\<exists>rows w'. vs_collect two_pages ''VirtualMachine'' VM_PATHS idle_world = Some (Inr rows, w') \<and> map vv_moid rows = [''vm-1'', ''vm-2'']"
  using vmware_pages_complete [where api = two_pages and v = 7 and obj_type = "''VirtualMachine''" and paths = VM_PATHS and w = idle_world
      and result = "Some \<lparr>pa_objects = [\<lparr>vo_moid = ''vm-1'', vo_host = None, vo_props = []\<rparr>], pa_token = Some ''t''\<rparr>"
      and ps = "[\<lparr>pa_objects = [\<lparr>vo_moid = ''vm-1'', vo_host = None, vo_props = []\<rparr>], pa_token = Some ''t''\<rparr>,
        \<lparr>pa_objects = [\<lparr>vo_moid = ''vm-2'', vo_host = None, vo_props = []\<rparr>], pa_token = None\<rparr>]", THEN conjunct1]
  by (auto simp: two_pages_def dead_sdk_def next_token_def object_row_def)

section \<open>Guest actions\<close>

definition returning :: "'a vs \<Rightarrow> bool" where
  "returning m \<longleftrightarrow> (\<forall>w. m w \<noteq> None)"

lemma returning_then: "returning m \<Longrightarrow> (\<And>x. returning (k x)) \<Longrightarrow> returning (vs_then m k)"
  by (simp add: returning_def vs_then_def split: option.split sum.split)

lemma returning_finally: "returning m \<Longrightarrow> returning c \<Longrightarrow> returning (vs_finally m c)"
  unfolding returning_def vs_finally_def by (auto split: option.split sum.split) (metis option.simps(3) surj_pair)+

lemma returning_basic: "returning (vs_ask c answer)" "returning (vs_do c oks)" "returning (vs_return x)" "returning (vs_raise e)"
    "returning (vs_destroy api v)" "returning (vs_disconnect api)"
  by (simp_all add: returning_def vs_do_def vs_ask_asked vs_return_def vs_raise_def vs_destroy_def vs_disconnect_def)

lemma returning_opening: "returning (vs_create_view api obj_type)" "returning (vs_connect api lg)"
  by (simp_all add: returning_def vs_create_view_def vs_connect_def vs_then_def vs_do_def vs_ask_asked split: sum.split)

lemma returning_timeout: "returning m \<Longrightarrow> returning (socket_timeout t m)"
  unfolding returning_def socket_timeout_def Let_def by (auto split: option.split)

lemma returning_view: "(\<And>v. returning (body v)) \<Longrightarrow> returning (with_view api obj_type body)"
  unfolding with_view_def by (intro returning_then returning_finally returning_basic returning_opening)

lemma returning_session: "returning body \<Longrightarrow> returning (with_session api lg body)"
  unfolding with_session_def by (intro returning_then returning_finally returning_basic returning_opening)

lemma action_returns:
  assumes "\<And>i. clock i + 1 / 2 \<le> clock (Suc i)" and "now \<le> clock 0"
  shows "returning (vs_action api clock now lg moid action)"
proof -
  have wait: "returning (vs_wait api clock now task)" for task
  proof -
    have "after_wait (vmware_wait state clock (now + task_timeout) 0) task \<noteq> None" for state
      using vmware_wait_ends [of 0 20 "now + task_timeout" clock state] time_is_up [OF assms] by (intro after_wait_returns) simp
    then have "returning (\<lambda>w. case after_wait (vmware_wait state clock (now + task_timeout) 0) task of None \<Rightarrow> None | Some r \<Rightarrow> Some (r, w))" for state
      by (auto simp: returning_def split: option.split)
    then show ?thesis unfolding vs_wait_def by (intro returning_then returning_basic)
  qed
  have "returning (vs_operate api clock now m action)" for m
    unfolding vs_operate_def by (simp add: returning_then returning_basic wait)
  then have "returning (case vm of None \<Rightarrow> vs_raise (''VM '' @ moid @ '' not found'') | Some m \<Rightarrow> vs_operate api clock now m action)" for vm
    by (simp add: returning_basic split: option.split)
  then have "returning (socket_timeout CONNECT_TIMEOUT (with_session api lg (vs_then (vs_do VContent (sd_content api)) (\<lambda>_.
      vs_then (find_vm_by_moid api moid) (\<lambda>vm.
        case vm of None \<Rightarrow> vs_raise (''VM '' @ moid @ '' not found'') | Some m \<Rightarrow> vs_operate api clock now m action)))))"
    unfolding find_vm_by_moid_def
    by (intro returning_timeout returning_session returning_then returning_view returning_basic)
  then show ?thesis unfolding vs_action_def by (simp only: returning_basic simp_thms split: if_split)
qed

lemma action_reads:
  assumes "\<And>i. clock i + 1 / 2 \<le> clock (Suc i)" and "now \<le> clock 0" and "\<forall>past. \<forall>i\<le>20. st past i = sd_task api past i"
  shows "vs_action (api\<lparr>sd_task := st\<rparr>) clock now lg moid action = vs_action api clock now lg moid action"
proof -
  have "vmware_wait (st past) clock (now + task_timeout) 0 = vmware_wait (sd_task api past) clock (now + task_timeout) 0" for past
    by (rule vmware_wait_reads [where n = 20]) (use assms(3) time_is_up [OF assms(1,2)] in simp_all)
  then have wait: "vs_wait (api\<lparr>sd_task := st\<rparr>) clock now = vs_wait api clock now"
    by (intro ext) (simp add: vs_wait_def)
  have operate: "vs_operate (api\<lparr>sd_task := st\<rparr>) clock now = vs_operate api clock now"
    by (intro ext) (simp add: vs_operate_def wait)
  show ?thesis
    by (simp add: vs_action_def operate find_vm_by_moid_def with_view_def with_session_def vs_create_view_def vs_connect_def
        vs_destroy_def [abs_def] vs_disconnect_def [abs_def] cong: option.case_cong)
qed

text \<open>C38: A guest action comes back: as long as each call on the library does, the action does, on Proxmox and on
  VMware, and its result does not depend on what the task shows after the first twenty-one looks at it.
  (Hypotheses: a turn of the loop takes the half second it sleeps.)\<close>

theorem guest_action_returns:
  assumes "\<And>i. clock i + 1 / 2 \<le> clock (Suc i)" and "now \<le> clock 0"
  shows "proxmox_act submit status clock now lg node kind vmid action \<noteq> None \<and>
    ((\<forall>upid. \<forall>i\<le>20. status' upid i = status upid i) \<longrightarrow>
      proxmox_act submit status' clock now lg node kind vmid action = proxmox_act submit status clock now lg node kind vmid action) \<and>
    vs_action api clock now lg moid action w \<noteq> None \<and>
    ((\<forall>past. \<forall>i\<le>20. st past i = sd_task api past i) \<longrightarrow>
      vs_action (api\<lparr>sd_task := st\<rparr>) clock now lg moid action w = vs_action api clock now lg moid action w)"
proof (intro conjI impI)
  show "proxmox_act submit status clock now lg node kind vmid action \<noteq> None" by (rule proxmox_act_bounded(1) [OF assms])
  show "proxmox_act submit status' clock now lg node kind vmid action = proxmox_act submit status clock now lg node kind vmid action"
    if "\<forall>upid. \<forall>i\<le>20. status' upid i = status upid i" using that by (rule proxmox_act_bounded(2) [OF assms])
  show "vs_action api clock now lg moid action w \<noteq> None"
    using action_returns [OF assms, where api = api and lg = lg and moid = moid and action = action] by (simp add: returning_def)
  show "vs_action (api\<lparr>sd_task := st\<rparr>) clock now lg moid action w = vs_action api clock now lg moid action w"
    if "\<forall>past. \<forall>i\<le>20. st past i = sd_task api past i" by (simp add: action_reads [OF assms that])
qed

definition slow_sdk :: sdk where
  "slow_sdk = dead_sdk\<lparr>sd_power := \<lambda>p. Inr ''task-1''\<rparr>"

text \<open>A task that is still running after ten seconds and fails later.\<close>

theorem guest_action_returns_witness:
  "vs_action (slow_sdk\<lparr>sd_task := \<lambda>p i. if i \<le> 20 then TaskOther else TaskUnread ''late''\<rparr>) (\<lambda>i. of_nat i / 2) 0 some_login ''vm-1'' ''start'' idle_world =
   vs_action slow_sdk (\<lambda>i. of_nat i / 2) 0 some_login ''vm-1'' ''start'' idle_world"
proof -
  have "clock i + 1 / 2 \<le> clock (Suc i)" if "clock = (\<lambda>i. of_nat i / 2)" for clock :: "nat \<Rightarrow> rat" and i by (simp add: that field_simps)
  then show ?thesis
    using guest_action_returns [where clock = "\<lambda>i. of_nat i / 2" and now = 0 and api = slow_sdk and lg = some_login and moid = "''vm-1''"
        and action = "''start''" and w = idle_world and st = "\<lambda>p i. if i \<le> 20 then TaskOther else TaskUnread ''late''"]
    by (simp add: slow_sdk_def dead_sdk_def)
qed

section \<open>What a guest action does\<close>

text \<open>The calls of a run that act on a guest, in order.\<close>

definition is_operation :: "vcall \<Rightarrow> bool" where
  "is_operation c \<longleftrightarrow> (case c of VPower vm oper \<Rightarrow> True | VGuestOp vm oper \<Rightarrow> True | _ \<Rightarrow> False)"

definition operations :: "vworld \<Rightarrow> vcall list" where
  "operations w = filter is_operation (map fst (vw_calls w))"

text \<open>\<open>Q\<close> holds of every result of a piece and the operations it made.\<close>

definition acts :: "(string + 'a \<Rightarrow> vcall list \<Rightarrow> bool) \<Rightarrow> 'a vs \<Rightarrow> bool" where
  "acts Q m \<longleftrightarrow> (\<forall>w r w'. m w = Some (r, w') \<longrightarrow> (\<exists>os. operations w' = operations w @ os \<and> Q r os))"

abbreviation idle :: "'a vs \<Rightarrow> bool" where
  "idle \<equiv> acts (\<lambda>r os. os = [])"

lemma actsD: "acts Q m \<Longrightarrow> m w = Some (r, w') \<Longrightarrow> \<exists>os. operations w' = operations w @ os \<and> Q r os"
  unfolding acts_def by blast

lemma operations_asked: "operations (asked c w) = operations w @ (if is_operation c then [c] else [])"
  by (simp add: operations_def asked_calls)

lemma idle_ask: "\<not> is_operation c \<Longrightarrow> idle (vs_ask c answer)"
  by (auto simp: acts_def vs_ask_asked operations_asked)

lemma idle_do: "\<not> is_operation c \<Longrightarrow> idle (vs_do c answer)"
  by (simp add: vs_do_def idle_ask)

lemma acts_then:
  assumes "acts R m" and "\<And>e os. R (Inl e) os \<Longrightarrow> Q (Inl e) os" and "\<And>x os. R (Inr x) os \<Longrightarrow> os = [] \<and> acts Q (k x)"
  shows "acts Q (vs_then m k)"
  unfolding acts_def
proof (intro allI impI)
  fix w r w'
  assume run: "vs_then m k w = Some (r, w')"
  then obtain a w1 where m: "m w = Some (a, w1)" by (auto simp: vs_then_def split: option.splits)
  obtain os where os: "operations w1 = operations w @ os" "R a os" using actsD [OF assms(1) m] by blast
  show "\<exists>os. operations w' = operations w @ os \<and> Q r os"
  proof (cases a)
    case (Inl e)
    then show ?thesis using os run assms(2) by (auto simp: vs_then_def m)
  next
    case (Inr x)
    then have "k x w1 = Some (r, w')" "os = []" "acts Q (k x)" using os(2) run assms(3) by (auto simp: vs_then_def m)
    then show ?thesis using os(1) by (auto dest: actsD)
  qed
qed

lemma acts_finally:
  assumes "acts Q m" and "idle c" and "\<And>r e os. Q r os \<Longrightarrow> Q (Inl e) os"
  shows "acts Q (vs_finally m c)"
  unfolding acts_def
proof (intro allI impI)
  fix w r w'
  assume run: "vs_finally m c w = Some (r, w')"
  then obtain a w1 b w2 where m: "m w = Some (a, w1)" and c: "c w1 = Some (b, w2)" by (auto simp: vs_finally_def split: option.splits)
  obtain os where os: "operations w1 = operations w @ os" "Q a os" using actsD [OF assms(1) m] by blast
  have "operations w2 = operations w1" using actsD [OF assms(2) c] by simp
  moreover have "w' = w2" "r = (case b of Inl e \<Rightarrow> Inl e | Inr u \<Rightarrow> a)" using run by (auto simp: vs_finally_def m c split: sum.splits)
  ultimately show "\<exists>os. operations w' = operations w @ os \<and> Q r os" using os assms(3) by (auto split: sum.split)
qed

lemma idle_closing: "idle (vs_destroy api v)" "idle (vs_disconnect api)"
  by (auto simp: acts_def vs_destroy_def vs_disconnect_def vs_do_def vs_ask_asked operations_asked is_operation_def)
    (simp_all add: operations_def)

lemma idle_opening: "idle (vs_create_view api obj_type)" "idle (vs_connect api lg)"
  by (auto simp: acts_def vs_create_view_def vs_connect_def vs_then_def vs_do_def vs_ask_asked operations_def asked_calls is_operation_def
      split: sum.splits)

lemma acts_view:
  assumes "\<And>v. acts Q (body v)" and "\<And>r e os. Q r os \<Longrightarrow> Q (Inl e) os" and "\<And>e. Q (Inl e) []"
  shows "acts Q (with_view api obj_type body)"
  unfolding with_view_def
  by (rule acts_then [OF idle_opening(1)]) (simp_all add: assms(3) acts_finally [OF assms(1) idle_closing(1) assms(2)])

lemma acts_session:
  assumes "acts Q body" and "\<And>r e os. Q r os \<Longrightarrow> Q (Inl e) os" and "\<And>e. Q (Inl e) []"
  shows "acts Q (with_session api lg body)"
  unfolding with_session_def
  by (rule acts_then [OF idle_opening(2)]) (simp_all add: assms(3) acts_finally [OF assms(1) idle_closing(2) assms(2)])

lemma acts_timeout: "acts Q m \<Longrightarrow> acts Q (socket_timeout t m)"
  unfolding acts_def socket_timeout_def Let_def by (fastforce simp: operations_def split: option.splits)

text \<open>The guest that is found is the one that was asked for, and the host has it.\<close>

definition has_guest :: "sdk \<Rightarrow> string \<Rightarrow> bool" where
  "has_guest api moid \<longleftrightarrow> (\<exists>past moids. sd_list api past = Inr moids \<and> moid \<in> set moids)"

lemma find_acts: "acts (\<lambda>r os. os = [] \<and> (\<forall>m. r = Inr (Some m) \<longrightarrow> m = moid \<and> has_guest api moid)) (find_vm_by_moid api moid)"
  unfolding find_vm_by_moid_def
proof (rule acts_view)
  show "acts (\<lambda>r os. os = [] \<and> (\<forall>m. r = Inr (Some m) \<longrightarrow> m = moid \<and> has_guest api moid))
      (vs_then (vs_ask (VList v) (sd_list api)) (\<lambda>moids. vs_return (find (\<lambda>i. i = moid) moids)))" for v
    unfolding acts_def
  proof (intro allI impI)
    fix w r w'
    assume "vs_then (vs_ask (VList v) (sd_list api)) (\<lambda>moids. vs_return (find (\<lambda>i. i = moid) moids)) w = Some (r, w')"
    then show "\<exists>os. operations w' = operations w @ os \<and> os = [] \<and> (\<forall>m. r = Inr (Some m) \<longrightarrow> m = moid \<and> has_guest api moid)"
      by (auto simp: vs_then_def vs_ask_asked vs_return_def operations_asked is_operation_def has_guest_def find_Some_iff split: sum.splits)
        (metis nth_mem)+
  qed
qed simp_all

text \<open>C40: A guest action does to the guest what its name says and nothing else: whatever the host answers and
  however the action ends, it makes no operation at all, and then fails, or exactly the one operation of its
  name, on the guest of the given id and only if the host listed that guest; an action of another name makes
  none. Its success is the task the host accepted, or the name of the guest operation.\<close>

theorem vmware_action_exact:
  assumes "vs_action api clock now lg moid action w = Some (r, w')"
  shows "\<exists>os. operations w' = operations w @ os \<and>
    (os = [] \<and> (\<exists>e. r = Inl e) \<or>
     has_guest api moid \<and>
     (action = ''start'' \<and> os = [VPower moid ''PowerOnVM_Task''] \<and> (\<forall>t. r = Inr t \<longrightarrow> (\<exists>past. sd_power api past = Inr t)) \<or>
      action = ''stop'' \<and> os = [VPower moid ''PowerOffVM_Task''] \<and> (\<forall>t. r = Inr t \<longrightarrow> (\<exists>past. sd_power api past = Inr t)) \<or>
      action = ''reboot'' \<and> os = [VGuestOp moid ''RebootGuest''] \<and> (\<forall>t. r = Inr t \<longrightarrow> t = ''RebootGuest'') \<or>
      action = ''shutdown'' \<and> os = [VGuestOp moid ''ShutdownGuest''] \<and> (\<forall>t. r = Inr t \<longrightarrow> t = ''ShutdownGuest'')))"
    (is "\<exists>os. _ \<and> ?Q r os")
proof (cases "action \<in> set VM_ACTIONS")
  case True
  have power: "acts (\<lambda>r os. os = [VPower moid f] \<and> (\<forall>t. r = Inr t \<longrightarrow> (\<exists>past. sd_power api past = Inr t)))
      (vs_then (vs_ask (VPower moid f) (sd_power api)) (vs_wait api clock now))" for f
    by (auto simp: acts_def vs_then_def vs_wait_def vs_ask_asked operations_asked is_operation_def after_wait_def split: sum.splits option.splits)
  have guest: "acts (\<lambda>r os. os = [VGuestOp moid f] \<and> (\<forall>t. r = Inr t \<longrightarrow> t = f))
      (vs_then (vs_do (VGuestOp moid f) (sd_guest_op api)) (\<lambda>_. vs_return f))" for f
    by (auto simp: acts_def vs_then_def vs_do_def vs_return_def vs_ask_asked operations_asked is_operation_def split: sum.splits)
  have weaken: "acts Q m \<Longrightarrow> (\<And>r os. Q r os \<Longrightarrow> P r os) \<Longrightarrow> acts P m" for P Q and m :: "string vs"
    unfolding acts_def by blast
  have "action \<in> {''start'', ''stop'', ''reboot'', ''shutdown''}" using True by (auto simp: VM_ACTIONS_def)
  then consider "action = ''start''" | "action = ''stop''" | "action = ''reboot''" | "action = ''shutdown''" by blast
  then have operate: "acts ?Q (vs_operate api clock now moid action)" if "has_guest api moid"
  proof cases
    case 1
    show ?thesis unfolding vs_operate_def 1 by (simp, rule weaken [OF power]) (simp add: that)
  next
    case 2
    show ?thesis unfolding vs_operate_def 2 by (simp, rule weaken [OF power]) (simp add: that)
  next
    case 3
    show ?thesis unfolding vs_operate_def 3 by (simp, rule weaken [OF guest]) (simp add: that)
  next
    case 4
    show ?thesis unfolding vs_operate_def 4 by (simp, rule weaken [OF guest]) (simp add: that)
  qed
  have failed: "acts ?Q (vs_raise e)" for e by (simp add: acts_def vs_raise_def)
  have "acts ?Q (socket_timeout CONNECT_TIMEOUT (with_session api lg
      (vs_then (vs_do VContent (sd_content api)) (\<lambda>_.
        vs_then (find_vm_by_moid api moid) (\<lambda>vm.
          case vm of None \<Rightarrow> vs_raise (''VM '' @ moid @ '' not found'') | Some m \<Rightarrow> vs_operate api clock now m action)))))"
  proof (intro acts_timeout acts_session)
    show "acts ?Q (vs_then (vs_do VContent (sd_content api)) (\<lambda>_. vs_then (find_vm_by_moid api moid) (\<lambda>vm.
          case vm of None \<Rightarrow> vs_raise (''VM '' @ moid @ '' not found'') | Some m \<Rightarrow> vs_operate api clock now m action)))"
    proof (rule acts_then [OF idle_do])
      show "os = [] \<and> acts ?Q (vs_then (find_vm_by_moid api moid) (\<lambda>vm.
          case vm of None \<Rightarrow> vs_raise (''VM '' @ moid @ '' not found'') | Some m \<Rightarrow> vs_operate api clock now m action))" if "os = []" for os
        using that by (auto intro!: acts_then [OF find_acts] operate failed split: option.split)
    qed (simp_all add: is_operation_def)
  qed auto
  note acts = this
  have "socket_timeout CONNECT_TIMEOUT (with_session api lg
      (vs_then (vs_do VContent (sd_content api)) (\<lambda>_.
        vs_then (find_vm_by_moid api moid) (\<lambda>vm.
          case vm of None \<Rightarrow> vs_raise (''VM '' @ moid @ '' not found'') | Some m \<Rightarrow> vs_operate api clock now m action)))) w = Some (r, w')"
    using assms unfolding vs_action_def by (simp only: True not_True_eq_False if_False)
  then show ?thesis by (rule actsD [OF acts])
qed (use assms in \<open>auto simp: vs_action_def vs_raise_def\<close>)

definition good_sdk :: sdk where
  "good_sdk = dead_sdk\<lparr>sd_power := \<lambda>p. Inr ''task-1'', sd_task := \<lambda>p i. TaskSuccess\<rparr>"

lemma good_run: "\<exists>w'. vs_action good_sdk of_nat 0 some_login ''vm-1'' ''stop'' idle_world = Some (Inr ''task-1'', w')"
  by (simp add: vs_action_def VM_ACTIONS_def with_session_def vs_connect_def vs_disconnect_def find_vm_by_moid_def with_view_def
      vs_create_view_def vs_destroy_def vs_then_def vs_finally_def vs_do_def vs_ask_def vs_return_def ok_or_def socket_timeout_def vs_operate_def
      vs_wait_def vmware_wait.simps after_wait_def good_sdk_def dead_sdk_def idle_world_def some_login_def Let_def)

theorem vmware_action_exact_witness:
  "\<exists>w'. vs_action good_sdk of_nat 0 some_login ''vm-1'' ''stop'' idle_world = Some (Inr ''task-1'', w') \<and>
     operations w' = [VPower ''vm-1'' ''PowerOffVM_Task'']"
proof -
  obtain w' where run: "vs_action good_sdk of_nat 0 some_login ''vm-1'' ''stop'' idle_world = Some (Inr ''task-1'', w')" using good_run by blast
  then show ?thesis using vmware_action_exact [OF run] by (auto simp: operations_def idle_world_def)
qed

end
