(* ===== verification/Writers.thy ===== *)
theory Writers
  imports Registry Checks Vsphere
begin

text \<open>
  What the threads of the process do to each other (\<open>app.py\<close>, "Read-modify-write guards"; \<open>_socket_timeout\<close> of
  \<open>collectors/vmware.py\<close>). A write of a state file loads it, computes the new contents from what it loaded and saves
  them. The registry's writers do so under \<open>_REG_LOCK\<close>, those of the service checks under no lock. One step is
  one load, one save, one acquisition or one release; the threads take their steps in any order. Saving is
  atomic (\<open>Files\<close>).
\<close>

section \<open>Load, change, save\<close>

text \<open>What a writer makes of the contents it loaded; \<open>None\<close> when it saves nothing.\<close>

type_synonym 'a edit = "'a \<Rightarrow> 'a option"

datatype 'a place = Away | Called "'a edit" | Inside "'a edit" | Loaded "'a edit" 'a | Finished

record 'a shared =
  sh_file :: 'a
  sh_owner :: "nat option"
  sh_threads :: "nat \<Rightarrow> 'a place"
  sh_saved :: "'a edit list"

definition quiet_file :: "'a \<Rightarrow> 'a shared" where
  "quiet_file x = \<lparr>sh_file = x, sh_owner = None, sh_threads = \<lambda>t. Away, sh_saved = []\<rparr>"

definition move :: "nat \<Rightarrow> 'a place \<Rightarrow> 'a shared \<Rightarrow> 'a shared" where
  "move t p s = s\<lparr>sh_threads := (sh_threads s)(t := p)\<rparr>"

definition apply_edit :: "'a edit \<Rightarrow> 'a \<Rightarrow> 'a" where
  "apply_edit f x = (case f x of None \<Rightarrow> x | Some y \<Rightarrow> y)"

text \<open>\<open>with LOCK: data = load(); change data; save(data)\<close>, or the same with no lock.\<close>

definition may_enter :: "bool \<Rightarrow> 'a shared \<Rightarrow> bool" where
  "may_enter locked s \<longleftrightarrow> \<not> locked \<or> sh_owner s = None"

inductive writer_step :: "bool \<Rightarrow> 'a edit set \<Rightarrow> 'a shared \<Rightarrow> 'a shared \<Rightarrow> bool" for locked edits where
  calls: "sh_threads s t = Away \<Longrightarrow> f \<in> edits \<Longrightarrow> writer_step locked edits s (move t (Called f) s)"
| enters: "sh_threads s t = Called f \<Longrightarrow> may_enter locked s \<Longrightarrow>
    writer_step locked edits s (move t (Inside f) (s\<lparr>sh_owner := (if locked then Some t else sh_owner s)\<rparr>))"
| loads: "sh_threads s t = Inside f \<Longrightarrow> writer_step locked edits s (move t (Loaded f (sh_file s)) s)"
| saves: "sh_threads s t = Loaded f x \<Longrightarrow> f x = Some y \<Longrightarrow>
    writer_step locked edits s (move t Finished (s\<lparr>sh_file := y, sh_saved := sh_saved s @ [f]\<rparr>))"
| saves_nothing: "sh_threads s t = Loaded f x \<Longrightarrow> f x = None \<Longrightarrow> writer_step locked edits s (move t Finished s)"
| leaves: "sh_threads s t = Finished \<Longrightarrow>
    writer_step locked edits s (move t Away (s\<lparr>sh_owner := (if locked then None else sh_owner s)\<rparr>))"

inductive_cases writer_step_E: "writer_step locked edits s s'"

section \<open>The registry's writers\<close>

definition enroll_edit :: "node \<Rightarrow> node list edit" where
  "enroll_edit n nodes = Some (nodes @ [n])"

definition update_edit :: "string \<Rightarrow> (node \<Rightarrow> node) \<Rightarrow> node list edit" where
  "update_edit i f nodes = (case find_by n_id i nodes of None \<Rightarrow> None | Some n \<Rightarrow> Some (edit_by n_id i f nodes))"

definition delete_edit :: "string \<Rightarrow> node list edit" where
  "delete_edit i nodes = (let rest = remove_by n_id i nodes in if length rest = length nodes then None else Some rest)"

definition repin_edit :: "string \<Rightarrow> string \<Rightarrow> node list edit" where
  "repin_edit i fp = update_edit i (\<lambda>m. m\<lparr>n_cert_fp := Some fp\<rparr>)"

definition expire_edit :: "int \<Rightarrow> node list edit" where
  "expire_edit now nodes = (case expire_pauses now nodes of (nodes', resumed) \<Rightarrow> if resumed = [] then None else Some nodes')"

definition refresh_edit :: "string \<Rightarrow> envelope dict \<Rightarrow> node list edit" where
  "refresh_edit ts seen nodes =
     (if \<exists>n\<in>set nodes. case map_of seen (n_id n) of None \<Rightarrow> False | Some r \<Rightarrow> e_ok r then Some (refresh_registry ts seen nodes) else None)"

definition registry_edits :: "node list edit set" where
  "registry_edits = range enroll_edit \<union> {update_edit i f | i f. \<forall>n. n_id (f n) = n_id n} \<union> range delete_edit \<union>
     {repin_edit i fp | i fp. True} \<union> range expire_edit \<union> {refresh_edit ts seen | ts seen. True}"

section \<open>The writers of the service checks\<close>

definition add_check_edit :: "check \<Rightarrow> check list edit" where
  "add_check_edit c cs = Some (cs @ [c])"

definition update_check_edit :: "string \<Rightarrow> check \<Rightarrow> check list edit" where
  "update_check_edit i c cs = (case find_by k_id i cs of None \<Rightarrow> None
     | Some old \<Rightarrow> Some (edit_by k_id i (\<lambda>_. c\<lparr>k_id := i, k_added_at := k_added_at old\<rparr>) cs))"

definition delete_check_edit :: "string \<Rightarrow> check list edit" where
  "delete_check_edit i cs = (let rest = remove_by k_id i cs in if length rest = length cs then None else Some rest)"

definition check_edits :: "check list edit set" where
  "check_edits = range add_check_edit \<union> {update_check_edit i c | i c. True} \<union> range delete_check_edit"

section \<open>The default socket timeout\<close>

text \<open>\<open>_socket_timeout\<close> in several threads: the default belongs to the process. A thread reads it, sets its own
  and puts back what it read.\<close>

datatype timing = Untimed | Read "rat option" | Timed "rat option"

record timers =
  ti_default :: "rat option"
  ti_threads :: "nat \<Rightarrow> timing"

inductive timeout_step :: "timers \<Rightarrow> timers \<Rightarrow> bool" where
  reads: "ti_threads s t = Untimed \<Longrightarrow> timeout_step s (s\<lparr>ti_threads := (ti_threads s)(t := Read (ti_default s))\<rparr>)"
| sets: "ti_threads s t = Read prev \<Longrightarrow>
    timeout_step s (s\<lparr>ti_default := Some CONNECT_TIMEOUT, ti_threads := (ti_threads s)(t := Timed prev)\<rparr>)"
| restores: "ti_threads s t = Timed prev \<Longrightarrow>
    timeout_step s (s\<lparr>ti_default := prev, ti_threads := (ti_threads s)(t := Untimed)\<rparr>)"

inductive_cases timeout_step_E: "timeout_step s s'"

end
