(* ===== verification/WriterFacts.thy ===== *)
theory WriterFacts
  imports Writers RegistryFacts
begin

text \<open>
  Under the registry's lock every interleaving of writers is a sequence of whole writes: the file holds what the
  saves make of it one after the other. Without a lock, as the service checks are written, a save can
  undo another one. The handlers of \<open>Registry\<close>, which change the state in one step, are these writers.
\<close>

section \<open>One at a time\<close>

definition busy :: "'a place \<Rightarrow> bool" where
  "busy p = (case p of Away \<Rightarrow> False | Called f \<Rightarrow> False | _ \<Rightarrow> True)"

definition replay :: "'a edit list \<Rightarrow> 'a \<Rightarrow> 'a" where
  "replay fs x = foldl (\<lambda>x f. apply_edit f x) x fs"

definition orderly :: "'a \<Rightarrow> 'a shared \<Rightarrow> bool" where
  "orderly x0 s \<longleftrightarrow> (\<forall>t. busy (sh_threads s t) \<longrightarrow> sh_owner s = Some t) \<and>
     (\<forall>t f x. sh_threads s t = Loaded f x \<longrightarrow> x = sh_file s) \<and> sh_file s = replay (sh_saved s) x0"

lemma busy_simps [simp]: "\<not> busy Away" "\<not> busy (Called f)" "busy (Inside f)" "busy (Loaded f x)" "busy Finished"
  by (simp_all add: busy_def)

lemma move_simps [simp]: "sh_file (move t p s) = sh_file s" "sh_owner (move t p s) = sh_owner s" "sh_saved (move t p s) = sh_saved s"
    "sh_threads (move t p s) u = (if u = t then p else sh_threads s u)"
  by (simp_all add: move_def)

lemma replay_snoc: "replay (fs @ [f]) x = apply_edit f (replay fs x)"
  by (simp add: replay_def)

lemma orderly_step: "writer_step True edits s s' \<Longrightarrow> orderly x0 s \<Longrightarrow> orderly x0 s'"
proof (induction rule: writer_step.induct)
  case (saves s t f x y)
  have "x = sh_file s" and "sh_owner s = Some t" using saves unfolding orderly_def by fastforce+
  then have "sh_file s = replay (sh_saved s) x0" "apply_edit f (sh_file s) = y"
    using saves by (auto simp: orderly_def apply_edit_def)
  moreover have idle: "\<not> busy (sh_threads s u)" if "u \<noteq> t" for u
    using saves.prems that \<open>sh_owner s = Some t\<close> unfolding orderly_def by auto
  moreover have "sh_threads s u \<noteq> Loaded g z" if "u \<noteq> t" for u g z using idle [OF that] by auto
  ultimately show ?case by (auto simp: orderly_def replay_snoc \<open>sh_owner s = Some t\<close>)
next
  case (leaves s t)
  have "sh_owner s = Some t" using leaves unfolding orderly_def by fastforce
  then have "\<not> busy (sh_threads s u)" if "u \<noteq> t" for u
    using leaves.prems that unfolding orderly_def by auto
  then show ?case using leaves.prems by (auto simp: orderly_def)
qed (auto simp: orderly_def may_enter_def)

lemma orderly_run: "(writer_step True edits)\<^sup>*\<^sup>* s s' \<Longrightarrow> orderly x0 s \<Longrightarrow> orderly x0 s'"
  by (induction rule: rtranclp_induct) (auto intro: orderly_step)

lemma orderly_start: "orderly x (quiet_file x)"
  by (simp add: orderly_def quiet_file_def replay_def)

section \<open>The handlers are such writers\<close>

lemma edit_none: "find_by n_id i nodes = None \<Longrightarrow> remove_by n_id i nodes = nodes"
  by (auto simp: find_by_None remove_by_def intro!: filter_True)

lemma apply_enroll [simp]: "apply_edit (enroll_edit n) nodes = nodes @ [n]"
  by (simp add: apply_edit_def enroll_edit_def)

lemma edit_by_absent: "find_by n_id i nodes = None \<Longrightarrow> edit_by n_id i f nodes = nodes"
  by (induction nodes) (auto simp: find_by_def split: if_splits)

lemma apply_update [simp]: "apply_edit (update_edit i f) nodes = edit_by n_id i f nodes"
  by (simp add: apply_edit_def update_edit_def edit_by_absent split: option.split)

lemma apply_delete [simp]: "apply_edit (delete_edit i) nodes = remove_by n_id i nodes"
  by (simp add: apply_edit_def delete_edit_def Let_def remove_by_length) (metis edit_none find_by_None)

lemma expire_nobody: "snd (expire_pauses clock nodes) = [] \<Longrightarrow> fst (expire_pauses clock nodes) = nodes"
  by (auto simp: expire_pauses_def filter_empty_conv intro: map_idI)

lemma apply_expire [simp]: "apply_edit (expire_edit clock) nodes = fst (expire_pauses clock nodes)"
  using expire_nobody [of clock nodes] by (cases "expire_pauses clock nodes") (simp add: apply_edit_def expire_edit_def)

lemma apply_refresh [simp]: "apply_edit (refresh_edit ts seen) nodes = refresh_registry ts seen nodes"
proof -
  have "refresh_registry ts seen nodes = nodes" if "\<not> (\<exists>n\<in>set nodes. case map_of seen (n_id n) of None \<Rightarrow> False | Some r \<Rightarrow> e_ok r)"
    using that by (auto simp: refresh_registry_def intro!: map_idI split: option.splits)
  then show ?thesis by (simp add: apply_edit_def refresh_edit_def)
qed

lemma edit_by_same: "edit_by n_id i (\<lambda>n. n) nodes = nodes"
  by (induction nodes) auto

lemma apply_repin [simp]: "apply_edit (repin_edit i fp) nodes = edit_by n_id i (\<lambda>m. m\<lparr>n_cert_fp := Some fp\<rparr>) nodes"
  by (simp add: repin_edit_def)

text \<open>Every operation of \<open>Registry\<close> changes the list of hosts by one such edit, or not at all.\<close>

theorem registry_steps_are_edits:
  assumes "registry_ok s"
  shows "\<exists>f\<in>insert (\<lambda>nodes. None) registry_edits. st_nodes (registry_step ob s x) = apply_edit f (st_nodes s)"
proof -
  have unchanged: ?thesis if "st_nodes (registry_step ob s x) = st_nodes s"
    using that by (intro bexI [of _ "\<lambda>nodes. None"]) (simp_all add: apply_edit_def)
  have one: ?thesis if "f \<in> registry_edits" "st_nodes (registry_step ob s x) = apply_edit f (st_nodes s)" for f
    using that by blast
  obtain u clock ts oper where x: "x = (u, clock, ts, oper)" by (cases x)
  show ?thesis
  proof (cases oper)
    case (NodeAdd i data)
    show ?thesis
    proof (cases "i \<in> n_id ` set (st_nodes s)")
      case False
      consider "snd (nodes_add u i data s) = s" | n where "st_nodes (snd (nodes_add u i data s)) = st_nodes s @ [n]"
        using nodes_add_cases [of u i data s] by blast
      then show ?thesis
      proof cases
        case 1
        then have "st_nodes (registry_step ob s x) = st_nodes s" using False by (simp add: x NodeAdd)
        then show ?thesis by (rule unchanged)
      next
        case (2 n)
        then have "st_nodes (registry_step ob s x) = apply_edit (enroll_edit n) (st_nodes s)" using False by (simp add: x NodeAdd)
        then show ?thesis by (rule one [rotated]) (simp add: registry_edits_def)
      qed
    qed (rule unchanged, simp add: x NodeAdd)
  next
    case (NodeUpdate i data)
    show ?thesis
    proof (cases "find_by n_id i (st_nodes s)")
      case (Some cur)
      have cur: "n_name cur \<noteq> []" using find_by_Some [OF Some] assms by (auto simp: registry_ok_def list_all_iff node_ok_def)
      show ?thesis
      proof (cases "edits_of u clock data cur")
        case (Done ed)
        have "\<forall>n. n_id (fst ed n) = n_id n" using edits_of_done(1) [of u clock data cur "fst ed" "snd ed"] Done cur by simp
        then have "update_edit i (fst ed) \<in> registry_edits" by (auto simp: registry_edits_def)
        moreover have "st_nodes (registry_step ob s x) = apply_edit (update_edit i (fst ed)) (st_nodes s)"
          using Some Done by (simp add: x NodeUpdate node_update_def commit_edits_nodes)
        ultimately show ?thesis by (rule one)
      qed (use Some in \<open>simp_all add: x NodeUpdate node_update_def apply_edit_def\<close>)
    qed (rule unchanged, simp add: x NodeUpdate node_update_def)
  next
    case (NodeDelete i)
    show ?thesis
      by (rule one [of "delete_edit i"])
        (auto simp: x NodeDelete registry_edits_def node_delete_def edit_none split: option.split)
  next
    case (NodeRepin i data)
    consider "st_nodes (snd (node_repin ob i data s)) = st_nodes s"
      | fp where "st_nodes (snd (node_repin ob i data s)) = edit_by n_id i (\<lambda>m. m\<lparr>n_cert_fp := Some fp\<rparr>) (st_nodes s)"
      using node_repin_nodes by blast
    then show ?thesis
    proof cases
      case 1
      then have "st_nodes (registry_step ob s x) = st_nodes s" by (simp add: x NodeRepin)
      then show ?thesis by (rule unchanged)
    next
      case (2 fp)
      then have "st_nodes (registry_step ob s x) = apply_edit (repin_edit i fp) (st_nodes s)" by (simp add: x NodeRepin)
      moreover have "repin_edit i fp \<in> registry_edits" by (auto simp: registry_edits_def)
      ultimately show ?thesis by (rule one [rotated])
    qed
  next
    case ExpirePauses
    show ?thesis by (rule one [of "expire_edit clock"]) (auto simp: x ExpirePauses registry_edits_def)
  next
    case (RefreshRegistry seen)
    show ?thesis by (rule one [of "refresh_edit ts seen"]) (auto simp: x RefreshRegistry registry_edits_def)
  qed
qed

section \<open>Nothing is undone\<close>

lemma replay_append: "replay (fs @ gs) x = replay gs (replay fs x)"
  by (simp add: replay_def)

lemma replay_Cons: "replay (f # fs) x = replay fs (apply_edit f x)"
  by (simp add: replay_def)

text \<open>An edit other than an enrollment and a deletion keeps the list of ids.\<close>

lemma edit_ids:
  assumes "f \<in> registry_edits"
  shows "(\<exists>n. f = enroll_edit n) \<or> (\<exists>i. f = delete_edit i) \<or> (\<forall>nodes. map n_id (apply_edit f nodes) = map n_id nodes)"
  using assms unfolding registry_edits_def
  by (auto simp: edit_by_ids expire_pauses_def refresh_registry_def resume_def refresh_node_profile split: option.split)

lemma enrolled_stays:
  assumes "set fs \<subseteq> registry_edits" and "delete_edit i \<notin> set fs" and "i \<in> n_id ` set nodes"
  shows "i \<in> n_id ` set (replay fs nodes)"
  using assms
proof (induction fs arbitrary: nodes)
  case (Cons f fs)
  have "i \<in> n_id ` set (apply_edit f nodes)"
  proof -
    have f: "f \<in> registry_edits" "f \<noteq> delete_edit i" using Cons.prems by auto
    consider n where "f = enroll_edit n" | j where "f = delete_edit j" "j \<noteq> i" | "map n_id (apply_edit f nodes) = map n_id nodes"
      using edit_ids [OF f(1)] f(2) by blast
    then show ?thesis
    proof cases
      case (2 j)
      then show ?thesis using Cons.prems(3) by (auto simp: remove_by_def)
    next
      case 3
      then show ?thesis using Cons.prems(3) by (metis list.set_map)
    qed (use Cons.prems in auto)
  qed
  then show ?case using Cons by (simp add: replay_Cons)
qed (simp add: replay_def)

lemma deleted_stays:
  assumes "set fs \<subseteq> registry_edits" and "\<forall>n. n_id n = i \<longrightarrow> enroll_edit n \<notin> set fs" and "i \<notin> n_id ` set nodes"
  shows "i \<notin> n_id ` set (replay fs nodes)"
  using assms
proof (induction fs arbitrary: nodes)
  case (Cons f fs)
  have "i \<notin> n_id ` set (apply_edit f nodes)"
  proof -
    have f: "f \<in> registry_edits" "\<forall>n. n_id n = i \<longrightarrow> f \<noteq> enroll_edit n" using Cons.prems by auto
    consider n where "f = enroll_edit n" "n_id n \<noteq> i" | j where "f = delete_edit j" | "map n_id (apply_edit f nodes) = map n_id nodes"
      using edit_ids [OF f(1)] f(2) by blast
    then show ?thesis
    proof cases
      case (2 j)
      then show ?thesis using Cons.prems(3) by (auto simp: remove_by_def)
    next
      case 3
      then show ?thesis using Cons.prems(3) by (metis list.set_map)
    qed (use Cons.prems in auto)
  qed
  then show ?case using Cons by (simp add: replay_Cons)
qed (simp add: replay_def)

definition pending :: "'a place \<Rightarrow> 'a edit set" where
  "pending p = (case p of Called f \<Rightarrow> {f} | Inside f \<Rightarrow> {f} | Loaded f x \<Rightarrow> {f} | _ \<Rightarrow> {})"

definition permitted :: "'a edit set \<Rightarrow> 'a shared \<Rightarrow> bool" where
  "permitted edits s \<longleftrightarrow> (\<forall>t. pending (sh_threads s t) \<subseteq> edits) \<and> set (sh_saved s) \<subseteq> edits"

lemma pending_simps [simp]: "pending Away = {}" "pending (Called f) = {f}" "pending (Inside f) = {f}" "pending (Loaded f x) = {f}"
    "pending Finished = {}"
  by (simp_all add: pending_def)

lemma permitted_thread: "permitted edits s \<Longrightarrow> f \<in> pending (sh_threads s t) \<Longrightarrow> f \<in> edits"
  by (auto simp: permitted_def)

lemma permitted_step:
  assumes "writer_step locked edits s s'" and "permitted edits s"
  shows "permitted edits s'"
  using assms(1)
proof cases
  case (calls t f)
  then show ?thesis using assms(2) by (simp add: permitted_def)
next
  case (enters t f)
  then show ?thesis using assms(2) permitted_thread [OF assms(2), of f t] by (simp add: permitted_def)
next
  case (loads t f)
  then show ?thesis using assms(2) permitted_thread [OF assms(2), of f t] by (simp add: permitted_def)
next
  case (saves t f x y)
  then show ?thesis using assms(2) permitted_thread [OF assms(2), of f t] by (simp add: permitted_def)
qed (use assms(2) in \<open>simp_all add: permitted_def\<close>)

lemma permitted_run: "(writer_step locked edits)\<^sup>*\<^sup>* s s' \<Longrightarrow> permitted edits s \<Longrightarrow> permitted edits s'"
  by (induction rule: rtranclp_induct) (auto intro: permitted_step)

lemma permitted_start: "permitted edits (quiet_file x)"
  by (simp add: permitted_def quiet_file_def)

text \<open>C12: The registry survives its writers: over any interleaving of enrollments, edits, deletions, re-pins, ended
  maintenance windows and self-healing updates, in any number of threads, at most one is at work on the
  file, the file holds the saves one after the other, an enrolled host stays until it is deleted, and a
  deleted one does not come back.\<close>

theorem registry_serializable:
  assumes "(writer_step True registry_edits)\<^sup>*\<^sup>* (quiet_file nodes) s"
  shows "(\<forall>t u. busy (sh_threads s t) \<and> busy (sh_threads s u) \<longrightarrow> t = u) \<and> sh_file s = replay (sh_saved s) nodes \<and>
    (\<forall>before n after. sh_saved s = before @ enroll_edit n # after \<and> delete_edit (n_id n) \<notin> set after \<longrightarrow> n_id n \<in> n_id ` set (sh_file s)) \<and>
    (\<forall>before i after. sh_saved s = before @ delete_edit i # after \<and> (\<forall>n. n_id n = i \<longrightarrow> enroll_edit n \<notin> set after) \<longrightarrow>
      i \<notin> n_id ` set (sh_file s))"
proof -
  have o: "orderly nodes s" by (rule orderly_run [OF assms orderly_start])
  have p: "set (sh_saved s) \<subseteq> registry_edits" using permitted_run [OF assms permitted_start] by (simp add: permitted_def)
  have contents: "sh_file s = replay (sh_saved s) nodes" using o by (simp add: orderly_def)
  have "t = u" if "busy (sh_threads s t) \<and> busy (sh_threads s u)" for t u using o that unfolding orderly_def by (metis option.inject)
  moreover have "n_id n \<in> n_id ` set (sh_file s)"
    if "sh_saved s = before @ enroll_edit n # after \<and> delete_edit (n_id n) \<notin> set after" for before n after
    using that p enrolled_stays [of after "n_id n" "replay before nodes @ [n]"] by (simp add: contents replay_append replay_Cons)
  moreover have "i \<notin> n_id ` set (sh_file s)"
    if "sh_saved s = before @ delete_edit i # after \<and> (\<forall>n. n_id n = i \<longrightarrow> enroll_edit n \<notin> set after)" for before i after
  proof -
    have "i \<notin> n_id ` set (remove_by n_id i (replay before nodes))" by (auto simp: remove_by_def)
    then show ?thesis
      using that p deleted_stays [of after i "remove_by n_id i (replay before nodes)"] by (simp add: contents replay_append replay_Cons)
  qed
  ultimately show ?thesis using contents by blast
qed

lemma run_step: "writer_step locked edits s t \<Longrightarrow> (writer_step locked edits)\<^sup>*\<^sup>* t u \<Longrightarrow> (writer_step locked edits)\<^sup>*\<^sup>* s u"
  by (rule converse_rtranclp_into_rtranclp)

lemma run_last: "writer_step locked edits s t \<Longrightarrow> (writer_step locked edits)\<^sup>*\<^sup>* s t"
  by (rule r_into_rtranclp)

text \<open>A whole write of one thread.\<close>

definition wrote :: "nat \<Rightarrow> 'a edit \<Rightarrow> 'a \<Rightarrow> 'a shared \<Rightarrow> 'a shared" where
  "wrote t f y s = s\<lparr>sh_file := y, sh_saved := sh_saved s @ [f]\<rparr>"

lemma whole_write:
  assumes "sh_threads s t = Called f" and "sh_owner s = None" and "f (sh_file s) = Some y"
  shows "(writer_step True edits)\<^sup>*\<^sup>* s (move t Away (wrote t f y s))"
proof -
  define s1 where "s1 = move t (Inside f) (s\<lparr>sh_owner := Some t\<rparr>)"
  define s2 where "s2 = move t (Loaded f (sh_file s1)) s1"
  define s3 where "s3 = move t Finished (s2\<lparr>sh_file := y, sh_saved := sh_saved s2 @ [f]\<rparr>)"
  have one: "writer_step True edits s s1"
    using writer_step.enters [of s t f True edits] assms(1,2) by (simp add: s1_def may_enter_def)
  have two: "writer_step True edits s1 s2" unfolding s2_def by (rule writer_step.loads) (simp add: s1_def)
  have three: "writer_step True edits s2 s3"
    unfolding s3_def by (rule writer_step.saves) (use assms(3) in \<open>simp_all add: s2_def s1_def\<close>)
  have four: "writer_step True edits s3 (move t Away (s3\<lparr>sh_owner := None\<rparr>))"
    using writer_step.leaves [of s3 t True edits] by (simp add: s3_def)
  have "move t Away (s3\<lparr>sh_owner := None\<rparr>) = move t Away (wrote t f y s)"
    using assms(2) by (simp add: s3_def s2_def s1_def wrote_def move_def)
  then show ?thesis
    using one two three four by (metis converse_rtranclp_into_rtranclp rtranclp.rtrancl_refl)
qed

text \<open>Two threads, the second one called while the first is on its way.\<close>

definition two_writers :: "node list shared" where
  "two_writers = (let h1 = sample_node ''h1'' ''h1''; h2 = sample_node ''h2'' ''h2'';
       s = move 1 (Called (delete_edit ''h1'')) (move 0 (Called (enroll_edit h2)) (quiet_file [h1]));
       s' = move 0 Away (wrote 0 (enroll_edit h2) [h1, h2] s)
     in move 1 Away (wrote 1 (delete_edit ''h1'') [h2] s'))"

lemma two_writers_run: "(writer_step True registry_edits)\<^sup>*\<^sup>* (quiet_file [sample_node ''h1'' ''h1'']) two_writers"
proof -
  let ?h1 = "sample_node ''h1'' ''h1''" and ?h2 = "sample_node ''h2'' ''h2''"
  define a where "a = move 0 (Called (enroll_edit ?h2)) (quiet_file [?h1])"
  define b where "b = move 1 (Called (delete_edit ''h1'')) a"
  define c where "c = move 0 Away (wrote 0 (enroll_edit ?h2) [?h1, ?h2] b)"
  have one: "writer_step True registry_edits (quiet_file [?h1]) a"
    unfolding a_def by (rule writer_step.calls) (simp_all add: quiet_file_def registry_edits_def)
  have two: "writer_step True registry_edits a b"
    unfolding b_def by (rule writer_step.calls) (simp_all add: a_def quiet_file_def registry_edits_def)
  have three: "(writer_step True registry_edits)\<^sup>*\<^sup>* b c"
    unfolding c_def by (rule whole_write) (simp_all add: b_def a_def quiet_file_def enroll_edit_def)
  have four: "(writer_step True registry_edits)\<^sup>*\<^sup>* c (move 1 Away (wrote 1 (delete_edit ''h1'') [?h2] c))"
    by (rule whole_write) (simp_all add: c_def wrote_def b_def a_def quiet_file_def delete_edit_def remove_by_def sample_node_def)
  have last: "two_writers = move 1 Away (wrote 1 (delete_edit ''h1'') [?h2] c)"
    by (simp add: two_writers_def c_def b_def a_def Let_def)
  show ?thesis unfolding last by (rule run_step [OF one run_step [OF two rtranclp_trans [OF three four]]])
qed

theorem registry_serializable_witness:
  "sh_file two_writers = replay (sh_saved two_writers) [sample_node ''h1'' ''h1''] \<and> map n_id (sh_file two_writers) = [''h2'']"
proof -
  have "sh_file two_writers = replay (sh_saved two_writers) [sample_node ''h1'' ''h1'']"
    using registry_serializable [OF two_writers_run] by blast
  moreover have "map n_id (sh_file two_writers) = [''h2'']" by (simp add: two_writers_def Let_def wrote_def sample_node_def)
  ultimately show ?thesis by blast
qed

section \<open>Without a lock\<close>

lemma unlocked_step:
  "sh_threads s t = Away \<Longrightarrow> f \<in> edits \<Longrightarrow> writer_step False edits s (move t (Called f) s)"
  "sh_threads s t = Called f \<Longrightarrow> writer_step False edits s (move t (Inside f) s)"
  "sh_threads s t = Finished \<Longrightarrow> writer_step False edits s (move t Away s)"
  using writer_step.calls [of s t f edits False] writer_step.enters [of s t f False edits] writer_step.leaves [of s t False edits]
  by (simp_all add: may_enter_def)

text \<open>The handlers of the service checks take no lock: two of them that overlap can both report success and
  leave only the second check in the file.\<close>

theorem check_save_lost:
  "\<exists>s. (writer_step False check_edits)\<^sup>*\<^sup>* (quiet_file cs) s \<and> (\<forall>t. sh_threads s t = Away) \<and>
     sh_saved s = [add_check_edit a, add_check_edit b] \<and> sh_file s = cs @ [b]"
proof -
  define s1 where "s1 = move 0 (Called (add_check_edit a)) (quiet_file cs)"
  define s2 where "s2 = move 0 (Inside (add_check_edit a)) s1"
  define s3 where "s3 = move 0 (Loaded (add_check_edit a) (sh_file s2)) s2"
  define s4 where "s4 = move 1 (Called (add_check_edit b)) s3"
  define s5 where "s5 = move 1 (Inside (add_check_edit b)) s4"
  define s6 where "s6 = move 1 (Loaded (add_check_edit b) (sh_file s5)) s5"
  define s7 where "s7 = move 0 Finished (s6\<lparr>sh_file := cs @ [a], sh_saved := sh_saved s6 @ [add_check_edit a]\<rparr>)"
  define s8 where "s8 = move 1 Finished (s7\<lparr>sh_file := cs @ [b], sh_saved := sh_saved s7 @ [add_check_edit b]\<rparr>)"
  define s9 where "s9 = move 0 Away s8"
  define s10 where "s10 = move 1 Away s9"
  note states = s1_def s2_def s3_def s4_def s5_def s6_def s7_def s8_def s9_def s10_def
  let ?step = "writer_step False check_edits"
  have run: "?step (quiet_file cs) s1" "?step s1 s2" "?step s2 s3" "?step s3 s4" "?step s4 s5" "?step s5 s6" "?step s6 s7"
    "?step s7 s8" "?step s8 s9" "?step s9 s10"
    unfolding states by (rule unlocked_step writer_step.loads writer_step.saves;
      simp add: quiet_file_def check_edits_def add_check_edit_def)+
  have "?step\<^sup>*\<^sup>* (quiet_file cs) s5"
    by (rule run_step [OF run(1)], rule run_step [OF run(2)],
      rule run_step [OF run(3)], rule run_step [OF run(4)], rule run_last [OF run(5)])
  moreover have "?step\<^sup>*\<^sup>* s5 s10"
    by (rule run_step [OF run(6)], rule run_step [OF run(7)],
      rule run_step [OF run(8)], rule run_step [OF run(9)], rule run_last [OF run(10)])
  ultimately have "?step\<^sup>*\<^sup>* (quiet_file cs) s10" by (rule rtranclp_trans)
  moreover have "(\<forall>t. sh_threads s10 t = Away) \<and> sh_saved s10 = [add_check_edit a, add_check_edit b] \<and> sh_file s10 = cs @ [b]"
    by (simp add: states quiet_file_def)
  ultimately show ?thesis by blast
qed

section \<open>The default socket timeout\<close>

text \<open>Two hosts polled at the same time leave the timeout of one of them behind for the whole process, and the
  second polls without a timeout from the moment the first is done.\<close>

definition no_timers :: timers where
  "no_timers = \<lparr>ti_default = None, ti_threads = \<lambda>t. Untimed\<rparr>"

theorem timeout_race:
  "(\<exists>s. timeout_step\<^sup>*\<^sup>* no_timers s \<and> ti_threads s 1 \<noteq> Untimed \<and> ti_threads s 1 \<noteq> Read None \<and> ti_default s = None) \<and>
   (\<exists>s. timeout_step\<^sup>*\<^sup>* no_timers s \<and> (\<forall>t. ti_threads s t = Untimed) \<and> ti_default s = Some CONNECT_TIMEOUT)"
proof -
  define s1 where "s1 = no_timers\<lparr>ti_threads := (ti_threads no_timers)(0 := Read (ti_default no_timers))\<rparr>"
  define s2 where "s2 = s1\<lparr>ti_default := Some CONNECT_TIMEOUT, ti_threads := (ti_threads s1)(0 := Timed None)\<rparr>"
  define s3 where "s3 = s2\<lparr>ti_threads := (ti_threads s2)(1 := Read (ti_default s2))\<rparr>"
  define s4 where "s4 = s3\<lparr>ti_default := Some CONNECT_TIMEOUT, ti_threads := (ti_threads s3)(1 := Timed (Some CONNECT_TIMEOUT))\<rparr>"
  define s5 where "s5 = s4\<lparr>ti_default := None, ti_threads := (ti_threads s4)(0 := Untimed)\<rparr>"
  define s6 where "s6 = s5\<lparr>ti_default := Some CONNECT_TIMEOUT, ti_threads := (ti_threads s5)(1 := Untimed)\<rparr>"
  note states = s1_def s2_def s3_def s4_def s5_def s6_def no_timers_def
  have run: "timeout_step no_timers s1" "timeout_step s1 s2" "timeout_step s2 s3" "timeout_step s3 s4" "timeout_step s4 s5" "timeout_step s5 s6"
    unfolding states by (rule timeout_step.intros; simp)+
  have five: "timeout_step\<^sup>*\<^sup>* no_timers s5"
    by (rule converse_rtranclp_into_rtranclp, rule run(1), rule converse_rtranclp_into_rtranclp, rule run(2),
      rule converse_rtranclp_into_rtranclp, rule run(3), rule converse_rtranclp_into_rtranclp, rule run(4), rule r_into_rtranclp, rule run(5))
  then have six: "timeout_step\<^sup>*\<^sup>* no_timers s6" using run(6) by (rule rtranclp.rtrancl_into_rtrancl)
  have "ti_threads s5 1 \<noteq> Untimed \<and> ti_threads s5 1 \<noteq> Read None \<and> ti_default s5 = None" by (simp add: states)
  moreover have "(\<forall>t. ti_threads s6 t = Untimed) \<and> ti_default s6 = Some CONNECT_TIMEOUT" by (simp add: states)
  ultimately show ?thesis using five six by blast
qed

end
