(* ===== verification/Secrets.thy ===== *)
theory Secrets
  imports Adapters
begin

text \<open>
  The keys of the controller (\<open>app.py\<close>, "Config / auth bootstrap"): the Fernet key that encrypts the tokens and
  passwords of the hosts and the key that signs the sessions, both kept in the configuration file and made on
  first use. The file is what \<open>json.load\<close> makes of it; \<open>None\<close> is a file that is missing or is no JSON, which
  \<open>load_json\<close> reads as an empty configuration. The Fernet library, the hash of a password and fresh random
  values are parameters.
\<close>

record fernet_lib =
  fl_valid :: "string \<Rightarrow> bool"
  fl_encrypt :: "string \<Rightarrow> string \<Rightarrow> string \<Rightarrow> string"
  fl_decrypt :: "string \<Rightarrow> string \<Rightarrow> string option"

type_synonym auth_file = "json option"

definition load_config :: "auth_file \<Rightarrow> exn + json dict" where
  "load_config a = as_dict (case a of None \<Rightarrow> JObj [] | Some v \<Rightarrow> v)"

definition save_config :: "json dict \<Rightarrow> auth_file" where
  "save_config cfg = Some (JObj cfg)"

section \<open>Encryption at rest\<close>

text \<open>\<open>_fernet\<close>: the key in use and the file after.\<close>

definition fernet :: "fernet_lib \<Rightarrow> string \<Rightarrow> auth_file \<Rightarrow> (exn + string) \<times> auth_file" where
  "fernet lib fresh a = (case load_config a of
      Inl e \<Rightarrow> (Inl e, a)
    | Inr cfg \<Rightarrow>
        let old = jget cfg ''fernet_key'';
            (key, a') = (if \<not> truthy old then (JStr fresh, save_config (AList.update ''fernet_key'' (JStr fresh) cfg)) else (old, a))
        in (case key of JStr k \<Rightarrow> if fl_valid lib k then Inr k else Inl ValueError | _ \<Rightarrow> Inl AttributeError, a'))"

definition encrypt_secret :: "fernet_lib \<Rightarrow> string \<Rightarrow> string \<Rightarrow> string \<Rightarrow> auth_file \<Rightarrow> (exn + string) \<times> auth_file" where
  "encrypt_secret lib fresh nonce plaintext a = (case fernet lib fresh a of
      (Inl e, a') \<Rightarrow> (Inl e, a') | (Inr k, a') \<Rightarrow> (Inr (fl_encrypt lib k nonce plaintext), a'))"

text \<open>An invalid ciphertext, and a value that has no \<open>encode\<close>, is no secret; other exceptions escape.\<close>

definition decrypt_secret :: "fernet_lib \<Rightarrow> string \<Rightarrow> json \<Rightarrow> auth_file \<Rightarrow> (exn + string option) \<times> auth_file" where
  "decrypt_secret lib fresh ciphertext a = (case fernet lib fresh a of
      (Inl e, a') \<Rightarrow> (if e = AttributeError then Inr None else Inl e, a')
    | (Inr k, a') \<Rightarrow> (Inr (case ciphertext of JStr c \<Rightarrow> fl_decrypt lib k c | _ \<Rightarrow> None), a'))"

section \<open>The first start\<close>

definition default_to :: "string \<Rightarrow> string \<Rightarrow> json dict \<Rightarrow> json dict \<times> bool" where
  "default_to k v cfg = (if \<not> truthy (jget cfg k) then (AList.update k (JStr v) cfg, True) else (cfg, False))"

definition first_admin :: "string \<Rightarrow> json" where
  "first_admin hash = JObj [(''password'', JStr hash), (''role'', JStr ''admin''), (''must_change'', JBool True)]"

definition add_first_admin :: "string \<Rightarrow> json dict \<Rightarrow> exn + json dict \<times> bool" where
  "add_first_admin hash cfg =
     (if truthy (jget cfg ''users'') then Inr (cfg, False)
      else if \<not> has_key cfg ''users'' then Inr (AList.update ''users'' (JObj [(''admin'', first_admin hash)]) cfg, True)
      else (case jget cfg ''users'' of
          JObj d \<Rightarrow> Inr (AList.update ''users'' (JObj (AList.update ''admin'' (first_admin hash) d)) cfg, True)
        | _ \<Rightarrow> Inl TypeError))"

text \<open>The random values of a start: the session key, the Fernet key and the password printed when the
  environment has none.\<close>

record birth =
  bi_secret :: string
  bi_fernet :: string
  bi_password :: string

definition ensure_bootstrap_file :: "(string \<Rightarrow> string) \<Rightarrow> string option \<Rightarrow> birth \<Rightarrow> auth_file \<Rightarrow> (exn + json dict) \<times> auth_file" where
  "ensure_bootstrap_file hash_pw env b a = (case load_config a of
      Inl e \<Rightarrow> (Inl e, a)
    | Inr cfg0 \<Rightarrow>
        let (cfg1, c1) = default_to ''secret_key'' (bi_secret b) cfg0;
            (cfg2, c2) = default_to ''fernet_key'' (bi_fernet b) cfg1;
            pw = (case env of None \<Rightarrow> bi_password b | Some p \<Rightarrow> if p = [] then bi_password b else p)
        in (case add_first_admin (hash_pw pw) cfg2 of
              Inl e \<Rightarrow> (Inl e, a)
            | Inr (cfg3, c3) \<Rightarrow> (Inr cfg3, if c1 \<or> c2 \<or> c3 then save_config cfg3 else a)))"

section \<open>The other writers of the file\<close>

text \<open>The keys the handlers set, each under the lock on a configuration it has just loaded.\<close>

definition HANDLER_KEYS :: "string list" where
  "HANDLER_KEYS = [''users'', ''api_tokens'', ''scope_presets'', ''tuning'', ''notifications'']"

definition config_write :: "string \<Rightarrow> json \<Rightarrow> auth_file \<Rightarrow> auth_file" where
  "config_write k v a = (case load_config a of
      Inl e \<Rightarrow> a | Inr cfg \<Rightarrow> if k \<in> set HANDLER_KEYS then save_config (AList.update k v cfg) else a)"

datatype key_op =
    Start "string option" birth
  | Encrypt string string string
  | Decrypt string json
  | Configure string json

fun key_step :: "fernet_lib \<Rightarrow> (string \<Rightarrow> string) \<Rightarrow> auth_file \<Rightarrow> key_op \<Rightarrow> auth_file" where
  "key_step lib hash_pw a (Start env b) = snd (ensure_bootstrap_file hash_pw env b a)"
| "key_step lib hash_pw a (Encrypt fresh nonce p) = snd (encrypt_secret lib fresh nonce p a)"
| "key_step lib hash_pw a (Decrypt fresh c) = snd (decrypt_secret lib fresh c a)"
| "key_step lib hash_pw a (Configure k v) = config_write k v a"

end
