(* ===== verification/SecretFacts.thy ===== *)
theory SecretFacts
  imports Secrets
begin

text \<open>
  A secret that was encrypted stays readable: nothing the controller does to its configuration changes a key that is
  there. The exception is a file that is no longer JSON: it counts as empty, and the next use of a key
  replaces it.
\<close>

definition held :: "string \<Rightarrow> json \<Rightarrow> auth_file \<Rightarrow> bool" where
  "held name v a \<longleftrightarrow> truthy v \<and> (\<exists>cfg. load_config a = Inr cfg \<and> jget cfg name = v)"

definition KEY_NAMES :: "string list" where
  "KEY_NAMES = [''fernet_key'', ''secret_key'']"

lemma jget_update [simp]: "jget (AList.update k v d) j = (if j = k then v else jget d j)"
  by (simp add: jget_def)

lemma load_saved [simp]: "load_config (save_config cfg) = Inr cfg"
  by (simp add: load_config_def save_config_def as_dict_def)

lemma held_saved: "held name v (save_config cfg) \<longleftrightarrow> truthy v \<and> jget cfg name = v"
  by (simp add: held_def)

lemma fernet_file:
  "snd (fernet lib fresh a) = (case load_config a of Inl e \<Rightarrow> a | Inr cfg \<Rightarrow>
     if truthy (jget cfg ''fernet_key'') then a else save_config (AList.update ''fernet_key'' (JStr fresh) cfg))"
  by (simp add: fernet_def Let_def split: sum.split prod.split)

lemma fernet_held: "held name k a \<Longrightarrow> held name k (snd (fernet lib fresh a))"
  by (auto simp: fernet_file held_saved held_def)

lemma fernet_key_held: "held ''fernet_key'' (JStr k) a \<Longrightarrow> fl_valid lib k \<Longrightarrow> fernet lib fresh a = (Inr k, a)"
  by (auto simp: fernet_def held_def)

lemma encrypt_file: "snd (encrypt_secret lib fresh nonce p a) = snd (fernet lib fresh a)"
  by (simp add: encrypt_secret_def split: prod.split sum.split)

lemma decrypt_file: "snd (decrypt_secret lib fresh c a) = snd (fernet lib fresh a)"
  by (simp add: decrypt_secret_def split: prod.split sum.split)

lemma default_to_held: "truthy w \<Longrightarrow> jget cfg name = w \<Longrightarrow> jget (fst (default_to key v cfg)) name = w"
  by (auto simp: default_to_def)

lemma first_admin_held: "add_first_admin h cfg = Inr (cfg', c) \<Longrightarrow> name \<noteq> ''users'' \<Longrightarrow> jget cfg' name = jget cfg name"
  by (auto simp: add_first_admin_def split: if_splits json.splits)

lemma bootstrap_held:
  assumes "held name k a" and "name \<in> set KEY_NAMES"
  shows "held name k (snd (ensure_bootstrap_file hash_pw env b a))"
proof -
  obtain cfg0 where cfg0: "load_config a = Inr cfg0" "jget cfg0 name = k" "truthy k" using assms(1) by (auto simp: held_def)
  obtain cfg1 c1 where one: "default_to ''secret_key'' (bi_secret b) cfg0 = (cfg1, c1)" by fastforce
  obtain cfg2 c2 where two: "default_to ''fernet_key'' (bi_fernet b) cfg1 = (cfg2, c2)" by fastforce
  have "jget cfg1 name = k" using default_to_held [OF cfg0(3,2)] one by (metis fst_conv)
  then have two': "jget cfg2 name = k" using default_to_held [OF cfg0(3)] two by (metis fst_conv)
  define pw where "pw = (case env of None \<Rightarrow> bi_password b | Some p \<Rightarrow> if p = [] then bi_password b else p)"
  show ?thesis
  proof (cases "add_first_admin (hash_pw pw) cfg2")
    case (Inl e)
    then show ?thesis using assms(1) by (simp add: ensure_bootstrap_file_def cfg0 one two Let_def pw_def)
  next
    case (Inr r)
    obtain cfg3 c3 where r: "r = (cfg3, c3)" by (cases r)
    have "jget cfg3 name = k" using first_admin_held Inr r assms(2) two' by (auto simp: KEY_NAMES_def)
    then show ?thesis using assms(1) Inr cfg0(3)
      by (simp add: ensure_bootstrap_file_def cfg0 one two Let_def pw_def r held_saved)
  qed
qed

lemma handler_keys_apart: "key \<in> set HANDLER_KEYS \<Longrightarrow> key \<notin> set KEY_NAMES"
  by (auto simp: HANDLER_KEYS_def KEY_NAMES_def)

lemma configure_held:
  assumes "held name k a" and "name \<in> set KEY_NAMES"
  shows "held name k (config_write key v a)"
proof (cases "key \<in> set HANDLER_KEYS")
  case True
  then have "name \<noteq> key" using handler_keys_apart assms(2) by blast
  then show ?thesis using assms(1) True by (auto simp: config_write_def held_saved held_def)
qed (use assms(1) in \<open>simp add: config_write_def split: sum.split\<close>)

lemma key_step_held: "held name k a \<and> name \<in> set KEY_NAMES \<Longrightarrow> held name k (key_step lib hash_pw a x)"
  by (cases x) (simp_all add: bootstrap_held configure_held encrypt_file decrypt_file fernet_held)

interpretation key_file: step_system "key_step lib hash_pw" "\<lambda>a. held name k a \<and> name \<in> set KEY_NAMES" for lib hash_pw name k
  by unfold_locales (simp only: key_step_held)

lemma fernet_leaves_held:
  assumes "fernet lib fresh a = (Inr k, a')" and "\<not> fl_valid lib []"
  shows "held ''fernet_key'' (JStr k) a' \<and> fl_valid lib k"
proof -
  obtain cfg where cfg: "load_config a = Inr cfg" using assms(1) by (auto simp: fernet_def split: sum.splits)
  show ?thesis
  proof (cases "truthy (jget cfg ''fernet_key'')")
    case True
    then show ?thesis using assms cfg by (auto simp: fernet_def Let_def held_def split: json.splits if_splits)
  next
    case False
    then show ?thesis using assms cfg by (auto simp: fernet_def Let_def held_saved split: if_splits)
  qed
qed

text \<open>C18: An encrypted secret stays readable: after any sequence of starts, encryptions, decryptions and changes of the
  configuration it decrypts to what was encrypted, and a session key once there stays too. (Hypotheses:
  decryption undoes encryption under one key; an empty text is no key.)\<close>

theorem secrets_survive:
  assumes "\<And>k n p. fl_decrypt lib k (fl_encrypt lib k n p) = Some p" and "\<not> fl_valid lib []"
    and "encrypt_secret lib fresh nonce p a = (Inr c, a')"
  shows "decrypt_secret lib fresh' (JStr c) (foldl (key_step lib hash_pw) a' xs) = (Inr (Some p), foldl (key_step lib hash_pw) a' xs) \<and>
    (held ''secret_key'' s a' \<longrightarrow> held ''secret_key'' s (foldl (key_step lib hash_pw) a' xs))"
proof -
  obtain k where f: "fernet lib fresh a = (Inr k, a')" and c: "c = fl_encrypt lib k nonce p"
    using assms(3) by (auto simp: encrypt_secret_def split: prod.splits sum.splits)
  have k: "held ''fernet_key'' (JStr k) a'" "fl_valid lib k" using fernet_leaves_held [OF f assms(2)] by auto
  have "held ''fernet_key'' (JStr k) (foldl (key_step lib hash_pw) a' xs)"
    using key_file.run_inv [of "''fernet_key''" "JStr k" a'] k(1) by (simp add: KEY_NAMES_def)
  then have "decrypt_secret lib fresh' (JStr c) (foldl (key_step lib hash_pw) a' xs) = (Inr (Some p), foldl (key_step lib hash_pw) a' xs)"
    using fernet_key_held k(2) assms(1) by (simp add: decrypt_secret_def c)
  then show ?thesis using key_file.run_inv [of "''secret_key''" s a'] by (simp add: KEY_NAMES_def)
qed

definition plain_lib :: fernet_lib where
  "plain_lib = \<lparr>fl_valid = \<lambda>k. k \<noteq> [], fl_encrypt = \<lambda>k n p. k @ CHR ''.'' # p,
     fl_decrypt = \<lambda>k c. if startswith (k @ ''.'') c then Some (drop (length k + 1) c) else None\<rparr>"

lemma plain_lib_law: "fl_decrypt plain_lib k (fl_encrypt plain_lib k n p) = Some p"
  by (simp add: plain_lib_def startswith_def)

theorem secrets_survive_witness:
  "decrypt_secret plain_lib ''k2'' (JStr ''k1.token'')
     (foldl (key_step plain_lib (\<lambda>p. p)) (Some (JObj [(''fernet_key'', JStr ''k1'')])) [Start None \<lparr>bi_secret = ''s'', bi_fernet = ''k3'', bi_password = ''pw''\<rparr>])
   = (Inr (Some ''token''),
      foldl (key_step plain_lib (\<lambda>p. p)) (Some (JObj [(''fernet_key'', JStr ''k1'')])) [Start None \<lparr>bi_secret = ''s'', bi_fernet = ''k3'', bi_password = ''pw''\<rparr>])"
proof -
  have "encrypt_secret plain_lib ''k1'' [] ''token'' None = (Inr ''k1.token'', Some (JObj [(''fernet_key'', JStr ''k1'')]))"
    by (simp add: encrypt_secret_def fernet_def load_config_def as_dict_def save_config_def jget_def plain_lib_def)
  moreover have "\<not> fl_valid plain_lib []" by (simp add: plain_lib_def)
  ultimately show ?thesis by (rule secrets_survive [OF plain_lib_law, THEN conjunct1, rotated])
qed

text \<open>A configuration that is no longer JSON is not refused: the first secret that is read replaces it by one with a
  new key and nothing else, and the secrets of the old key are gone. (Hypothesis: a ciphertext is not
  accepted under another key.)\<close>

theorem broken_config_forgets:
  assumes "fl_valid lib fresh" and "fl_decrypt lib fresh c = None"
  shows "decrypt_secret lib fresh (JStr c) None = (Inr None, Some (JObj [(''fernet_key'', JStr fresh)]))"
  using assms by (simp add: decrypt_secret_def fernet_def load_config_def as_dict_def save_config_def jget_def)

theorem broken_config_forgets_witness:
  "decrypt_secret plain_lib ''k2'' (JStr ''k1.token'') None = (Inr None, Some (JObj [(''fernet_key'', JStr ''k2'')]))"
  using broken_config_forgets [where lib = plain_lib and fresh = "''k2''" and c = "''k1.token''"] by (simp add: plain_lib_def startswith_def)

end
