(* ===== verification/Bridge.thy ===== *)
theory Bridge
  imports NodeProxy
begin

text \<open>
  The two pumps of the console bridge (\<open>node_ws\<close> of \<open>app.py\<close>) as threads that share the stop event and the two
  sockets. A step is one check of the event, one receive, one send or one close; what a socket delivers, and
  when a call on it raises, is open. Documented behaviour of the libraries used: a receive on a closed socket
  raises, a send on a closed socket raises, and the browser side's receive comes back after its 30 seconds. A close that raises
  is a close, as in the code, which goes on.
\<close>

datatype node_pump = NCheck | NRecv | NSend frame | NStop | NClose | NEnded
datatype browser_pump = BCheck | BReceive | BSend frame | BStop | BCloseUpstream | BCloseWs | BEnded

text \<open>What came from each side is kept as it was received, what was sent as it was sent.\<close>

record bridged =
  br_stop :: bool
  br_ws_open :: bool
  br_upstream_open :: bool
  br_node_pump :: node_pump
  br_browser_pump :: browser_pump
  br_from_node :: "frame option list"
  br_to_browser :: "frame list"
  br_from_browser :: "frame option list"
  br_to_node :: "frame list"

definition bridge_start :: bridged where
  "bridge_start = \<lparr>br_stop = False, br_ws_open = True, br_upstream_open = True, br_node_pump = NCheck, br_browser_pump = BCheck,
     br_from_node = [], br_to_browser = [], br_from_browser = [], br_to_node = []\<rparr>"

text \<open>\<open>data is None or data == '' or data == b''\<close>.\<close>

definition no_data :: "frame option \<Rightarrow> bool" where
  "no_data m = (case m of None \<Rightarrow> True | Some f \<Rightarrow> payload_of_frame f = [])"

inductive node_pump_step :: "bridged \<Rightarrow> bridged \<Rightarrow> bool" where
  n_check: "br_node_pump s = NCheck \<Longrightarrow> node_pump_step s (s\<lparr>br_node_pump := (if br_stop s then NStop else NRecv)\<rparr>)"
| n_recv: "br_node_pump s = NRecv \<Longrightarrow> br_upstream_open s \<Longrightarrow>
    node_pump_step s (s\<lparr>br_from_node := br_from_node s @ [m], br_node_pump := (case m of None \<Rightarrow> NStop | Some f \<Rightarrow> if no_data m then NStop else NSend f)\<rparr>)"
| n_recv_raises: "br_node_pump s = NRecv \<Longrightarrow> node_pump_step s (s\<lparr>br_node_pump := NStop\<rparr>)"
| n_send: "br_node_pump s = NSend f \<Longrightarrow> br_ws_open s \<Longrightarrow>
    node_pump_step s (s\<lparr>br_to_browser := br_to_browser s @ [f], br_node_pump := NCheck\<rparr>)"
| n_send_raises: "br_node_pump s = NSend f \<Longrightarrow> node_pump_step s (s\<lparr>br_node_pump := NStop\<rparr>)"
| n_stop: "br_node_pump s = NStop \<Longrightarrow> node_pump_step s (s\<lparr>br_stop := True, br_node_pump := NClose\<rparr>)"
| n_close: "br_node_pump s = NClose \<Longrightarrow> node_pump_step s (s\<lparr>br_ws_open := False, br_node_pump := NEnded\<rparr>)"

inductive browser_pump_step :: "bridged \<Rightarrow> bridged \<Rightarrow> bool" where
  b_check: "br_browser_pump s = BCheck \<Longrightarrow> browser_pump_step s (s\<lparr>br_browser_pump := (if br_stop s then BStop else BReceive)\<rparr>)"
| b_receive: "br_browser_pump s = BReceive \<Longrightarrow> br_ws_open s \<Longrightarrow>
    browser_pump_step s (s\<lparr>br_from_browser := br_from_browser s @ [Some f], br_browser_pump := BSend f\<rparr>)"
| b_timeout: "br_browser_pump s = BReceive \<Longrightarrow>
    browser_pump_step s (s\<lparr>br_from_browser := br_from_browser s @ [None], br_browser_pump := BCheck\<rparr>)"
| b_receive_raises: "br_browser_pump s = BReceive \<Longrightarrow> browser_pump_step s (s\<lparr>br_browser_pump := BStop\<rparr>)"
| b_send: "br_browser_pump s = BSend f \<Longrightarrow> br_upstream_open s \<Longrightarrow>
    browser_pump_step s (s\<lparr>br_to_node := br_to_node s @ [f], br_browser_pump := BCheck\<rparr>)"
| b_send_raises: "br_browser_pump s = BSend f \<Longrightarrow> browser_pump_step s (s\<lparr>br_browser_pump := BStop\<rparr>)"
| b_stop: "br_browser_pump s = BStop \<Longrightarrow> browser_pump_step s (s\<lparr>br_stop := True, br_browser_pump := BCloseUpstream\<rparr>)"
| b_close_upstream: "br_browser_pump s = BCloseUpstream \<Longrightarrow>
    browser_pump_step s (s\<lparr>br_upstream_open := False, br_browser_pump := BCloseWs\<rparr>)"
| b_close_ws: "br_browser_pump s = BCloseWs \<Longrightarrow> browser_pump_step s (s\<lparr>br_ws_open := False, br_browser_pump := BEnded\<rparr>)"

definition bridge_step :: "bridged \<Rightarrow> bridged \<Rightarrow> bool" where
  "bridge_step s s' \<longleftrightarrow> node_pump_step s s' \<or> browser_pump_step s s'"

inductive_cases node_pump_E: "node_pump_step s s'"
inductive_cases browser_pump_E: "browser_pump_step s s'"

definition over :: "bridged \<Rightarrow> bool" where
  "over s \<longleftrightarrow> br_node_pump s = NEnded \<and> br_browser_pump s = BEnded"

end
