(* ===== verification/BridgeFacts.thy ===== *)
theory BridgeFacts
  imports Bridge "HOL-Library.Sublist"
begin

text \<open>
  The console bridge over every interleaving of its pumps: each side gets a prefix of what the other one sent, in
  order; once one side is gone both pumps end after a few steps of their own; and then both sockets are closed.
\<close>

section \<open>Nothing is invented or reordered\<close>

lemma pump_node_snoc:
  "list_all (\<lambda>m. \<not> no_data m) ms \<Longrightarrow>
   pump_node_to_browser (ms @ [m]) = pump_node_to_browser ms @ (if no_data m then [] else [the m])"
  by (induction ms rule: pump_node_to_browser.induct) (auto simp: no_data_def split: option.split)

lemma pump_browser_snoc: "pump_browser_to_node (ms @ [m]) = pump_browser_to_node ms @ (case m of None \<Rightarrow> [] | Some f \<Rightarrow> [f])"
  by (induction ms rule: pump_browser_to_node.induct) (auto split: option.split)

definition node_side_ok :: "bridged \<Rightarrow> bool" where
  "node_side_ok s \<longleftrightarrow> (let out = pump_node_to_browser (br_from_node s); clean = list_all (\<lambda>m. \<not> no_data m) (br_from_node s)
     in case br_node_pump s of
          NCheck \<Rightarrow> clean \<and> br_to_browser s = out
        | NRecv \<Rightarrow> clean \<and> br_to_browser s = out
        | NSend f \<Rightarrow> clean \<and> br_to_browser s @ [f] = out
        | _ \<Rightarrow> prefix (br_to_browser s) out)"

definition browser_side_ok :: "bridged \<Rightarrow> bool" where
  "browser_side_ok s \<longleftrightarrow> (let out = pump_browser_to_node (br_from_browser s)
     in case br_browser_pump s of
          BCheck \<Rightarrow> br_to_node s = out
        | BReceive \<Rightarrow> br_to_node s = out
        | BSend f \<Rightarrow> br_to_node s @ [f] = out
        | _ \<Rightarrow> prefix (br_to_node s) out)"

definition ends_ok :: "bridged \<Rightarrow> bool" where
  "ends_ok s \<longleftrightarrow> (br_node_pump s \<in> {NClose, NEnded} \<longrightarrow> br_stop s) \<and> (br_node_pump s = NEnded \<longrightarrow> \<not> br_ws_open s) \<and>
     (br_browser_pump s \<in> {BCloseUpstream, BCloseWs, BEnded} \<longrightarrow> br_stop s) \<and>
     (br_browser_pump s \<in> {BCloseWs, BEnded} \<longrightarrow> \<not> br_upstream_open s) \<and> (br_browser_pump s = BEnded \<longrightarrow> \<not> br_ws_open s)"

lemma node_step_ok:
  assumes "node_pump_step s s'" and "node_side_ok s" and "browser_side_ok s" and "ends_ok s"
  shows "node_side_ok s' \<and> browser_side_ok s' \<and> ends_ok s'"
  using assms
  by (induction rule: node_pump_step.induct)
    (auto simp: node_side_ok_def browser_side_ok_def ends_ok_def Let_def pump_node_snoc no_data_def split: option.splits browser_pump.splits
      dest: sym [of "_ @ [_]"])

lemma browser_step_ok:
  assumes "browser_pump_step s s'" and "node_side_ok s" and "browser_side_ok s" and "ends_ok s"
  shows "node_side_ok s' \<and> browser_side_ok s' \<and> ends_ok s'"
  using assms
  by (induction rule: browser_pump_step.induct)
    (auto simp: node_side_ok_def browser_side_ok_def ends_ok_def Let_def pump_browser_snoc split: option.splits node_pump.splits
      dest: sym [of "_ @ [_]"])

lemma bridge_run_ok: "bridge_step\<^sup>*\<^sup>* bridge_start s \<Longrightarrow> node_side_ok s \<and> browser_side_ok s \<and> ends_ok s"
proof (induction rule: rtranclp_induct)
  case base
  show ?case by (simp add: bridge_start_def node_side_ok_def browser_side_ok_def ends_ok_def)
next
  case (step s t)
  then show ?case using node_step_ok browser_step_ok by (auto simp: bridge_step_def)
qed

lemma node_side_prefix: "node_side_ok s \<Longrightarrow> prefix (br_to_browser s) (pump_node_to_browser (br_from_node s))"
  by (auto simp: node_side_ok_def Let_def dest: sym split: node_pump.splits)

lemma browser_side_prefix: "browser_side_ok s \<Longrightarrow> prefix (br_to_node s) (pump_browser_to_node (br_from_browser s))"
  by (auto simp: browser_side_ok_def Let_def dest: sym split: browser_pump.splits)

section \<open>The end\<close>

fun node_left :: "node_pump \<Rightarrow> nat" where
  "node_left NRecv = 5"
| "node_left (NSend f) = 4"
| "node_left NCheck = 3"
| "node_left NStop = 2"
| "node_left NClose = 1"
| "node_left NEnded = 0"

fun browser_left :: "browser_pump \<Rightarrow> nat" where
  "browser_left BReceive = 6"
| "browser_left (BSend f) = 5"
| "browser_left BCheck = 4"
| "browser_left BStop = 3"
| "browser_left BCloseUpstream = 2"
| "browser_left BCloseWs = 1"
| "browser_left BEnded = 0"

definition left :: "bridged \<Rightarrow> nat" where
  "left s = node_left (br_node_pump s) + browser_left (br_browser_pump s)"

lemma left_bound: "left s \<le> 11"
proof -
  have "node_left p \<le> 5" and "browser_left q \<le> 6" for p q by (cases p, simp_all) (cases q, simp_all)
  then show ?thesis unfolding left_def using add_mono by fastforce
qed

lemma stopping_step: "bridge_step s s' \<Longrightarrow> br_stop s \<Longrightarrow> br_stop s' \<and> left s' < left s"
  unfolding bridge_step_def left_def
  by (elim disjE node_pump_E browser_pump_E) (auto split: option.split)

lemma stopping_runs: "(bridge_step ^^ n) s s' \<Longrightarrow> br_stop s \<Longrightarrow> br_stop s' \<and> n + left s' \<le> left s"
proof (induction n arbitrary: s')
  case (Suc n)
  then obtain t where t: "(bridge_step ^^ n) s t" "bridge_step t s'" by auto
  then show ?case using Suc.IH [OF t(1) Suc.prems(2)] stopping_step [OF t(2)] by auto
qed simp

lemma never_stuck: "\<not> over s \<Longrightarrow> \<exists>s'. bridge_step s s'"
proof -
  assume "\<not> over s"
  then consider "br_node_pump s \<noteq> NEnded" | "br_browser_pump s \<noteq> BEnded" by (auto simp: over_def)
  then show ?thesis
  proof cases
    case 1
    then have "\<exists>s'. node_pump_step s s'" by (cases "br_node_pump s") (blast intro: node_pump_step.intros)+
    then show ?thesis by (auto simp: bridge_step_def)
  next
    case 2
    then have "\<exists>s'. browser_pump_step s s'" by (cases "br_browser_pump s") (blast intro: browser_pump_step.intros)+
    then show ?thesis by (auto simp: bridge_step_def)
  qed
qed

text \<open>C21: However the pumps of a console interleave: the browser got a prefix of what the node's pump would pass on of
  what it received, and the node one of what the browser sent, in order; once the stop event is set at most
  eleven more steps are taken, and the bridge does not stop short of its end; and then both sockets are closed.\<close>

theorem bridge_sound:
  assumes "bridge_step\<^sup>*\<^sup>* bridge_start s"
  shows "prefix (br_to_browser s) (pump_node_to_browser (br_from_node s)) \<and> prefix (br_to_node s) (pump_browser_to_node (br_from_browser s)) \<and>
    (br_stop s \<longrightarrow> (\<forall>n s'. (bridge_step ^^ n) s s' \<longrightarrow> n \<le> 11)) \<and> (\<not> over s \<longrightarrow> (\<exists>s'. bridge_step s s')) \<and>
    (over s \<longrightarrow> br_stop s \<and> \<not> br_ws_open s \<and> \<not> br_upstream_open s)"
proof -
  have ok: "node_side_ok s" "browser_side_ok s" "ends_ok s" using bridge_run_ok [OF assms] by auto
  have "n \<le> 11" if "br_stop s" "(bridge_step ^^ n) s s'" for n s'
    using stopping_runs [OF that(2,1)] left_bound [of s] by simp
  moreover have "br_stop s \<and> \<not> br_ws_open s \<and> \<not> br_upstream_open s" if "over s"
    using ok(3) that by (simp add: ends_ok_def over_def)
  ultimately show ?thesis using node_side_prefix [OF ok(1)] browser_side_prefix [OF ok(2)] never_stuck by blast
qed

text \<open>The node sends a prompt and goes away.\<close>

definition prompt_sent :: bridged where
  "prompt_sent = bridge_start\<lparr>br_from_node := [Some (TextFrame ''login:'')], br_to_browser := [TextFrame ''login:'']\<rparr>"

lemma prompt_run: "bridge_step\<^sup>*\<^sup>* bridge_start prompt_sent"
proof -
  define s1 where "s1 = bridge_start\<lparr>br_node_pump := (if br_stop bridge_start then NStop else NRecv)\<rparr>"
  define s2 where "s2 = s1\<lparr>br_from_node := br_from_node s1 @ [Some (TextFrame ''login:'')],
    br_node_pump := (case Some (TextFrame ''login:'') of None \<Rightarrow> NStop | Some f \<Rightarrow> if no_data (Some (TextFrame ''login:'')) then NStop else NSend f)\<rparr>"
  define s3 where "s3 = s2\<lparr>br_to_browser := br_to_browser s2 @ [TextFrame ''login:''], br_node_pump := NCheck\<rparr>"
  have "node_pump_step bridge_start s1" unfolding s1_def by (rule n_check) (simp add: bridge_start_def)
  moreover have "node_pump_step s1 s2" unfolding s2_def by (rule n_recv) (simp_all add: s1_def bridge_start_def)
  moreover have "node_pump_step s2 s3" unfolding s3_def by (rule n_send) (simp_all add: s2_def s1_def bridge_start_def no_data_def)
  moreover have "s3 = prompt_sent" by (simp add: s3_def s2_def s1_def prompt_sent_def bridge_start_def)
  ultimately have "bridge_step bridge_start s1" "bridge_step s1 s2" "bridge_step s2 prompt_sent" by (simp_all add: bridge_step_def)
  then show ?thesis by (meson rtranclp.rtrancl_into_rtrancl rtranclp.rtrancl_refl)
qed

theorem bridge_sound_witness:
  "bridge_step\<^sup>*\<^sup>* bridge_start prompt_sent \<and> br_to_browser prompt_sent = [TextFrame ''login:''] \<and> (\<exists>s'. bridge_step prompt_sent s')"
  using bridge_sound [OF prompt_run] prompt_run by (simp add: prompt_sent_def over_def bridge_start_def)

end
