(* ===== verification/HostProbes.thy ===== *)
theory HostProbes
  imports HostTypes PolledHosts
begin

text \<open>
  The host types as the page sees them (the class attributes of \<open>adapters/\<close>, \<open>descriptor\<close>, \<open>native_url\<close>), the
  probe of a host before it is enrolled (\<open>probe_host\<close> and the \<open>probe\<close> of each adapter), and the route that only
  tests a connection (\<open>nodes_test\<close> of \<open>app.py\<close>). A collector's metrics are the dictionary it returns.
\<close>

section \<open>Descriptors\<close>

record descriptor =
  de_kind :: string
  de_label :: string
  de_auth :: string
  de_secret_label :: string
  de_secret_placeholder :: string
  de_url_placeholder :: string
  de_username_placeholder :: string
  de_verify_tls :: bool
  de_default_type :: string
  de_polled :: bool

text \<open>The attributes of \<open>HostAdapter\<close>; a subclass overrides some.\<close>

definition host_adapter :: descriptor where
  "host_adapter = \<lparr>de_kind = ''nexus'', de_label = ''Nexus Dashboard node'', de_auth = ''token'', de_secret_label = ''API token'',
     de_secret_placeholder = [], de_url_placeholder = ''https://host'', de_username_placeholder = ''username'', de_verify_tls = False,
     de_default_type = ''Unknown'', de_polled = False\<rparr>"

definition virt_adapter :: descriptor where
  "virt_adapter = host_adapter\<lparr>de_auth := ''userpass'', de_default_type := ''Virtualization'', de_polled := True\<rparr>"

definition nexus_descriptor :: descriptor where
  "nexus_descriptor = host_adapter\<lparr>de_secret_placeholder := ''sd_'' @ [ellipsis], de_url_placeholder := ''https://192.168.1.88:8443''\<rparr>"

definition proxmox_descriptor :: descriptor where
  "proxmox_descriptor = virt_adapter\<lparr>de_kind := ''proxmox'', de_label := ''Proxmox VE'', de_url_placeholder := ''https://192.168.2.107:8006'',
     de_username_placeholder := ''root@pam'', de_verify_tls := True\<rparr>"

definition vmware_adapter :: descriptor where
  "vmware_adapter = virt_adapter\<lparr>de_verify_tls := True\<rparr>"

definition vcenter_descriptor :: descriptor where
  "vcenter_descriptor = vmware_adapter\<lparr>de_kind := ''vcenter'', de_label := ''VMware vCenter'', de_url_placeholder := ''https://vcenter.local'',
     de_username_placeholder := ''administrator@vsphere.local''\<rparr>"

definition esxi_descriptor :: descriptor where
  "esxi_descriptor = vmware_adapter\<lparr>de_kind := ''esxi'', de_label := ''VMware ESXi (standalone)'', de_url_placeholder := ''https://esxi-host.local'',
     de_username_placeholder := ''root''\<rparr>"

definition truenas_descriptor :: descriptor where
  "truenas_descriptor = virt_adapter\<lparr>de_kind := ''truenas'', de_label := ''TrueNAS (SCALE / CORE)'', de_auth := ''token'', de_secret_label := ''API key'',
     de_secret_placeholder := ''1-'' @ [ellipsis], de_url_placeholder := ''https://truenas.local'', de_default_type := ''Storage'', de_verify_tls := True\<rparr>"

definition synology_descriptor :: descriptor where
  "synology_descriptor = virt_adapter\<lparr>de_kind := ''synology'', de_label := ''Synology DSM (NAS)'', de_default_type := ''Storage'',
     de_url_placeholder := ''https://synology.local:5001'', de_username_placeholder := ''local admin account (no 2FA)'', de_verify_tls := True\<rparr>"

definition zimaos_descriptor :: descriptor where
  "zimaos_descriptor = virt_adapter\<lparr>de_kind := ''zimaos'', de_label := ''ZimaOS (ZimaCube)'', de_default_type := ''Storage'',
     de_url_placeholder := ''http://zimacube.local'', de_username_placeholder := ''ZimaOS account'', de_verify_tls := False\<rparr>"

definition unraid_descriptor :: descriptor where
  "unraid_descriptor = virt_adapter\<lparr>de_kind := ''unraid'', de_label := ''Unraid (7.x)'', de_default_type := ''Storage'',
     de_url_placeholder := ''http://unraid.local'', de_username_placeholder := ''webGui user (e.g. root)'', de_verify_tls := False\<rparr>"

definition omv_descriptor :: descriptor where
  "omv_descriptor = virt_adapter\<lparr>de_kind := ''omv'', de_label := ''OpenMediaVault'', de_default_type := ''Storage'',
     de_url_placeholder := ''http://omv.local'', de_username_placeholder := ''web-UI admin (usually admin)'', de_verify_tls := False\<rparr>"

definition ugreen_descriptor :: descriptor where
  "ugreen_descriptor = virt_adapter\<lparr>de_kind := ''ugreen'', de_label := ''UGREEN UGOS Pro (NAS)'', de_default_type := ''Storage'',
     de_url_placeholder := ''https://ugreen-nas:9443'', de_username_placeholder := ''local UGOS account (no 2FA)'', de_verify_tls := True\<rparr>"

definition sparkdash_descriptor :: descriptor where
  "sparkdash_descriptor = virt_adapter\<lparr>de_kind := ''sparkdash'', de_label := ''SparkDash (DGX Spark cluster)'', de_auth := ''token'', de_secret_label := ''API token'',
     de_secret_placeholder := ''spk_'' @ [ellipsis] @ '' (optional - blank = monitor-only)'', de_url_placeholder := ''https://spark-head.local:7862'',
     de_default_type := ''AI'', de_verify_tls := False\<rparr>"

definition agent_descriptor :: descriptor where
  "agent_descriptor = host_adapter\<lparr>de_kind := ''agent'', de_label := ''Nexus Agent (bare Linux host)'', de_auth := ''token'', de_secret_label := ''Agent token'',
     de_secret_placeholder := ''na_'' @ [ellipsis], de_url_placeholder := ''https://192.168.1.88:9143'', de_verify_tls := False,
     de_default_type := ''Unknown'', de_polled := False\<rparr>"

definition dnsmaq_descriptor :: descriptor where
  "dnsmaq_descriptor = host_adapter\<lparr>de_kind := ''dnsmaq'', de_label := ''DNSMAQ-MGR (dnsmasq manager)'', de_auth := ''token'', de_secret_label := ''API token'',
     de_secret_placeholder := ''dm_'' @ [ellipsis] @ '' (readonly token)'', de_url_placeholder := ''https://192.168.1.56:8443'', de_verify_tls := False,
     de_default_type := ''DNS'', de_polled := False\<rparr>"

definition unifi_descriptor :: descriptor where
  "unifi_descriptor = host_adapter\<lparr>de_kind := ''unifi'', de_label := ''UnifiDash (UniFi network)'', de_auth := ''token'', de_secret_label := ''API token'',
     de_secret_placeholder := ''unfd_'' @ [ellipsis] @ '' (optional - blank uses the public overview)'', de_url_placeholder := ''https://unifi-dash.local'',
     de_default_type := ''Network'', de_verify_tls := False\<rparr>"

text \<open>\<open>/api/host-types\<close>, in the order of registration.\<close>

definition descriptors :: "descriptor list" where
  "descriptors = [nexus_descriptor, proxmox_descriptor, vcenter_descriptor, esxi_descriptor, truenas_descriptor, synology_descriptor, zimaos_descriptor,
     unraid_descriptor, omv_descriptor, ugreen_descriptor, sparkdash_descriptor, agent_descriptor, dnsmaq_descriptor, unifi_descriptor]"

definition native_url :: "node \<Rightarrow> string option" where
  "native_url n = (let kind = ad_kind (adapter_for n); url = n_base_url n
     in if kind = ''nexus'' then Some (''/nodes/'' @ n_id n @ ''/'')
        else if kind = ''agent'' then None
        else if kind = ''unifi'' then Some url
        else if kind = ''vcenter'' \<or> kind = ''esxi'' then Some (url @ ''/ui'')
        else if kind = ''truenas'' then Some (url @ ''/ui/dashboard'')
        else if kind = ''unraid'' then Some (url @ ''/Dashboard'')
        else Some (url @ ''/''))"

section \<open>Probes\<close>

record probed =
  pb_fp :: "string option"
  pb_role :: json
  pb_version :: json
  pb_fqdn :: json
  pb_caps :: json
  pb_metrics :: "json dict option"

definition dnsmaq_probe :: "net \<Rightarrow> string \<Rightarrow> creds \<Rightarrow> failure + probed" where
  "dnsmaq_probe net base_url cr =
     (let token = strip (cr_token cr)
      in if token = [] then Inl (NodeErr (''a DNSMAQ-MGR API token is required (the instance'' @ [CHR 0x27] @ ''s Settings -> API Tokens)''))
         else and_then (capture_fp net base_url) (\<lambda>(hp, fp).
           and_then (pinned_request net (rstrip_slash base_url @ ''/api/me'') (Some fp) (Some token)) (\<lambda>(status, body).
             if status = 401 then Inl (NodeErr (''token rejected (401) - create one on the instance '' @ ''(Settings -> API Tokens)''))
             else if status \<noteq> 200 then Inl (NodeErr (''unexpected response (HTTP '' @ show_nat status @ '')''))
             else case body of
                 None \<Rightarrow> Inl (NodeErr ''non-JSON response (is this a DNSMAQ-MGR URL?)'')
               | Some v \<Rightarrow> and_then (escaping (as_dict v)) (\<lambda>me.
                   if \<not> truthy (jget me ''authenticated'') then Inl (NodeErr ''token not accepted by this instance'')
                   else Inr \<lparr>pb_fp = Some fp, pb_role = jget me ''role'', pb_version = jget me ''version'', pb_fqdn = jget me ''fqdn'',
                     pb_caps = JArr [JStr ''dnsmaq''], pb_metrics = None\<rparr>))))"

definition text_or_null :: "string option \<Rightarrow> json" where
  "text_or_null v = (case v of None \<Rightarrow> JNull | Some t \<Rightarrow> JStr t)"

definition metrics_probed :: "string \<Rightarrow> json \<Rightarrow> json \<Rightarrow> json \<Rightarrow> string option \<times> json dict \<Rightarrow> probed" where
  "metrics_probed kind role version fqdn r = \<lparr>pb_fp = fst r, pb_role = role, pb_version = version, pb_fqdn = fqdn,
     pb_caps = JArr [JStr kind], pb_metrics = Some (snd r)\<rparr>"

text \<open>\<open>probe_host\<close>: \<open>colls\<close> are the collectors of the polled types.\<close>

definition probe_host :: "net \<Rightarrow> (string \<Rightarrow> json dict collector) \<Rightarrow> string \<Rightarrow> string \<Rightarrow> creds \<Rightarrow> failure + probed" where
  "probe_host net colls host_type base_url cr =
     (let kind = (if host_type = [] then ''nexus'' else host_type)
      in if kind \<notin> ad_kind ` set ADAPTERS then Inl (NodeErr (''unknown host type: '' @ host_type))
         else if kind = ''nexus'' then and_then (probe_node net base_url (Some (cr_token cr))) (\<lambda>i. Inr \<lparr>pb_fp = id_fp i, pb_role = id_role i,
           pb_version = id_version i, pb_fqdn = id_fqdn i, pb_caps = id_caps i, pb_metrics = None\<rparr>)
         else if kind = ''dnsmaq'' then dnsmaq_probe net base_url cr
         else if kind = ''agent'' then and_then (agent_probe net base_url (cr_token cr)) (\<lambda>(fp, m).
           Inr (metrics_probed kind (JStr ''readonly'') (jget m ''version'') (jget m ''hostname'') (fp, m)))
         else if kind = ''unifi'' then and_then (unifi_probe net base_url (cr_token cr)) (\<lambda>(fp, role, host, m).
           Inr (metrics_probed kind (text_or_null role) JNull (JStr host) (Some fp, m)))
         else if kind = ''sparkdash'' then and_then (spark_probe net base_url (cr_token cr)) (\<lambda>(fp, role, fqdn, m).
           Inr (metrics_probed kind (text_or_null role) JNull fqdn (Some fp, m)))
         else if kind = ''truenas'' then and_then (truenas_probe net (colls kind) base_url cr) (\<lambda>(fp, m).
           Inr (metrics_probed kind JNull (jget m ''version'') (jget m ''hostname'') (Some fp, m)))
         else if kind = ''zimaos'' \<or> kind = ''omv'' \<or> kind = ''unraid'' then and_then (lan_probe net (colls kind) base_url cr) (\<lambda>r.
           Inr (metrics_probed kind JNull JNull JNull r))
         else and_then (virt_probe net (colls kind) base_url cr) (\<lambda>(fp, m). Inr (metrics_probed kind JNull JNull JNull (Some fp, m))))"

section \<open>Testing a connection\<close>

definition test_creds :: "json dict \<Rightarrow> creds" where
  "test_creds data = \<lparr>cr_token = field_str (jget data ''token''), cr_username = field_str (jget data ''username''),
     cr_password = (case jget data ''password'' of JStr s \<Rightarrow> s | v \<Rightarrow> field_str v), cr_verify = truthy (jget data ''verify_ssl'')\<rparr>"

definition json_len :: "json \<Rightarrow> exn + int" where
  "json_len v = (case v of JStr s \<Rightarrow> Inr (int (length s)) | JArr vs \<Rightarrow> Inr (int (length vs)) | JObj d \<Rightarrow> Inr (int (length d)) | _ \<Rightarrow> Inl TypeError)"

text \<open>The quick count of a probe that brought metrics.\<close>

definition quick_count :: "json dict \<Rightarrow> exn + json dict" where
  "quick_count m =
     (if has_key m ''pool_count'' then Inr (pick_keys [''pool_count'', ''pools_degraded'', ''disk_count''] m)
      else if has_key m ''cluster_healthy'' then
        and_then (dict_or_empty (jget m ''vllm'')) (\<lambda>vllm.
          Inr [(''node_count'', jget m ''node_count''), (''cluster_healthy'', JBool (truthy (jget m ''cluster_healthy''))), (''model'', jget vllm ''model'')])
      else if jget m ''agent'' = JStr ''nexus-agent'' then
        and_then (json_len (if truthy (jget m ''mounts'') then jget m ''mounts'' else JArr [])) (\<lambda>k.
          Inr [(''mount_count'', JInt k), (''hostname'', jget m ''hostname''), (''os'', jget m ''os'')])
      else Inr (pick_keys [''host_count'', ''vm_count'', ''vm_running_count''] m))"

record tested =
  te_host_type :: string
  te_info :: probed
  te_count :: "json dict option"

definition nodes_test :: "net \<Rightarrow> (string \<Rightarrow> json dict collector) \<Rightarrow> json dict \<Rightarrow> tested resp" where
  "nodes_test net colls data =
     (let base_url = field_str (jget data ''base_url''); host_type = wanted_host_type data
      in if base_url = [] then Fail 400 ''base_url is required''
         else case probe_host net colls host_type base_url (test_creds data) of
             Inl (NodeErr t) \<Rightarrow> Fail 502 t
           | Inl (OsErr t) \<Rightarrow> Crash OSError
           | Inl (Escaped e) \<Rightarrow> Crash e
           | Inr info \<Rightarrow>
               let info' = info\<lparr>pb_metrics := None\<rparr>
               in (case pb_metrics info of
                     None \<Rightarrow> Done \<lparr>te_host_type = host_type, te_info = info', te_count = None\<rparr>
                   | Some m \<Rightarrow>
                       if m = [] then Done \<lparr>te_host_type = host_type, te_info = info', te_count = None\<rparr>
                       else (case quick_count m of
                           Inl e \<Rightarrow> Crash e
                         | Inr c \<Rightarrow> Done \<lparr>te_host_type = host_type, te_info = info', te_count = Some c\<rparr>)))"

end
