(* ===== verification/HostProbeFacts.thy ===== *)
theory HostProbeFacts
  imports HostProbes RegistryFacts
begin

text \<open>
  What the page is told of the host types is what the registry does with them; a probe reports the certificate its
  token went over; and a connection that tests well can be enrolled.
\<close>

section \<open>Descriptors\<close>

lemmas descriptor_defs = nexus_descriptor_def proxmox_descriptor_def vcenter_descriptor_def esxi_descriptor_def truenas_descriptor_def
  synology_descriptor_def zimaos_descriptor_def unraid_descriptor_def omv_descriptor_def ugreen_descriptor_def sparkdash_descriptor_def
  agent_descriptor_def dnsmaq_descriptor_def unifi_descriptor_def vmware_adapter_def virt_adapter_def host_adapter_def

text \<open>The descriptors and the registry agree on every type: the same kinds in the same order, a password field exactly
  where a password is stored, the same default type and the same polling.\<close>

theorem descriptors_agree:
  "map (\<lambda>d. (de_kind d, de_auth d = ''userpass'', de_default_type d, de_polled d)) descriptors =
   map (\<lambda>a. (ad_kind a, ad_userpass a, ad_default_type a, ad_polled a)) ADAPTERS"
  by (simp add: descriptors_def descriptor_defs ADAPTERS_def adapter_row_def)

section \<open>What a token went over\<close>

lemma capture_fp_done:
  "capture_fp net url = Inr ((host, port), fp) \<Longrightarrow> split_host_port url = Inr (host, port) \<and> nt_cert net host port = Inr fp"
  by (auto simp: capture_fp_def and_then_Inr escaping_def split: if_splits sum.splits)

lemma pinned_answer:
  assumes "pinned_request net url (Some fp) auth = Inr (status, body)" and "startswith ''https://'' (lower url)" and "fp \<noteq> []"
  shows "nt_ask net url auth = Peer fp status body"
  using assms by (auto simp: pinned_request_def pins_def split: reply.splits if_splits)

lemma probe_node_done:
  assumes "probe_node net url token = Inr i" and "startswith ''https://'' (lower (rstrip_slash url @ ''/api/me''))" and "id_fp i \<noteq> Some []"
  shows "\<exists>host port fp body. split_host_port url = Inr (host, port) \<and> nt_cert net host port = Inr fp \<and> id_fp i = Some fp \<and>
    nt_ask net (rstrip_slash url @ ''/api/me'') (if token = Some [] then None else token) = Peer fp 200 body"
proof -
  obtain host port fp where cap: "capture_fp net url = Inr ((host, port), fp)" using assms(1) by (auto simp: probe_node_def and_then_Inr)
  obtain status body where ask: "pinned_request net (rstrip_slash url @ ''/api/me'') (Some fp) (if token = Some [] then None else token) = Inr (status, body)"
    using assms(1) by (auto simp: probe_node_def and_then_Inr cap)
  have st: "status = 200" "id_fp i = Some fp"
    using assms(1) by (auto simp: probe_node_def cap ask split: if_splits option.splits json.splits)
  then show ?thesis using capture_fp_done [OF cap] pinned_answer [OF ask assms(2)] assms(3) by auto
qed

lemma dnsmaq_probe_done:
  assumes "dnsmaq_probe net url cr = Inr pb" and "startswith ''https://'' (lower (rstrip_slash url @ ''/api/me''))" and "pb_fp pb \<noteq> Some []"
  shows "\<exists>host port fp body. split_host_port url = Inr (host, port) \<and> nt_cert net host port = Inr fp \<and> pb_fp pb = Some fp \<and>
    nt_ask net (rstrip_slash url @ ''/api/me'') (Some (strip (cr_token cr))) = Peer fp 200 body"
proof -
  obtain host port fp where cap: "capture_fp net url = Inr ((host, port), fp)"
    using assms(1) by (auto simp: dnsmaq_probe_def Let_def and_then_Inr split: if_splits)
  obtain status body where ask: "pinned_request net (rstrip_slash url @ ''/api/me'') (Some fp) (Some (strip (cr_token cr))) = Inr (status, body)"
    using assms(1) by (auto simp: dnsmaq_probe_def Let_def and_then_Inr cap split: if_splits)
  have st: "status = 200" "pb_fp pb = Some fp"
    using assms(1) by (auto simp: dnsmaq_probe_def Let_def cap ask and_then_Inr split: if_splits option.splits)
  then show ?thesis using capture_fp_done [OF cap] pinned_answer [OF ask assms(2)] assms(3) by auto
qed

text \<open>A probe of a node or a dnsmasq manager that succeeds reports the certificate the host served when it was asked,
  and the request with the token was answered under that very certificate.\<close>

theorem probe_pins:
  assumes "probe_host net colls kind url cr = Inr pb" and "kind \<in> {''nexus'', ''dnsmaq''}"
    and "startswith ''https://'' (lower (rstrip_slash url @ ''/api/me''))" and "pb_fp pb \<noteq> Some []"
  shows "\<exists>host port fp auth body. split_host_port url = Inr (host, port) \<and> nt_cert net host port = Inr fp \<and> pb_fp pb = Some fp \<and>
    nt_ask net (rstrip_slash url @ ''/api/me'') auth = Peer fp 200 body \<and> auth \<in> {None, Some (cr_token cr), Some (strip (cr_token cr))}"
proof -
  have kinds: "ad_kind ` set ADAPTERS \<supseteq> {''nexus'', ''dnsmaq''}" by (simp add: ADAPTERS_def adapter_row_def)
  consider "kind = ''nexus''" | "kind = ''dnsmaq''" using assms(2) by blast
  then show ?thesis
  proof cases
    case 1
    then obtain i where "probe_node net url (Some (cr_token cr)) = Inr i" "pb_fp pb = id_fp i"
      using assms(1) kinds by (auto simp: probe_host_def Let_def and_then_Inr)
    then obtain host port fp body where d: "split_host_port url = Inr (host, port)" "nt_cert net host port = Inr fp" "pb_fp pb = Some fp"
        "nt_ask net (rstrip_slash url @ ''/api/me'') (if Some (cr_token cr) = Some [] then None else Some (cr_token cr)) = Peer fp 200 body"
      using probe_node_done [of net url "Some (cr_token cr)" i] assms(3,4) by auto
    moreover have "(if Some (cr_token cr) = Some [] then None else Some (cr_token cr)) \<in> {None, Some (cr_token cr), Some (strip (cr_token cr))}"
      by (cases "cr_token cr = []") simp_all
    ultimately show ?thesis by blast
  next
    case 2
    then have "dnsmaq_probe net url cr = Inr pb" using assms(1) kinds by (simp add: probe_host_def)
    then show ?thesis using dnsmaq_probe_done [of net url cr pb] assms(3,4) by blast
  qed
qed

section \<open>A test and an enrollment\<close>

text \<open>The enrollment probes as the test does.\<close>

definition probes_with :: "outside \<Rightarrow> net \<Rightarrow> (string \<Rightarrow> json dict collector) \<Rightarrow> bool" where
  "probes_with x net colls \<longleftrightarrow> (\<forall>kind url cr. case probe_host net colls kind url cr of
      Inl (NodeErr t) \<Rightarrow> x_probe x kind url cr = Inl t
    | Inl f \<Rightarrow> True
    | Inr pb \<Rightarrow> (\<exists>i. x_probe x kind url cr = Inr i \<and> i_fp i = pb_fp pb))"

lemma same_creds: "jget data ''password'' \<in> {JNull} \<union> range JStr \<Longrightarrow> test_creds data = request_creds data"
  by (auto simp: test_creds_def request_creds_def str_or_empty_def field_str_def)

text \<open>A test predicts the enrollment: for a request that names a known type and has a name, no bad manual type and a
  password that is text, a test that fails with a message makes the enrollment fail with it and change
  nothing, and a test that succeeds makes it store the host with the certificate the test reported. (Hypothesis:
  the two probes meet the same host.)\<close>

theorem test_predicts_enrollment:
  assumes "probes_with x net colls" and "field_str (jget data ''name'') \<noteq> []" and "wanted_host_type data \<in> ad_kind ` set ADAPTERS"
    and "manual_type (jget data ''type'') = Done manual" and "jget data ''password'' \<in> {JNull} \<union> range JStr"
  shows "(nodes_test net colls data = Fail 502 t \<longrightarrow> nodes_add x i data s = (Fail 502 (''connection test failed: '' @ t), s)) \<and>
    (nodes_test net colls data = Done r \<longrightarrow> (\<exists>n. st_nodes (snd (nodes_add x i data s)) = st_nodes s @ [n] \<and> n_cert_fp n = pb_fp (te_info r)))"
proof -
  let ?url = "field_str (jget data ''base_url'')" and ?kind = "wanted_host_type data"
  let ?p = "probe_host net colls ?kind ?url (test_creds data)"
  note creds = same_creds [OF assms(5)]
  have x: "case ?p of Inl (NodeErr t) \<Rightarrow> x_probe x ?kind ?url (request_creds data) = Inl t | Inl f \<Rightarrow> True
      | Inr pb \<Rightarrow> (\<exists>i. x_probe x ?kind ?url (request_creds data) = Inr i \<and> i_fp i = pb_fp pb)"
    using assms(1) unfolding probes_with_def creds by blast
  have fails: "nodes_add x i data s = (Fail 502 (''connection test failed: '' @ t), s)" if "nodes_test net colls data = Fail 502 t"
  proof -
    have "?url \<noteq> []" and "?p = Inl (NodeErr t)"
      using that by (auto simp: nodes_test_def Let_def split: if_splits sum.splits failure.splits option.splits)
    then show ?thesis using x assms(2-4) by (simp add: nodes_add_def enroll_def image_iff)
  qed
  have works: "\<exists>n. st_nodes (snd (nodes_add x i data s)) = st_nodes s @ [n] \<and> n_cert_fp n = pb_fp (te_info r)"
    if done_r: "nodes_test net colls data = Done r"
  proof -
    have url: "?url \<noteq> []" using done_r by (auto simp: nodes_test_def Let_def)
    then obtain pb where pb: "?p = Inr pb"
      using done_r by (cases ?p) (auto simp: nodes_test_def Let_def split: failure.splits)
    have "pb_fp (te_info r) = pb_fp pb"
      using done_r url pb by (auto simp: nodes_test_def Let_def split: option.splits if_splits sum.splits)
    note pb = url pb this
    then obtain info where info: "x_probe x ?kind ?url (request_creds data) = Inr info" "i_fp info = pb_fp pb" using x by auto
    then show ?thesis using pb(1,3) assms(2-4)
      by (simp add: nodes_add_def enroll_def image_iff Let_def new_node_def)
  qed
  show ?thesis using fails works by blast
qed

text \<open>A machine that cannot be reached, and an enrollment that probes it the same way.\<close>

definition same_probe :: "net \<Rightarrow> (string \<Rightarrow> json dict collector) \<Rightarrow> string \<Rightarrow> string \<Rightarrow> creds \<Rightarrow> string + probe_info" where
  "same_probe net colls kind url cr = (case probe_host net colls kind url cr of
      Inl (NodeErr t) \<Rightarrow> Inl t | Inl f \<Rightarrow> Inl []
    | Inr pb \<Rightarrow> Inr \<lparr>i_fp = pb_fp pb, i_role = None, i_version = None, i_caps = [], i_metrics = None\<rparr>)"

lemma same_probe_probes: "probes_with (offline\<lparr>x_probe := same_probe net colls\<rparr>) net colls"
  by (simp add: probes_with_def same_probe_def split: sum.split failure.split)

definition no_net :: net where
  "no_net = \<lparr>nt_cert = \<lambda>h p. Inl ''refused'', nt_ask = \<lambda>u a. NoConn ''refused''\<rparr>"

definition test_request :: "json dict" where
  "test_request = [(''name'', JStr ''n''), (''base_url'', JStr ''https://h''), (''host_type'', JStr ''agent'')]"

theorem test_predicts_enrollment_witness:
  "nodes_add (offline\<lparr>x_probe := same_probe no_net (\<lambda>k l. Inl [])\<rparr>) ''h2'' test_request lab =
     (Fail 502 ''connection test failed: the agent token is required'', lab)"
proof -
  have "nodes_test no_net (\<lambda>k l. Inl []) test_request = Fail 502 ''the agent token is required''" by code_simp
  moreover have "field_str (jget test_request ''name'') \<noteq> []" by code_simp
  moreover have "wanted_host_type test_request \<in> ad_kind ` set ADAPTERS" by code_simp
  moreover have "manual_type (jget test_request ''type'') = Done None" by code_simp
  moreover have "jget test_request ''password'' \<in> {JNull} \<union> range JStr" by (simp add: test_request_def jget_def)
  ultimately show ?thesis using test_predicts_enrollment [OF same_probe_probes [of no_net "\<lambda>k l. Inl []"], where data = test_request and i = "''h2''" and s = lab]
    by force
qed

end
