(* ===== verification/Setup.thy ===== *)
theory Setup
  imports Secrets Certificates Sso
begin

text \<open>
  The start of the process (\<open>app.py\<close>, "Files & TLS" and \<open>main\<close>; the top of \<open>sso.py\<close>): the settings read from the
  environment, the first start of the configuration, the sweep of temporary files, the certificate, and the
  server that results. \<open>environ\<close> is the environment, \<open>app_dir\<close> the directory of the program. The configuration
  file is kept apart from the other files, as in \<open>Secrets\<close>.
\<close>

section \<open>The environment\<close>

type_synonym environment = "string \<Rightarrow> string option"

definition env_bool :: "environment \<Rightarrow> string \<Rightarrow> bool \<Rightarrow> bool" where
  "env_bool environ name dflt = (case environ name of
      None \<Rightarrow> dflt | Some v \<Rightarrow> lower v \<in> {''1'', ''true'', ''yes'', ''on''})"

definition env_str :: "environment \<Rightarrow> string \<Rightarrow> string \<Rightarrow> string" where
  "env_str environ name dflt = (case environ name of None \<Rightarrow> dflt | Some v \<Rightarrow> v)"

text \<open>\<open>int(os.environ.get(...))\<close>.\<close>

definition env_int :: "environment \<Rightarrow> string \<Rightarrow> string \<Rightarrow> exn + int" where
  "env_int environ name dflt = (case int_of_str (env_str environ name dflt) of None \<Rightarrow> Inl ValueError | Some i \<Rightarrow> Inr i)"

text \<open>\<open>os.path.join\<close> of two parts.\<close>

definition path_join :: "string \<Rightarrow> string \<Rightarrow> string" where
  "path_join a b = (if startswith ''/'' b then b else if a = [] \<or> last a = CHR ''/'' then a @ b else a @ ''/'' @ b)"

record settings =
  sg_data_dir :: string
  sg_auth_file :: string
  sg_nodes_file :: string
  sg_checks_file :: string
  sg_acks_file :: string
  sg_audit_file :: string
  sg_history_file :: string
  sg_history_days :: int
  sg_tls_enabled :: bool
  sg_tls_cert :: string
  sg_tls_key :: string
  sg_port :: int
  sg_hsts :: bool
  sg_cookie_secure :: bool

definition read_settings :: "string \<Rightarrow> environment \<Rightarrow> exn + settings" where
  "read_settings app_dir environ =
     (let data_dir = env_str environ ''CONTROLLER_DATA_DIR'' app_dir;
          place = (\<lambda>name base. env_str environ name (path_join data_dir base));
          tls = env_bool environ ''CONTROLLER_TLS'' True;
          tls_dir = place ''CONTROLLER_TLS_DIR'' ''certs''
      in and_then (env_int environ ''CONTROLLER_HISTORY_DAYS'' ''30'') (\<lambda>days.
           and_then (env_int environ ''CONTROLLER_PORT'' (if tls then ''9443'' else ''9080'')) (\<lambda>port.
             Inr \<lparr>sg_data_dir = data_dir,
               sg_auth_file = place ''CONTROLLER_AUTH_FILE'' ''controller-auth.json'',
               sg_nodes_file = place ''CONTROLLER_NODES_FILE'' ''nodes.json'',
               sg_checks_file = place ''CONTROLLER_CHECKS_FILE'' ''checks.json'',
               sg_acks_file = place ''CONTROLLER_ACKS_FILE'' ''acks.json'',
               sg_audit_file = place ''CONTROLLER_AUDIT_FILE'' ''audit.log'',
               sg_history_file = place ''CONTROLLER_HISTORY_FILE'' ''history.db'',
               sg_history_days = days,
               sg_tls_enabled = tls,
               sg_tls_cert = env_str environ ''CONTROLLER_TLS_CERT'' (path_join tls_dir ''controller.crt''),
               sg_tls_key = env_str environ ''CONTROLLER_TLS_KEY'' (path_join tls_dir ''controller.key''),
               sg_port = port,
               sg_hsts = env_bool environ ''CONTROLLER_HSTS'' False,
               sg_cookie_secure = env_bool environ ''CONTROLLER_COOKIE_SECURE'' tls\<rparr>)))"

definition sso_environment :: "environment \<Rightarrow> sso_env" where
  "sso_environment environ = \<lparr>env_issuer = env_str environ ''CONTROLLER_SSO_ISSUER'' [], env_pubkey = env_str environ ''CONTROLLER_SSO_PUBKEY'' [],
     env_kid = env_str environ ''CONTROLLER_SSO_KID'' [], env_audience = env_str environ ''CONTROLLER_SSO_AUDIENCE'' [],
     env_auto_redirect = env_bool environ ''CONTROLLER_SSO_AUTO_REDIRECT'' False\<rparr>"

definition sso_store :: "string \<Rightarrow> environment \<Rightarrow> string" where
  "sso_store app_dir environ = path_join (env_str environ ''CONTROLLER_DATA_DIR'' app_dir) ''sso.json''"

section \<open>The start\<close>

record server =
  sr_secret :: json
  sr_tls :: "(string \<times> string) option"
  sr_port :: int
  sr_workers :: nat
  sr_threads :: int
  sr_background :: "string list"

datatype start_result = Running server | Raised exn | NoCertificate

text \<open>\<open>Controller.load_config\<close> of the embedded gunicorn, or the development server: one process in either case.\<close>

definition server_of :: "bool \<Rightarrow> environment \<Rightarrow> settings \<Rightarrow> json \<Rightarrow> exn + server" where
  "server_of gunicorn environ sg secret =
     (let tls = (if sg_tls_enabled sg then Some (sg_tls_cert sg, sg_tls_key sg) else None);
          sv = \<lparr>sr_secret = secret, sr_tls = tls, sr_port = sg_port sg, sr_workers = 1, sr_threads = 0,
            sr_background = [''virt-poller'', ''monitor'']\<rparr>
      in if gunicorn then and_then (env_int environ ''CONTROLLER_THREADS'' ''16'') (\<lambda>k. Inr (sv\<lparr>sr_threads := k\<rparr>)) else Inr sv)"

text \<open>What a start meets: the hash of a password, the library of certificates, calls that fail, files that can be
  removed, whether gunicorn is there.\<close>

record start_machine =
  mc_hash :: "string \<Rightarrow> string"
  mc_x509 :: x509
  mc_works :: "cert_call \<Rightarrow> outcome"
  mc_removable :: "string \<Rightarrow> bool"
  mc_gunicorn :: bool

definition start_controller :: "start_machine \<Rightarrow> environment \<Rightarrow> settings \<Rightarrow> birth \<Rightarrow> auth_file \<times> disk \<Rightarrow> start_result \<times> auth_file \<times> disk" where
  "start_controller mc environ sg b st = (case st of (a, d) \<Rightarrow>
     (case ensure_bootstrap_file (mc_hash mc) (environ ''CONTROLLER_ADMIN_PASSWORD'') b a of
        (Inl e, a') \<Rightarrow> (Raised e, a', d)
      | (Inr cfg, a') \<Rightarrow>
          (case map_of cfg ''secret_key'' of
             None \<Rightarrow> (Raised KeyError, a', d)
           | Some secret \<Rightarrow>
               let d1 = startup_sweep (mc_removable mc) [sg_auth_file sg, sg_nodes_file sg, sg_checks_file sg, sg_acks_file sg] d;
                   (ok, d2) = (if sg_tls_enabled sg then ensure_tls_cert (mc_x509 mc) (mc_works mc) (sg_tls_cert sg) (sg_tls_key sg) d1 else (True, d1))
               in if \<not> ok then (NoCertificate, a', d2)
                  else (case server_of (mc_gunicorn mc) environ sg secret of
                      Inl e \<Rightarrow> (Raised e, a', d2) | Inr sv \<Rightarrow> (Running sv, a', d2)))))"

section \<open>Enrollment with an issuer\<close>

text \<open>\<open>urllib.parse.urlencode\<close>: bytes outside the letters, digits and \<open>_.-~\<close> are escaped, a space is a plus.\<close>

definition hex_upper :: "nat \<Rightarrow> char" where
  "hex_upper d = (if d < 10 then char_of (48 + d) else char_of (55 + d))"

definition url_safe :: "nat \<Rightarrow> bool" where
  "url_safe n \<longleftrightarrow> (48 \<le> n \<and> n \<le> 57) \<or> (65 \<le> n \<and> n \<le> 90) \<or> (97 \<le> n \<and> n \<le> 122) \<or> n \<in> {95, 46, 45, 126}"

definition quote_byte :: "nat \<Rightarrow> string" where
  "quote_byte n = (if url_safe n then [char_of n] else if n = 32 then ''+'' else [CHR ''%'', hex_upper (n div 16), hex_upper (n mod 16)])"

definition quote_plus :: "string \<Rightarrow> string" where
  "quote_plus s = concat (map quote_byte (utf8 s))"

definition urlencode :: "(string \<times> string) list \<Rightarrow> string" where
  "urlencode kvs = join ''&'' (map (\<lambda>(k, v). quote_plus k @ ''='' @ quote_plus v) kvs)"

definition authorize_url :: "string \<Rightarrow> sso_cfg option \<Rightarrow> string option \<Rightarrow> string" where
  "authorize_url hostname cfg next_path = (case cfg of None \<Rightarrow> [] | Some c \<Rightarrow> so_issuer c) @ ''/sso/authorize?'' @
     urlencode [(''aud'', sso_audience hostname cfg), (''next'', safe_next next_path)]"

text \<open>The request of \<open>redeem\<close>, with the address the browser comes back to; outside a request there is none.\<close>

definition callback_url :: "string option \<Rightarrow> string" where
  "callback_url host_url = (case host_url of None \<Rightarrow> [] | Some u \<Rightarrow> rstrip_slash u @ ''/sso/callback'')"

record enroll_request =
  er_url :: string
  er_method :: string
  er_body :: "json dict"
  er_verify :: bool

definition redeem_request :: "string \<Rightarrow> string \<Rightarrow> string option \<Rightarrow> enroll_request" where
  "redeem_request issuer code host_url = \<lparr>er_url = rstrip_slash issuer @ ''/sso/enroll'', er_method = ''POST'',
     er_body = [(''code'', JStr code), (''callback'', JStr (callback_url host_url))], er_verify = False\<rparr>"

section \<open>The file of an enrollment\<close>

text \<open>\<open>write_json_atomic\<close> of \<open>sso.py\<close>: a fresh temporary file beside the target. \<open>stops\<close> is the call that raises, if one
  does, and what of the text was written by then.\<close>

datatype write_call = Mkstemp | Dump string | Chmod | Replace

definition mkstemp_name :: "string \<Rightarrow> string \<Rightarrow> string" where
  "mkstemp_name path rnd = path_join (if dir_of path = [] then ''.'' else dir_of path) (''.tmp-'' @ rnd)"

definition write_by_mkstemp :: "write_call option \<Rightarrow> bool \<Rightarrow> string \<Rightarrow> job \<Rightarrow> disk \<Rightarrow> bool \<times> disk" where
  "write_by_mkstemp stops unlinks rnd j d =
     (let tmp = mkstemp_name (jb_path j) rnd;
          partly = (\<lambda>t m. AList.update tmp \<lparr>fl_text = t, fl_mode = m, fl_synced = False\<rparr> d);
          full = (\<lambda>m. AList.update tmp \<lparr>fl_text = jb_text j, fl_mode = m, fl_synced = True\<rparr> d);
          gone = (\<lambda>d'. (False, if unlinks then AList.delete tmp d' else d'))
      in case stops of
           Some Mkstemp \<Rightarrow> (False, d)
         | Some (Dump t) \<Rightarrow> gone (partly t private_mode)
         | Some Chmod \<Rightarrow> gone (full private_mode)
         | Some Replace \<Rightarrow> gone (full (jb_mode j))
         | None \<Rightarrow> (True, AList.update (jb_path j) (job_file j) (AList.delete tmp (full (jb_mode j)))))"

definition clear_stored :: "string \<Rightarrow> disk \<Rightarrow> bool \<times> disk" where
  "clear_stored store d = (case map_of d store of None \<Rightarrow> (False, d) | Some f \<Rightarrow> (True, AList.delete store d))"

end
