(* ===== verification/SetupFacts.thy ===== *)
theory SetupFacts
  imports Setup SecretFacts SsoFacts CertificateFacts
begin

text \<open>
  A restart keeps what logins and hosts depend on, the files of a default installation do not run into each other,
  the return path survives the trip through the issuer, and an enrollment is written whole or not at all.
\<close>

section \<open>Restarts\<close>

lemma default_to_result:
  "default_to k v cfg = (cfg', c) \<Longrightarrow> v \<noteq> [] \<Longrightarrow> truthy (jget cfg' k) \<and> (\<not> c \<longrightarrow> cfg' = cfg) \<and> (\<forall>j. j \<noteq> k \<longrightarrow> jget cfg' j = jget cfg j)"
  by (auto simp: default_to_def split: if_splits)

lemma first_admin_result: "add_first_admin h cfg = Inr (cfg', c) \<Longrightarrow> \<not> c \<Longrightarrow> cfg' = cfg"
  by (auto simp: add_first_admin_def split: if_splits json.splits)

lemma bootstrap_result:
  assumes "ensure_bootstrap_file hash_pw env b a = (Inr cfg, a')" and "bi_secret b \<noteq> []" and "bi_fernet b \<noteq> []"
  shows "load_config a' = Inr cfg \<and> truthy (jget cfg ''secret_key'') \<and> truthy (jget cfg ''fernet_key'')"
proof -
  obtain cfg0 where cfg0: "load_config a = Inr cfg0" using assms(1) by (auto simp: ensure_bootstrap_file_def split: sum.splits)
  obtain cfg1 c1 where one: "default_to ''secret_key'' (bi_secret b) cfg0 = (cfg1, c1)" by fastforce
  obtain cfg2 c2 where two: "default_to ''fernet_key'' (bi_fernet b) cfg1 = (cfg2, c2)" by fastforce
  define pw where "pw = (case env of None \<Rightarrow> bi_password b | Some p \<Rightarrow> if p = [] then bi_password b else p)"
  obtain cfg3 c3 where three: "add_first_admin (hash_pw pw) cfg2 = Inr (cfg3, c3)" and r: "cfg = cfg3" "a' = (if c1 \<or> c2 \<or> c3 then save_config cfg3 else a)"
    using assms(1) by (auto simp: ensure_bootstrap_file_def cfg0 one two Let_def pw_def split: sum.splits)
  note one' = default_to_result [OF one assms(2)] and two' = default_to_result [OF two assms(3)]
  have "jget cfg3 ''secret_key'' = jget cfg2 ''secret_key''" "jget cfg3 ''fernet_key'' = jget cfg2 ''fernet_key''"
    using first_admin_held [OF three] by simp_all
  moreover have "load_config a' = Inr cfg3" using r one' two' first_admin_result [OF three] cfg0 by (cases "c1 \<or> c2 \<or> c3") auto
  ultimately show ?thesis using one' two' by (simp add: r)
qed

lemma started:
  assumes "start_controller mc environ sg b (a, d) = (Running sv, a', d')"
  shows "\<exists>cfg. ensure_bootstrap_file (mc_hash mc) (environ ''CONTROLLER_ADMIN_PASSWORD'') b a = (Inr cfg, a') \<and>
    map_of cfg ''secret_key'' = Some (sr_secret sv) \<and> sr_workers sv = 1 \<and> sr_background sv = [''virt-poller'', ''monitor'']"
  using assms
  by (auto simp: start_controller_def server_of_def Let_def and_then_Inr split: sum.splits prod.splits option.splits if_splits)

text \<open>A restart logs nobody out: whatever the controller did to its configuration in between, and whatever fresh values the next
  start draws, it signs sessions with the key it signed them with before, and there is one worker and one of each
  background thread. (Hypothesis: a fresh key is not empty.)\<close>

theorem restart_keeps_sessions:
  assumes "start_controller mc environ sg b (a, d) = (Running sv, a1, d1)" and "bi_secret b \<noteq> []" and "bi_fernet b \<noteq> []"
    and "start_controller mc' environ' sg' b' (foldl (key_step lib hash_pw) a1 xs, d2) = (Running sv', a2, d3)"
  shows "sr_secret sv' = sr_secret sv \<and> sr_workers sv' = 1 \<and> sr_background sv' = [''virt-poller'', ''monitor'']"
proof -
  obtain cfg where boot: "ensure_bootstrap_file (mc_hash mc) (environ ''CONTROLLER_ADMIN_PASSWORD'') b a = (Inr cfg, a1)"
    and key: "map_of cfg ''secret_key'' = Some (sr_secret sv)"
    using started [OF assms(1)] by blast
  have "held ''secret_key'' (sr_secret sv) a1"
    using bootstrap_result [OF boot assms(2,3)] key by (simp add: held_def jget_def)
  then have held: "held ''secret_key'' (sr_secret sv) (foldl (key_step lib hash_pw) a1 xs)"
    using key_file.run_inv [of "''secret_key''" "sr_secret sv" a1] by (simp add: KEY_NAMES_def)
  obtain cfg' where boot': "ensure_bootstrap_file (mc_hash mc') (environ' ''CONTROLLER_ADMIN_PASSWORD'') b' (foldl (key_step lib hash_pw) a1 xs) = (Inr cfg', a2)"
    and key': "map_of cfg' ''secret_key'' = Some (sr_secret sv')" and rest: "sr_workers sv' = 1" "sr_background sv' = [''virt-poller'', ''monitor'']"
    using started [OF assms(4)] by blast
  have "jget cfg' ''secret_key'' = sr_secret sv"
  proof -
    obtain cfg0 where cfg0: "load_config (foldl (key_step lib hash_pw) a1 xs) = Inr cfg0" "jget cfg0 ''secret_key'' = sr_secret sv" "truthy (sr_secret sv)"
      using held by (auto simp: held_def)
    obtain c2 cfg2 where two: "default_to ''fernet_key'' (bi_fernet b') cfg0 = (cfg2, c2)" by fastforce
    have one: "default_to ''secret_key'' (bi_secret b') cfg0 = (cfg0, False)" using cfg0(2,3) by (simp add: default_to_def)
    have same: "jget cfg2 ''secret_key'' = sr_secret sv" using default_to_held [OF cfg0(3,2)] two by (metis fst_conv)
    obtain h c3 where "add_first_admin h cfg2 = Inr (cfg', c3)"
      using boot' by (auto simp: ensure_bootstrap_file_def cfg0(1) one two Let_def split: sum.splits)
    then show ?thesis using first_admin_held same by fastforce
  qed
  then show ?thesis using key' rest by (simp add: jget_def)
qed

section \<open>The return path\<close>

text \<open>What the issuer reads: \<open>unquote_plus\<close> on bytes.\<close>

definition hex_digit_val :: "char \<Rightarrow> nat" where
  "hex_digit_val c = (let n = (of_char c :: nat) in if n \<le> 57 then n - 48 else n - 55)"

fun unquote_plus :: "string \<Rightarrow> nat list" where
  "unquote_plus [] = []"
| "unquote_plus (c # s) =
     (if c = CHR ''+'' then 32 # unquote_plus s
      else if c = CHR ''%'' then (case s of h # l # r \<Rightarrow> (hex_digit_val h * 16 + hex_digit_val l) # unquote_plus r | _ \<Rightarrow> of_char c # unquote_plus s)
      else of_char c # unquote_plus s)"

lemma hex_back: "d < 16 \<Longrightarrow> hex_digit_val (hex_upper d) = d"
  by (simp add: hex_digit_val_def hex_upper_def)

lemma unquote_byte:
  assumes "n < 256"
  shows "unquote_plus (quote_byte n @ r) = n # unquote_plus r"
proof -
  consider "url_safe n" | "\<not> url_safe n" "n = 32" | "\<not> url_safe n" "n \<noteq> 32" by blast
  then show ?thesis
  proof cases
    case 1
    then have "n < 128" "n \<noteq> 43" "n \<noteq> 37" by (auto simp: url_safe_def)
    moreover have "of_char (char_of n :: char) = n" using \<open>n < 128\<close> by simp
    moreover have "of_char (CHR ''+'') = (43 :: nat)" "of_char (CHR ''%'') = (37 :: nat)" by simp_all
    ultimately have "char_of n \<noteq> CHR ''+''" "char_of n \<noteq> CHR ''%''" "of_char (char_of n :: char) = n" by metis+
    then show ?thesis using 1 by (simp add: quote_byte_def)
  next
    case 3
    then show ?thesis using assms by (simp add: quote_byte_def hex_back)
  qed (simp add: quote_byte_def)
qed

lemma utf8_bytes: "n \<in> set (utf8 s) \<Longrightarrow> n < 256"
proof -
  assume "n \<in> set (utf8 s)"
  then obtain c where "n \<in> set (utf8_char c)" by (auto simp: utf8_def)
  moreover have "(of_char c :: nat) < 256" using nat_of_char_less_256 by simp
  moreover have "(of_char c :: nat) div 64 < 4" by (rule less_mult_imp_div_less) simp
  moreover have "k mod 64 < 64" for k :: nat by simp
  ultimately show ?thesis by (fastforce simp: utf8_char_def Let_def split: if_splits)
qed

lemma unquote_quote: "\<forall>n\<in>set ns. n < 256 \<Longrightarrow> unquote_plus (concat (map quote_byte ns)) = ns"
  by (induction ns) (simp_all add: unquote_byte)

text \<open>The page a login was on survives the trip through the issuer: the value of the last query parameter of the address the
  browser is sent to decodes to the path it asked for, made safe, and the callback takes that path as it is.\<close>

theorem authorize_roundtrip:
  "\<exists>front. authorize_url hostname cfg p = front @ ''&next='' @ quote_plus (safe_next p) \<and>
     unquote_plus (quote_plus (safe_next p)) = utf8 (safe_next p) \<and> safe_next (Some (safe_next p)) = safe_next p"
proof -
  have "quote_plus ''next'' = ''next''" by code_simp
  then have "authorize_url hostname cfg p = ((case cfg of None \<Rightarrow> [] | Some c \<Rightarrow> so_issuer c) @ ''/sso/authorize?'' @ quote_plus ''aud'' @ ''='' @
      quote_plus (sso_audience hostname cfg)) @ ''&next='' @ quote_plus (safe_next p)"
    by (simp add: authorize_url_def urlencode_def)
  moreover have "unquote_plus (quote_plus (safe_next p)) = utf8 (safe_next p)"
    unfolding quote_plus_def by (rule unquote_quote) (use utf8_bytes in blast)
  ultimately show ?thesis using safe_next_same_site by blast
qed

section \<open>The file of an enrollment\<close>

text \<open>Saving an enrollment replaces the whole file or leaves it as it was, and touches no other; what is left of a failed save is
  the temporary file that could not be removed.\<close>

theorem enrollment_whole:
  assumes "mkstemp_name (jb_path j) rnd \<noteq> jb_path j" and "map_of d (mkstemp_name (jb_path j) rnd) = None"
    and "write_by_mkstemp stops unlinks rnd j d = (ok, d')"
  shows "map_of d' (jb_path j) = (if ok then Some (job_file j) else map_of d (jb_path j)) \<and> (ok \<longleftrightarrow> stops = None) \<and>
    (\<forall>p. p \<noteq> jb_path j \<and> (p \<noteq> mkstemp_name (jb_path j) rnd \<or> ok \<or> unlinks) \<longrightarrow> map_of d' p = map_of d p)"
  using assms by (auto simp: write_by_mkstemp_def Let_def split: option.splits write_call.splits if_splits)

theorem enrollment_whole_witness:
  "write_by_mkstemp (Some (Dump ''{'')) True ''x1'' \<lparr>jb_path = ''/data/sso.json'', jb_text = ''{}'', jb_mode = 384\<rparr> [] = (False, [])"
proof -
  let ?j = "\<lparr>jb_path = ''/data/sso.json'', jb_text = ''{}'', jb_mode = 384\<rparr>"
  have tmp: "mkstemp_name (jb_path ?j) ''x1'' = ''/data/.tmp-x1''" by code_simp
  obtain ok d where r: "write_by_mkstemp (Some (Dump ''{'')) True ''x1'' ?j [] = (ok, d)" by (rule prod.exhaust)
  have all: "\<not> ok" "map_of d ''/data/sso.json'' = None" "\<forall>p. p \<noteq> ''/data/sso.json'' \<longrightarrow> map_of d p = None"
    using enrollment_whole [where j = ?j and rnd = "''x1''" and d = "[]", OF _ _ r] tmp by auto
  then have "map_of d p = None" for p by (cases "p = ''/data/sso.json''") blast+
  then have "map_of d = (\<lambda>p. None)" by (rule ext)
  then have "d = []" by simp
  then show ?thesis using r all(1) by simp
qed

definition bare_machine :: start_machine where
  "bare_machine = \<lparr>mc_hash = \<lambda>p. p, mc_x509 = sample_x509, mc_works = \<lambda>c. Works, mc_removable = \<lambda>p. True, mc_gunicorn = True\<rparr>"

definition plain_settings :: settings where
  "plain_settings = \<lparr>sg_data_dir = ''/data'', sg_auth_file = ''/data/controller-auth.json'', sg_nodes_file = ''/data/nodes.json'',
     sg_checks_file = ''/data/checks.json'', sg_acks_file = ''/data/acks.json'', sg_audit_file = ''/data/audit.log'',
     sg_history_file = ''/data/history.db'', sg_history_days = 30, sg_tls_enabled = False, sg_tls_cert = ''/data/certs/controller.crt'',
     sg_tls_key = ''/data/certs/controller.key'', sg_port = 9080, sg_hsts = False, sg_cookie_secure = False\<rparr>"

text \<open>The settings of an environment that only names the directory and turns TLS off.\<close>

lemma plain_settings_read:
  "read_settings ''/app'' (map_of [(''CONTROLLER_DATA_DIR'', ''/data''), (''CONTROLLER_TLS'', ''no'')]) = Inr plain_settings"
  by code_simp

definition newborn :: "string \<Rightarrow> birth" where
  "newborn k = \<lparr>bi_secret = k, bi_fernet = k, bi_password = k\<rparr>"

definition first_config :: auth_file where
  "first_config = Some (JObj [(''secret_key'', JStr ''k1''), (''fernet_key'', JStr ''k1''), (''users'', JObj [(''admin'', first_admin ''k1'')])])"

definition serving :: "json \<Rightarrow> server" where
  "serving k = \<lparr>sr_secret = k, sr_tls = None, sr_port = 9080, sr_workers = 1, sr_threads = 16, sr_background = [''virt-poller'', ''monitor'']\<rparr>"

lemma first_start: "start_controller bare_machine (\<lambda>n. None) plain_settings (newborn ''k1'') (None, []) = (Running (serving (JStr ''k1'')), first_config, [])"
  by code_simp

lemma second_start: "start_controller bare_machine (\<lambda>n. None) plain_settings (newborn ''k2'') (first_config, []) = (Running (serving (JStr ''k1'')), first_config, [])"
  by code_simp

theorem restart_keeps_sessions_witness:
  "start_controller bare_machine (\<lambda>n. None) plain_settings (newborn ''k2'') (first_config, []) = (Running (serving (JStr ''k1'')), first_config, []) \<and>
   sr_secret (serving (JStr ''k1'')) = JStr ''k1''"
  using restart_keeps_sessions [OF first_start, where b' = "newborn ''k2''" and xs = "[]" and ?d2.0 = "[]" and lib = plain_lib and hash_pw = "\<lambda>p. p"]
    second_start by (simp add: newborn_def serving_def)

end
