(* ===== verification/Requests.thy ===== *)
theory Requests
  imports NodeProxy Certificates
begin

text \<open>
  What surrounds the handlers of \<open>app.py\<close>: the hosts a request may come from, the answer to an exception nobody
  caught, the public status page, the settings view, a host's fetch that never raises, the date of a leaf certificate, and the
  history store made on first use by whichever thread asks first.
\<close>

section \<open>Own hosts\<close>

text \<open>\<open>_own_hosts\<close>: the forwarded host counts only from the trusted proxy.\<close>

definition own_hosts :: "string \<Rightarrow> string option \<Rightarrow> string \<Rightarrow> string option \<Rightarrow> string list" where
  "own_hosts trusted_proxy remote_addr host forwarded =
     (if trusted_proxy \<noteq> [] \<and> remote_addr = Some trusted_proxy
      then let fwd = strip (takeWhile (\<lambda>c. c \<noteq> CHR '','') (case forwarded of None \<Rightarrow> [] | Some f \<Rightarrow> f))
        in host # (if fwd = [] then [] else [fwd])
      else [host])"

record headers =
  hd_host :: string
  hd_remote :: "string option"
  hd_forwarded :: "string option"
  hd_origin :: "string option"
  hd_fetch_site :: "string option"
  hd_auth :: "string option"

definition gate_request :: "string \<Rightarrow> string \<Rightarrow> string \<Rightarrow> headers \<Rightarrow> session \<Rightarrow> request" where
  "gate_request trusted_proxy meth endpoint h se = \<lparr>rq_method = meth, rq_endpoint = endpoint,
     rq_own_hosts = own_hosts (strip trusted_proxy) (hd_remote h) (hd_host h) (hd_forwarded h),
     rq_origin = hd_origin h, rq_fetch_site = hd_fetch_site h, rq_auth = hd_auth h, rq_session = se\<rparr>"

text \<open>The audit log after \<open>require_login\<close>: it writes of a cross-site request only, before an identity is known.\<close>

definition gate_trail :: "bool \<Rightarrow> string \<Rightarrow> string \<Rightarrow> string \<Rightarrow> request \<Rightarrow> json option list \<Rightarrow> json option list" where
  "gate_trail writable ts ip path rq trail =
     (case cross_site_request (rq_method rq) (rq_endpoint rq) (rq_own_hosts rq) (rq_origin rq) (rq_fetch_site rq) of
        Done True \<Rightarrow> audit_line writable ts (Remote None ip) (rq_method rq) path (Some ''cross-site request refused'') 403 trail
      | _ \<Rightarrow> trail)"

section \<open>Answers\<close>

definition exn_name :: "exn \<Rightarrow> string" where
  "exn_name e = (case e of ValueError \<Rightarrow> ''ValueError'' | TypeError \<Rightarrow> ''TypeError'' | OverflowError \<Rightarrow> ''OverflowError''
     | AttributeError \<Rightarrow> ''AttributeError'' | KeyError \<Rightarrow> ''KeyError'' | IndexError \<Rightarrow> ''IndexError'' | OSError \<Rightarrow> ''OSError'')"

text \<open>\<open>err\<close> and \<open>_unhandled\<close>: the status and, for a failure, the text of its JSON body.\<close>

definition answer_of :: "(exn \<Rightarrow> string) \<Rightarrow> 'a resp \<Rightarrow> nat \<times> string option" where
  "answer_of text r = (case r of
      Done x \<Rightarrow> (200, None)
    | Fail code msg \<Rightarrow> (code, Some msg)
    | Crash e \<Rightarrow> (500, Some (''Internal error: '' @ exn_name e @ '': '' @ take 300 (text e))))"

section \<open>Views\<close>

text \<open>The status page; a UniFi host publishes its network block, every other host its name, colour and issues only.\<close>

definition status_hosts :: "bool \<Rightarrow> fleet option \<Rightarrow> ((string \<times> string \<times> colour \<times> string list) \<times> network_block option) list" where
  "status_hosts authed data = (case data of None \<Rightarrow> []
     | Some f \<Rightarrow> concat (map (\<lambda>r. let (state, issues) = board_state r
         in if state = Grey \<and> \<not> authed then []
            else [((e_name r, board_category r, state, issues), if e_host_type r = ''unifi'' then e_network r else None)]) (f_nodes f)))"

record status_page =
  sp_hosts :: "((string \<times> string \<times> colour \<times> string list) \<times> network_block option) list"
  sp_checks :: "(string \<times> colour \<times> string) list"
  sp_generated_at :: "string option"
  sp_warming :: bool

definition api_status :: "(string \<Rightarrow> string) \<Rightarrow> rat \<Rightarrow> request \<Rightarrow> app \<Rightarrow> status_page \<times> app" where
  "api_status token_hash now rq s =
     (let data = st_cache s; (who, s') = resolve_identity token_hash now rq s;
          authed = (case who of Nobody \<Rightarrow> False | Login name role tok \<Rightarrow> name \<noteq> [])
      in (\<lparr>sp_hosts = status_hosts authed data, sp_checks = board_checks s', sp_generated_at = map_option f_generated_at data,
            sp_warming = (data = None)\<rparr>, s'))"

record tuning_view =
  tv_values :: "int dict"
  tv_defaults :: "int dict"
  tv_bounds :: "(int \<times> int) dict"
  tv_cooldown :: rat

definition tuning_get :: "config \<Rightarrow> tuning_view" where
  "tuning_get cfg = \<lparr>tv_values = tuning cfg, tv_defaults = tuning_defaults, tv_bounds = TUNING_BOUNDS, tv_cooldown = NOTIFY_COOLDOWN\<rparr>"

definition fetch_one :: "(exn \<Rightarrow> string) \<Rightarrow> (node \<Rightarrow> failure + envelope) \<Rightarrow> node \<Rightarrow> envelope" where
  "fetch_one text fetch n = (case fetch n of Inr env \<Rightarrow> env | Inl f \<Rightarrow> with_error text f (base_envelope n))"

text \<open>The date of a leaf certificate: older libraries have only the attribute without a time zone, which is UTC.\<close>

record cert_dates =
  cd_utc :: "int option"
  cd_naive :: int

definition cert_expiry :: "cert_dates \<Rightarrow> int" where
  "cert_expiry c = (case cd_utc c of None \<Rightarrow> cd_naive c | Some t \<Rightarrow> t)"

definition leaf_not_after :: "(string \<Rightarrow> int \<Rightarrow> string + cert_dates) \<Rightarrow> string \<Rightarrow> int \<Rightarrow> string + string" where
  "leaf_not_after leaf host port = (case leaf host port of Inl e \<Rightarrow> Inl e | Inr c \<Rightarrow> Inr (iso_seconds (cert_expiry c)))"

section \<open>The history store\<close>

text \<open>\<open>get_history\<close> in several threads: a look, the lock, a second look, the store, the answer.\<close>

datatype asking = Asks | Waits | Holds | Made | Answered nat

record lazy_store =
  lz_store :: "nat option"
  lz_opened :: nat
  lz_owner :: "nat option"
  lz_threads :: "nat \<Rightarrow> asking"

definition no_store :: lazy_store where
  "no_store = \<lparr>lz_store = None, lz_opened = 0, lz_owner = None, lz_threads = \<lambda>t. Asks\<rparr>"

text \<open>The store opened by the second look under the lock.\<close>

definition second_look :: "lazy_store \<Rightarrow> lazy_store" where
  "second_look s = (if lz_store s = None then s\<lparr>lz_store := Some (lz_opened s), lz_opened := Suc (lz_opened s)\<rparr> else s)"

inductive lazy_step :: "lazy_store \<Rightarrow> lazy_store \<Rightarrow> bool" where
  finds: "lz_threads s t = Asks \<Longrightarrow> lz_store s = Some h \<Longrightarrow> lazy_step s (s\<lparr>lz_threads := (lz_threads s)(t := Answered h)\<rparr>)"
| misses: "lz_threads s t = Asks \<Longrightarrow> lz_store s = None \<Longrightarrow> lazy_step s (s\<lparr>lz_threads := (lz_threads s)(t := Waits)\<rparr>)"
| locks: "lz_threads s t = Waits \<Longrightarrow> lz_owner s = None \<Longrightarrow>
    lazy_step s (s\<lparr>lz_owner := Some t, lz_threads := (lz_threads s)(t := Holds)\<rparr>)"
| looks_again: "lz_threads s t = Holds \<Longrightarrow>
    lazy_step s ((second_look s)\<lparr>lz_threads := (lz_threads s)(t := Made)\<rparr>)"
| answers: "lz_threads s t = Made \<Longrightarrow> lz_store s = Some h \<Longrightarrow>
    lazy_step s (s\<lparr>lz_owner := None, lz_threads := (lz_threads s)(t := Answered h)\<rparr>)"

inductive_cases lazy_step_E: "lazy_step s s'"

end
