(* ===== verification/RequestFacts.thy ===== *)
theory RequestFacts
  imports Requests
begin

text \<open>
  A browser on another site cannot talk itself in with a forwarded-host header; every exception is a JSON answer; the
  public page shows a stranger no paused host; and the history store is opened once.
\<close>

section \<open>Other sites\<close>

lemma own_hosts_direct:
  assumes "strip trusted = [] \<or> hd_remote h \<noteq> Some (strip trusted)"
  shows "rq_own_hosts (gate_request trusted meth endpoint h se) = [hd_host h]"
  using assms by (auto simp: gate_request_def own_hosts_def)

text \<open>A write that a browser sends from another site is refused, changes nothing and is one line of the audit log, whatever its
  cookie, its bearer token and its forwarded-host header say, unless it comes through the trusted proxy.\<close>

theorem foreign_write_refused:
  assumes "strip trusted = [] \<or> hd_remote h \<noteq> Some (strip trusted)" and "meth \<in> set WRITE_METHODS \<or> endpoint = ''node_ws''"
    and "hd_origin h = Some orig" and "url_netloc (lower (strip orig)) = Some loc" and "loc \<noteq> lower (strip (hd_host h))"
    and "hd_host h \<noteq> []"
  shows "require_login hash clock (gate_request trusted meth endpoint h se) s = (Fail 403 ''Cross-site request refused'', s) \<and>
    gate_trail True ts ip path (gate_request trusted meth endpoint h se) trail =
      trail @ [Some (JObj (audit_entry ts (Remote None ip) meth path (Some ''cross-site request refused'') 403))]"
proof -
  have "cross_site_request meth endpoint [hd_host h] (Some orig) (hd_fetch_site h) = Done True"
    using assms(2,4-6) by (auto simp: cross_site_request_def Let_def)
  then show ?thesis
    using own_hosts_direct [OF assms(1), of meth endpoint se] assms(3)
    by (simp add: require_login_def gate_trail_def audit_line_def gate_request_def)
qed

definition evil_headers :: headers where
  "evil_headers = \<lparr>hd_host = ''nexus.local:9443'', hd_remote = Some ''10.0.0.9'', hd_forwarded = Some ''evil.example'',
     hd_origin = Some ''https://evil.example'', hd_fetch_site = None, hd_auth = None\<rparr>"

theorem foreign_write_refused_witness:
  "require_login (\<lambda>t. t) 0 (gate_request ''10.0.0.1'' ''POST'' ''nodes_add'' evil_headers no_session) empty_app =
     (Fail 403 ''Cross-site request refused'', empty_app) \<and>
   length (gate_trail True ''t'' ''10.0.0.9'' ''/api/nodes'' (gate_request ''10.0.0.1'' ''POST'' ''nodes_add'' evil_headers no_session) []) = 1"
proof -
  have "url_netloc (lower (strip ''https://evil.example'')) = Some ''evil.example''" by code_simp
  moreover have "''evil.example'' \<noteq> lower (strip (hd_host evil_headers))" by code_simp
  moreover have "strip ''10.0.0.1'' = [] \<or> hd_remote evil_headers \<noteq> Some (strip ''10.0.0.1'')" by code_simp
  ultimately show ?thesis
    using foreign_write_refused [where h = evil_headers and orig = "''https://evil.example''"]
    by (simp add: evil_headers_def WRITE_METHODS_def)
qed

section \<open>Answers and views\<close>

text \<open>An exception is answered with 500 and a bounded text, a refusal with its own status.\<close>

lemma crash_answer: "answer_of text (Crash e) = (500, Some m) \<Longrightarrow> length m \<le> 332"
  by (cases e) (auto simp: answer_of_def exn_name_def)

text \<open>The rows are those of the board. Without a login the public page lists no host that is paused or has not been
  seen, and publishes the network of UniFi hosts alone.\<close>

lemma status_rows: "map fst (status_hosts authed data) = board_hosts authed data"
proof -
  have row: "map fst (if p then [] else [(a, b)]) = (if p then [] else [a])" for p and a :: "string \<times> string \<times> colour \<times> string list" and b :: "network_block option"
    by simp
  show ?thesis by (simp add: status_hosts_def board_hosts_def map_concat comp_def Let_def split_def row split: option.split)
qed

lemma status_networks:
  assumes "((nm, row), Some b) \<in> set (status_hosts authed data)"
  obtains f r where "data = Some f" "r \<in> set (f_nodes f)" "e_name r = nm" "e_host_type r = ''unifi''" "e_network r = Some b"
  using assms by (auto simp: status_hosts_def Let_def split: option.splits prod.splits if_splits)

lemma board_hosts_public: "(nm, cat, col, iss) \<in> set (board_hosts False data) \<Longrightarrow> col \<noteq> Grey"
  by (auto simp: board_hosts_def Let_def split: option.splits prod.splits if_splits)

theorem status_page_public:
  assumes "resolve_identity hash clock rq s = (Nobody, s')"
  shows "map fst (sp_hosts (fst (api_status hash clock rq s))) = board_hosts False (st_cache s) \<and>
    (\<forall>((nm, cat, col, iss), net)\<in>set (sp_hosts (fst (api_status hash clock rq s))). col \<noteq> Grey \<and>
      (\<forall>b. net = Some b \<longrightarrow> (\<exists>f r. st_cache s = Some f \<and> r \<in> set (f_nodes f) \<and> e_name r = nm \<and> e_host_type r = ''unifi'' \<and> e_network r = Some b)))"
proof -
  have hosts: "sp_hosts (fst (api_status hash clock rq s)) = status_hosts False (st_cache s)"
    by (simp add: api_status_def assms Let_def)
  have "col \<noteq> Grey" if "((nm, cat, col, iss), net) \<in> set (status_hosts False (st_cache s))" for nm cat col iss net
    using board_hosts_public [of nm cat col iss "st_cache s"] imageI [OF that, of fst] by (simp add: status_rows flip: status_rows set_map)
  then show ?thesis unfolding hosts by (fastforce simp: status_rows elim: status_networks)
qed

theorem status_page_public_witness:
  "map fst (sp_hosts (fst (api_status (\<lambda>t. t) 0 (gate_request [] ''GET'' ''api_status'' evil_headers no_session) empty_app))) = []"
  by (rule trans, rule status_page_public [where s' = empty_app, THEN conjunct1])
    (simp_all add: resolve_identity_def resolve_token_def parse_bearer_def gate_request_def evil_headers_def resolve_session_def no_session_def
      board_hosts_def empty_app_def)

section \<open>One store\<close>

fun place_ok :: "lazy_store \<Rightarrow> nat \<Rightarrow> asking \<Rightarrow> bool" where
  "place_ok s t Holds = (lz_owner s = Some t)"
| "place_ok s t Made = (lz_owner s = Some t \<and> lz_store s = Some 0)"
| "place_ok s t (Answered h) = (h = 0 \<and> lz_store s = Some 0)"
| "place_ok s t p = True"

definition store_ok :: "lazy_store \<Rightarrow> bool" where
  "store_ok s \<longleftrightarrow> (lz_store s = None \<and> lz_opened s = 0) \<or> (lz_store s = Some 0 \<and> lz_opened s = 1)"

definition lazy_ok :: "lazy_store \<Rightarrow> bool" where
  "lazy_ok s \<longleftrightarrow> store_ok s \<and> (\<forall>t. place_ok s t (lz_threads s t))"

text \<open>A thread's own step, when the others keep their places.\<close>

lemma lazy_okI:
  assumes "lazy_ok s" and "store_ok s'" and "lz_threads s' = (lz_threads s)(t := p)" and "place_ok s' t p"
    and "\<And>u q. u \<noteq> t \<Longrightarrow> place_ok s u q \<Longrightarrow> place_ok s' u q"
  shows "lazy_ok s'"
  using assms by (auto simp: lazy_ok_def)

lemma place_kept: "place_ok s u q \<Longrightarrow> lz_owner s' = lz_owner s \<Longrightarrow> lz_store s = Some 0 \<longrightarrow> lz_store s' = Some 0 \<Longrightarrow> place_ok s' u q"
  by (cases q) auto

lemma place_other: "place_ok s u q \<Longrightarrow> lz_owner s = Some t \<or> lz_owner s = None \<Longrightarrow> u \<noteq> t \<Longrightarrow> lz_store s' = lz_store s \<Longrightarrow> place_ok s' u q"
  by (cases q) auto

lemma lazy_step_ok:
  assumes "lazy_step s s'" and "lazy_ok s"
  shows "lazy_ok s'"
  using assms(1)
proof cases
  case (finds t h)
  then have "h = 0" using assms(2) by (auto simp: lazy_ok_def store_ok_def)
  then show ?thesis unfolding finds(1)
    by (intro lazy_okI [OF assms(2), where t = t and p = "Answered h"]) (use assms(2) finds in \<open>auto simp: lazy_ok_def store_ok_def intro: place_kept\<close>)
next
  case (misses t)
  then show ?thesis unfolding misses(1)
    by (intro lazy_okI [OF assms(2), where t = t and p = Waits]) (use assms(2) in \<open>auto simp: lazy_ok_def store_ok_def intro: place_kept\<close>)
next
  case (locks t)
  then show ?thesis unfolding locks(1)
    by (intro lazy_okI [OF assms(2), where t = t and p = Holds]) (use assms(2) in \<open>auto simp: lazy_ok_def store_ok_def intro: place_other\<close>)
next
  case (looks_again t)
  have "lz_owner s = Some t" using assms(2) looks_again(2) unfolding lazy_ok_def by (metis place_ok.simps(1))
  then show ?thesis unfolding looks_again(1)
    by (intro lazy_okI [OF assms(2), where t = t and p = Made])
      (use assms(2) in \<open>auto simp: lazy_ok_def store_ok_def second_look_def intro: place_kept\<close>)
next
  case (answers t h)
  have own: "lz_owner s = Some t" using assms(2) answers(2) unfolding lazy_ok_def by (metis place_ok.simps(2))
  have "h = 0" using assms(2) answers(3) by (auto simp: lazy_ok_def store_ok_def)
  then show ?thesis unfolding answers(1)
    by (intro lazy_okI [OF assms(2), where t = t and p = "Answered h"])
      (use assms(2) answers own in \<open>auto simp: lazy_ok_def store_ok_def intro: place_other\<close>)
qed

text \<open>However many threads ask for the history at once, one store is opened and everybody gets that one.\<close>

theorem history_opened_once:
  assumes "lazy_step\<^sup>*\<^sup>* no_store s"
  shows "lz_opened s \<le> 1 \<and> (\<forall>t u h k. lz_threads s t = Answered h \<and> lz_threads s u = Answered k \<longrightarrow> h = k \<and> lz_opened s = 1)"
proof -
  have "lazy_ok s"
    using assms
  proof (induction rule: rtranclp_induct)
    case base
    show ?case by (simp add: no_store_def lazy_ok_def store_ok_def)
  next
    case (step y z)
    then show ?case by (blast intro: lazy_step_ok)
  qed
  then have "store_ok s" and places: "\<And>t. place_ok s t (lz_threads s t)" by (simp_all add: lazy_ok_def)
  moreover have "h = 0 \<and> lz_store s = Some 0" if "lz_threads s t = Answered h" for t h
    using places [of t] that by simp
  ultimately show ?thesis by (auto simp: store_ok_def) blast+
qed

text \<open>Two threads find no store; the second one comes to the lock when the first has opened it.\<close>

definition both_served :: lazy_store where
  "both_served = \<lparr>lz_store = Some 0, lz_opened = 1, lz_owner = None, lz_threads = (\<lambda>t. Asks)(0 := Answered 0, 1 := Answered 0)\<rparr>"

lemma both_served_run: "lazy_step\<^sup>*\<^sup>* no_store both_served"
proof -
  define s1 where "s1 = no_store\<lparr>lz_threads := (lz_threads no_store)(0 := Waits)\<rparr>"
  define s2 where "s2 = s1\<lparr>lz_threads := (lz_threads s1)(1 := Waits)\<rparr>"
  define s3 where "s3 = s2\<lparr>lz_owner := Some 0, lz_threads := (lz_threads s2)(0 := Holds)\<rparr>"
  define s4 where "s4 = (second_look s3)\<lparr>lz_threads := (lz_threads s3)(0 := Made)\<rparr>"
  define s5 where "s5 = s4\<lparr>lz_owner := None, lz_threads := (lz_threads s4)(0 := Answered 0)\<rparr>"
  define s6 where "s6 = s5\<lparr>lz_owner := Some 1, lz_threads := (lz_threads s5)(1 := Holds)\<rparr>"
  define s7 where "s7 = (second_look s6)\<lparr>lz_threads := (lz_threads s6)(1 := Made)\<rparr>"
  define s8 where "s8 = s7\<lparr>lz_owner := None, lz_threads := (lz_threads s7)(1 := Answered 0)\<rparr>"
  note states = s8_def s7_def s6_def s5_def s4_def s3_def s2_def s1_def no_store_def second_look_def
  have "lazy_step no_store s1" "lazy_step s1 s2" "lazy_step s2 s3" "lazy_step s3 s4" "lazy_step s4 s5" "lazy_step s5 s6" "lazy_step s6 s7" "lazy_step s7 s8"
    unfolding s1_def s2_def s3_def s4_def s5_def s6_def s7_def s8_def
    by (rule lazy_step.intros; simp add: no_store_def second_look_def)+
  moreover have "s8 = both_served" by (simp add: states both_served_def fun_eq_iff)
  ultimately show ?thesis by (meson rtranclp.rtrancl_into_rtrancl rtranclp.rtrancl_refl)
qed

theorem history_opened_once_witness: "lazy_step\<^sup>*\<^sup>* no_store both_served \<and> lz_opened both_served \<le> 1"
  using history_opened_once [OF both_served_run] both_served_run by blast

end
