(* ===== verification/Spec2Isabelle.thy ===== *)
theory Spec2Isabelle
  imports AckFacts NotifierRuns AccountRuns CheckFacts RegistryFacts FleetFacts LoginThreads SsoFacts HistoryFacts MetricsFacts BackupFacts AdapterFacts HostTypeFacts AgentFacts PolledHosts ApplianceFacts SessionFacts HypervisorFacts AuditFacts WebhookFacts NodeProxyFacts FileFacts CertificateFacts MonitorFacts
    VsphereFacts WriterFacts SecretFacts BridgeFacts HostProbeFacts SetupFacts RequestFacts
begin

text \<open>
  Nexus Controller, verified. The controller (\<open>app.py\<close> and the modules beside it) watches a fleet of hosts:
  an adapter per host type fetches an envelope for each host, the monitor derives conditions from the
  envelopes, the notifier reports their transitions to webhooks, the board and the page show them, and
  logins with roles and tag scopes see and manage the part that is theirs.

  How the parts interact. \<open>nodes.json\<close> holds the registry. A fleet build asks the adapter of every host that is
  not paused (directly, or through the cache the poller fills), folds the check results and the first-seen
  times in, and stores one snapshot. The monitor cycle diffs that snapshot against the last one and reports
  what is new, unacknowledged and out of its cooldown. Every request passes the gate (\<open>require_login\<close>), which
  turns a session or a token into an identity with a role and a scope; handlers read and write the registry,
  the acknowledgements, the checks, the tunables and the configuration under that identity.

  The theories, from the bottom up.

  \<^item> \<open>Prelude\<close>: the laws shared by all parts (association lists, edits by identifier), the locales
    \<open>step_system\<close>, \<open>monotone_system\<close>, \<open>keyed_store\<close>. \<open>Text\<close>, \<open>PyJson\<close>, \<open>PyTime\<close>: the Python the source uses:
    \<open>str\<close> methods, JSON values, \<open>int\<close>, \<open>float\<close>, \<open>str\<close> of a value, ISO dates.
  \<^item> \<open>Envelope\<close>, \<open>State\<close>: the data the parts exchange (\<open>base_envelope\<close> of \<open>adapters/base.py\<close>, the records of
    \<open>nodes.json\<close>, \<open>config.json\<close>, \<open>checks.json\<close>, \<open>acks.json\<close>) and the state of the process with its request context.
  \<^item> \<open>Conditions\<close>, \<open>ConditionFacts\<close> (\<open>monitoring.py\<close>): \<open>host_conditions\<close>, \<open>health_entries\<close>, \<open>board_state\<close>,
    \<open>diff_snapshots\<close>. Conditions of any envelope are a well-formed dictionary; health entries and wallboard
    colours mean what they should.
  \<^item> \<open>Acks\<close>, \<open>AckFacts\<close>, \<open>Tuning\<close>, \<open>Notifier\<close>, \<open>NotifierFacts\<close>, \<open>NotifierRuns\<close> (\<open>monitoring.py\<close>, the monitor of \<open>app.py\<close>):
    one cycle exactly, then runs of cycles: debounce, cooldown, acknowledgements.
  \<^item> \<open>Scope\<close>, \<open>Access\<close>, \<open>AccessFacts\<close>, \<open>Accounts\<close>, \<open>AccountFacts\<close>, \<open>AccountRuns\<close> (\<open>app.py\<close>): the gate is exact, account requests
    keep the configuration consistent, revoked sessions stay revoked while the login exists.
  \<^item> \<open>Login\<close>, \<open>LoginFacts\<close>, \<open>LoginThreads\<close>, \<open>Sso\<close>, \<open>SsoFacts\<close>, \<open>Ed25519\<close>, \<open>Ed25519Facts\<close> (\<open>app.py\<close>, \<open>sso.py\<close>, \<open>ed25519.py\<close>): the
    throttle refines the log of attempts; logins in several threads, whose check and whose note are two regions of the
    lock, and what is left of the limits then (\<open>guesses_bounded\<close>, \<open>concurrent_guesses\<close>); assertions are used once, signatures are
    not malleable.
  \<^item> \<open>Checks\<close>, \<open>CheckFacts\<close>, \<open>Registry\<close>, \<open>RegistryFacts\<close>, \<open>Fleet\<close>, \<open>FleetFacts\<close> (\<open>checks.py\<close>, \<open>app.py\<close>, \<open>adapters/virt.py\<close>): invariants over
    requests and fleet builds, pinned certificates, scoped views.
  \<^item> \<open>History\<close>, \<open>HistoryFacts\<close>, \<open>Metrics\<close>, \<open>MetricsFacts\<close>, \<open>Backup\<close>, \<open>BackupFacts\<close> (\<open>history.py\<close>, \<open>metrics.py\<close>, \<open>backup.py\<close>): the
    sample window and its reductions, lines of the exposition that read back, backups that restore what a text-mode read
    gives.
  \<^item> \<open>Adapters\<close>, \<open>AdapterFacts\<close>, \<open>HostTypes\<close>, \<open>HostTypeFacts\<close>, \<open>PolledHosts\<close> (\<open>adapters/\<close>): requests are pinned to the certificate
    of the enrollment; a changed certificate alarms and no secret is sent over it.
  \<^item> \<open>Appliances\<close>, \<open>ApplianceFacts\<close>, \<open>Sessions\<close>, \<open>SessionFacts\<close>, \<open>Hypervisors\<close>, \<open>HypervisorFacts\<close> (\<open>collectors/\<close>): what the collectors make of
    an appliance's answers, cached sessions (the locale \<open>cached_polls\<close>), loops that wait.
  \<^item> \<open>Agent\<close>, \<open>AgentFacts\<close> (\<open>agent/nexus_agent.py\<close>): the agent of a Linux machine, and its composition with the adapter
    that reads it.

  \<^item> \<open>AuditLog\<close>, \<open>AuditFacts\<close>, \<open>Webhooks\<close>, \<open>WebhookFacts\<close> (\<open>app.py\<close>): every write heads the audit trail; the notification settings
    keep their URLs to themselves and can be saved back as they are shown.
  \<^item> \<open>NodeProxy\<close>, \<open>NodeProxyFacts\<close> (\<open>app.py\<close>, \<open>NodeClient\<close> of \<open>adapters/base.py\<close>): pages, assets, API, console, service and guest actions
    of a host. Each function that may talk to a host returns the requests it sent: scope and pin hold on every route, for
    what is answered and for what is sent.
  \<^item> \<open>Files\<close>, \<open>FileFacts\<close>, \<open>Certificates\<close>, \<open>CertificateFacts\<close> (\<open>app.py\<close>): \<open>write_json_atomic\<close> as an inductive step relation of
    interleaving threads, its invariant by rule induction, crashes (of the process, and of the system, which may also undo
    changes of the directory) and the next start; the certificate files.
  \<^item> \<open>MonitorLoop\<close>, \<open>MonitorFacts\<close> (\<open>_monitor_loop\<close>): one round composed of checks, certificate sweep, fleet build, notifier
    and history, and what the composition keeps.
  \<^item> \<open>Vsphere\<close>, \<open>VsphereFacts\<close> (\<open>collectors/vmware.py\<close>): the VMware collector call by call on its connection, among other
    threads that may change the default timeout of the process: \<open>sealed\<close>, that nothing stays open and the default that was
    read is put back, holds of every piece and so of the whole (\<open>vmware_sealed\<close>); an action does what its name says
    (\<open>vmware_action_exact\<close>); the pages of the property collector (\<open>vmware_pages_complete\<close>).
  \<^item> \<open>Writers\<close>, \<open>WriterFacts\<close> (\<open>app.py\<close>, "Read-modify-write guards"): threads that load, change and save one file. The
    registry requests are such changes (\<open>registry_steps_are_edits\<close>); under the lock they are serial, without one a save is
    lost (\<open>check_save_lost\<close>); what the process-wide socket timeout does to two polls (\<open>timeout_race\<close>).
  \<^item> \<open>Secrets\<close>, \<open>SecretFacts\<close> (\<open>_fernet\<close>, \<open>encrypt_secret\<close>, \<open>ensure_bootstrap\<close>): a secret stays readable over any run.
  \<^item> \<open>Bridge\<close>, \<open>BridgeFacts\<close> (\<open>node_ws\<close>): the two pumps of a console as a step relation: order, progress, an end.
  \<^item> \<open>HostProbes\<close>, \<open>HostProbeFacts\<close> (\<open>adapters/\<close>, \<open>nodes_test\<close>): host types, native links, probes; a tested connection
    predicts the enrollment with the same fields.
  \<^item> \<open>Setup\<close>, \<open>SetupFacts\<close> (the top of \<open>app.py\<close> and \<open>main\<close>, \<open>sso.py\<close>): settings of the environment, the start, a restart that
    keeps sessions, what goes to the issuer and the file of an enrollment.
  \<^item> \<open>Requests\<close>, \<open>RequestFacts\<close> (\<open>app.py\<close>): own hosts behind a proxy, the answer to an exception, the public status page,
    the history store opened once by whichever thread is first.

  Conventions. A handler takes the request's data and the state and returns a result (a value, or an error
  with its status) and the new state, every write included. A Python exception is the left side of a sum,
  so each raise and each early return is a branch. Dictionaries with fixed keys are records; others are
  association lists in insertion order. Text is Latin-1, and a dash or an ellipsis of a message is a hyphen
  or one fixed character. Identifiers are drawn at random by the program and given to the model; a run leaves out the
  enrollment of a host or the creation of a check whose drawn identifier is taken. Within one poll or request the
  network is fixed: what happens when a host changes between a pin check and the collector's own connection, the
  race that \<open>_verify_poll_pin\<close> documents, is outside. Floats that only get rounded, compared or shown are exact rationals; \<open>PyJson\<close> keeps
  infinities, undefined values and overflow where the code can meet them. Threads are the order of their
  atomic steps: a locked region is one step, and theorems over runs quantify over every sequence of steps. The
  state of the handlers is what the files hold between two writes; that a write is atomic is what \<open>FileFacts\<close> shows.

  Parameters, and what is assumed of them. Code that is not in the repository is an argument: the hash of a
  password, SHA-256 and SHA-512, the encryption of secrets and of backups, the network (the certificate a host
  shows, the answer to a request), the X.509 library, the system calls that fail, clocks, \<open>/proc\<close> and \<open>statvfs\<close>, the HTTP sessions of an appliance, the task of a
  hypervisor, the answers of pyVmomi, what a console's sockets deliver. Where a theorem needs a law of one of these it is a hypothesis with a witness: decryption undoes
  encryption (backups, secrets at rest), an empty text is no key, no two passwords share a hash (cached sessions), a turn of a waiting loop takes the half
  second it sleeps.

  Bounds and fuel. Recursion is structural or has a measure except in \<open>Hypervisors\<close> and \<open>Vsphere\<close>, where a loop may
  run for ever and is a \<open>partial_function (option)\<close>: \<open>guest_action_returns\<close> shows that the actions of both hypervisors return,
  whose waiting ends within 21 looks, when each call of the library returns; \<open>reply_found\<close> and \<open>vmware_pages_complete\<close> when the
  reader of a socket and the reader of pages return and when they do not. A stopped console takes eleven more
  steps at most (\<open>bridge_sound\<close>). The walks over years and months in \<open>PyTime\<close> and the powers of \<open>Ed25519\<close> carry a
  bound that their lemmas show to be enough.

  Not modelled: the page itself (templates, styles, scripts), argument parsing and messages of the command line, the creation of the data directory, gunicorn, Flask
  and proxmoxer, and the Windows agent, which is PowerShell.
\<close>

end
